(* ===== verification/Prelude.thy ===== *)
theory Prelude
  imports Main "HOL-Library.Char_ord" "HOL-Library.List_Lexorder"
begin

text \<open>
  Shared vocabulary of the development: errors as values, the guard and sequencing
  combinators that every validator and every operation is written with, and the generic
  facts on lists, keyed updates and stable sorting that the component theories share.
  A JavaScript \<open>throw\<close> of an error with a \<open>code\<close> is the value \<open>Inl (Error code)\<close>; a
  validator that only throws or falls through is an \<open>error option\<close>.
\<close>

named_theorems result_simps \<open>when a chain of guards and steps returns a value\<close>
named_theorems text_simps \<open>unfolding of string predicates on concrete strings\<close>

section \<open>Errors as values\<close>

datatype error = Error string

type_synonym 'a result = "error + 'a"

definition throw_if :: "bool \<Rightarrow> error \<Rightarrow> error option" where
  "throw_if b e = (if b then Some e else None)"

text \<open>A sequence of checks: the first one that throws decides.\<close>

fun throws :: "error option list \<Rightarrow> error option" where
  "throws [] = None"
| "throws (Some e # cs) = Some e"
| "throws (None # cs) = throws cs"

fun guard :: "error option \<Rightarrow> 'a result \<Rightarrow> 'a result" where
  "guard (Some e) k = Inl e"
| "guard None k = k"

fun attempt :: "'a result \<Rightarrow> ('a \<Rightarrow> 'b result) \<Rightarrow> 'b result" where
  "attempt (Inl e) f = Inl e"
| "attempt (Inr x) f = f x"

definition error_of :: "'a result \<Rightarrow> error option" where
  "error_of r = (case r of Inl e \<Rightarrow> Some e | Inr x \<Rightarrow> None)"

text \<open>A loop that builds a list and stops at the first element that throws.\<close>

fun map_result :: "('a \<Rightarrow> 'b result) \<Rightarrow> 'a list \<Rightarrow> 'b list result" where
  "map_result f [] = Inr []"
| "map_result f (x # xs) =
     attempt (f x) (\<lambda>y. attempt (map_result f xs) (\<lambda>ys. Inr (y # ys)))"

text \<open>For evaluation: a step is not entered before the result of the previous one is known.\<close>

lemma attempt_case [code_unfold]: "attempt r f = (case r of Inl e \<Rightarrow> Inl e | Inr x \<Rightarrow> f x)"
  by (cases r) auto

lemma guard_case [code_unfold]: "guard c k = (case c of Some e \<Rightarrow> Inl e | None \<Rightarrow> k)"
  by (cases c) auto

lemma throw_if_None [simp, result_simps]: "throw_if b e = None \<longleftrightarrow> \<not> b"
  by (simp add: throw_if_def)

lemma throw_if_simps [simp]: "throw_if True e = Some e" "throw_if False e = None"
  by (simp_all add: throw_if_def)

lemma throws_Cons_None [simp, result_simps]:
  "throws (c # cs) = None \<longleftrightarrow> c = None \<and> throws cs = None"
  by (cases c) auto

lemma throws_None_iff: "throws cs = None \<longleftrightarrow> (\<forall>c \<in> set cs. c = None)"
  by (induction cs) auto

lemma throws_append_None [simp, result_simps]:
  "throws (cs @ ds) = None \<longleftrightarrow> throws cs = None \<and> throws ds = None"
  by (induction cs) auto

lemma throws_map_None [result_simps]:
  "throws (map f xs) = None \<longleftrightarrow> (\<forall>x \<in> set xs. f x = None)"
  by (auto simp: throws_None_iff)

lemma guard_Inr [simp, result_simps]: "guard c k = Inr x \<longleftrightarrow> c = None \<and> k = Inr x"
  by (cases c) auto

lemma attempt_Inr [simp, result_simps]:
  "attempt r f = Inr y \<longleftrightarrow> (\<exists>x. r = Inr x \<and> f x = Inr y)"
  by (cases r) auto

lemma attempt_Inl: "attempt r f = Inl e \<longleftrightarrow> r = Inl e \<or> (\<exists>x. r = Inr x \<and> f x = Inl e)"
  by (cases r) auto

lemma guard_Inl: "guard c k = Inl e \<longleftrightarrow> c = Some e \<or> c = None \<and> k = Inl e"
  by (cases c) auto

lemma error_of_None [simp, result_simps]: "error_of r = None \<longleftrightarrow> (\<exists>x. r = Inr x)"
  by (auto simp: error_of_def split: sum.splits)

lemma guard_cong [fundef_cong]:
  "c = c' \<Longrightarrow> (c' = None \<Longrightarrow> k = k') \<Longrightarrow> guard c k = guard c' k'"
  by (cases c') auto

lemma attempt_cong [fundef_cong]:
  "r = r' \<Longrightarrow> (\<And>x. r' = Inr x \<Longrightarrow> f x = f' x) \<Longrightarrow> attempt r f = attempt r' f'"
  by (cases r') auto

lemma map_result_Inr:
  "map_result f xs = Inr ys \<longleftrightarrow> list_all2 (\<lambda>x y. f x = Inr y) xs ys"
  by (induction xs arbitrary: ys) (auto simp: list_all2_Cons1)

lemma map_result_length: "map_result f xs = Inr ys \<Longrightarrow> length ys = length xs"
  by (simp add: map_result_Inr list_all2_lengthD)

lemma map_result_nth:
  "map_result f xs = Inr ys \<Longrightarrow> i < length xs \<Longrightarrow> f (xs ! i) = Inr (ys ! i)"
  by (simp add: map_result_Inr list_all2_conv_all_nth)

section \<open>Numbers\<close>

text \<open>
  \<open>Number.isSafeInteger\<close>. The model's numbers are the integers: every number the modelled
  code keeps is one, and a fractional input is one that \<open>isSafeInteger\<close> refuses.
\<close>

definition MAX_SAFE_INTEGER :: int where
  "MAX_SAFE_INTEGER = 9007199254740991"

definition safe_integer :: "int \<Rightarrow> bool" where
  "safe_integer n \<longleftrightarrow> - MAX_SAFE_INTEGER \<le> n \<and> n \<le> MAX_SAFE_INTEGER"

section \<open>Lists updated at the first match\<close>

text \<open>
  \<open>xs.find(p)\<close> returns a reference to the first match, and an assignment through it changes
  that element of the array: the model's update of the first match.
\<close>

fun update_first :: "('a \<Rightarrow> bool) \<Rightarrow> ('a \<Rightarrow> 'a) \<Rightarrow> 'a list \<Rightarrow> 'a list" where
  "update_first p f [] = []"
| "update_first p f (x # xs) = (if p x then f x # xs else x # update_first p f xs)"

lemma length_update_first [simp]: "length (update_first p f xs) = length xs"
  by (induction xs) auto

lemma map_update_first:
  "(\<And>x. g (f x) = g x) \<Longrightarrow> map g (update_first p f xs) = map g xs"
  by (induction xs) auto

lemma update_first_no_match: "(\<forall>x \<in> set xs. \<not> p x) \<Longrightarrow> update_first p f xs = xs"
  by (induction xs) auto

text \<open>With distinct keys the first match is the one at its index.\<close>

lemma update_first_key:
  "distinct (map key xs) \<Longrightarrow> i < length xs \<Longrightarrow> key (xs ! i) = k \<Longrightarrow>
   update_first (\<lambda>x. key x = k) f xs = xs[i := f (xs ! i)]"
proof (induction xs arbitrary: i)
  case Nil
  then show ?case by simp
next
  case (Cons x xs)
  show ?case
  proof (cases i)
    case 0
    with Cons.prems show ?thesis by simp
  next
    case (Suc j)
    with Cons.prems have "k \<in> key ` set xs" by (auto simp: nth_mem)
    with Cons.prems(1) have "key x \<noteq> k" by auto
    with Suc Cons show ?thesis by simp
  qed
qed

lemma find_key_nth:
  "distinct (map key xs) \<Longrightarrow> i < length xs \<Longrightarrow> key (xs ! i) = k \<Longrightarrow>
   find (\<lambda>x. key x = k) xs = Some (xs ! i)"
proof (induction xs arbitrary: i)
  case Nil
  then show ?case by simp
next
  case (Cons x xs)
  show ?case
  proof (cases i)
    case 0
    with Cons.prems show ?thesis by simp
  next
    case (Suc j)
    with Cons.prems have "k \<in> key ` set xs" by (auto simp: nth_mem)
    with Cons.prems(1) have "key x \<noteq> k" by auto
    with Suc Cons show ?thesis by simp
  qed
qed

lemma find_SomeD: "find p xs = Some x \<Longrightarrow> p x \<and> x \<in> set xs"
  by (auto simp: find_Some_iff)

lemma find_Some_nthE:
  assumes "find p xs = Some x"
  obtains i where "i < length xs" "xs ! i = x" "p x"
  using assms by (auto simp: find_Some_iff)

lemma find_key_None: "find (\<lambda>x. key x = k) xs = None \<longleftrightarrow> k \<notin> set (map key xs)"
  by (auto simp: find_None_iff)

section \<open>Checks over the positions of a list\<close>

definition each_indexed :: "(nat \<Rightarrow> 'a \<Rightarrow> error option) \<Rightarrow> 'a list \<Rightarrow> error option" where
  "each_indexed f xs = throws (map (\<lambda>(i, x). f i x) (enumerate 0 xs))"

lemma each_indexed_None [result_simps]:
  "each_indexed f xs = None \<longleftrightarrow> (\<forall>i < length xs. f i (xs ! i) = None)"
proof -
  have "set (enumerate 0 xs) = {(i, xs ! i) | i. i < length xs}"
    by (auto simp: in_set_enumerate_eq)
  then show ?thesis
    unfolding each_indexed_def throws_map_None by fastforce
qed

text \<open>The loop test \<open>if (seen.has(key)) throw\<close>.\<close>

definition seen_before :: "('a \<Rightarrow> 'k) \<Rightarrow> 'a list \<Rightarrow> nat \<Rightarrow> bool" where
  "seen_before key xs i \<longleftrightarrow> key (xs ! i) \<in> set (map key (take i xs))"

lemma never_seen_distinct:
  "(\<forall>i < length xs. \<not> seen_before key xs i) \<longleftrightarrow> distinct (map key xs)"
proof -
  have "seen_before key xs i \<longleftrightarrow> (\<exists>j < i. key (xs ! j) = key (xs ! i))" if "i < length xs" for i
  proof
    assume "seen_before key xs i"
    then obtain j where "j < length (take i xs)" "key (take i xs ! j) = key (xs ! i)"
      by (auto simp: seen_before_def in_set_conv_nth)
    then show "\<exists>j < i. key (xs ! j) = key (xs ! i)" by auto
  next
    assume "\<exists>j < i. key (xs ! j) = key (xs ! i)"
    then obtain j where j: "j < i" "key (xs ! j) = key (xs ! i)" by blast
    with that have "j < length (take i xs)" "take i xs ! j = xs ! j" by simp_all
    with j have "key (xs ! i) \<in> key ` set (take i xs)" by (metis image_eqI nth_mem)
    then show "seen_before key xs i" by (simp add: seen_before_def)
  qed
  then have "(\<forall>i < length xs. \<not> seen_before key xs i) \<longleftrightarrow>
      (\<forall>i < length xs. \<forall>j < i. key (xs ! j) \<noteq> key (xs ! i))"
    by blast
  also have "\<dots> \<longleftrightarrow> distinct (map key xs)"
    by (auto simp: distinct_conv_nth) (metis linorder_neqE_nat)
  finally show ?thesis .
qed

section \<open>Stable sorting with a comparator\<close>

text \<open>
  \<open>Array.prototype.sort(compare)\<close> is stable: an element is inserted before the first one
  that does not compare below it.
\<close>

fun insert_by :: "('a \<Rightarrow> 'a \<Rightarrow> int) \<Rightarrow> 'a \<Rightarrow> 'a list \<Rightarrow> 'a list" where
  "insert_by cmp x [] = [x]"
| "insert_by cmp x (y # ys) = (if cmp x y \<le> 0 then x # y # ys else y # insert_by cmp x ys)"

definition sort_by :: "('a \<Rightarrow> 'a \<Rightarrow> int) \<Rightarrow> 'a list \<Rightarrow> 'a list" where
  "sort_by cmp xs = foldr (insert_by cmp) xs []"

lemma set_insert_by [simp]: "set (insert_by cmp x xs) = insert x (set xs)"
  by (induction xs) auto

lemma set_sort_by [simp]: "set (sort_by cmp xs) = set xs"
  by (induction xs) (auto simp: sort_by_def)

lemma length_insert_by [simp]: "length (insert_by cmp x xs) = Suc (length xs)"
  by (induction xs) auto

lemma length_sort_by [simp]: "length (sort_by cmp xs) = length xs"
  by (induction xs) (auto simp: sort_by_def)

lemma distinct_insert_by [simp]:
  "distinct (insert_by cmp x xs) \<longleftrightarrow> x \<notin> set xs \<and> distinct xs"
  by (induction xs) auto

lemma distinct_sort_by [simp]: "distinct (sort_by cmp xs) = distinct xs"
proof (induction xs)
  case Nil
  then show ?case by (simp add: sort_by_def)
next
  case (Cons x xs)
  have "sort_by cmp (x # xs) = insert_by cmp x (sort_by cmp xs)" by (simp add: sort_by_def)
  with Cons.IH show ?case by simp
qed

section \<open>Lists without repetition, in order of first occurrence\<close>

text \<open>The loop \<open>if (!result.includes(x)) result.push(x)\<close>.\<close>

definition push_new :: "'a list \<Rightarrow> 'a \<Rightarrow> 'a list" where
  "push_new xs x = (if x \<in> set xs then xs else xs @ [x])"

definition push_all_new :: "'a list \<Rightarrow> 'a list \<Rightarrow> 'a list" where
  "push_all_new xs ys = foldl push_new xs ys"

lemma set_push_new [simp]: "set (push_new xs x) = insert x (set xs)"
  by (auto simp: push_new_def)

lemma set_push_all_new [simp]: "set (push_all_new xs ys) = set xs \<union> set ys"
  by (induction ys arbitrary: xs) (auto simp: push_all_new_def)

lemma distinct_push_new [simp]: "distinct (push_new xs x) = distinct xs"
  by (auto simp: push_new_def)

lemma distinct_push_all_new [simp]: "distinct (push_all_new xs ys) = distinct xs"
  by (induction ys arbitrary: xs) (auto simp: push_all_new_def)

end
