(* ===== verification/JsText.thy ===== *)
theory JsText
  imports Prelude
begin

text \<open>
  The string operations of JavaScript that the modelled files use, on strings whose UTF-16
  code units are below 256: trimming and white-space folding, case conversion, splitting,
  searching, and the regular expressions that recognise identifiers and digests, each
  written out as a predicate on characters.
\<close>

section \<open>Character classes\<close>

definition code :: "char \<Rightarrow> nat" where
  "code c = of_char c"

definition is_digit :: "char \<Rightarrow> bool" where
  "is_digit c \<longleftrightarrow> 48 \<le> code c \<and> code c \<le> 57"

definition is_lower :: "char \<Rightarrow> bool" where
  "is_lower c \<longleftrightarrow> 97 \<le> code c \<and> code c \<le> 122"

definition is_upper :: "char \<Rightarrow> bool" where
  "is_upper c \<longleftrightarrow> 65 \<le> code c \<and> code c \<le> 90"

definition is_hex :: "char \<Rightarrow> bool" where
  "is_hex c \<longleftrightarrow> is_digit c \<or> 97 \<le> code c \<and> code c \<le> 102"

definition is_alnum :: "char \<Rightarrow> bool" where
  "is_alnum c \<longleftrightarrow> is_lower c \<or> is_upper c \<or> is_digit c"

text \<open>The class \<open>\s\<close>, which is also what \<open>trim\<close> removes.\<close>

definition is_space :: "char \<Rightarrow> bool" where
  "is_space c \<longleftrightarrow> 9 \<le> code c \<and> code c \<le> 13 \<or> code c = 32 \<or> code c = 160"

text \<open>\<open>CONTROL_CHARACTER_PATTERN\<close>: the control characters other than tab, LF and CR.\<close>

definition is_control :: "char \<Rightarrow> bool" where
  "is_control c \<longleftrightarrow> code c \<le> 8 \<or> code c = 11 \<or> code c = 12
     \<or> 14 \<le> code c \<and> code c \<le> 31 \<or> code c = 127"

lemmas char_class_defs = is_digit_def is_lower_def is_upper_def is_hex_def is_alnum_def
  is_space_def is_control_def code_def

declare char_class_defs [text_simps]

text \<open>
  The classes on the bits of a character, for evaluation: comparing code points one by one
  is far slower when the simplifier runs a definition.
\<close>

lemma is_digit_bits [code]:
  "is_digit (Char b0 b1 b2 b3 b4 b5 b6 b7) \<longleftrightarrow>
     \<not> b7 \<and> \<not> b6 \<and> b5 \<and> b4 \<and> (\<not> b3 \<or> \<not> b2 \<and> \<not> b1)"
  by (cases b0; cases b1; cases b2; cases b3; cases b4; cases b5; cases b6; cases b7;
    simp add: char_class_defs)

lemma is_lower_bits [code]:
  "is_lower (Char b0 b1 b2 b3 b4 b5 b6 b7) \<longleftrightarrow>
     \<not> b7 \<and> b6 \<and> b5 \<and> (b0 \<or> b1 \<or> b2 \<or> b3 \<or> b4)
        \<and> (\<not> b4 \<or> \<not> b3 \<or> \<not> b2 \<and> (\<not> b1 \<or> \<not> b0))"
  by (cases b0; cases b1; cases b2; cases b3; cases b4; cases b5; cases b6; cases b7;
    simp add: char_class_defs)

lemma is_upper_bits [code]:
  "is_upper (Char b0 b1 b2 b3 b4 b5 b6 b7) \<longleftrightarrow>
     \<not> b7 \<and> b6 \<and> \<not> b5 \<and> (b0 \<or> b1 \<or> b2 \<or> b3 \<or> b4)
        \<and> (\<not> b4 \<or> \<not> b3 \<or> \<not> b2 \<and> (\<not> b1 \<or> \<not> b0))"
  by (cases b0; cases b1; cases b2; cases b3; cases b4; cases b5; cases b6; cases b7;
    simp add: char_class_defs)

lemma is_hex_bits [code]:
  "is_hex (Char b0 b1 b2 b3 b4 b5 b6 b7) \<longleftrightarrow>
     \<not> b7 \<and> (if b6 then b5 \<and> \<not> b4 \<and> \<not> b3 \<and> (b0 \<or> b1 \<or> b2) \<and> \<not> (b0 \<and> b1 \<and> b2)
        else b5 \<and> b4 \<and> (\<not> b3 \<or> \<not> b2 \<and> \<not> b1))"
  by (cases b0; cases b1; cases b2; cases b3; cases b4; cases b5; cases b6; cases b7;
    simp add: char_class_defs)

lemma is_space_bits [code]:
  "is_space (Char b0 b1 b2 b3 b4 b5 b6 b7) \<longleftrightarrow>
     \<not> b6 \<and> \<not> b4 \<and> (if b5 then \<not> b3 \<and> \<not> b2 \<and> \<not> b1 \<and> \<not> b0
        else \<not> b7 \<and> b3 \<and> (if b2 then \<not> b1 else b0 \<or> b1))"
  by (cases b0; cases b1; cases b2; cases b3; cases b4; cases b5; cases b6; cases b7;
    simp add: char_class_defs)

lemma is_control_bits [code]:
  "is_control (Char b0 b1 b2 b3 b4 b5 b6 b7) \<longleftrightarrow>
     \<not> b7 \<and> (if b6 \<or> b5 then b6 \<and> b5 \<and> b4 \<and> b3 \<and> b2 \<and> b1 \<and> b0
        else b4 \<or> \<not> b3 \<or> (if b2 then b1 \<or> \<not> b0 else if b1 then b0 else \<not> b0))"
  by (cases b0; cases b1; cases b2; cases b3; cases b4; cases b5; cases b6; cases b7;
    simp add: char_class_defs)


section \<open>Trimming, folding, case\<close>

definition js_trim :: "string \<Rightarrow> string" where
  "js_trim s = rev (dropWhile is_space (rev (dropWhile is_space s)))"

text \<open>\<open>replace(/\r\n?/g, '\n')\<close>\<close>

fun drop_lf :: "string \<Rightarrow> string" where
  "drop_lf [] = []"
| "drop_lf (c # cs) = (if c = CHR 0x0A then cs else c # cs)"

lemma length_drop_lf: "length (drop_lf s) \<le> length s"
  by (cases s) auto

function unify_newlines :: "string \<Rightarrow> string" where
  "unify_newlines [] = []"
| "unify_newlines (c # cs) =
     (if c = CHR 0x0D then CHR 0x0A # unify_newlines (drop_lf cs) else c # unify_newlines cs)"
  by pat_completeness auto
termination
  by (relation "measure length") (auto simp: length_drop_lf le_imp_less_Suc)

text \<open>\<open>replace(/\s+/g, ' ')\<close>\<close>

function fold_spaces :: "string \<Rightarrow> string" where
  "fold_spaces [] = []"
| "fold_spaces (c # cs) =
     (if is_space c then CHR '' '' # fold_spaces (dropWhile is_space cs) else c # fold_spaces cs)"
  by pat_completeness auto
termination
  by (relation "measure length") (auto simp: length_dropWhile_le le_imp_less_Suc)

definition lower_char :: "char \<Rightarrow> char" where
  "lower_char c = (let n = code c in
     if is_upper c \<or> 192 \<le> n \<and> n \<le> 222 \<and> n \<noteq> 215 then char_of (n + 32) else c)"

text \<open>
  \<open>toUpperCase\<close> turns sharp s into two letters; the upper-case forms of the micro sign and
  of y with diaeresis are above 255 and are left as they are (still no ASCII letter).
\<close>

definition upper_char :: "char \<Rightarrow> string" where
  "upper_char c = (let n = code c in
     if is_lower c \<or> 224 \<le> n \<and> n \<le> 254 \<and> n \<noteq> 247 then [char_of (n - 32)]
     else if n = 223 then ''SS'' else [c])"

lemma lower_char_bits [code]:
  "lower_char (Char b0 b1 b2 b3 b4 b5 b6 b7) =
     (if b6 \<and> \<not> b5 \<and> (if b7 then \<not> (b0 \<and> b1 \<and> b2 \<and> b4) else is_upper (Char b0 b1 b2 b3 b4 b5 b6 b7))
      then Char b0 b1 b2 b3 b4 True b6 b7 else Char b0 b1 b2 b3 b4 b5 b6 b7)"
  by (cases b0; cases b1; cases b2; cases b3; cases b4; cases b5; cases b6; cases b7;
    simp add: lower_char_def is_upper_def code_def char_of_def bit_0)

lemma upper_char_bits [code]:
  "upper_char (Char b0 b1 b2 b3 b4 b5 b6 b7) =
     (if b6 \<and> b5 \<and> (if b7 then \<not> (b0 \<and> b1 \<and> b2 \<and> b4) else is_lower (Char b0 b1 b2 b3 b4 b5 b6 b7))
      then [Char b0 b1 b2 b3 b4 False b6 b7]
      else if b7 \<and> b6 \<and> \<not> b5 \<and> b4 \<and> b3 \<and> b2 \<and> b1 \<and> b0 then ''SS'' else [Char b0 b1 b2 b3 b4 b5 b6 b7])"
  by (cases b0; cases b1; cases b2; cases b3; cases b4; cases b5; cases b6; cases b7;
    simp add: upper_char_def is_lower_def code_def char_of_def bit_0)

definition to_lower :: "string \<Rightarrow> string" where
  "to_lower s = map lower_char s"

definition to_upper :: "string \<Rightarrow> string" where
  "to_upper s = concat (map upper_char s)"

text \<open>The helpers \<open>text\<close> and \<open>inline\<close> of the delivery modules, on a string.\<close>

definition js_text :: "string \<Rightarrow> string" where
  "js_text s = js_trim (unify_newlines s)"

definition js_inline :: "string \<Rightarrow> string" where
  "js_inline s = fold_spaces (js_text s)"

section \<open>Splitting and searching\<close>

text \<open>\<open>s.split(c)\<close> for a separator of one character; never empty.\<close>

fun split_at :: "char \<Rightarrow> string \<Rightarrow> string list" where
  "split_at d [] = [[]]"
| "split_at d (c # cs) =
     (if c = d then [] # split_at d cs
      else (case split_at d cs of [] \<Rightarrow> [[c]] | w # ws \<Rightarrow> (c # w) # ws))"

fun join_with :: "string \<Rightarrow> string list \<Rightarrow> string" where
  "join_with d [] = []"
| "join_with d [w] = w"
| "join_with d (w # v # ws) = w @ d @ join_with d (v # ws)"

fun starts_with :: "string \<Rightarrow> string \<Rightarrow> bool" where
  "starts_with [] s = True"
| "starts_with (p # ps) [] = False"
| "starts_with (p # ps) (c # cs) = (p = c \<and> starts_with ps cs)"

definition ends_with :: "string \<Rightarrow> string \<Rightarrow> bool" where
  "ends_with p s = starts_with (rev p) (rev s)"

fun includes_text :: "string \<Rightarrow> string \<Rightarrow> bool" where
  "includes_text p [] = (p = [])"
| "includes_text p (c # cs) = (starts_with p (c # cs) \<or> includes_text p cs)"

definition replace_char :: "char \<Rightarrow> char \<Rightarrow> string \<Rightarrow> string" where
  "replace_char a b s = map (\<lambda>c. if c = a then b else c) s"

lemma starts_with_iff: "starts_with p s \<longleftrightarrow> (\<exists>t. s = p @ t)"
  by (induction p s rule: starts_with.induct) auto

lemma split_at_nonempty [simp]: "split_at d s \<noteq> []"
  by (induction s) (auto split: list.splits)

section \<open>Identifier patterns\<close>

text \<open>\<open>/^prefix[first][rest]{lo,hi}$/\<close>, with an empty \<open>first\<close> class when there is none.\<close>

definition id_pattern ::
  "string \<Rightarrow> (char \<Rightarrow> bool) \<Rightarrow> (char \<Rightarrow> bool) \<Rightarrow> nat \<Rightarrow> nat \<Rightarrow> string \<Rightarrow> bool" where
  "id_pattern p first rest lo hi s \<longleftrightarrow>
     starts_with p s \<and>
     (case drop (length p) s of
        [] \<Rightarrow> False
      | c # cs \<Rightarrow> first c \<and> list_all rest cs \<and> lo \<le> length cs \<and> length cs \<le> hi)"

definition lower_id_char :: "char \<Rightarrow> bool" where
  "lower_id_char c \<longleftrightarrow> is_lower c \<or> is_digit c \<or> c = CHR ''-''"

definition lower_id_start :: "char \<Rightarrow> bool" where
  "lower_id_start c \<longleftrightarrow> is_lower c \<or> is_digit c"

definition upper_id_char :: "char \<Rightarrow> bool" where
  "upper_id_char c \<longleftrightarrow> is_upper c \<or> is_digit c \<or> c = CHR ''_'' \<or> c = CHR ''-''"

definition upper_id_start :: "char \<Rightarrow> bool" where
  "upper_id_start c \<longleftrightarrow> is_upper c \<or> is_digit c"

declare id_pattern_def [text_simps] lower_id_char_def [text_simps] lower_id_start_def [text_simps]
  upper_id_char_def [text_simps] upper_id_start_def [text_simps]

text \<open>\<open>/^[a-f0-9]{64}$/\<close>\<close>

definition digest_pattern :: "string \<Rightarrow> bool" where
  "digest_pattern s \<longleftrightarrow> length s = 64 \<and> list_all is_hex s"

section \<open>Normalisation leaves identifiers alone\<close>

lemma dropWhile_none: "list_all (\<lambda>c. \<not> p c) s \<Longrightarrow> dropWhile p s = s"
  by (cases s) auto

lemma js_trim_id: "list_all (\<lambda>c. \<not> is_space c) s \<Longrightarrow> js_trim s = s"
  by (simp add: js_trim_def dropWhile_none list_all_iff)

lemma unify_newlines_id: "list_all (\<lambda>c. \<not> is_space c) s \<Longrightarrow> unify_newlines s = s"
  by (induction s) (auto simp: is_space_def code_def)

lemma fold_spaces_id: "list_all (\<lambda>c. \<not> is_space c) s \<Longrightarrow> fold_spaces s = s"
  by (induction s rule: fold_spaces.induct) auto

lemma js_inline_id: "list_all (\<lambda>c. \<not> is_space c) s \<Longrightarrow> js_inline s = s"
  by (simp add: js_inline_def js_text_def js_trim_id unify_newlines_id fold_spaces_id)

lemma upper_id_char_fixed:
  "upper_id_char c \<Longrightarrow> \<not> is_space c \<and> upper_char c = [c]"
  by (auto simp: upper_id_char_def upper_char_def char_class_defs)

lemma lower_id_char_fixed:
  "lower_id_char c \<Longrightarrow> \<not> is_space c \<and> lower_char c = c"
  by (auto simp: lower_id_char_def lower_char_def char_class_defs)

lemma to_upper_id: "list_all upper_id_char s \<Longrightarrow> to_upper s = s"
  by (induction s) (auto simp: to_upper_def upper_id_char_fixed)

lemma to_lower_id: "list_all lower_id_char s \<Longrightarrow> to_lower s = s"
  by (induction s) (auto simp: to_lower_def lower_id_char_fixed)

lemma id_pattern_all:
  assumes "id_pattern p first rest lo hi s" and "list_all q p"
    and "\<And>c. first c \<Longrightarrow> q c" and "\<And>c. rest c \<Longrightarrow> q c"
  shows "list_all q s"
  using assms by (auto simp: id_pattern_def starts_with_iff list_all_iff split: list.splits)

text \<open>\<open>inline(x).toUpperCase()\<close> and \<open>inline(x).toLowerCase()\<close> on identifiers.\<close>

lemma upper_id_normal:
  assumes "list_all upper_id_char s"
  shows "to_upper (js_inline s) = s"
proof -
  have "list_all (\<lambda>c. \<not> is_space c) s"
    using assms upper_id_char_fixed by (auto simp: list_all_iff)
  with assms show ?thesis by (simp add: js_inline_id to_upper_id)
qed

lemma lower_id_normal:
  assumes "list_all lower_id_char s"
  shows "to_lower (js_inline s) = s"
proof -
  have "list_all (\<lambda>c. \<not> is_space c) s"
    using assms lower_id_char_fixed by (auto simp: list_all_iff)
  with assms show ?thesis by (simp add: js_inline_id to_lower_id)
qed

end
