(* ===== verification/JsPath.thy ===== *)
theory JsPath
  imports JsText
begin

text \<open>
  The functions of \<open>node:path\<close> (POSIX flavour) that the modelled files call: absolute paths,
  lexical normalisation and the path of one absolute path relative to another, computed on
  the segments between slashes as Node does.
\<close>

definition path_is_absolute :: "string \<Rightarrow> bool" where
  "path_is_absolute p \<longleftrightarrow> starts_with ''/'' p"

text \<open>
  The segments of a path after resolving empty, dot and dot-dot segments; \<open>acc\<close> holds the
  segments kept so far, last first, and \<open>up\<close> tells whether leading dot-dots are kept.
\<close>

fun resolve_segments :: "bool \<Rightarrow> string list \<Rightarrow> string list \<Rightarrow> string list" where
  "resolve_segments up acc [] = rev acc"
| "resolve_segments up acc (w # ws) =
     (if w = [] \<or> w = ''.'' then resolve_segments up acc ws
      else if w = ''..'' then
        (if acc \<noteq> [] \<and> hd acc \<noteq> ''..'' then resolve_segments up (tl acc) ws
         else if up then resolve_segments up (w # acc) ws
         else resolve_segments up acc ws)
      else resolve_segments up (w # acc) ws)"

definition path_segments :: "string \<Rightarrow> string list" where
  "path_segments p = resolve_segments (\<not> path_is_absolute p) [] (split_at CHR ''/'' p)"

definition path_normalize :: "string \<Rightarrow> string" where
  "path_normalize p =
     (if p = [] then ''.''
      else let absolute = path_is_absolute p;
               trailing = last p = CHR ''/'';
               body = join_with ''/'' (path_segments p)
           in if body = [] then (if absolute then ''/'' else if trailing then ''./'' else ''.'')
              else let kept = (if trailing then body @ ''/'' else body)
                   in if absolute then CHR ''/'' # kept else kept)"

fun drop_common :: "'a list \<Rightarrow> 'a list \<Rightarrow> 'a list \<times> 'a list" where
  "drop_common (x # xs) (y # ys) = (if x = y then drop_common xs ys else (x # xs, y # ys))"
| "drop_common xs ys = (xs, ys)"

text \<open>\<open>path.relative(from, to)\<close> for absolute arguments.\<close>

definition path_relative :: "string \<Rightarrow> string \<Rightarrow> string" where
  "path_relative from_path to_path =
     (let (ups, down) = drop_common (path_segments from_path) (path_segments to_path)
      in join_with ''/'' (replicate (length ups) ''..'' @ down))"

definition outside_relative :: "string \<Rightarrow> bool" where
  "outside_relative r \<longleftrightarrow> r = ''..'' \<or> starts_with ''../'' r \<or> path_is_absolute r"

text \<open>Every segment that survives is a proper name, unless leading dot-dots are kept.\<close>

lemma resolve_segments_proper:
  "w \<in> set (resolve_segments False acc ws) \<Longrightarrow>
   (\<forall>v \<in> set acc. v \<noteq> [] \<and> v \<noteq> ''.'' \<and> v \<noteq> ''..'') \<Longrightarrow>
   w \<noteq> [] \<and> w \<noteq> ''.'' \<and> w \<noteq> ''..''"
proof (induction False acc ws rule: resolve_segments.induct)
  case (1 acc)
  then show ?case by auto
next
  case (2 acc v ws)
  have tl: "x \<in> set (tl acc) \<Longrightarrow> x \<in> set acc" for x by (cases acc) auto
  show ?case
    using 2 tl by (auto split: if_splits)
qed

lemma drop_common_split:
  "drop_common xs ys = (us, vs) \<Longrightarrow> \<exists>cs. xs = cs @ us \<and> ys = cs @ vs"
proof (induction xs ys rule: drop_common.induct)
  case (1 x xs y ys)
  show ?case
  proof (cases "x = y")
    case True
    with 1 obtain cs where "xs = cs @ us \<and> ys = cs @ vs" by auto
    with True have "x # xs = (x # cs) @ us \<and> y # ys = (x # cs) @ vs" by simp
    then show ?thesis by blast
  next
    case False
    with 1 show ?thesis by auto
  qed
qed auto

end
