(* ===== verification/JsDate.thy ===== *)
theory JsDate
  imports JsText
begin

text \<open>
  Time stamps. The stores keep instants as the text \<open>new Date(t).toISOString()\<close> prints, and
  every validator asks that a time stamp is in exactly that form. \<open>parse_iso\<close> reads that
  form back to milliseconds since 1970 and refuses everything else, so \<open>valid_timestamp\<close> is
  the source's \<open>validTimestamp\<close>. The day arithmetic is ECMAScript's.
\<close>

section \<open>The proleptic Gregorian calendar\<close>

definition leap_year :: "int \<Rightarrow> bool" where
  "leap_year y \<longleftrightarrow> y mod 4 = 0 \<and> (y mod 100 \<noteq> 0 \<or> y mod 400 = 0)"

definition days_in_month :: "int \<Rightarrow> int \<Rightarrow> int" where
  "days_in_month y m =
     (if m = 2 then (if leap_year y then 29 else 28)
      else if m = 4 \<or> m = 6 \<or> m = 9 \<or> m = 11 then 30 else 31)"

definition day_from_year :: "int \<Rightarrow> int" where
  "day_from_year y =
     365 * (y - 1970) + (y - 1969) div 4 - (y - 1901) div 100 + (y - 1601) div 400"

definition month_start :: "int \<Rightarrow> int \<Rightarrow> int" where
  "month_start y m =
     [0, 31, 59, 90, 120, 151, 181, 212, 243, 273, 304, 334] ! nat (m - 1)
     + (if 2 < m \<and> leap_year y then 1 else 0)"

definition make_day :: "int \<Rightarrow> int \<Rightarrow> int \<Rightarrow> int" where
  "make_day y m d = day_from_year y + month_start y m + d - 1"

definition make_time :: "int \<Rightarrow> int \<Rightarrow> int \<Rightarrow> int \<Rightarrow> int" where
  "make_time h mi s ms = ((h * 60 + mi) * 60 + s) * 1000 + ms"

definition MS_PER_DAY :: int where
  "MS_PER_DAY = 86400000"

definition MAX_TIME :: int where
  "MAX_TIME = 8640000000000000"

section \<open>Reading the ISO form\<close>

definition digits_value :: "string \<Rightarrow> int" where
  "digits_value s = foldl (\<lambda>v c. 10 * v + (int (code c) - 48)) 0 s"

text \<open>Four digits, or a sign and six for a year outside 0 to 9999.\<close>

definition parse_iso_year :: "string \<Rightarrow> (int \<times> string) option" where
  "parse_iso_year s =
     (let y4 = take 4 s; y6 = take 6 (drop 1 s) in
      if starts_with ''+'' s then
        (if length y6 = 6 \<and> list_all is_digit y6 \<and> 9999 < digits_value y6
         then Some (digits_value y6, drop 7 s) else None)
      else if starts_with ''-'' s then
        (if length y6 = 6 \<and> list_all is_digit y6 \<and> 0 < digits_value y6
         then Some (- digits_value y6, drop 7 s) else None)
      else if length y4 = 4 \<and> list_all is_digit y4 then Some (digits_value y4, drop 4 s)
      else None)"

text \<open>The digit groups of \<open>-MM-DDTHH:mm:ss.sssZ\<close>.\<close>

definition iso_rest_shape :: "string \<Rightarrow> bool" where
  "iso_rest_shape r \<longleftrightarrow> length r = 20 \<and>
     r ! 0 = CHR ''-'' \<and> r ! 3 = CHR ''-'' \<and> r ! 6 = CHR ''T'' \<and> r ! 9 = CHR '':'' \<and>
     r ! 12 = CHR '':'' \<and> r ! 15 = CHR ''.'' \<and> r ! 19 = CHR ''Z'' \<and>
     list_all (\<lambda>i. is_digit (r ! i)) [1, 2, 4, 5, 7, 8, 10, 11, 13, 14, 16, 17, 18]"

definition parse_iso :: "string \<Rightarrow> int option" where
  "parse_iso s =
     (case parse_iso_year s of
        None \<Rightarrow> None
      | Some (y, r) \<Rightarrow>
          if \<not> iso_rest_shape r then None
          else
            let m = digits_value [r ! 1, r ! 2]; d = digits_value [r ! 4, r ! 5];
                h = digits_value [r ! 7, r ! 8]; mi = digits_value [r ! 10, r ! 11];
                sec = digits_value [r ! 13, r ! 14]; ms = digits_value [r ! 16, r ! 17, r ! 18];
                t = make_day y m d * MS_PER_DAY + make_time h mi sec ms
            in if 1 \<le> m \<and> m \<le> 12 \<and> 1 \<le> d \<and> d \<le> days_in_month y m \<and> h \<le> 23 \<and> mi \<le> 59
                  \<and> sec \<le> 59 \<and> \<bar>t\<bar> \<le> MAX_TIME
               then Some t else None)"

definition valid_timestamp :: "string \<Rightarrow> bool" where
  "valid_timestamp s \<longleftrightarrow> parse_iso s \<noteq> None"

text \<open>\<open>Date.parse\<close> of a valid time stamp.\<close>

definition date_ms :: "string \<Rightarrow> int" where
  "date_ms s = (case parse_iso s of Some t \<Rightarrow> t | None \<Rightarrow> 0)"

section \<open>Characters of a time stamp\<close>

definition iso_char :: "char \<Rightarrow> bool" where
  "iso_char c \<longleftrightarrow> is_digit c \<or> c \<in> set ''+-T:.Z''"

lemma iso_rest_chars:
  assumes "iso_rest_shape r"
  shows "list_all iso_char r"
proof -
  have len: "length r = 20" using assms by (simp add: iso_rest_shape_def)
  have "list_all (\<lambda>i. iso_char (r ! i)) [0, 1, 2, 3, 4, 5, 6, 7, 8, 9, 10, 11, 12, 13, 14, 15, 16, 17, 18, 19]"
    using assms by (simp add: iso_rest_shape_def iso_char_def)
  moreover have "[0..<20] = [0, 1, 2, 3, 4, 5, 6, 7, 8, 9, 10, 11, 12, 13, 14, 15, 16, 17, 18, 19]"
    by (simp add: upt_rec)
  ultimately have "list_all (\<lambda>i. iso_char (r ! i)) [0..<length r]" by (simp add: len)
  then show ?thesis by (simp add: list_all_length)
qed

lemma parse_iso_year_chars:
  assumes "parse_iso_year s = Some (y, r)"
  shows "\<exists>p. s = p @ r \<and> list_all iso_char p"
proof (cases s)
  case Nil
  with assms show ?thesis by (simp add: parse_iso_year_def)
next
  case (Cons c cs)
  consider "r = drop 6 cs" "iso_char c" "list_all is_digit (take 6 cs)"
    | "r = drop 4 s" "list_all is_digit (take 4 s)"
    using assms Cons by (auto simp: parse_iso_year_def iso_char_def Let_def split: if_splits)
  then show ?thesis
  proof cases
    case 1
    then have "s = (c # take 6 cs) @ r \<and> list_all iso_char (c # take 6 cs)"
      by (simp add: Cons) (simp add: list_all_iff iso_char_def)
    then show ?thesis by blast
  next
    case 2
    then have "s = take 4 s @ r \<and> list_all iso_char (take 4 s)"
      by simp (simp add: list_all_iff iso_char_def)
    then show ?thesis by blast
  qed
qed

lemma valid_timestamp_chars:
  assumes "valid_timestamp s"
  shows "list_all iso_char s"
proof -
  from assms obtain y r where "parse_iso_year s = Some (y, r)" "iso_rest_shape r"
    by (auto simp: valid_timestamp_def parse_iso_def split: option.splits if_splits)
  with parse_iso_year_chars iso_rest_chars show ?thesis by fastforce
qed

lemma valid_timestamp_inline:
  assumes "valid_timestamp s"
  shows "js_inline s = s"
proof (rule js_inline_id)
  have "iso_char c \<Longrightarrow> \<not> is_space c" for c
    by (auto simp: iso_char_def is_digit_def is_space_def code_def)
  with valid_timestamp_chars [OF assms] show "list_all (\<lambda>c. \<not> is_space c) s"
    by (auto simp: list_all_iff)
qed

section \<open>Years\<close>

lemma leap_year_2000: "leap_year 2000 \<and> \<not> leap_year 1900 \<and> leap_year 2024"
  by (simp add: leap_year_def)

lemma div_step:
  fixes a n :: int
  assumes "0 < n"
  shows "(a + 1) div n = a div n + (if (a + 1) mod n = 0 then 1 else 0)"
proof (cases "a mod n = n - 1")
  case True
  have "a = a div n * n + a mod n" by simp
  with True have "a + 1 = a div n * n + n" by linarith
  then have "a + 1 = (a div n + 1) * n" by (simp add: algebra_simps)
  then have "(a + 1) div n = a div n + 1" "(a + 1) mod n = 0" using assms by simp_all
  then show ?thesis by simp
next
  case False
  have r: "0 < a mod n + 1" "a mod n + 1 < n"
    using assms False pos_mod_bound [of n a] pos_mod_sign [of n a] by linarith+
  have "a = n * (a div n) + a mod n" by simp
  then have e: "a + 1 = n * (a div n) + (a mod n + 1)" by linarith
  have "(a + 1) div n = a div n" using int_div_pos_eq [OF e] r by simp
  moreover have "(a + 1) mod n = a mod n + 1" using int_mod_pos_eq [OF e] r by simp
  ultimately show ?thesis using r by simp
qed

lemma leap_sum:
  fixes a b c u v w y :: int
  assumes "u = a + (if p then 1 else 0)" "v = b + (if q then 1 else 0)"
    "w = c + (if r then 1 else 0)" and "q \<Longrightarrow> p" "r \<Longrightarrow> q"
  shows "365 * (y + 1 - 1970) + u - v + w =
    365 * (y - 1970) + a - b + c + (if p \<and> (\<not> q \<or> r) then 366 else 365)"
  using assms by (cases p; cases q; cases r; simp)

lemma day_from_year_step:
  "day_from_year (y + 1) = day_from_year y + (if leap_year y then 366 else 365)"
proof -
  have m4: "(y + 1 - 1969) mod 4 = y mod 4"
    using mod_mult_self1 [of y "-492" 4] by simp
  have m100: "(y + 1 - 1901) mod 100 = y mod 100"
    using mod_mult_self1 [of y "-19" 100] by simp
  have m400: "(y + 1 - 1601) mod 400 = y mod 400"
    using mod_mult_self1 [of y "-4" 400] by simp
  have d4: "(y + 1 - 1969) div 4 = (y - 1969) div 4 + (if y mod 4 = 0 then 1 else 0)"
    using div_step [of 4 "y - 1969"] m4 by (simp only: diff_add_eq)
  have d100: "(y + 1 - 1901) div 100 = (y - 1901) div 100 + (if y mod 100 = 0 then 1 else 0)"
    using div_step [of 100 "y - 1901"] m100 by (simp only: diff_add_eq)
  have d400: "(y + 1 - 1601) div 400 = (y - 1601) div 400 + (if y mod 400 = 0 then 1 else 0)"
    using div_step [of 400 "y - 1601"] m400 by (simp only: diff_add_eq)
  have "y mod 100 = 0 \<Longrightarrow> y mod 4 = 0" "y mod 400 = 0 \<Longrightarrow> y mod 100 = 0"
    using dvd_trans [of 4 100 y] dvd_trans [of 100 400 y] by (simp_all add: dvd_eq_mod_eq_0)
  then show ?thesis
    unfolding day_from_year_def leap_year_def by (rule leap_sum [OF d4 d100 d400])
qed

lemma parse_iso_epoch: "parse_iso ''1970-01-01T00:00:00.000Z'' = Some 0"
  by code_simp

end
