(* ===== verification/CanonicalJson.thy ===== *)
theory CanonicalJson
  imports JsText
begin

text \<open>
  JSON values and their canonical text (\<open>canonicalJson\<close> and \<open>canonicalSha256\<close> of
  delivery-plan.js): object members in the order of their keys, no white space, strings and
  numbers as \<open>JSON.stringify\<close> prints them. The digest of \<open>node:crypto\<close> is a field of the
  host record.
\<close>

text \<open>
  What the modelled code takes from the runtime: the SHA-256 digest of a text in lower-case
  hexadecimal, the locale's collation of two strings (negative, zero, positive), and the
  instants that \<open>Date.parse\<close> gives, beyond the ISO form, to texts of other forms.
\<close>

record host =
  sha256hex :: "string \<Rightarrow> string"
  localeCompare :: "string \<Rightarrow> string \<Rightarrow> int"
  dateParse :: "string \<Rightarrow> int option"

section \<open>Values\<close>

datatype json =
    JNull
  | JBool bool
  | JNum int
  | JStr string
  | JArr "json list"
  | JObj "(string \<times> json) list"

definition json_strings :: "string list \<Rightarrow> json" where
  "json_strings xs = JArr (map JStr xs)"

definition json_nullable :: "string option \<Rightarrow> json" where
  "json_nullable x = (case x of None \<Rightarrow> JNull | Some s \<Rightarrow> JStr s)"

section \<open>Text of numbers and strings\<close>

fun nat_text :: "nat \<Rightarrow> string" where
  "nat_text n = (if n < 10 then [char_of (48 + n)]
                 else nat_text (n div 10) @ [char_of (48 + n mod 10)])"

declare nat_text.simps [simp del]

definition int_text :: "int \<Rightarrow> string" where
  "int_text n = (if n < 0 then CHR ''-'' # nat_text (nat (- n)) else nat_text (nat n))"

definition hex_digit :: "nat \<Rightarrow> char" where
  "hex_digit n = (if n < 10 then char_of (48 + n) else char_of (87 + n))"

text \<open>The escapes of \<open>JSON.stringify\<close> for one code unit below 256.\<close>

definition escape_char :: "char \<Rightarrow> string" where
  "escape_char c =
     (let n = code c in
      if n = 34 then [CHR 0x5C, CHR 0x22]
      else if n = 92 then [CHR 0x5C, CHR 0x5C]
      else if n = 8 then [CHR 0x5C, CHR ''b'']
      else if n = 9 then [CHR 0x5C, CHR ''t'']
      else if n = 10 then [CHR 0x5C, CHR ''n'']
      else if n = 12 then [CHR 0x5C, CHR ''f'']
      else if n = 13 then [CHR 0x5C, CHR ''r'']
      else if n < 32 then
        [CHR 0x5C, CHR ''u'', CHR ''0'', CHR ''0'', hex_digit (n div 16), hex_digit (n mod 16)]
      else [c])"

lemma escape_char_bits [code]:
  "escape_char (Char b0 b1 b2 b3 b4 b5 b6 b7) =
     (if b5 \<or> b6 \<or> b7
      then if \<not> b7 \<and> (if b6 then \<not> b5 \<and> b4 \<and> b3 \<and> b2 \<and> \<not> b1 \<and> \<not> b0
             else \<not> b4 \<and> \<not> b3 \<and> \<not> b2 \<and> b1 \<and> \<not> b0)
           then [CHR 0x5C, Char b0 b1 b2 b3 b4 b5 b6 b7] else [Char b0 b1 b2 b3 b4 b5 b6 b7]
      else (let n = code (Char b0 b1 b2 b3 b4 b5 b6 b7) in
        if n = 8 then [CHR 0x5C, CHR ''b'']
        else if n = 9 then [CHR 0x5C, CHR ''t'']
        else if n = 10 then [CHR 0x5C, CHR ''n'']
        else if n = 12 then [CHR 0x5C, CHR ''f'']
        else if n = 13 then [CHR 0x5C, CHR ''r'']
        else [CHR 0x5C, CHR ''u'', CHR ''0'', CHR ''0'', hex_digit (n div 16), hex_digit (n mod 16)]))"
  by (cases b0; cases b1; cases b2; cases b3; cases b4; cases b5; cases b6; cases b7;
    simp add: escape_char_def code_def)

definition string_text :: "string \<Rightarrow> string" where
  "string_text s = CHR 0x22 # concat (map escape_char s) @ [CHR 0x22]"

section \<open>Canonical text\<close>

definition array_text :: "string list \<Rightarrow> string" where
  "array_text ts = ''['' @ join_with '','' ts @ '']''"

definition member_text :: "string \<times> string \<Rightarrow> string" where
  "member_text kv = string_text (fst kv) @ '':'' @ snd kv"

definition object_text :: "(string \<times> string) list \<Rightarrow> string" where
  "object_text kvs = ''{'' @ join_with '','' (map member_text kvs) @ ''}''"

primrec canonicalJson :: "json \<Rightarrow> string" where
  "canonicalJson JNull = ''null''"
| "canonicalJson (JBool b) = (if b then ''true'' else ''false'')"
| "canonicalJson (JNum n) = int_text n"
| "canonicalJson (JStr s) = string_text s"
| "canonicalJson (JArr xs) = array_text (map canonicalJson xs)"
| "canonicalJson (JObj kvs) =
     object_text (sort_key fst (map (map_prod (\<lambda>k. k) canonicalJson) kvs))"

definition canonicalSha256 :: "host \<Rightarrow> json \<Rightarrow> string" where
  "canonicalSha256 H j = sha256hex H (canonicalJson j)"

section \<open>Indented text\<close>

text \<open>
  \<open>JSON.stringify(value, null, 2)\<close>, with the members in the given order; \<open>ind\<close> is the white
  space of the enclosing line.
\<close>

definition indented :: "string \<Rightarrow> char \<Rightarrow> char \<Rightarrow> string list \<Rightarrow> string" where
  "indented ind l r ts =
     (if ts = [] then [l, r]
      else [l, CHR 0x0A] @ join_with ('','' @ [CHR 0x0A]) (map (\<lambda>t. ind @ ''  '' @ t) ts)
           @ [CHR 0x0A] @ ind @ [r])"

primrec prettyJson :: "json \<Rightarrow> string \<Rightarrow> string" where
  "prettyJson JNull = (\<lambda>ind. ''null'')"
| "prettyJson (JBool b) = (\<lambda>ind. if b then ''true'' else ''false'')"
| "prettyJson (JNum n) = (\<lambda>ind. int_text n)"
| "prettyJson (JStr s) = (\<lambda>ind. string_text s)"
| "prettyJson (JArr xs) = (\<lambda>ind. indented ind (CHR ''['') (CHR '']'')
     (map (\<lambda>f. f (ind @ ''  '')) (map prettyJson xs)))"
| "prettyJson (JObj kvs) = (\<lambda>ind. indented ind (CHR ''{'') (CHR ''}'')
     (map (\<lambda>kf. string_text (fst kf) @ '': '' @ snd kf (ind @ ''  ''))
       (map (map_prod (\<lambda>k. k) prettyJson) kvs)))"

end
