(* ===== verification/WorkspaceBaseline.thy ===== *)
theory WorkspaceBaseline
  imports JsPath JsDate CanonicalJson
begin

text \<open>
  The pure part of workspace-baseline.js: the Git metadata and index parsers, the validation
  of a captured baseline and of its digests, the comparison of two baselines and the check
  of changed paths against an approved scope. Reading the working tree is not modelled here.
  A record's type takes the place of the source's \<open>exactKeys\<close>, \<open>typeof\<close> and \<open>Array.isArray\<close>
  tests; every test on a value is kept.
\<close>

section \<open>Data\<close>

record git_metadata =
  gm_repoRoot :: string
  gm_gitDir :: string
  gm_commonDir :: string
  gm_objectFormat :: string
  gm_headRef :: string
  gm_sparseCheckout :: bool
  gm_sparseIndex :: bool

record baseline_entry =
  be_status :: string
  be_path :: string
  be_originalPath :: string
  be_type :: string
  be_size :: int
  be_sha256 :: string

record baseline_instruction =
  bi_path :: string
  bi_size :: int
  bi_sha256 :: string

record baseline =
  bl_version :: int
  bl_workspace :: string
  bl_repoRoot :: string
  bl_workspacePrefix :: string
  bl_head :: string
  bl_branch :: string
  bl_detached :: bool
  bl_workingTreeDigest :: string
  bl_instructionsDigest :: string
  bl_manifestDigest :: string
  bl_statusDigest :: string
  bl_indexDigest :: string
  bl_indexFlagsDigest :: string
  bl_gitMetadata :: git_metadata
  bl_gitMetadataDigest :: string
  bl_approvedScopes :: "string list"
  bl_ignoredScopeDigest :: string
  bl_entries :: "baseline_entry list"
  bl_instructions :: "baseline_instruction list"
  bl_capturedAt :: string

record index_entry =
  ix_mode :: string
  ix_oid :: string
  ix_stage :: nat
  ix_path :: string
  ix_gitlink :: bool
  ix_sparseDirectory :: bool

record flag_entry =
  fl_tag :: char
  fl_path :: string
  fl_assumeUnchanged :: bool
  fl_skipWorktree :: bool

record baseline_change =
  ch_changedPaths :: "string list"
  ch_headChanged :: bool
  ch_branchChanged :: bool
  ch_indexChanged :: bool
  ch_indexFlagsChanged :: bool
  ch_ignoredScopeChanged :: bool
  ch_scopeCoverageChanged :: bool
  ch_instructionsChanged :: bool
  ch_baselineChanged :: bool

definition WORKSPACE_BASELINE_VERSION :: int where
  "WORKSPACE_BASELINE_VERSION = 2"

definition wb_error :: "string \<Rightarrow> error" where
  "wb_error code_suffix = Error (''workspace_baseline_'' @ code_suffix)"

section \<open>Paths and tokens\<close>

definition wb_normalizedRepoPath :: "string \<Rightarrow> string \<Rightarrow> string result" where
  "wb_normalizedRepoPath field value =
     (let r = replace_char (CHR 0x5C) (CHR ''/'') value in
      if r = [] \<or> CHR 0x00 \<in> set r \<or> path_is_absolute r
         \<or> (\<exists>w \<in> set (split_at CHR ''/'' r). w = [] \<or> w = ''.'' \<or> w = ''..'' \<or> w = ''.git'')
      then Inl (wb_error (field @ ''_invalid''))
      else Inr r)"

definition wb_normalizedAbsolutePath :: "string \<Rightarrow> string \<Rightarrow> string result" where
  "wb_normalizedAbsolutePath value field =
     (if value = [] \<or> CHR 0x00 \<in> set value \<or> \<not> path_is_absolute value
         \<or> path_normalize value \<noteq> value
      then Inl (wb_error (''git_'' @ field @ ''_invalid''))
      else Inr value)"

text \<open>The characters that \<open>[\x00-\x20\x7f~^:?*[\\]\<close> forbids in a branch name.\<close>

definition ref_forbidden :: "char \<Rightarrow> bool" where
  "ref_forbidden c \<longleftrightarrow> code c \<le> 32 \<or> code c = 127 \<or> c \<in> set ''~^:?*['' \<or> c = CHR 0x5C"

definition validGitHeadRef :: "string \<Rightarrow> bool" where
  "validGitHeadRef value \<longleftrightarrow>
     starts_with ''refs/heads/'' value \<and> length value \<le> 1024 \<and>
     (let branch = drop (length ''refs/heads/'') value in
        branch \<noteq> [] \<and> \<not> starts_with ''.'' branch \<and> \<not> ends_with ''.'' branch
        \<and> \<not> ends_with ''/'' branch \<and> \<not> includes_text ''..'' branch
        \<and> \<not> includes_text [CHR 0x40, CHR ''{''] branch \<and> \<not> includes_text ''//'' branch
        \<and> \<not> list_ex ref_forbidden branch
        \<and> \<not> list_ex (\<lambda>w. w = [] \<or> ends_with ''.lock'' w) (split_at CHR ''/'' branch))"

definition nullDelimitedTokens :: "string \<Rightarrow> error \<Rightarrow> string list result" where
  "nullDelimitedTokens value e =
     (if value = [] then Inr []
      else if last value \<noteq> CHR 0x00 then Inl e
      else let tokens = split_at (CHR 0x00) (butlast value)
           in if [] \<in> set tokens then Inl e else Inr tokens)"

definition isSameOrChild :: "string \<Rightarrow> string \<Rightarrow> bool" where
  "isSameOrChild candidate root = (\<not> outside_relative (path_relative root candidate))"

definition wb_workspacePrefix :: "string \<Rightarrow> string \<Rightarrow> string result" where
  "wb_workspacePrefix repoRoot workspace =
     (let r = path_relative repoRoot workspace in
      if outside_relative r then Inl (wb_error ''workspace_outside_repository'')
      else Inr (join_with ''/'' (filter (\<lambda>w. w \<noteq> []) (split_at CHR ''/'' r))))"

section \<open>The outputs of git\<close>

definition GIT_OBJECT_FORMATS :: "string list" where
  "GIT_OBJECT_FORMATS = [''sha1'', ''sha256'']"

definition GIT_INDEX_MODES :: "string list" where
  "GIT_INDEX_MODES = [''040000'', ''100644'', ''100755'', ''120000'', ''160000'']"

text \<open>
  One token of \<open>git ls-files --stage -z\<close>: \<open>/^(\d{6}) ([a-f0-9]+) ([0-3])\t([\s\S]+)$/\<close>. The
  object name is the longest run of hexadecimal digits, which the space after it ends.
\<close>

definition matchIndexToken :: "string \<Rightarrow> (string \<times> string \<times> nat \<times> string) option" where
  "matchIndexToken t =
     (let mode = take 6 t; r = drop 7 t; oid = takeWhile is_hex r; r2 = dropWhile is_hex r in
      if length mode = 6 \<and> list_all is_digit mode \<and> drop 6 (take 7 t) = '' '' \<and> oid \<noteq> []
         \<and> 3 < length r2 \<and> r2 ! 0 = CHR '' '' \<and> 48 \<le> code (r2 ! 1) \<and> code (r2 ! 1) \<le> 51
         \<and> r2 ! 2 = CHR 0x09
      then Some (mode, oid, code (r2 ! 1) - 48, drop 3 r2) else None)"

definition parseIndexToken :: "nat \<Rightarrow> string \<Rightarrow> index_entry result" where
  "parseIndexToken digestLength t =
     (case matchIndexToken t of
        None \<Rightarrow> Inl (wb_error ''git_index_invalid'')
      | Some (mode, oid, stage, p) \<Rightarrow>
          if mode \<notin> set GIT_INDEX_MODES \<or> length oid \<noteq> digestLength
          then Inl (wb_error ''git_index_invalid'')
          else attempt (wb_normalizedRepoPath ''path'' p) (\<lambda>np.
            Inr \<lparr>ix_mode = mode, ix_oid = oid, ix_stage = stage, ix_path = np,
                 ix_gitlink = (mode = ''160000''), ix_sparseDirectory = (mode = ''040000'')\<rparr>))"

definition parseWorkspaceGitIndex ::
  "host \<Rightarrow> string \<Rightarrow> string \<Rightarrow> nat \<Rightarrow> index_entry list result" where
  "parseWorkspaceGitIndex H value objectFormat maxEntries =
     guard (throw_if (objectFormat \<notin> set GIT_OBJECT_FORMATS) (wb_error ''git_object_format_invalid''))
       (attempt (nullDelimitedTokens value (wb_error ''git_index_invalid'')) (\<lambda>tokens.
        guard (throw_if (maxEntries < length tokens) (wb_error ''git_index_limit_exceeded''))
          (attempt (map_result (parseIndexToken (if objectFormat = ''sha256'' then 64 else 40)) tokens)
            (\<lambda>entries.
             guard (throw_if (\<not> distinct (map (\<lambda>e. (ix_stage e, ix_path e)) entries))
                      (wb_error ''git_index_duplicate''))
               (Inr (sort_by (\<lambda>l r. let c = localeCompare H (ix_path l) (ix_path r) in
                        if c \<noteq> 0 then c else int (ix_stage l) - int (ix_stage r)) entries))))))"

definition parseFlagToken :: "string \<Rightarrow> flag_entry result" where
  "parseFlagToken t =
     (if length t < 3 \<or> t ! 1 \<noteq> CHR '' '' \<or> t ! 0 \<notin> set ''HSMRCK?hsmrck''
      then Inl (wb_error ''git_index_flags_invalid'')
      else attempt (wb_normalizedRepoPath ''path'' (drop 2 t)) (\<lambda>np.
        Inr \<lparr>fl_tag = t ! 0, fl_path = np,
             fl_assumeUnchanged = ([t ! 0] \<noteq> upper_char (t ! 0)),
             fl_skipWorktree = (upper_char (t ! 0) = ''S'')\<rparr>))"

definition parseWorkspaceGitIndexFlags ::
  "host \<Rightarrow> string \<Rightarrow> nat \<Rightarrow> flag_entry list result" where
  "parseWorkspaceGitIndexFlags H value maxEntries =
     attempt (nullDelimitedTokens value (wb_error ''git_index_flags_invalid'')) (\<lambda>tokens.
     guard (throw_if (maxEntries < length tokens) (wb_error ''git_index_flags_limit_exceeded''))
       (attempt (map_result parseFlagToken tokens) (\<lambda>entries.
        guard (throw_if (\<not> distinct (map fl_path entries)) (wb_error ''git_index_flags_duplicate''))
          (Inr (sort_by (\<lambda>l r. localeCompare H (fl_path l) (fl_path r)) entries)))))"

definition parseIgnoredToken :: "string \<Rightarrow> (string \<times> bool) result" where
  "parseIgnoredToken t =
     (let directory = ends_with ''/'' t in
      attempt (wb_normalizedRepoPath ''path'' (if directory then butlast t else t))
        (\<lambda>np. Inr (np, directory)))"

definition parseWorkspaceIgnoredPaths ::
  "host \<Rightarrow> string \<Rightarrow> nat \<Rightarrow> (string \<times> bool) list result" where
  "parseWorkspaceIgnoredPaths H value maxEntries =
     attempt (nullDelimitedTokens value (wb_error ''git_ignored_scope_invalid'')) (\<lambda>tokens.
     guard (throw_if (maxEntries < length tokens) (wb_error ''git_ignored_scope_limit_exceeded''))
       (attempt (map_result parseIgnoredToken tokens) (\<lambda>entries.
        guard (throw_if (\<not> distinct (map fst entries)) (wb_error ''git_ignored_scope_duplicate''))
          (Inr (sort_by (\<lambda>l r. localeCompare H (fst l) (fst r)) entries)))))"

definition parseWorkspaceGitUntracked :: "string \<Rightarrow> nat \<Rightarrow> string list result" where
  "parseWorkspaceGitUntracked value maxEntries =
     attempt (nullDelimitedTokens value (wb_error ''git_untracked_invalid'')) (\<lambda>tokens.
     guard (throw_if (maxEntries < length tokens) (wb_error ''git_untracked_limit_exceeded''))
       (attempt (map_result (wb_normalizedRepoPath ''path'') tokens) (\<lambda>paths.
        guard (throw_if (\<not> distinct paths) (wb_error ''git_untracked_duplicate''))
          (Inr (sort paths)))))"

section \<open>Git metadata\<close>

definition validateWorkspaceGitMetadata ::
  "git_metadata \<Rightarrow> string option \<Rightarrow> string option \<Rightarrow> string option \<Rightarrow> bool option
   \<Rightarrow> git_metadata result" where
  "validateWorkspaceGitMetadata m repoRoot head branch detached =
     attempt (wb_normalizedAbsolutePath (gm_repoRoot m) ''repo_root'') (\<lambda>_.
     attempt (wb_normalizedAbsolutePath (gm_gitDir m) ''dir'') (\<lambda>_.
     attempt (wb_normalizedAbsolutePath (gm_commonDir m) ''common_dir'') (\<lambda>_.
     guard (throws
       [throw_if (gm_objectFormat m \<notin> set GIT_OBJECT_FORMATS) (wb_error ''git_object_format_invalid''),
        throw_if (gm_headRef m \<noteq> [] \<and> \<not> validGitHeadRef (gm_headRef m))
          (wb_error ''git_head_ref_invalid''),
        throw_if (case repoRoot of None \<Rightarrow> False | Some r \<Rightarrow> gm_repoRoot m \<noteq> r)
          (wb_error ''git_repository_identity_mismatch''),
        throw_if (\<not> isSameOrChild (gm_gitDir m) (gm_repoRoot m)
            \<or> \<not> isSameOrChild (gm_commonDir m) (gm_repoRoot m))
          (wb_error ''git_directory_outside_repository''),
        throw_if (case branch of None \<Rightarrow> False | Some b \<Rightarrow>
            b \<noteq> (if gm_headRef m = [] then [] else drop (length ''refs/heads/'') (gm_headRef m)))
          (wb_error ''git_branch_mismatch''),
        throw_if (case detached of None \<Rightarrow> False | Some d \<Rightarrow> d \<noteq> (gm_headRef m = []))
          (wb_error ''git_detached_mismatch''),
        throw_if (case head of None \<Rightarrow> False | Some h \<Rightarrow>
            if h = ''unborn'' then gm_headRef m = []
            else length h \<noteq> (if gm_objectFormat m = ''sha256'' then 64 else 40)
                 \<or> \<not> list_all is_hex h)
          (wb_error ''git_head_state_invalid'')])
       (Inr m))))"

section \<open>Scopes\<close>

definition stripScope :: "string \<Rightarrow> string" where
  "stripScope value =
     (let s = replace_char (CHR 0x5C) (CHR ''/'') value;
          s' = (if starts_with ''./'' s then drop 2 s else s)
      in rev (dropWhile (\<lambda>c. c = CHR ''/'') (rev s')))"

definition scopeMalformed :: "string \<Rightarrow> bool" where
  "scopeMalformed s \<longleftrightarrow> s = [] \<or> path_is_absolute s
     \<or> (\<exists>w \<in> set (split_at CHR ''/'' s). w = ''..'' \<or> w = ''.git'')"

definition wb_normalizedScope :: "string \<Rightarrow> string result" where
  "wb_normalizedScope value =
     (let s = stripScope value in
      if scopeMalformed s then Inl (wb_error ''scope_invalid'') else Inr s)"

definition canonicalApprovedScopes :: "string list \<Rightarrow> nat \<Rightarrow> string list result" where
  "canonicalApprovedScopes values maxApprovedScopes =
     guard (throw_if (maxApprovedScopes < length values) (wb_error ''approved_scopes_invalid''))
       (attempt (map_result (\<lambda>value. attempt (wb_normalizedScope value) (\<lambda>s.
            guard (throw_if (value \<noteq> s) (wb_error ''approved_scope_not_canonical'')) (Inr s))) values)
          (\<lambda>scopes.
           guard (throws
             [throw_if (\<not> distinct scopes) (wb_error ''approved_scope_duplicate''),
              throw_if (sort scopes \<noteq> scopes) (wb_error ''approved_scopes_not_sorted'')])
             (Inr scopes)))"

definition path_in_scope :: "string \<Rightarrow> string \<Rightarrow> bool" where
  "path_in_scope scope p \<longleftrightarrow> scope = ''.'' \<or> p = scope \<or> starts_with (scope @ ''/'') p"

definition workspaceScopeViolations ::
  "string list \<Rightarrow> string list \<Rightarrow> string list result" where
  "workspaceScopeViolations changedPaths allowedPaths =
     guard (throw_if (allowedPaths = []) (wb_error ''scope_invalid''))
       (attempt (map_result wb_normalizedScope allowedPaths) (\<lambda>scopes.
          Inr (sort (filter
            (\<lambda>p. p = [] \<or> p = ''..'' \<or> starts_with ''../'' p \<or> \<not> list_ex (\<lambda>s. path_in_scope s p) scopes)
            (push_all_new [] (map (replace_char (CHR 0x5C) (CHR ''/'')) changedPaths))))))"

section \<open>Digests\<close>

definition metadata_json :: "git_metadata \<Rightarrow> json" where
  "metadata_json m = JObj
     [(''repoRoot'', JStr (gm_repoRoot m)), (''gitDir'', JStr (gm_gitDir m)),
      (''commonDir'', JStr (gm_commonDir m)), (''objectFormat'', JStr (gm_objectFormat m)),
      (''headRef'', JStr (gm_headRef m)), (''sparseCheckout'', JBool (gm_sparseCheckout m)),
      (''sparseIndex'', JBool (gm_sparseIndex m))]"

definition entry_json :: "baseline_entry \<Rightarrow> json" where
  "entry_json e = JObj
     [(''status'', JStr (be_status e)), (''path'', JStr (be_path e)),
      (''originalPath'', JStr (be_originalPath e)), (''type'', JStr (be_type e)),
      (''size'', JNum (be_size e)), (''sha256'', JStr (be_sha256 e))]"

definition entry_status_json :: "baseline_entry \<Rightarrow> json" where
  "entry_status_json e = JObj
     [(''status'', JStr (be_status e)), (''path'', JStr (be_path e)),
      (''originalPath'', JStr (be_originalPath e))]"

definition instruction_json :: "baseline_instruction \<Rightarrow> json" where
  "instruction_json i = JObj
     [(''path'', JStr (bi_path i)), (''size'', JNum (bi_size i)), (''sha256'', JStr (bi_sha256 i))]"

definition gitMetadataDigest_of :: "host \<Rightarrow> ('a) baseline_scheme \<Rightarrow> string" where
  "gitMetadataDigest_of H b = canonicalSha256 H (metadata_json (bl_gitMetadata b))"

definition instructionsDigest_of :: "host \<Rightarrow> ('a) baseline_scheme \<Rightarrow> string" where
  "instructionsDigest_of H b =
     canonicalSha256 H (JArr (map instruction_json (bl_instructions b)))"

definition statusDigest_of :: "host \<Rightarrow> ('a) baseline_scheme \<Rightarrow> string" where
  "statusDigest_of H b = canonicalSha256 H (JArr (map entry_status_json (bl_entries b)))"

definition ignoredScopeDigest_of :: "host \<Rightarrow> ('a) baseline_scheme \<Rightarrow> string" where
  "ignoredScopeDigest_of H b = canonicalSha256 H (JObj
     [(''approvedScopes'', json_strings (bl_approvedScopes b)),
      (''outputDigest'', JStr (sha256hex H []))])"

definition workingTreeDigest_of :: "host \<Rightarrow> ('a) baseline_scheme \<Rightarrow> string" where
  "workingTreeDigest_of H b = canonicalSha256 H (JObj
     [(''statusDigest'', JStr (bl_statusDigest b)), (''indexDigest'', JStr (bl_indexDigest b)),
      (''indexFlagsDigest'', JStr (bl_indexFlagsDigest b)),
      (''gitMetadataDigest'', JStr (bl_gitMetadataDigest b)),
      (''entries'', JArr (map entry_json (bl_entries b)))])"

definition manifest_json :: "('a) baseline_scheme \<Rightarrow> json" where
  "manifest_json b = JObj
     [(''version'', JNum (bl_version b)), (''workspace'', JStr (bl_workspace b)),
      (''repoRoot'', JStr (bl_repoRoot b)), (''workspacePrefix'', JStr (bl_workspacePrefix b)),
      (''head'', JStr (bl_head b)), (''branch'', JStr (bl_branch b)),
      (''detached'', JBool (bl_detached b)), (''statusDigest'', JStr (bl_statusDigest b)),
      (''indexDigest'', JStr (bl_indexDigest b)),
      (''indexFlagsDigest'', JStr (bl_indexFlagsDigest b)),
      (''gitMetadata'', metadata_json (bl_gitMetadata b)),
      (''gitMetadataDigest'', JStr (bl_gitMetadataDigest b)),
      (''approvedScopes'', json_strings (bl_approvedScopes b)),
      (''ignoredScopeDigest'', JStr (bl_ignoredScopeDigest b)),
      (''entries'', JArr (map entry_json (bl_entries b))),
      (''instructions'', JArr (map instruction_json (bl_instructions b)))]"

definition manifestDigest_of :: "host \<Rightarrow> ('a) baseline_scheme \<Rightarrow> string" where
  "manifestDigest_of H b = canonicalSha256 H (manifest_json b)"

definition entry_order :: "host \<Rightarrow> baseline_entry \<Rightarrow> baseline_entry \<Rightarrow> int" where
  "entry_order H l r =
     (let c = localeCompare H (be_path l) (be_path r) in
      if c \<noteq> 0 then c else localeCompare H (be_originalPath l) (be_originalPath r))"

definition instruction_order :: "host \<Rightarrow> baseline_instruction \<Rightarrow> baseline_instruction \<Rightarrow> int" where
  "instruction_order H l r = localeCompare H (bi_path l) (bi_path r)"

definition status_pattern :: "string \<Rightarrow> bool" where
  "status_pattern s \<longleftrightarrow> length s = 2 \<and> set s \<subseteq> set '' MADRCUT?!''"

definition ENTRY_TYPES :: "string list" where
  "ENTRY_TYPES = [''file'', ''missing'', ''symlink'']"

section \<open>Validation of a captured baseline\<close>

definition wb_checkEntry :: "baseline_entry \<Rightarrow> baseline_entry result" where
  "wb_checkEntry e =
     attempt (wb_normalizedRepoPath ''path'' (be_path e)) (\<lambda>p.
     attempt (if be_originalPath e = [] then Inr []
              else wb_normalizedRepoPath ''original_path'' (be_originalPath e)) (\<lambda>op.
     guard (throw_if (\<not> status_pattern (be_status e) \<or> be_type e \<notin> set ENTRY_TYPES
              \<or> \<not> safe_integer (be_size e) \<or> be_size e < 0 \<or> \<not> digest_pattern (be_sha256 e))
            (wb_error ''entry_invalid''))
       (Inr (e\<lparr>be_path := p, be_originalPath := op\<rparr>))))"

definition wb_checkInstruction :: "baseline_instruction \<Rightarrow> baseline_instruction result" where
  "wb_checkInstruction i =
     (let p = replace_char (CHR 0x5C) (CHR ''/'') (bi_path i) in
      guard (throw_if (p = [] \<or> CHR 0x00 \<in> set p \<or> \<not> safe_integer (bi_size i) \<or> bi_size i < 0
               \<or> \<not> digest_pattern (bi_sha256 i)) (wb_error ''instruction_invalid''))
        (Inr (i\<lparr>bi_path := p\<rparr>)))"

text \<open>
  The digests are compared over the normalised entries and instructions, the rest of the
  value being as given; the value itself is returned. Two lists are the same when their
  canonical texts have the same digest.
\<close>

definition baseline_digests_match :: "host \<Rightarrow> ('a) baseline_scheme \<Rightarrow> bool" where
  "baseline_digests_match H b \<longleftrightarrow>
     bl_gitMetadataDigest b = gitMetadataDigest_of H b \<and>
     bl_instructionsDigest b = instructionsDigest_of H b \<and>
     bl_statusDigest b = statusDigest_of H b \<and>
     bl_ignoredScopeDigest b = ignoredScopeDigest_of H b \<and>
     bl_workingTreeDigest b = workingTreeDigest_of H b \<and>
     bl_manifestDigest b = manifestDigest_of H b"

definition wb_validateWorkspaceBaseline :: "host \<Rightarrow> baseline \<Rightarrow> baseline result" where
  "wb_validateWorkspaceBaseline H b =
     guard (throw_if (bl_version b \<noteq> WORKSPACE_BASELINE_VERSION) (wb_error ''version_unsupported''))
    (guard (throw_if (\<not> path_is_absolute (bl_workspace b) \<or> \<not> path_is_absolute (bl_repoRoot b)
              \<or> path_normalize (bl_workspace b) \<noteq> bl_workspace b
              \<or> path_normalize (bl_repoRoot b) \<noteq> bl_repoRoot b) (wb_error ''workspace_invalid''))
    (attempt (wb_workspacePrefix (bl_repoRoot b) (bl_workspace b)) (\<lambda>prefix.
     guard (throw_if (prefix \<noteq> bl_workspacePrefix b) (wb_error ''workspace_invalid''))
    (attempt (validateWorkspaceGitMetadata (bl_gitMetadata b) (Some (bl_repoRoot b))
                (Some (bl_head b)) (Some (bl_branch b)) (Some (bl_detached b))) (\<lambda>metadata.
     guard (throws
       [throw_if (gm_sparseCheckout metadata \<or> gm_sparseIndex metadata)
          (wb_error ''git_sparse_state_rejected''),
        throw_if (\<not> list_all digest_pattern
            [bl_workingTreeDigest b, bl_instructionsDigest b, bl_manifestDigest b,
             bl_statusDigest b, bl_indexDigest b, bl_indexFlagsDigest b,
             bl_gitMetadataDigest b, bl_ignoredScopeDigest b]) (wb_error ''digest_invalid''),
        throw_if (\<not> valid_timestamp (bl_capturedAt b)) (wb_error ''timestamp_invalid'')])
    (attempt (canonicalApprovedScopes (bl_approvedScopes b) 128) (\<lambda>scopes.
     attempt (map_result wb_checkEntry (bl_entries b)) (\<lambda>entries.
     guard (throws
       [throw_if (canonicalSha256 H (JArr (map entry_json entries)) \<noteq>
            canonicalSha256 H (JArr (map entry_json (sort_by (entry_order H) entries))))
          (wb_error ''entries_not_sorted''),
        throw_if (\<not> distinct (map be_path entries)) (wb_error ''entry_duplicate'')])
    (attempt (map_result wb_checkInstruction (bl_instructions b)) (\<lambda>instructions.
     guard (throws
       [throw_if (canonicalSha256 H (JArr (map instruction_json instructions)) \<noteq>
            canonicalSha256 H (JArr (map instruction_json
              (sort_by (instruction_order H) instructions))))
          (wb_error ''instructions_not_sorted''),
        throw_if (\<not> distinct (map bi_path instructions)) (wb_error ''instruction_duplicate''),
        throw_if (\<not> baseline_digests_match H (b\<lparr>bl_gitMetadata := metadata,
            bl_approvedScopes := scopes, bl_entries := entries, bl_instructions := instructions\<rparr>))
          (wb_error ''digest_mismatch'')])
       (Inr b)))))))))))"

section \<open>Comparison of two baselines\<close>

definition workspaceBaselineMatches :: "('a) baseline_scheme \<Rightarrow> ('b) baseline_scheme \<Rightarrow> bool" where
  "workspaceBaselineMatches expected current \<longleftrightarrow>
     bl_head expected \<noteq> [] \<and> bl_head expected = bl_head current \<and>
     bl_workingTreeDigest expected \<noteq> [] \<and>
       bl_workingTreeDigest expected = bl_workingTreeDigest current \<and>
     bl_instructionsDigest expected \<noteq> [] \<and>
       bl_instructionsDigest expected = bl_instructionsDigest current"

definition baselineEntryKey :: "host \<Rightarrow> baseline_entry \<Rightarrow> string" where
  "baselineEntryKey H e = canonicalSha256 H (entry_json e)"

definition toWorkspacePath :: "string \<Rightarrow> string \<Rightarrow> string" where
  "toWorkspacePath repoPath prefix =
     (if prefix = [] then repoPath
      else if repoPath = prefix then ''.''
      else if starts_with (prefix @ ''/'') repoPath then drop (length prefix + 1) repoPath
      else ''../'' @ repoPath)"

text \<open>The map from path to key; a later entry of the same path would win.\<close>

definition entry_keys :: "host \<Rightarrow> baseline_entry list \<Rightarrow> string \<Rightarrow> string option" where
  "entry_keys H es = map_of (rev (map (\<lambda>e. (be_path e, baselineEntryKey H e)) es))"

definition changed_by_side :: "host \<Rightarrow> baseline_entry list \<Rightarrow> baseline_entry list \<Rightarrow> string list" where
  "changed_by_side H mine others =
     concat (map (\<lambda>e.
       (if entry_keys H others (be_path e) \<noteq> entry_keys H mine (be_path e) then [be_path e] else [])
       @ (if be_originalPath e \<noteq> [] then [be_originalPath e] else [])) mine)"

definition changedRepoPaths :: "host \<Rightarrow> baseline_entry list \<Rightarrow> baseline_entry list \<Rightarrow> string list" where
  "changedRepoPaths H before after =
     push_all_new (push_all_new [] (changed_by_side H before after)) (changed_by_side H after before)"

definition compareWorkspaceBaselines ::
  "host \<Rightarrow> baseline \<Rightarrow> baseline \<Rightarrow> baseline_change result" where
  "compareWorkspaceBaselines H before after =
     attempt (wb_validateWorkspaceBaseline H before) (\<lambda>_.
     attempt (wb_validateWorkspaceBaseline H after) (\<lambda>_.
     guard (throws
       [throw_if (bl_version before \<noteq> WORKSPACE_BASELINE_VERSION
            \<or> bl_version after \<noteq> WORKSPACE_BASELINE_VERSION) (wb_error ''comparison_invalid''),
        throw_if (bl_workspace before \<noteq> bl_workspace after
            \<or> bl_repoRoot before \<noteq> bl_repoRoot after
            \<or> bl_workspacePrefix before \<noteq> bl_workspacePrefix after
            \<or> gm_repoRoot (bl_gitMetadata before) \<noteq> gm_repoRoot (bl_gitMetadata after)
            \<or> gm_gitDir (bl_gitMetadata before) \<noteq> gm_gitDir (bl_gitMetadata after)
            \<or> gm_commonDir (bl_gitMetadata before) \<noteq> gm_commonDir (bl_gitMetadata after)
            \<or> gm_objectFormat (bl_gitMetadata before) \<noteq> gm_objectFormat (bl_gitMetadata after))
          (wb_error ''identity_changed'')])
       (Inr
          \<lparr>ch_changedPaths = sort (map (\<lambda>p. toWorkspacePath p (bl_workspacePrefix after))
             (changedRepoPaths H (bl_entries before) (bl_entries after))),
           ch_headChanged = (bl_head before \<noteq> bl_head after),
           ch_branchChanged =
             (gm_headRef (bl_gitMetadata before) \<noteq> gm_headRef (bl_gitMetadata after)),
           ch_indexChanged = (bl_indexDigest before \<noteq> bl_indexDigest after
             \<or> bl_indexFlagsDigest before \<noteq> bl_indexFlagsDigest after),
           ch_indexFlagsChanged = (bl_indexFlagsDigest before \<noteq> bl_indexFlagsDigest after),
           ch_ignoredScopeChanged = (bl_ignoredScopeDigest before \<noteq> bl_ignoredScopeDigest after),
           ch_scopeCoverageChanged =
             (canonicalSha256 H (json_strings (bl_approvedScopes before))
              \<noteq> canonicalSha256 H (json_strings (bl_approvedScopes after))),
           ch_instructionsChanged =
             (bl_instructionsDigest before \<noteq> bl_instructionsDigest after),
           ch_baselineChanged = (bl_manifestDigest before \<noteq> bl_manifestDigest after)\<rparr>)))"

end
