(* ===== verification/DeliveryRun.thy ===== *)
theory DeliveryRun
  imports WorkspaceBaseline
begin

text \<open>
  delivery-run.js: the digest-bound local run. A run is a sequence of tasks, one per step of
  an approved plan, each with an outbox item that asks for its Mission; the operations link a
  Mission, capture an implementation, record the operator's verification, and mark a run for
  reconciliation, off course or aborted. Every operation validates the run it is given and
  the run it returns. Records take the place of the source's \<open>exactKeys\<close> and \<open>typeof\<close>
  tests; the order of the other tests, and the error of each, is the source's.
\<close>

section \<open>Error codes\<close>

definition dr_abort_confirmation_required :: error where "dr_abort_confirmation_required = Error ''delivery_run_abort_confirmation_required''"
definition dr_abort_evidence_invalid :: error where "dr_abort_evidence_invalid = Error ''delivery_run_abort_evidence_invalid''"
definition dr_abort_evidence_required :: error where "dr_abort_evidence_required = Error ''delivery_run_abort_evidence_required''"
definition dr_abort_invalid :: error where "dr_abort_invalid = Error ''delivery_run_abort_invalid''"
definition dr_abort_operator_evidence_required :: error where "dr_abort_operator_evidence_required = Error ''delivery_run_abort_operator_evidence_required''"
definition dr_abort_outbox_invalid :: error where "dr_abort_outbox_invalid = Error ''delivery_run_abort_outbox_invalid''"
definition dr_abort_reason_invalid :: error where "dr_abort_reason_invalid = Error ''delivery_run_abort_reason_invalid''"
definition dr_abort_state_invalid :: error where "dr_abort_state_invalid = Error ''delivery_run_abort_state_invalid''"
definition dr_abort_task_invalid :: error where "dr_abort_task_invalid = Error ''delivery_run_abort_task_invalid''"
definition dr_allowed_path_invalid :: error where "dr_allowed_path_invalid = Error ''delivery_run_allowed_path_invalid''"
definition dr_allowed_paths_invalid :: error where "dr_allowed_paths_invalid = Error ''delivery_run_allowed_paths_invalid''"
definition dr_baseline_approved_scope_duplicate :: error where "dr_baseline_approved_scope_duplicate = Error ''delivery_run_baseline_approved_scope_duplicate''"
definition dr_baseline_approved_scope_not_canonical :: error where "dr_baseline_approved_scope_not_canonical = Error ''delivery_run_baseline_approved_scope_not_canonical''"
definition dr_baseline_approved_scopes_invalid :: error where "dr_baseline_approved_scopes_invalid = Error ''delivery_run_baseline_approved_scopes_invalid''"
definition dr_baseline_approved_scopes_not_sorted :: error where "dr_baseline_approved_scopes_not_sorted = Error ''delivery_run_baseline_approved_scopes_not_sorted''"
definition dr_baseline_branch_invalid :: error where "dr_baseline_branch_invalid = Error ''delivery_run_baseline_branch_invalid''"
definition dr_baseline_digest_invalid :: error where "dr_baseline_digest_invalid = Error ''delivery_run_baseline_digest_invalid''"
definition dr_baseline_digest_mismatch :: error where "dr_baseline_digest_mismatch = Error ''delivery_run_baseline_digest_mismatch''"
definition dr_baseline_entries_invalid :: error where "dr_baseline_entries_invalid = Error ''delivery_run_baseline_entries_invalid''"
definition dr_baseline_entries_unsorted :: error where "dr_baseline_entries_unsorted = Error ''delivery_run_baseline_entries_unsorted''"
definition dr_baseline_entry_duplicate :: error where "dr_baseline_entry_duplicate = Error ''delivery_run_baseline_entry_duplicate''"
definition dr_baseline_entry_invalid :: error where "dr_baseline_entry_invalid = Error ''delivery_run_baseline_entry_invalid''"
definition dr_baseline_git_metadata_invalid :: error where "dr_baseline_git_metadata_invalid = Error ''delivery_run_baseline_git_metadata_invalid''"
definition dr_baseline_git_metadata_mismatch :: error where "dr_baseline_git_metadata_mismatch = Error ''delivery_run_baseline_git_metadata_mismatch''"
definition dr_baseline_git_sparse_state_rejected :: error where "dr_baseline_git_sparse_state_rejected = Error ''delivery_run_baseline_git_sparse_state_rejected''"
definition dr_baseline_head_invalid :: error where "dr_baseline_head_invalid = Error ''delivery_run_baseline_head_invalid''"
definition dr_baseline_ignored_scope_mismatch :: error where "dr_baseline_ignored_scope_mismatch = Error ''delivery_run_baseline_ignored_scope_mismatch''"
definition dr_baseline_instruction_duplicate :: error where "dr_baseline_instruction_duplicate = Error ''delivery_run_baseline_instruction_duplicate''"
definition dr_baseline_instruction_invalid :: error where "dr_baseline_instruction_invalid = Error ''delivery_run_baseline_instruction_invalid''"
definition dr_baseline_instructions_invalid :: error where "dr_baseline_instructions_invalid = Error ''delivery_run_baseline_instructions_invalid''"
definition dr_baseline_instructions_mismatch :: error where "dr_baseline_instructions_mismatch = Error ''delivery_run_baseline_instructions_mismatch''"
definition dr_baseline_instructions_unsorted :: error where "dr_baseline_instructions_unsorted = Error ''delivery_run_baseline_instructions_unsorted''"
definition dr_baseline_manifest_mismatch :: error where "dr_baseline_manifest_mismatch = Error ''delivery_run_baseline_manifest_mismatch''"
definition dr_baseline_scope_invalid :: error where "dr_baseline_scope_invalid = Error ''delivery_run_baseline_scope_invalid''"
definition dr_baseline_status_mismatch :: error where "dr_baseline_status_mismatch = Error ''delivery_run_baseline_status_mismatch''"
definition dr_baseline_timestamp_invalid :: error where "dr_baseline_timestamp_invalid = Error ''delivery_run_baseline_timestamp_invalid''"
definition dr_baseline_version_unsupported :: error where "dr_baseline_version_unsupported = Error ''delivery_run_baseline_version_unsupported''"
definition dr_baseline_workspace_invalid :: error where "dr_baseline_workspace_invalid = Error ''delivery_run_baseline_workspace_invalid''"
definition dr_baseline_workspace_mismatch :: error where "dr_baseline_workspace_mismatch = Error ''delivery_run_baseline_workspace_mismatch''"
definition dr_baseline_workspace_prefix_invalid :: error where "dr_baseline_workspace_prefix_invalid = Error ''delivery_run_baseline_workspace_prefix_invalid''"
definition dr_baseline_worktree_mismatch :: error where "dr_baseline_worktree_mismatch = Error ''delivery_run_baseline_worktree_mismatch''"
definition dr_blocker_invalid :: error where "dr_blocker_invalid = Error ''delivery_run_blocker_invalid''"
definition dr_condition_invalid :: error where "dr_condition_invalid = Error ''delivery_run_condition_invalid''"
definition dr_control_characters_not_allowed :: error where "dr_control_characters_not_allowed = Error ''delivery_run_control_characters_not_allowed''"
definition dr_delivery_invalid :: error where "dr_delivery_invalid = Error ''delivery_run_delivery_invalid''"
definition dr_evidence_content_invalid :: error where "dr_evidence_content_invalid = Error ''delivery_run_evidence_content_invalid''"
definition dr_evidence_duplicate :: error where "dr_evidence_duplicate = Error ''delivery_run_evidence_duplicate''"
definition dr_evidence_index_invalid :: error where "dr_evidence_index_invalid = Error ''delivery_run_evidence_index_invalid''"
definition dr_evidence_invalid :: error where "dr_evidence_invalid = Error ''delivery_run_evidence_invalid''"
definition dr_evidence_limit_reached :: error where "dr_evidence_limit_reached = Error ''delivery_run_evidence_limit_reached''"
definition dr_evidence_not_for_task :: error where "dr_evidence_not_for_task = Error ''delivery_run_evidence_not_for_task''"
definition dr_evidence_reference_unknown :: error where "dr_evidence_reference_unknown = Error ''delivery_run_evidence_reference_unknown''"
definition dr_id_invalid :: error where "dr_id_invalid = Error ''delivery_run_id_invalid''"
definition dr_implementation_baseline_identity_changed :: error where "dr_implementation_baseline_identity_changed = Error ''delivery_run_implementation_baseline_identity_changed''"
definition dr_implementation_invalid :: error where "dr_implementation_invalid = Error ''delivery_run_implementation_invalid''"
definition dr_implementation_state_invalid :: error where "dr_implementation_state_invalid = Error ''delivery_run_implementation_state_invalid''"
definition dr_implementation_unchanged :: error where "dr_implementation_unchanged = Error ''delivery_run_implementation_unchanged''"
definition dr_mission_binding_conflict :: error where "dr_mission_binding_conflict = Error ''delivery_run_mission_binding_conflict''"
definition dr_mission_definition_digest_invalid :: error where "dr_mission_definition_digest_invalid = Error ''delivery_run_mission_definition_digest_invalid''"
definition dr_mission_id_invalid :: error where "dr_mission_id_invalid = Error ''delivery_run_mission_id_invalid''"
definition dr_mission_link_state_invalid :: error where "dr_mission_link_state_invalid = Error ''delivery_run_mission_link_state_invalid''"
definition dr_mission_reconcile_error_invalid :: error where "dr_mission_reconcile_error_invalid = Error ''delivery_run_mission_reconcile_error_invalid''"
definition dr_mission_reconcile_state_invalid :: error where "dr_mission_reconcile_state_invalid = Error ''delivery_run_mission_reconcile_state_invalid''"
definition dr_off_course_reason_invalid :: error where "dr_off_course_reason_invalid = Error ''delivery_run_off_course_reason_invalid''"
definition dr_off_course_state_invalid :: error where "dr_off_course_state_invalid = Error ''delivery_run_off_course_state_invalid''"
definition dr_outbox_invalid :: error where "dr_outbox_invalid = Error ''delivery_run_outbox_invalid''"
definition dr_outbox_lifecycle_invalid :: error where "dr_outbox_lifecycle_invalid = Error ''delivery_run_outbox_lifecycle_invalid''"
definition dr_outbox_sequence_invalid :: error where "dr_outbox_sequence_invalid = Error ''delivery_run_outbox_sequence_invalid''"
definition dr_plan_digest_invalid :: error where "dr_plan_digest_invalid = Error ''delivery_run_plan_digest_invalid''"
definition dr_plan_id_invalid :: error where "dr_plan_id_invalid = Error ''delivery_run_plan_id_invalid''"
definition dr_plan_revision_invalid :: error where "dr_plan_revision_invalid = Error ''delivery_run_plan_revision_invalid''"
definition dr_revision_invalid :: error where "dr_revision_invalid = Error ''delivery_run_revision_invalid''"
definition dr_step_digest_invalid :: error where "dr_step_digest_invalid = Error ''delivery_run_step_digest_invalid''"
definition dr_step_id_duplicate :: error where "dr_step_id_duplicate = Error ''delivery_run_step_id_duplicate''"
definition dr_step_id_invalid :: error where "dr_step_id_invalid = Error ''delivery_run_step_id_invalid''"
definition dr_task_acceptance_ids_invalid :: error where "dr_task_acceptance_ids_invalid = Error ''delivery_run_task_acceptance_ids_invalid''"
definition dr_task_baseline_invalid :: error where "dr_task_baseline_invalid = Error ''delivery_run_task_baseline_invalid''"
definition dr_task_binding_invalid :: error where "dr_task_binding_invalid = Error ''delivery_run_task_binding_invalid''"
definition dr_task_invalid :: error where "dr_task_invalid = Error ''delivery_run_task_invalid''"
definition dr_task_lifecycle_invalid :: error where "dr_task_lifecycle_invalid = Error ''delivery_run_task_lifecycle_invalid''"
definition dr_task_mission_invalid :: error where "dr_task_mission_invalid = Error ''delivery_run_task_mission_invalid''"
definition dr_task_not_found :: error where "dr_task_not_found = Error ''delivery_run_task_not_found''"
definition dr_task_order_invalid :: error where "dr_task_order_invalid = Error ''delivery_run_task_order_invalid''"
definition dr_task_verification_invalid :: error where "dr_task_verification_invalid = Error ''delivery_run_task_verification_invalid''"
definition dr_tasks_invalid :: error where "dr_tasks_invalid = Error ''delivery_run_tasks_invalid''"
definition dr_timestamp_invalid :: error where "dr_timestamp_invalid = Error ''delivery_run_timestamp_invalid''"
definition dr_verification_baseline_changed :: error where "dr_verification_baseline_changed = Error ''delivery_run_verification_baseline_changed''"
definition dr_verification_baseline_invalid :: error where "dr_verification_baseline_invalid = Error ''delivery_run_verification_baseline_invalid''"
definition dr_verification_criteria_invalid :: error where "dr_verification_criteria_invalid = Error ''delivery_run_verification_criteria_invalid''"
definition dr_verification_criterion_invalid :: error where "dr_verification_criterion_invalid = Error ''delivery_run_verification_criterion_invalid''"
definition dr_verification_duplicate :: error where "dr_verification_duplicate = Error ''delivery_run_verification_duplicate''"
definition dr_verification_evidence_invalid :: error where "dr_verification_evidence_invalid = Error ''delivery_run_verification_evidence_invalid''"
definition dr_verification_id_invalid :: error where "dr_verification_id_invalid = Error ''delivery_run_verification_id_invalid''"
definition dr_verification_invalid :: error where "dr_verification_invalid = Error ''delivery_run_verification_invalid''"
definition dr_verification_note_required :: error where "dr_verification_note_required = Error ''delivery_run_verification_note_required''"
definition dr_verification_outcome_invalid :: error where "dr_verification_outcome_invalid = Error ''delivery_run_verification_outcome_invalid''"
definition dr_verification_state_invalid :: error where "dr_verification_state_invalid = Error ''delivery_run_verification_state_invalid''"
definition dr_verification_step_unknown :: error where "dr_verification_step_unknown = Error ''delivery_run_verification_step_unknown''"
definition dr_verification_task_mismatch :: error where "dr_verification_task_mismatch = Error ''delivery_run_verification_task_mismatch''"
definition dr_verifications_invalid :: error where "dr_verifications_invalid = Error ''delivery_run_verifications_invalid''"
definition dr_verifier_invalid :: error where "dr_verifier_invalid = Error ''delivery_run_verifier_invalid''"
definition dr_version_unsupported :: error where "dr_version_unsupported = Error ''delivery_run_version_unsupported''"
definition dr_workspace_invalid :: error where "dr_workspace_invalid = Error ''delivery_run_workspace_invalid''"

section \<open>Data\<close>

datatype run_condition =
  C_preparing | C_active | C_awaiting_verification | C_blocked | C_off_course
| C_reconcile_required | C_aborted | C_verified

datatype delivery_level = L_planned | L_implemented_locally | L_verified_locally

datatype task_state =
  T_pending | T_mission_linked | T_implementation_captured | T_verified | T_failed
| T_off_course | T_reconcile_required | T_aborted

datatype outbox_state = O_held | O_pending | O_applied | O_reconcile_required | O_blocked | O_canceled

record run_baseline = baseline +
  bl_digest :: string

record baseline_input = baseline +
  bl_givenDigest :: "string option"

record evidence =
  ev_id :: string
  ev_type :: string
  ev_producer :: string
  ev_outcome :: string
  ev_summary :: string
  ev_contentRef :: string
  ev_contentSha256 :: string
  ev_createdAt :: string

record implementation =
  im_baseline :: "run_baseline option"
  im_evidenceIds :: "string list"
  im_capturedAt :: "string option"

record run_task =
  tk_stepId :: string
  tk_sequence :: int
  tk_stepDigest :: string
  tk_acceptanceIds :: "string list"
  tk_allowedPaths :: "string list"
  tk_expectedBaselineDigest :: string
  tk_state :: task_state
  tk_missionBindingKey :: string
  tk_missionDefinitionDigest :: string
  tk_missionId :: "string option"
  tk_implementation :: implementation
  tk_verificationId :: "string option"

record outbox_item =
  ob_id :: string
  ob_kind :: string
  ob_stepId :: string
  ob_bindingKey :: string
  ob_payloadDigest :: string
  ob_state :: outbox_state
  ob_missionId :: "string option"
  ob_error :: string
  ob_updatedAt :: string

record criterion =
  cr_acceptanceId :: string
  cr_outcome :: string
  cr_evidenceIds :: "string list"

record verification =
  vr_id :: string
  vr_stepId :: string
  vr_planDigest :: string
  vr_implementationMissionId :: string
  vr_verifier :: string
  vr_criteria :: "criterion list"
  vr_outcome :: string
  vr_beforeBaselineDigest :: string
  vr_afterBaselineDigest :: string
  vr_evidenceIds :: "string list"
  vr_note :: string
  vr_verifiedAt :: string

record delivery =
  dl_level :: delivery_level
  dl_evidenceIds :: "string list"
  dl_updatedAt :: string

record abort_record =
  ab_operatorConfirmed :: bool
  ab_fromCondition :: run_condition
  ab_reason :: string
  ab_evidenceIds :: "string list"
  ab_abortedAt :: string

record delivery_run =
  rn_version :: int
  rn_id :: string
  rn_revision :: int
  rn_planId :: string
  rn_planRevision :: int
  rn_planDigest :: string
  rn_workspace :: string
  rn_startBaseline :: run_baseline
  rn_condition :: run_condition
  rn_tasks :: "run_task list"
  rn_outbox :: "outbox_item list"
  rn_evidenceIndex :: "evidence list"
  rn_verificationRecords :: "verification list"
  rn_delivery :: delivery
  rn_abort :: "abort_record option"
  rn_blocker :: string
  rn_createdAt :: string
  rn_updatedAt :: string

text \<open>The inputs of the operations.\<close>

record task_input =
  ti_stepId :: string
  ti_stepDigest :: string
  ti_acceptanceIds :: "string list"
  ti_allowedPaths :: "string list"
  ti_missionDefinitionDigest :: string

record create_input =
  ci_id :: string
  ci_planId :: string
  ci_planRevision :: int
  ci_planDigest :: string
  ci_workspace :: string
  ci_startBaseline :: baseline_input
  ci_tasks :: "task_input list"

record link_input =
  li_stepId :: string
  li_bindingKey :: string
  li_missionId :: string

record reconcile_input =
  ri_stepId :: string
  ri_bindingKey :: string
  ri_error :: string

record capture_input =
  pi_stepId :: string
  pi_missionId :: string
  pi_baseline :: baseline_input
  pi_evidence :: "evidence list"

record verify_input =
  vi_id :: string
  vi_stepId :: string
  vi_missionId :: string
  vi_baseline :: baseline_input
  vi_criteria :: "criterion list"
  vi_evidence :: "evidence list"
  vi_evidenceIds :: "string list"
  vi_note :: string

record abort_input =
  ai_operatorConfirmed :: bool
  ai_reason :: string
  ai_evidence :: "evidence list"

record off_course_input =
  oi_stepId :: string
  oi_reason :: string
  oi_evidence :: "evidence list"

section \<open>Limits and patterns\<close>

definition DELIVERY_RUN_VERSION :: int where "DELIVERY_RUN_VERSION = 1"

definition ABORTABLE_CONDITIONS :: "run_condition list" where
  "ABORTABLE_CONDITIONS = [C_preparing, C_active, C_awaiting_verification, C_blocked,
     C_off_course, C_reconcile_required]"

definition EVIDENCE_TYPES :: "string list" where
  "EVIDENCE_TYPES = [''baseline'', ''diff'', ''command'', ''test'', ''review'']"

definition EVIDENCE_OUTCOMES :: "string list" where
  "EVIDENCE_OUTCOMES = [''applied'', ''passed'', ''failed'', ''outcome_unknown'']"

definition CRITERION_OUTCOMES :: "string list" where
  "CRITERION_OUTCOMES = [''passed'', ''failed'', ''not_run'']"

definition run_id_pattern :: "string \<Rightarrow> bool" where
  "run_id_pattern s = id_pattern ''run-'' lower_id_start lower_id_char 7 63 s"

definition plan_id_pattern :: "string \<Rightarrow> bool" where
  "plan_id_pattern s = id_pattern ''plan-'' lower_id_start lower_id_char 7 63 s"

definition step_id_pattern :: "string \<Rightarrow> bool" where
  "step_id_pattern s = id_pattern ''STEP-'' upper_id_start upper_id_char 0 39 s"

definition acceptance_id_pattern :: "string \<Rightarrow> bool" where
  "acceptance_id_pattern s = id_pattern ''AC-'' upper_id_start upper_id_char 0 39 s"

definition evidence_id_pattern :: "string \<Rightarrow> bool" where
  "evidence_id_pattern s = id_pattern ''EVD-'' upper_id_start upper_id_char 2 63 s"

definition verification_id_pattern :: "string \<Rightarrow> bool" where
  "verification_id_pattern s = id_pattern ''verification-'' lower_id_start lower_id_char 7 63 s"

text \<open>\<open>/^mission-[a-z0-9-]{8,64}$/\<close>: no separate class for the first character.\<close>

definition mission_id_pattern :: "string \<Rightarrow> bool" where
  "mission_id_pattern s \<longleftrightarrow> starts_with ''mission-'' s \<and>
     (let r = drop 8 s in list_all lower_id_char r \<and> 8 \<le> length r \<and> length r \<le> 64)"

definition outbox_id_pattern :: "string \<Rightarrow> bool" where
  "outbox_id_pattern s \<longleftrightarrow> starts_with ''outbox-'' s \<and>
     (let r = drop 7 s in list_all is_hex r \<and> length r = 32)"

section \<open>Checks on values\<close>

definition dr_assertText :: "string \<Rightarrow> error \<Rightarrow> bool \<Rightarrow> nat \<Rightarrow> error option" where
  "dr_assertText value e required maximum = throws
     [throw_if ((required \<and> value = []) \<or> maximum < length value) e,
      throw_if (list_ex is_control value) dr_control_characters_not_allowed]"

definition dr_timestamp :: "string \<Rightarrow> string result" where
  "dr_timestamp value =
     (let normalized = js_inline value in
      if valid_timestamp normalized then Inr normalized else Inl dr_timestamp_invalid)"

definition dr_assertDigest :: "string \<Rightarrow> error \<Rightarrow> error option" where
  "dr_assertDigest value e = throw_if (\<not> digest_pattern value) e"

definition dr_uniqueStrings ::
  "string list \<Rightarrow> (string \<Rightarrow> bool) \<Rightarrow> error \<Rightarrow> nat \<Rightarrow> error option" where
  "dr_uniqueStrings values pattern e maxItems =
     throw_if (maxItems < length values \<or> \<not> list_all pattern values \<or> \<not> distinct values) e"

definition dr_normalizedUniqueIds ::
  "string list \<Rightarrow> (string \<Rightarrow> bool) \<Rightarrow> error \<Rightarrow> nat \<Rightarrow> string list result" where
  "dr_normalizedUniqueIds values pattern e maxItems =
     guard (throw_if (maxItems < length values) e)
       (let ids = map (\<lambda>v. to_upper (js_inline v)) values
        in guard (throw_if (\<not> list_all pattern ids) e) (Inr (push_all_new [] ids)))"

definition dr_normalizedScopePath :: "string \<Rightarrow> string result" where
  "dr_normalizedScopePath value =
     (let candidate = replace_char (CHR 0x5C) (CHR ''/'') (js_inline value);
          normalized = path_normalize candidate;
          segments = split_at (CHR ''/'') normalized
      in guard (throws
           [dr_assertText candidate dr_allowed_path_invalid True 512,
            throw_if (candidate = [] \<or> normalized = ''.'' \<or> normalized \<noteq> candidate
              \<or> path_is_absolute normalized \<or> ''..'' \<in> set segments \<or> ''.git'' \<in> set segments)
              dr_allowed_path_invalid])
          (Inr normalized))"

definition dr_normalizedScopePaths :: "string list \<Rightarrow> string list result" where
  "dr_normalizedScopePaths values =
     guard (throw_if (values = [] \<or> 100 < length values) dr_allowed_paths_invalid)
       (attempt (map_result dr_normalizedScopePath values) (\<lambda>ps. Inr (push_all_new [] ps)))"

definition dr_normalizedApprovedScope :: "string \<Rightarrow> string result" where
  "dr_normalizedApprovedScope candidate =
     (let normalized = stripScope candidate in
      guard (throws
        [throw_if (scopeMalformed normalized) dr_baseline_scope_invalid,
         throw_if (candidate \<noteq> normalized) dr_baseline_approved_scope_not_canonical])
        (Inr normalized))"

definition dr_normalizedApprovedScopes :: "string list \<Rightarrow> string list result" where
  "dr_normalizedApprovedScopes values =
     guard (throw_if (128 < length values) dr_baseline_approved_scopes_invalid)
       (attempt (map_result dr_normalizedApprovedScope values) (\<lambda>scopes.
          guard (throws
            [throw_if (\<not> distinct scopes) dr_baseline_approved_scope_duplicate,
             throw_if (sort scopes \<noteq> scopes) dr_baseline_approved_scopes_not_sorted])
            (Inr scopes)))"

text \<open>Errors of the metadata validator are renamed to this module's prefix.\<close>

fun dr_metadata_error :: "error \<Rightarrow> error" where
  "dr_metadata_error (Error c) =
     (if starts_with ''workspace_baseline_'' c
      then Error (''delivery_run_baseline_'' @ drop (length ''workspace_baseline_'') c)
      else Error ''delivery_run_baseline_git_metadata_invalid'')"

definition dr_normalizedGitMetadata ::
  "git_metadata \<Rightarrow> string \<Rightarrow> string \<Rightarrow> string \<Rightarrow> bool \<Rightarrow> git_metadata result" where
  "dr_normalizedGitMetadata value repoRoot head branch detached =
     (case validateWorkspaceGitMetadata value (Some repoRoot) (Some head) (Some branch) (Some detached) of
        Inl e \<Rightarrow> Inl (dr_metadata_error e)
      | Inr m \<Rightarrow> guard (throw_if (gm_sparseCheckout m \<or> gm_sparseIndex m)
                   dr_baseline_git_sparse_state_rejected) (Inr m))"

definition dr_normalizedRepoPath :: "string \<Rightarrow> error \<Rightarrow> bool \<Rightarrow> string result" where
  "dr_normalizedRepoPath value e allowEmpty =
     (let candidate = replace_char (CHR 0x5C) (CHR ''/'') value in
      if allowEmpty \<and> candidate = [] then Inr []
      else if candidate = [] \<or> CHR 0x00 \<in> set candidate \<or> path_is_absolute candidate
        \<or> (\<exists>w \<in> set (split_at (CHR ''/'') candidate). w = [] \<or> w = ''.'' \<or> w = ''..'')
      then Inl e else Inr candidate)"

definition dr_normalizedBaselineEntry :: "baseline_entry \<Rightarrow> baseline_entry result" where
  "dr_normalizedBaselineEntry v =
     attempt (dr_normalizedRepoPath (be_path v) dr_baseline_entry_invalid False) (\<lambda>p.
     attempt (dr_normalizedRepoPath (be_originalPath v) dr_baseline_entry_invalid True) (\<lambda>op.
     (let entry = v\<lparr>be_path := p, be_originalPath := op,
                    be_type := to_lower (js_inline (be_type v)),
                    be_sha256 := to_lower (js_inline (be_sha256 v))\<rparr>
      in guard (throw_if (\<not> status_pattern (be_status entry) \<or> be_type entry \<notin> set ENTRY_TYPES
             \<or> \<not> safe_integer (be_size entry) \<or> be_size entry < 0
             \<or> \<not> digest_pattern (be_sha256 entry)) dr_baseline_entry_invalid)
          (Inr entry))))"

definition dr_normalizedInstruction :: "baseline_instruction \<Rightarrow> baseline_instruction result" where
  "dr_normalizedInstruction v =
     (let instruction = v\<lparr>bi_path := replace_char (CHR 0x5C) (CHR ''/'') (bi_path v)\<rparr> in
      guard (throw_if (bi_path instruction = [] \<or> CHR 0x00 \<in> set (bi_path instruction)
               \<or> \<not> safe_integer (bi_size instruction) \<or> bi_size instruction < 0
               \<or> \<not> digest_pattern (bi_sha256 instruction)) dr_baseline_instruction_invalid)
        (Inr instruction))"

definition dr_expectedWorkspacePrefix :: "string \<Rightarrow> string \<Rightarrow> string result" where
  "dr_expectedWorkspacePrefix repoRoot workspace =
     (let r = path_relative repoRoot workspace in
      if outside_relative r then Inl dr_baseline_workspace_invalid
      else Inr (join_with ''/'' (filter (\<lambda>w. w \<noteq> []) (split_at (CHR ''/'') r))))"

definition validateBaselineDigests :: "host \<Rightarrow> ('a) baseline_scheme \<Rightarrow> error option" where
  "validateBaselineDigests H b = throws
     [throw_if (bl_gitMetadataDigest b \<noteq> gitMetadataDigest_of H b) dr_baseline_git_metadata_mismatch,
      throw_if (bl_instructionsDigest b \<noteq> instructionsDigest_of H b) dr_baseline_instructions_mismatch,
      throw_if (bl_statusDigest b \<noteq> statusDigest_of H b) dr_baseline_status_mismatch,
      throw_if (bl_ignoredScopeDigest b \<noteq> ignoredScopeDigest_of H b)
        dr_baseline_ignored_scope_mismatch,
      throw_if (bl_workingTreeDigest b \<noteq> workingTreeDigest_of H b) dr_baseline_worktree_mismatch,
      throw_if (bl_manifestDigest b \<noteq> manifestDigest_of H b) dr_baseline_manifest_mismatch]"

section \<open>Baselines of a run\<close>

definition baselineDefinition :: "('a) baseline_scheme \<Rightarrow> json" where
  "baselineDefinition b = JObj
     [(''version'', JNum (bl_version b)), (''workspace'', JStr (bl_workspace b)),
      (''repoRoot'', JStr (bl_repoRoot b)), (''workspacePrefix'', JStr (bl_workspacePrefix b)),
      (''head'', JStr (bl_head b)), (''branch'', JStr (bl_branch b)),
      (''detached'', JBool (bl_detached b)),
      (''workingTreeDigest'', JStr (bl_workingTreeDigest b)),
      (''instructionsDigest'', JStr (bl_instructionsDigest b)),
      (''manifestDigest'', JStr (bl_manifestDigest b)),
      (''statusDigest'', JStr (bl_statusDigest b)), (''indexDigest'', JStr (bl_indexDigest b)),
      (''indexFlagsDigest'', JStr (bl_indexFlagsDigest b)),
      (''gitMetadata'', metadata_json (bl_gitMetadata b)),
      (''gitMetadataDigest'', JStr (bl_gitMetadataDigest b)),
      (''approvedScopes'', json_strings (bl_approvedScopes b)),
      (''ignoredScopeDigest'', JStr (bl_ignoredScopeDigest b)),
      (''entries'', JArr (map entry_json (bl_entries b))),
      (''instructions'', JArr (map instruction_json (bl_instructions b)))]"

definition workspaceBaselineDigest :: "host \<Rightarrow> ('a) baseline_scheme \<Rightarrow> string" where
  "workspaceBaselineDigest H b = canonicalSha256 H (baselineDefinition b)"

definition head_pattern :: "string \<Rightarrow> bool" where
  "head_pattern h \<longleftrightarrow> h = ''unborn'' \<or> (length h = 40 \<or> length h = 64) \<and> list_all is_hex h"

definition dr_validateWorkspaceBaseline :: "host \<Rightarrow> run_baseline \<Rightarrow> run_baseline result" where
  "dr_validateWorkspaceBaseline H v =
     guard (throws
       [throw_if (bl_version v \<noteq> WORKSPACE_BASELINE_VERSION) dr_baseline_version_unsupported,
        throw_if (\<not> path_is_absolute (bl_workspace v) \<or> \<not> path_is_absolute (bl_repoRoot v)
          \<or> path_normalize (bl_workspace v) \<noteq> bl_workspace v
          \<or> path_normalize (bl_repoRoot v) \<noteq> bl_repoRoot v) dr_baseline_workspace_invalid])
    (attempt (dr_expectedWorkspacePrefix (bl_repoRoot v) (bl_workspace v)) (\<lambda>prefix.
     guard (throws
       [throw_if (prefix \<noteq> bl_workspacePrefix v) dr_baseline_workspace_invalid,
        throw_if (\<not> head_pattern (bl_head v)) dr_baseline_head_invalid,
        dr_assertText (bl_branch v) dr_baseline_branch_invalid False 256])
    (attempt (dr_normalizedGitMetadata (bl_gitMetadata v) (bl_repoRoot v) (bl_head v)
                (bl_branch v) (bl_detached v)) (\<lambda>metadata.
     guard (throws
       [throw_if (canonicalSha256 H (metadata_json metadata)
            \<noteq> canonicalSha256 H (metadata_json (bl_gitMetadata v)))
          dr_baseline_git_metadata_invalid,
        error_of (dr_normalizedApprovedScopes (bl_approvedScopes v)),
        throw_if (\<not> list_all digest_pattern
            [bl_workingTreeDigest v, bl_instructionsDigest v, bl_manifestDigest v,
             bl_statusDigest v, bl_indexDigest v, bl_indexFlagsDigest v,
             bl_gitMetadataDigest v, bl_ignoredScopeDigest v]) dr_baseline_digest_invalid,
        throw_if (1000 < length (bl_entries v)) dr_baseline_entries_invalid,
        throw_if (32 < length (bl_instructions v)) dr_baseline_instructions_invalid])
    (attempt (map_result dr_normalizedBaselineEntry (bl_entries v)) (\<lambda>entries.
     attempt (map_result dr_normalizedInstruction (bl_instructions v)) (\<lambda>instructions.
     guard (throws
       [throw_if (canonicalSha256 H (JArr (map entry_json (sort_by (entry_order H) entries)))
            \<noteq> canonicalSha256 H (JArr (map entry_json (bl_entries v))))
          dr_baseline_entries_unsorted,
        throw_if (canonicalSha256 H (JArr (map instruction_json
              (sort_by (instruction_order H) instructions)))
            \<noteq> canonicalSha256 H (JArr (map instruction_json (bl_instructions v))))
          dr_baseline_instructions_unsorted,
        throw_if (\<not> distinct (map be_path (bl_entries v))) dr_baseline_entry_duplicate,
        throw_if (\<not> distinct (map bi_path (bl_instructions v))) dr_baseline_instruction_duplicate,
        validateBaselineDigests H v,
        throw_if (\<not> valid_timestamp (bl_capturedAt v)) dr_baseline_timestamp_invalid,
        dr_assertDigest (bl_digest v) dr_baseline_digest_invalid,
        throw_if (workspaceBaselineDigest H v \<noteq> bl_digest v) dr_baseline_digest_mismatch])
       (Inr v))))))))"

definition createWorkspaceBaseline :: "host \<Rightarrow> baseline_input \<Rightarrow> run_baseline result" where
  "createWorkspaceBaseline H v =
     guard (throws
       [throw_if (\<not> path_is_absolute (path_normalize (bl_workspace v))
          \<or> \<not> path_is_absolute (path_normalize (bl_repoRoot v))
          \<or> path_normalize (bl_workspace v) \<noteq> bl_workspace v
          \<or> path_normalize (bl_repoRoot v) \<noteq> bl_repoRoot v
          \<or> 4096 < length (bl_workspace v) \<or> 4096 < length (bl_repoRoot v))
          dr_baseline_workspace_invalid,
        throw_if (1000 < length (bl_entries v)) dr_baseline_entries_invalid,
        throw_if (32 < length (bl_instructions v)) dr_baseline_instructions_invalid])
    (attempt (map_result dr_normalizedBaselineEntry (bl_entries v)) (\<lambda>es.
     attempt (map_result dr_normalizedInstruction (bl_instructions v)) (\<lambda>is.
     (let entries = sort_by (entry_order H) es;
          instructions = sort_by (instruction_order H) is;
          head = to_lower (js_inline (bl_head v));
          branch = js_inline (bl_branch v)
      in guard (throws
           [throw_if (\<not> distinct (map be_path entries)) dr_baseline_entry_duplicate,
            throw_if (\<not> distinct (map bi_path instructions)) dr_baseline_instruction_duplicate,
            throw_if (\<not> head_pattern head) dr_baseline_head_invalid,
            dr_assertText branch dr_baseline_branch_invalid False 256])
        (attempt (dr_normalizedGitMetadata (bl_gitMetadata v) (bl_repoRoot v) head branch
                    (bl_detached v)) (\<lambda>gitMetadata.
         attempt (dr_normalizedApprovedScopes (bl_approvedScopes v)) (\<lambda>approvedScopes.
         attempt (dr_normalizedRepoPath (bl_workspacePrefix v)
                    dr_baseline_workspace_prefix_invalid True) (\<lambda>workspacePrefix.
         attempt (dr_timestamp (bl_capturedAt v)) (\<lambda>capturedAt.
         (let b = \<lparr>bl_version = bl_version v, bl_workspace = bl_workspace v,
               bl_repoRoot = bl_repoRoot v, bl_workspacePrefix = workspacePrefix,
               bl_head = head, bl_branch = branch, bl_detached = bl_detached v,
               bl_workingTreeDigest = to_lower (js_inline (bl_workingTreeDigest v)),
               bl_instructionsDigest = to_lower (js_inline (bl_instructionsDigest v)),
               bl_manifestDigest = to_lower (js_inline (bl_manifestDigest v)),
               bl_statusDigest = to_lower (js_inline (bl_statusDigest v)),
               bl_indexDigest = to_lower (js_inline (bl_indexDigest v)),
               bl_indexFlagsDigest = to_lower (js_inline (bl_indexFlagsDigest v)),
               bl_gitMetadata = gitMetadata,
               bl_gitMetadataDigest = to_lower (js_inline (bl_gitMetadataDigest v)),
               bl_approvedScopes = approvedScopes,
               bl_ignoredScopeDigest = to_lower (js_inline (bl_ignoredScopeDigest v)),
               bl_entries = entries, bl_instructions = instructions, bl_capturedAt = capturedAt,
               bl_digest = []\<rparr>;
             digest = workspaceBaselineDigest H b
          in attempt (dr_expectedWorkspacePrefix (bl_repoRoot v) (bl_workspace v)) (\<lambda>expected.
             guard (throws
               [throw_if (workspacePrefix \<noteq> expected) dr_baseline_workspace_prefix_invalid,
                throw_if (case bl_givenDigest v of None \<Rightarrow> False
                   | Some d \<Rightarrow> to_lower (js_inline d) \<noteq> digest) dr_baseline_digest_mismatch])
               (dr_validateWorkspaceBaseline H (b\<lparr>bl_digest := digest\<rparr>)))))))))))))"

section \<open>Evidence, tasks and the outbox\<close>

definition deliveryRunMissionBindingKey ::
  "host \<Rightarrow> string \<Rightarrow> string \<Rightarrow> string \<Rightarrow> string \<Rightarrow> string" where
  "deliveryRunMissionBindingKey H runId planId planDigest stepId = canonicalSha256 H (JObj
     [(''version'', JNum DELIVERY_RUN_VERSION), (''role'', JStr ''implementation''),
      (''runId'', JStr runId), (''planId'', JStr planId), (''planDigest'', JStr planDigest),
      (''stepId'', JStr stepId)])"

definition validateEvidence :: "evidence \<Rightarrow> error option" where
  "validateEvidence v = throws
     [throw_if (\<not> evidence_id_pattern (ev_id v) \<or> ev_type v \<notin> set EVIDENCE_TYPES
        \<or> ev_outcome v \<notin> set EVIDENCE_OUTCOMES) dr_evidence_invalid,
      dr_assertText (ev_producer v) dr_evidence_invalid True 160,
      dr_assertText (ev_summary v) dr_evidence_invalid True 800,
      dr_assertText (ev_contentRef v) dr_evidence_invalid False 512,
      throw_if ((ev_contentRef v \<noteq> []) \<noteq> (ev_contentSha256 v \<noteq> [])) dr_evidence_content_invalid,
      throw_if (ev_contentSha256 v \<noteq> [] \<and> \<not> digest_pattern (ev_contentSha256 v))
        dr_evidence_content_invalid,
      throw_if (\<not> valid_timestamp (ev_createdAt v)) dr_evidence_invalid]"

definition createEvidence :: "evidence \<Rightarrow> evidence result" where
  "createEvidence v =
     attempt (dr_timestamp (ev_createdAt v)) (\<lambda>createdAt.
     (let e = \<lparr>ev_id = to_upper (js_inline (ev_id v)), ev_type = to_lower (js_inline (ev_type v)),
               ev_producer = js_inline (ev_producer v),
               ev_outcome = to_lower (js_inline (ev_outcome v)),
               ev_summary = js_text (ev_summary v), ev_contentRef = js_inline (ev_contentRef v),
               ev_contentSha256 = to_lower (js_inline (ev_contentSha256 v)),
               ev_createdAt = createdAt\<rparr>
      in guard (validateEvidence e) (Inr e)))"

definition emptyImplementation :: implementation where
  "emptyImplementation = \<lparr>im_baseline = None, im_evidenceIds = [], im_capturedAt = None\<rparr>"

definition createTask ::
  "host \<Rightarrow> string \<Rightarrow> string \<Rightarrow> string \<Rightarrow> string \<Rightarrow> nat \<Rightarrow> task_input \<Rightarrow> run_task result" where
  "createTask H runId planId planDigest startBaselineDigest sequence v =
     (let stepId = to_upper (js_inline (ti_stepId v));
          stepDigest = to_lower (js_inline (ti_stepDigest v));
          missionDefinitionDigest = to_lower (js_inline (ti_missionDefinitionDigest v))
      in guard (throws
           [throw_if (\<not> step_id_pattern stepId) dr_step_id_invalid,
            dr_assertDigest stepDigest dr_step_digest_invalid,
            dr_assertDigest missionDefinitionDigest dr_mission_definition_digest_invalid])
        (attempt (dr_normalizedUniqueIds (ti_acceptanceIds v) acceptance_id_pattern
                    dr_task_acceptance_ids_invalid 120) (\<lambda>acceptanceIds.
         guard (throw_if (acceptanceIds = []) dr_task_acceptance_ids_invalid)
        (attempt (dr_normalizedScopePaths (ti_allowedPaths v)) (\<lambda>allowedPaths.
         Inr \<lparr>tk_stepId = stepId, tk_sequence = int sequence, tk_stepDigest = stepDigest,
              tk_acceptanceIds = acceptanceIds, tk_allowedPaths = allowedPaths,
              tk_expectedBaselineDigest = (if sequence = 0 then startBaselineDigest else []),
              tk_state = T_pending,
              tk_missionBindingKey = deliveryRunMissionBindingKey H runId planId planDigest stepId,
              tk_missionDefinitionDigest = missionDefinitionDigest,
              tk_missionId = None, tk_implementation = emptyImplementation,
              tk_verificationId = None\<rparr>)))))"

definition outbox_id_of :: "run_task \<Rightarrow> string" where
  "outbox_id_of task = ''outbox-'' @ take 32 (tk_missionBindingKey task)"

definition createOutbox :: "run_task \<Rightarrow> string \<Rightarrow> outbox_item" where
  "createOutbox task at =
     \<lparr>ob_id = outbox_id_of task, ob_kind = ''mission.ensure'', ob_stepId = tk_stepId task,
      ob_bindingKey = tk_missionBindingKey task,
      ob_payloadDigest = tk_missionDefinitionDigest task,
      ob_state = (if tk_sequence task = 0 then O_pending else O_held),
      ob_missionId = None, ob_error = [], ob_updatedAt = at\<rparr>"

definition expectedDeliveryLevel :: "delivery_run \<Rightarrow> delivery_level" where
  "expectedDeliveryLevel run =
     (if list_all (\<lambda>t. tk_state t = T_verified) (rn_tasks run) then L_verified_locally
      else if list_ex (\<lambda>t. im_baseline (tk_implementation t) \<noteq> None) (rn_tasks run)
      then L_implemented_locally else L_planned)"

section \<open>Validation of a run\<close>

definition implementation_checks ::
  "host \<Rightarrow> implementation \<Rightarrow> delivery_run \<Rightarrow> error option" where
  "implementation_checks H i run =
     (case im_baseline i of
        None \<Rightarrow> throw_if (im_evidenceIds i \<noteq> [] \<or> im_capturedAt i \<noteq> None) dr_implementation_invalid
      | Some b \<Rightarrow> throws
          [error_of (dr_validateWorkspaceBaseline H b),
           throw_if (bl_workspace b \<noteq> bl_workspace (rn_startBaseline run)
             \<or> bl_repoRoot b \<noteq> bl_repoRoot (rn_startBaseline run)
             \<or> bl_workspacePrefix b \<noteq> bl_workspacePrefix (rn_startBaseline run))
             dr_implementation_baseline_identity_changed,
           throw_if (case im_capturedAt i of None \<Rightarrow> True | Some at \<Rightarrow> \<not> valid_timestamp at)
             dr_implementation_invalid,
           throw_if (im_capturedAt i \<noteq> Some (bl_capturedAt b)) dr_implementation_invalid])"

definition validateTask ::
  "host \<Rightarrow> run_task \<Rightarrow> delivery_run \<Rightarrow> string list \<Rightarrow> string list \<Rightarrow> error option" where
  "validateTask H task run evidenceIds verificationIds = throws
     [throw_if (\<not> step_id_pattern (tk_stepId task) \<or> \<not> safe_integer (tk_sequence task)
        \<or> tk_sequence task < 0) dr_task_invalid,
      dr_assertDigest (tk_stepDigest task) dr_task_invalid,
      dr_uniqueStrings (tk_acceptanceIds task) acceptance_id_pattern dr_task_invalid 120,
      throw_if (tk_acceptanceIds task = []) dr_task_invalid,
      throw_if (tk_allowedPaths task = [] \<or> 100 < length (tk_allowedPaths task)) dr_task_invalid,
      each_indexed (\<lambda>i p. case dr_normalizedScopePath p of Inl e \<Rightarrow> Some e
        | Inr n \<Rightarrow> throw_if (n \<noteq> p \<or> seen_before (\<lambda>x. x) (tk_allowedPaths task) i) dr_task_invalid)
        (tk_allowedPaths task),
      throw_if (tk_expectedBaselineDigest task \<noteq> []
        \<and> \<not> digest_pattern (tk_expectedBaselineDigest task)) dr_task_invalid,
      throw_if (tk_missionBindingKey task \<noteq> deliveryRunMissionBindingKey H (rn_id run)
        (rn_planId run) (rn_planDigest run) (tk_stepId task)) dr_task_binding_invalid,
      dr_assertDigest (tk_missionDefinitionDigest task) dr_task_invalid,
      throw_if (case tk_missionId task of None \<Rightarrow> False | Some m \<Rightarrow> \<not> mission_id_pattern m)
        dr_task_mission_invalid,
      dr_uniqueStrings (im_evidenceIds (tk_implementation task)) evidence_id_pattern
        dr_implementation_invalid 128,
      throw_if (\<not> set (im_evidenceIds (tk_implementation task)) \<subseteq> set evidenceIds)
        dr_evidence_reference_unknown,
      implementation_checks H (tk_implementation task) run,
      throw_if (case tk_verificationId task of None \<Rightarrow> False
        | Some v \<Rightarrow> \<not> verification_id_pattern v) dr_task_verification_invalid,
      throw_if (case tk_verificationId task of None \<Rightarrow> False
        | Some v \<Rightarrow> v \<notin> set verificationIds) dr_task_verification_invalid,
      throw_if (tk_state task \<in> {T_mission_linked, T_implementation_captured, T_verified, T_failed}
        \<and> tk_missionId task = None) dr_task_lifecycle_invalid,
      throw_if (tk_state task \<in> {T_implementation_captured, T_verified, T_failed}
        \<and> im_baseline (tk_implementation task) = None) dr_task_lifecycle_invalid,
      throw_if (tk_state task \<in> {T_verified, T_failed} \<and> tk_verificationId task = None)
        dr_task_lifecycle_invalid]"

definition validateOutbox :: "outbox_item \<Rightarrow> run_task \<Rightarrow> error option" where
  "validateOutbox item task = throws
     [throw_if (\<not> outbox_id_pattern (ob_id item) \<or> ob_id item \<noteq> outbox_id_of task
        \<or> ob_kind item \<noteq> ''mission.ensure'' \<or> ob_stepId item \<noteq> tk_stepId task
        \<or> ob_bindingKey item \<noteq> tk_missionBindingKey task
        \<or> ob_payloadDigest item \<noteq> tk_missionDefinitionDigest task
        \<or> \<not> valid_timestamp (ob_updatedAt item)) dr_outbox_invalid,
      throw_if (case ob_missionId item of None \<Rightarrow> False | Some m \<Rightarrow> \<not> mission_id_pattern m)
        dr_outbox_invalid,
      dr_assertText (ob_error item) dr_outbox_invalid False 500,
      (if ob_state item = O_applied
       then throw_if (ob_missionId item = None \<or> ob_missionId item \<noteq> tk_missionId task
              \<or> tk_state task = T_pending) dr_outbox_lifecycle_invalid
       else throw_if (ob_missionId item \<noteq> None) dr_outbox_lifecycle_invalid),
      throw_if (ob_state item = O_reconcile_required \<and> tk_state task \<noteq> T_reconcile_required)
        dr_outbox_lifecycle_invalid,
      throw_if (ob_state item = O_blocked \<and> tk_state task \<noteq> T_off_course)
        dr_outbox_lifecycle_invalid,
      throw_if (ob_state item = O_canceled \<and> (tk_state task \<noteq> T_aborted \<or> ob_error item = []))
        dr_outbox_lifecycle_invalid,
      throw_if (ob_error item \<noteq> [] \<and> ob_state item \<notin> {O_reconcile_required, O_blocked, O_canceled})
        dr_outbox_lifecycle_invalid]"

definition criterion_checks ::
  "run_task \<Rightarrow> criterion list \<Rightarrow> string list \<Rightarrow> error option" where
  "criterion_checks task criteria evidenceIds = each_indexed (\<lambda>i c. throws
     [throw_if (cr_acceptanceId c \<notin> set (tk_acceptanceIds task)
        \<or> seen_before cr_acceptanceId criteria i \<or> cr_outcome c \<notin> set CRITERION_OUTCOMES)
        dr_verification_criterion_invalid,
      dr_uniqueStrings (cr_evidenceIds c) evidence_id_pattern dr_verification_criterion_invalid 128,
      throw_if (\<not> set (cr_evidenceIds c) \<subseteq> set evidenceIds) dr_evidence_reference_unknown]) criteria"

definition implementation_digest :: "run_task \<Rightarrow> string option" where
  "implementation_digest task = map_option bl_digest (im_baseline (tk_implementation task))"

definition validateVerification ::
  "verification \<Rightarrow> delivery_run \<Rightarrow> run_task \<Rightarrow> string list \<Rightarrow> error option" where
  "validateVerification record run task evidenceIds = throws
     [throw_if (\<not> verification_id_pattern (vr_id record) \<or> vr_stepId record \<noteq> tk_stepId task
        \<or> vr_planDigest record \<noteq> rn_planDigest run
        \<or> tk_missionId task \<noteq> Some (vr_implementationMissionId record)
        \<or> \<not> mission_id_pattern (vr_implementationMissionId record)
        \<or> vr_outcome record \<notin> {''passed'', ''failed''}) dr_verification_invalid,
      throw_if (vr_verifier record \<noteq> ''operator'') dr_verifier_invalid,
      throw_if (length (vr_criteria record) \<noteq> length (tk_acceptanceIds task)
        \<or> 120 < length (vr_criteria record)) dr_verification_criteria_invalid,
      criterion_checks task (vr_criteria record) evidenceIds,
      dr_assertDigest (vr_beforeBaselineDigest record) dr_verification_baseline_invalid,
      dr_assertDigest (vr_afterBaselineDigest record) dr_verification_baseline_invalid,
      throw_if (implementation_digest task \<noteq> Some (vr_beforeBaselineDigest record)
        \<or> implementation_digest task \<noteq> Some (vr_afterBaselineDigest record))
        dr_verification_baseline_changed,
      dr_uniqueStrings (vr_evidenceIds record) evidence_id_pattern dr_verification_invalid 128,
      throw_if (\<not> set (vr_evidenceIds record) \<subseteq> set evidenceIds) dr_evidence_reference_unknown,
      dr_assertText (vr_note record) dr_verification_invalid False 800,
      throw_if (vr_outcome record = ''passed''
        \<and> list_ex (\<lambda>c. cr_outcome c \<noteq> ''passed'') (vr_criteria record))
        dr_verification_outcome_invalid,
      throw_if (vr_outcome record = ''failed''
        \<and> list_all (\<lambda>c. cr_outcome c = ''passed'') (vr_criteria record))
        dr_verification_outcome_invalid,
      throw_if (\<not> valid_timestamp (vr_verifiedAt record)) dr_verification_invalid]"

definition operator_evidence :: "evidence list \<Rightarrow> string \<Rightarrow> string \<Rightarrow> bool" where
  "operator_evidence index at i =
     (case find (\<lambda>e. ev_id e = i) index of
        None \<Rightarrow> False
      | Some e \<Rightarrow> ev_type e = ''review'' \<and> ev_outcome e = ''applied'' \<and> ev_createdAt e = at)"

definition validateAbort :: "abort_record \<Rightarrow> delivery_run \<Rightarrow> error option" where
  "validateAbort a run = throws
     [throw_if (\<not> ab_operatorConfirmed a \<or> ab_fromCondition a \<notin> set ABORTABLE_CONDITIONS)
        dr_abort_invalid,
      dr_assertText (ab_reason a) dr_abort_reason_invalid True 800,
      dr_uniqueStrings (ab_evidenceIds a) evidence_id_pattern dr_abort_evidence_invalid 128,
      throw_if (ab_evidenceIds a = []) dr_abort_evidence_invalid,
      throw_if (\<not> set (ab_evidenceIds a) \<subseteq> set (map ev_id (rn_evidenceIndex run)))
        dr_evidence_reference_unknown,
      throw_if (\<not> valid_timestamp (ab_abortedAt a) \<or> ab_abortedAt a \<noteq> rn_updatedAt run)
        dr_abort_invalid,
      throw_if (\<not> list_ex (operator_evidence (rn_evidenceIndex run) (ab_abortedAt a))
          (ab_evidenceIds a)) dr_abort_operator_evidence_required]"

text \<open>The checks of \<open>validateDeliveryRun\<close>, in the source's order and in five groups.\<close>

definition run_header_checks :: "host \<Rightarrow> delivery_run \<Rightarrow> error option" where
  "run_header_checks H v = throws
     [throw_if (rn_version v \<noteq> DELIVERY_RUN_VERSION) dr_version_unsupported,
      throw_if (\<not> run_id_pattern (rn_id v)) dr_id_invalid,
      throw_if (\<not> safe_integer (rn_revision v) \<or> rn_revision v < 1) dr_revision_invalid,
      throw_if (\<not> plan_id_pattern (rn_planId v)) dr_plan_id_invalid,
      throw_if (\<not> safe_integer (rn_planRevision v) \<or> rn_planRevision v < 1)
        dr_plan_revision_invalid,
      dr_assertDigest (rn_planDigest v) dr_plan_digest_invalid,
      dr_assertText (rn_workspace v) dr_workspace_invalid True 4096,
      throw_if (\<not> path_is_absolute (rn_workspace v)
        \<or> path_normalize (rn_workspace v) \<noteq> rn_workspace v) dr_workspace_invalid,
      error_of (dr_validateWorkspaceBaseline H (rn_startBaseline v)),
      throw_if (bl_workspace (rn_startBaseline v) \<noteq> rn_workspace v)
        dr_baseline_workspace_mismatch,
      dr_assertText (rn_blocker v) dr_blocker_invalid False 800,
      throw_if (\<not> valid_timestamp (rn_createdAt v) \<or> \<not> valid_timestamp (rn_updatedAt v)
        \<or> date_ms (rn_updatedAt v) < date_ms (rn_createdAt v)) dr_timestamp_invalid]"

definition run_index_checks :: "delivery_run \<Rightarrow> error option" where
  "run_index_checks v = throws
     [throw_if (512 < length (rn_evidenceIndex v)) dr_evidence_index_invalid,
      each_indexed (\<lambda>i e. throws
        [validateEvidence e,
         throw_if (seen_before ev_id (rn_evidenceIndex v) i) dr_evidence_duplicate])
        (rn_evidenceIndex v),
      throw_if (120 < length (rn_verificationRecords v)) dr_verifications_invalid,
      each_indexed (\<lambda>i r. throw_if (\<not> verification_id_pattern (vr_id r)
         \<or> seen_before vr_id (rn_verificationRecords v) i) dr_verification_duplicate)
        (rn_verificationRecords v),
      throw_if (rn_tasks v = [] \<or> 80 < length (rn_tasks v)) dr_tasks_invalid,
      throw_if (length (rn_outbox v) \<noteq> length (rn_tasks v)) dr_outbox_invalid]"

text \<open>What the loop over the tasks checks between a task, its outbox item and its predecessor.\<close>

definition run_task_checks :: "host \<Rightarrow> delivery_run \<Rightarrow> nat \<Rightarrow> run_task \<Rightarrow> error option" where
  "run_task_checks H v i task =
     (let item = rn_outbox v ! i; previous = rn_tasks v ! (i - 1) in throws
     [validateTask H task v (map ev_id (rn_evidenceIndex v)) (map vr_id (rn_verificationRecords v)),
      throw_if (tk_sequence task \<noteq> int i \<or> seen_before tk_stepId (rn_tasks v) i)
        dr_task_order_invalid,
      validateOutbox item task,
      throw_if (i = 0 \<and> tk_expectedBaselineDigest task \<noteq> bl_digest (rn_startBaseline v))
        dr_task_baseline_invalid,
      (if rn_condition v = C_aborted
       then (if tk_state task = T_verified
             then throw_if (ob_state item \<noteq> O_applied) dr_abort_task_invalid
             else throw_if (tk_state task \<noteq> T_aborted \<or> ob_state item \<notin> {O_applied, O_canceled})
                    dr_abort_task_invalid)
       else throw_if (tk_state task = T_aborted \<or> ob_state item = O_canceled) dr_abort_task_invalid),
      throw_if (0 < i \<and> Some (tk_expectedBaselineDigest task) \<noteq>
          (if tk_state previous = T_verified then implementation_digest previous else Some []))
        dr_task_baseline_invalid,
      throw_if (0 < i \<and> rn_condition v \<noteq> C_aborted \<and>
          (tk_state previous = T_verified \<and> tk_state task = T_pending
           \<and> ob_state item \<notin> {O_pending, O_reconcile_required, O_applied, O_blocked}
           \<or> tk_state previous \<noteq> T_verified \<and> ob_state item \<noteq> O_held))
        dr_outbox_sequence_invalid])"

definition run_record_checks :: "delivery_run \<Rightarrow> error option" where
  "run_record_checks v = throws (map (\<lambda>r.
     case find (\<lambda>t. tk_stepId t = vr_stepId r) (rn_tasks v) of
       None \<Rightarrow> Some dr_verification_step_unknown
     | Some task \<Rightarrow> throws
         [validateVerification r v task (map ev_id (rn_evidenceIndex v)),
          throw_if (tk_verificationId task \<noteq> Some (vr_id r)) dr_verification_task_mismatch])
     (rn_verificationRecords v))"

definition run_delivery_checks :: "delivery_run \<Rightarrow> error option" where
  "run_delivery_checks v = throws
     [throw_if (1 < length (filter (\<lambda>ob. ob_state ob \<in> {O_pending, O_reconcile_required}) (rn_outbox v)))
        dr_outbox_sequence_invalid,
      throw_if (dl_level (rn_delivery v) \<noteq> expectedDeliveryLevel v) dr_delivery_invalid,
      dr_uniqueStrings (dl_evidenceIds (rn_delivery v)) evidence_id_pattern dr_delivery_invalid 128,
      throw_if (\<not> set (dl_evidenceIds (rn_delivery v)) \<subseteq> set (map ev_id (rn_evidenceIndex v)))
        dr_evidence_reference_unknown,
      throw_if (\<not> valid_timestamp (dl_updatedAt (rn_delivery v))
        \<or> date_ms (rn_updatedAt v) < date_ms (dl_updatedAt (rn_delivery v))) dr_delivery_invalid]"

definition run_abort_checks :: "delivery_run \<Rightarrow> error option" where
  "run_abort_checks v =
     (if rn_condition v = C_aborted
      then (case rn_abort v of
              None \<Rightarrow> Some dr_abort_invalid
            | Some a \<Rightarrow> throws
                [throw_if (\<not> list_ex (\<lambda>t. tk_state t = T_aborted) (rn_tasks v)) dr_abort_invalid,
                 validateAbort a v,
                 throw_if (rn_blocker v \<noteq> ab_reason a) dr_abort_reason_invalid,
                 throw_if (\<not> list_all (\<lambda>ob. ob_state ob = O_canceled \<longrightarrow>
                     ob_error ob = take 500 (ab_reason a) \<and> ob_updatedAt ob = ab_abortedAt a)
                     (rn_outbox v)) dr_abort_outbox_invalid])
      else throw_if (rn_abort v \<noteq> None) dr_abort_invalid)"

definition run_condition_checks :: "delivery_run \<Rightarrow> error option" where
  "run_condition_checks v = throws
     [throw_if (rn_condition v = C_verified
        \<and> \<not> list_all (\<lambda>t. tk_state t = T_verified) (rn_tasks v)) dr_condition_invalid,
      throw_if (rn_condition v = C_awaiting_verification
        \<and> \<not> list_ex (\<lambda>t. tk_state t = T_implementation_captured) (rn_tasks v)) dr_condition_invalid,
      throw_if (rn_condition v = C_reconcile_required
        \<and> \<not> list_ex (\<lambda>t. tk_state t = T_reconcile_required) (rn_tasks v)) dr_condition_invalid,
      throw_if (rn_condition v = C_off_course
        \<and> \<not> list_ex (\<lambda>t. tk_state t = T_off_course) (rn_tasks v)) dr_condition_invalid,
      throw_if (rn_condition v = C_blocked
        \<and> \<not> list_ex (\<lambda>t. tk_state t = T_failed) (rn_tasks v)) dr_condition_invalid,
      throw_if ((rn_condition v \<in> {C_blocked, C_off_course, C_reconcile_required, C_aborted})
        \<noteq> (rn_blocker v \<noteq> [])) dr_blocker_invalid]"

definition validateDeliveryRun :: "host \<Rightarrow> delivery_run \<Rightarrow> delivery_run result" where
  "validateDeliveryRun H v = guard (throws
     [run_header_checks H v,
      run_index_checks v,
      each_indexed (run_task_checks H v) (rn_tasks v),
      run_record_checks v,
      run_delivery_checks v,
      run_abort_checks v,
      run_condition_checks v]) (Inr v)"

section \<open>Operations\<close>

definition createDeliveryRun :: "host \<Rightarrow> create_input \<Rightarrow> string \<Rightarrow> delivery_run result" where
  "createDeliveryRun H v at =
     attempt (dr_timestamp at) (\<lambda>createdAt.
     (let i = to_lower (js_inline (ci_id v));
          planId = to_lower (js_inline (ci_planId v));
          planDigest = to_lower (js_inline (ci_planDigest v));
          workspace = path_normalize (js_inline (ci_workspace v))
      in guard (throws
           [throw_if (\<not> run_id_pattern i) dr_id_invalid,
            throw_if (\<not> plan_id_pattern planId) dr_plan_id_invalid,
            throw_if (\<not> safe_integer (ci_planRevision v) \<or> ci_planRevision v < 1)
              dr_plan_revision_invalid,
            dr_assertDigest planDigest dr_plan_digest_invalid,
            throw_if (\<not> path_is_absolute workspace \<or> workspace \<noteq> js_inline (ci_workspace v)
              \<or> 4096 < length workspace) dr_workspace_invalid])
        (attempt (createWorkspaceBaseline H (ci_startBaseline v)) (\<lambda>startBaseline.
         guard (throw_if (ci_tasks v = [] \<or> 80 < length (ci_tasks v)) dr_tasks_invalid)
        (attempt (map_result (\<lambda>(n, t). createTask H i planId planDigest (bl_digest startBaseline) n t)
                    (enumerate 0 (ci_tasks v))) (\<lambda>tasks.
         guard (throw_if (\<not> distinct (map tk_stepId tasks)) dr_step_id_duplicate)
           (validateDeliveryRun H
              \<lparr>rn_version = DELIVERY_RUN_VERSION, rn_id = i, rn_revision = 1, rn_planId = planId,
               rn_planRevision = ci_planRevision v, rn_planDigest = planDigest,
               rn_workspace = workspace, rn_startBaseline = startBaseline,
               rn_condition = C_preparing, rn_tasks = tasks,
               rn_outbox = map (\<lambda>t. createOutbox t createdAt) tasks, rn_evidenceIndex = [],
               rn_verificationRecords = [],
               rn_delivery = \<lparr>dl_level = L_planned, dl_evidenceIds = [], dl_updatedAt = createdAt\<rparr>,
               rn_abort = None, rn_blocker = [], rn_createdAt = createdAt,
               rn_updatedAt = createdAt\<rparr>)))))))"

definition currentTask :: "delivery_run \<Rightarrow> string \<Rightarrow> run_task result" where
  "currentTask run stepId =
     (case find (\<lambda>t. tk_stepId t = to_upper (js_inline stepId)) (rn_tasks run) of
        None \<Rightarrow> Inl dr_task_not_found
      | Some t \<Rightarrow> Inr t)"

definition outboxForTask :: "delivery_run \<Rightarrow> run_task \<Rightarrow> outbox_item result" where
  "outboxForTask run task =
     (case find (\<lambda>ob. ob_stepId ob = tk_stepId task) (rn_outbox run) of
        None \<Rightarrow> Inl dr_outbox_invalid
      | Some ob' \<Rightarrow> Inr ob')"

text \<open>
  Assignments through the references that \<open>currentTask\<close> and \<open>outboxForTask\<close> return: they
  change the first task, or the first outbox item, of that step.
\<close>

definition update_task :: "string \<Rightarrow> (run_task \<Rightarrow> run_task) \<Rightarrow> delivery_run \<Rightarrow> delivery_run" where
  "update_task stepId f run =
     run\<lparr>rn_tasks := update_first (\<lambda>t. tk_stepId t = stepId) f (rn_tasks run)\<rparr>"

definition update_outbox ::
  "string \<Rightarrow> (outbox_item \<Rightarrow> outbox_item) \<Rightarrow> delivery_run \<Rightarrow> delivery_run" where
  "update_outbox stepId f run =
     run\<lparr>rn_outbox := update_first (\<lambda>ob. ob_stepId ob = stepId) f (rn_outbox run)\<rparr>"

definition nextRevision :: "delivery_run \<Rightarrow> string \<Rightarrow> delivery_run result" where
  "nextRevision run at =
     attempt (dr_timestamp at) (\<lambda>t.
       Inr (run\<lparr>rn_revision := rn_revision run + 1, rn_updatedAt := t\<rparr>))"

fun appendEvidenceLoop :: "evidence list \<Rightarrow> evidence list \<Rightarrow> evidence list result" where
  "appendEvidenceLoop index [] = Inr index"
| "appendEvidenceLoop index (v # vs) =
     attempt (createEvidence v) (\<lambda>e.
     guard (throw_if (ev_id e \<in> set (map ev_id index)) dr_evidence_duplicate)
       (appendEvidenceLoop (index @ [e]) vs))"

text \<open>Returns the run with the longer index and the identifiers appended.\<close>

definition appendEvidence ::
  "delivery_run \<Rightarrow> evidence list \<Rightarrow> (delivery_run \<times> string list) result" where
  "appendEvidence run values =
     guard (throw_if (512 < length (rn_evidenceIndex run) + length values)
              dr_evidence_limit_reached)
       (attempt (appendEvidenceLoop (rn_evidenceIndex run) values) (\<lambda>index.
          Inr (run\<lparr>rn_evidenceIndex := index\<rparr>,
               map ev_id (drop (length (rn_evidenceIndex run)) index))))"

definition refreshDelivery ::
  "delivery_run \<Rightarrow> string list \<Rightarrow> string \<Rightarrow> delivery_run result" where
  "refreshDelivery run evidenceIds at =
     attempt (dr_timestamp at) (\<lambda>t.
       Inr (run\<lparr>rn_delivery :=
         \<lparr>dl_level = expectedDeliveryLevel run,
          dl_evidenceIds = push_all_new (dl_evidenceIds (rn_delivery run)) evidenceIds,
          dl_updatedAt = t\<rparr>\<rparr>))"

definition assertWorkMutable :: "delivery_run \<Rightarrow> error \<Rightarrow> error option" where
  "assertWorkMutable run e = throw_if (rn_condition run \<in> {C_aborted, C_verified}) e"

definition finishRun :: "host \<Rightarrow> delivery_run \<Rightarrow> string \<Rightarrow> delivery_run result" where
  "finishRun H next at = attempt (nextRevision next at) (validateDeliveryRun H)"

definition linkDeliveryRunMission ::
  "host \<Rightarrow> delivery_run \<Rightarrow> link_input \<Rightarrow> string \<Rightarrow> delivery_run result" where
  "linkDeliveryRunMission H run0 input at =
     attempt (validateDeliveryRun H run0) (\<lambda>run.
     guard (assertWorkMutable run dr_mission_link_state_invalid)
    (attempt (currentTask run (li_stepId input)) (\<lambda>task.
     attempt (outboxForTask run task) (\<lambda>outbox.
     (let missionId = to_lower (js_inline (li_missionId input)) in
     guard (throws
       [throw_if (ob_state outbox \<notin> {O_pending, O_reconcile_required}
          \<or> tk_state task \<notin> {T_pending, T_reconcile_required}) dr_mission_link_state_invalid,
        throw_if (li_bindingKey input \<noteq> tk_missionBindingKey task) dr_mission_binding_conflict,
        throw_if (\<not> mission_id_pattern missionId) dr_mission_id_invalid])
    (attempt (dr_timestamp at) (\<lambda>t.
     (let next = update_task (tk_stepId task)
            (\<lambda>x. x\<lparr>tk_state := T_mission_linked, tk_missionId := Some missionId\<rparr>) run;
          next = update_outbox (tk_stepId task)
            (\<lambda>ob. ob\<lparr>ob_state := O_applied, ob_missionId := Some missionId, ob_error := [],
                   ob_updatedAt := t\<rparr>) next
      in finishRun H (next\<lparr>rn_condition := C_active, rn_blocker := []\<rparr>) at))))))))"

definition markDeliveryRunMissionReconcileRequired ::
  "host \<Rightarrow> delivery_run \<Rightarrow> reconcile_input \<Rightarrow> string \<Rightarrow> delivery_run result" where
  "markDeliveryRunMissionReconcileRequired H run0 input at =
     attempt (validateDeliveryRun H run0) (\<lambda>run.
     guard (assertWorkMutable run dr_mission_reconcile_state_invalid)
    (attempt (currentTask run (ri_stepId input)) (\<lambda>task.
     attempt (outboxForTask run task) (\<lambda>outbox.
     (let err = js_inline (ri_error input) in
     guard (throws
       [throw_if (ob_state outbox \<noteq> O_pending \<or> tk_state task \<noteq> T_pending)
          dr_mission_reconcile_state_invalid,
        throw_if (ri_bindingKey input \<noteq> tk_missionBindingKey task) dr_mission_binding_conflict,
        dr_assertText err dr_mission_reconcile_error_invalid True 500])
    (attempt (dr_timestamp at) (\<lambda>t.
     (let next = update_task (tk_stepId task) (\<lambda>x. x\<lparr>tk_state := T_reconcile_required\<rparr>) run;
          next = update_outbox (tk_stepId task)
            (\<lambda>ob. ob\<lparr>ob_state := O_reconcile_required, ob_error := err, ob_updatedAt := t\<rparr>) next
      in finishRun H (next\<lparr>rn_condition := C_reconcile_required, rn_blocker := err\<rparr>) at))))))))"

definition captureDeliveryRunImplementation ::
  "host \<Rightarrow> delivery_run \<Rightarrow> capture_input \<Rightarrow> string \<Rightarrow> delivery_run result" where
  "captureDeliveryRunImplementation H run0 input at =
     attempt (validateDeliveryRun H run0) (\<lambda>run.
     guard (assertWorkMutable run dr_implementation_state_invalid)
    (attempt (currentTask run (pi_stepId input)) (\<lambda>task.
     guard (throw_if (tk_state task \<noteq> T_mission_linked
              \<or> tk_missionId task \<noteq> Some (pi_missionId input)) dr_implementation_state_invalid)
    (attempt (createWorkspaceBaseline H (pi_baseline input)) (\<lambda>baseline.
     guard (throws
       [throw_if (bl_workspace baseline \<noteq> bl_workspace (rn_startBaseline run)
          \<or> bl_repoRoot baseline \<noteq> bl_repoRoot (rn_startBaseline run)
          \<or> bl_workspacePrefix baseline \<noteq> bl_workspacePrefix (rn_startBaseline run))
          dr_implementation_baseline_identity_changed,
        throw_if (bl_digest baseline = tk_expectedBaselineDigest task)
          dr_implementation_unchanged])
    (attempt (appendEvidence run (pi_evidence input)) (\<lambda>(next, evidenceIds).
     (let next = update_task (tk_stepId task) (\<lambda>x. x\<lparr>tk_state := T_implementation_captured,
            tk_implementation := \<lparr>im_baseline = Some baseline, im_evidenceIds = evidenceIds,
              im_capturedAt = Some (bl_capturedAt baseline)\<rparr>\<rparr>) next
      in attempt (refreshDelivery (next\<lparr>rn_condition := C_awaiting_verification, rn_blocker := []\<rparr>)
            evidenceIds at) (\<lambda>next'. finishRun H next' at)))))))))"

text \<open>Evidence that a verification refers to must exist and belong to the task.\<close>

definition evidence_reference_checks ::
  "string list \<Rightarrow> string list \<Rightarrow> string list \<Rightarrow> error option" where
  "evidence_reference_checks allEvidenceIds taskEvidenceIds ids = throws (map (\<lambda>i. throws
     [throw_if (i \<notin> set allEvidenceIds) dr_evidence_reference_unknown,
      throw_if (i \<notin> set taskEvidenceIds) dr_evidence_not_for_task]) ids)"

text \<open>One criterion of a verification, normalised and checked against the task's evidence.\<close>

definition verifyCriterion ::
  "run_task \<Rightarrow> string list \<Rightarrow> string list \<Rightarrow> criterion \<Rightarrow> criterion result" where
  "verifyCriterion task allEvidenceIds taskEvidenceIds c =
     (let acceptanceId = to_upper (js_inline (cr_acceptanceId c));
          outcome = to_lower (js_inline (cr_outcome c))
      in guard (throw_if (acceptanceId \<notin> set (tk_acceptanceIds task)
             \<or> outcome \<notin> set CRITERION_OUTCOMES) dr_verification_criterion_invalid)
        (attempt (dr_normalizedUniqueIds (cr_evidenceIds c) evidence_id_pattern
                    dr_verification_criterion_invalid 128) (\<lambda>evidenceIds.
         guard (evidence_reference_checks allEvidenceIds taskEvidenceIds evidenceIds)
           (Inr \<lparr>cr_acceptanceId = acceptanceId, cr_outcome = outcome,
                 cr_evidenceIds = evidenceIds\<rparr>))))"

text \<open>
  What a passed verification does to the rest of the run: the following task, if there is
  one, expects the verified baseline and its outbox item is released.
\<close>

definition releaseFollowing ::
  "delivery_run \<Rightarrow> int \<Rightarrow> string \<Rightarrow> string \<Rightarrow> delivery_run result" where
  "releaseFollowing next position digest verifiedAt =
     (if 0 \<le> position \<and> nat position < length (rn_tasks next)
      then (let following = rn_tasks next ! nat position;
                next = next\<lparr>rn_tasks := (rn_tasks next)[nat position :=
                  following\<lparr>tk_expectedBaselineDigest := digest\<rparr>]\<rparr>
            in attempt (outboxForTask next following) (\<lambda>_.
               Inr ((update_outbox (tk_stepId following)
                   (\<lambda>ob. ob\<lparr>ob_state := O_pending, ob_updatedAt := verifiedAt\<rparr>) next)
                 \<lparr>rn_condition := C_active, rn_blocker := []\<rparr>)))
      else Inr (next\<lparr>rn_condition := C_verified, rn_blocker := []\<rparr>))"

text \<open>The end of a verification: the record is kept and the outcome takes effect.\<close>

definition settleVerification ::
  "host \<Rightarrow> delivery_run \<Rightarrow> run_task \<Rightarrow> bool \<Rightarrow> verification \<Rightarrow> string list \<Rightarrow> delivery_run result" where
  "settleVerification H next task passed record newEvidenceIds =
     (let next = next\<lparr>rn_verificationRecords := rn_verificationRecords next @ [record]\<rparr>;
          next = update_task (tk_stepId task) (\<lambda>x. x\<lparr>tk_verificationId := Some (vr_id record),
            tk_state := (if passed then T_verified else T_failed)\<rparr>) next
      in attempt (if passed
            then releaseFollowing next (tk_sequence task + 1) (vr_afterBaselineDigest record)
                   (vr_verifiedAt record)
            else Inr (next\<lparr>rn_condition := C_blocked, rn_blocker := vr_note record\<rparr>))
         (\<lambda>next. attempt (refreshDelivery next (newEvidenceIds @ vr_evidenceIds record)
              (vr_verifiedAt record))
           (\<lambda>next'. finishRun H next' (vr_verifiedAt record))))"

definition recordDeliveryRunVerification ::
  "host \<Rightarrow> delivery_run \<Rightarrow> verify_input \<Rightarrow> string \<Rightarrow> delivery_run result" where
  "recordDeliveryRunVerification H run0 input at =
     attempt (validateDeliveryRun H run0) (\<lambda>run.
     guard (assertWorkMutable run dr_verification_state_invalid)
    (attempt (currentTask run (vi_stepId input)) (\<lambda>task.
     (let verificationId = to_lower (js_inline (vi_id input)) in
     guard (throws
       [throw_if (tk_state task \<noteq> T_implementation_captured
          \<or> tk_missionId task \<noteq> Some (vi_missionId input)) dr_verification_state_invalid,
        throw_if (\<not> verification_id_pattern verificationId) dr_verification_id_invalid,
        throw_if (verificationId \<in> set (map vr_id (rn_verificationRecords run)))
          dr_verification_duplicate])
    (attempt (createWorkspaceBaseline H (vi_baseline input)) (\<lambda>baseline.
     guard (throws
       [throw_if (implementation_digest task \<noteq> Some (bl_digest baseline))
          dr_verification_baseline_changed,
        throw_if (length (vi_criteria input) \<noteq> length (tk_acceptanceIds task))
          dr_verification_criteria_invalid])
    (attempt (appendEvidence run (vi_evidence input)) (\<lambda>(next, newEvidenceIds).
     attempt (dr_normalizedUniqueIds (vi_evidenceIds input) evidence_id_pattern
                dr_verification_evidence_invalid 128) (\<lambda>referenced.
     (let allEvidenceIds = map ev_id (rn_evidenceIndex next);
          taskEvidenceIds = im_evidenceIds (tk_implementation task) @ newEvidenceIds;
          verificationNote = js_text (vi_note input)
      in guard (evidence_reference_checks allEvidenceIds taskEvidenceIds referenced)
        (attempt (map_result (verifyCriterion task allEvidenceIds taskEvidenceIds)
                    (vi_criteria input)) (\<lambda>criteria.
         guard (throws
           [throw_if (card (set (map cr_acceptanceId criteria)) \<noteq> length (tk_acceptanceIds task))
              dr_verification_criteria_invalid,
            throw_if (verificationNote = []) dr_verification_note_required])
        (attempt (dr_timestamp at) (\<lambda>verifiedAt.
         (let passed = list_all (\<lambda>c. cr_outcome c = ''passed'') criteria;
              record = \<lparr>vr_id = verificationId, vr_stepId = tk_stepId task,
                vr_planDigest = rn_planDigest run,
                vr_implementationMissionId = vi_missionId input, vr_verifier = ''operator'',
                vr_criteria = criteria, vr_outcome = (if passed then ''passed'' else ''failed''),
                vr_beforeBaselineDigest = bl_digest baseline,
                vr_afterBaselineDigest = bl_digest baseline, vr_evidenceIds = referenced,
                vr_note = verificationNote, vr_verifiedAt = verifiedAt\<rparr>
          in settleVerification H next task passed record newEvidenceIds)))))))))))))))"

text \<open>The loop of an abort over the tasks that are not verified.\<close>

fun abortTasks :: "string \<Rightarrow> string \<Rightarrow> run_task list \<Rightarrow> delivery_run \<Rightarrow> delivery_run result" where
  "abortTasks reason at [] run = Inr run"
| "abortTasks reason at (t # ts) run =
     (if tk_state t = T_verified then abortTasks reason at ts run
      else (let run = update_task (tk_stepId t) (\<lambda>x. x\<lparr>tk_state := T_aborted\<rparr>) run in
        attempt (outboxForTask run t) (\<lambda>outbox.
          abortTasks reason at ts
            (if ob_state outbox = O_applied then run
             else update_outbox (tk_stepId t)
               (\<lambda>ob. ob\<lparr>ob_state := O_canceled, ob_missionId := None,
                      ob_error := take 500 reason, ob_updatedAt := at\<rparr>) run))))"

definition abortDeliveryRun ::
  "host \<Rightarrow> delivery_run \<Rightarrow> abort_input \<Rightarrow> string \<Rightarrow> delivery_run result" where
  "abortDeliveryRun H run0 input at =
     attempt (validateDeliveryRun H run0) (\<lambda>run.
     (let reason = js_text (ai_reason input) in
     guard (throws
       [throw_if (rn_condition run \<notin> set ABORTABLE_CONDITIONS) dr_abort_state_invalid,
        throw_if (\<not> ai_operatorConfirmed input) dr_abort_confirmation_required,
        dr_assertText reason dr_abort_reason_invalid True 800,
        throw_if (ai_evidence input = []) dr_abort_evidence_required])
    (attempt (dr_timestamp at) (\<lambda>abortedAt.
     attempt (appendEvidence run (ai_evidence input)) (\<lambda>(next, evidenceIds).
     guard (throw_if (\<not> list_ex (operator_evidence (rn_evidenceIndex next) abortedAt) evidenceIds)
              dr_abort_operator_evidence_required)
    (attempt (abortTasks reason abortedAt (rn_tasks next) next) (\<lambda>next.
     (let next = next\<lparr>rn_condition := C_aborted,
            rn_abort := Some \<lparr>ab_operatorConfirmed = True, ab_fromCondition = rn_condition run,
              ab_reason = reason, ab_evidenceIds = evidenceIds, ab_abortedAt = abortedAt\<rparr>,
            rn_blocker := reason\<rparr>
      in attempt (refreshDelivery next evidenceIds abortedAt)
        (\<lambda>next'. finishRun H next' abortedAt)))))))))"

definition markDeliveryRunOffCourse ::
  "host \<Rightarrow> delivery_run \<Rightarrow> off_course_input \<Rightarrow> string \<Rightarrow> delivery_run result" where
  "markDeliveryRunOffCourse H run0 input at =
     attempt (validateDeliveryRun H run0) (\<lambda>run.
     guard (throw_if (rn_condition run \<in> {C_verified, C_aborted, C_off_course, C_blocked})
              dr_off_course_state_invalid)
    (attempt (currentTask run (oi_stepId input)) (\<lambda>task.
     (let reason = js_text (oi_reason input) in
     guard (throws
       [throw_if (tk_state task \<in> {T_verified, T_failed, T_off_course}) dr_off_course_state_invalid,
        dr_assertText reason dr_off_course_reason_invalid True 800])
    (attempt (appendEvidence run (oi_evidence input)) (\<lambda>(next, evidenceIds).
     (let next = update_task (tk_stepId task) (\<lambda>x. x\<lparr>tk_state := T_off_course\<rparr>) next in
     attempt (outboxForTask next task) (\<lambda>outbox.
     attempt (dr_timestamp at) (\<lambda>t.
     (let next = (if ob_state outbox = O_applied then next
            else update_outbox (tk_stepId task)
              (\<lambda>ob. ob\<lparr>ob_state := O_blocked, ob_error := take 500 reason, ob_updatedAt := t\<rparr>) next)
      in attempt (refreshDelivery (next\<lparr>rn_condition := C_off_course, rn_blocker := reason\<rparr>)
            evidenceIds at) (\<lambda>next'. finishRun H next' at)))))))))))"

end
