(* ===== verification/Machine.thy ===== *)
theory Machine
  imports Main
begin

text \<open>
  Two interfaces the components share. A \<open>machine\<close> is a start predicate, a step relation and
  an invariant that both respect; a \<open>refinement\<close> relates the states of a concrete machine to
  those of an abstract one. Each is interpreted on the operations of a component.
\<close>

inductive reaches :: "('s \<Rightarrow> bool) \<Rightarrow> ('s \<Rightarrow> 's \<Rightarrow> bool) \<Rightarrow> 's \<Rightarrow> bool" for start step where
  reaches_start: "start s \<Longrightarrow> reaches start step s"
| reaches_step: "reaches start step s \<Longrightarrow> step s t \<Longrightarrow> reaches start step t"

locale machine =
  fixes start :: "'s \<Rightarrow> bool" and step :: "'s \<Rightarrow> 's \<Rightarrow> bool" and inv :: "'s \<Rightarrow> bool"
  assumes inv_start: "start s \<Longrightarrow> inv s"
    and inv_step: "inv s \<Longrightarrow> step s t \<Longrightarrow> inv t"
begin

lemma reaches_inv: "reaches start step s \<Longrightarrow> inv s"
  by (induction rule: reaches.induct) (auto intro: inv_start inv_step)

lemma reaches_step_inv: "reaches start step s \<Longrightarrow> step s t \<Longrightarrow> inv s \<and> inv t"
  using reaches_inv inv_step by blast

end

locale refinement = machine astart astep inv
  for astart :: "'a \<Rightarrow> bool" and astep :: "'a \<Rightarrow> 'a \<Rightarrow> bool" and inv :: "'a \<Rightarrow> bool" +
  fixes start :: "'s \<Rightarrow> bool" and step :: "'s \<Rightarrow> 's \<Rightarrow> bool" and abs :: "'s \<Rightarrow> 'a"
  assumes sim_start: "start s \<Longrightarrow> astart (abs s)"
    and sim_step: "inv (abs s) \<Longrightarrow> step s t \<Longrightarrow> astep (abs s) (abs t) \<or> abs t = abs s"
begin

lemma reaches_abs: "reaches start step s \<Longrightarrow> reaches astart astep (abs s)"
proof (induction rule: reaches.induct)
  case (reaches_start s)
  then show ?case by (intro reaches.reaches_start sim_start)
next
  case (reaches_step s t)
  then have "astep (abs s) (abs t) \<or> abs t = abs s"
    using reaches_inv sim_step by blast
  with reaches_step.IH show ?case by (auto intro: reaches.reaches_step)
qed

lemma reaches_abs_inv: "reaches start step s \<Longrightarrow> inv (abs s)"
  using reaches_abs reaches_inv by blast

lemma reaches_sim:
  "reaches start step s \<Longrightarrow> step s t \<Longrightarrow> astep (abs s) (abs t) \<or> abs t = abs s"
  using reaches_abs_inv sim_step by blast

end

end
