(* ===== verification/RunLifecycle.thy ===== *)
theory RunLifecycle
  imports DeliveryRun Machine
begin

text \<open>
  The specification of a delivery run: a lifecycle machine that keeps, of a run, its
  condition and the state of each task with that of its outbox item. Its steps say what
  each operation of delivery-run.js may do; \<open>lifecycle_inv\<close> is the shape of every reachable
  lifecycle: a verified prefix, at most one current task, and a held rest.
\<close>

record lifecycle =
  lc_condition :: run_condition
  lc_tasks :: "(task_state \<times> outbox_state) list"

text \<open>Only the task whose predecessors are verified may move.\<close>

definition released :: "lifecycle \<Rightarrow> nat \<Rightarrow> bool" where
  "released s i \<longleftrightarrow> i < length (lc_tasks s) \<and> (0 < i \<longrightarrow> fst (lc_tasks s ! (i - 1)) = T_verified)"

definition work_open :: "lifecycle \<Rightarrow> bool" where
  "work_open s \<longleftrightarrow> lc_condition s \<noteq> C_aborted \<and> lc_condition s \<noteq> C_verified"

definition move_task ::
  "nat \<Rightarrow> task_state \<Rightarrow> outbox_state \<Rightarrow> run_condition \<Rightarrow> lifecycle \<Rightarrow> lifecycle" where
  "move_task i t ob c s = s\<lparr>lc_condition := c, lc_tasks := (lc_tasks s)[i := (t, ob)]\<rparr>"

fun abort_task :: "task_state \<times> outbox_state \<Rightarrow> task_state \<times> outbox_state" where
  "abort_task (t, ob) =
     (if t = T_verified then (t, ob)
      else (T_aborted, if ob = O_applied then O_applied else O_canceled))"

inductive lifecycle_step :: "lifecycle \<Rightarrow> lifecycle \<Rightarrow> bool" where
  link: "work_open s \<Longrightarrow> released s i \<Longrightarrow> fst (lc_tasks s ! i) \<in> {T_pending, T_reconcile_required} \<Longrightarrow>
     snd (lc_tasks s ! i) \<in> {O_pending, O_reconcile_required} \<Longrightarrow>
     lifecycle_step s (move_task i T_mission_linked O_applied C_active s)"
| reconcile: "work_open s \<Longrightarrow> released s i \<Longrightarrow> lc_tasks s ! i = (T_pending, O_pending) \<Longrightarrow>
     lifecycle_step s (move_task i T_reconcile_required O_reconcile_required C_reconcile_required s)"
| capture: "work_open s \<Longrightarrow> released s i \<Longrightarrow> lc_tasks s ! i = (T_mission_linked, ob) \<Longrightarrow>
     lifecycle_step s (move_task i T_implementation_captured ob C_awaiting_verification s)"
| fail: "work_open s \<Longrightarrow> released s i \<Longrightarrow> lc_tasks s ! i = (T_implementation_captured, ob) \<Longrightarrow>
     lifecycle_step s (move_task i T_failed ob C_blocked s)"
| pass: "work_open s \<Longrightarrow> released s i \<Longrightarrow> lc_tasks s ! i = (T_implementation_captured, ob) \<Longrightarrow>
     Suc i < length (lc_tasks s) \<Longrightarrow>
     lifecycle_step s (move_task (Suc i) (fst (lc_tasks s ! Suc i)) O_pending C_active
       (move_task i T_verified ob C_active s))"
| complete: "work_open s \<Longrightarrow> released s i \<Longrightarrow> lc_tasks s ! i = (T_implementation_captured, ob) \<Longrightarrow>
     Suc i = length (lc_tasks s) \<Longrightarrow>
     lifecycle_step s (move_task i T_verified ob C_verified s)"
| off_course: "work_open s \<Longrightarrow> lc_condition s \<noteq> C_off_course \<Longrightarrow> lc_condition s \<noteq> C_blocked \<Longrightarrow>
     released s i \<Longrightarrow> fst (lc_tasks s ! i) \<notin> {T_verified, T_failed, T_off_course} \<Longrightarrow>
     ob = (if snd (lc_tasks s ! i) = O_applied then O_applied else O_blocked) \<Longrightarrow>
     lifecycle_step s (move_task i T_off_course ob C_off_course s)"
| abort: "work_open s \<Longrightarrow>
     lifecycle_step s (s\<lparr>lc_condition := C_aborted, lc_tasks := map abort_task (lc_tasks s)\<rparr>)"

definition initial_lifecycle :: "nat \<Rightarrow> lifecycle" where
  "initial_lifecycle n = \<lparr>lc_condition = C_preparing,
     lc_tasks = (if n = 0 then [] else (T_pending, O_pending) # replicate (n - 1) (T_pending, O_held))\<rparr>"

definition lifecycle_start :: "lifecycle \<Rightarrow> bool" where
  "lifecycle_start s \<longleftrightarrow> (\<exists>n > 0. s = initial_lifecycle n)"

section \<open>The shape of a reachable lifecycle\<close>

text \<open>What the condition says of the current task.\<close>

fun current_agrees :: "run_condition \<Rightarrow> task_state \<times> outbox_state \<Rightarrow> bool" where
  "current_agrees C_preparing p = (p = (T_pending, O_pending))"
| "current_agrees C_active p = (p \<in> {(T_pending, O_pending), (T_mission_linked, O_applied)})"
| "current_agrees C_awaiting_verification p = (p = (T_implementation_captured, O_applied))"
| "current_agrees C_blocked p = (p = (T_failed, O_applied))"
| "current_agrees C_off_course p = (p \<in> {(T_off_course, O_applied), (T_off_course, O_blocked)})"
| "current_agrees C_reconcile_required p = (p = (T_reconcile_required, O_reconcile_required))"
| "current_agrees C_aborted p = False"
| "current_agrees C_verified p = False"

definition open_shape :: "lifecycle \<Rightarrow> nat \<Rightarrow> bool" where
  "open_shape s k \<longleftrightarrow> k < length (lc_tasks s) \<and>
     (\<forall>j < k. lc_tasks s ! j = (T_verified, O_applied)) \<and>
     current_agrees (lc_condition s) (lc_tasks s ! k) \<and>
     (\<forall>j. k < j \<and> j < length (lc_tasks s) \<longrightarrow> lc_tasks s ! j = (T_pending, O_held))"

definition verified_shape :: "lifecycle \<Rightarrow> bool" where
  "verified_shape s \<longleftrightarrow> lc_condition s = C_verified \<and> lc_tasks s \<noteq> [] \<and>
     (\<forall>p \<in> set (lc_tasks s). p = (T_verified, O_applied))"

definition aborted_shape :: "lifecycle \<Rightarrow> bool" where
  "aborted_shape s \<longleftrightarrow> lc_condition s = C_aborted \<and>
     (\<exists>k < length (lc_tasks s).
        (\<forall>j < k. lc_tasks s ! j = (T_verified, O_applied)) \<and>
        (\<forall>j. k \<le> j \<and> j < length (lc_tasks s) \<longrightarrow>
           lc_tasks s ! j \<in> {(T_aborted, O_applied), (T_aborted, O_canceled)}))"

definition lifecycle_inv :: "lifecycle \<Rightarrow> bool" where
  "lifecycle_inv s \<longleftrightarrow> (\<exists>k. open_shape s k) \<or> verified_shape s \<or> aborted_shape s"

lemma lifecycle_inv_initial: "0 < n \<Longrightarrow> lifecycle_inv (initial_lifecycle n)"
  unfolding lifecycle_inv_def
  by (rule disjI1, rule exI [of _ 0])
    (auto simp: open_shape_def initial_lifecycle_def nth_Cons split: nat.splits)

lemma current_agrees_open: "current_agrees c p \<Longrightarrow> c \<noteq> C_aborted \<and> c \<noteq> C_verified"
  by (cases c) auto

lemma current_not_verified: "current_agrees c p \<Longrightarrow> fst p \<noteq> T_verified"
  by (cases c) auto

lemma open_shape_of_work_open:
  assumes "lifecycle_inv s" "work_open s"
  obtains k where "open_shape s k"
  using assms by (auto simp: lifecycle_inv_def work_open_def verified_shape_def aborted_shape_def)

text \<open>The task that may move is the current one, unless it is already verified.\<close>

lemma released_is_current:
  assumes "open_shape s k" "released s i" "fst (lc_tasks s ! i) \<noteq> T_verified"
  shows "i = k"
proof (rule linorder_cases [of i k])
  assume "i < k"
  with assms show ?thesis by (auto simp: open_shape_def)
next
  assume ik: "k < i"
  then have "i - 1 < length (lc_tasks s)" "k < i - 1 \<or> i - 1 = k"
    using assms(2) by (auto simp: released_def)
  then have "lc_tasks s ! (i - 1) = (T_pending, O_held) \<or> i - 1 = k"
    using assms(1) by (auto simp: open_shape_def)
  moreover have "fst (lc_tasks s ! k) \<noteq> T_verified"
    using assms(1) by (intro current_not_verified) (auto simp: open_shape_def)
  ultimately show ?thesis using assms(2) ik by (auto simp: released_def)
qed

lemma open_shape_move:
  assumes "open_shape s k" "current_agrees c (t, ob)"
  shows "open_shape (move_task k t ob c s) k"
  using assms by (auto simp: open_shape_def move_task_def)

lemma open_shape_current: "open_shape s k \<Longrightarrow> current_agrees (lc_condition s) (lc_tasks s ! k)"
  by (simp add: open_shape_def)

lemma current_linked: "current_agrees c (T_mission_linked, ob) \<Longrightarrow> ob = O_applied \<and> c = C_active"
  by (cases c) auto

lemma current_captured:
  "current_agrees c (T_implementation_captured, ob) \<Longrightarrow> ob = O_applied \<and> c = C_awaiting_verification"
  by (cases c) auto

lemma lifecycle_inv_abort:
  assumes "open_shape s k"
  shows "aborted_shape (s\<lparr>lc_condition := C_aborted, lc_tasks := map abort_task (lc_tasks s)\<rparr>)"
proof -
  let ?ts = "map abort_task (lc_tasks s)"
  have verified: "?ts ! j = (T_verified, O_applied)" if "j < k" for j
    using assms that by (auto simp: open_shape_def)
  have rest: "?ts ! j \<in> {(T_aborted, O_applied), (T_aborted, O_canceled)}"
    if "k \<le> j" "j < length (lc_tasks s)" for j
  proof (cases "j = k")
    case True
    obtain t ob where p: "lc_tasks s ! k = (t, ob)" by fastforce
    with assms have "t \<noteq> T_verified" using current_not_verified by (force simp: open_shape_def)
    with p True that show ?thesis by simp
  next
    case False
    with assms that show ?thesis by (simp add: open_shape_def)
  qed
  have "k < length (lc_tasks s)" using assms by (simp add: open_shape_def)
  with verified rest show ?thesis
    unfolding aborted_shape_def by (intro conjI exI [of _ k]) auto
qed

lemma lifecycle_inv_step:
  assumes "lifecycle_step s t" "lifecycle_inv s"
  shows "lifecycle_inv t"
  using assms
proof (induction rule: lifecycle_step.induct)
  case (link s i)
  then obtain k where k: "open_shape s k" by (blast elim: open_shape_of_work_open)
  with link have "i = k" by (intro released_is_current) auto
  with k have "open_shape (move_task i T_mission_linked O_applied C_active s) k"
    by (auto intro!: open_shape_move)
  then show ?case by (auto simp: lifecycle_inv_def)
next
  case (reconcile s i)
  then obtain k where k: "open_shape s k" by (blast elim: open_shape_of_work_open)
  with reconcile have "i = k" by (intro released_is_current) auto
  with k have "open_shape (move_task i T_reconcile_required O_reconcile_required
      C_reconcile_required s) k"
    by (auto intro!: open_shape_move)
  then show ?case by (auto simp: lifecycle_inv_def)
next
  case (capture s i ob)
  then obtain k where k: "open_shape s k" by (blast elim: open_shape_of_work_open)
  with capture have i: "i = k" by (intro released_is_current) auto
  with k capture have "ob = O_applied" by (auto dest!: open_shape_current current_linked)
  with k i have "open_shape (move_task i T_implementation_captured ob
      C_awaiting_verification s) k"
    by (auto intro!: open_shape_move)
  then show ?case by (auto simp: lifecycle_inv_def)
next
  case (fail s i ob)
  then obtain k where k: "open_shape s k" by (blast elim: open_shape_of_work_open)
  with fail have i: "i = k" by (intro released_is_current) auto
  with k fail have "ob = O_applied" by (auto dest!: open_shape_current current_captured)
  with k i have "open_shape (move_task i T_failed ob C_blocked s) k"
    by (auto intro!: open_shape_move)
  then show ?case by (auto simp: lifecycle_inv_def)
next
  case (pass s i ob)
  then obtain k where k: "open_shape s k" by (blast elim: open_shape_of_work_open)
  with pass have i: "i = k" by (intro released_is_current) auto
  with k pass have ob: "ob = O_applied" by (auto dest!: open_shape_current current_captured)
  have next_pending: "lc_tasks s ! Suc k = (T_pending, O_held)"
    using k pass i by (auto simp: open_shape_def)
  have "open_shape (move_task (Suc i) (fst (lc_tasks s ! Suc i)) O_pending C_active
       (move_task i T_verified ob C_active s)) (Suc k)"
    using k pass.hyps i ob next_pending
    by (auto simp: open_shape_def move_task_def nth_list_update less_Suc_eq)
  then show ?case by (auto simp: lifecycle_inv_def)
next
  case (complete s i ob)
  then obtain k where k: "open_shape s k" by (blast elim: open_shape_of_work_open)
  with complete have i: "i = k" by (intro released_is_current) auto
  with k complete have ob: "ob = O_applied" by (auto dest!: open_shape_current current_captured)
  have "lc_tasks s ! j = (T_verified, O_applied)" if "j < length (lc_tasks s)" "j \<noteq> k" for j
    using k complete.hyps(4) i that by (auto simp: open_shape_def)
  then have "verified_shape (move_task i T_verified ob C_verified s)"
    using complete.hyps(4) i ob
    by (auto simp: verified_shape_def move_task_def in_set_conv_nth nth_list_update
        split: if_splits)
  then show ?case by (auto simp: lifecycle_inv_def)
next
  case (off_course s i ob)
  then obtain k where k: "open_shape s k" by (blast elim: open_shape_of_work_open)
  with off_course have "i = k" by (intro released_is_current) auto
  with k off_course have "open_shape (move_task i T_off_course ob C_off_course s) k"
    by (auto intro!: open_shape_move)
  then show ?case by (auto simp: lifecycle_inv_def)
next
  case (abort s)
  then obtain k where "open_shape s k" by (blast elim: open_shape_of_work_open)
  then show ?case by (auto simp: lifecycle_inv_def dest: lifecycle_inv_abort)
qed

interpretation lifecycle: machine lifecycle_start lifecycle_step lifecycle_inv
  by unfold_locales (auto simp: lifecycle_start_def intro: lifecycle_inv_initial lifecycle_inv_step)

text \<open>A terminal lifecycle takes no step.\<close>

lemma terminal_stuck: "\<not> work_open s \<Longrightarrow> \<not> lifecycle_step s t"
  by (auto elim: lifecycle_step.cases)

text \<open>A blocked or off-course lifecycle can only be aborted.\<close>

lemma dead_end_only_aborts:
  assumes "lifecycle_step s t" "lifecycle_inv s"
    and "lc_condition s = C_blocked \<or> lc_condition s = C_off_course"
  shows "lc_condition t = C_aborted"
proof -
  have "work_open s" using assms(3) by (auto simp: work_open_def)
  with assms(2) obtain k where k: "open_shape s k" by (blast elim: open_shape_of_work_open)
  have p: "fst (lc_tasks s ! k) \<in> {T_failed, T_off_course}"
    using open_shape_current [OF k] assms(3) by auto
  have stuck: "fst (lc_tasks s ! i) \<in> {T_verified, T_failed, T_off_course}" if "released s i" for i
  proof (cases "fst (lc_tasks s ! i) = T_verified")
    case False
    with released_is_current [OF k that] p show ?thesis by simp
  qed simp
  show ?thesis
    using assms(1)
  proof (cases rule: lifecycle_step.cases)
    case (link i) with stuck [of i] show ?thesis by auto
  next
    case (reconcile i) with stuck [of i] show ?thesis by auto
  next
    case (capture i) with stuck [of i] show ?thesis by auto
  next
    case (fail i) with stuck [of i] show ?thesis by auto
  next
    case (pass i) with stuck [of i] show ?thesis by auto
  next
    case (complete i) with stuck [of i] show ?thesis by auto
  next
    case off_course with assms(3) show ?thesis by auto
  next
    case abort then show ?thesis by simp
  qed
qed

end
