(* ===== verification/DeliveryRunFacts.thy ===== *)
theory DeliveryRunFacts
  imports RunLifecycle
begin

text \<open>
  What a successful operation of delivery-run.js does. A validated run is indexed: its
  tasks have distinct step identifiers in sequence, and the outbox item of a task stands
  at the task's index, so the references of \<open>currentTask\<close> and \<open>outboxForTask\<close> are list
  updates at one index. Each operation has one success lemma in this form, and every
  property of a run rests on them.
\<close>

section \<open>Validated runs\<close>

definition valid_run :: "host \<Rightarrow> delivery_run \<Rightarrow> bool" where
  "valid_run H v \<longleftrightarrow> validateDeliveryRun H v = Inr v"

definition run_keyed :: "delivery_run \<Rightarrow> bool" where
  "run_keyed v \<longleftrightarrow> length (rn_outbox v) = length (rn_tasks v) \<and> distinct (map tk_stepId (rn_tasks v))
     \<and> map ob_stepId (rn_outbox v) = map tk_stepId (rn_tasks v)
     \<and> map tk_sequence (rn_tasks v) = map int [0..<length (rn_tasks v)]"

lemma validateDeliveryRun_Inr: "validateDeliveryRun H v = Inr r \<longleftrightarrow> valid_run H v \<and> r = v"
  unfolding valid_run_def validateDeliveryRun_def guard_Inr by auto

lemma valid_run_checks:
  "valid_run H v \<longleftrightarrow> run_header_checks H v = None \<and> run_index_checks v = None
     \<and> (\<forall>i < length (rn_tasks v). run_task_checks H v i (rn_tasks v ! i) = None)
     \<and> run_record_checks v = None \<and> run_delivery_checks v = None
     \<and> run_abort_checks v = None \<and> run_condition_checks v = None"
  by (auto simp: valid_run_def validateDeliveryRun_def each_indexed_None)

lemma valid_run_task:
  "valid_run H v \<Longrightarrow> i < length (rn_tasks v) \<Longrightarrow> run_task_checks H v i (rn_tasks v ! i) = None"
  by (simp add: valid_run_checks)

lemma valid_run_task_shape:
  assumes "valid_run H v" "i < length (rn_tasks v)"
  shows "tk_sequence (rn_tasks v ! i) = int i" "\<not> seen_before tk_stepId (rn_tasks v) i"
    "validateOutbox (rn_outbox v ! i) (rn_tasks v ! i) = None"
    "validateTask H (rn_tasks v ! i) v (map ev_id (rn_evidenceIndex v))
       (map vr_id (rn_verificationRecords v)) = None"
  using valid_run_task [OF assms] by (simp_all add: run_task_checks_def Let_def)

lemma valid_run_lengths:
  assumes "valid_run H v"
  shows "length (rn_outbox v) = length (rn_tasks v)" "rn_tasks v \<noteq> []" "length (rn_tasks v) \<le> 80"
  using assms by (auto simp: valid_run_checks run_index_checks_def)

lemma valid_run_keyed:
  assumes "valid_run H v"
  shows "run_keyed v"
proof -
  note lengths = valid_run_lengths [OF assms]
  note shape = valid_run_task_shape [OF assms]
  have "distinct (map tk_stepId (rn_tasks v))"
    using shape(2) by (simp add: never_seen_distinct [symmetric])
  moreover have "map ob_stepId (rn_outbox v) = map tk_stepId (rn_tasks v)"
    using shape(3) lengths(1) by (intro nth_equalityI) (auto simp: validateOutbox_def)
  moreover have "map tk_sequence (rn_tasks v) = map int [0..<length (rn_tasks v)]"
    using shape(1) by (intro nth_equalityI) auto
  ultimately show ?thesis using lengths(1) by (simp add: run_keyed_def)
qed

lemma run_keyed_index:
  assumes "run_keyed v" "i < length (rn_tasks v)"
  shows "ob_stepId (rn_outbox v ! i) = tk_stepId (rn_tasks v ! i)" "i < length (rn_outbox v)"
    "tk_sequence (rn_tasks v ! i) = int i"
proof -
  from assms show bound: "i < length (rn_outbox v)" by (simp add: run_keyed_def)
  have "map ob_stepId (rn_outbox v) ! i = map tk_stepId (rn_tasks v) ! i"
    using assms(1) by (simp add: run_keyed_def)
  with assms(2) bound show "ob_stepId (rn_outbox v ! i) = tk_stepId (rn_tasks v ! i)" by simp
  have "map tk_sequence (rn_tasks v) ! i = map int [0..<length (rn_tasks v)] ! i"
    using assms(1) by (simp add: run_keyed_def)
  with assms(2) show "tk_sequence (rn_tasks v ! i) = int i" by simp
qed

section \<open>References are list updates\<close>

lemma currentTask_Inr:
  assumes "currentTask run stepId = Inr task"
  obtains i where "i < length (rn_tasks run)" "task = rn_tasks run ! i"
    "tk_stepId task = to_upper (js_inline stepId)"
  using assms by (auto simp: currentTask_def find_Some_iff split: option.splits)

lemma outboxForTask_at:
  assumes "run_keyed run" "i < length (rn_tasks run)" "tk_stepId task = tk_stepId (rn_tasks run ! i)"
  shows "outboxForTask run task = Inr (rn_outbox run ! i)"
proof -
  have "distinct (map ob_stepId (rn_outbox run))" using assms(1) by (simp add: run_keyed_def)
  with assms run_keyed_index [OF assms(1,2)]
  have "find (\<lambda>ob. ob_stepId ob = tk_stepId task) (rn_outbox run) = Some (rn_outbox run ! i)"
    by (intro find_key_nth) auto
  then show ?thesis by (simp add: outboxForTask_def)
qed

lemma update_task_at:
  "run_keyed run \<Longrightarrow> i < length (rn_tasks run) \<Longrightarrow> s = tk_stepId (rn_tasks run ! i) \<Longrightarrow>
   update_task s f run = run\<lparr>rn_tasks := (rn_tasks run)[i := f (rn_tasks run ! i)]\<rparr>"
  by (simp add: update_task_def update_first_key run_keyed_def)

lemma update_outbox_at:
  assumes "run_keyed run" "i < length (rn_tasks run)" "s = tk_stepId (rn_tasks run ! i)"
  shows "update_outbox s f run = run\<lparr>rn_outbox := (rn_outbox run)[i := f (rn_outbox run ! i)]\<rparr>"
proof -
  have "distinct (map ob_stepId (rn_outbox run))" using assms(1) by (simp add: run_keyed_def)
  with assms run_keyed_index [OF assms(1,2)] show ?thesis
    by (simp add: update_outbox_def update_first_key)
qed

text \<open>An update that keeps the keys keeps the run indexed.\<close>

lemma run_keyed_cong:
  "map tk_stepId (rn_tasks w) = map tk_stepId (rn_tasks v) \<Longrightarrow>
   map tk_sequence (rn_tasks w) = map tk_sequence (rn_tasks v) \<Longrightarrow>
   map ob_stepId (rn_outbox w) = map ob_stepId (rn_outbox v) \<Longrightarrow> run_keyed w = run_keyed v"
  using map_eq_imp_length_eq [of tk_stepId "rn_tasks w" tk_stepId "rn_tasks v"]
    map_eq_imp_length_eq [of ob_stepId "rn_outbox w" ob_stepId "rn_outbox v"]
  by (simp add: run_keyed_def)

lemma map_update_same: "g x = g (xs ! i) \<Longrightarrow> map g (xs[i := x]) = map g xs"
  by (rule nth_equalityI) (simp_all, metis nth_list_update_eq nth_list_update_neq)

text \<open>An update of the task and of its outbox item, as the operations make it.\<close>

lemma update_task_outbox_at:
  assumes "run_keyed run" "i < length (rn_tasks run)" "s = tk_stepId (rn_tasks run ! i)"
    and "tk_stepId (f (rn_tasks run ! i)) = s" "tk_sequence (f (rn_tasks run ! i)) = int i"
  shows "update_outbox s g (update_task s f run) = run\<lparr>rn_tasks := (rn_tasks run)[i := f (rn_tasks run ! i)],
    rn_outbox := (rn_outbox run)[i := g (rn_outbox run ! i)]\<rparr>"
proof -
  let ?w = "run\<lparr>rn_tasks := (rn_tasks run)[i := f (rn_tasks run ! i)]\<rparr>"
  have "run_keyed ?w"
    using assms run_keyed_index [OF assms(1,2)]
    by (subst run_keyed_cong [of _ run]) (simp_all add: map_update_same)
  with assms show ?thesis
    by (simp add: update_task_at update_outbox_at [of ?w i])
qed

lemma finishRun_Inr:
  assumes "finishRun H next at = Inr r"
  obtains t where "dr_timestamp at = Inr t" "valid_run H r"
    "r = next\<lparr>rn_revision := rn_revision next + 1, rn_updatedAt := t\<rparr>"
  using assms by (auto simp: finishRun_def nextRevision_def validateDeliveryRun_Inr)

lemma appendEvidenceLoop_Inr:
  "appendEvidenceLoop index vals = Inr index' \<Longrightarrow>
   \<exists>new. index' = index @ new \<and> length new = length vals
     \<and> (\<forall>e \<in> set new. validateEvidence e = None)
     \<and> (distinct (map ev_id index) \<longrightarrow> distinct (map ev_id index'))"
proof (induction vals arbitrary: index)
  case Nil
  then show ?case by simp
next
  case (Cons v vs)
  from Cons.prems obtain e where e: "createEvidence v = Inr e" "ev_id e \<notin> set (map ev_id index)"
      "appendEvidenceLoop (index @ [e]) vs = Inr index'"
    by auto
  from e(1) have "validateEvidence e = None" by (auto simp: createEvidence_def Let_def)
  with Cons.IH [OF e(3)] e(2) show ?case by fastforce
qed

lemma appendEvidence_Inr:
  assumes "appendEvidence run vals = Inr (next, ids)"
  obtains new where "next = run\<lparr>rn_evidenceIndex := rn_evidenceIndex run @ new\<rparr>"
    "ids = map ev_id new" "length new = length vals" "\<forall>e \<in> set new. validateEvidence e = None"
  using assms by (auto simp: appendEvidence_def dest!: appendEvidenceLoop_Inr)

lemma refreshDelivery_Inr:
  "refreshDelivery run ids at = Inr r \<longleftrightarrow> (\<exists>t. dr_timestamp at = Inr t \<and>
     r = run\<lparr>rn_delivery := \<lparr>dl_level = expectedDeliveryLevel run,
       dl_evidenceIds = push_all_new (dl_evidenceIds (rn_delivery run)) ids, dl_updatedAt = t\<rparr>\<rparr>)"
  by (auto simp: refreshDelivery_def)

section \<open>What each successful operation does\<close>

lemma link_success:
  assumes "linkDeliveryRunMission H run input at = Inr r"
  obtains i t m where "valid_run H run" "valid_run H r" "i < length (rn_tasks run)"
    "rn_condition run \<noteq> C_aborted" "rn_condition run \<noteq> C_verified"
    "tk_stepId (rn_tasks run ! i) = to_upper (js_inline (li_stepId input))"
    "ob_state (rn_outbox run ! i) \<in> {O_pending, O_reconcile_required}"
    "tk_state (rn_tasks run ! i) \<in> {T_pending, T_reconcile_required}"
    "li_bindingKey input = tk_missionBindingKey (rn_tasks run ! i)"
    "m = to_lower (js_inline (li_missionId input))" "mission_id_pattern m"
    "r = run\<lparr>rn_tasks := (rn_tasks run)[i := (rn_tasks run ! i)\<lparr>tk_state := T_mission_linked, tk_missionId := Some m\<rparr>],
       rn_outbox := (rn_outbox run)[i := (rn_outbox run ! i)\<lparr>ob_state := O_applied, ob_missionId := Some m,
         ob_error := [], ob_updatedAt := t\<rparr>],
       rn_condition := C_active, rn_blocker := [], rn_revision := rn_revision run + 1, rn_updatedAt := t\<rparr>"
    "dr_timestamp at = Inr t"
proof -
  from assms obtain task outbox t where
      valid: "valid_run H run" and mut: "rn_condition run \<notin> {C_aborted, C_verified}"
      and task: "currentTask run (li_stepId input) = Inr task"
      and outbox: "outboxForTask run task = Inr outbox"
      and guards: "ob_state outbox \<in> {O_pending, O_reconcile_required}"
        "tk_state task \<in> {T_pending, T_reconcile_required}"
        "li_bindingKey input = tk_missionBindingKey task"
        "mission_id_pattern (to_lower (js_inline (li_missionId input)))"
      and t: "dr_timestamp at = Inr t"
      and fin: "finishRun H ((update_outbox (tk_stepId task)
            (\<lambda>ob. ob\<lparr>ob_state := O_applied, ob_missionId := Some (to_lower (js_inline (li_missionId input))), ob_error := [],
                   ob_updatedAt := t\<rparr>) (update_task (tk_stepId task)
            (\<lambda>x. x\<lparr>tk_state := T_mission_linked, tk_missionId := Some (to_lower (js_inline (li_missionId input)))\<rparr>) run))
            \<lparr>rn_condition := C_active, rn_blocker := []\<rparr>) at = Inr r"
    unfolding linkDeliveryRunMission_def
    by (auto simp: Let_def validateDeliveryRun_Inr assertWorkMutable_def)
  note keyed = valid_run_keyed [OF valid]
  from task obtain i where i: "i < length (rn_tasks run)" "task = rn_tasks run ! i"
      "tk_stepId task = to_upper (js_inline (li_stepId input))"
    by (rule currentTask_Inr)
  have ob: "outbox = rn_outbox run ! i" using outbox outboxForTask_at [OF keyed i(1)] i(2) by simp
  from fin i(2) obtain t' where t': "dr_timestamp at = Inr t'" and "valid_run H r"
      "r = run\<lparr>rn_tasks := (rn_tasks run)[i := (rn_tasks run ! i)\<lparr>tk_state := T_mission_linked,
          tk_missionId := Some (to_lower (js_inline (li_missionId input)))\<rparr>],
       rn_outbox := (rn_outbox run)[i := (rn_outbox run ! i)\<lparr>ob_state := O_applied,
          ob_missionId := Some (to_lower (js_inline (li_missionId input))), ob_error := [], ob_updatedAt := t\<rparr>],
       rn_condition := C_active, rn_blocker := [], rn_revision := rn_revision run + 1, rn_updatedAt := t'\<rparr>"
    by (elim finishRun_Inr)
      (simp add: update_task_outbox_at [OF keyed i(1)] run_keyed_index [OF keyed i(1)])
  moreover have "t' = t" using t t' by simp
  ultimately show thesis
    using that [of i _ t] i guards valid mut ob t by simp
qed

lemma reconcile_success:
  assumes "markDeliveryRunMissionReconcileRequired H run input at = Inr r"
  obtains i t err where "valid_run H run" "valid_run H r" "i < length (rn_tasks run)"
    "rn_condition run \<noteq> C_aborted" "rn_condition run \<noteq> C_verified"
    "ob_state (rn_outbox run ! i) = O_pending" "tk_state (rn_tasks run ! i) = T_pending"
    "ri_bindingKey input = tk_missionBindingKey (rn_tasks run ! i)"
    "err = js_inline (ri_error input)" "err \<noteq> []"
    "r = run\<lparr>rn_tasks := (rn_tasks run)[i := (rn_tasks run ! i)\<lparr>tk_state := T_reconcile_required\<rparr>],
       rn_outbox := (rn_outbox run)[i := (rn_outbox run ! i)\<lparr>ob_state := O_reconcile_required,
         ob_error := err, ob_updatedAt := t\<rparr>],
       rn_condition := C_reconcile_required, rn_blocker := err,
       rn_revision := rn_revision run + 1, rn_updatedAt := t\<rparr>"
    "dr_timestamp at = Inr t"
proof -
  let ?err = "js_inline (ri_error input)"
  from assms obtain task outbox t where
      valid: "valid_run H run" and mut: "rn_condition run \<notin> {C_aborted, C_verified}"
      and task: "currentTask run (ri_stepId input) = Inr task"
      and outbox: "outboxForTask run task = Inr outbox"
      and guards: "ob_state outbox = O_pending" "tk_state task = T_pending"
        "ri_bindingKey input = tk_missionBindingKey task" "?err \<noteq> []"
      and t: "dr_timestamp at = Inr t"
      and fin: "finishRun H ((update_outbox (tk_stepId task)
            (\<lambda>ob. ob\<lparr>ob_state := O_reconcile_required, ob_error := ?err, ob_updatedAt := t\<rparr>)
            (update_task (tk_stepId task) (\<lambda>x. x\<lparr>tk_state := T_reconcile_required\<rparr>) run))
            \<lparr>rn_condition := C_reconcile_required, rn_blocker := ?err\<rparr>) at = Inr r"
    unfolding markDeliveryRunMissionReconcileRequired_def
    by (auto simp: Let_def validateDeliveryRun_Inr assertWorkMutable_def dr_assertText_def)
  note keyed = valid_run_keyed [OF valid]
  from task obtain i where i: "i < length (rn_tasks run)" "task = rn_tasks run ! i"
    by (rule currentTask_Inr)
  have ob: "outbox = rn_outbox run ! i" using outbox outboxForTask_at [OF keyed i(1)] i(2) by simp
  from fin i(2) obtain t' where t': "dr_timestamp at = Inr t'" and "valid_run H r"
      "r = run\<lparr>rn_tasks := (rn_tasks run)[i := (rn_tasks run ! i)\<lparr>tk_state := T_reconcile_required\<rparr>],
       rn_outbox := (rn_outbox run)[i := (rn_outbox run ! i)\<lparr>ob_state := O_reconcile_required,
         ob_error := ?err, ob_updatedAt := t\<rparr>],
       rn_condition := C_reconcile_required, rn_blocker := ?err,
       rn_revision := rn_revision run + 1, rn_updatedAt := t'\<rparr>"
    by (elim finishRun_Inr)
      (simp add: update_task_outbox_at [OF keyed i(1)] run_keyed_index [OF keyed i(1)])
  moreover have "t' = t" using t t' by simp
  ultimately show thesis
    using that [of i _ t] i guards valid mut ob t by simp
qed

lemma capture_success:
  assumes "captureDeliveryRunImplementation H run input at = Inr r"
  obtains i t b new l where "valid_run H run" "valid_run H r" "i < length (rn_tasks run)"
    "rn_condition run \<noteq> C_aborted" "rn_condition run \<noteq> C_verified"
    "tk_state (rn_tasks run ! i) = T_mission_linked"
    "tk_missionId (rn_tasks run ! i) = Some (pi_missionId input)"
    "createWorkspaceBaseline H (pi_baseline input) = Inr b"
    "bl_digest b \<noteq> tk_expectedBaselineDigest (rn_tasks run ! i)"
    "length new = length (pi_evidence input)"
    "r = run\<lparr>rn_tasks := (rn_tasks run)[i := (rn_tasks run ! i)\<lparr>tk_state := T_implementation_captured,
         tk_implementation := \<lparr>im_baseline = Some b, im_evidenceIds = map ev_id new,
           im_capturedAt = Some (bl_capturedAt b)\<rparr>\<rparr>],
       rn_evidenceIndex := rn_evidenceIndex run @ new,
       rn_delivery := \<lparr>dl_level = l,
         dl_evidenceIds = push_all_new (dl_evidenceIds (rn_delivery run)) (map ev_id new), dl_updatedAt = t\<rparr>,
       rn_condition := C_awaiting_verification, rn_blocker := [],
       rn_revision := rn_revision run + 1, rn_updatedAt := t\<rparr>"
    "dr_timestamp at = Inr t"
proof -
  let ?task = "\<lambda>b ids x. x\<lparr>tk_state := T_implementation_captured, tk_implementation :=
     \<lparr>im_baseline = Some b, im_evidenceIds = ids, im_capturedAt = Some (bl_capturedAt b)\<rparr>\<rparr>"
  from assms obtain task b w ids u where
      valid: "valid_run H run" and mut: "rn_condition run \<notin> {C_aborted, C_verified}"
      and task: "currentTask run (pi_stepId input) = Inr task"
      and guards: "tk_state task = T_mission_linked" "tk_missionId task = Some (pi_missionId input)"
        "createWorkspaceBaseline H (pi_baseline input) = Inr b"
        "bl_digest b \<noteq> tk_expectedBaselineDigest task"
      and w: "appendEvidence run (pi_evidence input) = Inr (w, ids)"
      and u: "refreshDelivery ((update_task (tk_stepId task) (?task b ids) w)
         \<lparr>rn_condition := C_awaiting_verification, rn_blocker := []\<rparr>) ids at = Inr u"
      and fin: "finishRun H u at = Inr r"
    unfolding captureDeliveryRunImplementation_def
    by (auto simp: Let_def validateDeliveryRun_Inr assertWorkMutable_def)
  note keyed = valid_run_keyed [OF valid]
  from task obtain i where i: "i < length (rn_tasks run)" "task = rn_tasks run ! i"
    by (rule currentTask_Inr)
  from w obtain new where new: "w = run\<lparr>rn_evidenceIndex := rn_evidenceIndex run @ new\<rparr>"
      "ids = map ev_id new" "length new = length (pi_evidence input)"
    by (rule appendEvidence_Inr)
  have "run_keyed w" using keyed by (simp add: new run_keyed_def)
  then have upd: "update_task (tk_stepId task) (?task b ids) w
      = w\<lparr>rn_tasks := (rn_tasks run)[i := ?task b ids (rn_tasks run ! i)]\<rparr>"
    using i new(1) by (subst update_task_at [of w i]) simp_all
  from u [unfolded upd refreshDelivery_Inr] obtain t l where t: "dr_timestamp at = Inr t"
    and u': "u = w\<lparr>rn_tasks := (rn_tasks run)[i := ?task b ids (rn_tasks run ! i)],
       rn_condition := C_awaiting_verification, rn_blocker := [],
       rn_delivery := \<lparr>dl_level = l,
         dl_evidenceIds = push_all_new (dl_evidenceIds (rn_delivery run)) ids, dl_updatedAt = t\<rparr>\<rparr>"
    by (auto simp: new(1))
  from fin obtain t' where "dr_timestamp at = Inr t'" "valid_run H r"
      "r = u\<lparr>rn_revision := rn_revision u + 1, rn_updatedAt := t'\<rparr>"
    by (rule finishRun_Inr)
  then show thesis
    using that [of i b new t l] i guards valid mut t new u' by simp
qed

lemma off_course_success:
  assumes "markDeliveryRunOffCourse H run input at = Inr r"
  obtains i t new l where "valid_run H run" "valid_run H r" "i < length (rn_tasks run)"
    "rn_condition run \<notin> {C_verified, C_aborted, C_off_course, C_blocked}"
    "tk_state (rn_tasks run ! i) \<notin> {T_verified, T_failed, T_off_course}"
    "js_text (oi_reason input) \<noteq> []"
    "length new = length (oi_evidence input)"
    "r = run\<lparr>rn_tasks := (rn_tasks run)[i := (rn_tasks run ! i)\<lparr>tk_state := T_off_course\<rparr>],
       rn_outbox := (rn_outbox run)[i := (if ob_state (rn_outbox run ! i) = O_applied then rn_outbox run ! i
         else (rn_outbox run ! i)\<lparr>ob_state := O_blocked, ob_error := take 500 (js_text (oi_reason input)),
           ob_updatedAt := t\<rparr>)],
       rn_evidenceIndex := rn_evidenceIndex run @ new,
       rn_delivery := \<lparr>dl_level = l,
         dl_evidenceIds = push_all_new (dl_evidenceIds (rn_delivery run)) (map ev_id new), dl_updatedAt = t\<rparr>,
       rn_condition := C_off_course, rn_blocker := js_text (oi_reason input),
       rn_revision := rn_revision run + 1, rn_updatedAt := t\<rparr>"
    "dr_timestamp at = Inr t"
proof -
  let ?reason = "js_text (oi_reason input)"
  let ?task = "\<lambda>x. x\<lparr>tk_state := T_off_course\<rparr>"
  let ?ob = "\<lambda>t x. x\<lparr>ob_state := O_blocked, ob_error := take 500 ?reason, ob_updatedAt := t\<rparr>"
  from assms obtain task ob w ids t u where
      valid: "valid_run H run"
      and mut: "rn_condition run \<notin> {C_verified, C_aborted, C_off_course, C_blocked}"
      and task: "currentTask run (oi_stepId input) = Inr task"
      and guards: "tk_state task \<notin> {T_verified, T_failed, T_off_course}" "?reason \<noteq> []"
      and w: "appendEvidence run (oi_evidence input) = Inr (w, ids)"
      and ob: "outboxForTask (update_task (tk_stepId task) ?task w) task = Inr ob"
      and t: "dr_timestamp at = Inr t"
      and u: "refreshDelivery ((if ob_state ob = O_applied then update_task (tk_stepId task) ?task w
         else update_outbox (tk_stepId task) (?ob t) (update_task (tk_stepId task) ?task w))
         \<lparr>rn_condition := C_off_course, rn_blocker := ?reason\<rparr>) ids at = Inr u"
      and fin: "finishRun H u at = Inr r"
    unfolding markDeliveryRunOffCourse_def
    by (auto simp: Let_def validateDeliveryRun_Inr dr_assertText_def)
  note keyed = valid_run_keyed [OF valid]
  from task obtain i where i: "i < length (rn_tasks run)" "task = rn_tasks run ! i"
    by (rule currentTask_Inr)
  from w obtain new where new: "w = run\<lparr>rn_evidenceIndex := rn_evidenceIndex run @ new\<rparr>"
      "ids = map ev_id new" "length new = length (oi_evidence input)"
    by (rule appendEvidence_Inr)
  have wk: "run_keyed w" using keyed by (simp add: new run_keyed_def)
  have upd: "update_task (tk_stepId task) ?task w
      = w\<lparr>rn_tasks := (rn_tasks run)[i := ?task (rn_tasks run ! i)]\<rparr>"
    using i new(1) by (subst update_task_at [OF wk, of i]) simp_all
  have vk: "run_keyed (w\<lparr>rn_tasks := (rn_tasks run)[i := ?task (rn_tasks run ! i)]\<rparr>)"
    using keyed by (subst run_keyed_cong [of _ run]) (simp_all add: new map_update_same)
  have upd2: "update_outbox (tk_stepId task) g (w\<lparr>rn_tasks := (rn_tasks run)[i := ?task (rn_tasks run ! i)]\<rparr>)
      = w\<lparr>rn_tasks := (rn_tasks run)[i := ?task (rn_tasks run ! i)],
          rn_outbox := (rn_outbox run)[i := g (rn_outbox run ! i)]\<rparr>" for g
    using i new(1) by (subst update_outbox_at [OF vk, of i]) simp_all
  from outboxForTask_at [OF vk, of i task] ob [unfolded upd] have ob': "ob = rn_outbox run ! i"
    using i new(1) by simp
  from u [unfolded upd2 upd refreshDelivery_Inr] obtain l where u': "u = w\<lparr>rn_tasks := (rn_tasks run)[i := ?task (rn_tasks run ! i)],
       rn_outbox := (rn_outbox run)[i := (if ob_state (rn_outbox run ! i) = O_applied then rn_outbox run ! i
         else ?ob t (rn_outbox run ! i))],
       rn_condition := C_off_course, rn_blocker := ?reason,
       rn_delivery := \<lparr>dl_level = l,
         dl_evidenceIds = push_all_new (dl_evidenceIds (rn_delivery run)) ids, dl_updatedAt = t\<rparr>\<rparr>"
    using t by (cases "ob_state (rn_outbox run ! i) = O_applied") (auto simp: new(1) ob')
  from fin obtain t' where "dr_timestamp at = Inr t'" "valid_run H r"
      "r = u\<lparr>rn_revision := rn_revision u + 1, rn_updatedAt := t'\<rparr>"
    by (rule finishRun_Inr)
  then show thesis
    using that [of i new t l] i guards valid mut t new u' by simp
qed

text \<open>A verification: the task's outcome and, when it passed, the release of the following task.\<close>

definition verified_run ::
  "nat \<Rightarrow> bool \<Rightarrow> string \<Rightarrow> string \<Rightarrow> string \<Rightarrow> string \<Rightarrow> delivery_run \<Rightarrow> delivery_run" where
  "verified_run i passed vid digest verificationNote t run =
     (let tasks = (rn_tasks run)[i := (rn_tasks run ! i)\<lparr>tk_verificationId := Some vid,
            tk_state := (if passed then T_verified else T_failed)\<rparr>]
      in if \<not> passed
         then run\<lparr>rn_tasks := tasks, rn_condition := C_blocked, rn_blocker := verificationNote\<rparr>
         else if Suc i < length (rn_tasks run)
         then run\<lparr>rn_tasks := tasks[Suc i :=
                (rn_tasks run ! Suc i)\<lparr>tk_expectedBaselineDigest := digest\<rparr>],
              rn_outbox := (rn_outbox run)[Suc i :=
                (rn_outbox run ! Suc i)\<lparr>ob_state := O_pending, ob_updatedAt := t\<rparr>],
              rn_condition := C_active, rn_blocker := []\<rparr>
         else run\<lparr>rn_tasks := tasks, rn_condition := C_verified, rn_blocker := []\<rparr>)"

lemma releaseFollowing_at:
  assumes "run_keyed run" "i < length (rn_tasks run)"
  shows "releaseFollowing run (int i + 1) digest t = Inr
    (if Suc i < length (rn_tasks run)
     then run\<lparr>rn_tasks := (rn_tasks run)[Suc i := (rn_tasks run ! Suc i)\<lparr>tk_expectedBaselineDigest := digest\<rparr>],
        rn_outbox := (rn_outbox run)[Suc i := (rn_outbox run ! Suc i)\<lparr>ob_state := O_pending, ob_updatedAt := t\<rparr>],
        rn_condition := C_active, rn_blocker := []\<rparr>
     else run\<lparr>rn_condition := C_verified, rn_blocker := []\<rparr>)"
proof (cases "Suc i < length (rn_tasks run)")
  case True
  let ?w = "run\<lparr>rn_tasks := (rn_tasks run)[Suc i := (rn_tasks run ! Suc i)\<lparr>tk_expectedBaselineDigest := digest\<rparr>]\<rparr>"
  have w: "run_keyed ?w"
    using assms(1) by (subst run_keyed_cong [of _ run]) (simp_all add: map_update_same)
  have position: "nat (int i + 1) = Suc i" by simp
  show ?thesis
    using True outboxForTask_at [OF w, of "Suc i"] update_outbox_at [OF w, of "Suc i"]
    by (simp add: releaseFollowing_def position Let_def)
next
  case False
  moreover have "nat (int i + 1) = Suc i" by simp
  ultimately show ?thesis by (simp add: releaseFollowing_def)
qed

lemma verified_run_same [simp]:
  "rn_delivery (verified_run i p v d n t w) = rn_delivery w"
  "rn_revision (verified_run i p v d n t w) = rn_revision w"
  "rn_verificationRecords (verified_run i p v d n t w) = rn_verificationRecords w"
  "rn_evidenceIndex (verified_run i p v d n t w) = rn_evidenceIndex w"
  by (simp_all add: verified_run_def Let_def)

lemma settleVerification_Inr:
  assumes "settleVerification H w task passed record newIds = Inr r"
    and "run_keyed w" "i < length (rn_tasks w)" "task = rn_tasks w ! i"
  obtains t' l where "valid_run H r" "dr_timestamp (vr_verifiedAt record) = Inr t'"
    "r = (verified_run i passed (vr_id record) (vr_afterBaselineDigest record) (vr_note record)
        (vr_verifiedAt record) w)
      \<lparr>rn_verificationRecords := rn_verificationRecords w @ [record],
       rn_delivery := \<lparr>dl_level = l, dl_evidenceIds = push_all_new (dl_evidenceIds (rn_delivery w))
           (newIds @ vr_evidenceIds record), dl_updatedAt = t'\<rparr>,
       rn_revision := rn_revision w + 1, rn_updatedAt := t'\<rparr>"
proof -
  let ?task = "\<lambda>x. x\<lparr>tk_verificationId := Some (vr_id record),
     tk_state := (if passed then T_verified else T_failed)\<rparr>"
  let ?w = "w\<lparr>rn_verificationRecords := rn_verificationRecords w @ [record]\<rparr>"
  let ?v = "?w\<lparr>rn_tasks := (rn_tasks w)[i := ?task (rn_tasks w ! i)]\<rparr>"
  have "run_keyed ?w" using assms(2) by (simp add: run_keyed_def)
  then have upd: "update_task (tk_stepId task) ?task ?w = ?v"
    using assms(3,4) by (subst update_task_at [of ?w i]) simp_all
  have keyed: "run_keyed ?v"
    using assms(2) by (subst run_keyed_cong [of _ w]) (simp_all add: map_update_same)
  have seq: "tk_sequence task = int i" using run_keyed_index [OF assms(2,3)] assms(4) by simp
  have released: "releaseFollowing ?v (tk_sequence task + 1) (vr_afterBaselineDigest record) (vr_verifiedAt record)
      = Inr (verified_run i True (vr_id record) (vr_afterBaselineDigest record) (vr_note record)
          (vr_verifiedAt record) w \<lparr>rn_verificationRecords := rn_verificationRecords w @ [record]\<rparr>)"
    if "passed"
    using that releaseFollowing_at [OF keyed, of i] assms(3) by (simp add: seq verified_run_def Let_def)
  from assms(1) obtain v u where v: "(if passed
      then releaseFollowing ?v (tk_sequence task + 1) (vr_afterBaselineDigest record) (vr_verifiedAt record)
      else Inr (?v\<lparr>rn_condition := C_blocked, rn_blocker := vr_note record\<rparr>)) = Inr v"
    and u: "refreshDelivery v (newIds @ vr_evidenceIds record) (vr_verifiedAt record) = Inr u"
    and fin: "finishRun H u (vr_verifiedAt record) = Inr r"
    unfolding settleVerification_def Let_def upd by (simp only: attempt_Inr) blast
  have v': "v = (verified_run i passed (vr_id record) (vr_afterBaselineDigest record) (vr_note record)
        (vr_verifiedAt record) w) \<lparr>rn_verificationRecords := rn_verificationRecords w @ [record]\<rparr>"
    using v released by (cases passed) (auto simp: verified_run_def Let_def)
  from u [unfolded refreshDelivery_Inr] obtain t' l where t': "dr_timestamp (vr_verifiedAt record) = Inr t'"
    and u': "u = v\<lparr>rn_delivery := \<lparr>dl_level = l, dl_evidenceIds = push_all_new (dl_evidenceIds (rn_delivery v))
           (newIds @ vr_evidenceIds record), dl_updatedAt = t'\<rparr>\<rparr>" by blast
  have same: "rn_delivery v = rn_delivery w" "rn_revision v = rn_revision w"
    unfolding v' by (simp_all add: verified_run_def Let_def)
  from fin obtain t'' where "dr_timestamp (vr_verifiedAt record) = Inr t''" and r: "valid_run H r"
      "r = u\<lparr>rn_revision := rn_revision u + 1, rn_updatedAt := t''\<rparr>"
    by (rule finishRun_Inr)
  with t' have "t'' = t'" by simp
  with r t' show thesis by (intro that [of t' l]) (simp_all add: u' same v')
qed

lemma verify_success:
  assumes "recordDeliveryRunVerification H run input at = Inr r"
  obtains i t b new l rec where "valid_run H run" "valid_run H r" "i < length (rn_tasks run)"
    "rn_condition run \<noteq> C_aborted" "rn_condition run \<noteq> C_verified"
    "tk_state (rn_tasks run ! i) = T_implementation_captured"
    "createWorkspaceBaseline H (vi_baseline input) = Inr b"
    "implementation_digest (rn_tasks run ! i) = Some (bl_digest b)"
    "vr_id rec \<notin> set (map vr_id (rn_verificationRecords run))"
    "vr_stepId rec = tk_stepId (rn_tasks run ! i)"
    "vr_outcome rec = (if list_all (\<lambda>c. cr_outcome c = ''passed'') (vr_criteria rec) then ''passed'' else ''failed'')"
    "vr_beforeBaselineDigest rec = bl_digest b" "vr_afterBaselineDigest rec = bl_digest b"
    "card (set (map cr_acceptanceId (vr_criteria rec))) = length (tk_acceptanceIds (rn_tasks run ! i))"
    "vr_note rec \<noteq> []" "length new = length (vi_evidence input)"
    "r = (verified_run i (vr_outcome rec = ''passed'') (vr_id rec) (bl_digest b) (vr_note rec) (vr_verifiedAt rec) run)
      \<lparr>rn_evidenceIndex := rn_evidenceIndex run @ new,
       rn_verificationRecords := rn_verificationRecords run @ [rec],
       rn_delivery := \<lparr>dl_level = l, dl_evidenceIds = push_all_new (dl_evidenceIds (rn_delivery run))
           (map ev_id new @ vr_evidenceIds rec), dl_updatedAt = t\<rparr>,
       rn_revision := rn_revision run + 1, rn_updatedAt := t\<rparr>"
proof -
  let ?passed = "\<lambda>cs. list_all (\<lambda>c. cr_outcome c = ''passed'') cs"
  let ?vid = "to_lower (js_inline (vi_id input))"
  let ?vrec = "\<lambda>task cs b ids t. \<lparr>vr_id = ?vid, vr_stepId = tk_stepId task, vr_planDigest = rn_planDigest run,
     vr_implementationMissionId = vi_missionId input, vr_verifier = ''operator'', vr_criteria = cs,
     vr_outcome = (if ?passed cs then ''passed'' else ''failed''), vr_beforeBaselineDigest = bl_digest b,
     vr_afterBaselineDigest = bl_digest b, vr_evidenceIds = ids, vr_note = js_text (vi_note input),
     vr_verifiedAt = t\<rparr>"
  from assms obtain task b w ids referenced cs t where
      valid: "valid_run H run" and mut: "rn_condition run \<notin> {C_aborted, C_verified}"
      and task: "currentTask run (vi_stepId input) = Inr task"
      and guards: "tk_state task = T_implementation_captured"
        "createWorkspaceBaseline H (vi_baseline input) = Inr b"
        "implementation_digest task = Some (bl_digest b)"
        "?vid \<notin> set (map vr_id (rn_verificationRecords run))"
        "card (set (map cr_acceptanceId cs)) = length (tk_acceptanceIds task)"
        "js_text (vi_note input) \<noteq> []"
      and w: "appendEvidence run (vi_evidence input) = Inr (w, ids)"
      and settle: "settleVerification H w task (?passed cs) (?vrec task cs b referenced t) ids = Inr r"
    unfolding recordDeliveryRunVerification_def
    by (auto simp: Let_def validateDeliveryRun_Inr assertWorkMutable_def)
  note keyed = valid_run_keyed [OF valid]
  from task obtain i where i: "i < length (rn_tasks run)" "task = rn_tasks run ! i"
    by (rule currentTask_Inr)
  from w obtain new where new: "w = run\<lparr>rn_evidenceIndex := rn_evidenceIndex run @ new\<rparr>"
      "ids = map ev_id new" "length new = length (vi_evidence input)"
    by (rule appendEvidence_Inr)
  have wk: "run_keyed w" using keyed by (simp add: new run_keyed_def)
  define rec where "rec = ?vrec task cs b referenced t"
  note settled = settleVerification_Inr [OF settle [folded rec_def] wk]
  obtain t' l where r: "valid_run H r"
    "r = (verified_run i (?passed cs) (vr_id rec) (vr_afterBaselineDigest rec) (vr_note rec) (vr_verifiedAt rec) w)
      \<lparr>rn_verificationRecords := rn_verificationRecords w @ [rec],
       rn_delivery := \<lparr>dl_level = l, dl_evidenceIds = push_all_new (dl_evidenceIds (rn_delivery w))
           (ids @ vr_evidenceIds rec), dl_updatedAt = t'\<rparr>,
       rn_revision := rn_revision w + 1, rn_updatedAt := t'\<rparr>"
    by (rule settled [of i]) (use i new in simp_all)
  have passed: "(vr_outcome rec = ''passed'') = ?passed cs" by (simp add: rec_def)
  have shift: "verified_run i p v d n tm w =
      (verified_run i p v d n tm run)\<lparr>rn_evidenceIndex := rn_evidenceIndex run @ new\<rparr>" for p v d n tm
    by (simp add: verified_run_def Let_def new)
  from r(2) have "r = (verified_run i (vr_outcome rec = ''passed'') (vr_id rec) (bl_digest b) (vr_note rec)
        (vr_verifiedAt rec) run)
      \<lparr>rn_evidenceIndex := rn_evidenceIndex run @ new,
       rn_verificationRecords := rn_verificationRecords run @ [rec],
       rn_delivery := \<lparr>dl_level = l, dl_evidenceIds = push_all_new (dl_evidenceIds (rn_delivery run))
           (map ev_id new @ vr_evidenceIds rec), dl_updatedAt = t'\<rparr>,
       rn_revision := rn_revision run + 1, rn_updatedAt := t'\<rparr>"
    unfolding passed shift by (simp add: new rec_def)
  then show thesis
    using r(1) i guards valid mut new(3)
    by (intro that [of i b rec new t' l]) (simp_all add: rec_def)
qed

text \<open>The loop of an abort never fails on an indexed run, and treats each task on its own.\<close>

definition aborted_task :: "run_task \<Rightarrow> run_task" where
  "aborted_task task = (if tk_state task = T_verified then task else task\<lparr>tk_state := T_aborted\<rparr>)"

definition aborted_item :: "string \<Rightarrow> string \<Rightarrow> run_task \<Rightarrow> outbox_item \<Rightarrow> outbox_item" where
  "aborted_item reason at task item =
     (if tk_state task = T_verified \<or> ob_state item = O_applied then item
      else item\<lparr>ob_state := O_canceled, ob_missionId := None, ob_error := take 500 reason,
             ob_updatedAt := at\<rparr>)"

lemma abortTasks_at:
  assumes "run_keyed run" "rn_tasks run = front @ ts" "rn_outbox run = ofront @ obs"
    "length ofront = length front"
  shows "abortTasks reason at ts run = Inr (run\<lparr>rn_tasks := front @ map aborted_task ts,
     rn_outbox := ofront @ map2 (aborted_item reason at) ts obs\<rparr>)"
  using assms
proof (induction ts arbitrary: run front ofront obs)
  case Nil
  then show ?case by (auto simp: run_keyed_def)
next
  case (Cons t ts)
  from Cons.prems have "length obs = Suc (length ts)" by (auto simp: run_keyed_def)
  then obtain ob obs' where obs: "obs = ob # obs'" by (cases obs) auto
  let ?i = "length front"
  let ?f = "\<lambda>x. x\<lparr>tk_state := T_aborted\<rparr>"
  let ?v = "run\<lparr>rn_tasks := (front @ [aborted_task t]) @ ts,
     rn_outbox := (ofront @ [aborted_item reason at t ob]) @ obs'\<rparr>"
  have i: "?i < length (rn_tasks run)" "rn_tasks run ! ?i = t" "rn_outbox run ! ?i = ob"
    using Cons.prems obs by (simp_all add: nth_append)
  have key: "ob_stepId ob = tk_stepId t" using run_keyed_index [OF Cons.prems(1) i(1)] i by simp
  have "run_keyed ?v"
    using Cons.prems obs by (subst run_keyed_cong [of _ run])
      (simp_all add: aborted_task_def aborted_item_def)
  then have rest: "abortTasks reason at ts ?v = Inr (?v\<lparr>rn_tasks := (front @ [aborted_task t]) @ map aborted_task ts,
      rn_outbox := (ofront @ [aborted_item reason at t ob]) @ map2 (aborted_item reason at) ts obs'\<rparr>)"
    using Cons.prems(4) by (intro Cons.IH) simp_all
  show ?case
  proof (cases "tk_state t = T_verified")
    case True
    then have "?v = run" using Cons.prems obs
      by (simp add: aborted_task_def aborted_item_def)
    with rest True show ?thesis by (simp add: obs aborted_task_def aborted_item_def)
  next
    case False
    let ?w = "run\<lparr>rn_tasks := (rn_tasks run)[?i := ?f t]\<rparr>"
    have upd: "update_task (tk_stepId t) ?f run = ?w"
      using i by (simp add: update_task_at [OF Cons.prems(1), of ?i])
    have w: "run_keyed ?w"
      using Cons.prems(1) i by (subst run_keyed_cong [of _ run]) (simp_all add: map_update_same)
    have out: "outboxForTask ?w t = Inr ob" using outboxForTask_at [OF w, of ?i t] i by simp
    have upd2: "update_outbox (tk_stepId t) g ?w = ?w\<lparr>rn_outbox := (rn_outbox run)[?i := g ob]\<rparr>" for g
      using i by (simp add: update_outbox_at [OF w, of ?i])
    have v: "?v = (if ob_state ob = O_applied then ?w else update_outbox (tk_stepId t)
       (\<lambda>ob. ob\<lparr>ob_state := O_canceled, ob_missionId := None, ob_error := take 500 reason,
          ob_updatedAt := at\<rparr>) ?w)"
      unfolding upd2 using False Cons.prems obs
      by (simp add: aborted_task_def aborted_item_def list_update_append)
    have "abortTasks reason at (t # ts) run = abortTasks reason at ts ?v"
      unfolding v using False out by (simp add: upd Let_def del: append_assoc)
    with rest show ?thesis by (simp add: obs)
  qed
qed

lemma abort_success:
  assumes "abortDeliveryRun H run input at = Inr r"
  obtains t new l where "valid_run H run" "valid_run H r"
    "rn_condition run \<in> set ABORTABLE_CONDITIONS" "ai_operatorConfirmed input"
    "js_text (ai_reason input) \<noteq> []" "ai_evidence input \<noteq> []"
    "length new = length (ai_evidence input)" "dr_timestamp at = Inr t"
    "list_ex (operator_evidence (rn_evidenceIndex run @ new) t) (map ev_id new)"
    "r = run\<lparr>rn_tasks := map aborted_task (rn_tasks run),
       rn_outbox := map2 (aborted_item (js_text (ai_reason input)) t) (rn_tasks run) (rn_outbox run),
       rn_evidenceIndex := rn_evidenceIndex run @ new,
       rn_delivery := \<lparr>dl_level = l, dl_evidenceIds = push_all_new (dl_evidenceIds (rn_delivery run))
           (map ev_id new), dl_updatedAt = t\<rparr>,
       rn_condition := C_aborted, rn_blocker := js_text (ai_reason input),
       rn_abort := Some \<lparr>ab_operatorConfirmed = True, ab_fromCondition = rn_condition run,
         ab_reason = js_text (ai_reason input), ab_evidenceIds = map ev_id new, ab_abortedAt = t\<rparr>,
       rn_revision := rn_revision run + 1, rn_updatedAt := t\<rparr>"
proof -
  let ?reason = "js_text (ai_reason input)"
  from assms obtain t w ids v u where
      valid: "valid_run H run" and guards: "rn_condition run \<in> set ABORTABLE_CONDITIONS"
        "ai_operatorConfirmed input" "?reason \<noteq> []" "ai_evidence input \<noteq> []"
      and t: "dr_timestamp at = Inr t"
      and w: "appendEvidence run (ai_evidence input) = Inr (w, ids)"
      and op: "list_ex (operator_evidence (rn_evidenceIndex w) t) ids"
      and v: "abortTasks ?reason t (rn_tasks w) w = Inr v"
      and u: "refreshDelivery (v\<lparr>rn_condition := C_aborted, rn_abort := Some \<lparr>ab_operatorConfirmed = True,
         ab_fromCondition = rn_condition run, ab_reason = ?reason, ab_evidenceIds = ids, ab_abortedAt = t\<rparr>,
         rn_blocker := ?reason\<rparr>) ids t = Inr u"
      and fin: "finishRun H u t = Inr r"
    unfolding abortDeliveryRun_def
    by (auto simp: Let_def validateDeliveryRun_Inr dr_assertText_def)
  from w obtain new where new: "w = run\<lparr>rn_evidenceIndex := rn_evidenceIndex run @ new\<rparr>"
      "ids = map ev_id new" "length new = length (ai_evidence input)"
    by (rule appendEvidence_Inr)
  have "run_keyed w" using valid_run_keyed [OF valid] by (simp add: new run_keyed_def)
  from abortTasks_at [OF this, of "[]" "rn_tasks w" "[]" "rn_outbox w"] v
  have v': "v = w\<lparr>rn_tasks := map aborted_task (rn_tasks w),
     rn_outbox := map2 (aborted_item ?reason t) (rn_tasks w) (rn_outbox w)\<rparr>" by simp
  from u [unfolded refreshDelivery_Inr] obtain t' l where t': "dr_timestamp t = Inr t'"
    and u': "u = v\<lparr>rn_condition := C_aborted, rn_abort := Some \<lparr>ab_operatorConfirmed = True,
         ab_fromCondition = rn_condition run, ab_reason = ?reason, ab_evidenceIds = ids, ab_abortedAt = t\<rparr>,
         rn_blocker := ?reason, rn_delivery := \<lparr>dl_level = l, dl_evidenceIds =
           push_all_new (dl_evidenceIds (rn_delivery run)) ids, dl_updatedAt = t'\<rparr>\<rparr>"
    unfolding v' new(1) by auto
  from fin obtain t'' where "dr_timestamp t = Inr t''" and r: "valid_run H r"
      "r = u\<lparr>rn_revision := rn_revision u + 1, rn_updatedAt := t''\<rparr>"
    by (rule finishRun_Inr)
  with t' have t'': "t'' = t'" by simp
  have "run_abort_checks r = None" using r(1) by (simp add: valid_run_checks)
  then have "t'' = t" by (simp add: run_abort_checks_def r(2) u' validateAbort_def)
  with r t guards valid new op t'' show thesis
    by (intro that [of new t l]) (simp_all add: u' v')
qed

end
