(* ===== verification/RunRefinement.thy ===== *)
theory RunRefinement
  imports DeliveryRunFacts
begin

text \<open>
  A delivery run refines the lifecycle machine: \<open>lifecycle_of\<close> forgets everything but the
  condition and the states, and each successful operation of delivery-run.js on a reachable
  run is a step of the machine. The shape of a reachable run, its dead ends and its
  terminal states follow from the machine's invariant.
\<close>

section \<open>The operations and the runs they reach\<close>

datatype run_operation =
  Op_link link_input | Op_reconcile reconcile_input | Op_capture capture_input
| Op_verify verify_input | Op_abort abort_input | Op_off_course off_course_input

fun apply_operation :: "host \<Rightarrow> run_operation \<Rightarrow> string \<Rightarrow> delivery_run \<Rightarrow> delivery_run result" where
  "apply_operation H (Op_link v) at run = linkDeliveryRunMission H run v at"
| "apply_operation H (Op_reconcile v) at run = markDeliveryRunMissionReconcileRequired H run v at"
| "apply_operation H (Op_capture v) at run = captureDeliveryRunImplementation H run v at"
| "apply_operation H (Op_verify v) at run = recordDeliveryRunVerification H run v at"
| "apply_operation H (Op_abort v) at run = abortDeliveryRun H run v at"
| "apply_operation H (Op_off_course v) at run = markDeliveryRunOffCourse H run v at"

definition run_created :: "host \<Rightarrow> delivery_run \<Rightarrow> bool" where
  "run_created H run \<longleftrightarrow> (\<exists>v at. createDeliveryRun H v at = Inr run)"

definition run_operates :: "host \<Rightarrow> delivery_run \<Rightarrow> delivery_run \<Rightarrow> bool" where
  "run_operates H run r \<longleftrightarrow> (\<exists>op at. apply_operation H op at run = Inr r)"

abbreviation run_reachable :: "host \<Rightarrow> delivery_run \<Rightarrow> bool" where
  "run_reachable H \<equiv> reaches (run_created H) (run_operates H)"

definition lifecycle_of :: "delivery_run \<Rightarrow> lifecycle" where
  "lifecycle_of run = \<lparr>lc_condition = rn_condition run,
     lc_tasks = zip (map tk_state (rn_tasks run)) (map ob_state (rn_outbox run))\<rparr>"

lemma lifecycle_of_condition [simp]: "lc_condition (lifecycle_of run) = rn_condition run"
  by (simp add: lifecycle_of_def)

lemma lifecycle_of_length:
  "run_keyed run \<Longrightarrow> length (lc_tasks (lifecycle_of run)) = length (rn_tasks run)"
  by (simp add: lifecycle_of_def run_keyed_def)

lemma lifecycle_of_nth:
  "run_keyed run \<Longrightarrow> i < length (rn_tasks run) \<Longrightarrow>
   lc_tasks (lifecycle_of run) ! i = (tk_state (rn_tasks run ! i), ob_state (rn_outbox run ! i))"
  by (simp add: lifecycle_of_def run_keyed_def)

lemma lifecycle_of_eq:
  assumes "run_keyed run" "run_keyed r" "length (rn_tasks r) = length (rn_tasks run)"
    "rn_condition r = lc_condition s" "length (lc_tasks s) = length (rn_tasks r)"
    "\<And>j. j < length (rn_tasks r) \<Longrightarrow> lc_tasks s ! j = (tk_state (rn_tasks r ! j), ob_state (rn_outbox r ! j))"
  shows "lifecycle_of r = s"
proof -
  have "lc_tasks (lifecycle_of r) = lc_tasks s"
    using assms by (intro nth_equalityI) (simp_all add: lifecycle_of_length lifecycle_of_nth)
  with assms(4) show ?thesis by (cases s) (simp add: lifecycle_of_def)
qed

text \<open>A valid run holds back every task whose predecessor is not verified.\<close>

lemma not_held_released:
  assumes "valid_run H run" "i < length (rn_tasks run)" "rn_condition run \<noteq> C_aborted"
    "ob_state (rn_outbox run ! i) \<noteq> O_held"
  shows "released (lifecycle_of run) i"
proof -
  note keyed = valid_run_keyed [OF assms(1)]
  from valid_run_task [OF assms(1,2)] assms(3,4)
  have "0 < i \<longrightarrow> tk_state (rn_tasks run ! (i - 1)) = T_verified"
    by (auto simp: run_task_checks_def Let_def)
  with assms(2) keyed show ?thesis
    by (simp add: released_def lifecycle_of_length lifecycle_of_nth)
qed

lemma shape_released:
  assumes "open_shape s k"
  shows "released s k"
  using assms by (auto simp: released_def open_shape_def)

lemma open_shape_only_current:
  assumes "open_shape s k" "i < length (lc_tasks s)"
    "fst (lc_tasks s ! i) \<noteq> T_verified" "fst (lc_tasks s ! i) \<noteq> T_pending"
  shows "i = k"
  using assms by (cases i k rule: linorder_cases) (auto simp: open_shape_def)

lemma lifecycle_open:
  assumes "lifecycle_inv (lifecycle_of run)" "rn_condition run \<noteq> C_aborted" "rn_condition run \<noteq> C_verified"
  obtains k where "open_shape (lifecycle_of run) k"
  using assms by (auto intro: open_shape_of_work_open simp: work_open_def)

section \<open>Each operation is a step\<close>

lemma work_open_of:
  "rn_condition run \<noteq> C_aborted \<Longrightarrow> rn_condition run \<noteq> C_verified \<Longrightarrow> work_open (lifecycle_of run)"
  by (simp add: work_open_def)

lemma link_step:
  assumes "linkDeliveryRunMission H run input at = Inr r"
  shows "lifecycle_step (lifecycle_of run) (lifecycle_of r)"
  using assms
proof (rule link_success)
  fix i t m
  assume valid: "valid_run H run" "valid_run H r" and i: "i < length (rn_tasks run)"
    and c: "rn_condition run \<noteq> C_aborted" "rn_condition run \<noteq> C_verified"
    and ob: "ob_state (rn_outbox run ! i) \<in> {O_pending, O_reconcile_required}"
    and st: "tk_state (rn_tasks run ! i) \<in> {T_pending, T_reconcile_required}"
    and r: "r = run\<lparr>rn_tasks := (rn_tasks run)[i := (rn_tasks run ! i)\<lparr>tk_state := T_mission_linked, tk_missionId := Some m\<rparr>],
       rn_outbox := (rn_outbox run)[i := (rn_outbox run ! i)\<lparr>ob_state := O_applied, ob_missionId := Some m,
         ob_error := [], ob_updatedAt := t\<rparr>],
       rn_condition := C_active, rn_blocker := [], rn_revision := rn_revision run + 1, rn_updatedAt := t\<rparr>"
  note keyed = valid_run_keyed [OF valid(1)]
  have "released (lifecycle_of run) i" using valid(1) i c(1) ob by (intro not_held_released) auto
  then have "lifecycle_step (lifecycle_of run)
      (move_task i T_mission_linked O_applied C_active (lifecycle_of run))"
    using c i st ob keyed by (intro lifecycle_step.link) (auto simp: work_open_def lifecycle_of_nth)
  moreover have "lifecycle_of r = move_task i T_mission_linked O_applied C_active (lifecycle_of run)"
    using keyed i valid_run_keyed [OF valid(2)] run_keyed_index [OF keyed i]
    by (intro lifecycle_of_eq [of run])
      (auto simp: r move_task_def lifecycle_of_length lifecycle_of_nth nth_list_update run_keyed_def)
  ultimately show ?thesis by simp
qed

lemma reconcile_step:
  assumes "markDeliveryRunMissionReconcileRequired H run input at = Inr r"
  shows "lifecycle_step (lifecycle_of run) (lifecycle_of r)"
  using assms
proof (rule reconcile_success)
  fix i t err
  assume valid: "valid_run H run" "valid_run H r" and i: "i < length (rn_tasks run)"
    and c: "rn_condition run \<noteq> C_aborted" "rn_condition run \<noteq> C_verified"
    and st: "ob_state (rn_outbox run ! i) = O_pending" "tk_state (rn_tasks run ! i) = T_pending"
    and r: "r = run\<lparr>rn_tasks := (rn_tasks run)[i := (rn_tasks run ! i)\<lparr>tk_state := T_reconcile_required\<rparr>],
       rn_outbox := (rn_outbox run)[i := (rn_outbox run ! i)\<lparr>ob_state := O_reconcile_required,
         ob_error := err, ob_updatedAt := t\<rparr>],
       rn_condition := C_reconcile_required, rn_blocker := err,
       rn_revision := rn_revision run + 1, rn_updatedAt := t\<rparr>"
  note keyed = valid_run_keyed [OF valid(1)]
  have "released (lifecycle_of run) i" using valid(1) i c(1) st by (intro not_held_released) auto
  then have "lifecycle_step (lifecycle_of run)
      (move_task i T_reconcile_required O_reconcile_required C_reconcile_required (lifecycle_of run))"
    using c i st keyed by (intro lifecycle_step.reconcile) (auto simp: work_open_def lifecycle_of_nth)
  moreover have "lifecycle_of r =
      move_task i T_reconcile_required O_reconcile_required C_reconcile_required (lifecycle_of run)"
    using keyed i valid_run_keyed [OF valid(2)] run_keyed_index [OF keyed i]
    by (intro lifecycle_of_eq [of run])
      (auto simp: r move_task_def lifecycle_of_length lifecycle_of_nth nth_list_update run_keyed_def)
  ultimately show ?thesis by simp
qed

lemma capture_step:
  assumes "captureDeliveryRunImplementation H run input at = Inr r" "lifecycle_inv (lifecycle_of run)"
  shows "lifecycle_step (lifecycle_of run) (lifecycle_of r)"
  using assms(1)
proof (rule capture_success)
  fix i t b new l
  assume valid: "valid_run H run" "valid_run H r" and i: "i < length (rn_tasks run)"
    and c: "rn_condition run \<noteq> C_aborted" "rn_condition run \<noteq> C_verified"
    and st: "tk_state (rn_tasks run ! i) = T_mission_linked"
    and r: "r = run\<lparr>rn_tasks := (rn_tasks run)[i := (rn_tasks run ! i)\<lparr>tk_state := T_implementation_captured,
         tk_implementation := \<lparr>im_baseline = Some b, im_evidenceIds = map ev_id new,
           im_capturedAt = Some (bl_capturedAt b)\<rparr>\<rparr>],
       rn_evidenceIndex := rn_evidenceIndex run @ new,
       rn_delivery := \<lparr>dl_level = l,
         dl_evidenceIds = push_all_new (dl_evidenceIds (rn_delivery run)) (map ev_id new), dl_updatedAt = t\<rparr>,
       rn_condition := C_awaiting_verification, rn_blocker := [],
       rn_revision := rn_revision run + 1, rn_updatedAt := t\<rparr>"
  note keyed = valid_run_keyed [OF valid(1)]
  note index = lifecycle_of_length [OF keyed] lifecycle_of_nth [OF keyed i]
  obtain k where k: "open_shape (lifecycle_of run) k" using assms(2) c by (rule lifecycle_open)
  have "i = k" using i st by (intro open_shape_only_current [OF k]) (simp_all add: index)
  then have rel: "released (lifecycle_of run) i" using shape_released [OF k] by simp
  let ?ob = "ob_state (rn_outbox run ! i)"
  have "lifecycle_step (lifecycle_of run)
      (move_task i T_implementation_captured ?ob C_awaiting_verification (lifecycle_of run))"
    by (rule lifecycle_step.capture [OF work_open_of [OF c] rel]) (simp add: index st)
  moreover have "lifecycle_of r =
      move_task i T_implementation_captured ?ob C_awaiting_verification (lifecycle_of run)"
    using keyed i valid_run_keyed [OF valid(2)]
    by (intro lifecycle_of_eq [of run])
      (auto simp: r move_task_def lifecycle_of_length lifecycle_of_nth nth_list_update)
  ultimately show ?thesis by simp
qed

lemma off_course_step:
  assumes "markDeliveryRunOffCourse H run input at = Inr r"
  shows "lifecycle_step (lifecycle_of run) (lifecycle_of r)"
  using assms
proof (rule off_course_success)
  fix i t new l
  let ?reason = "js_text (oi_reason input)"
  let ?item = "if ob_state (rn_outbox run ! i) = O_applied then rn_outbox run ! i
     else (rn_outbox run ! i)\<lparr>ob_state := O_blocked, ob_error := take 500 ?reason, ob_updatedAt := t\<rparr>"
  assume valid: "valid_run H run" "valid_run H r" and i: "i < length (rn_tasks run)"
    and c: "rn_condition run \<notin> {C_verified, C_aborted, C_off_course, C_blocked}"
    and st: "tk_state (rn_tasks run ! i) \<notin> {T_verified, T_failed, T_off_course}"
    and r: "r = run\<lparr>rn_tasks := (rn_tasks run)[i := (rn_tasks run ! i)\<lparr>tk_state := T_off_course\<rparr>],
       rn_outbox := (rn_outbox run)[i := ?item],
       rn_evidenceIndex := rn_evidenceIndex run @ new,
       rn_delivery := \<lparr>dl_level = l,
         dl_evidenceIds = push_all_new (dl_evidenceIds (rn_delivery run)) (map ev_id new), dl_updatedAt = t\<rparr>,
       rn_condition := C_off_course, rn_blocker := ?reason,
       rn_revision := rn_revision run + 1, rn_updatedAt := t\<rparr>"
  note keyed = valid_run_keyed [OF valid(1)]
  note index = lifecycle_of_length [OF keyed] lifecycle_of_nth [OF keyed i]
  have j: "i - 1 < length (rn_tasks run)" using i by simp
  have "released (lifecycle_of r) i"
    using i run_keyed_index [OF keyed i] by (intro not_held_released [OF valid(2)]) (simp_all add: r)
  moreover have "0 < i \<Longrightarrow> lc_tasks (lifecycle_of r) ! (i - 1) = lc_tasks (lifecycle_of run) ! (i - 1)"
    using j lifecycle_of_nth [OF keyed j] lifecycle_of_nth [OF valid_run_keyed [OF valid(2)], of "i - 1"]
    by (simp add: r)
  ultimately have rel: "released (lifecycle_of run) i"
    using i by (simp add: released_def index)
  have "lifecycle_step (lifecycle_of run)
      (move_task i T_off_course (ob_state ?item) C_off_course (lifecycle_of run))"
    using c st by (intro lifecycle_step.off_course [OF _ _ _ rel]) (auto simp: index work_open_def)
  moreover have "lifecycle_of r =
      move_task i T_off_course (ob_state ?item) C_off_course (lifecycle_of run)"
    using keyed i valid_run_keyed [OF valid(2)] run_keyed_index [OF keyed i]
    by (intro lifecycle_of_eq [of run])
      (auto simp: r move_task_def lifecycle_of_length lifecycle_of_nth nth_list_update run_keyed_def)
  ultimately show ?thesis by simp
qed

lemma abort_step:
  assumes "abortDeliveryRun H run input at = Inr r"
  shows "lifecycle_step (lifecycle_of run) (lifecycle_of r)"
  using assms
proof (rule abort_success)
  fix t new l
  let ?reason = "js_text (ai_reason input)"
  assume valid: "valid_run H run" "valid_run H r"
    and c: "rn_condition run \<in> set ABORTABLE_CONDITIONS"
    and r: "r = run\<lparr>rn_tasks := map aborted_task (rn_tasks run),
       rn_outbox := map2 (aborted_item ?reason t) (rn_tasks run) (rn_outbox run),
       rn_evidenceIndex := rn_evidenceIndex run @ new,
       rn_delivery := \<lparr>dl_level = l, dl_evidenceIds = push_all_new (dl_evidenceIds (rn_delivery run))
           (map ev_id new), dl_updatedAt = t\<rparr>,
       rn_condition := C_aborted, rn_blocker := ?reason,
       rn_abort := Some \<lparr>ab_operatorConfirmed = True, ab_fromCondition = rn_condition run,
         ab_reason = ?reason, ab_evidenceIds = map ev_id new, ab_abortedAt = t\<rparr>,
       rn_revision := rn_revision run + 1, rn_updatedAt := t\<rparr>"
  note keyed = valid_run_keyed [OF valid(1)]
  let ?s = "lifecycle_of run"
  have verified_applied: "ob_state (rn_outbox run ! j) = O_applied"
    if j: "j < length (rn_tasks run)" and "tk_state (rn_tasks run ! j) = T_verified" for j
  proof -
    have "run_task_checks H r j (rn_tasks r ! j) = None"
      using valid(2) j by (intro valid_run_task) (simp_all add: r)
    with that show ?thesis
      using run_keyed_index [OF keyed j]
      by (simp add: run_task_checks_def Let_def r aborted_task_def aborted_item_def)
  qed
  have "lifecycle_step ?s (?s\<lparr>lc_condition := C_aborted, lc_tasks := map abort_task (lc_tasks ?s)\<rparr>)"
    using c by (intro lifecycle_step.abort) (auto simp: work_open_def ABORTABLE_CONDITIONS_def)
  moreover have "lifecycle_of r = ?s\<lparr>lc_condition := C_aborted, lc_tasks := map abort_task (lc_tasks ?s)\<rparr>"
    using keyed valid_run_keyed [OF valid(2)] verified_applied
    by (intro lifecycle_of_eq [of run])
      (auto simp: r lifecycle_of_length lifecycle_of_nth run_keyed_def aborted_task_def aborted_item_def)
  ultimately show ?thesis by simp
qed

lemma verify_step:
  assumes "recordDeliveryRunVerification H run input at = Inr r" "lifecycle_inv (lifecycle_of run)"
  shows "lifecycle_step (lifecycle_of run) (lifecycle_of r)"
  using assms(1)
proof (rule verify_success)
  fix i t b new l and rec :: verification
  let ?passed = "vr_outcome rec = ''passed''"
  assume valid: "valid_run H run" "valid_run H r" and i: "i < length (rn_tasks run)"
    and c: "rn_condition run \<noteq> C_aborted" "rn_condition run \<noteq> C_verified"
    and st: "tk_state (rn_tasks run ! i) = T_implementation_captured"
    and r: "r = (verified_run i ?passed (vr_id rec) (bl_digest b) (vr_note rec) (vr_verifiedAt rec) run)
      \<lparr>rn_evidenceIndex := rn_evidenceIndex run @ new,
       rn_verificationRecords := rn_verificationRecords run @ [rec],
       rn_delivery := \<lparr>dl_level = l, dl_evidenceIds = push_all_new (dl_evidenceIds (rn_delivery run))
           (map ev_id new @ vr_evidenceIds rec), dl_updatedAt = t\<rparr>,
       rn_revision := rn_revision run + 1, rn_updatedAt := t\<rparr>"
  note keyed = valid_run_keyed [OF valid(1)] and keyed' = valid_run_keyed [OF valid(2)]
  note index = lifecycle_of_length [OF keyed] lifecycle_of_nth [OF keyed i]
  let ?s = "lifecycle_of run"
  obtain k where k: "open_shape ?s k" using assms(2) c by (rule lifecycle_open)
  have "i = k" using i st by (intro open_shape_only_current [OF k]) (simp_all add: index)
  then have rel: "released ?s i" using shape_released [OF k] by simp
  let ?ob = "ob_state (rn_outbox run ! i)"
  have captured: "lc_tasks ?s ! i = (T_implementation_captured, ?ob)" by (simp add: index st)
  note step_rule = work_open_of [OF c] rel captured
  consider (fail) "\<not> ?passed" | (pass) "?passed" "Suc i < length (rn_tasks run)"
    | (complete) "?passed" "Suc i = length (rn_tasks run)" using i by linarith
  then show ?thesis
  proof cases
    case fail
    then have "lifecycle_of r = move_task i T_failed ?ob C_blocked ?s"
      using keyed keyed' i run_keyed_index [OF keyed i]
      by (intro lifecycle_of_eq [of run]) (auto simp: r verified_run_def Let_def move_task_def
        lifecycle_of_length lifecycle_of_nth nth_list_update)
    then show ?thesis using lifecycle_step.fail [OF step_rule] by simp
  next
    case pass
    then have "lifecycle_of r = move_task (Suc i) (fst (lc_tasks ?s ! Suc i)) O_pending C_active
       (move_task i T_verified ?ob C_active ?s)"
      using keyed keyed' i run_keyed_index [OF keyed i] run_keyed_index [OF keyed pass(2)]
      by (intro lifecycle_of_eq [of run]) (auto simp: r verified_run_def Let_def move_task_def
        lifecycle_of_length lifecycle_of_nth nth_list_update run_keyed_def)
    moreover have "Suc i < length (lc_tasks ?s)" using pass by (simp add: index)
    ultimately show ?thesis using lifecycle_step.pass [OF step_rule] by simp
  next
    case complete
    then have "lifecycle_of r = move_task i T_verified ?ob C_verified ?s"
      using keyed keyed' i run_keyed_index [OF keyed i]
      by (intro lifecycle_of_eq [of run]) (auto simp: r verified_run_def Let_def move_task_def
        lifecycle_of_length lifecycle_of_nth nth_list_update)
    moreover have "Suc i = length (lc_tasks ?s)" using complete by (simp add: index)
    ultimately show ?thesis using lifecycle_step.complete [OF step_rule] by simp
  qed
qed

text \<open>A created run starts the machine.\<close>

lemma createTask_Inr:
  assumes "createTask H rid pid pd sb n v = Inr task"
  shows "tk_state task = T_pending" "tk_sequence task = int n" "tk_missionId task = None"
    "tk_implementation task = emptyImplementation" "tk_verificationId task = None"
    "tk_expectedBaselineDigest task = (if n = 0 then sb else [])"
  using assms by (auto simp: createTask_def Let_def)

lemma create_success:
  assumes "createDeliveryRun H v at = Inr run"
  shows "valid_run H run" "rn_condition run = C_preparing" "rn_revision run = 1"
    "rn_evidenceIndex run = []" "rn_verificationRecords run = []" "rn_abort run = None"
    "\<And>i. i < length (rn_tasks run) \<Longrightarrow> tk_state (rn_tasks run ! i) = T_pending \<and>
       tk_missionId (rn_tasks run ! i) = None \<and>
       tk_implementation (rn_tasks run ! i) = emptyImplementation \<and>
       tk_verificationId (rn_tasks run ! i) = None \<and>
       ob_state (rn_outbox run ! i) = (if i = 0 then O_pending else O_held)"
    "length (rn_tasks run) = length (ci_tasks v)"
proof -
  let ?id = "to_lower (js_inline (ci_id v))"
  let ?pid = "to_lower (js_inline (ci_planId v))"
  let ?pd = "to_lower (js_inline (ci_planDigest v))"
  let ?create = "\<lambda>(sb :: run_baseline) (n, t). createTask H ?id ?pid ?pd (bl_digest sb) n t"
  from assms have "\<exists>sb tasks t rest. map_result (?create sb) (enumerate 0 (ci_tasks v)) = Inr tasks
      \<and> valid_run H run \<and> run = rest\<lparr>rn_tasks := tasks, rn_outbox := map (\<lambda>x. createOutbox x t) tasks\<rparr>
      \<and> rn_condition rest = C_preparing \<and> rn_revision rest = 1 \<and> rn_evidenceIndex rest = []
      \<and> rn_verificationRecords rest = [] \<and> rn_abort rest = None"
    unfolding createDeliveryRun_def Let_def validateDeliveryRun_Inr
    apply (elim exE conjE attempt_Inr [THEN iffD1, elim_format] guard_Inr [THEN iffD1, elim_format])
    subgoal for t sb tasks
      by (rule exI [of _ sb], rule exI [of _ tasks], rule exI [of _ t], rule exI [of _ run]) (simp add: case_prod_beta validateDeliveryRun_Inr)
    done
  then obtain sb tasks t s where
      tasks: "map_result (?create sb) (enumerate 0 (ci_tasks v)) = Inr tasks"
      and valid: "valid_run H run"
      and s: "run = s\<lparr>rn_tasks := tasks, rn_outbox := map (\<lambda>x. createOutbox x t) tasks\<rparr>"
      and start: "rn_condition s = C_preparing" "rn_revision s = 1" "rn_evidenceIndex s = []"
        "rn_verificationRecords s = []" "rn_abort s = None"
    by blast
  have run: "rn_tasks run = tasks" "rn_outbox run = map (\<lambda>x. createOutbox x t) tasks"
    by (simp_all add: s)
  have rest: "valid_run H run" "rn_condition run = C_preparing" "rn_revision run = 1"
    "rn_evidenceIndex run = []" "rn_verificationRecords run = []" "rn_abort run = None"
    using valid start by (simp_all add: s)
  show "valid_run H run" "rn_condition run = C_preparing" "rn_revision run = 1"
    "rn_evidenceIndex run = []" "rn_verificationRecords run = []" "rn_abort run = None"
    by (fact rest)+
  have n: "length tasks = length (ci_tasks v)" using map_result_length [OF tasks] by simp
  then show "length (rn_tasks run) = length (ci_tasks v)" by (simp add: run)
  fix i assume i: "i < length (rn_tasks run)"
  with n have "createTask H (to_lower (js_inline (ci_id v)))
          (to_lower (js_inline (ci_planId v))) (to_lower (js_inline (ci_planDigest v)))
          (bl_digest sb) i (ci_tasks v ! i) = Inr (tasks ! i)"
    using map_result_nth [OF tasks, of i] by (simp add: run nth_enumerate_eq)
  from createTask_Inr [OF this] show "tk_state (rn_tasks run ! i) = T_pending \<and>
       tk_missionId (rn_tasks run ! i) = None \<and>
       tk_implementation (rn_tasks run ! i) = emptyImplementation \<and>
       tk_verificationId (rn_tasks run ! i) = None \<and>
       ob_state (rn_outbox run ! i) = (if i = 0 then O_pending else O_held)"
    using i by (simp add: run createOutbox_def)
qed

lemma created_lifecycle:
  assumes "createDeliveryRun H v at = Inr run"
  shows "lifecycle_of run = initial_lifecycle (length (rn_tasks run))"
proof -
  note created = create_success [OF assms]
  note keyed = valid_run_keyed [OF created(1)]
  have "0 < length (rn_tasks run)" using valid_run_lengths [OF created(1)] by simp
  then show ?thesis
    using created(2,7) keyed
    by (intro lifecycle_of_eq [of run])
      (auto simp: initial_lifecycle_def nth_Cons' nth_replicate)
qed

lemma operation_step:
  assumes "lifecycle_inv (lifecycle_of run)" "apply_operation H op at run = Inr r"
  shows "lifecycle_step (lifecycle_of run) (lifecycle_of r)"
  using assms by (cases op) (auto intro: link_step reconcile_step capture_step verify_step
      abort_step off_course_step)

interpretation delivery: refinement lifecycle_start lifecycle_step lifecycle_inv
    "run_created H" "run_operates H" lifecycle_of
  for H :: host
proof
  show "lifecycle_start (lifecycle_of run)" if "run_created H run" for run
  proof -
    from that obtain v at where created: "createDeliveryRun H v at = Inr run"
      by (auto simp: run_created_def)
    have "rn_tasks run \<noteq> []" using valid_run_lengths [OF create_success(1) [OF created]] by simp
    with created_lifecycle [OF created] show ?thesis by (auto simp: lifecycle_start_def)
  qed
  show "lifecycle_step (lifecycle_of run) (lifecycle_of r) \<or> lifecycle_of r = lifecycle_of run"
    if "lifecycle_inv (lifecycle_of run)" "run_operates H run r" for run r
    using that operation_step by (auto simp: run_operates_def)
qed

end
