(* ===== verification/RunExample.thy ===== *)
theory RunExample
  imports RunRefinement
begin

text \<open>
  A concrete run of two tasks, from its creation to its completion, evaluated with a host
  whose digest is a function of the length of the text. It shows that the hypotheses of the
  theorems on runs can hold.
\<close>

definition toy_host :: host where
  "toy_host = \<lparr>sha256hex = (\<lambda>s. replicate 63 CHR ''0'' @ [hex_digit (length s mod 16)]),
     localeCompare = (\<lambda>a b. if a = b then 0 else if a < b then -1 else 1), dateParse = (\<lambda>s. None)\<rparr>"

definition toy_metadata :: git_metadata where
  "toy_metadata = \<lparr>gm_repoRoot = ''/r'', gm_gitDir = ''/r/.git'', gm_commonDir = ''/r/.git'',
     gm_objectFormat = ''sha1'', gm_headRef = ''refs/heads/m'', gm_sparseCheckout = False,
     gm_sparseIndex = False\<rparr>"

definition toy_baseline0 :: baseline_input where
  "toy_baseline0 = \<lparr>bl_version = 2, bl_workspace = ''/r'', bl_repoRoot = ''/r'', bl_workspacePrefix = [],
     bl_head = ''unborn'', bl_branch = ''m'', bl_detached = False, bl_workingTreeDigest = [],
     bl_instructionsDigest = [], bl_manifestDigest = [], bl_statusDigest = [],
     bl_indexDigest = replicate 64 CHR ''1'', bl_indexFlagsDigest = replicate 64 CHR ''2'',
     bl_gitMetadata = toy_metadata, bl_gitMetadataDigest = [], bl_approvedScopes = [],
     bl_ignoredScopeDigest = [], bl_entries = [], bl_instructions = [],
     bl_capturedAt = ''2026-01-01T00:00:00.000Z'', bl_givenDigest = None\<rparr>"

definition toy_digest :: "char \<Rightarrow> string" where
  "toy_digest c = replicate 64 c"

definition toy_hash :: "char \<Rightarrow> string" where
  "toy_hash c = replicate 63 CHR ''0'' @ [c]"

definition toy_entry :: baseline_entry where
  "toy_entry = \<lparr>be_status = '' M'', be_path = ''a'', be_originalPath = [], be_type = ''file'', be_size = 1,
     be_sha256 = toy_digest CHR ''7''\<rparr>"

text \<open>The clean workspace, and the workspace with one modified file.\<close>

definition toy_clean :: baseline_input where
  "toy_clean = \<lparr>bl_version = 2, bl_workspace = ''/r'', bl_repoRoot = ''/r'', bl_workspacePrefix = [],
     bl_head = ''unborn'', bl_branch = ''m'', bl_detached = False, bl_workingTreeDigest = toy_hash CHR ''e'',
     bl_instructionsDigest = toy_hash CHR ''2'', bl_manifestDigest = toy_hash CHR ''f'',
     bl_statusDigest = toy_hash CHR ''2'', bl_indexDigest = toy_digest CHR ''1'',
     bl_indexFlagsDigest = toy_digest CHR ''2'', bl_gitMetadata = toy_metadata,
     bl_gitMetadataDigest = toy_hash CHR ''4'', bl_approvedScopes = [],
     bl_ignoredScopeDigest = toy_hash CHR ''7'', bl_entries = [], bl_instructions = [],
     bl_capturedAt = ''2026-01-01T00:00:00.000Z'', bl_givenDigest = None\<rparr>"

definition toy_edited :: baseline_input where
  "toy_edited = toy_clean\<lparr>bl_entries := [toy_entry], bl_workingTreeDigest := toy_hash CHR ''d'',
     bl_statusDigest := toy_hash CHR ''e'', bl_manifestDigest := toy_hash CHR ''e''\<rparr>"

definition toy_captured :: "baseline_input \<Rightarrow> char \<Rightarrow> run_baseline" where
  "toy_captured b c = \<lparr>bl_version = bl_version b, bl_workspace = bl_workspace b, bl_repoRoot = bl_repoRoot b,
     bl_workspacePrefix = bl_workspacePrefix b, bl_head = bl_head b, bl_branch = bl_branch b,
     bl_detached = bl_detached b, bl_workingTreeDigest = bl_workingTreeDigest b,
     bl_instructionsDigest = bl_instructionsDigest b, bl_manifestDigest = bl_manifestDigest b,
     bl_statusDigest = bl_statusDigest b, bl_indexDigest = bl_indexDigest b,
     bl_indexFlagsDigest = bl_indexFlagsDigest b, bl_gitMetadata = bl_gitMetadata b,
     bl_gitMetadataDigest = bl_gitMetadataDigest b, bl_approvedScopes = bl_approvedScopes b,
     bl_ignoredScopeDigest = bl_ignoredScopeDigest b, bl_entries = bl_entries b,
     bl_instructions = bl_instructions b, bl_capturedAt = bl_capturedAt b, bl_digest = toy_hash c\<rparr>"

definition toy_create :: create_input where
  "toy_create = \<lparr>ci_id = ''run-abcdefgh'', ci_planId = ''plan-abcdefgh'', ci_planRevision = 1,
     ci_planDigest = toy_digest CHR ''3'', ci_workspace = ''/r'', ci_startBaseline = toy_clean,
     ci_tasks = [\<lparr>ti_stepId = ''STEP-A'', ti_stepDigest = toy_digest CHR ''4'', ti_acceptanceIds = [''AC-A''],
         ti_allowedPaths = [''a''], ti_missionDefinitionDigest = toy_digest CHR ''5''\<rparr>,
       \<lparr>ti_stepId = ''STEP-B'', ti_stepDigest = toy_digest CHR ''4'', ti_acceptanceIds = [''AC-B''],
         ti_allowedPaths = [''b''], ti_missionDefinitionDigest = toy_digest CHR ''6''\<rparr>]\<rparr>"

definition toy_time :: "char \<Rightarrow> string" where
  "toy_time c = ''2026-01-01T00:00:0'' @ [c] @ ''.000Z''"

definition toy_link :: run_operation where
  "toy_link = Op_link \<lparr>li_stepId = ''STEP-A'', li_bindingKey = toy_hash CHR ''7'',
     li_missionId = ''mission-12345678''\<rparr>"

definition toy_evidence :: "char \<Rightarrow> char \<Rightarrow> evidence" where
  "toy_evidence c at = \<lparr>ev_id = ''EVD-00'' @ [c], ev_type = ''review'', ev_producer = ''op'', ev_outcome = ''applied'',
     ev_summary = ''s'', ev_contentRef = [], ev_contentSha256 = [], ev_createdAt = toy_time at\<rparr>"

definition toy_capture :: run_operation where
  "toy_capture = Op_capture \<lparr>pi_stepId = ''STEP-A'', pi_missionId = ''mission-12345678'',
     pi_baseline = toy_edited, pi_evidence = [toy_evidence CHR ''1'' CHR ''2'']\<rparr>"

definition toy_verify :: "string \<Rightarrow> run_operation" where
  "toy_verify outcome = Op_verify \<lparr>vi_id = ''verification-12345678'', vi_stepId = ''STEP-A'', vi_missionId = ''mission-12345678'',
     vi_baseline = toy_edited, vi_criteria = [\<lparr>cr_acceptanceId = ''AC-A'', cr_outcome = outcome,
       cr_evidenceIds = [''EVD-001'']\<rparr>], vi_evidence = [], vi_evidenceIds = [''EVD-001''], vi_note = ''n''\<rparr>"

definition toy_abort :: run_operation where
  "toy_abort = Op_abort \<lparr>ai_operatorConfirmed = True, ai_reason = ''stop'', ai_evidence = [toy_evidence CHR ''2'' CHR ''5'']\<rparr>"

definition toy_off_course :: run_operation where
  "toy_off_course = Op_off_course \<lparr>oi_stepId = ''STEP-A'', oi_reason = ''drift'', oi_evidence = []\<rparr>"


section \<open>The runs\<close>

definition toy_task :: "char \<Rightarrow> int \<Rightarrow> char \<Rightarrow> char \<Rightarrow> run_task" where
  "toy_task s n p d = \<lparr>tk_stepId = ''STEP-'' @ [s], tk_sequence = n, tk_stepDigest = toy_digest CHR ''4'',
     tk_acceptanceIds = [''AC-'' @ [s]], tk_allowedPaths = [[p]],
     tk_expectedBaselineDigest = (if n = 0 then toy_hash CHR ''2'' else []), tk_state = T_pending,
     tk_missionBindingKey = toy_hash CHR ''7'', tk_missionDefinitionDigest = toy_digest d,
     tk_missionId = None, tk_implementation = emptyImplementation, tk_verificationId = None\<rparr>"

definition toy_task0 :: run_task where "toy_task0 = toy_task CHR ''A'' 0 CHR ''a'' CHR ''5''"
definition toy_task1 :: run_task where "toy_task1 = toy_task CHR ''B'' 1 CHR ''b'' CHR ''6''"

definition toy_item :: "char \<Rightarrow> char \<Rightarrow> outbox_state \<Rightarrow> outbox_item" where
  "toy_item s d st = \<lparr>ob_id = ''outbox-'' @ replicate 32 CHR ''0'', ob_kind = ''mission.ensure'',
     ob_stepId = ''STEP-'' @ [s], ob_bindingKey = toy_hash CHR ''7'', ob_payloadDigest = toy_digest d,
     ob_state = st, ob_missionId = None, ob_error = [], ob_updatedAt = toy_time CHR ''0''\<rparr>"

definition toy_item0 :: outbox_item where "toy_item0 = toy_item CHR ''A'' CHR ''5'' O_pending"
definition toy_item1 :: outbox_item where "toy_item1 = toy_item CHR ''B'' CHR ''6'' O_held"

definition toy_created :: delivery_run where
  "toy_created = \<lparr>rn_version = 1, rn_id = ''run-abcdefgh'', rn_revision = 1, rn_planId = ''plan-abcdefgh'',
     rn_planRevision = 1, rn_planDigest = toy_digest CHR ''3'', rn_workspace = ''/r'',
     rn_startBaseline = toy_captured toy_clean CHR ''2'', rn_condition = C_preparing,
     rn_tasks = [toy_task0, toy_task1], rn_outbox = [toy_item0, toy_item1],
     rn_evidenceIndex = [], rn_verificationRecords = [],
     rn_delivery = \<lparr>dl_level = L_planned, dl_evidenceIds = [], dl_updatedAt = toy_time CHR ''0''\<rparr>,
     rn_abort = None, rn_blocker = [], rn_createdAt = toy_time CHR ''0'', rn_updatedAt = toy_time CHR ''0''\<rparr>"

definition toy_mission :: "string option" where "toy_mission = Some ''mission-12345678''"

definition toy_linked :: delivery_run where
  "toy_linked = toy_created\<lparr>rn_revision := 2, rn_condition := C_active, rn_updatedAt := toy_time CHR ''1'',
     rn_tasks := [toy_task0\<lparr>tk_state := T_mission_linked, tk_missionId := toy_mission\<rparr>, toy_task1],
     rn_outbox := [toy_item0\<lparr>ob_state := O_applied, ob_missionId := toy_mission,
       ob_updatedAt := toy_time CHR ''1''\<rparr>, toy_item1]\<rparr>"

definition toy_implementation :: implementation where
  "toy_implementation = \<lparr>im_baseline = Some (toy_captured toy_edited CHR ''1''), im_evidenceIds = [''EVD-001''],
     im_capturedAt = Some ''2026-01-01T00:00:00.000Z''\<rparr>"

definition toy_implemented :: delivery_run where
  "toy_implemented = toy_linked\<lparr>rn_revision := 3, rn_condition := C_awaiting_verification,
     rn_updatedAt := toy_time CHR ''2'',
     rn_tasks := [toy_task0\<lparr>tk_state := T_implementation_captured, tk_missionId := toy_mission,
       tk_implementation := toy_implementation\<rparr>, toy_task1],
     rn_evidenceIndex := [toy_evidence CHR ''1'' CHR ''2''],
     rn_delivery := \<lparr>dl_level = L_implemented_locally, dl_evidenceIds = [''EVD-001''],
       dl_updatedAt = toy_time CHR ''2''\<rparr>\<rparr>"

definition toy_record :: "string \<Rightarrow> verification" where
  "toy_record outcome = \<lparr>vr_id = ''verification-12345678'', vr_stepId = ''STEP-A'', vr_planDigest = toy_digest CHR ''3'',
     vr_implementationMissionId = ''mission-12345678'', vr_verifier = ''operator'',
     vr_criteria = [\<lparr>cr_acceptanceId = ''AC-A'', cr_outcome = outcome, cr_evidenceIds = [''EVD-001'']\<rparr>],
     vr_outcome = outcome, vr_beforeBaselineDigest = toy_hash CHR ''1'',
     vr_afterBaselineDigest = toy_hash CHR ''1'', vr_evidenceIds = [''EVD-001''], vr_note = ''n'',
     vr_verifiedAt = toy_time CHR ''3''\<rparr>"

definition toy_verified :: delivery_run where
  "toy_verified = toy_implemented\<lparr>rn_revision := 4, rn_condition := C_active, rn_updatedAt := toy_time CHR ''3'',
     rn_tasks := [toy_task0\<lparr>tk_state := T_verified, tk_missionId := toy_mission,
       tk_implementation := toy_implementation, tk_verificationId := Some ''verification-12345678''\<rparr>,
       toy_task1\<lparr>tk_expectedBaselineDigest := toy_hash CHR ''1''\<rparr>],
     rn_outbox := [toy_item0\<lparr>ob_state := O_applied, ob_missionId := toy_mission,
       ob_updatedAt := toy_time CHR ''1''\<rparr>, toy_item1\<lparr>ob_state := O_pending, ob_updatedAt := toy_time CHR ''3''\<rparr>],
     rn_verificationRecords := [toy_record ''passed''],
     rn_delivery := \<lparr>dl_level = L_implemented_locally, dl_evidenceIds = [''EVD-001''],
       dl_updatedAt = toy_time CHR ''3''\<rparr>\<rparr>"

definition toy_blocked :: delivery_run where
  "toy_blocked = toy_implemented\<lparr>rn_revision := 4, rn_condition := C_blocked, rn_blocker := ''n'',
     rn_updatedAt := toy_time CHR ''3'',
     rn_tasks := [toy_task0\<lparr>tk_state := T_failed, tk_missionId := toy_mission,
       tk_implementation := toy_implementation, tk_verificationId := Some ''verification-12345678''\<rparr>, toy_task1],
     rn_verificationRecords := [toy_record ''failed''],
     rn_delivery := \<lparr>dl_level = L_implemented_locally, dl_evidenceIds = [''EVD-001''],
       dl_updatedAt = toy_time CHR ''3''\<rparr>\<rparr>"

definition toy_aborted :: delivery_run where
  "toy_aborted = toy_verified\<lparr>rn_revision := 5, rn_condition := C_aborted, rn_blocker := ''stop'',
     rn_updatedAt := toy_time CHR ''5'',
     rn_tasks := [rn_tasks toy_verified ! 0, (rn_tasks toy_verified ! 1)\<lparr>tk_state := T_aborted\<rparr>],
     rn_outbox := [rn_outbox toy_verified ! 0, toy_item1\<lparr>ob_state := O_canceled, ob_error := ''stop'',
       ob_updatedAt := toy_time CHR ''5''\<rparr>],
     rn_evidenceIndex := [toy_evidence CHR ''1'' CHR ''2'', toy_evidence CHR ''2'' CHR ''5''],
     rn_abort := Some \<lparr>ab_operatorConfirmed = True, ab_fromCondition = C_active, ab_reason = ''stop'',
       ab_evidenceIds = [''EVD-002''], ab_abortedAt = toy_time CHR ''5''\<rparr>,
     rn_delivery := \<lparr>dl_level = L_implemented_locally, dl_evidenceIds = [''EVD-001'', ''EVD-002''],
       dl_updatedAt = toy_time CHR ''5''\<rparr>\<rparr>"

definition toy_stopped :: delivery_run where
  "toy_stopped = toy_blocked\<lparr>rn_revision := 5, rn_condition := C_aborted, rn_blocker := ''stop'',
     rn_updatedAt := toy_time CHR ''5'',
     rn_tasks := [(rn_tasks toy_blocked ! 0)\<lparr>tk_state := T_aborted\<rparr>, toy_task1\<lparr>tk_state := T_aborted\<rparr>],
     rn_outbox := [rn_outbox toy_blocked ! 0, toy_item1\<lparr>ob_state := O_canceled, ob_error := ''stop'',
       ob_updatedAt := toy_time CHR ''5''\<rparr>],
     rn_evidenceIndex := rn_evidenceIndex toy_aborted,
     rn_abort := Some \<lparr>ab_operatorConfirmed = True, ab_fromCondition = C_blocked, ab_reason = ''stop'',
       ab_evidenceIds = [''EVD-002''], ab_abortedAt = toy_time CHR ''5''\<rparr>,
     rn_delivery := rn_delivery toy_aborted\<rparr>"

lemma toy_create_run: "createDeliveryRun toy_host toy_create (toy_time CHR ''0'') = Inr toy_created"
  by code_simp

lemma toy_link_run: "apply_operation toy_host toy_link (toy_time CHR ''1'') toy_created = Inr toy_linked"
  by code_simp

lemma toy_capture_run: "apply_operation toy_host toy_capture (toy_time CHR ''2'') toy_linked = Inr toy_implemented"
  by code_simp

lemma toy_verify_run: "apply_operation toy_host (toy_verify ''passed'') (toy_time CHR ''3'') toy_implemented = Inr toy_verified"
  by code_simp

lemma toy_fail_run: "apply_operation toy_host (toy_verify ''failed'') (toy_time CHR ''3'') toy_implemented = Inr toy_blocked"
  by code_simp

lemma toy_abort_run: "apply_operation toy_host toy_abort (toy_time CHR ''5'') toy_verified = Inr toy_aborted"
  by code_simp

lemma toy_stop_run: "apply_operation toy_host toy_abort (toy_time CHR ''5'') toy_blocked = Inr toy_stopped"
  by code_simp

section \<open>They are reachable\<close>

lemma toy_created_reachable: "run_reachable toy_host toy_created"
  by (rule reaches_start) (auto simp: run_created_def intro: toy_create_run)

lemma operation_reachable:
  "run_reachable H run \<Longrightarrow> apply_operation H op at run = Inr r \<Longrightarrow> run_reachable H r"
  by (erule reaches_step) (auto simp: run_operates_def)

lemmas toy_linked_reachable = operation_reachable [OF toy_created_reachable toy_link_run]
lemmas toy_implemented_reachable = operation_reachable [OF toy_linked_reachable toy_capture_run]
lemmas toy_verified_reachable = operation_reachable [OF toy_implemented_reachable toy_verify_run]
lemmas toy_blocked_reachable = operation_reachable [OF toy_implemented_reachable toy_fail_run]
lemmas toy_aborted_reachable = operation_reachable [OF toy_verified_reachable toy_abort_run]

end
