(* ===== verification/RunFrame.thy ===== *)
theory RunFrame
  imports RunRefinement
begin

text \<open>
  What an operation of delivery-run.js keeps: everything the plan fixed when the run was
  created, and all evidence and records so far.
\<close>

lemma reachable_valid:
  assumes "run_reachable H run"
  shows "valid_run H run"
  using assms
proof (cases rule: reaches.cases)
  case reaches_start
  then show ?thesis by (auto simp: run_created_def intro: create_success)
next
  case (reaches_step s)
  then obtain op at where "apply_operation H op at s = Inr run" by (auto simp: run_operates_def)
  then show ?thesis
    by (cases op) (auto elim: link_success reconcile_success capture_success verify_success
      abort_success off_course_success)
qed

text \<open>The part of a task, and of an outbox item, that the plan fixed when the run was created.\<close>

definition task_plan :: "run_task \<Rightarrow> string \<times> int \<times> string \<times> string list \<times> string list \<times> string \<times> string" where
  "task_plan t = (tk_stepId t, tk_sequence t, tk_stepDigest t, tk_acceptanceIds t, tk_allowedPaths t,
     tk_missionBindingKey t, tk_missionDefinitionDigest t)"

definition item_plan :: "outbox_item \<Rightarrow> string \<times> string \<times> string \<times> string \<times> string" where
  "item_plan ob = (ob_id ob, ob_kind ob, ob_stepId ob, ob_bindingKey ob, ob_payloadDigest ob)"

lemma plans_of_updates:
  "task_plan t = task_plan (xs ! i) \<Longrightarrow> map task_plan (xs[i := t]) = map task_plan xs"
  "item_plan ob = item_plan (ys ! i) \<Longrightarrow> map item_plan (ys[i := ob]) = map item_plan ys"
  by (rule map_update_same, simp)+

lemma aborted_plans:
  "map task_plan (map aborted_task ts) = map task_plan ts"
  "length obs = length ts \<Longrightarrow> map item_plan (map2 (aborted_item reason at) ts obs) = map item_plan obs"
proof -
  show "map task_plan (map aborted_task ts) = map task_plan ts"
    by (simp add: aborted_task_def task_plan_def)
  show "map item_plan (map2 (aborted_item reason at) ts obs) = map item_plan obs"
    if "length obs = length ts"
    using that by (intro nth_equalityI) (simp_all add: aborted_item_def item_plan_def)
qed

lemma verified_plans:
  "map task_plan (rn_tasks (verified_run i p v d n t run)) = map task_plan (rn_tasks run)"
  "map item_plan (rn_outbox (verified_run i p v d n t run)) = map item_plan (rn_outbox run)"
proof -
  let ?ts = "(rn_tasks run)[i := (rn_tasks run ! i)\<lparr>tk_verificationId := Some v,
     tk_state := (if p then T_verified else T_failed)\<rparr>]"
  have a: "map task_plan ?ts = map task_plan (rn_tasks run)"
    by (rule plans_of_updates) (simp add: task_plan_def)
  have b: "?ts ! Suc i = rn_tasks run ! Suc i" by simp
  have "map task_plan (?ts[Suc i := (?ts ! Suc i)\<lparr>tk_expectedBaselineDigest := d\<rparr>]) = map task_plan ?ts"
    by (rule plans_of_updates) (simp add: task_plan_def)
  with a show "map task_plan (rn_tasks (verified_run i p v d n t run)) = map task_plan (rn_tasks run)"
    unfolding b by (cases p) (auto simp: verified_run_def Let_def)
  show "map item_plan (rn_outbox (verified_run i p v d n t run)) = map item_plan (rn_outbox run)"
    by (simp add: verified_run_def Let_def plans_of_updates item_plan_def)
qed

lemma verified_run_frame [simp]:
  "rn_id (verified_run i p v d n t run) = rn_id run"
  "rn_planId (verified_run i p v d n t run) = rn_planId run"
  "rn_planRevision (verified_run i p v d n t run) = rn_planRevision run"
  "rn_planDigest (verified_run i p v d n t run) = rn_planDigest run"
  "rn_workspace (verified_run i p v d n t run) = rn_workspace run"
  "rn_startBaseline (verified_run i p v d n t run) = rn_startBaseline run"
  "rn_createdAt (verified_run i p v d n t run) = rn_createdAt run"
  by (simp_all add: verified_run_def Let_def)

definition plan_kept :: "delivery_run \<Rightarrow> delivery_run \<Rightarrow> bool" where
  "plan_kept run r \<longleftrightarrow>
     rn_revision r = rn_revision run + 1 \<and> rn_id r = rn_id run \<and> rn_planId r = rn_planId run
     \<and> rn_planRevision r = rn_planRevision run \<and> rn_planDigest r = rn_planDigest run
     \<and> rn_workspace r = rn_workspace run \<and> rn_startBaseline r = rn_startBaseline run
     \<and> rn_createdAt r = rn_createdAt run
     \<and> map task_plan (rn_tasks r) = map task_plan (rn_tasks run)
     \<and> map item_plan (rn_outbox r) = map item_plan (rn_outbox run)
     \<and> (\<exists>new. rn_evidenceIndex r = rn_evidenceIndex run @ new)
     \<and> (\<exists>recs. rn_verificationRecords r = rn_verificationRecords run @ recs)"

lemma operation_keeps:
  assumes "apply_operation H op at run = Inr r"
  shows "plan_kept run r"
proof (cases op)
  case (Op_link v)
  with assms show ?thesis
    by (auto elim!: link_success simp: plan_kept_def plans_of_updates task_plan_def item_plan_def)
next
  case (Op_reconcile v)
  with assms show ?thesis
    by (auto elim!: reconcile_success simp: plan_kept_def plans_of_updates task_plan_def item_plan_def)
next
  case (Op_capture v)
  with assms show ?thesis
    by (auto elim!: capture_success simp: plan_kept_def plans_of_updates task_plan_def)
next
  case (Op_verify v)
  with assms show ?thesis by (auto elim!: verify_success simp: plan_kept_def verified_plans)
next
  case (Op_abort v)
  with assms show ?thesis
    by (auto elim!: abort_success simp del: map_map simp: plan_kept_def aborted_plans valid_run_lengths)
next
  case (Op_off_course v)
  with assms show ?thesis
    by (auto elim!: off_course_success simp: plan_kept_def plans_of_updates task_plan_def item_plan_def)
qed

lemma operation_valid:
  "apply_operation H op at run = Inr r \<Longrightarrow> valid_run H run \<and> valid_run H r"
  by (cases op) (auto elim: link_success reconcile_success capture_success verify_success
    abort_success off_course_success)

text \<open>Only an abort aborts, and it says from which condition and when.\<close>

definition is_abort :: "run_operation \<Rightarrow> bool" where
  "is_abort op = (case op of Op_abort v \<Rightarrow> True | _ \<Rightarrow> False)"

lemma operation_abort:
  assumes "apply_operation H op at run = Inr r" "is_abort op"
  shows "rn_condition run \<noteq> C_aborted \<and> rn_condition r = C_aborted \<and>
    (\<exists>a. rn_abort r = Some a \<and> ab_fromCondition a = rn_condition run \<and> dr_timestamp at = Inr (ab_abortedAt a))"
  using assms by (cases op) (auto simp: is_abort_def ABORTABLE_CONDITIONS_def elim!: abort_success)

lemma verified_run_condition:
  "rn_condition run \<noteq> C_aborted \<Longrightarrow> rn_condition (verified_run i p v d n t run) \<noteq> C_aborted"
  by (simp add: verified_run_def Let_def)

lemma operation_not_abort:
  assumes "apply_operation H op at run = Inr r" "\<not> is_abort op"
  shows "rn_condition run \<noteq> C_aborted \<and> rn_condition r \<noteq> C_aborted"
  using assms
  by (cases op) (auto simp: is_abort_def verified_run_condition elim!: link_success reconcile_success
      capture_success verify_success off_course_success)

text \<open>The identity of a new run.\<close>

lemma create_identity:
  assumes "createDeliveryRun H v at = Inr run"
  shows "rn_id run = to_lower (js_inline (ci_id v)) \<and> rn_planId run = to_lower (js_inline (ci_planId v))
    \<and> rn_planDigest run = to_lower (js_inline (ci_planDigest v)) \<and> dr_timestamp at = Inr (rn_createdAt run)"
  using assms
  unfolding createDeliveryRun_def Let_def
  by (elim exE conjE attempt_Inr [THEN iffD1, elim_format] guard_Inr [THEN iffD1, elim_format])
    (simp add: validateDeliveryRun_Inr)

lemma run_id_normal: "run_id_pattern i \<Longrightarrow> to_lower (js_inline i) = i"
proof -
  assume "run_id_pattern i"
  then have "list_all lower_id_char i"
    unfolding run_id_pattern_def by (rule id_pattern_all) (auto simp: lower_id_start_def lower_id_char_def is_lower_def code_def)
  then show ?thesis by (rule lower_id_normal)
qed

end
