(* ===== verification/RunProperties.thy ===== *)
theory RunProperties
  imports RunExample RunFrame
begin

text \<open>
  The properties of delivery runs: the shape of a reachable run, its dead ends and terminal
  states, what an operation may change, and what a verified task guarantees.
\<close>

section \<open>Lifecycle\<close>

text \<open>C1: Every operation that succeeds on a reachable run (link, reconcile, capture, verify,
  abort, off course) is a step of the lifecycle machine: it moves only the task whose
  predecessors are verified, from and to the states the machine allows.\<close>

theorem operation_refines:
  assumes "run_reachable H run" "apply_operation H op at run = Inr r"
  shows "lifecycle_step (lifecycle_of run) (lifecycle_of r)"
  using delivery.reaches_abs_inv [OF assms(1)] assms(2) by (rule operation_step)

theorem operation_refines_witness:
  "lifecycle_step (lifecycle_of toy_implemented) (lifecycle_of toy_verified)"
  using operation_refines [OF toy_implemented_reachable toy_verify_run] .

text \<open>A reachable run is a prefix of verified tasks with applied outbox items, then at most
  one current task in a state that its condition names, then tasks that are pending and held;
  an aborted run keeps its verified prefix and aborts the rest.\<close>

theorem reachable_run_shape:
  assumes "run_reachable H run"
  shows "lifecycle_inv (lifecycle_of run) \<and> run_keyed run"
  using delivery.reaches_abs_inv [OF assms] valid_run_keyed [OF reachable_valid [OF assms]] ..

theorem reachable_run_shape_witness:
  "lifecycle_inv (lifecycle_of toy_aborted) \<and> run_keyed toy_aborted"
  using reachable_run_shape [OF toy_aborted_reachable] .

text \<open>A run that is blocked by a failed verification, or marked off course, can only be
  aborted.\<close>

theorem dead_end_run_only_aborts:
  assumes "run_reachable H run" "rn_condition run = C_blocked \<or> rn_condition run = C_off_course"
    "apply_operation H op at run = Inr r"
  shows "rn_condition r = C_aborted \<and> (\<exists>input. op = Op_abort input)"
proof -
  have c: "rn_condition r = C_aborted"
    using dead_end_only_aborts [OF operation_step delivery.reaches_abs_inv] assms
      delivery.reaches_abs_inv [OF assms(1)] by force
  moreover have "\<exists>input. op = Op_abort input"
    using assms(3) c by (cases op) (auto elim!: link_success reconcile_success capture_success
        verify_success off_course_success simp: verified_run_def Let_def split: if_splits)
  ultimately show ?thesis ..
qed

theorem dead_end_run_only_aborts_witness:
  "rn_condition toy_stopped = C_aborted \<and> (\<exists>input. toy_abort = Op_abort input)"
  by (rule dead_end_run_only_aborts [OF toy_blocked_reachable _ toy_stop_run])
    (simp add: toy_blocked_def)

text \<open>A verified or aborted run accepts no further operation; every operation returns an
  error.\<close>

theorem terminal_run_rejects:
  assumes "rn_condition run \<in> {C_verified, C_aborted}"
  shows "\<exists>e. apply_operation H op at run = Inl e"
proof (cases "apply_operation H op at run")
  case (Inr r)
  then have False
    using assms by (cases op) (auto elim: link_success reconcile_success capture_success
        verify_success abort_success off_course_success simp: ABORTABLE_CONDITIONS_def)
  then show ?thesis ..
qed simp

theorem terminal_run_rejects_witness:
  "\<exists>e. apply_operation toy_host toy_link (toy_time CHR ''7'') toy_aborted = Inl e"
  by (rule terminal_run_rejects) (simp add: toy_aborted_def)

section \<open>What an operation may change\<close>

text \<open>An operation that succeeds raises the revision by exactly one and never changes what
  the approved plan fixed (the run's identity, plan, workspace and start baseline, each task's
  step, acceptance criteria, allowed paths, binding key and mission digest, each outbox
  item's identity and payload), and it only appends to the evidence index and to the
  verification records.\<close>

theorem operation_frame:
  assumes "apply_operation H op at run = Inr r"
  shows "rn_revision r = rn_revision run + 1 \<and> rn_id r = rn_id run \<and> rn_planId r = rn_planId run
    \<and> rn_planRevision r = rn_planRevision run \<and> rn_planDigest r = rn_planDigest run
    \<and> rn_workspace r = rn_workspace run \<and> rn_startBaseline r = rn_startBaseline run
    \<and> rn_createdAt r = rn_createdAt run
    \<and> map task_plan (rn_tasks r) = map task_plan (rn_tasks run)
    \<and> map item_plan (rn_outbox r) = map item_plan (rn_outbox run)
    \<and> (\<exists>new. rn_evidenceIndex r = rn_evidenceIndex run @ new)
    \<and> (\<exists>recs. rn_verificationRecords r = rn_verificationRecords run @ recs)"
  using operation_keeps [OF assms] by (auto simp: plan_kept_def)

theorem operation_frame_witness:
  "rn_revision toy_verified = rn_revision toy_implemented + 1"
  using operation_frame [OF toy_verify_run] by blast

section \<open>What a verified task guarantees\<close>

text \<open>
  The records of a run vouch for its settled tasks. The validator alone does not imply it:
  it does not relate the state of a task to the outcome of its record.
\<close>

definition vouched :: "verification set \<Rightarrow> run_task \<Rightarrow> string \<Rightarrow> bool" where
  "vouched R t outcome \<longleftrightarrow> (\<exists>rec \<in> R. vr_stepId rec = tk_stepId t
     \<and> tk_verificationId t = Some (vr_id rec) \<and> vr_outcome rec = outcome)"

definition task_integrity :: "verification set \<Rightarrow> run_task \<Rightarrow> bool" where
  "task_integrity R t \<longleftrightarrow>
     (tk_state t \<in> {T_pending, T_reconcile_required, T_mission_linked} \<longrightarrow>
        implementation_digest t = None) \<and>
     implementation_digest t \<noteq> Some (tk_expectedBaselineDigest t) \<and>
     (tk_state t = T_verified \<longrightarrow> vouched R t ''passed'') \<and>
     (tk_state t = T_failed \<longrightarrow> vouched R t ''failed'')"

definition run_integrity :: "delivery_run \<Rightarrow> bool" where
  "run_integrity run \<longleftrightarrow>
     (\<forall>t \<in> set (rn_tasks run). task_integrity (set (rn_verificationRecords run)) t)"

lemma run_integrity_update:
  assumes "run_integrity run" "rn_tasks r = (rn_tasks run)[i := t]"
    "set (rn_verificationRecords run) \<subseteq> set (rn_verificationRecords r)"
    "task_integrity (set (rn_verificationRecords r)) t"
  shows "run_integrity r"
proof -
  have "task_integrity (set (rn_verificationRecords r)) u" if "u \<in> set (rn_tasks run)" for u
    using assms(1,3) that unfolding run_integrity_def task_integrity_def vouched_def by blast
  then show ?thesis
    using assms(2,4) set_update_subset_insert [of "rn_tasks run" i t]
    by (auto simp: run_integrity_def)
qed

lemma run_integrity_nth:
  "run_integrity run \<Longrightarrow> i < length (rn_tasks run) \<Longrightarrow>
   task_integrity (set (rn_verificationRecords run)) (rn_tasks run ! i)"
  by (simp add: run_integrity_def)

lemma link_integrity:
  "linkDeliveryRunMission H run v at = Inr r \<Longrightarrow> run_integrity run \<Longrightarrow> run_integrity r"
  by (erule link_success, rule run_integrity_update, assumption)
    (auto dest!: run_integrity_nth simp: task_integrity_def implementation_digest_def)

lemma reconcile_integrity:
  "markDeliveryRunMissionReconcileRequired H run v at = Inr r \<Longrightarrow> run_integrity run \<Longrightarrow> run_integrity r"
  by (erule reconcile_success, rule run_integrity_update, assumption)
    (auto dest!: run_integrity_nth simp: task_integrity_def implementation_digest_def)

lemma capture_integrity:
  "captureDeliveryRunImplementation H run v at = Inr r \<Longrightarrow> run_integrity run \<Longrightarrow> run_integrity r"
  by (erule capture_success, rule run_integrity_update, assumption)
    (auto dest!: run_integrity_nth simp: task_integrity_def implementation_digest_def)

lemma off_course_integrity:
  "markDeliveryRunOffCourse H run v at = Inr r \<Longrightarrow> run_integrity run \<Longrightarrow> run_integrity r"
  by (erule off_course_success, rule run_integrity_update, assumption)
    (auto dest!: run_integrity_nth simp: task_integrity_def implementation_digest_def)

lemma abort_integrity:
  "abortDeliveryRun H run v at = Inr r \<Longrightarrow> run_integrity run \<Longrightarrow> run_integrity r"
  by (erule abort_success)
    (auto simp: run_integrity_def task_integrity_def implementation_digest_def aborted_task_def)

lemma verify_integrity:
  assumes "recordDeliveryRunVerification H run v at = Inr r" "run_integrity run"
    "lifecycle_inv (lifecycle_of run)"
  shows "run_integrity r"
  using assms(1)
proof (rule verify_success)
  fix i t b new l and rec :: verification
  let ?passed = "vr_outcome rec = ''passed''"
  let ?ts = "(rn_tasks run)[i := (rn_tasks run ! i)\<lparr>tk_verificationId := Some (vr_id rec),
       tk_state := (if ?passed then T_verified else T_failed)\<rparr>]"
  assume valid: "valid_run H run" and i: "i < length (rn_tasks run)"
    and c: "rn_condition run \<noteq> C_aborted" "rn_condition run \<noteq> C_verified"
    and st: "tk_state (rn_tasks run ! i) = T_implementation_captured"
    and step: "vr_stepId rec = tk_stepId (rn_tasks run ! i)"
    and outcome: "vr_outcome rec =
      (if list_all (\<lambda>c. cr_outcome c = ''passed'') (vr_criteria rec) then ''passed'' else ''failed'')"
    and r: "r = (verified_run i ?passed (vr_id rec) (bl_digest b) (vr_note rec) (vr_verifiedAt rec) run)
      \<lparr>rn_evidenceIndex := rn_evidenceIndex run @ new,
       rn_verificationRecords := rn_verificationRecords run @ [rec],
       rn_delivery := \<lparr>dl_level = l, dl_evidenceIds = push_all_new (dl_evidenceIds (rn_delivery run))
           (map ev_id new @ vr_evidenceIds rec), dl_updatedAt = t\<rparr>,
       rn_revision := rn_revision run + 1, rn_updatedAt := t\<rparr>"
  note keyed = valid_run_keyed [OF valid]
  obtain k where k: "open_shape (lifecycle_of run) k" using assms(3) c by (rule lifecycle_open)
  have "i = k" using i st by (intro open_shape_only_current [OF k])
      (simp_all add: lifecycle_of_length [OF keyed] lifecycle_of_nth [OF keyed])
  then have following: "tk_state (rn_tasks run ! Suc i) = T_pending" if "Suc i < length (rn_tasks run)"
    using k that lifecycle_of_nth [OF keyed that] lifecycle_of_length [OF keyed]
    by (auto simp: open_shape_def)
  let ?w = "run\<lparr>rn_tasks := ?ts, rn_verificationRecords := rn_verificationRecords run @ [rec]\<rparr>"
  have w: "run_integrity ?w"
    using run_integrity_nth [OF assms(2) i] step outcome
    by (intro run_integrity_update [OF assms(2), of ?w i])
      (auto simp: task_integrity_def implementation_digest_def vouched_def)
  show ?thesis
  proof (cases "?passed \<and> Suc i < length (rn_tasks run)")
    case True
    then have "task_integrity (set (rn_verificationRecords ?w)) (rn_tasks ?w ! Suc i)"
      by (intro run_integrity_nth [OF w]) simp
    with True following show ?thesis
      by (intro run_integrity_update [OF w, of r "Suc i"])
        (auto simp: r verified_run_def Let_def task_integrity_def implementation_digest_def)
  next
    case False
    then have "rn_tasks r = rn_tasks ?w" "rn_verificationRecords r = rn_verificationRecords ?w"
      by (auto simp: r verified_run_def Let_def)
    with w show ?thesis by (simp add: run_integrity_def)
  qed
qed

interpretation vouching: machine "run_created H" "run_operates H"
    "\<lambda>run. run_integrity run \<and> lifecycle_inv (lifecycle_of run)"
  for H :: host
proof
  show "run_integrity run \<and> lifecycle_inv (lifecycle_of run)" if "run_created H run" for run
  proof -
    from that obtain v at where created: "createDeliveryRun H v at = Inr run"
      by (auto simp: run_created_def)
    have "run_integrity run"
      using create_success(7) [OF created]
      by (auto simp: run_integrity_def in_set_conv_nth task_integrity_def implementation_digest_def
          emptyImplementation_def)
    moreover have "lifecycle_inv (lifecycle_of run)"
      using delivery.reaches_abs_inv [OF reaches_start, of H run] that by blast
    ultimately show ?thesis ..
  qed
  show "run_integrity r \<and> lifecycle_inv (lifecycle_of r)"
    if inv: "run_integrity run \<and> lifecycle_inv (lifecycle_of run)" and step: "run_operates H run r"
    for run r
  proof -
    from step obtain op at where ap: "apply_operation H op at run = Inr r" by (auto simp: run_operates_def)
    then have "run_integrity r"
      using inv by (cases op) (auto intro: link_integrity reconcile_integrity capture_integrity
          verify_integrity abort_integrity off_course_integrity)
    moreover have "lifecycle_inv (lifecycle_of r)"
      using lifecycle_inv_step operation_step ap inv by blast
    ultimately show ?thesis ..
  qed
qed

lemma valid_record:
  assumes "valid_run H run" "rec \<in> set (rn_verificationRecords run)" "i < length (rn_tasks run)"
    "vr_stepId rec = tk_stepId (rn_tasks run ! i)"
  shows "validateVerification rec run (rn_tasks run ! i) (map ev_id (rn_evidenceIndex run)) = None"
proof -
  have "distinct (map tk_stepId (rn_tasks run))"
    using valid_run_keyed [OF assms(1)] by (simp add: run_keyed_def)
  then have "find (\<lambda>t. tk_stepId t = vr_stepId rec) (rn_tasks run) = Some (rn_tasks run ! i)"
    using assms(3,4) by (intro find_key_nth) auto
  moreover have "run_record_checks run = None" using assms(1) by (simp add: valid_run_checks)
  ultimately show ?thesis
    using assms(2) by (force simp: run_record_checks_def throws_map_None)
qed

lemma criteria_cover:
  assumes "criterion_checks task cs ids = None" "length cs = length (tk_acceptanceIds task)"
    "distinct (tk_acceptanceIds task)"
  shows "set (map cr_acceptanceId cs) = set (tk_acceptanceIds task)"
proof -
  from assms(1) have each: "\<forall>i < length cs. cr_acceptanceId (cs ! i) \<in> set (tk_acceptanceIds task)
      \<and> \<not> seen_before cr_acceptanceId cs i"
    by (auto simp: criterion_checks_def each_indexed_None)
  then have "distinct (map cr_acceptanceId cs)" by (simp add: never_seen_distinct [symmetric])
  then have "card (set (map cr_acceptanceId cs)) = card (set (tk_acceptanceIds task))"
    using assms(2) distinct_card [of "map cr_acceptanceId cs"] distinct_card [OF assms(3)] by simp
  moreover have "set (map cr_acceptanceId cs) \<subseteq> set (tk_acceptanceIds task)"
    using each by (auto simp: in_set_conv_nth)
  ultimately show ?thesis by (intro card_subset_eq) auto
qed

text \<open>C8: A verified task of a reachable run is backed by a record of the run: the operator
  verified it as passed, every acceptance criterion of the task has its outcome and it is
  passed, the workspace at the verification is the captured implementation, before and
  after, and that implementation differs from the baseline the task started from.\<close>

theorem verified_task_is_backed:
  assumes "run_reachable H run" "i < length (rn_tasks run)" "tk_state (rn_tasks run ! i) = T_verified"
  shows "\<exists>rec \<in> set (rn_verificationRecords run).
     tk_verificationId (rn_tasks run ! i) = Some (vr_id rec) \<and> vr_verifier rec = ''operator''
     \<and> vr_outcome rec = ''passed''
     \<and> set (map cr_acceptanceId (vr_criteria rec)) = set (tk_acceptanceIds (rn_tasks run ! i))
     \<and> (\<forall>c \<in> set (vr_criteria rec). cr_outcome c = ''passed'')
     \<and> implementation_digest (rn_tasks run ! i) = Some (vr_beforeBaselineDigest rec)
     \<and> vr_afterBaselineDigest rec = vr_beforeBaselineDigest rec
     \<and> vr_beforeBaselineDigest rec \<noteq> tk_expectedBaselineDigest (rn_tasks run ! i)"
proof -
  let ?t = "rn_tasks run ! i"
  have valid: "valid_run H run" using assms(1) by (rule reachable_valid)
  have integrity: "task_integrity (set (rn_verificationRecords run)) ?t"
    using vouching.reaches_inv [OF assms(1)] run_integrity_nth assms(2) by blast
  with assms(3) obtain rec where rec: "rec \<in> set (rn_verificationRecords run)"
      "vr_stepId rec = tk_stepId ?t" "tk_verificationId ?t = Some (vr_id rec)" "vr_outcome rec = ''passed''"
    by (auto simp: task_integrity_def vouched_def)
  have checked: "validateVerification rec run ?t (map ev_id (rn_evidenceIndex run)) = None"
    using valid rec(1) assms(2) rec(2) by (rule valid_record)
  have "distinct (tk_acceptanceIds ?t)"
    using valid_run_task_shape(4) [OF valid assms(2)]
    by (auto simp: validateTask_def dr_uniqueStrings_def)
  with checked have "set (map cr_acceptanceId (vr_criteria rec)) = set (tk_acceptanceIds ?t)"
    by (intro criteria_cover [of _ _ "map ev_id (rn_evidenceIndex run)"])
      (simp_all add: validateVerification_def)
  moreover have "\<forall>c \<in> set (vr_criteria rec). cr_outcome c = ''passed''"
    using checked rec(4) by (auto simp: validateVerification_def list_ex_iff)
  moreover have "vr_verifier rec = ''operator''"
      "implementation_digest ?t = Some (vr_beforeBaselineDigest rec)"
      "implementation_digest ?t = Some (vr_afterBaselineDigest rec)"
    using checked by (simp_all add: validateVerification_def)
  ultimately show ?thesis
    using rec integrity by (auto simp: task_integrity_def intro!: bexI [of _ rec])
qed

theorem verified_task_is_backed_witness:
  "\<exists>rec \<in> set (rn_verificationRecords toy_verified). vr_outcome rec = ''passed''"
proof -
  have "0 < length (rn_tasks toy_verified)" "tk_state (rn_tasks toy_verified ! 0) = T_verified"
    by (simp_all add: toy_verified_def)
  from verified_task_is_backed [OF toy_verified_reachable this] show ?thesis by blast
qed

text \<open>In a valid run the first task starts from the run's start
  baseline, and every further task expects exactly the implementation of its predecessor
  once that is verified, and no baseline at all before.\<close>

theorem expected_baselines_chain:
  assumes "valid_run H run" "i < length (rn_tasks run)"
  shows "tk_expectedBaselineDigest (rn_tasks run ! i) =
     (if i = 0 then bl_digest (rn_startBaseline run)
      else if tk_state (rn_tasks run ! (i - 1)) = T_verified
      then the (implementation_digest (rn_tasks run ! (i - 1))) else [])
    \<and> (0 < i \<longrightarrow> tk_state (rn_tasks run ! (i - 1)) = T_verified \<longrightarrow>
        implementation_digest (rn_tasks run ! (i - 1)) \<noteq> None)"
proof -
  let ?before = "rn_tasks run ! (i - 1)"
  from valid_run_task [OF assms]
  have "i = 0 \<Longrightarrow> tk_expectedBaselineDigest (rn_tasks run ! i) = bl_digest (rn_startBaseline run)"
    and "0 < i \<Longrightarrow> Some (tk_expectedBaselineDigest (rn_tasks run ! i)) =
      (if tk_state ?before = T_verified then implementation_digest ?before else Some [])"
    by (simp_all only: run_task_checks_def Let_def throws_Cons_None throw_if_None) blast+
  then show ?thesis by (cases "i = 0"; cases "implementation_digest ?before") (auto split: if_splits)
qed

theorem expected_baselines_chain_witness:
  "tk_expectedBaselineDigest (rn_tasks toy_verified ! 1) = toy_hash CHR ''1''"
  using expected_baselines_chain [OF reachable_valid [OF toy_verified_reachable], of 1]
  by (simp add: toy_verified_def)

section \<open>The limit of the delivery evidence\<close>





end
