(* ===== verification/ReceiptStore.thy ===== *)
theory ReceiptStore
  imports CanonicalJson JsDate Machine "HOL-Library.Multiset"
begin

text \<open>
  The durable stores of delivery-run-store.js, delivery-plan-store.js and
  delivery-planning-run-store.js share one design: a list of items (runs, plans), a list of
  receipts (one per accepted operation, with the snapshot it produced), and a revision that
  counts the receipts. An operation is idempotent by its identifier and the digest of its
  request. This theory holds the parts that the files have in the same form, over a record of
  what differs: the name of the item, its validator, its limits, the lifecycle that a receipt
  must follow, and the checks that only the store of planning runs makes.
\<close>

section \<open>Data\<close>

record 'a receipt =
  rc_id :: string
  rc_action :: string
  rc_requestDigest :: string
  rc_at :: string
  rc_storeRevision :: int
  rc_item :: 'a

record 'a receipt_store =
  st_version :: int
  st_revision :: int
  st_items :: "'a list"
  st_operations :: "'a receipt list"

record 'a reply =
  ry_replayed :: bool
  ry_storeRevision :: int
  ry_item :: 'a

text \<open>
  What a store module says of its items. The limits on one item and on one receipt, the rule
  on all items together and the limit on the store are errors of what they read, the JSON of
  the part; the first three are only in delivery-planning-run-store.js.
\<close>

record 'a store_module =
  md_family :: string
  md_noun :: string
  md_version :: int
  md_maxItems :: nat
  md_maxOperations :: nat
  md_maxBytes :: int
  md_maxRequest :: int
  md_actions :: "string list"
  md_id :: "'a \<Rightarrow> string"
  md_strict :: "error \<Rightarrow> 'a \<Rightarrow> 'a result"
  md_lifecycle :: "'a receipt \<Rightarrow> 'a option \<Rightarrow> error option"
  md_json :: "'a \<Rightarrow> json"
  md_itemLimit :: "json \<Rightarrow> error option"
  md_receiptLimit :: "json \<Rightarrow> error option"
  md_itemsRule :: "'a list \<Rightarrow> error option"
  md_storeLimit :: "json \<Rightarrow> 'a receipt_store \<Rightarrow> error option"

definition store_error :: "'a store_module \<Rightarrow> string \<Rightarrow> error" where
  "store_error M suffix = Error (''delivery_'' @ md_family M @ ''_store_'' @ suffix)"

definition MAX_STORE_BYTES :: int where "MAX_STORE_BYTES = 16777216"
definition MAX_REQUEST_BYTES :: int where "MAX_REQUEST_BYTES = 1048576"

text \<open>
  The bytes of a string in UTF-8: its code units are below 256, so a unit takes one byte or
  two. The order of members does not change the length of an object's text.
\<close>

definition utf8_length :: "string \<Rightarrow> int" where
  "utf8_length s = sum_list (map (\<lambda>c. if code c < 128 then 1 else 2) s)"

lemma utf8_length_code [code]:
  "utf8_length [] = 0"
  "utf8_length (Char b0 b1 b2 b3 b4 b5 b6 b7 # s) = (if b7 then 2 else 1) + utf8_length s"
  by (cases b0; cases b1; cases b2; cases b3; cases b4; cases b5; cases b6; cases b7;
    simp add: utf8_length_def code_def)+

lemma utf8_length_append: "utf8_length (s @ t) = utf8_length s + utf8_length t"
  by (simp add: utf8_length_def)

lemma utf8_length_nonneg: "0 \<le> utf8_length s"
  unfolding utf8_length_def by (rule sum_list_nonneg) (auto split: if_splits)

definition byteLength :: "json \<Rightarrow> int" where
  "byteLength j = utf8_length (canonicalJson j)"

text \<open>The limit on a store as delivery-run-store.js and delivery-plan-store.js measure it.\<close>

definition compactLimit :: "error \<Rightarrow> json \<Rightarrow> error option" where
  "compactLimit e j = throw_if (MAX_STORE_BYTES < byteLength j) e"

lemma compactLimit_None [simp]: "compactLimit e j = None \<longleftrightarrow> byteLength j \<le> MAX_STORE_BYTES"
  by (simp add: compactLimit_def not_less)

text \<open>The size of a text, from the sizes of its parts; the sorting does not matter.\<close>

definition list_size :: "int list \<Rightarrow> int" where
  "list_size ns = 2 + sum_list ns + (if ns = [] then 0 else int (length ns) - 1)"

primrec json_size :: "json \<Rightarrow> int" where
  "json_size JNull = 4"
| "json_size (JBool b) = (if b then 4 else 5)"
| "json_size (JNum n) = utf8_length (int_text n)"
| "json_size (JStr s) = utf8_length (string_text s)"
| "json_size (JArr xs) = list_size (map json_size xs)"
| "json_size (JObj kvs) = list_size
     (map (\<lambda>kn. utf8_length (string_text (fst kn)) + 1 + snd kn) (map (map_prod (\<lambda>k. k) json_size) kvs))"

lemma utf8_length_join:
  "utf8_length (join_with '','' ts) =
     sum_list (map utf8_length ts) + (if ts = [] then 0 else int (length ts) - 1)"
proof (induction ts)
  case (Cons t ts)
  then show ?case
    by (cases ts) (simp_all add: utf8_length_append, simp add: utf8_length_def code_def)
qed (simp add: utf8_length_def)

lemma utf8_length_brackets:
  assumes "utf8_length [l] = 1" "utf8_length [r] = 1"
  shows "utf8_length ([l] @ join_with '','' ts @ [r]) = list_size (map utf8_length ts)"
  unfolding utf8_length_append assms utf8_length_join list_size_def by simp

lemma list_size_sort: "list_size (map f (sort_key k xs)) = list_size (map f xs)"
proof -
  have "mset (map f (sort_key k xs)) = mset (map f xs)" by simp
  then have "sum_list (map f (sort_key k xs)) = sum_list (map f xs)" by (metis sum_mset_sum_list)
  moreover have "sort_key k xs = [] \<longleftrightarrow> xs = []" by (metis length_0_conv length_sort)
  ultimately show ?thesis by (simp add: list_size_def)
qed

lemma byteLength_size [code]: "byteLength j = json_size j"
proof (induction j)
  case (JArr xs)
  have "byteLength (JArr xs) = list_size (map utf8_length (map canonicalJson xs))"
    unfolding byteLength_def canonicalJson.simps array_text_def
    by (rule utf8_length_brackets) (simp_all add: utf8_length_def code_def)
  with JArr show ?case by (simp add: byteLength_def comp_def cong: map_cong)
next
  case (JObj kvs)
  let ?ts = "sort_key fst (map (map_prod (\<lambda>k. k) canonicalJson) kvs)"
  let ?n = "\<lambda>kn. utf8_length (string_text (fst kn)) + 1 + snd kn"
  have member: "utf8_length (member_text kt) = ?n (map_prod (\<lambda>k. k) utf8_length kt)" for kt
    by (simp add: member_text_def utf8_length_append utf8_length_def code_def)
  have "byteLength (JObj kvs) = list_size (map utf8_length (map member_text ?ts))"
    unfolding byteLength_def canonicalJson.simps object_text_def
    by (rule utf8_length_brackets) (simp_all add: utf8_length_def code_def)
  also have "\<dots> = list_size (map (utf8_length \<circ> member_text) (map (map_prod (\<lambda>k. k) canonicalJson) kvs))"
    by (simp add: list_size_sort)
  also have "\<dots> = json_size (JObj kvs)"
    using JObj by (auto simp: member byteLength_def snds.simps intro!: arg_cong [where f = list_size])
  finally show ?case .
qed (simp_all add: byteLength_def, simp_all add: utf8_length_def code_def)

section \<open>Identifiers, revisions and requests\<close>

definition operation_id_pattern :: "string \<Rightarrow> bool" where
  "operation_id_pattern s \<longleftrightarrow> 8 \<le> length s \<and> length s \<le> 128 \<and> is_alnum (hd s)
     \<and> list_all (\<lambda>c. is_alnum c \<or> c \<in> set ''._:-'') (tl s)"

definition st_operationId :: "'a store_module \<Rightarrow> string \<Rightarrow> string result" where
  "st_operationId M value =
     (let r = js_trim value in
      guard (throw_if (\<not> operation_id_pattern r) (store_error M ''operation_id_invalid'')) (Inr r))"

definition requestedRevision :: "'a store_module \<Rightarrow> int \<Rightarrow> string \<Rightarrow> int \<Rightarrow> int result" where
  "requestedRevision M value field minimum =
     guard (throw_if (\<not> safe_integer value \<or> value < minimum) (store_error M (field @ ''_invalid'')))
       (Inr value)"

text \<open>The digest of a request; \<open>canonicalJson\<close> cannot fail on a value of type \<open>json\<close>.\<close>

definition requestSnapshot :: "'a store_module \<Rightarrow> host \<Rightarrow> json \<Rightarrow> string result" where
  "requestSnapshot M H value =
     guard (throw_if (md_maxRequest M < byteLength value) (store_error M ''request_too_large''))
       (Inr (canonicalSha256 H value))"

definition st_timestamp :: "'a store_module \<Rightarrow> string \<Rightarrow> string result" where
  "st_timestamp M value =
     guard (throw_if (\<not> valid_timestamp value) (store_error M ''now_invalid'')) (Inr value)"

definition assertStoreRevision :: "'a store_module \<Rightarrow> 'a receipt_store \<Rightarrow> int \<Rightarrow> error option" where
  "assertStoreRevision M store expected =
     throw_if (st_revision store \<noteq> expected) (store_error M ''revision_conflict'')"

definition assertCapacity :: "'a store_module \<Rightarrow> 'a receipt_store \<Rightarrow> bool \<Rightarrow> error option" where
  "assertCapacity M store creates = throws
     [throw_if (md_maxOperations M \<le> length (st_operations store)) (store_error M ''operation_limit_reached''),
      throw_if (creates \<and> md_maxItems M \<le> length (st_items store))
        (store_error M (md_noun M @ ''_limit_reached''))]"

definition assertChronology :: "'a store_module \<Rightarrow> 'a receipt_store \<Rightarrow> string \<Rightarrow> error option" where
  "assertChronology M store at = throw_if
     (st_operations store \<noteq> [] \<and> date_ms at < date_ms (rc_at (last (st_operations store))))
     (store_error M ''clock_regressed'')"

section \<open>Replay and the next store\<close>

definition operationReplay ::
  "'a store_module \<Rightarrow> 'a receipt_store \<Rightarrow> string \<Rightarrow> string \<Rightarrow> string \<Rightarrow> 'a reply option result" where
  "operationReplay M store i action digest =
     (case find (\<lambda>c. rc_id c = i) (st_operations store) of
        None \<Rightarrow> Inr None
      | Some c \<Rightarrow> guard (throw_if (rc_action c \<noteq> action \<or> rc_requestDigest c \<noteq> digest)
                     (store_error M ''operation_conflict''))
                   (Inr (Some \<lparr>ry_replayed = True, ry_storeRevision = rc_storeRevision c,
                               ry_item = rc_item c\<rparr>)))"

text \<open>An item replaces the one of its identifier, or is appended.\<close>

definition put_item :: "('a \<Rightarrow> string) \<Rightarrow> 'a list \<Rightarrow> 'a \<Rightarrow> 'a list" where
  "put_item key items item =
     (if list_ex (\<lambda>c. key c = key item) items
      then map (\<lambda>c. if key c = key item then item else c) items
      else items @ [item])"

text \<open>
  The history of a store: each receipt is checked against the snapshot of the previous
  receipt of its item, which \<open>seen\<close> holds.
\<close>

definition receipt_json :: "'a store_module \<Rightarrow> 'a receipt \<Rightarrow> json" where
  "receipt_json M c = JObj
     [(''id'', JStr (rc_id c)), (''action'', JStr (rc_action c)),
      (''requestDigest'', JStr (rc_requestDigest c)), (''at'', JStr (rc_at c)),
      (''result'', JObj [(''storeRevision'', JNum (rc_storeRevision c)),
                         (md_noun M, md_json M (rc_item c))])]"

definition validateReceipt ::
  "'a store_module \<Rightarrow> string set \<Rightarrow> nat \<Rightarrow> (string \<rightharpoonup> 'a) \<Rightarrow> 'a receipt \<Rightarrow> 'a result" where
  "validateReceipt M ids index seen c =
     guard (throws
       [throw_if (\<not> operation_id_pattern (rc_id c) \<or> rc_action c \<notin> set (md_actions M)
          \<or> \<not> digest_pattern (rc_requestDigest c) \<or> \<not> valid_timestamp (rc_at c))
          (store_error M ''operation_invalid''),
        throw_if (rc_storeRevision c \<noteq> int index + 1) (store_error M ''operation_revision_invalid'')])
     (attempt (md_strict M (store_error M (''operation_'' @ md_noun M @ ''_invalid'')) (rc_item c))
       (\<lambda>snapshot. guard (throws
          [md_receiptLimit M (receipt_json M c),
           throw_if (md_id M snapshot \<notin> ids) (store_error M (''operation_'' @ md_noun M @ ''_unknown'')),
           md_lifecycle M c (seen (md_id M snapshot))])
          (Inr snapshot)))"

fun validateHistory ::
  "'a store_module \<Rightarrow> string set \<Rightarrow> string set \<Rightarrow> string option \<Rightarrow> nat \<Rightarrow> (string \<rightharpoonup> 'a) \<Rightarrow>
   'a receipt list \<Rightarrow> (string \<rightharpoonup> 'a) result" where
  "validateHistory M ids opIds previousAt index seen [] = Inr seen"
| "validateHistory M ids opIds previousAt index seen (c # cs) =
     guard (throw_if (rc_id c \<in> opIds) (store_error M ''operation_duplicate''))
    (attempt (validateReceipt M ids index seen c) (\<lambda>snapshot.
     guard (throw_if (case previousAt of None \<Rightarrow> False | Some p \<Rightarrow> date_ms (rc_at c) < date_ms p)
              (store_error M ''operation_chronology_invalid''))
       (validateHistory M ids (insert (rc_id c) opIds) (Some (rc_at c)) (Suc index)
          (seen(md_id M snapshot \<mapsto> snapshot)) cs)))"

definition store_json :: "'a store_module \<Rightarrow> 'a receipt_store \<Rightarrow> json" where
  "store_json M s = JObj
     [(''version'', JNum (st_version s)), (''revision'', JNum (st_revision s)),
      (md_noun M @ ''s'', JArr (map (md_json M) (st_items s))),
      (''operations'', JArr (map (receipt_json M) (st_operations s)))]"

definition itemCheck :: "'a store_module \<Rightarrow> 'a list \<Rightarrow> nat \<Rightarrow> 'a \<Rightarrow> error option" where
  "itemCheck M items i x = throws
     [error_of (md_strict M (store_error M (md_noun M @ ''_invalid'')) x),
      md_itemLimit M (md_json M x),
      throw_if (seen_before (md_id M) items i) (store_error M (md_noun M @ ''_duplicate''))]"

text \<open>A stored item is the snapshot of its last receipt.\<close>

definition currentCheck :: "'a store_module \<Rightarrow> (string \<rightharpoonup> 'a) \<Rightarrow> 'a \<Rightarrow> error option" where
  "currentCheck M seen x =
     (let e = store_error M (''current_'' @ md_noun M @ ''_mismatch'') in
      case seen (md_id M x) of
        None \<Rightarrow> Some e
      | Some latest \<Rightarrow> throw_if (canonicalJson (md_json M latest) \<noteq> canonicalJson (md_json M x)) e)"

definition validateReceiptStore :: "'a store_module \<Rightarrow> 'a receipt_store \<Rightarrow> 'a receipt_store result" where
  "validateReceiptStore M v =
     guard (throws
       [throw_if (st_version v \<noteq> md_version M) (store_error M ''version_unsupported''),
        throw_if (\<not> safe_integer (st_revision v) \<or> st_revision v < 0) (store_error M ''revision_invalid''),
        throw_if (md_maxItems M < length (st_items v)) (store_error M (md_noun M @ ''s_invalid'')),
        throw_if (md_maxOperations M < length (st_operations v)) (store_error M ''operations_invalid''),
        throw_if (st_revision v \<noteq> int (length (st_operations v))) (store_error M ''revision_invalid''),
        each_indexed (itemCheck M (st_items v)) (st_items v),
        md_itemsRule M (st_items v)])
    (attempt (validateHistory M (set (map (md_id M) (st_items v))) {} None 0 Map.empty (st_operations v))
      (\<lambda>seen. guard (throws
        [throw_if (card (set (map (md_id M \<circ> rc_item) (st_operations v))) \<noteq> length (st_items v))
           (store_error M ''history_incomplete''),
         throws (map (currentCheck M seen) (st_items v)),
         md_storeLimit M (store_json M v) v])
        (Inr v)))"

definition emptyReceiptStore :: "'a store_module \<Rightarrow> 'a receipt_store" where
  "emptyReceiptStore M = \<lparr>st_version = md_version M, st_revision = 0, st_items = [], st_operations = []\<rparr>"

definition nextStore ::
  "'a store_module \<Rightarrow> 'a receipt_store \<Rightarrow> string \<Rightarrow> string \<Rightarrow> string \<Rightarrow> string \<Rightarrow> 'a \<Rightarrow>
   'a receipt_store result" where
  "nextStore M store i action digest at item =
     (let revision = st_revision store + 1 in
      validateReceiptStore M
        \<lparr>st_version = md_version M, st_revision = revision,
         st_items = put_item (md_id M) (st_items store) item,
         st_operations = st_operations store @
           [\<lparr>rc_id = i, rc_action = action, rc_requestDigest = digest, rc_at = at,
             rc_storeRevision = revision, rc_item = item\<rparr>]\<rparr>)"

end
