(* ===== verification/CanonicalFacts.thy ===== *)
theory CanonicalFacts
  imports CanonicalJson
begin

text \<open>
  Canonical JSON is unambiguous: two values have the same canonical text exactly when they
  are the same up to the order of object members. The digests of the program are digests of
  this text, so equal digests mean equal content or a collision of the hash.
\<close>

section \<open>Strings\<close>

text \<open>Reading one escaped character back.\<close>

fun hex_value :: "char \<Rightarrow> nat" where
  "hex_value c = (if code c < 97 then code c - 48 else code c - 87)"

fun read_escape :: "string \<Rightarrow> (char \<times> string) option" where
  "read_escape (b # rest) =
     (if b \<noteq> CHR 0x5C then Some (b, rest)
      else (case rest of
          [] \<Rightarrow> None
        | e # r \<Rightarrow>
            if e = CHR 0x22 \<or> e = CHR 0x5C then Some (e, r)
            else if e = CHR ''b'' then Some (CHR 0x08, r)
            else if e = CHR ''t'' then Some (CHR 0x09, r)
            else if e = CHR ''n'' then Some (CHR 0x0A, r)
            else if e = CHR ''f'' then Some (CHR 0x0C, r)
            else if e = CHR ''r'' then Some (CHR 0x0D, r)
            else (case r of
                _ # _ # x # y # r' \<Rightarrow> Some (char_of (16 * hex_value x + hex_value y), r')
              | _ \<Rightarrow> None)))"
| "read_escape [] = None"

lemma read_escape_inverse: "read_escape (escape_char c @ r) = Some (c, r)"
proof (cases c)
  case (Char b0 b1 b2 b3 b4 b5 b6 b7)
  show ?thesis
    unfolding Char
    by (cases b0; cases b1; cases b2; cases b3; cases b4; cases b5; cases b6; cases b7;
      simp add: escape_char_bits code_def hex_digit_def char_of_def bit_0)
qed

lemma escape_char_hd: "escape_char c \<noteq> [] \<and> hd (escape_char c @ r) \<noteq> CHR 0x22"
proof (cases c)
  case (Char b0 b1 b2 b3 b4 b5 b6 b7)
  show ?thesis
    unfolding Char
    by (cases b0; cases b1; cases b2; cases b3; cases b4; cases b5; cases b6; cases b7;
      simp add: escape_char_bits code_def)
qed

lemma string_text_prefix_aux:
  "concat (map escape_char s) @ CHR 0x22 # r = concat (map escape_char t) @ CHR 0x22 # u \<Longrightarrow>
   s = t \<and> r = u"
proof (induction s arbitrary: t)
  case Nil
  show ?case
  proof (cases t)
    case (Cons d t')
    with Nil escape_char_hd [of d "concat (map escape_char t') @ CHR 0x22 # u"] show ?thesis
      by (metis append.assoc append_Nil concat.simps(1,2) list.sel(1) list.simps(8,9))
  qed (use Nil in simp)
next
  case (Cons c s)
  show ?case
  proof (cases t)
    case Nil
    with Cons.prems escape_char_hd [of c "concat (map escape_char s) @ CHR 0x22 # r"] show ?thesis
      by (metis append.assoc append_Nil concat.simps(1,2) list.sel(1) list.simps(8,9))
  next
    case (Cons d t')
    with Cons.prems have "read_escape (escape_char c @ concat (map escape_char s) @ CHR 0x22 # r)
        = read_escape (escape_char d @ concat (map escape_char t') @ CHR 0x22 # u)" by simp
    then have "c = d" "concat (map escape_char s) @ CHR 0x22 # r = concat (map escape_char t') @ CHR 0x22 # u"
      by (simp_all add: read_escape_inverse)
    with Cons.IH Cons show ?thesis by simp
  qed
qed

lemma string_text_prefix:
  assumes "string_text s @ r = string_text t @ u"
  shows "s = t \<and> r = u"
proof -
  from assms have "concat (map escape_char s) @ CHR 0x22 # r = concat (map escape_char t) @ CHR 0x22 # u"
    by (simp add: string_text_def)
  then show ?thesis by (rule string_text_prefix_aux)
qed

section \<open>Numbers\<close>

definition decimal_value :: "string \<Rightarrow> nat" where
  "decimal_value s = foldl (\<lambda>v c. 10 * v + (code c - 48)) 0 s"

lemma code_digit: "n < 10 \<Longrightarrow> code (char_of (48 + n :: nat)) = 48 + n"
  by (simp add: code_def)

lemma nat_text_digits: "nat_text n \<noteq> [] \<and> list_all is_digit (nat_text n) \<and> decimal_value (nat_text n) = n"
proof (induction n rule: nat_text.induct)
  case (1 n)
  show ?case
  proof (cases "n < 10")
    case True
    then show ?thesis
      by (simp add: nat_text.simps [of n] is_digit_def code_digit decimal_value_def)
  next
    case False
    have n: "nat_text n = nat_text (n div 10) @ [char_of (48 + n mod 10)]"
      using False by (subst nat_text.simps) simp
    have d: "code (char_of (48 + n mod 10 :: nat)) = 48 + n mod 10" by (rule code_digit) simp
    have "is_digit (char_of (48 + n mod 10 :: nat))"
      unfolding is_digit_def d by (simp add: mod_less_divisor [THEN less_imp_le_nat, of 10, simplified] linorder_not_less [symmetric])
    moreover have "decimal_value (nat_text n) = 10 * decimal_value (nat_text (n div 10)) + n mod 10"
      unfolding n by (simp add: decimal_value_def d)
    ultimately show ?thesis using False 1 n by simp
  qed
qed

text \<open>What may follow a value: nothing, or the delimiter after it.\<close>

definition ends_value :: "string \<Rightarrow> bool" where
  "ends_value r \<longleftrightarrow> r = [] \<or> hd r \<in> {CHR '','', CHR '']'', CHR ''}''}"

lemma digits_prefix:
  assumes "list_all is_digit s" "list_all is_digit t" "s @ r = t @ u" "ends_value r" "ends_value u"
  shows "s = t \<and> r = u"
proof -
  have stop: "takeWhile is_digit v = []" if "ends_value v" for v
    using that by (cases v) (auto simp: ends_value_def is_digit_def code_def)
  have "takeWhile is_digit (s @ r) = s" if "list_all is_digit s" "ends_value r" for s r
    using that stop by (subst takeWhile_append2) (auto simp: list_all_iff)
  with assms have "s = t" by metis
  with assms(3) show ?thesis by simp
qed

lemma nat_text_prefix:
  assumes "nat_text m @ r = nat_text n @ u" "ends_value r" "ends_value u"
  shows "m = n \<and> r = u"
  using digits_prefix [of "nat_text m" "nat_text n" r u] nat_text_digits assms by metis

lemma nat_text_hd: "is_digit (hd (nat_text n @ r))"
  using nat_text_digits [of n] by (cases "nat_text n") auto

lemma int_text_prefix:
  assumes "int_text m @ r = int_text n @ u" "ends_value r" "ends_value u"
  shows "m = n \<and> r = u"
proof -
  have not_minus: "\<not> is_digit (CHR ''-'')" by (simp add: is_digit_def code_def)
  have "hd (nat_text k @ v) \<noteq> CHR ''-''" for k v using nat_text_hd [of k v] not_minus by metis
  then have no: "nat_text k @ v \<noteq> CHR ''-'' # w" for k v w by (metis list.sel(1))
  show ?thesis
  proof (cases "m < 0"; cases "n < 0")
    assume mn: "m < 0" "n < 0"
    with assms(1) have "nat_text (nat (- m)) @ r = nat_text (nat (- n)) @ u" by (simp add: int_text_def)
    from nat_text_prefix [OF this assms(2,3)] mn show ?thesis by (auto simp: eq_nat_nat_iff)
  next
    assume "m < 0" "\<not> n < 0"
    with assms(1) have "nat_text (nat n) @ u = CHR ''-'' # nat_text (nat (- m)) @ r"
      by (simp add: int_text_def)
    with no show ?thesis by metis
  next
    assume "\<not> m < 0" "n < 0"
    with assms(1) have "nat_text (nat m) @ r = CHR ''-'' # nat_text (nat (- n)) @ u"
      by (simp add: int_text_def)
    with no show ?thesis by metis
  next
    assume mn: "\<not> m < 0" "\<not> n < 0"
    with assms(1) have "nat_text (nat m) @ r = nat_text (nat n) @ u" by (simp add: int_text_def)
    from nat_text_prefix [OF this assms(2,3)] mn show ?thesis by (auto simp: eq_nat_nat_iff)
  qed
qed

section \<open>Values\<close>

text \<open>The text of a value with its members in the given order, and the sorted value.\<close>

primrec render :: "json \<Rightarrow> string" where
  "render JNull = ''null''"
| "render (JBool b) = (if b then ''true'' else ''false'')"
| "render (JNum n) = int_text n"
| "render (JStr s) = string_text s"
| "render (JArr xs) = array_text (map render xs)"
| "render (JObj kvs) = object_text (map (map_prod (\<lambda>k. k) render) kvs)"

primrec norm_json :: "json \<Rightarrow> json" where
  "norm_json JNull = JNull"
| "norm_json (JBool b) = JBool b"
| "norm_json (JNum n) = JNum n"
| "norm_json (JStr s) = JStr s"
| "norm_json (JArr xs) = JArr (map norm_json xs)"
| "norm_json (JObj kvs) = JObj (sort_key fst (map (map_prod (\<lambda>k. k) norm_json) kvs))"

lemma insort_key_map: "(\<And>x. k (f x) = h x) \<Longrightarrow> map f (insort_key h x xs) = insort_key k (f x) (map f xs)"
  by (induction xs) auto

lemma sort_key_map:
  assumes "\<And>x. k (f x) = h x"
  shows "map f (sort_key h xs) = sort_key k (map f xs)"
  by (induction xs) (simp_all add: insort_key_map [of k f h] assms)

lemma canonicalJson_render: "canonicalJson j = render (norm_json j)"
proof (induction j)
  case (JArr xs)
  then show ?case by (simp add: comp_def cong: map_cong)
next
  case (JObj kvs)
  have members: "map (map_prod (\<lambda>k. k) canonicalJson) kvs
      = map (map_prod (\<lambda>k. k) render) (map (map_prod (\<lambda>k. k) norm_json) kvs)"
    using JObj by (auto simp: snds.simps)
  have sorted: "map (map_prod (\<lambda>k. k) render) (sort_key fst xs) = sort_key fst (map (map_prod (\<lambda>k. k) render) xs)"
    for xs :: "(string \<times> json) list"
    by (rule sort_key_map) simp
  show ?case
    by (simp only: canonicalJson.simps norm_json.simps render.simps members sorted)
qed simp_all

text \<open>The first character tells the kind of a value.\<close>

lemma render_hd:
  "render a \<noteq> [] \<and> hd (render a @ r) \<notin> {CHR '','', CHR '']'', CHR ''}''}
   \<and> (hd (render a @ r) = CHR ''n'' \<longleftrightarrow> a = JNull)
   \<and> (hd (render a @ r) \<in> {CHR ''t'', CHR ''f''} \<longleftrightarrow> (\<exists>b. a = JBool b))
   \<and> (hd (render a @ r) = CHR 0x22 \<longleftrightarrow> (\<exists>s. a = JStr s))
   \<and> (hd (render a @ r) = CHR ''['' \<longleftrightarrow> (\<exists>xs. a = JArr xs))
   \<and> (hd (render a @ r) = CHR ''{'' \<longleftrightarrow> (\<exists>kvs. a = JObj kvs))"
proof (cases a)
  case (JNum n)
  have "int_text n \<noteq> [] \<and> (hd (int_text n @ r) = CHR ''-'' \<or> is_digit (hd (int_text n @ r)))"
    using nat_text_digits [of "nat n"] nat_text_hd [of "nat n" r] by (simp add: int_text_def)
  then show ?thesis using JNum by (auto simp: is_digit_def code_def)
qed (auto simp: string_text_def array_text_def object_text_def)

lemma join_with_Cons: "join_with d (w # ws) = w @ (if ws = [] then [] else d @ join_with d ws)"
  by (cases ws) auto

lemma ends_value_simps [simp]:
  "ends_value []" "ends_value (CHR '','' # r)" "ends_value (CHR '']'' # r)" "ends_value (CHR ''}'' # r)"
  by (simp_all add: ends_value_def)

text \<open>Lists of texts between brackets, when each text is readable.\<close>

lemma join_prefix:
  assumes readable: "\<And>x y r u. x \<in> set xs \<Longrightarrow> f x @ r = f y @ u \<Longrightarrow> ends_value r \<Longrightarrow> ends_value u \<Longrightarrow> x = y \<and> r = u"
    and start: "\<And>x r. f x @ r \<noteq> [] \<and> hd (f x @ r) \<notin> {CHR '','', CHR '']'', CHR ''}''}"
    and close: "c \<in> {CHR '']'', CHR ''}''}"
    and eq: "join_with '','' (map f xs) @ c # r = join_with '','' (map f ys) @ c # u"
  shows "xs = ys \<and> r = u"
  using readable eq
proof (induction xs arbitrary: ys)
  case Nil
  show ?case
  proof (cases ys)
    case (Cons y ys')
    let ?rest = "(if ys' = [] then [] else '','' @ join_with '','' (map f ys')) @ c # u"
    from Nil(2) Cons have "c # r = f y @ ?rest" by (simp add: join_with_Cons)
    with start [of y ?rest] close show ?thesis by (metis insertCI list.sel(1) insertE singletonD)
  qed (use Nil in simp)
next
  case (Cons x xs)
  let ?rest = "\<lambda>ws v. (if ws = [] then [] else '','' @ join_with '','' (map f ws)) @ c # v"
  have ends: "ends_value (?rest ws v)" for ws v using close by auto
  show ?case
  proof (cases ys)
    case Nil
    with Cons.prems(2) have "c # u = f x @ ?rest xs r" by (simp add: join_with_Cons)
    with start [of x "?rest xs r"] close show ?thesis by (metis insertCI list.sel(1) insertE singletonD)
  next
    case ys: (Cons y ys')
    from Cons.prems(2) ys have "f x @ ?rest xs r = f y @ ?rest ys' u" by (simp add: join_with_Cons)
    then have xy: "x = y" and rest: "?rest xs r = ?rest ys' u"
      using Cons.prems(1) [of x "?rest xs r" y "?rest ys' u"] ends by auto
    have sep: "c \<noteq> CHR '',''" using close by auto
    show ?thesis
    proof (cases "xs = [] \<or> ys' = []")
      case True
      with rest sep have "xs = [] \<and> ys' = [] \<and> r = u" by (cases xs; cases ys') auto
      with xy ys show ?thesis by simp
    next
      case False
      with rest have "join_with '','' (map f xs) @ c # r = join_with '','' (map f ys') @ c # u" by simp
      then have "xs = ys' \<and> r = u"
        by (rule Cons.IH [rotated]) (rule Cons.prems(1), simp_all)
      with xy ys show ?thesis by simp
    qed
  qed
qed

text \<open>Unique readability.\<close>

lemma render_prefix:
  "render a @ r = render b @ u \<Longrightarrow> ends_value r \<Longrightarrow> ends_value u \<Longrightarrow> a = b \<and> r = u"
proof (induction a arbitrary: b r u)
  case JNull
  then have "b = JNull" using render_hd [of JNull r] render_hd [of b u] by metis
  with JNull show ?case by simp
next
  case (JBool x)
  with render_hd [of "JBool x" r] render_hd [of b u] obtain y where "b = JBool y" by metis
  with JBool show ?case by (auto split: if_splits)
next
  case (JNum n)
  then have "b \<noteq> JNull" "\<nexists>y. b = JBool y" "\<nexists>y. b = JStr y" "\<nexists>y. b = JArr y" "\<nexists>y. b = JObj y"
    using render_hd [of "JNum n" r] render_hd [of b u] by (metis json.distinct)+
  then obtain m where "b = JNum m" by (cases b) auto
  with JNum.prems have "int_text n @ r = int_text m @ u" by simp
  from int_text_prefix [OF this JNum.prems(2,3)] \<open>b = JNum m\<close> show ?case by simp
next
  case (JStr s)
  then obtain t where "b = JStr t"
    using render_hd [of "JStr s" r] render_hd [of b u] by metis
  with JStr.prems have "string_text s @ r = string_text t @ u" by simp
  from string_text_prefix [OF this] \<open>b = JStr t\<close> show ?case by simp
next
  case (JArr xs)
  then obtain ys where b: "b = JArr ys"
    using render_hd [of "JArr xs" r] render_hd [of b u] by metis
  have "xs = ys \<and> r = u"
  proof (rule join_prefix [of xs render "CHR '']''"])
    show "render x @ r \<noteq> [] \<and> hd (render x @ r) \<notin> {CHR '','', CHR '']'', CHR ''}''}" for x r
      using render_hd [of x r] by blast
  qed (use JArr b in \<open>auto simp: array_text_def\<close>)
  with b show ?case by simp
next
  case (JObj kvs)
  then obtain lws where b: "b = JObj lws"
    using render_hd [of "JObj kvs" r] render_hd [of b u] by metis
  let ?f = "\<lambda>kv. member_text (map_prod (\<lambda>k. k) render kv)"
  have "kvs = lws \<and> r = u"
  proof (rule join_prefix [of kvs ?f "CHR ''}''"])
    fix x y r u
    assume x: "x \<in> set kvs" and eq: "?f x @ r = ?f y @ u" and e: "ends_value r" "ends_value u"
    from eq have "fst x = fst y" "render (snd x) @ r = render (snd y) @ u"
      by (auto simp: member_text_def dest!: string_text_prefix)
    moreover from this(2) have "snd x = snd y \<and> r = u"
      using JObj.IH [of x "snd x"] x e by (auto simp: snds.simps)
    ultimately show "x = y \<and> r = u" by (simp add: prod_eq_iff)
  next
    show "?f x @ r \<noteq> [] \<and> hd (?f x @ r) \<notin> {CHR '','', CHR '']'', CHR ''}''}" for x r
      by (simp add: member_text_def string_text_def)
  qed (use JObj b in \<open>auto simp: object_text_def comp_def\<close>)
  with b show ?case by simp
qed

lemma canonicalJson_norm_iff: "canonicalJson a = canonicalJson b \<longleftrightarrow> norm_json a = norm_json b"
proof
  assume "canonicalJson a = canonicalJson b"
  then have "render (norm_json a) @ [] = render (norm_json b) @ []"
    by (simp add: canonicalJson_render)
  from render_prefix [OF this] show "norm_json a = norm_json b" by simp
qed (simp add: canonicalJson_render)

section \<open>Objects with fixed members\<close>

lemma norm_json_object:
  assumes "distinct (map fst kvs)" "map fst kvs = map fst lws"
  shows "norm_json (JObj kvs) = norm_json (JObj lws) \<longleftrightarrow>
    map (\<lambda>kv. norm_json (snd kv)) kvs = map (\<lambda>kv. norm_json (snd kv)) lws"
proof
  let ?n = "map (map_prod (\<lambda>k. k) norm_json)"
  have sorted: "map_of (sort_key fst (?n xs)) = map_of (?n xs)" if "distinct (map fst xs)" for xs
  proof (rule map_of_inject_set [THEN iffD2])
    show "distinct (map fst (?n xs))" using that by (simp add: comp_def)
    have "set (map fst (sort_key fst (?n xs))) = fst ` set xs" by force
    then show "distinct (map fst (sort_key fst (?n xs)))"
      using distinct_card [OF that] by (intro card_distinct) simp
    show "set (sort_key fst (?n xs)) = set (?n xs)" by simp
  qed
  assume "norm_json (JObj kvs) = norm_json (JObj lws)"
  then have "sort_key fst (?n kvs) = sort_key fst (?n lws)" by simp
  moreover have "distinct (map fst lws)" using assms by simp
  ultimately have "map_of (?n kvs) = map_of (?n lws)" using sorted assms(1) by metis
  moreover have "distinct (map fst (?n kvs))" "distinct (map fst (?n lws))"
    using assms by (simp_all add: comp_def)
  ultimately have "set (?n kvs) = set (?n lws)" by (metis map_of_inject_set)
  have "?n kvs = ?n lws"
  proof (rule nth_equalityI)
    show "length (?n kvs) = length (?n lws)" using map_eq_imp_length_eq [OF assms(2)] by simp
    fix i assume i: "i < length (?n kvs)"
    then have len: "i < length kvs" "i < length lws" using map_eq_imp_length_eq [OF assms(2)] by simp_all
    have key: "fst (kvs ! i) = fst (lws ! i)" using assms(2) len by (metis nth_map)
    have at: "map_of xs (fst (xs ! i)) = Some (snd (xs ! i))"
      if "distinct (map fst xs)" "i < length xs" for xs :: "(string \<times> json) list"
      using that by (simp only: map_of_eq_Some_iff prod.collapse nth_mem)
    have "map_of (?n kvs) (fst (?n kvs ! i)) = Some (snd (?n kvs ! i))"
      using at \<open>distinct (map fst (?n kvs))\<close> i by blast
    moreover have "map_of (?n lws) (fst (?n lws ! i)) = Some (snd (?n lws ! i))"
      using at [of "?n lws"] \<open>distinct (map fst (?n lws))\<close> len by simp
    ultimately show "?n kvs ! i = ?n lws ! i"
      using \<open>map_of (?n kvs) = map_of (?n lws)\<close> key len by (simp add: prod_eq_iff)
  qed
  then have "map snd (?n kvs) = map snd (?n lws)" by simp
  then show "map (\<lambda>kv. norm_json (snd kv)) kvs = map (\<lambda>kv. norm_json (snd kv)) lws"
    by (simp add: comp_def)
next
  assume eq: "map (\<lambda>kv. norm_json (snd kv)) kvs = map (\<lambda>kv. norm_json (snd kv)) lws"
  have "length kvs = length lws" using map_eq_imp_length_eq [OF assms(2)] .
  then have "map (map_prod (\<lambda>k. k) norm_json) kvs = map (map_prod (\<lambda>k. k) norm_json) lws"
    using assms(2) eq by (induction rule: list_induct2) (simp_all add: prod_eq_iff)
  then show "norm_json (JObj kvs) = norm_json (JObj lws)" by simp
qed

section \<open>Types that their JSON determines\<close>

named_theorems json_inj \<open>when two canonical members are equal\<close>

definition faithful :: "('a \<Rightarrow> json) \<Rightarrow> bool" where
  "faithful f \<longleftrightarrow> (\<forall>a b. norm_json (f a) = norm_json (f b) \<longrightarrow> a = b)"

lemma faithfulI: "(\<And>a b. norm_json (f a) = norm_json (f b) \<Longrightarrow> a = b) \<Longrightarrow> faithful f"
  by (simp add: faithful_def)

lemma faithful_iff: "faithful f \<Longrightarrow> norm_json (f a) = norm_json (f b) \<longleftrightarrow> a = b"
  by (auto simp: faithful_def)

lemma faithful_list:
  assumes "faithful f"
  shows "map (norm_json \<circ> f) xs = map (norm_json \<circ> f) ys \<longleftrightarrow> xs = ys"
proof -
  have "inj (norm_json \<circ> f)" using assms by (auto simp: faithful_def inj_def)
  then show ?thesis by (simp add: inj_map_eq_map)
qed

lemma faithful_JStr: "faithful JStr"
  by (simp add: faithful_def)

lemma json_strings_inj [json_inj]: "norm_json (json_strings xs) = norm_json (json_strings ys) \<longleftrightarrow> xs = ys"
  using faithful_list [OF faithful_JStr] by (simp add: json_strings_def)

lemma json_nullable_inj [json_inj]: "norm_json (json_nullable a) = norm_json (json_nullable b) \<longleftrightarrow> a = b"
  by (auto simp: json_nullable_def split: option.splits)

text \<open>An object with fixed members: its values, in order, determine the record.\<close>

lemma faithful_object:
  assumes "\<And>a. distinct (map fst (kvs a))" "\<And>a b. map fst (kvs a) = map fst (kvs b)"
    "\<And>a b. map (\<lambda>kv. norm_json (snd kv)) (kvs a) = map (\<lambda>kv. norm_json (snd kv)) (kvs b) \<Longrightarrow> a = b"
  shows "faithful (\<lambda>a. JObj (kvs a))"
proof (rule faithfulI)
  fix a b assume "norm_json (JObj (kvs a)) = norm_json (JObj (kvs b))"
  with norm_json_object [OF assms(1,2)] assms(3) show "a = b" by blast
qed

lemma canonicalJson_faithful: "faithful f \<Longrightarrow> canonicalJson (f a) = canonicalJson (f b) \<Longrightarrow> a = b"
  by (simp add: canonicalJson_norm_iff faithful_def)

text \<open>C23: Canonical JSON, and with it every digest of the program, identifies content: two values
  have the same canonical text exactly when they are equal up to the order of object members,
  and two values with the same digest and different content are a collision of the hash.\<close>

theorem canonicalJson_unambiguous:
  "(canonicalJson a = canonicalJson b \<longleftrightarrow> norm_json a = norm_json b)
   \<and> (canonicalSha256 H a = canonicalSha256 H b \<longleftrightarrow>
        norm_json a = norm_json b
        \<or> canonicalJson a \<noteq> canonicalJson b \<and> sha256hex H (canonicalJson a) = sha256hex H (canonicalJson b))"
  by (auto simp: canonicalSha256_def canonicalJson_norm_iff [symmetric])

end
