(* ===== verification/ReceiptRepository.thy ===== *)
theory ReceiptRepository
  imports ReceiptStore CanonicalFacts
begin

text \<open>
  The repository around a store: the copy in memory, the file, and what happens when the
  atomic replacement of the file fails before or after its rename. Mutations are queued, so
  a repository is a state machine whose steps are whole mutations.
\<close>

section \<open>The file and the copy in memory\<close>

datatype 'a store_file = F_absent | F_store "'a receipt_store" | F_unreadable error

text \<open>
  The outcomes of \<open>writeAtomic\<close>: done; an error before the rename; an error after it, with
  the content that the recovery then finds in the file.
\<close>

datatype 'a write_outcome = W_done | W_failed error | W_unsynced error "'a store_file"

record 'a repository =
  rp_store :: "'a receipt_store option"
  rp_file :: "'a store_file"
  rp_poisoned :: "error option"

text \<open>What one operation takes from its environment.\<close>

record 'a environment =
  en_now :: string
  en_newId :: string
  en_directory :: "error option"
  en_initial :: "'a write_outcome"
  en_write :: "'a write_outcome"

datatype 'a decision = Replay "'a reply" | Commit "'a receipt_store" "'a reply"

definition ENOENT :: error where "ENOENT = Error ''ENOENT''"

text \<open>The size of the file that \<open>writeAtomic\<close> makes of a store: indented, with a final newline.\<close>

definition fileBytes :: "'a store_module \<Rightarrow> 'a receipt_store \<Rightarrow> int" where
  "fileBytes M s = utf8_length (prettyJson (store_json M s) []) + 1"

text \<open>The size of the indented text, computed without the text.\<close>

definition indented_size :: "int \<Rightarrow> int list \<Rightarrow> int" where
  "indented_size n ts =
     (if ts = [] then 2
      else 4 + n + sum_list (map (\<lambda>t. n + 2 + t) ts) + 2 * (int (length ts) - 1))"

primrec pretty_size :: "json \<Rightarrow> int \<Rightarrow> int" where
  "pretty_size JNull = (\<lambda>n. 4)"
| "pretty_size (JBool b) = (\<lambda>n. if b then 4 else 5)"
| "pretty_size (JNum i) = (\<lambda>n. utf8_length (int_text i))"
| "pretty_size (JStr s) = (\<lambda>n. utf8_length (string_text s))"
| "pretty_size (JArr xs) = (\<lambda>n. indented_size n (map (\<lambda>f. f (n + 2)) (map pretty_size xs)))"
| "pretty_size (JObj kvs) = (\<lambda>n. indented_size n
     (map (\<lambda>kf. utf8_length (string_text (fst kf)) + 2 + snd kf (n + 2))
       (map (map_prod (\<lambda>k. k) pretty_size) kvs)))"

lemma utf8_length_literals [simp]:
  "utf8_length [] = 0" "code c < 128 \<Longrightarrow> utf8_length (c # s) = 1 + utf8_length s"
  by (simp_all add: utf8_length_def)

lemma utf8_length_join_lines:
  "utf8_length (join_with ('','' @ [CHR 0x0A]) ts) =
     sum_list (map utf8_length ts) + (if ts = [] then 0 else 2 * (int (length ts) - 1))"
proof (induction ts)
  case (Cons t ts)
  then show ?case
    by (cases ts) (simp_all add: utf8_length_append code_def algebra_simps)
qed simp

lemma utf8_length_indented:
  assumes "code l < 128" "code r < 128"
  shows "utf8_length (indented ind l r ts) = indented_size (utf8_length ind) (map utf8_length ts)"
  using assms
  by (simp add: indented_def indented_size_def utf8_length_append utf8_length_join_lines code_def comp_def
      del: append.simps) (simp add: utf8_length_append code_def add.assoc)

lemma pretty_size_correct: "utf8_length (prettyJson j ind) = pretty_size j (utf8_length ind)"
proof (induction j arbitrary: ind)
  case (JArr xs)
  then show ?case
    by (simp add: utf8_length_indented code_def comp_def utf8_length_append cong: map_cong)
next
  case (JObj kvs)
  have "utf8_length (prettyJson v (ind @ ''  '')) = pretty_size v (utf8_length ind + 2)"
    if "(k, v) \<in> set kvs" for k v
    using JObj [of "(k, v)" v] that by (simp add: snds.simps utf8_length_append code_def)
  then show ?case
    by (auto simp: utf8_length_indented code_def comp_def utf8_length_append intro!: arg_cong [where f = "indented_size _"])
qed (simp_all add: code_def)

lemma fileBytes_size [code]: "fileBytes M s = pretty_size (store_json M s) 0 + 1"
  by (simp add: fileBytes_def pretty_size_correct)

definition readStoreFile :: "'a store_module \<Rightarrow> 'a store_file \<Rightarrow> 'a receipt_store result" where
  "readStoreFile M f =
     (case f of
        F_absent \<Rightarrow> Inl ENOENT
      | F_unreadable e \<Rightarrow> Inl e
      | F_store s \<Rightarrow> guard (throw_if (md_maxBytes M < fileBytes M s) (store_error M ''too_large''))
                       (validateReceiptStore M s))"

section \<open>Persisting\<close>

definition poisonAfterCommittedWrite ::
  "'a store_module \<Rightarrow> 'a repository \<Rightarrow> error \<times> 'a repository" where
  "poisonAfterCommittedWrite M repo =
     (let p = (case rp_poisoned repo of
                 None \<Rightarrow> store_error M ''persistence_uncertain'' | Some e \<Rightarrow> e)
      in (p, repo\<lparr>rp_poisoned := Some p, rp_store := None\<rparr>))"

definition recoverCommittedWrite ::
  "'a store_module \<Rightarrow> 'a receipt_store \<Rightarrow> error \<Rightarrow> 'a repository \<Rightarrow> error \<times> 'a repository" where
  "recoverCommittedWrite M validated writeError repo =
     (case readStoreFile M (rp_file repo) of
        Inl e \<Rightarrow> poisonAfterCommittedWrite M repo
      | Inr recovered \<Rightarrow>
          if canonicalJson (store_json M recovered) \<noteq> canonicalJson (store_json M validated)
          then poisonAfterCommittedWrite M repo
          else (writeError, repo\<lparr>rp_store := Some recovered\<rparr>))"

definition persist ::
  "'a store_module \<Rightarrow> 'a write_outcome \<Rightarrow> 'a receipt_store \<Rightarrow> 'a repository \<Rightarrow>
   'a receipt_store result \<times> 'a repository" where
  "persist M w next repo =
     (case validateReceiptStore M next of
        Inl e \<Rightarrow> (Inl e, repo)
      | Inr validated \<Rightarrow>
          (case w of
             W_done \<Rightarrow> (Inr validated,
               repo\<lparr>rp_file := F_store validated, rp_store := Some validated\<rparr>)
           | W_failed e \<Rightarrow> (Inl e, repo)
           | W_unsynced e found \<Rightarrow>
               map_prod Inl (\<lambda>r. r) (recoverCommittedWrite M validated e (repo\<lparr>rp_file := found\<rparr>))))"

text \<open>
  The first load: an absent file becomes the empty store. The copy in memory is assigned
  before the empty store is written, and stays when that write fails.
\<close>

definition load ::
  "'a store_module \<Rightarrow> 'a environment \<Rightarrow> 'a repository \<Rightarrow> 'a receipt_store result \<times> 'a repository" where
  "load M env repo =
     (case en_directory env of
        Some e \<Rightarrow> (Inl e, repo)
      | None \<Rightarrow>
          (case readStoreFile M (rp_file repo) of
             Inr s \<Rightarrow> (Inr s, repo\<lparr>rp_store := Some s\<rparr>)
           | Inl e \<Rightarrow>
               if e \<noteq> ENOENT then (Inl e, repo)
               else persist M (en_initial env) (emptyReceiptStore M)
                      (repo\<lparr>rp_store := Some (emptyReceiptStore M)\<rparr>)))"

definition ensureInitialized ::
  "'a store_module \<Rightarrow> 'a environment \<Rightarrow> 'a repository \<Rightarrow> 'a receipt_store result \<times> 'a repository" where
  "ensureInitialized M env repo =
     (case rp_poisoned repo of
        Some e \<Rightarrow> (Inl e, repo)
      | None \<Rightarrow> (case rp_store repo of Some s \<Rightarrow> (Inr s, repo) | None \<Rightarrow> load M env repo))"

section \<open>One mutation\<close>

definition mutate ::
  "'a store_module \<Rightarrow> 'a environment \<Rightarrow> ('a receipt_store \<Rightarrow> 'a decision result) \<Rightarrow>
   'a repository \<Rightarrow> 'a reply result \<times> 'a repository" where
  "mutate M env decide repo =
     (case ensureInitialized M env repo of
        (Inl e, r) \<Rightarrow> (Inl e, r)
      | (Inr current, r) \<Rightarrow>
          (case decide current of
             Inl e \<Rightarrow> (Inl e, r)
           | Inr (Replay y) \<Rightarrow> (Inr y, r)
           | Inr (Commit next y) \<Rightarrow>
               (case persist M (en_write env) next r of
                  (Inl e, r') \<Rightarrow> (Inl e, r')
                | (Inr v, r') \<Rightarrow> (Inr y, r'))))"

definition new_repository :: "'a store_file \<Rightarrow> 'a repository" where
  "new_repository f = \<lparr>rp_store = None, rp_file = f, rp_poisoned = None\<rparr>"

text \<open>A read waits for the mutations before it and changes nothing but the first load.\<close>

definition afterMutations ::
  "'a store_module \<Rightarrow> 'a environment \<Rightarrow> ('a receipt_store \<Rightarrow> 'b result) \<Rightarrow> 'a repository \<Rightarrow>
   'b result \<times> 'a repository" where
  "afterMutations M env operation repo =
     (case ensureInitialized M env repo of (Inl e, r) \<Rightarrow> (Inl e, r) | (Inr s, r) \<Rightarrow> (operation s, r))"

section \<open>Facts on stores\<close>

lemma put_item_ids:
  "map key (put_item key items item) =
     (if key item \<in> set (map key items) then map key items else map key items @ [key item])"
proof (cases "key item \<in> set (map key items)")
  case True
  then have "list_ex (\<lambda>c. key c = key item) items" by (auto simp: list_ex_iff)
  with True show ?thesis by (auto simp: put_item_def)
next
  case False
  then have "\<not> list_ex (\<lambda>c. key c = key item) items" unfolding list_ex_iff by (metis image_eqI set_map)
  then show ?thesis using False unfolding put_item_def by (simp only: if_False map_append list.map)
qed

lemma put_item_find:
  "find (\<lambda>c. key c = k) (put_item key items item) =
     (if k = key item then Some item else find (\<lambda>c. key c = k) items)"
proof (cases "list_ex (\<lambda>c. key c = key item) items")
  case True
  have "find (\<lambda>c. key c = k) (map (\<lambda>c. if key c = key item then item else c) xs) =
      (if k = key item then (if list_ex (\<lambda>c. key c = k) xs then Some item else None)
       else find (\<lambda>c. key c = k) xs)" for xs
    by (induction xs) auto
  with True show ?thesis by (simp add: put_item_def)
next
  case False
  have "find p (xs @ [y]) = (case find p xs of None \<Rightarrow> if p y then Some y else None | Some x \<Rightarrow> Some x)"
    for p :: "'a \<Rightarrow> bool" and xs y
    by (induction xs) auto
  moreover have "find (\<lambda>c. key c = key item) items = None" using False by (auto simp: find_None_iff list_ex_iff)
  ultimately show ?thesis using False by (auto simp: put_item_def split: option.splits)
qed

lemma validateReceiptStore_Inr:
  "validateReceiptStore M v = Inr r \<Longrightarrow> r = v \<and> st_revision v = int (length (st_operations v))
     \<and> distinct (map (md_id M) (st_items v)) \<and> length (st_operations v) \<le> md_maxOperations M
     \<and> st_version v = md_version M \<and> md_storeLimit M (store_json M v) v = None
     \<and> length (st_items v) \<le> md_maxItems M \<and> md_itemsRule M (st_items v) = None"
  by (auto simp: validateReceiptStore_def itemCheck_def each_indexed_None never_seen_distinct [symmetric])

lemma validateHistory_ids:
  "validateHistory M ids opIds p n seen cs = Inr r \<Longrightarrow>
   distinct (map rc_id cs) \<and> set (map rc_id cs) \<inter> opIds = {}"
  by (induction cs arbitrary: opIds p n seen) fastforce+

lemma valid_operations_distinct:
  "validateReceiptStore M v = Inr r \<Longrightarrow> distinct (map rc_id (st_operations v))"
  by (auto simp: validateReceiptStore_def dest!: validateHistory_ids)

lemma nextStore_Inr:
  assumes "nextStore M s i action digest at x = Inr s'"
  shows "validateReceiptStore M s' = Inr s'" "st_revision s' = st_revision s + 1"
    "st_items s' = put_item (md_id M) (st_items s) x"
    "st_operations s' = st_operations s @ [\<lparr>rc_id = i, rc_action = action, rc_requestDigest = digest,
       rc_at = at, rc_storeRevision = st_revision s + 1, rc_item = x\<rparr>]"
proof -
  let ?n = "\<lparr>st_version = md_version M, st_revision = st_revision s + 1,
     st_items = put_item (md_id M) (st_items s) x,
     st_operations = st_operations s @ [\<lparr>rc_id = i, rc_action = action, rc_requestDigest = digest,
       rc_at = at, rc_storeRevision = st_revision s + 1, rc_item = x\<rparr>]\<rparr>"
  from assms have v: "validateReceiptStore M ?n = Inr s'" by (simp add: nextStore_def Let_def)
  then have "s' = ?n" by (auto dest: validateReceiptStore_Inr)
  with v show "validateReceiptStore M s' = Inr s'" "st_revision s' = st_revision s + 1"
    "st_items s' = put_item (md_id M) (st_items s) x"
    "st_operations s' = st_operations s @ [\<lparr>rc_id = i, rc_action = action, rc_requestDigest = digest,
       rc_at = at, rc_storeRevision = st_revision s + 1, rc_item = x\<rparr>]"
    by simp_all
qed

lemma readStoreFile_Inr:
  "readStoreFile M f = Inr s \<Longrightarrow> f = F_store s \<and> validateReceiptStore M s = Inr s"
  by (auto simp: readStoreFile_def split: store_file.splits dest: validateReceiptStore_Inr)

section \<open>The contract of a repository\<close>

definition reply_of :: "'a receipt \<Rightarrow> 'a reply" where
  "reply_of c = \<lparr>ry_replayed = True, ry_storeRevision = rc_storeRevision c, ry_item = rc_item c\<rparr>"

text \<open>Unless it is poisoned, the copy in memory is valid and is the file (or the empty store).\<close>

definition consistent :: "'a store_module \<Rightarrow> 'a repository \<Rightarrow> bool" where
  "consistent M repo \<longleftrightarrow>
     (case rp_store repo of
        None \<Rightarrow> True
      | Some s \<Rightarrow> validateReceiptStore M s = Inr s \<and>
          (rp_file repo = F_store s
             \<or> readStoreFile M (rp_file repo) = Inl ENOENT \<and> s = emptyReceiptStore M))
     \<and> (rp_poisoned repo \<noteq> None \<longrightarrow> rp_store repo = None)"

text \<open>
  The store that a repository stands for: the copy in memory, or what the next operation
  loads. A process opens a file; then whole mutations follow one another.
\<close>

definition current_store :: "'a store_module \<Rightarrow> 'a repository \<Rightarrow> 'a receipt_store result" where
  "current_store M repo =
     (case rp_store repo of
        Some s \<Rightarrow> Inr s
      | None \<Rightarrow>
          (case readStoreFile M (rp_file repo) of
             Inr s \<Rightarrow> Inr s
           | Inl e \<Rightarrow> if e = ENOENT then Inr (emptyReceiptStore M) else Inl e))"

definition opened :: "'a repository \<Rightarrow> bool" where
  "opened repo \<longleftrightarrow> (\<exists>f. repo = new_repository f)"

definition mutates ::
  "'a store_module \<Rightarrow> ('op \<Rightarrow> 'a environment \<Rightarrow> 'a receipt_store \<Rightarrow> 'a decision result) \<Rightarrow>
   'a repository \<Rightarrow> 'a repository \<Rightarrow> bool" where
  "mutates M decide repo repo' \<longleftrightarrow> (\<exists>op env res. mutate M env (decide op env) repo = (res, repo'))"

definition commits :: "'a receipt_store \<Rightarrow> 'a receipt_store \<Rightarrow> 'a receipt \<Rightarrow> bool" where
  "commits s t c \<longleftrightarrow> st_operations t = st_operations s @ [c] \<and> rc_storeRevision c = st_revision s + 1
     \<and> st_revision t = st_revision s + 1"

text \<open>Receipts are only appended.\<close>

definition extends :: "'a receipt_store \<Rightarrow> 'a receipt_store \<Rightarrow> bool" where
  "extends s t \<longleftrightarrow> (\<exists>cs. st_operations t = st_operations s @ cs)"

lemma extends_refl [simp]: "extends s s"
  by (simp add: extends_def)

lemma extends_trans: "extends s t \<Longrightarrow> extends t u \<Longrightarrow> extends s u"
  by (auto simp: extends_def)

locale receipt_repository =
  fixes M :: "'a store_module"
    and identity :: "'op \<Rightarrow> string \<times> string \<times> string"
    and fresh :: "'op \<Rightarrow> 'a environment \<Rightarrow> 'a receipt_store \<Rightarrow> 'a decision result"
    and decide :: "'op \<Rightarrow> 'a environment \<Rightarrow> 'a receipt_store \<Rightarrow> 'a decision result"
  assumes empty_valid: "validateReceiptStore M (emptyReceiptStore M) = Inr (emptyReceiptStore M)"
    and replay_first: "decide op env s =
      (case identity op of (i, action, digest) \<Rightarrow>
        attempt (operationReplay M s i action digest) (\<lambda>replay.
          case replay of Some y \<Rightarrow> Inr (Replay y) | None \<Rightarrow> fresh op env s))"
    and fresh_commits: "fresh op env s = Inr z \<Longrightarrow> identity op = (i, action, digest) \<Longrightarrow>
      \<exists>x at next. nextStore M s i action digest at x = Inr next \<and>
        z = Commit next \<lparr>ry_replayed = False, ry_storeRevision = st_revision s + 1, ry_item = x\<rparr>"
begin

lemma decide_replay:
  assumes "c \<in> set (st_operations s)" "distinct (map rc_id (st_operations s))"
    "identity op = (rc_id c, rc_action c, rc_requestDigest c)"
  shows "decide op env s = Inr (Replay (reply_of c))"
proof -
  from assms(1) obtain i where "i < length (st_operations s)" "st_operations s ! i = c"
    by (auto simp: in_set_conv_nth)
  with assms(2) have "find (\<lambda>x. rc_id x = rc_id c) (st_operations s) = Some c"
    by (metis find_key_nth)
  with assms(3) show ?thesis
    by (simp add: replay_first operationReplay_def reply_of_def)
qed

lemma decide_conflict:
  assumes "c \<in> set (st_operations s)" "distinct (map rc_id (st_operations s))"
    "identity op = (rc_id c, action, digest)" "(action, digest) \<noteq> (rc_action c, rc_requestDigest c)"
  shows "decide op env s = Inl (store_error M ''operation_conflict'')"
proof -
  from assms(1) obtain i where "i < length (st_operations s)" "st_operations s ! i = c"
    by (auto simp: in_set_conv_nth)
  with assms(2) have "find (\<lambda>x. rc_id x = rc_id c) (st_operations s) = Some c"
    by (metis find_key_nth)
  with assms(3,4) show ?thesis
    by (auto simp: replay_first operationReplay_def throw_if_def)
qed

lemma decide_commit:
  assumes "decide op env s = Inr (Commit next y)" "identity op = (i, action, digest)"
  obtains x at where "nextStore M s i action digest at x = Inr next" "i \<notin> set (map rc_id (st_operations s))"
    "y = \<lparr>ry_replayed = False, ry_storeRevision = st_revision s + 1, ry_item = x\<rparr>"
proof -
  from assms have "operationReplay M s i action digest = Inr None" and f: "fresh op env s = Inr (Commit next y)"
    by (auto simp: replay_first split: option.splits)
  then have "i \<notin> set (map rc_id (st_operations s))"
    by (auto simp: operationReplay_def find_None_iff split: option.splits)
  with fresh_commits [OF f assms(2)] that show thesis by auto
qed

lemma decide_commit_extends:
  "decide op env s = Inr (Commit next y) \<Longrightarrow> extends s next \<and> validateReceiptStore M next = Inr next"
  by (cases "identity op")
    (auto elim!: decide_commit simp: extends_def nextStore_Inr dest: nextStore_Inr(1))

text \<open>Persisting and loading keep the repository consistent.\<close>

lemma persist_consistent:
  assumes "consistent M repo" "rp_poisoned repo = None" "persist M w next repo = (res, repo')"
  shows "consistent M repo'"
proof (cases "validateReceiptStore M next")
  case (Inl e)
  with assms show ?thesis by (simp add: persist_def)
next
  case (Inr v)
  then have v: "v = next" by (auto dest: validateReceiptStore_Inr)
  show ?thesis
  proof (cases w)
    case W_done
    with Inr v assms show ?thesis by (auto simp: persist_def consistent_def split: option.splits)
  next
    case (W_failed e)
    with Inr assms show ?thesis by (simp add: persist_def)
  next
    case (W_unsynced e found)
    from W_unsynced Inr assms show ?thesis
      by (auto simp: persist_def recoverCommittedWrite_def poisonAfterCommittedWrite_def consistent_def
          Let_def dest: readStoreFile_Inr split: sum.splits if_splits option.splits)
  qed
qed

lemma persist_Inr:
  assumes "persist M w next repo = (Inr v, repo')"
  shows "w = W_done \<and> v = next \<and> validateReceiptStore M next = Inr next
    \<and> repo' = repo\<lparr>rp_file := F_store next, rp_store := Some next\<rparr>"
  using assms
  by (auto simp: persist_def map_prod_def split: sum.splits write_outcome.splits prod.splits
      dest: validateReceiptStore_Inr)

lemma ensureInitialized_consistent:
  assumes "consistent M repo" "ensureInitialized M env repo = (res, repo')"
  shows "consistent M repo' \<and> (\<forall>s. res = Inr s \<longrightarrow> rp_store repo' = Some s \<and> rp_poisoned repo' = None)"
proof (cases "rp_poisoned repo")
  case (Some e)
  with assms show ?thesis by (auto simp: ensureInitialized_def)
next
  case None
  show ?thesis
  proof (cases "rp_store repo")
    case (Some s)
    with None assms show ?thesis by (auto simp: ensureInitialized_def)
  next
    case unloaded: None
    let ?w = "repo\<lparr>rp_store := Some (emptyReceiptStore M)\<rparr>"
    show ?thesis
    proof (cases "en_directory env = None \<and> readStoreFile M (rp_file repo) = Inl ENOENT")
      case True
      with None unloaded assms have p: "persist M (en_initial env) (emptyReceiptStore M) ?w = (res, repo')"
        by (simp add: ensureInitialized_def load_def)
      have "consistent M ?w" using True None empty_valid by (simp add: consistent_def)
      then have "consistent M repo'" using persist_consistent [of ?w] p None by simp
      moreover have "rp_store repo' = Some s \<and> rp_poisoned repo' = None" if "res = Inr s" for s
        using persist_Inr [of "en_initial env" "emptyReceiptStore M" ?w s repo'] p that None by simp
      ultimately show ?thesis by blast
    next
      case False
      show ?thesis
      proof (cases "readStoreFile M (rp_file repo)")
        case (Inl e)
        with False None unloaded assms show ?thesis
          by (auto simp: ensureInitialized_def load_def split: option.splits if_splits)
      next
        case (Inr s)
        with readStoreFile_Inr [OF this] None unloaded assms show ?thesis
          by (auto simp: ensureInitialized_def load_def consistent_def split: option.splits)
      qed
    qed
  qed
qed

text \<open>Every mutation keeps the repository consistent; a poisoned one answers with its error.\<close>

lemma mutate_poisoned:
  "rp_poisoned repo = Some e \<Longrightarrow> mutate M env d repo = (Inl e, repo)"
  by (simp add: mutate_def ensureInitialized_def)

lemma mutate_consistent:
  assumes "consistent M repo" "mutate M env d repo = (res, repo')"
  shows "consistent M repo'"
proof -
  obtain r1 repo1 where init: "ensureInitialized M env repo = (r1, repo1)" by fastforce
  note ok = ensureInitialized_consistent [OF assms(1) init]
  show ?thesis
  proof (cases r1)
    case (Inl e)
    with init assms(2) ok show ?thesis by (simp add: mutate_def)
  next
    case (Inr s)
    show ?thesis
    proof (cases "\<exists>next y. d s = Inr (Commit next y)")
      case True
      then obtain t y where d: "d s = Inr (Commit t y)" by blast
      obtain r2 repo2 where p: "persist M (en_write env) t repo1 = (r2, repo2)" by fastforce
      with d Inr init assms(2) have "repo' = repo2" by (auto simp: mutate_def split: sum.splits)
      with persist_consistent [OF _ _ p] ok Inr show ?thesis by simp
    next
      case False
      with Inr init assms(2) ok show ?thesis
        by (auto simp: mutate_def split: sum.splits decision.splits)
    qed
  qed
qed

lemma opened_consistent: "opened repo \<Longrightarrow> consistent M repo"
  by (auto simp: opened_def new_repository_def consistent_def)

lemma mutates_consistent: "consistent M repo \<Longrightarrow> mutates M decide repo repo' \<Longrightarrow> consistent M repo'"
  by (auto simp: mutates_def intro: mutate_consistent)

end

sublocale receipt_repository \<subseteq> machine opened "mutates M decide" "consistent M"
  by unfold_locales (fact opened_consistent, fact mutates_consistent)

section \<open>The JSON of a store\<close>

lemma receipt_json_faithful:
  assumes "faithful (md_json M)" "md_noun M \<noteq> ''storeRevision''"
  shows "faithful (receipt_json M)"
proof -
  have inner: "norm_json (JObj [(''storeRevision'', JNum i), (md_noun M, md_json M x)])
      = norm_json (JObj [(''storeRevision'', JNum j), (md_noun M, md_json M y)]) \<longleftrightarrow> i = j \<and> x = y" for i j x y
    using assms by (subst norm_json_object) (auto simp: faithful_iff [OF assms(1)])
  show ?thesis
    unfolding receipt_json_def
    by (rule faithful_object)
      (auto simp del: norm_json.simps(6) simp: inner intro: receipt.equality)
qed

lemma store_json_faithful:
  assumes "faithful (md_json M)" "md_noun M @ ''s'' \<notin> {''version'', ''revision'', ''operations''}"
    "md_noun M \<noteq> ''storeRevision''"
  shows "faithful (store_json M)"
proof -
  note receipts = faithful_list [OF receipt_json_faithful [OF assms(1,3)]]
  show ?thesis
    unfolding store_json_def
    using assms(2)
    by (intro faithful_object)
      (auto simp: receipts faithful_list [OF assms(1)] intro: receipt_store.equality)
qed

section \<open>What a mutation does to the stored receipts\<close>

text \<open>
  A committed write whose directory could not be synchronised is recovered by comparing the
  canonical texts of two stores: the comparison decides equality when the items' JSON is
  faithful.
\<close>

definition receipt_of :: "string \<times> string \<times> string \<Rightarrow> 'a receipt \<Rightarrow> bool" where
  "receipt_of idn c \<longleftrightarrow> idn = (rc_id c, rc_action c, rc_requestDigest c)"

locale durable_repository = receipt_repository M identity fresh decide
  for M :: "'a store_module"
    and identity :: "'op \<Rightarrow> string \<times> string \<times> string"
    and fresh :: "'op \<Rightarrow> 'a environment \<Rightarrow> 'a receipt_store \<Rightarrow> 'a decision result"
    and decide :: "'op \<Rightarrow> 'a environment \<Rightarrow> 'a receipt_store \<Rightarrow> 'a decision result" +
  assumes json_faithful: "validateReceiptStore M a = Inr a \<Longrightarrow> validateReceiptStore M b = Inr b \<Longrightarrow>
      canonicalJson (store_json M a) = canonicalJson (store_json M b) \<Longrightarrow> a = b"
begin

lemma current_valid:
  assumes "consistent M repo" "current_store M repo = Inr s"
  shows "validateReceiptStore M s = Inr s"
  using assms empty_valid
  by (auto simp: consistent_def current_store_def split: option.splits sum.splits if_splits
      dest: readStoreFile_Inr)

lemma persist_current:
  assumes "validateReceiptStore M t = Inr t" "persist M w t repo = (res, repo')"
    "rp_poisoned repo' = None"
  shows "(w = W_done \<and> res = Inr t \<or> (\<exists>e f. w = W_unsynced e f \<and> res = Inl e)) \<and> rp_store repo' = Some t
    \<or> (\<exists>e. res = Inl e) \<and> repo' = repo"
proof (cases w)
  case (W_unsynced e found)
  show ?thesis
  proof (cases "readStoreFile M found")
    case (Inr r)
    with W_unsynced assms json_faithful [OF _ assms(1)] readStoreFile_Inr [OF Inr] show ?thesis
      by (auto simp: persist_def recoverCommittedWrite_def poisonAfterCommittedWrite_def Let_def
          split: if_splits)
  qed (use W_unsynced assms in
    \<open>auto simp: persist_def recoverCommittedWrite_def poisonAfterCommittedWrite_def Let_def\<close>)
qed (use assms in \<open>auto simp: persist_def\<close>)

lemma ensure_current:
  assumes "consistent M repo" "ensureInitialized M env repo = (res, repo')" "rp_poisoned repo' = None"
  shows "current_store M repo' = current_store M repo \<and> (\<forall>s. res = Inr s \<longrightarrow> current_store M repo = Inr s)"
proof (cases "rp_poisoned repo \<noteq> None \<or> rp_store repo \<noteq> None \<or> en_directory env \<noteq> None
    \<or> readStoreFile M (rp_file repo) \<noteq> Inl ENOENT")
  case True
  with assms show ?thesis
    by (auto simp: ensureInitialized_def load_def current_store_def split: option.splits sum.splits if_splits)
next
  case False
  let ?e = "emptyReceiptStore M"
  from False assms(2) have p: "persist M (en_initial env) ?e (repo\<lparr>rp_store := Some ?e\<rparr>) = (res, repo')"
    by (auto simp: ensureInitialized_def load_def)
  have "current_store M repo = Inr ?e" using False by (simp add: current_store_def)
  moreover have "rp_store repo' = Some ?e" "\<forall>s. res = Inr s \<longrightarrow> s = ?e"
    using persist_current [OF empty_valid p assms(3)] by auto
  ultimately show ?thesis by (simp add: current_store_def)
qed

text \<open>
  The outcome of a mutation that does not poison the repository: the store is unchanged and
  the answer is an error or the replay of a receipt; or one new receipt of this operation was
  appended, and the answer is its result or the error of an unsynchronised write.
\<close>

lemma mutate_outcome:
  assumes "consistent M repo" "mutate M env (decide op env) repo = (res, repo')" "rp_poisoned repo' = None"
  shows "current_store M repo' = current_store M repo \<and>
      (\<forall>y. res = Inr y \<longrightarrow> (\<exists>s c. current_store M repo = Inr s \<and> c \<in> set (st_operations s) \<and>
         receipt_of (identity op) c \<and> y = reply_of c))
    \<or> (\<exists>s t c. current_store M repo = Inr s \<and> current_store M repo' = Inr t \<and> commits s t c \<and>
         rc_id c \<notin> set (map rc_id (st_operations s)) \<and> receipt_of (identity op) c \<and>
         decide op env s = Inr (Commit t ((reply_of c)\<lparr>ry_replayed := False\<rparr>)) \<and>
         (res = Inr ((reply_of c)\<lparr>ry_replayed := False\<rparr>) \<and> rp_file repo' = F_store t
          \<or> (\<exists>e f. res = Inl e \<and> en_write env = W_unsynced e f)))"
    (is "?same \<or> ?new")
proof -
  obtain r1 repo1 where init: "ensureInitialized M env repo = (r1, repo1)" by fastforce
  note ok = ensureInitialized_consistent [OF assms(1) init]
  show ?thesis
  proof (cases r1)
    case (Inl e)
    with init assms have "res = Inl e" "repo' = repo1" by (auto simp: mutate_def)
    with ensure_current [OF assms(1) init] assms(3) show ?thesis by simp
  next
    case (Inr s)
    with ok have r1: "rp_store repo1 = Some s" "rp_poisoned repo1 = None" "consistent M repo1" by auto
    with Inr ensure_current [OF assms(1) init] have cur: "current_store M repo = Inr s" "current_store M repo1 = Inr s"
      by simp_all
    consider (err) e where "decide op env s = Inl e" | (rep) y where "decide op env s = Inr (Replay y)"
      | (com) t y where "decide op env s = Inr (Commit t y)"
      by (metis decision.exhaust sum.exhaust)
    then show ?thesis
    proof cases
      case err
      with init Inr assms(2) cur show ?thesis by (auto simp: mutate_def)
    next
      case rep
      obtain i action digest where idn: "identity op = (i, action, digest)" by (metis prod_cases3)
      from rep idn obtain z where "operationReplay M s i action digest = Inr z" "case z of Some y' \<Rightarrow> y' = y | None \<Rightarrow> fresh op env s = Inr (Replay y)"
        by (auto simp: replay_first split: option.splits)
      with fresh_commits [OF _ idn] have "operationReplay M s i action digest = Inr (Some y)"
        by (fastforce split: option.splits)
      then have "\<exists>c \<in> set (st_operations s). receipt_of (identity op) c \<and> y = reply_of c"
        using idn by (auto simp: operationReplay_def receipt_of_def reply_of_def split: option.splits dest!: find_SomeD)
      with rep init Inr assms(2) cur show ?thesis by (auto simp: mutate_def)
    next
      case com
      obtain i action digest where idn: "identity op = (i, action, digest)" by (metis prod_cases3)
      from com idn obtain x at where n: "nextStore M s i action digest at x = Inr t"
        and i: "i \<notin> set (map rc_id (st_operations s))"
        and y: "y = \<lparr>ry_replayed = False, ry_storeRevision = st_revision s + 1, ry_item = x\<rparr>"
        by (rule decide_commit)
      let ?c = "\<lparr>rc_id = i, rc_action = action, rc_requestDigest = digest, rc_at = at,
          rc_storeRevision = st_revision s + 1, rc_item = x\<rparr>"
      have c: "commits s t ?c" "receipt_of (identity op) ?c" "y = (reply_of ?c)\<lparr>ry_replayed := False\<rparr>"
        "rc_id ?c \<notin> set (map rc_id (st_operations s))"
        using nextStore_Inr [OF n] idn y i by (simp_all add: commits_def receipt_of_def reply_of_def)
      obtain r2 repo2 where p: "persist M (en_write env) t repo1 = (r2, repo2)" by fastforce
      with com Inr init assms(2) have res: "repo' = repo2" "res = (case r2 of Inl e \<Rightarrow> Inl e | Inr v \<Rightarrow> Inr y)"
        by (auto simp: mutate_def split: sum.splits)
      have "rp_poisoned repo2 = None" using assms(3) res(1) by simp
      from persist_current [OF nextStore_Inr(1) [OF n] p this]
      consider "en_write env = W_done" "r2 = Inr t" "rp_store repo2 = Some t"
        | e f where "en_write env = W_unsynced e f" "r2 = Inl e" "rp_store repo2 = Some t"
        | e where "r2 = Inl e" "repo2 = repo1"
        by blast
      then show ?thesis
      proof cases
        case 1
        with persist_Inr [of "en_write env" t repo1 t repo2] p have "rp_file repo2 = F_store t" by simp
        with 1 res c cur com have ?new by (auto simp: current_store_def)
        then show ?thesis ..
      next
        case 2
        with res c cur com have ?new by (auto simp: current_store_def)
        then show ?thesis ..
      next
        case 3
        with res cur show ?thesis by simp
      qed
    qed
  qed
qed

lemma mutates_grows:
  assumes "consistent M repo" "mutates M decide repo repo'" "rp_poisoned repo' = None"
    "current_store M repo = Inr s"
  shows "\<exists>t. current_store M repo' = Inr t \<and> extends s t"
proof -
  from assms(2) obtain op env res where "mutate M env (decide op env) repo = (res, repo')"
    by (auto simp: mutates_def)
  from mutate_outcome [OF assms(1) this assms(3)] assms(4) show ?thesis
    by (auto simp: commits_def extends_def)
qed

text \<open>Along a sequence of mutations the receipts grow and the copy in memory stays.\<close>

lemma mutates_unpoisoned: "mutates M decide repo repo' \<Longrightarrow> rp_poisoned repo' = None \<Longrightarrow> rp_poisoned repo = None"
  by (cases "rp_poisoned repo") (auto simp: mutates_def mutate_poisoned)

lemma mutates_loaded:
  assumes "rp_store repo = Some s" "mutates M decide repo repo'" "rp_poisoned repo' = None"
  shows "rp_store repo' \<noteq> None"
proof -
  from assms(2) obtain op env res where m: "mutate M env (decide op env) repo = (res, repo')"
    by (auto simp: mutates_def)
  have i: "ensureInitialized M env repo = (Inr s, repo)"
    using mutates_unpoisoned [OF assms(2,3)] assms(1) by (simp add: ensureInitialized_def)
  show ?thesis
  proof (cases "\<exists>t y. decide op env s = Inr (Commit t y)")
    case True
    then obtain t y where d: "decide op env s = Inr (Commit t y)" by blast
    then have v: "validateReceiptStore M t = Inr t" using decide_commit_extends by blast
    obtain r where p: "persist M (en_write env) t repo = (r, repo')"
      using d i m by (auto simp: mutate_def split: prod.splits sum.splits)
    from persist_current [OF v p assms(3)] assms(1) show ?thesis by auto
  next
    case False
    with i m assms(1) show ?thesis by (auto simp: mutate_def split: sum.splits decision.splits)
  qed
qed

lemma history_grows:
  assumes "(mutates M decide)\<^sup>*\<^sup>* repo repo'" "consistent M repo" "rp_store repo = Some s" "rp_poisoned repo' = None"
  shows "consistent M repo' \<and> (\<exists>t. rp_store repo' = Some t \<and> extends s t)"
  using assms(1,4)
proof (induction rule: rtranclp_induct)
  case base
  with assms(2,3) show ?case by simp
next
  case (step repo1 repo2)
  then obtain t where t: "consistent M repo1" "rp_store repo1 = Some t" "extends s t"
    using step.IH [OF mutates_unpoisoned [OF step.hyps(2) step.prems]] by blast
  obtain u where "rp_store repo2 = Some u" using mutates_loaded [OF t(2) step.hyps(2) step.prems] by blast
  with mutates_grows [OF t(1) step.hyps(2) step.prems, of t] t show ?case
    using mutates_consistent [OF t(1) step.hyps(2)] by (auto simp: current_store_def intro: extends_trans)
qed

lemma mutate_Inr_loaded:
  assumes "consistent M repo" "mutate M env (decide op env) repo = (Inr y, repo')"
  shows "rp_poisoned repo' = None \<and> (\<exists>t c. rp_store repo' = Some t \<and> c \<in> set (st_operations t)
    \<and> receipt_of (identity op) c \<and> y\<lparr>ry_replayed := True\<rparr> = reply_of c)"
proof -
  obtain r1 repo1 where init: "ensureInitialized M env repo = (r1, repo1)" by fastforce
  with assms(2) obtain s where s: "r1 = Inr s" by (cases r1) (auto simp: mutate_def)
  with ensureInitialized_consistent [OF assms(1) init]
  have r1: "rp_store repo1 = Some s" "rp_poisoned repo1 = None" by auto
  have "rp_store repo' \<noteq> None \<and> rp_poisoned repo' = None"
    using init s assms(2) r1
    by (auto simp: mutate_def split: sum.splits decision.splits prod.splits dest!: persist_Inr)
  then obtain t where t: "rp_store repo' = Some t" "rp_poisoned repo' = None" by blast
  then have cur: "current_store M repo' = Inr t" by (simp add: current_store_def)
  from mutate_outcome [OF assms t(2)] cur
  have "\<exists>c. c \<in> set (st_operations t) \<and> receipt_of (identity op) c \<and> y\<lparr>ry_replayed := True\<rparr> = reply_of c"
    by (auto simp: commits_def reply_of_def)
  with t show ?thesis by blast
qed

lemma replay_later:
  assumes "consistent M repo" "mutate M env (decide op env) repo = (Inr y, repo1)"
    "(mutates M decide)\<^sup>*\<^sup>* repo1 repo2" "rp_poisoned repo2 = None" "identity op' = identity op"
  shows "mutate M env' (decide op' env') repo2 = (Inr (y\<lparr>ry_replayed := True\<rparr>), repo2)"
proof -
  from mutate_Inr_loaded [OF assms(1,2)] obtain s c where s: "rp_store repo1 = Some s"
    "c \<in> set (st_operations s)" "receipt_of (identity op) c" "y\<lparr>ry_replayed := True\<rparr> = reply_of c" by blast
  from history_grows [OF assms(3) mutate_consistent [OF assms(1,2)] s(1) assms(4)]
  obtain t where t: "consistent M repo2" "rp_store repo2 = Some t" "extends s t" by blast
  then have "validateReceiptStore M t = Inr t" by (simp add: consistent_def)
  then have "distinct (map rc_id (st_operations t))" by (rule valid_operations_distinct)
  moreover have "c \<in> set (st_operations t)" using s(2) t(3) by (auto simp: extends_def)
  ultimately have "decide op' env' t = Inr (Replay (reply_of c))"
    using s(3) assms(5) by (intro decide_replay) (simp_all add: receipt_of_def)
  with t(2) assms(4) s(4) show ?thesis by (simp add: mutate_def ensureInitialized_def)
qed

lemma conflict_later:
  assumes "consistent M repo" "mutate M env (decide op env) repo = (Inr y, repo1)"
    "(mutates M decide)\<^sup>*\<^sup>* repo1 repo2" "rp_poisoned repo2 = None"
    "fst (identity op') = fst (identity op)" "identity op' \<noteq> identity op"
  shows "mutate M env' (decide op' env') repo2 = (Inl (store_error M ''operation_conflict''), repo2)"
proof -
  from mutate_Inr_loaded [OF assms(1,2)] obtain s c where s: "rp_store repo1 = Some s"
    "c \<in> set (st_operations s)" "receipt_of (identity op) c" by blast
  from history_grows [OF assms(3) mutate_consistent [OF assms(1,2)] s(1) assms(4)]
  obtain t where t: "consistent M repo2" "rp_store repo2 = Some t" "extends s t" by blast
  then have d: "distinct (map rc_id (st_operations t))"
    by (intro valid_operations_distinct [where M = M]) (simp add: consistent_def)
  have c: "c \<in> set (st_operations t)" using s(2) t(3) by (auto simp: extends_def)
  obtain i action digest where o': "identity op' = (i, action, digest)" by (metis prod_cases3)
  have "decide op' env' t = Inl (store_error M ''operation_conflict'')"
    using s(3) assms(5,6) o' by (intro decide_conflict [OF c d]) (auto simp: receipt_of_def)
  with t(2) assms(4) show ?thesis by (simp add: mutate_def ensureInitialized_def)
qed

end

text \<open>
  A new process reads the file: it finds the committed store again exactly when the indented
  text of the store, which is what is written, is within the limit on the file.
\<close>

lemma reopened_store:
  assumes "rp_file repo = F_store s" "validateReceiptStore M s = Inr s"
  shows "current_store M (new_repository (rp_file repo)) =
    (if fileBytes M s \<le> md_maxBytes M then Inr s else Inl (store_error M ''too_large''))"
  using assms
  by (auto simp: current_store_def new_repository_def readStoreFile_def ENOENT_def store_error_def throw_if_def)

end
