(* ===== verification/RunJson.thy ===== *)
theory RunJson
  imports CanonicalFacts DeliveryRun
begin

text \<open>
  The JSON of a delivery run: the object that delivery-run.js builds, as the store writes it,
  measures it and compares it. The JSON determines the run.
\<close>

section \<open>Texts of the enumerations\<close>

fun condition_text :: "run_condition \<Rightarrow> string" where
  "condition_text C_preparing = ''preparing''"
| "condition_text C_active = ''active''"
| "condition_text C_awaiting_verification = ''awaiting_verification''"
| "condition_text C_blocked = ''blocked''"
| "condition_text C_off_course = ''off_course''"
| "condition_text C_reconcile_required = ''reconcile_required''"
| "condition_text C_aborted = ''aborted''"
| "condition_text C_verified = ''verified''"

fun level_text :: "delivery_level \<Rightarrow> string" where
  "level_text L_planned = ''planned''"
| "level_text L_implemented_locally = ''implemented_locally''"
| "level_text L_verified_locally = ''verified_locally''"

fun task_state_text :: "task_state \<Rightarrow> string" where
  "task_state_text T_pending = ''pending''"
| "task_state_text T_mission_linked = ''mission_linked''"
| "task_state_text T_implementation_captured = ''implementation_captured''"
| "task_state_text T_verified = ''verified''"
| "task_state_text T_failed = ''failed''"
| "task_state_text T_off_course = ''off_course''"
| "task_state_text T_reconcile_required = ''reconcile_required''"
| "task_state_text T_aborted = ''aborted''"

fun outbox_state_text :: "outbox_state \<Rightarrow> string" where
  "outbox_state_text O_held = ''held''"
| "outbox_state_text O_pending = ''pending''"
| "outbox_state_text O_applied = ''applied''"
| "outbox_state_text O_reconcile_required = ''reconcile_required''"
| "outbox_state_text O_blocked = ''blocked''"
| "outbox_state_text O_canceled = ''canceled''"

section \<open>Objects\<close>

definition json_option :: "('a \<Rightarrow> json) \<Rightarrow> 'a option \<Rightarrow> json" where
  "json_option f x = (case x of None \<Rightarrow> JNull | Some y \<Rightarrow> f y)"

definition run_baseline_json :: "run_baseline \<Rightarrow> json" where
  "run_baseline_json b = JObj
     [(''version'', JNum (bl_version b)), (''workspace'', JStr (bl_workspace b)),
      (''repoRoot'', JStr (bl_repoRoot b)), (''workspacePrefix'', JStr (bl_workspacePrefix b)),
      (''digest'', JStr (bl_digest b)),
      (''head'', JStr (bl_head b)), (''branch'', JStr (bl_branch b)),
      (''detached'', JBool (bl_detached b)),
      (''workingTreeDigest'', JStr (bl_workingTreeDigest b)),
      (''instructionsDigest'', JStr (bl_instructionsDigest b)),
      (''manifestDigest'', JStr (bl_manifestDigest b)),
      (''statusDigest'', JStr (bl_statusDigest b)), (''indexDigest'', JStr (bl_indexDigest b)),
      (''indexFlagsDigest'', JStr (bl_indexFlagsDigest b)),
      (''gitMetadata'', metadata_json (bl_gitMetadata b)),
      (''gitMetadataDigest'', JStr (bl_gitMetadataDigest b)),
      (''approvedScopes'', json_strings (bl_approvedScopes b)),
      (''ignoredScopeDigest'', JStr (bl_ignoredScopeDigest b)),
      (''entries'', JArr (map entry_json (bl_entries b))),
      (''instructions'', JArr (map instruction_json (bl_instructions b))),
      (''capturedAt'', JStr (bl_capturedAt b))]"

definition evidence_json :: "evidence \<Rightarrow> json" where
  "evidence_json e = JObj
     [(''id'', JStr (ev_id e)), (''type'', JStr (ev_type e)), (''producer'', JStr (ev_producer e)),
      (''outcome'', JStr (ev_outcome e)), (''summary'', JStr (ev_summary e)),
      (''contentRef'', JStr (ev_contentRef e)), (''contentSha256'', JStr (ev_contentSha256 e)),
      (''createdAt'', JStr (ev_createdAt e))]"

definition implementation_json :: "implementation \<Rightarrow> json" where
  "implementation_json i = JObj
     [(''baseline'', json_option run_baseline_json (im_baseline i)),
      (''evidenceIds'', json_strings (im_evidenceIds i)),
      (''capturedAt'', json_nullable (im_capturedAt i))]"

definition task_json :: "run_task \<Rightarrow> json" where
  "task_json t = JObj
     [(''stepId'', JStr (tk_stepId t)), (''sequence'', JNum (tk_sequence t)),
      (''stepDigest'', JStr (tk_stepDigest t)),
      (''acceptanceIds'', json_strings (tk_acceptanceIds t)),
      (''allowedPaths'', json_strings (tk_allowedPaths t)),
      (''expectedBaselineDigest'', JStr (tk_expectedBaselineDigest t)),
      (''state'', JStr (task_state_text (tk_state t))),
      (''missionBindingKey'', JStr (tk_missionBindingKey t)),
      (''missionDefinitionDigest'', JStr (tk_missionDefinitionDigest t)),
      (''missionId'', json_nullable (tk_missionId t)),
      (''implementation'', implementation_json (tk_implementation t)),
      (''verificationId'', json_nullable (tk_verificationId t))]"

definition outbox_json :: "outbox_item \<Rightarrow> json" where
  "outbox_json x = JObj
     [(''id'', JStr (ob_id x)), (''kind'', JStr (ob_kind x)), (''stepId'', JStr (ob_stepId x)),
      (''bindingKey'', JStr (ob_bindingKey x)), (''payloadDigest'', JStr (ob_payloadDigest x)),
      (''state'', JStr (outbox_state_text (ob_state x))),
      (''missionId'', json_nullable (ob_missionId x)), (''error'', JStr (ob_error x)),
      (''updatedAt'', JStr (ob_updatedAt x))]"

definition criterion_json :: "criterion \<Rightarrow> json" where
  "criterion_json c = JObj
     [(''acceptanceId'', JStr (cr_acceptanceId c)), (''outcome'', JStr (cr_outcome c)),
      (''evidenceIds'', json_strings (cr_evidenceIds c))]"

definition verification_json :: "verification \<Rightarrow> json" where
  "verification_json v = JObj
     [(''id'', JStr (vr_id v)), (''stepId'', JStr (vr_stepId v)),
      (''planDigest'', JStr (vr_planDigest v)),
      (''implementationMissionId'', JStr (vr_implementationMissionId v)),
      (''verifier'', JStr (vr_verifier v)),
      (''criteria'', JArr (map criterion_json (vr_criteria v))),
      (''outcome'', JStr (vr_outcome v)),
      (''beforeBaselineDigest'', JStr (vr_beforeBaselineDigest v)),
      (''afterBaselineDigest'', JStr (vr_afterBaselineDigest v)),
      (''evidenceIds'', json_strings (vr_evidenceIds v)), (''note'', JStr (vr_note v)),
      (''verifiedAt'', JStr (vr_verifiedAt v))]"

definition delivery_json :: "delivery \<Rightarrow> json" where
  "delivery_json d = JObj
     [(''level'', JStr (level_text (dl_level d))),
      (''evidenceIds'', json_strings (dl_evidenceIds d)), (''updatedAt'', JStr (dl_updatedAt d))]"

definition abort_json :: "abort_record \<Rightarrow> json" where
  "abort_json a = JObj
     [(''operatorConfirmed'', JBool (ab_operatorConfirmed a)),
      (''fromCondition'', JStr (condition_text (ab_fromCondition a))),
      (''reason'', JStr (ab_reason a)), (''evidenceIds'', json_strings (ab_evidenceIds a)),
      (''abortedAt'', JStr (ab_abortedAt a))]"

definition run_json :: "delivery_run \<Rightarrow> json" where
  "run_json r = JObj
     [(''version'', JNum (rn_version r)), (''id'', JStr (rn_id r)),
      (''revision'', JNum (rn_revision r)), (''planId'', JStr (rn_planId r)),
      (''planRevision'', JNum (rn_planRevision r)), (''planDigest'', JStr (rn_planDigest r)),
      (''workspace'', JStr (rn_workspace r)),
      (''startBaseline'', run_baseline_json (rn_startBaseline r)),
      (''condition'', JStr (condition_text (rn_condition r))),
      (''tasks'', JArr (map task_json (rn_tasks r))),
      (''outbox'', JArr (map outbox_json (rn_outbox r))),
      (''evidenceIndex'', JArr (map evidence_json (rn_evidenceIndex r))),
      (''verificationRecords'', JArr (map verification_json (rn_verificationRecords r))),
      (''delivery'', delivery_json (rn_delivery r)),
      (''abort'', json_option abort_json (rn_abort r)), (''blocker'', JStr (rn_blocker r)),
      (''createdAt'', JStr (rn_createdAt r)), (''updatedAt'', JStr (rn_updatedAt r))]"

section \<open>The JSON determines the run\<close>

lemma condition_text_inj: "condition_text a = condition_text b \<longleftrightarrow> a = b"
  by (cases a; cases b) simp_all

lemma level_text_inj: "level_text a = level_text b \<longleftrightarrow> a = b"
  by (cases a; cases b) simp_all

lemma task_state_text_inj: "task_state_text a = task_state_text b \<longleftrightarrow> a = b"
  by (cases a; cases b) simp_all

lemma outbox_state_text_inj: "outbox_state_text a = outbox_state_text b \<longleftrightarrow> a = b"
  by (cases a; cases b) simp_all

lemma json_option_faithful:
  assumes "faithful f" "\<And>x. \<exists>kvs. f x = JObj kvs"
  shows "faithful (json_option f)"
proof (rule faithfulI)
  fix a b assume eq: "norm_json (json_option f a) = norm_json (json_option f b)"
  have "norm_json (f x) \<noteq> JNull" "JNull \<noteq> norm_json (f x)" for x using assms(2) [of x] by auto
  with eq assms(1) show "a = b"
    by (cases a; cases b) (auto simp: json_option_def faithful_def)
qed

lemmas text_inj [json_inj] = condition_text_inj level_text_inj task_state_text_inj outbox_state_text_inj

lemma metadata_json_faithful: "faithful metadata_json"
  unfolding metadata_json_def by (rule faithful_object) (auto simp: json_inj intro: git_metadata.equality)

lemmas metadata_json_inj [json_inj] = faithful_iff [OF metadata_json_faithful] faithful_list [OF metadata_json_faithful]

lemma entry_json_faithful: "faithful entry_json"
  unfolding entry_json_def by (rule faithful_object) (auto simp: json_inj intro: baseline_entry.equality)

lemmas entry_json_inj [json_inj] = faithful_iff [OF entry_json_faithful] faithful_list [OF entry_json_faithful]

lemma instruction_json_faithful: "faithful instruction_json"
  unfolding instruction_json_def by (rule faithful_object) (auto simp: json_inj intro: baseline_instruction.equality)

lemmas instruction_json_inj [json_inj] = faithful_iff [OF instruction_json_faithful] faithful_list [OF instruction_json_faithful]

lemma run_baseline_json_faithful: "faithful run_baseline_json"
  unfolding run_baseline_json_def by (rule faithful_object) (auto simp: json_inj intro: run_baseline.equality)

lemmas run_baseline_json_inj [json_inj] = faithful_iff [OF run_baseline_json_faithful] faithful_list [OF run_baseline_json_faithful]

lemma run_baseline_option_faithful: "faithful (json_option run_baseline_json)"
  by (rule json_option_faithful) (simp_all add: run_baseline_json_faithful run_baseline_json_def)

lemmas run_baseline_option_inj [json_inj] = faithful_iff [OF run_baseline_option_faithful]

lemma evidence_json_faithful: "faithful evidence_json"
  unfolding evidence_json_def by (rule faithful_object) (auto simp: json_inj intro: evidence.equality)

lemmas evidence_json_inj [json_inj] = faithful_iff [OF evidence_json_faithful] faithful_list [OF evidence_json_faithful]

lemma implementation_json_faithful: "faithful implementation_json"
  unfolding implementation_json_def by (rule faithful_object) (auto simp: json_inj intro: implementation.equality)

lemmas implementation_json_inj [json_inj] = faithful_iff [OF implementation_json_faithful] faithful_list [OF implementation_json_faithful]

lemma task_json_faithful: "faithful task_json"
  unfolding task_json_def by (rule faithful_object) (auto simp: json_inj intro: run_task.equality)

lemmas task_json_inj [json_inj] = faithful_iff [OF task_json_faithful] faithful_list [OF task_json_faithful]

lemma outbox_json_faithful: "faithful outbox_json"
  unfolding outbox_json_def by (rule faithful_object) (auto simp: json_inj intro: outbox_item.equality)

lemmas outbox_json_inj [json_inj] = faithful_iff [OF outbox_json_faithful] faithful_list [OF outbox_json_faithful]

lemma criterion_json_faithful: "faithful criterion_json"
  unfolding criterion_json_def by (rule faithful_object) (auto simp: json_inj intro: criterion.equality)

lemmas criterion_json_inj [json_inj] = faithful_iff [OF criterion_json_faithful] faithful_list [OF criterion_json_faithful]

lemma verification_json_faithful: "faithful verification_json"
  unfolding verification_json_def by (rule faithful_object) (auto simp: json_inj intro: verification.equality)

lemmas verification_json_inj [json_inj] = faithful_iff [OF verification_json_faithful] faithful_list [OF verification_json_faithful]

lemma delivery_json_faithful: "faithful delivery_json"
  unfolding delivery_json_def by (rule faithful_object) (auto simp: json_inj intro: delivery.equality)

lemmas delivery_json_inj [json_inj] = faithful_iff [OF delivery_json_faithful] faithful_list [OF delivery_json_faithful]

lemma abort_json_faithful: "faithful abort_json"
  unfolding abort_json_def by (rule faithful_object) (auto simp: json_inj intro: abort_record.equality)

lemmas abort_json_inj [json_inj] = faithful_iff [OF abort_json_faithful] faithful_list [OF abort_json_faithful]

lemma abort_option_faithful: "faithful (json_option abort_json)"
  by (rule json_option_faithful) (simp_all add: abort_json_faithful abort_json_def)

lemmas abort_option_inj [json_inj] = faithful_iff [OF abort_option_faithful]

lemma run_json_faithful: "faithful run_json"
  unfolding run_json_def by (rule faithful_object) (auto simp: json_inj intro: delivery_run.equality)

lemmas run_json_inj [json_inj] = faithful_iff [OF run_json_faithful] faithful_list [OF run_json_faithful]

end
