(* ===== verification/DeliveryRunStore.thy ===== *)
theory DeliveryRunStore
  imports ReceiptRepository RunJson RunRefinement
begin

text \<open>
  delivery-run-store.js: the durable store of delivery runs. What it shares with the plan
  store is in \<open>ReceiptStore\<close> and \<open>ReceiptRepository\<close>; this theory holds the strict check
  of a run, the lifecycle that consecutive receipts of a run must follow, the requests with
  their digests, and the operations of the repository.
\<close>

section \<open>Runs in the store\<close>

definition DELIVERY_RUN_STORE_VERSION :: int where "DELIVERY_RUN_STORE_VERSION = 1"
definition MAX_RUNS :: nat where "MAX_RUNS = 64"
definition MAX_RUN_OPERATIONS :: nat where "MAX_RUN_OPERATIONS = 512"
definition MAX_RUN_BYTES :: int where "MAX_RUN_BYTES = 524288"

definition RUN_ACTIONS :: "string list" where
  "RUN_ACTIONS = [''run.create'', ''run.mission_link'', ''run.mission_reconcile'',
     ''run.implementation_capture'', ''run.verification_record'', ''run.off_course'', ''run.abort'']"

definition drs_error :: "string \<Rightarrow> error" where
  "drs_error suffix = Error (''delivery_run_store_'' @ suffix)"

text \<open>Any error of the run's validator becomes the given one.\<close>

definition strictRun :: "host \<Rightarrow> error \<Rightarrow> delivery_run \<Rightarrow> delivery_run result" where
  "strictRun H e v =
     (case validateDeliveryRun H v of
        Inl cause \<Rightarrow> Inl e
      | Inr validated \<Rightarrow> guard (throws
          [throw_if (canonicalJson (run_json validated) \<noteq> canonicalJson (run_json v)) e,
           throw_if (MAX_RUN_BYTES < byteLength (run_json validated)) (drs_error ''run_too_large'')])
          (Inr validated))"

definition task_binding_changed :: "run_task \<Rightarrow> run_task \<Rightarrow> bool" where
  "task_binding_changed t p \<longleftrightarrow>
     tk_stepId t \<noteq> tk_stepId p \<or> tk_stepDigest t \<noteq> tk_stepDigest p
     \<or> tk_missionBindingKey t \<noteq> tk_missionBindingKey p
     \<or> tk_missionDefinitionDigest t \<noteq> tk_missionDefinitionDigest p
     \<or> canonicalJson (json_strings (tk_acceptanceIds t)) \<noteq> canonicalJson (json_strings (tk_acceptanceIds p))
     \<or> canonicalJson (json_strings (tk_allowedPaths t)) \<noteq> canonicalJson (json_strings (tk_allowedPaths p))"

definition plan_binding_changed :: "delivery_run \<Rightarrow> delivery_run \<Rightarrow> bool" where
  "plan_binding_changed s p \<longleftrightarrow>
     rn_planId s \<noteq> rn_planId p \<or> rn_planRevision s \<noteq> rn_planRevision p
     \<or> rn_planDigest s \<noteq> rn_planDigest p \<or> rn_workspace s \<noteq> rn_workspace p
     \<or> canonicalJson (run_baseline_json (rn_startBaseline s))
         \<noteq> canonicalJson (run_baseline_json (rn_startBaseline p))
     \<or> length (rn_tasks s) \<noteq> length (rn_tasks p)
     \<or> list_ex (\<lambda>(t, q). task_binding_changed t q) (zip (rn_tasks s) (rn_tasks p))"

text \<open>The lifecycle of a receipt, given the previous snapshot of its run.\<close>

definition run_receipt_lifecycle :: "delivery_run receipt \<Rightarrow> delivery_run option \<Rightarrow> error option" where
  "run_receipt_lifecycle c previous =
     (let s = rc_item c; invalid = drs_error ''operation_lifecycle_invalid'' in
      if rc_action c = ''run.create''
      then throw_if (previous \<noteq> None \<or> rn_revision s \<noteq> 1 \<or> rn_condition s \<noteq> C_preparing \<or> rn_abort s \<noteq> None)
             invalid
      else (case previous of
          None \<Rightarrow> Some invalid
        | Some p \<Rightarrow> throws
            [throw_if (rn_revision s \<noteq> rn_revision p + 1 \<or> rn_createdAt s \<noteq> rn_createdAt p) invalid,
             throw_if (plan_binding_changed s p) (drs_error ''plan_binding_changed''),
             (if rc_action c = ''run.abort''
              then throw_if (rn_condition s \<noteq> C_aborted
                     \<or> map_option ab_fromCondition (rn_abort s) \<noteq> Some (rn_condition p)
                     \<or> map_option ab_abortedAt (rn_abort s) \<noteq> Some (rc_at c)
                     \<or> rn_condition p = C_aborted) invalid
              else throw_if (rn_condition s = C_aborted \<or> rn_condition p = C_aborted) invalid)]))"

definition run_module :: "host \<Rightarrow> delivery_run store_module" where
  "run_module H = \<lparr>md_family = ''run'', md_noun = ''run'', md_version = DELIVERY_RUN_STORE_VERSION, md_maxItems = MAX_RUNS,
     md_maxOperations = MAX_RUN_OPERATIONS, md_maxBytes = MAX_STORE_BYTES, md_maxRequest = MAX_REQUEST_BYTES,
     md_actions = RUN_ACTIONS, md_id = rn_id,
     md_strict = strictRun H, md_lifecycle = run_receipt_lifecycle, md_json = run_json,
     md_itemLimit = (\<lambda>_. None), md_receiptLimit = (\<lambda>_. None), md_itemsRule = (\<lambda>_. None),
     md_storeLimit = (\<lambda>j _. compactLimit (drs_error ''too_large'') j)\<rparr>"

lemma run_module_simps [simp]:
  "md_family (run_module H) = ''run''" "md_noun (run_module H) = ''run''" "md_version (run_module H) = 1" "md_maxItems (run_module H) = 64"
  "md_maxOperations (run_module H) = 512" "md_actions (run_module H) = RUN_ACTIONS"
  "md_id (run_module H) = rn_id" "md_strict (run_module H) = strictRun H"
  "md_lifecycle (run_module H) = run_receipt_lifecycle" "md_json (run_module H) = run_json"
  "md_maxBytes (run_module H) = MAX_STORE_BYTES" "md_maxRequest (run_module H) = MAX_REQUEST_BYTES"
  "md_itemLimit (run_module H) j = None" "md_receiptLimit (run_module H) j = None" "md_itemsRule (run_module H) xs = None"
  "md_storeLimit (run_module H) j s = compactLimit (drs_error ''too_large'') j"
  by (simp_all add: run_module_def DELIVERY_RUN_STORE_VERSION_def MAX_RUNS_def MAX_RUN_OPERATIONS_def)

section \<open>Requests\<close>

text \<open>
  The evidence of an abort request carries no time of its own: the store stamps it with the
  time of the operation. A verification request may leave out the identifier of the record.
\<close>

record evidence_input =
  ein_id :: string
  ein_type :: string
  ein_producer :: string
  ein_outcome :: string
  ein_summary :: string
  ein_contentRef :: string
  ein_contentSha256 :: string
  ein_createdAt :: "string option"

record abort_request =
  ar_operatorConfirmed :: bool
  ar_reason :: string
  ar_evidence :: "evidence_input list"

record verify_request =
  vq_verificationId :: "string option"
  vq_stepId :: string
  vq_missionId :: string
  vq_baseline :: baseline_input
  vq_criteria :: "criterion list"
  vq_evidence :: "evidence list"
  vq_evidenceIds :: "string list"
  vq_note :: string

datatype run_change =
  CH_link link_input | CH_reconcile reconcile_input | CH_capture capture_input
| CH_verify verify_request | CH_off_course off_course_input | CH_abort abort_request

record change_request =
  cq_runId :: string
  cq_operationId :: string
  cq_expectedStoreRevision :: int
  cq_expectedRunRevision :: int
  cq_change :: run_change

text \<open>The identifier of the new run may be left out or empty.\<close>

record create_run_input =
  cri_id :: "string option"
  cri_planId :: string
  cri_planRevision :: int
  cri_planDigest :: string
  cri_workspace :: string
  cri_startBaseline :: baseline_input
  cri_tasks :: "task_input list"

record create_request =
  crq_operationId :: string
  crq_expectedStoreRevision :: int
  crq_run :: create_run_input

definition runId :: "string \<Rightarrow> string result" where
  "runId value =
     (let r = to_lower (js_trim value) in
      guard (throw_if (\<not> run_id_pattern r) (drs_error ''run_id_invalid'')) (Inr r))"

definition member_option :: "string \<Rightarrow> string option \<Rightarrow> (string \<times> json) list" where
  "member_option k x = (case x of None \<Rightarrow> [] | Some s \<Rightarrow> [(k, JStr s)])"

definition baseline_input_json :: "baseline_input \<Rightarrow> json" where
  "baseline_input_json b = JObj
     (member_option ''digest'' (bl_givenDigest b) @
     [(''version'', JNum (bl_version b)), (''workspace'', JStr (bl_workspace b)),
      (''repoRoot'', JStr (bl_repoRoot b)), (''workspacePrefix'', JStr (bl_workspacePrefix b)),
      (''head'', JStr (bl_head b)), (''branch'', JStr (bl_branch b)),
      (''detached'', JBool (bl_detached b)),
      (''workingTreeDigest'', JStr (bl_workingTreeDigest b)),
      (''instructionsDigest'', JStr (bl_instructionsDigest b)),
      (''manifestDigest'', JStr (bl_manifestDigest b)),
      (''statusDigest'', JStr (bl_statusDigest b)), (''indexDigest'', JStr (bl_indexDigest b)),
      (''indexFlagsDigest'', JStr (bl_indexFlagsDigest b)),
      (''gitMetadata'', metadata_json (bl_gitMetadata b)),
      (''gitMetadataDigest'', JStr (bl_gitMetadataDigest b)),
      (''approvedScopes'', json_strings (bl_approvedScopes b)),
      (''ignoredScopeDigest'', JStr (bl_ignoredScopeDigest b)),
      (''entries'', JArr (map entry_json (bl_entries b))),
      (''instructions'', JArr (map instruction_json (bl_instructions b))),
      (''capturedAt'', JStr (bl_capturedAt b))])"

definition evidence_input_json :: "evidence_input \<Rightarrow> json" where
  "evidence_input_json e = JObj
     ([(''id'', JStr (ein_id e)), (''type'', JStr (ein_type e)), (''producer'', JStr (ein_producer e)),
       (''outcome'', JStr (ein_outcome e)), (''summary'', JStr (ein_summary e)),
       (''contentRef'', JStr (ein_contentRef e)), (''contentSha256'', JStr (ein_contentSha256 e))]
      @ member_option ''createdAt'' (ein_createdAt e))"

definition task_input_json :: "task_input \<Rightarrow> json" where
  "task_input_json t = JObj
     [(''stepId'', JStr (ti_stepId t)), (''stepDigest'', JStr (ti_stepDigest t)),
      (''acceptanceIds'', json_strings (ti_acceptanceIds t)),
      (''allowedPaths'', json_strings (ti_allowedPaths t)),
      (''missionDefinitionDigest'', JStr (ti_missionDefinitionDigest t))]"

definition create_run_input_json :: "create_run_input \<Rightarrow> json" where
  "create_run_input_json v = JObj
     (member_option ''id'' (cri_id v) @
     [(''planId'', JStr (cri_planId v)), (''planRevision'', JNum (cri_planRevision v)),
      (''planDigest'', JStr (cri_planDigest v)), (''workspace'', JStr (cri_workspace v)),
      (''startBaseline'', baseline_input_json (cri_startBaseline v)),
      (''tasks'', JArr (map task_input_json (cri_tasks v)))])"

definition verificationId_of :: "host \<Rightarrow> string \<Rightarrow> verify_request \<Rightarrow> string" where
  "verificationId_of H i v =
     (case vq_verificationId v of
        Some x \<Rightarrow> x
      | None \<Rightarrow> ''verification-'' @ take 32 (canonicalSha256 H (JObj [(''operationId'', JStr i)])))"

fun change_members :: "host \<Rightarrow> string \<Rightarrow> run_change \<Rightarrow> (string \<times> json) list" where
  "change_members H i (CH_link v) =
     [(''stepId'', JStr (li_stepId v)), (''bindingKey'', JStr (li_bindingKey v)),
      (''missionId'', JStr (li_missionId v))]"
| "change_members H i (CH_reconcile v) =
     [(''stepId'', JStr (ri_stepId v)), (''bindingKey'', JStr (ri_bindingKey v)),
      (''error'', JStr (ri_error v))]"
| "change_members H i (CH_capture v) =
     [(''stepId'', JStr (pi_stepId v)), (''missionId'', JStr (pi_missionId v)),
      (''baseline'', baseline_input_json (pi_baseline v)),
      (''evidence'', JArr (map evidence_json (pi_evidence v)))]"
| "change_members H i (CH_verify v) =
     [(''id'', JStr (verificationId_of H i v)), (''stepId'', JStr (vq_stepId v)),
      (''missionId'', JStr (vq_missionId v)), (''baseline'', baseline_input_json (vq_baseline v)),
      (''criteria'', JArr (map criterion_json (vq_criteria v))),
      (''evidence'', JArr (map evidence_json (vq_evidence v))),
      (''evidenceIds'', json_strings (vq_evidenceIds v)), (''note'', JStr (vq_note v))]"
| "change_members H i (CH_off_course v) =
     [(''stepId'', JStr (oi_stepId v)), (''reason'', JStr (oi_reason v)),
      (''evidence'', JArr (map evidence_json (oi_evidence v)))]"
| "change_members H i (CH_abort v) =
     [(''operatorConfirmed'', JBool (ar_operatorConfirmed v)), (''reason'', JStr (ar_reason v)),
      (''evidence'', JArr (map evidence_input_json (ar_evidence v)))]"

fun change_action :: "run_change \<Rightarrow> string" where
  "change_action (CH_link v) = ''run.mission_link''"
| "change_action (CH_reconcile v) = ''run.mission_reconcile''"
| "change_action (CH_capture v) = ''run.implementation_capture''"
| "change_action (CH_verify v) = ''run.verification_record''"
| "change_action (CH_off_course v) = ''run.off_course''"
| "change_action (CH_abort v) = ''run.abort''"

definition stamped :: "string \<Rightarrow> evidence_input \<Rightarrow> evidence" where
  "stamped at e = \<lparr>ev_id = ein_id e, ev_type = ein_type e, ev_producer = ein_producer e,
     ev_outcome = ein_outcome e, ev_summary = ein_summary e, ev_contentRef = ein_contentRef e,
     ev_contentSha256 = ein_contentSha256 e, ev_createdAt = at\<rparr>"

text \<open>The operation of delivery-run.js that the mutator of a change calls.\<close>

fun change_operation :: "host \<Rightarrow> string \<Rightarrow> string \<Rightarrow> run_change \<Rightarrow> run_operation" where
  "change_operation H i at (CH_link v) = Op_link v"
| "change_operation H i at (CH_reconcile v) = Op_reconcile v"
| "change_operation H i at (CH_capture v) = Op_capture v"
| "change_operation H i at (CH_verify v) = Op_verify
     \<lparr>vi_id = verificationId_of H i v, vi_stepId = vq_stepId v, vi_missionId = vq_missionId v,
      vi_baseline = vq_baseline v, vi_criteria = vq_criteria v, vi_evidence = vq_evidence v,
      vi_evidenceIds = vq_evidenceIds v, vi_note = vq_note v\<rparr>"
| "change_operation H i at (CH_off_course v) = Op_off_course v"
| "change_operation H i at (CH_abort v) = Op_abort
     \<lparr>ai_operatorConfirmed = ar_operatorConfirmed v, ai_reason = ar_reason v,
      ai_evidence = map (stamped at) (ar_evidence v)\<rparr>"

section \<open>Prepared mutations\<close>

text \<open>What is known of a mutation before it enters the queue.\<close>

record prepared =
  pr_id :: string
  pr_digest :: string
  pr_storeRevision :: int

record prepared_change = prepared +
  pr_runId :: string
  pr_runRevision :: int
  pr_change :: run_change

record prepared_create = prepared +
  pr_run :: create_run_input

datatype run_mutation = M_create prepared_create | M_change prepared_change

definition prepareChange :: "host \<Rightarrow> change_request \<Rightarrow> prepared_change result" where
  "prepareChange H q =
     attempt (runId (cq_runId q)) (\<lambda>wanted.
     attempt (st_operationId (run_module H) (cq_operationId q)) (\<lambda>i.
     attempt (requestedRevision (run_module H) (cq_expectedStoreRevision q) ''expected_store_revision'' 0) (\<lambda>sr.
     attempt (requestedRevision (run_module H) (cq_expectedRunRevision q) ''expected_run_revision'' 1) (\<lambda>rr.
     attempt (requestSnapshot (run_module H) H (JObj
         ([(''runId'', JStr wanted), (''expectedStoreRevision'', JNum sr), (''expectedRunRevision'', JNum rr)]
          @ change_members H i (cq_change q)))) (\<lambda>digest.
     Inr \<lparr>pr_id = i, pr_digest = digest, pr_storeRevision = sr, pr_runId = wanted,
          pr_runRevision = rr, pr_change = cq_change q\<rparr>)))))"

definition prepareCreate :: "host \<Rightarrow> create_request \<Rightarrow> prepared_create result" where
  "prepareCreate H q =
     attempt (st_operationId (run_module H) (crq_operationId q)) (\<lambda>i.
     attempt (requestedRevision (run_module H) (crq_expectedStoreRevision q) ''expected_store_revision'' 0) (\<lambda>sr.
     attempt (requestSnapshot (run_module H) H (JObj
         [(''expectedStoreRevision'', JNum sr), (''run'', create_run_input_json (crq_run q))])) (\<lambda>digest.
     Inr \<lparr>pr_id = i, pr_digest = digest, pr_storeRevision = sr, pr_run = crq_run q\<rparr>)))"

section \<open>Decisions\<close>

definition fresh_reply :: "delivery_run receipt_store \<Rightarrow> delivery_run \<Rightarrow> delivery_run reply" where
  "fresh_reply s run = \<lparr>ry_replayed = False, ry_storeRevision = st_revision s + 1, ry_item = run\<rparr>"

text \<open>The part of a mutator after the test for a replay.\<close>

definition freshChange ::
  "host \<Rightarrow> prepared_change \<Rightarrow> delivery_run environment \<Rightarrow> delivery_run receipt_store \<Rightarrow>
   delivery_run decision result" where
  "freshChange H p env s =
     guard (throws
       [assertStoreRevision (run_module H) s (pr_storeRevision p),
        assertCapacity (run_module H) s False])
     (case find (\<lambda>c. rn_id c = pr_runId p) (st_items s) of
        None \<Rightarrow> Inl (drs_error ''run_not_found'')
      | Some run \<Rightarrow>
          guard (throw_if (rn_revision run \<noteq> pr_runRevision p) (drs_error ''run_revision_conflict''))
         (attempt (st_timestamp (run_module H) (en_now env)) (\<lambda>at.
          guard (assertChronology (run_module H) s at)
         (attempt (apply_operation H (change_operation H (pr_id p) at (pr_change p)) at run) (\<lambda>r.
          attempt (nextStore (run_module H) s (pr_id p) (change_action (pr_change p)) (pr_digest p) at r)
            (\<lambda>t. Inr (Commit t (fresh_reply s r))))))))"

definition decideChange ::
  "host \<Rightarrow> prepared_change \<Rightarrow> delivery_run environment \<Rightarrow> delivery_run receipt_store \<Rightarrow>
   delivery_run decision result" where
  "decideChange H p env s =
     attempt (operationReplay (run_module H) s (pr_id p) (change_action (pr_change p)) (pr_digest p))
       (\<lambda>replay. case replay of Some y \<Rightarrow> Inr (Replay y) | None \<Rightarrow> freshChange H p env s)"

definition create_input_of :: "create_run_input \<Rightarrow> string \<Rightarrow> create_input" where
  "create_input_of v i = \<lparr>ci_id = i, ci_planId = cri_planId v, ci_planRevision = cri_planRevision v,
     ci_planDigest = cri_planDigest v, ci_workspace = cri_workspace v,
     ci_startBaseline = cri_startBaseline v, ci_tasks = cri_tasks v\<rparr>"

definition freshCreate ::
  "host \<Rightarrow> prepared_create \<Rightarrow> delivery_run environment \<Rightarrow> delivery_run receipt_store \<Rightarrow>
   delivery_run decision result" where
  "freshCreate H p env s =
     guard (throws
       [assertStoreRevision (run_module H) s (pr_storeRevision p),
        assertCapacity (run_module H) s True])
    (attempt (st_timestamp (run_module H) (en_now env)) (\<lambda>at.
     guard (assertChronology (run_module H) s at)
    (attempt (runId (case cri_id (pr_run p) of
         Some x \<Rightarrow> if x = [] then en_newId env else x | None \<Rightarrow> en_newId env)) (\<lambda>candidateId.
     guard (throw_if (list_ex (\<lambda>c. rn_id c = candidateId) (st_items s)) (drs_error ''run_duplicate''))
    (attempt (createDeliveryRun H (create_input_of (pr_run p) candidateId) at) (\<lambda>run.
     guard (throw_if (list_ex (\<lambda>c. rn_planId c = rn_planId run \<and> rn_planDigest c = rn_planDigest run)
         (st_items s)) (drs_error ''plan_binding_duplicate''))
    (attempt (nextStore (run_module H) s (pr_id p) ''run.create'' (pr_digest p) at run)
       (\<lambda>t. Inr (Commit t (fresh_reply s run))))))))))"

definition decideCreate ::
  "host \<Rightarrow> prepared_create \<Rightarrow> delivery_run environment \<Rightarrow> delivery_run receipt_store \<Rightarrow>
   delivery_run decision result" where
  "decideCreate H p env s =
     attempt (operationReplay (run_module H) s (pr_id p) ''run.create'' (pr_digest p))
       (\<lambda>replay. case replay of Some y \<Rightarrow> Inr (Replay y) | None \<Rightarrow> freshCreate H p env s)"

fun run_identity :: "run_mutation \<Rightarrow> string \<times> string \<times> string" where
  "run_identity (M_create p) = (pr_id p, ''run.create'', pr_digest p)"
| "run_identity (M_change p) = (pr_id p, change_action (pr_change p), pr_digest p)"

fun run_decide ::
  "host \<Rightarrow> run_mutation \<Rightarrow> delivery_run environment \<Rightarrow> delivery_run receipt_store \<Rightarrow>
   delivery_run decision result" where
  "run_decide H (M_create p) env s = decideCreate H p env s"
| "run_decide H (M_change p) env s = decideChange H p env s"

fun run_fresh ::
  "host \<Rightarrow> run_mutation \<Rightarrow> delivery_run environment \<Rightarrow> delivery_run receipt_store \<Rightarrow>
   delivery_run decision result" where
  "run_fresh H (M_create p) env s = freshCreate H p env s"
| "run_fresh H (M_change p) env s = freshChange H p env s"

section \<open>The repository's operations\<close>

type_synonym run_repository = "delivery_run repository"

definition performMutation ::
  "host \<Rightarrow> delivery_run environment \<Rightarrow> change_request \<Rightarrow> run_repository \<Rightarrow>
   delivery_run reply result \<times> run_repository" where
  "performMutation H env q repo =
     (case prepareChange H q of
        Inl e \<Rightarrow> (Inl e, repo)
      | Inr p \<Rightarrow> mutate (run_module H) env (run_decide H (M_change p) env) repo)"

definition create_run ::
  "host \<Rightarrow> delivery_run environment \<Rightarrow> create_request \<Rightarrow> run_repository \<Rightarrow>
   delivery_run reply result \<times> run_repository" where
  "create_run H env q repo =
     (case prepareCreate H q of
        Inl e \<Rightarrow> (Inl e, repo)
      | Inr p \<Rightarrow> mutate (run_module H) env (run_decide H (M_create p) env) repo)"

text \<open>Any mutating request, and what it becomes before it enters the queue.\<close>

datatype run_request = RR_create create_request | RR_change change_request

fun handle_request ::
  "host \<Rightarrow> delivery_run environment \<Rightarrow> run_request \<Rightarrow> run_repository \<Rightarrow>
   delivery_run reply result \<times> run_repository" where
  "handle_request H env (RR_create q) repo = create_run H env q repo"
| "handle_request H env (RR_change q) repo = performMutation H env q repo"

fun prepareRequest :: "host \<Rightarrow> run_request \<Rightarrow> run_mutation result" where
  "prepareRequest H (RR_create q) = attempt (prepareCreate H q) (\<lambda>p. Inr (M_create p))"
| "prepareRequest H (RR_change q) = attempt (prepareChange H q) (\<lambda>p. Inr (M_change p))"

fun expected_revision :: "run_mutation \<Rightarrow> int" where
  "expected_revision (M_create p) = pr_storeRevision p"
| "expected_revision (M_change p) = pr_storeRevision p"

definition get_run ::
  "host \<Rightarrow> delivery_run environment \<Rightarrow> string \<Rightarrow> run_repository \<Rightarrow>
   (delivery_run \<times> delivery_run receipt list) option result \<times> run_repository" where
  "get_run H env value repo =
     (case runId value of
        Inl e \<Rightarrow> (Inl e, repo)
      | Inr wanted \<Rightarrow> afterMutations (run_module H) env (\<lambda>s. Inr
          (case find (\<lambda>c. rn_id c = wanted) (st_items s) of
             None \<Rightarrow> None
           | Some run \<Rightarrow> Some (run, filter (\<lambda>c. rn_id (rc_item c) = wanted) (st_operations s)))) repo)"

section \<open>Summaries\<close>

record run_summary =
  rs_id :: string
  rs_revision :: int
  rs_planId :: string
  rs_planDigest :: string
  rs_condition :: run_condition
  rs_deliveryLevel :: delivery_level
  rs_taskCount :: nat
  rs_completedTaskCount :: nat
  rs_updatedAt :: string

record store_summary =
  ss_version :: int
  ss_revision :: int
  ss_total :: nat
  ss_activeCount :: nat
  ss_verified :: nat
  ss_aborted :: nat
  ss_needsAttention :: nat
  ss_operations :: nat
  ss_active :: "run_summary list"
  ss_recent :: "run_summary list"

definition runSummary :: "delivery_run \<Rightarrow> run_summary" where
  "runSummary run = \<lparr>rs_id = rn_id run, rs_revision = rn_revision run, rs_planId = rn_planId run,
     rs_planDigest = rn_planDigest run, rs_condition = rn_condition run,
     rs_deliveryLevel = dl_level (rn_delivery run), rs_taskCount = length (rn_tasks run),
     rs_completedTaskCount = length (filter (\<lambda>t. tk_state t = T_verified) (rn_tasks run)),
     rs_updatedAt = rn_updatedAt run\<rparr>"

definition terminal_condition :: "run_condition \<Rightarrow> bool" where
  "terminal_condition c \<longleftrightarrow> c = C_aborted \<or> c = C_verified"

definition newestFirst :: "host \<Rightarrow> delivery_run \<Rightarrow> delivery_run \<Rightarrow> int" where
  "newestFirst H l r =
     (let d = date_ms (rn_updatedAt r) - date_ms (rn_updatedAt l) in
      if d \<noteq> 0 then d else localeCompare H (rn_id l) (rn_id r))"

definition normalizedLimit :: "int option \<Rightarrow> int \<Rightarrow> string \<Rightarrow> nat result" where
  "normalizedLimit value fallback field =
     (let r = (case value of None \<Rightarrow> fallback | Some n \<Rightarrow> n) in
      guard (throw_if (\<not> safe_integer r \<or> r < 0 \<or> 64 < r) (drs_error (field @ ''_invalid''))) (Inr (nat r)))"

definition summaryFromValidatedStore ::
  "host \<Rightarrow> int option \<Rightarrow> int option \<Rightarrow> delivery_run receipt_store \<Rightarrow> store_summary result" where
  "summaryFromValidatedStore H activeLimit recentLimit s =
     attempt (normalizedLimit activeLimit 40 ''active_limit'') (\<lambda>activeMax.
     attempt (normalizedLimit recentLimit 20 ''recent_limit'') (\<lambda>recentMax.
     (let active = sort_by (newestFirst H) (filter (\<lambda>r. \<not> terminal_condition (rn_condition r)) (st_items s));
          recent = sort_by (newestFirst H) (filter (\<lambda>r. terminal_condition (rn_condition r)) (st_items s))
      in Inr
        \<lparr>ss_version = st_version s, ss_revision = st_revision s, ss_total = length (st_items s),
         ss_activeCount = length active,
         ss_verified = length (filter (\<lambda>r. rn_condition r = C_verified) recent),
         ss_aborted = length (filter (\<lambda>r. rn_condition r = C_aborted) recent),
         ss_needsAttention = length (filter (\<lambda>r. rn_condition r \<in>
           {C_blocked, C_off_course, C_reconcile_required}) active),
         ss_operations = length (st_operations s),
         ss_active = map runSummary (take activeMax active),
         ss_recent = map runSummary (take recentMax recent)\<rparr>)))"

definition list_runs ::
  "host \<Rightarrow> delivery_run environment \<Rightarrow> int option \<Rightarrow> int option \<Rightarrow> run_repository \<Rightarrow>
   store_summary result \<times> run_repository" where
  "list_runs H env activeLimit recentLimit repo =
     afterMutations (run_module H) env (summaryFromValidatedStore H activeLimit recentLimit) repo"

section \<open>The contract of the repository\<close>

lemma run_json_faithful_store:
  "canonicalJson (store_json (run_module H) a) = canonicalJson (store_json (run_module H) b) \<Longrightarrow> a = b"
  by (rule canonicalJson_faithful [OF store_json_faithful]) (simp_all add: run_json_faithful)

lemma handle_request_mutate:
  "handle_request H env rq repo =
     (case prepareRequest H rq of
        Inl e \<Rightarrow> (Inl e, repo)
      | Inr op \<Rightarrow> mutate (run_module H) env (run_decide H op env) repo)"
  by (cases rq) (auto simp: create_run_def performMutation_def split: sum.splits)

lemma handle_request_Inr:
  assumes "handle_request H env rq repo = (Inr y, repo')"
  obtains op where "prepareRequest H rq = Inr op"
    "mutate (run_module H) env (run_decide H op env) repo = (Inr y, repo')"
  using assms by (auto simp: handle_request_mutate split: sum.splits)

text \<open>What a change and a creation commit.\<close>

lemma freshChange_Inr:
  assumes "freshChange H p env s = Inr z"
  obtains run r t at where
    "find (\<lambda>c. rn_id c = pr_runId p) (st_items s) = Some run" "rn_revision run = pr_runRevision p"
    "st_revision s = pr_storeRevision p" "length (st_operations s) < 512" "at = en_now env"
    "apply_operation H (change_operation H (pr_id p) at (pr_change p)) at run = Inr r"
    "nextStore (run_module H) s (pr_id p) (change_action (pr_change p)) (pr_digest p) at r = Inr t"
    "z = Commit t (fresh_reply s r)"
  using assms
  by (auto simp: freshChange_def assertStoreRevision_def assertCapacity_def st_timestamp_def
      split: option.splits)

lemma freshCreate_Inr:
  assumes "freshCreate H p env s = Inr z"
  obtains run t at i where
    "st_revision s = pr_storeRevision p" "length (st_operations s) < 512" "length (st_items s) < 64"
    "at = en_now env" "run_id_pattern i" "\<forall>c \<in> set (st_items s). rn_id c \<noteq> i"
    "createDeliveryRun H (create_input_of (pr_run p) i) at = Inr run"
    "\<forall>c \<in> set (st_items s). \<not> (rn_planId c = rn_planId run \<and> rn_planDigest c = rn_planDigest run)"
    "nextStore (run_module H) s (pr_id p) ''run.create'' (pr_digest p) at run = Inr t"
    "z = Commit t (fresh_reply s run)"
  using assms
  by (auto simp: freshCreate_def assertStoreRevision_def assertCapacity_def st_timestamp_def list_ex_iff
      runId_def Let_def)

interpretation runs: durable_repository "run_module H" run_identity "run_fresh H" "run_decide H"
  for H :: host
proof
  let ?M = "run_module H" and ?e = "emptyReceiptStore (run_module H)"
  have "utf8_length (canonicalJson (store_json ?M ?e)) = 52"
    by (simp add: emptyReceiptStore_def store_json_def) code_simp
  then show "validateReceiptStore ?M ?e = Inr ?e"
    by (simp add: validateReceiptStore_def byteLength_def MAX_STORE_BYTES_def)
      (simp add: emptyReceiptStore_def each_indexed_def safe_integer_def MAX_SAFE_INTEGER_def)
next
  show "run_decide H op env s = (case run_identity op of (i, action, digest) \<Rightarrow>
      attempt (operationReplay (run_module H) s i action digest) (\<lambda>replay.
        case replay of Some y \<Rightarrow> Inr (Replay y) | None \<Rightarrow> run_fresh H op env s))" for op env s
    by (cases op) (simp_all add: decideChange_def decideCreate_def)
next
  fix op env s z i action digest
  assume "run_fresh H op env s = Inr z" "run_identity op = (i, action, digest)"
  then show "\<exists>x at next. nextStore (run_module H) s i action digest at x = Inr next \<and>
      z = Commit next \<lparr>ry_replayed = False, ry_storeRevision = st_revision s + 1, ry_item = x\<rparr>"
    by (cases op) (auto simp: fresh_reply_def elim!: freshChange_Inr freshCreate_Inr)
next
  show "canonicalJson (store_json (run_module H) a) = canonicalJson (store_json (run_module H) b) \<Longrightarrow> a = b"
    for a b by (rule run_json_faithful_store)
qed

end
