(* ===== verification/ReceiptHistory.thy ===== *)
theory ReceiptHistory
  imports ReceiptRepository
begin

text \<open>
  When the next store is accepted: the validation of a store with one more receipt is the
  validation of the old store and of that receipt. A store module whose item validator
  returns its argument can only refuse a well-formed receipt for the size of the store.
\<close>

section \<open>Appending to a history\<close>

definition previous_at :: "string option \<Rightarrow> 'a receipt list \<Rightarrow> string option" where
  "previous_at p cs = (if cs = [] then p else Some (rc_at (last cs)))"

lemma validateHistory_append:
  assumes "validateHistory M ids opIds p n seen cs = Inr seen'"
  shows "validateHistory M ids opIds p n seen (cs @ [c]) =
     guard (throw_if (rc_id c \<in> opIds \<union> set (map rc_id cs)) (store_error M ''operation_duplicate''))
    (attempt (validateReceipt M ids (n + length cs) seen' c) (\<lambda>snapshot.
     guard (throw_if (case previous_at p cs of None \<Rightarrow> False | Some q \<Rightarrow> date_ms (rc_at c) < date_ms q)
              (store_error M ''operation_chronology_invalid''))
       (Inr (seen'(md_id M snapshot \<mapsto> snapshot)))))"
  using assms
proof (induction cs arbitrary: opIds p n seen)
  case Nil
  then show ?case by (simp add: previous_at_def fun_upd_def)
next
  case (Cons d cs)
  then obtain snap where snap: "rc_id d \<notin> opIds" "validateReceipt M ids n seen d = Inr snap"
    "\<not> (case p of None \<Rightarrow> False | Some q \<Rightarrow> date_ms (rc_at d) < date_ms q)"
    "validateHistory M ids (insert (rc_id d) opIds) (Some (rc_at d)) (Suc n)
       (seen(md_id M snap \<mapsto> snap)) cs = Inr seen'"
    by auto
  have at: "previous_at (Some (rc_at d)) cs = previous_at p (d # cs)" by (simp add: previous_at_def)
  from Cons.IH [OF snap(4)] snap(1-3) show ?case unfolding at by (simp add: fun_upd_def)
qed

lemma validateReceipt_mono:
  "validateReceipt M ids n seen c = Inr r \<Longrightarrow> ids \<subseteq> ids' \<Longrightarrow> validateReceipt M ids' n seen c = Inr r"
  by (auto simp: validateReceipt_def)

lemma validateHistory_mono:
  "validateHistory M ids opIds p n seen cs = Inr seen' \<Longrightarrow> ids \<subseteq> ids' \<Longrightarrow>
   validateHistory M ids' opIds p n seen cs = Inr seen'"
  by (induction cs arbitrary: opIds p n seen) (auto dest: validateReceipt_mono)

lemma validateReceiptStore_checked:
  assumes "st_version v = md_version M" "0 \<le> st_revision v" "safe_integer (st_revision v)"
    "length (st_items v) \<le> md_maxItems M" "length (st_operations v) \<le> md_maxOperations M"
    "st_revision v = int (length (st_operations v))"
    "each_indexed (itemCheck M (st_items v)) (st_items v) = None" "md_itemsRule M (st_items v) = None"
    "validateHistory M (set (map (md_id M) (st_items v))) {} None 0 Map.empty (st_operations v) = Inr seen"
    "card (set (map (md_id M \<circ> rc_item) (st_operations v))) = length (st_items v)"
    "throws (map (currentCheck M seen) (st_items v)) = None"
  shows "validateReceiptStore M v = guard (md_storeLimit M (store_json M v) v) (Inr v)"
  unfolding validateReceiptStore_def assms(9) using assms(1-5,7,8,10,11) assms(6) [symmetric]
  by (cases "md_storeLimit M (store_json M v) v") (simp_all add: not_less)

lemma validateHistory_revisions:
  "validateHistory M ids opIds p n seen cs = Inr seen' \<Longrightarrow>
   map rc_storeRevision cs = map int [Suc n..<Suc (n + length cs)]"
proof (induction cs arbitrary: opIds p n seen)
  case (Cons c cs)
  then obtain snap where c: "validateReceipt M ids n seen c = Inr snap"
    and h: "validateHistory M ids (insert (rc_id c) opIds) (Some (rc_at c)) (Suc n)
       (seen(md_id M snap \<mapsto> snap)) cs = Inr seen'"
    by auto
  from c have "rc_storeRevision c = int (Suc n)" by (auto simp: validateReceipt_def)
  with Cons.IH [OF h] show ?case by (simp add: upt_rec [of "Suc n"] del: upt_Suc)
qed simp

section \<open>Strict modules\<close>

definition latest_of :: "('a \<Rightarrow> string) \<Rightarrow> string \<Rightarrow> 'a receipt list \<Rightarrow> 'a option" where
  "latest_of key k cs =
     (let xs = filter (\<lambda>c. key (rc_item c) = k) cs in
      if xs = [] then None else Some (rc_item (last xs)))"

lemma latest_append:
  "latest_of key k (cs @ [c]) = (if key (rc_item c) = k then Some (rc_item c) else latest_of key k cs)"
  by (simp add: latest_of_def Let_def)

lemma latest_Nil [simp]: "latest_of key k [] = None"
  by (simp add: latest_of_def)

definition appended :: "'a store_module \<Rightarrow> 'a receipt_store \<Rightarrow> 'a receipt \<Rightarrow> 'a receipt_store" where
  "appended M s c = \<lparr>st_version = md_version M, st_revision = st_revision s + 1,
     st_items = put_item (md_id M) (st_items s) (rc_item c), st_operations = st_operations s @ [c]\<rparr>"

locale strict_module =
  fixes M :: "'a store_module"
  assumes strict_same: "md_strict M e v = Inr r \<Longrightarrow> r = v"
    and strict_any: "md_strict M e v = Inr r \<Longrightarrow> md_strict M e' v = Inr r"
    and operations_safe: "int (md_maxOperations M) \<le> MAX_SAFE_INTEGER"
    and item_json_faithful: "faithful (md_json M)"
begin

lemma validateReceipt_same: "validateReceipt M ids n seen c = Inr r \<Longrightarrow> r = rc_item c"
  by (auto simp: validateReceipt_def dest: strict_same)

lemma history_latest:
  "validateHistory M ids opIds p n seen cs = Inr seen' \<Longrightarrow>
   seen' k = (case latest_of (md_id M) k cs of None \<Rightarrow> seen k | Some x \<Rightarrow> Some x)"
proof (induction cs arbitrary: seen' rule: rev_induct)
  case (snoc c cs)
  from snoc.prems obtain seen1 where h: "validateHistory M ids opIds p n seen cs = Inr seen1"
  proof -
    have "\<exists>seen1. validateHistory M ids opIds p n seen cs = Inr seen1"
      using snoc.prems
      by (induction cs arbitrary: opIds p n seen) auto
    then show thesis using that by blast
  qed
  from snoc.prems [unfolded validateHistory_append [OF h]] obtain snap where
    "validateReceipt M ids (n + length cs) seen1 c = Inr snap" "seen' = seen1(md_id M snap \<mapsto> snap)"
    by auto
  with validateReceipt_same snoc.IH [OF h] show ?case by (auto simp: latest_append)
qed simp

lemma history_ids:
  "validateHistory M ids opIds p n seen cs = Inr seen' \<Longrightarrow> md_id M ` rc_item ` set cs \<subseteq> ids"
proof (induction cs arbitrary: opIds p n seen)
  case (Cons d cs)
  then obtain snap where snap: "validateReceipt M ids n seen d = Inr snap"
    "validateHistory M ids (insert (rc_id d) opIds) (Some (rc_at d)) (Suc n)
       (seen(md_id M snap \<mapsto> snap)) cs = Inr seen'"
    by auto
  from snap(1) have "md_id M (rc_item d) \<in> ids"
    using validateReceipt_same [OF snap(1)] by (auto simp: validateReceipt_def)
  with Cons.IH [OF snap(2)] show ?case by simp
qed simp

lemma valid_store_history:
  assumes "validateReceiptStore M s = Inr s"
  obtains seen where
    "validateHistory M (set (map (md_id M) (st_items s))) {} None 0 Map.empty (st_operations s) = Inr seen"
    "\<And>x. x \<in> set (st_items s) \<Longrightarrow> latest_of (md_id M) (md_id M x) (st_operations s) = Some x"
    "set (map (md_id M \<circ> rc_item) (st_operations s)) = set (map (md_id M) (st_items s))"
    "\<And>x e. x \<in> set (st_items s) \<Longrightarrow> md_strict M e x = Inr x"
    "\<And>x. x \<in> set (st_items s) \<Longrightarrow> md_itemLimit M (md_json M x) = None"
proof -
  let ?ids = "set (map (md_id M) (st_items s))"
  from assms obtain seen where h: "validateHistory M ?ids {} None 0 Map.empty (st_operations s) = Inr seen"
    and n: "card (set (map (md_id M \<circ> rc_item) (st_operations s))) = length (st_items s)"
    and cur: "throws (map (currentCheck M seen) (st_items s)) = None"
    and items: "each_indexed (itemCheck M (st_items s)) (st_items s) = None"
    unfolding validateReceiptStore_def guard_Inr attempt_Inr throws_Cons_None throw_if_None by blast
  have last: "latest_of (md_id M) (md_id M x) (st_operations s) = Some x" if "x \<in> set (st_items s)" for x
  proof -
    have "\<exists>y. seen (md_id M x) = Some y \<and> canonicalJson (md_json M y) = canonicalJson (md_json M x)"
      using cur that unfolding throws_map_None by (auto simp: currentCheck_def Let_def split: option.splits)
    then have "seen (md_id M x) = Some x"
      using canonicalJson_faithful [OF item_json_faithful] by blast
    with history_latest [OF h, of "md_id M x"] show ?thesis by (auto split: option.splits)
  qed
  have d: "distinct (map (md_id M) (st_items s))" using validateReceiptStore_Inr [OF assms] by simp
  have "set (map (md_id M \<circ> rc_item) (st_operations s)) \<subseteq> ?ids"
    using history_ids [OF h] by auto
  moreover have "card (set (map (md_id M \<circ> rc_item) (st_operations s))) = card ?ids"
    using n distinct_card [OF d] by simp
  ultimately have ids: "set (map (md_id M \<circ> rc_item) (st_operations s)) = ?ids"
    by (intro card_subset_eq) auto
  have strict: "md_strict M e x = Inr x" "md_itemLimit M (md_json M x) = None" if "x \<in> set (st_items s)" for x e
  proof -
    obtain i where i: "i < length (st_items s)" "st_items s ! i = x"
      using \<open>x \<in> set (st_items s)\<close> by (auto simp: in_set_conv_nth)
    from items [unfolded each_indexed_None, rule_format, OF i(1)]
    have x: "error_of (md_strict M (store_error M (md_noun M @ ''_invalid'')) x) = None"
      and limit: "md_itemLimit M (md_json M x) = None"
      by (simp_all add: itemCheck_def i(2))
    from x obtain r where r: "md_strict M (store_error M (md_noun M @ ''_invalid'')) x = Inr r" by auto
    from strict_any [OF r, of e] strict_same [OF r] show "md_strict M e x = Inr x" by simp
    from limit show "md_itemLimit M (md_json M x) = None" .
  qed
  from that [OF h last ids strict] show thesis .
qed

lemma put_item_length:
  "distinct (map (md_id M) xs) \<Longrightarrow> length (put_item (md_id M) xs x) = card (insert (md_id M x) (md_id M ` set xs))"
proof -
  assume d: "distinct (map (md_id M) xs)"
  have n: "length xs = card (md_id M ` set xs)" using distinct_card [OF d] by simp
  show ?thesis
  proof (cases "md_id M x \<in> md_id M ` set xs")
    case True
    then have "length (put_item (md_id M) xs x) = length xs"
      by (auto simp: put_item_def list_ex_iff)
    with True n show ?thesis by (simp add: insert_absorb)
  next
    case False
    then have "\<not> list_ex (\<lambda>c. md_id M c = md_id M x) xs" by (auto simp: list_ex_iff) (metis imageI)
    then have "length (put_item (md_id M) xs x) = Suc (length xs)" by (simp add: put_item_def)
    with False n show ?thesis by simp
  qed
qed

lemma set_put_item:
  "y \<in> set (put_item (md_id M) xs x) \<Longrightarrow> y = x \<or> y \<in> set xs \<and> md_id M y \<noteq> md_id M x"
  by (auto simp: put_item_def list_ex_iff split: if_splits)

text \<open>A well-formed receipt is only refused for the size of the store.\<close>

lemma nextStore_total:
  assumes valid: "validateReceiptStore M s = Inr s"
    and room: "length (st_operations s) < md_maxOperations M"
      "length (put_item (md_id M) (st_items s) x) \<le> md_maxItems M"
    and form: "operation_id_pattern i" "action \<in> set (md_actions M)" "digest_pattern digest" "valid_timestamp at"
    and new: "i \<notin> set (map rc_id (st_operations s))"
    and clock: "assertChronology M s at = None"
    and strict: "md_strict M e x = Inr x"
    and limits: "md_itemLimit M (md_json M x) = None" "md_receiptLimit M (receipt_json M c) = None"
      "md_itemsRule M (put_item (md_id M) (st_items s) x) = None"
    and cycle: "md_lifecycle M c (latest_of (md_id M) (md_id M x) (st_operations s)) = None"
    and c: "c = \<lparr>rc_id = i, rc_action = action, rc_requestDigest = digest, rc_at = at,
       rc_storeRevision = st_revision s + 1, rc_item = x\<rparr>"
  shows "nextStore M s i action digest at x =
    guard (md_storeLimit M (store_json M (appended M s c)) (appended M s c)) (Inr (appended M s c))"
proof -
  let ?n = "appended M s c"
  from valid_store_history [OF valid] obtain seen where
    h: "validateHistory M (set (map (md_id M) (st_items s))) {} None 0 Map.empty (st_operations s) = Inr seen"
    and last: "\<And>y. y \<in> set (st_items s) \<Longrightarrow> latest_of (md_id M) (md_id M y) (st_operations s) = Some y"
    and ids: "set (map (md_id M \<circ> rc_item) (st_operations s)) = set (map (md_id M) (st_items s))"
    and stricts: "\<And>y e. y \<in> set (st_items s) \<Longrightarrow> md_strict M e y = Inr y"
      "\<And>y. y \<in> set (st_items s) \<Longrightarrow> md_itemLimit M (md_json M y) = None" by blast
  note v = validateReceiptStore_Inr [OF valid]
  let ?ids = "set (map (md_id M) (st_items ?n))"
  have sub: "set (map (md_id M) (st_items s)) \<subseteq> ?ids" "md_id M x \<in> ?ids"
    by (auto simp: appended_def put_item_ids [of "md_id M"] simp flip: set_map simp: c)
  have previous: "seen (md_id M x) = latest_of (md_id M) (md_id M x) (st_operations s)"
    using history_latest [OF h, of "md_id M x"] by (auto split: option.splits)
  have receipt: "validateReceipt M ?ids (length (st_operations s)) seen c = Inr x"
    using form strict_any [OF strict] sub(2) cycle v previous limits(2)
    by (simp add: validateReceipt_def c)
  have time: "\<not> (case previous_at None (st_operations s) of None \<Rightarrow> False | Some q \<Rightarrow> date_ms (rc_at c) < date_ms q)"
    using clock by (auto simp: assertChronology_def previous_at_def c)
  have hist: "validateHistory M ?ids {} None 0 Map.empty (st_operations ?n) = Inr (seen(md_id M x \<mapsto> x))"
  proof -
    have "validateHistory M ?ids {} None 0 Map.empty (st_operations s @ [c]) = Inr (seen(md_id M x \<mapsto> x))"
      unfolding validateHistory_append [OF validateHistory_mono [OF h sub(1)]]
      using receipt time new by (simp add: c(1) [THEN arg_cong, of rc_id])
    then show ?thesis by (simp add: appended_def)
  qed
  have d: "distinct (map (md_id M) (st_items s))" using v by simp
  have distinct: "distinct (map (md_id M) (st_items ?n))"
    using d by (simp add: appended_def put_item_ids c)
  have all: "(\<exists>r. md_strict M e y = Inr r) \<and> md_itemLimit M (md_json M y) = None" if "y \<in> set (st_items ?n)" for y e
    using that set_put_item [of y "st_items s" x] stricts strict_any [OF strict] limits(1)
    by (auto simp: appended_def c)
  have count: "card (set (map (md_id M \<circ> rc_item) (st_operations ?n))) = length (st_items ?n)"
  proof -
    have "set (map (md_id M \<circ> rc_item) (st_operations ?n)) = insert (md_id M x) (md_id M ` set (st_items s))"
      using ids by (simp add: appended_def c)
    then show ?thesis using put_item_length [OF d, of x] by (simp add: appended_def c)
  qed
  have current: "(seen(md_id M x \<mapsto> x)) (md_id M y) = Some y"
    if "y \<in> set (st_items ?n)" for y
    using that set_put_item [of y "st_items s" x] last [of y] history_latest [OF h, of "md_id M y"]
    by (auto simp: appended_def c split: option.splits)
  have "safe_integer (st_revision s + 1)"
    using v room(1) operations_safe by (simp add: safe_integer_def MAX_SAFE_INTEGER_def)
  moreover have "each_indexed (itemCheck M (st_items ?n)) (st_items ?n) = None"
    unfolding each_indexed_None itemCheck_def using all distinct [folded never_seen_distinct] by auto
  moreover have "md_itemsRule M (st_items ?n) = None" using limits(3) by (simp add: appended_def c)
  moreover have "throws (map (currentCheck M (seen(md_id M x \<mapsto> x))) (st_items ?n)) = None"
    unfolding throws_map_None
  proof
    fix y assume "y \<in> set (st_items ?n)"
    from current [OF this] show "currentCheck M (seen(md_id M x \<mapsto> x)) y = None"
      by (simp only: currentCheck_def Let_def option.case) simp
  qed
  moreover have "st_version ?n = md_version M" "st_revision ?n = st_revision s + 1"
    "st_revision ?n = int (length (st_operations ?n))" "length (st_items ?n) \<le> md_maxItems M"
    "length (st_operations ?n) \<le> md_maxOperations M"
    using v room by (simp_all add: appended_def c)
  moreover have "0 \<le> st_revision ?n" using v by (simp add: appended_def)
  ultimately have "validateReceiptStore M ?n = guard (md_storeLimit M (store_json M ?n) ?n) (Inr ?n)"
    by (intro validateReceiptStore_checked [OF _ _ _ _ _ _ _ _ hist count]) simp_all
  then show ?thesis by (simp add: nextStore_def appended_def c Let_def)
qed

end

end
