(* ===== verification/StoreCourse.thy ===== *)
theory StoreCourse
  imports ReceiptHistory Machine
begin

text \<open>
  What a store remembers of its items. When every committed receipt either starts an item or
  makes one step from the stored item, the receipts of an item are its whole history: they
  begin with a start, each next snapshot is a step from the one before, and the last one is
  the item that is stored.
\<close>

definition snapshots :: "('a \<Rightarrow> string) \<Rightarrow> 'a receipt_store \<Rightarrow> string \<Rightarrow> 'a list" where
  "snapshots key s i = filter (\<lambda>x. key x = i) (map rc_item (st_operations s))"

definition item_history :: "('a \<Rightarrow> bool) \<Rightarrow> ('a \<Rightarrow> 'a \<Rightarrow> bool) \<Rightarrow> 'a list \<Rightarrow> bool" where
  "item_history start step xs \<longleftrightarrow> xs \<noteq> [] \<and> start (hd xs) \<and> successively step xs"

definition store_history ::
  "('a \<Rightarrow> string) \<Rightarrow> ('a \<Rightarrow> bool) \<Rightarrow> ('a \<Rightarrow> 'a \<Rightarrow> bool) \<Rightarrow> 'a receipt_store \<Rightarrow> bool" where
  "store_history key start step s \<longleftrightarrow>
     (\<forall>x \<in> set (st_items s). item_history start step (snapshots key s (key x)) \<and> last (snapshots key s (key x)) = x)"

lemma snapshots_append:
  "st_operations t = st_operations s @ [c] \<Longrightarrow>
   snapshots key t i = (if key (rc_item c) = i then snapshots key s i @ [rc_item c] else snapshots key s i)"
  by (simp add: snapshots_def)

lemma item_history_snoc: "item_history start step xs \<Longrightarrow> step (last xs) x \<Longrightarrow> item_history start step (xs @ [x])"
  by (auto simp: item_history_def successively_append_iff)

lemma item_history_single: "start x \<Longrightarrow> item_history start step [x]"
  by (simp add: item_history_def)

lemma item_history_reaches: "item_history start step xs \<Longrightarrow> reaches start step (last xs)"
proof (induction xs rule: rev_induct)
  case (snoc x xs)
  show ?case
  proof (cases "xs = []")
    case True
    with snoc.prems show ?thesis by (auto simp: item_history_def intro: reaches_start)
  next
    case False
    with snoc.prems have "item_history start step xs" "step (last xs) x"
      by (auto simp: item_history_def successively_append_iff)
    with snoc.IH show ?thesis by (auto intro: reaches_step)
  qed
qed (simp add: item_history_def)

text \<open>The next store records a new item, or a step of a stored one.\<close>

definition course_commit ::
  "'a store_module \<Rightarrow> ('a \<Rightarrow> bool) \<Rightarrow> ('a \<Rightarrow> 'a \<Rightarrow> bool) \<Rightarrow> 'a receipt_store \<Rightarrow> 'a receipt_store \<Rightarrow> bool" where
  "course_commit M start step s t \<longleftrightarrow>
     (\<exists>i action digest at x. nextStore M s i action digest at x = Inr t \<and>
        (md_id M x \<notin> md_id M ` set (st_items s) \<and> start x
         \<or> (\<exists>z \<in> set (st_items s). md_id M x = md_id M z \<and> step z x)))"

lemma course_commit_new:
  "nextStore M s i action digest at x = Inr t \<Longrightarrow> md_id M x \<notin> md_id M ` set (st_items s) \<Longrightarrow> start x \<Longrightarrow>
   course_commit M start step s t"
  unfolding course_commit_def by metis

lemma course_commit_step:
  "nextStore M s i action digest at x = Inr t \<Longrightarrow> z \<in> set (st_items s) \<Longrightarrow> md_id M x = md_id M z \<Longrightarrow>
   step z x \<Longrightarrow> course_commit M start step s t"
  unfolding course_commit_def by metis

text \<open>A store whose receipts are histories, and a property of the items that commits keep.\<close>

definition course_inv_of ::
  "'a store_module \<Rightarrow> ('a \<Rightarrow> bool) \<Rightarrow> ('a \<Rightarrow> 'a \<Rightarrow> bool) \<Rightarrow> ('a receipt_store \<Rightarrow> bool) \<Rightarrow> 'a repository \<Rightarrow> bool" where
  "course_inv_of M start step keeps repo \<longleftrightarrow> consistent M repo \<and>
     (rp_poisoned repo = None \<longrightarrow>
        (\<exists>s. current_store M repo = Inr s \<and> store_history (md_id M) start step s \<and> keeps s))"

locale item_course = durable_repository M identity fresh decide + strict_module M
  for M :: "'a store_module"
    and identity :: "'op \<Rightarrow> string \<times> string \<times> string"
    and fresh :: "'op \<Rightarrow> 'a environment \<Rightarrow> 'a receipt_store \<Rightarrow> 'a decision result"
    and decide :: "'op \<Rightarrow> 'a environment \<Rightarrow> 'a receipt_store \<Rightarrow> 'a decision result" +
  fixes start :: "'a \<Rightarrow> bool" and step :: "'a \<Rightarrow> 'a \<Rightarrow> bool" and keeps :: "'a receipt_store \<Rightarrow> bool"
  assumes fresh_course: "validateReceiptStore M s = Inr s \<Longrightarrow> store_history (md_id M) start step s \<Longrightarrow>
      keeps s \<Longrightarrow> fresh op env s = Inr (Commit t y) \<Longrightarrow>
      keeps t \<and> course_commit M start step s t"
    and keeps_empty: "keeps (emptyReceiptStore M)"
begin

lemma decide_commit_fresh: "decide op env s = Inr (Commit t y) \<Longrightarrow> fresh op env s = Inr (Commit t y)"
  by (cases "identity op") (auto simp: replay_first split: option.splits)

lemma snapshots_unknown:
  assumes "validateReceiptStore M s = Inr s" "i \<notin> md_id M ` set (st_items s)"
  shows "snapshots (md_id M) s i = []"
proof -
  have "set (map (md_id M \<circ> rc_item) (st_operations s)) = md_id M ` set (st_items s)"
    using valid_store_history [OF assms(1)] by (metis set_map)
  with assms(2) show ?thesis by (auto simp: snapshots_def filter_empty_conv)
qed

lemma commit_history:
  assumes valid: "validateReceiptStore M s = Inr s" and hist: "store_history (md_id M) start step s"
    and keep: "keeps s" and commit: "decide op env s = Inr (Commit t y)"
  shows "store_history (md_id M) start step t \<and> keeps t"
proof -
  from fresh_course [OF valid hist keep decide_commit_fresh [OF commit], unfolded course_commit_def] obtain i action digest at x where
    t: "keeps t" and n: "nextStore M s i action digest at x = Inr t"
    and x: "md_id M x \<notin> md_id M ` set (st_items s) \<and> start x
         \<or> (\<exists>z \<in> set (st_items s). md_id M x = md_id M z \<and> step z x)" by blast
  note st = nextStore_Inr [OF n]
  note snap = snapshots_append [OF st(4)]
  have grown: "item_history start step (snapshots (md_id M) t (md_id M x))" (is "?h x")
    using x
  proof
    assume "md_id M x \<notin> md_id M ` set (st_items s) \<and> start x"
    with snapshots_unknown [OF valid] show ?thesis by (simp add: snap item_history_single)
  next
    assume "\<exists>z \<in> set (st_items s). md_id M x = md_id M z \<and> step z x"
    with hist show ?thesis by (auto simp: snap store_history_def intro: item_history_snoc)
  qed
  have "?h q \<and> last (snapshots (md_id M) t (md_id M q)) = q" if "q \<in> set (st_items t)" for q
  proof -
    from that st(3) have "q = x \<or> q \<in> set (st_items s) \<and> md_id M q \<noteq> md_id M x"
      using set_put_item [of q "st_items s" x] by simp
    then show ?thesis
    proof
      assume "q = x"
      with grown show ?thesis by (simp add: snap)
    next
      assume "q \<in> set (st_items s) \<and> md_id M q \<noteq> md_id M x"
      with hist show ?thesis by (auto simp: snap store_history_def)
    qed
  qed
  with t show ?thesis by (simp add: store_history_def)
qed

lemma course_opened: "course_inv_of M start step keeps (new_repository F_absent)"
  using opened_consistent [of "new_repository F_absent"] keeps_empty
  by (auto simp: course_inv_of_def opened_def new_repository_def current_store_def readStoreFile_def
      store_history_def emptyReceiptStore_def)

lemma course_mutates:
  assumes inv: "course_inv_of M start step keeps repo" and step: "mutates M decide repo repo'"
  shows "course_inv_of M start step keeps repo'"
proof -
  have c: "consistent M repo" "consistent M repo'"
    using inv mutates_consistent [OF _ step] by (auto simp: course_inv_of_def)
  have "\<exists>t. current_store M repo' = Inr t \<and> store_history (md_id M) start step t \<and> keeps t"
    if p: "rp_poisoned repo' = None"
  proof -
    from mutates_unpoisoned [OF step p] inv obtain s where
      s: "current_store M repo = Inr s" "store_history (md_id M) start step s" "keeps s"
      by (auto simp: course_inv_of_def)
    from step obtain op env res where "mutate M env (decide op env) repo = (res, repo')"
      by (auto simp: mutates_def)
    from mutate_outcome [OF c(1) this p] s commit_history [OF current_valid [OF c(1) s(1)] s(2,3)]
    show ?thesis by auto
  qed
  with c(2) show ?thesis by (simp add: course_inv_of_def)
qed

end

sublocale item_course \<subseteq> course: machine "\<lambda>repo. repo = new_repository F_absent" "mutates M decide"
  "course_inv_of M start step keeps"
  by unfold_locales (auto intro: course_opened course_mutates)

context item_course
begin

text \<open>A repository whose file did not exist when its process began.\<close>

lemma reached_store:
  assumes "reaches (\<lambda>repo. repo = new_repository F_absent) (mutates M decide) repo" "rp_poisoned repo = None"
    "current_store M repo = Inr s"
  shows "validateReceiptStore M s = Inr s \<and> store_history (md_id M) start step s \<and> keeps s"
  using course.reaches_inv [OF assms(1)] assms(2,3) current_valid by (auto simp: course_inv_of_def)

lemma reached_item:
  assumes "reaches (\<lambda>repo. repo = new_repository F_absent) (mutates M decide) repo" "rp_poisoned repo = None"
    "current_store M repo = Inr s" "x \<in> set (st_items s)"
  shows "item_history start step (snapshots (md_id M) s (md_id M x)) \<and> last (snapshots (md_id M) s (md_id M x)) = x
    \<and> reaches start step x"
  using reached_store [OF assms(1-3)] assms(4) item_history_reaches by (fastforce simp: store_history_def)

end

end
