(* ===== verification/RunStoreFacts.thy ===== *)
theory RunStoreFacts
  imports DeliveryRunStore StoreCourse RunFrame
begin

text \<open>
  The store of delivery runs against delivery-run.js: an operation that delivery-run.js
  accepts on a stored run always yields a receipt that the store's validator accepts, and the
  receipts of a run are the history of one delivery run.
\<close>

section \<open>The item validator\<close>

lemma strictRun_valid:
  "valid_run H r \<Longrightarrow> strictRun H e r =
     guard (throw_if (MAX_RUN_BYTES < byteLength (run_json r)) (drs_error ''run_too_large'')) (Inr r)"
  by (cases "MAX_RUN_BYTES < byteLength (run_json r)")
    (simp_all add: strictRun_def validateDeliveryRun_Inr [THEN iffD2])

lemma strictRun_Inr: "strictRun H e v = Inr r \<longleftrightarrow> valid_run H v \<and> byteLength (run_json v) \<le> MAX_RUN_BYTES \<and> r = v"
proof (cases "validateDeliveryRun H v")
  case (Inl cause)
  then have "\<not> valid_run H v" using validateDeliveryRun_Inr [of H v v] by auto
  with Inl show ?thesis by (simp add: strictRun_def)
next
  case (Inr w)
  then have "valid_run H v" by (simp add: validateDeliveryRun_Inr)
  then show ?thesis by (auto simp: strictRun_valid)
qed

interpretation strict_runs: strict_module "run_module H" for H :: host
  by unfold_locales (auto simp: strictRun_Inr MAX_SAFE_INTEGER_def run_json_faithful)

section \<open>The lifecycle of consecutive receipts\<close>

lemma canonical_strings_eq [simp]:
  "canonicalJson (json_strings xs) = canonicalJson (json_strings ys) \<longleftrightarrow> xs = ys"
  by (simp add: canonicalJson_norm_iff json_strings_inj)

lemma plan_kept_binding:
  assumes "plan_kept run r"
  shows "\<not> plan_binding_changed r run"
proof -
  have tasks: "map task_plan (rn_tasks r) = map task_plan (rn_tasks run)" using assms by (simp add: plan_kept_def)
  then have len: "length (rn_tasks r) = length (rn_tasks run)" by (rule map_eq_imp_length_eq)
  have eq: "task_plan (rn_tasks r ! i) = task_plan (rn_tasks run ! i)" if "i < length (rn_tasks run)" for i
    using tasks len that by (metis nth_map)
  have "\<not> list_ex (\<lambda>(t, q). task_binding_changed t q) (zip (rn_tasks r) (rn_tasks run))"
    using len eq by (auto simp: list_ex_iff in_set_zip task_binding_changed_def task_plan_def)
  with assms len show ?thesis by (auto simp: plan_binding_changed_def plan_kept_def)
qed

lemma is_abort_action: "is_abort (change_operation H i at ch) \<longleftrightarrow> change_action ch = ''run.abort''"
  by (cases ch) (simp_all add: is_abort_def)

lemma change_action_known: "change_action ch \<in> set RUN_ACTIONS \<and> change_action ch \<noteq> ''run.create''"
  by (cases ch) (simp_all add: RUN_ACTIONS_def)

lemma change_lifecycle:
  assumes op: "apply_operation H (change_operation H i at ch) at run = Inr r" and at: "valid_timestamp at"
    and c: "rc_action c = change_action ch" "rc_at c = at" "rc_item c = r"
  shows "run_receipt_lifecycle c (Some run) = None"
proof -
  note kept = operation_keeps [OF op]
  have "\<not> plan_binding_changed r run" by (rule plan_kept_binding [OF kept])
  moreover have "rn_revision r = rn_revision run + 1" "rn_createdAt r = rn_createdAt run"
    using kept by (simp_all add: plan_kept_def)
  moreover have "dr_timestamp at = Inr t \<Longrightarrow> t = at" for t
    using valid_timestamp_inline [OF at] by (simp add: dr_timestamp_def split: if_splits)
  ultimately show ?thesis
    using c change_action_known [of ch] operation_abort [OF op] operation_not_abort [OF op]
    by (cases "change_action ch = ''run.abort''") (auto simp: run_receipt_lifecycle_def is_abort_action)
qed

lemma create_lifecycle:
  assumes "createDeliveryRun H v at = Inr run" "rc_action c = ''run.create''" "rc_item c = run"
  shows "run_receipt_lifecycle c None = None"
  using create_success [OF assms(1)] assms(2,3) by (simp add: run_receipt_lifecycle_def)

section \<open>Prepared requests\<close>

text \<open>SHA-256 digests are 64 hexadecimal digits.\<close>

definition sha256_hex :: "host \<Rightarrow> bool" where
  "sha256_hex H \<longleftrightarrow> (\<forall>s. digest_pattern (sha256hex H s))"

lemma prepareChange_Inr:
  assumes "prepareChange H q = Inr p" "sha256_hex H"
  shows "operation_id_pattern (pr_id p)" "digest_pattern (pr_digest p)" "pr_change p = cq_change q"
    "pr_storeRevision p = cq_expectedStoreRevision q"
  using assms
  by (auto simp: prepareChange_def st_operationId_def requestSnapshot_def requestedRevision_def Let_def
      sha256_hex_def canonicalSha256_def)

lemma prepareCreate_Inr:
  assumes "prepareCreate H q = Inr p" "sha256_hex H"
  shows "operation_id_pattern (pr_id p)" "digest_pattern (pr_digest p)" "pr_run p = crq_run q"
    "pr_storeRevision p = crq_expectedStoreRevision q"
  using assms
  by (auto simp: prepareCreate_def st_operationId_def requestSnapshot_def requestedRevision_def Let_def
      sha256_hex_def canonicalSha256_def)

section \<open>Stored runs\<close>

lemma stored_latest:
  assumes "validateReceiptStore (run_module H) s = Inr s" "find (\<lambda>c. rn_id c = i) (st_items s) = Some run"
  shows "latest_of rn_id (rn_id run) (st_operations s) = Some run"
proof -
  have "run \<in> set (st_items s)" using find_SomeD [OF assms(2)] by simp
  with strict_runs.valid_store_history [OF assms(1)] show ?thesis unfolding run_module_simps by metis
qed

lemma stored_run_replaced:
  assumes "validateReceiptStore (run_module H) s = Inr s" "run \<in> set (st_items s)" "rn_id r = rn_id run"
  shows "length (put_item rn_id (st_items s) r) \<le> 64"
proof -
  note v = validateReceiptStore_Inr [OF assms(1)]
  have "length (put_item rn_id (st_items s) r) = card (insert (rn_id r) (rn_id ` set (st_items s)))"
    using strict_runs.put_item_length [of H "st_items s" r] v by simp
  also have "\<dots> = length (st_items s)"
    using assms(2,3) v distinct_card [of "map rn_id (st_items s)"] by (simp add: insert_absorb)
  finally show ?thesis using v by simp
qed

text \<open>The receipt and the store that a change writes.\<close>

definition change_receipt ::
  "prepared_change \<Rightarrow> string \<Rightarrow> delivery_run receipt_store \<Rightarrow> delivery_run \<Rightarrow> delivery_run receipt" where
  "change_receipt p at s r = \<lparr>rc_id = pr_id p, rc_action = change_action (pr_change p),
     rc_requestDigest = pr_digest p, rc_at = at, rc_storeRevision = st_revision s + 1, rc_item = r\<rparr>"

lemma change_stored:
  assumes "sha256_hex H" "prepareChange H q = Inr p" "validateReceiptStore (run_module H) s = Inr s"
    "find (\<lambda>c. rn_id c = pr_runId p) (st_items s) = Some run"
    "pr_id p \<notin> set (map rc_id (st_operations s))" "length (st_operations s) < 512"
    "valid_timestamp at" "assertChronology (run_module H) s at = None"
    "apply_operation H (change_operation H (pr_id p) at (pr_change p)) at run = Inr r"
    "byteLength (run_json r) \<le> MAX_RUN_BYTES"
  shows "nextStore (run_module H) s (pr_id p) (change_action (pr_change p)) (pr_digest p) at r =
    guard (throw_if (MAX_STORE_BYTES <
        byteLength (store_json (run_module H) (appended (run_module H) s (change_receipt p at s r))))
      (drs_error ''too_large''))
    (Inr (appended (run_module H) s (change_receipt p at s r)))"
proof -
  note p = prepareChange_Inr [OF assms(2,1)]
  have run: "run \<in> set (st_items s)" using find_SomeD [OF assms(4)] by simp
  have kept: "rn_id r = rn_id run" using operation_keeps [OF assms(9)] by (simp add: plan_kept_def)
  have e: "guard (throw_if (MAX_STORE_BYTES < byteLength (store_json (run_module H) t)) (drs_error ''too_large'')) (Inr t) =
      guard (md_storeLimit (run_module H) (store_json (run_module H) t) t) (Inr t)" for t
    by (simp add: compactLimit_def)
  show ?thesis
    unfolding e
  proof (rule strict_runs.nextStore_total)
    show "md_strict (run_module H) (Error []) r = Inr r"
      using operation_valid [OF assms(9)] assms(10) by (simp add: strictRun_Inr)
    show "md_lifecycle (run_module H) (change_receipt p at s r)
        (latest_of (md_id (run_module H)) (md_id (run_module H) r) (st_operations s)) = None"
      using stored_latest [OF assms(3,4)] change_lifecycle [OF assms(9,7), of "change_receipt p at s r"]
      by (simp add: kept change_receipt_def)
    show "length (put_item (md_id (run_module H)) (st_items s) r) \<le> md_maxItems (run_module H)"
      using stored_run_replaced [OF assms(3) run kept] by simp
  qed (use assms p change_action_known in \<open>simp_all add: change_receipt_def\<close>)
qed

definition create_receipt ::
  "prepared_create \<Rightarrow> string \<Rightarrow> delivery_run receipt_store \<Rightarrow> delivery_run \<Rightarrow> delivery_run receipt" where
  "create_receipt p at s r = \<lparr>rc_id = pr_id p, rc_action = ''run.create'',
     rc_requestDigest = pr_digest p, rc_at = at, rc_storeRevision = st_revision s + 1, rc_item = r\<rparr>"

lemma create_stored:
  assumes "sha256_hex H" "prepareCreate H q = Inr p" "validateReceiptStore (run_module H) s = Inr s"
    "rn_id r \<notin> rn_id ` set (st_items s)" "length (st_items s) < 64"
    "pr_id p \<notin> set (map rc_id (st_operations s))" "length (st_operations s) < 512"
    "valid_timestamp at" "assertChronology (run_module H) s at = None"
    "createDeliveryRun H v at = Inr r" "byteLength (run_json r) \<le> MAX_RUN_BYTES"
  shows "nextStore (run_module H) s (pr_id p) ''run.create'' (pr_digest p) at r =
    guard (throw_if (MAX_STORE_BYTES <
        byteLength (store_json (run_module H) (appended (run_module H) s (create_receipt p at s r))))
      (drs_error ''too_large''))
    (Inr (appended (run_module H) s (create_receipt p at s r)))"
proof -
  note p = prepareCreate_Inr [OF assms(2,1)]
  have e: "guard (throw_if (MAX_STORE_BYTES < byteLength (store_json (run_module H) t)) (drs_error ''too_large'')) (Inr t) =
      guard (md_storeLimit (run_module H) (store_json (run_module H) t) t) (Inr t)" for t
    by (simp add: compactLimit_def)
  have ids: "set (map (rn_id \<circ> rc_item) (st_operations s)) = rn_id ` set (st_items s)"
    using strict_runs.valid_store_history [OF assms(3)] unfolding run_module_simps by (metis set_map)
  then have "rn_id (rc_item c) \<noteq> rn_id r" if "c \<in> set (st_operations s)" for c
    using assms(4) that by (metis comp_apply image_eqI set_map)
  then have none: "latest_of rn_id (rn_id r) (st_operations s) = None"
    by (simp add: latest_of_def Let_def filter_empty_conv)
  have n: "put_item rn_id (st_items s) r = st_items s @ [r]"
    using assms(4) unfolding put_item_def list_ex_iff by (metis image_eqI)
  show ?thesis
    unfolding e
  proof (rule strict_runs.nextStore_total)
    show "md_strict (run_module H) (Error []) r = Inr r"
      using create_success(1) [OF assms(10)] assms(11) by (simp add: strictRun_Inr)
    show "md_lifecycle (run_module H) (create_receipt p at s r)
        (latest_of (md_id (run_module H)) (md_id (run_module H) r) (st_operations s)) = None"
      using create_lifecycle [OF assms(10), of "create_receipt p at s r"] by (simp add: none create_receipt_def)
  qed (use assms p n in \<open>simp_all add: create_receipt_def RUN_ACTIONS_def\<close>)
qed

section \<open>The history of a run\<close>

abbreviation run_history :: "host \<Rightarrow> delivery_run list \<Rightarrow> bool" where
  "run_history H \<equiv> item_history (run_created H) (run_operates H)"

definition plan_binding :: "delivery_run \<Rightarrow> string \<times> string" where
  "plan_binding run = (rn_planId run, rn_planDigest run)"

definition plans_bound_once :: "delivery_run receipt_store \<Rightarrow> bool" where
  "plans_bound_once s \<longleftrightarrow> distinct (map plan_binding (st_items s))"

lemma map_put_item:
  assumes "run \<in> set xs" "rn_id r = rn_id run" "distinct (map rn_id xs)" "f r = f run"
  shows "map f (put_item rn_id xs r) = map f xs"
proof -
  have "c = run" if "c \<in> set xs" "rn_id c = rn_id r" for c
    using that assms(1-3) by (metis distinct_map inj_on_def)
  moreover have "list_ex (\<lambda>c. rn_id c = rn_id r) xs" using assms(1,2) by (auto simp: list_ex_iff)
  ultimately show ?thesis using assms(4) by (auto simp: put_item_def)
qed

lemma change_course:
  assumes "validateReceiptStore (run_module H) s = Inr s" "plans_bound_once s"
    "freshChange H p env s = Inr (Commit t y)"
  shows "plans_bound_once t \<and> course_commit (run_module H) (run_created H) (run_operates H) s t"
  using assms(3)
proof (rule freshChange_Inr)
  fix run r t' at
  assume run: "find (\<lambda>c. rn_id c = pr_runId p) (st_items s) = Some run"
    and op: "apply_operation H (change_operation H (pr_id p) at (pr_change p)) at run = Inr r"
    and n: "nextStore (run_module H) s (pr_id p) (change_action (pr_change p)) (pr_digest p) at r = Inr t'"
    and "Commit t y = Commit t' (fresh_reply s r)"
  then have t: "t' = t" by simp
  have mem: "run \<in> set (st_items s)" using find_SomeD [OF run] by simp
  have kept: "rn_id r = rn_id run" "plan_binding r = plan_binding run"
    using operation_keeps [OF op] by (simp_all add: plan_kept_def plan_binding_def)
  have d: "distinct (map rn_id (st_items s))" using validateReceiptStore_Inr [OF assms(1)] by simp
  note st = nextStore_Inr [OF n, unfolded t run_module_simps]
  have "map plan_binding (st_items t) = map plan_binding (st_items s)"
    unfolding st(3) by (rule map_put_item [OF mem kept(1) d kept(2)])
  with assms(2) have "plans_bound_once t" by (simp add: plans_bound_once_def)
  moreover have "run_operates H run r" using op by (auto simp: run_operates_def)
  ultimately show ?thesis using course_commit_step [OF n [unfolded t] mem] kept(1) by simp
qed

lemma create_course:
  assumes "plans_bound_once s" "freshCreate H p env s = Inr (Commit t y)"
  shows "plans_bound_once t \<and> course_commit (run_module H) (run_created H) (run_operates H) s t"
  using assms(2)
proof (rule freshCreate_Inr)
  fix run t' at i
  assume i: "run_id_pattern i" and new: "\<forall>c \<in> set (st_items s). rn_id c \<noteq> i"
    and op: "createDeliveryRun H (create_input_of (pr_run p) i) at = Inr run"
    and unbound: "\<forall>c \<in> set (st_items s). \<not> (rn_planId c = rn_planId run \<and> rn_planDigest c = rn_planDigest run)"
    and n: "nextStore (run_module H) s (pr_id p) ''run.create'' (pr_digest p) at run = Inr t'"
    and "Commit t y = Commit t' (fresh_reply s run)"
  then have t: "t' = t" by simp
  note st = nextStore_Inr [OF n, unfolded t run_module_simps]
  have fresh: "rn_id run \<notin> rn_id ` set (st_items s)"
    using create_identity [OF op] new run_id_normal [OF i] by (auto simp: create_input_of_def)
  then have items: "st_items t = st_items s @ [run]"
    unfolding st(3) put_item_def list_ex_iff by (metis image_eqI)
  have "run_created H run" using op by (auto simp: run_created_def)
  moreover have "plans_bound_once t"
    using assms(1) unbound by (auto simp: plans_bound_once_def items plan_binding_def)
  ultimately show ?thesis using course_commit_new [OF n [unfolded t]] fresh by simp
qed

interpretation run_courses: item_course "run_module H" run_identity "run_fresh H" "run_decide H"
  "run_created H" "run_operates H" plans_bound_once for H :: host
proof
  fix s op env t y
  assume "validateReceiptStore (run_module H) s = Inr s" "plans_bound_once s"
    "run_fresh H op env s = Inr (Commit t y)"
  then show "plans_bound_once t \<and> course_commit (run_module H) (run_created H) (run_operates H) s t"
    by (cases op) (auto dest: change_course create_course)
next
  show "plans_bound_once (emptyReceiptStore (run_module H))"
    by (simp add: plans_bound_once_def emptyReceiptStore_def)
qed

abbreviation run_mutates :: "host \<Rightarrow> run_repository \<Rightarrow> run_repository \<Rightarrow> bool" where
  "run_mutates H \<equiv> mutates (run_module H) (run_decide H)"

abbreviation run_repository_reached :: "host \<Rightarrow> run_repository \<Rightarrow> bool" where
  "run_repository_reached H \<equiv> reaches (\<lambda>repo. repo = new_repository F_absent) (run_mutates H)"

section \<open>Repositories opened on any file\<close>

abbreviation run_repository_open :: "host \<Rightarrow> run_repository \<Rightarrow> bool" where
  "run_repository_open H \<equiv> reaches opened (run_mutates H)"

lemma run_decide_fresh_revision:
  assumes "run_decide H op env s = Inr (Commit t y)"
  shows "st_revision s = expected_revision op"
  using run_courses.decide_commit_fresh [OF assms] by (cases op) (auto elim: freshChange_Inr freshCreate_Inr)

lemma run_decide_stale:
  assumes "fst (run_identity op) \<notin> set (map rc_id (st_operations s))" "st_revision s \<noteq> expected_revision op"
  shows "run_decide H op env s = Inl (drs_error ''revision_conflict'')"
proof -
  have "find (\<lambda>c. rc_id c = fst (run_identity op)) (st_operations s) = None"
    unfolding find_key_None using assms(1) .
  then have "operationReplay (run_module H) s (fst (run_identity op)) a d = Inr None" for a d
    by (simp add: operationReplay_def)
  with assms(2) show ?thesis
    by (cases op) (simp_all add: decideCreate_def decideChange_def freshCreate_def freshChange_def
        assertStoreRevision_def store_error_def drs_error_def)
qed

lemma extends_revision:
  assumes "validateReceiptStore M s = Inr s" "validateReceiptStore M t = Inr t" "extends s t"
  shows "st_revision s \<le> st_revision t"
  using assms validateReceiptStore_Inr [OF assms(1)] validateReceiptStore_Inr [OF assms(2)]
  by (auto simp: extends_def)

section \<open>Sorting for summaries\<close>

lemma newest_insert:
  assumes "sorted_wrt (\<lambda>l r. date_ms (rn_updatedAt r) \<le> date_ms (rn_updatedAt l)) rs"
  shows "sorted_wrt (\<lambda>l r. date_ms (rn_updatedAt r) \<le> date_ms (rn_updatedAt l)) (insert_by (newestFirst H) x rs)"
  using assms
proof (induction rs)
  case (Cons y ys)
  show ?case
  proof (cases "newestFirst H x y \<le> 0")
    case True
    then have "date_ms (rn_updatedAt y) \<le> date_ms (rn_updatedAt x)"
      by (auto simp: newestFirst_def Let_def split: if_splits)
    with Cons.prems True show ?thesis by fastforce
  next
    case False
    then have "date_ms (rn_updatedAt x) \<le> date_ms (rn_updatedAt y)"
      by (auto simp: newestFirst_def Let_def split: if_splits)
    with Cons False show ?thesis by auto
  qed
qed simp

lemma newest_sorted:
  "sorted_wrt (\<lambda>l r. date_ms (rn_updatedAt r) \<le> date_ms (rn_updatedAt l)) (sort_by (newestFirst H) rs)"
  by (induction rs) (simp_all add: sort_by_def newest_insert)

end
