(* ===== verification/RunStoreExample.thy ===== *)
theory RunStoreExample
  imports RunStoreFacts RunExample
begin

text \<open>
  A repository without a file, the creation of the example run and the linking of its first
  mission: the concrete stores that the witnesses of the store's properties use.
\<close>

definition toy_env :: "char \<Rightarrow> delivery_run environment" where
  "toy_env c = \<lparr>en_now = toy_time c, en_newId = ''run-ijklmnop'', en_directory = None,
     en_initial = W_done, en_write = W_done\<rparr>"

lemma toy_env_simps [simp]:
  "en_now (toy_env c) = toy_time c" "en_directory (toy_env c) = None"
  "en_initial (toy_env c) = W_done" "en_write (toy_env c) = W_done"
  by (simp_all add: toy_env_def)

definition toy_create_request :: create_request where
  "toy_create_request = \<lparr>crq_operationId = ''create-1'', crq_expectedStoreRevision = 0,
     crq_run = \<lparr>cri_id = Some ''run-abcdefgh'', cri_planId = ci_planId toy_create,
       cri_planRevision = ci_planRevision toy_create, cri_planDigest = ci_planDigest toy_create,
       cri_workspace = ci_workspace toy_create, cri_startBaseline = ci_startBaseline toy_create,
       cri_tasks = ci_tasks toy_create\<rparr>\<rparr>"

definition toy_link_request :: change_request where
  "toy_link_request = \<lparr>cq_runId = ''run-abcdefgh'', cq_operationId = ''link-001'',
     cq_expectedStoreRevision = 1, cq_expectedRunRevision = 1,
     cq_change = CH_link \<lparr>li_stepId = ''STEP-A'', li_bindingKey = toy_hash CHR ''7'',
       li_missionId = ''mission-12345678''\<rparr>\<rparr>"

definition toy_prepared_create :: prepared_create where
  "toy_prepared_create = \<lparr>pr_id = ''create-1'', pr_digest = toy_hash CHR ''5'', pr_storeRevision = 0,
     pr_run = crq_run toy_create_request\<rparr>"

definition toy_prepared_link :: prepared_change where
  "toy_prepared_link = \<lparr>pr_id = ''link-001'', pr_digest = toy_hash CHR ''b'', pr_storeRevision = 1,
     pr_runId = ''run-abcdefgh'', pr_runRevision = 1, pr_change = cq_change toy_link_request\<rparr>"

lemma toy_prepares_create: "prepareCreate toy_host toy_create_request = Inr toy_prepared_create"
  by code_simp

lemma toy_prepares_link: "prepareChange toy_host toy_link_request = Inr toy_prepared_link"
  by code_simp

lemma toy_sizes: "byteLength (run_json toy_created) = 3335" "byteLength (run_json toy_linked) = 3367"
  by code_simp+

lemma toy_sha: "sha256_hex toy_host"
proof -
  have "is_hex (hex_digit n)" if "n < 16" for n
    using that by (auto simp: hex_digit_def is_hex_def is_digit_def code_def)
  then show ?thesis
    by (auto simp: sha256_hex_def toy_host_def digest_pattern_def list_all_iff)
      (simp add: is_hex_def is_digit_def code_def)
qed

lemma toy_times: "valid_timestamp (toy_time CHR ''0'')" "valid_timestamp (toy_time CHR ''1'')"
    "date_ms (toy_time CHR ''0'') = 1767225600000" "date_ms (toy_time CHR ''1'') = 1767225601000"
  by code_simp+

section \<open>Two mutations\<close>

abbreviation toy_module :: "delivery_run store_module" where
  "toy_module \<equiv> run_module toy_host"

abbreviation toy_store0 :: "delivery_run receipt_store" where
  "toy_store0 \<equiv> emptyReceiptStore toy_module"

definition toy_receipt1 :: "delivery_run receipt" where
  "toy_receipt1 = create_receipt toy_prepared_create (toy_time CHR ''0'') toy_store0 toy_created"

definition toy_store1 :: "delivery_run receipt_store" where
  "toy_store1 = appended toy_module toy_store0 toy_receipt1"

definition toy_receipt2 :: "delivery_run receipt" where
  "toy_receipt2 = change_receipt toy_prepared_link (toy_time CHR ''1'') toy_store1 toy_linked"

definition toy_store2 :: "delivery_run receipt_store" where
  "toy_store2 = appended toy_module toy_store1 toy_receipt2"

lemma toy_store_sizes:
  "byteLength (store_json toy_module toy_store1) \<le> MAX_STORE_BYTES"
  "byteLength (store_json toy_module toy_store2) \<le> MAX_STORE_BYTES"
  by code_simp+

lemma toy_valid0: "validateReceiptStore toy_module toy_store0 = Inr toy_store0"
  by (rule runs.empty_valid)

lemma toy_next1: "nextStore toy_module toy_store0 (pr_id toy_prepared_create) ''run.create''
    (pr_digest toy_prepared_create) (toy_time CHR ''0'') toy_created = Inr toy_store1"
  using create_stored [OF toy_sha toy_prepares_create toy_valid0 _ _ _ _ toy_times(1) _ toy_create_run]
    toy_store_sizes(1) toy_sizes(1)
  by (simp add: emptyReceiptStore_def assertChronology_def toy_store1_def toy_receipt1_def MAX_RUN_BYTES_def)

lemmas toy_valid1 = nextStore_Inr(1) [OF toy_next1]

lemma toy_store1_simps:
  "st_items toy_store1 = [toy_created]" "st_operations toy_store1 = [toy_receipt1]" "st_revision toy_store1 = 1"
  by (simp_all add: toy_store1_def appended_def emptyReceiptStore_def put_item_def toy_receipt1_def create_receipt_def)

lemma toy_receipt1_simps:
  "rc_id toy_receipt1 = ''create-1''" "rc_at toy_receipt1 = toy_time CHR ''0''" "rc_item toy_receipt1 = toy_created"
  by (simp_all add: toy_receipt1_def create_receipt_def toy_prepared_create_def)

lemma toy_link_change: "change_operation toy_host i at (pr_change toy_prepared_link) = toy_link"
  by (simp add: toy_prepared_link_def toy_link_request_def toy_link_def)

lemma toy_found: "find (\<lambda>c. rn_id c = pr_runId toy_prepared_link) (st_items toy_store1) = Some toy_created"
  by (simp add: toy_store1_simps toy_prepared_link_def toy_created_def)

lemma toy_clock: "assertChronology toy_module toy_store1 (toy_time CHR ''1'') = None"
  by (simp add: assertChronology_def toy_store1_simps toy_receipt1_simps toy_times)

lemma toy_next2: "nextStore toy_module toy_store1 (pr_id toy_prepared_link) (change_action (pr_change toy_prepared_link))
    (pr_digest toy_prepared_link) (toy_time CHR ''1'') toy_linked = Inr toy_store2"
  using change_stored [OF toy_sha toy_prepares_link toy_valid1 toy_found _ _ toy_times(2) toy_clock]
    toy_store_sizes(2) toy_sizes(2) toy_link_run
  by (simp add: toy_link_change toy_store1_simps toy_receipt1_simps toy_store2_def toy_receipt2_def
      MAX_RUN_BYTES_def) (simp add: toy_prepared_link_def)

lemmas toy_valid2 = nextStore_Inr(1) [OF toy_next2]

abbreviation toy_repo0 :: run_repository where "toy_repo0 \<equiv> new_repository F_absent"

definition toy_repo1 :: run_repository where
  "toy_repo1 = \<lparr>rp_store = Some toy_store1, rp_file = F_store toy_store1, rp_poisoned = None\<rparr>"

definition toy_repo2 :: run_repository where
  "toy_repo2 = \<lparr>rp_store = Some toy_store2, rp_file = F_store toy_store2, rp_poisoned = None\<rparr>"

abbreviation toy_creation :: run_mutation where "toy_creation \<equiv> M_create toy_prepared_create"
abbreviation toy_linking :: run_mutation where "toy_linking \<equiv> M_change toy_prepared_link"

lemma toy_decides1: "run_decide toy_host toy_creation (toy_env CHR ''0'') toy_store0 =
    Inr (Commit toy_store1 (fresh_reply toy_store0 toy_created))"
proof -
  have "run_id_pattern ''run-abcdefgh''" "to_lower (js_trim ''run-abcdefgh'') = ''run-abcdefgh''"
    by code_simp+
  then have i: "runId ''run-abcdefgh'' = Inr ''run-abcdefgh''" by (simp add: runId_def)
  have v: "create_input_of (pr_run toy_prepared_create) ''run-abcdefgh'' = toy_create"
    and p: "cri_id (pr_run toy_prepared_create) = Some ''run-abcdefgh''" "pr_storeRevision toy_prepared_create = 0"
    by (simp_all add: create_input_of_def toy_prepared_create_def toy_create_request_def toy_create_def)
  show ?thesis
    using toy_next1 toy_create_run
    by (simp add: decideCreate_def operationReplay_def freshCreate_def assertStoreRevision_def assertCapacity_def
        st_timestamp_def assertChronology_def toy_times emptyReceiptStore_def i v p)
qed

lemma toy_decides2: "run_decide toy_host toy_linking (toy_env CHR ''1'') toy_store1 =
    Inr (Commit toy_store2 (fresh_reply toy_store1 toy_linked))"
proof -
  have p: "pr_storeRevision toy_prepared_link = 1" "pr_runRevision toy_prepared_link = 1"
    "''create-1'' \<noteq> pr_id toy_prepared_link" "rn_revision toy_created = 1"
    by (simp_all add: toy_prepared_link_def toy_created_def)
  show ?thesis
    using toy_next2 toy_link_run toy_found toy_clock
    by (simp add: decideChange_def operationReplay_def freshChange_def assertStoreRevision_def assertCapacity_def
        st_timestamp_def toy_times p toy_link_change toy_store1_simps toy_receipt1_simps)
qed

lemma toy_creates: "mutate toy_module (toy_env CHR ''0'') (run_decide toy_host toy_creation (toy_env CHR ''0'')) toy_repo0 =
    (Inr (fresh_reply toy_store0 toy_created), toy_repo1)"
  by (simp add: mutate_def ensureInitialized_def load_def new_repository_def readStoreFile_def
      persist_def toy_valid0 toy_valid1 toy_decides1 toy_repo1_def
      del: run_decide.simps)

lemma toy_links: "mutate toy_module (toy_env CHR ''1'') (run_decide toy_host toy_linking (toy_env CHR ''1'')) toy_repo1 =
    (Inr (fresh_reply toy_store1 toy_linked), toy_repo2)"
  by (simp add: mutate_def ensureInitialized_def toy_repo1_def
      persist_def toy_valid2 toy_decides2 toy_repo2_def
      del: run_decide.simps)

lemma toy_mutates: "run_mutates toy_host toy_repo0 toy_repo1" "run_mutates toy_host toy_repo1 toy_repo2"
  using toy_creates toy_links unfolding mutates_def by blast+

lemma toy_repo0_reached: "run_repository_reached toy_host toy_repo0"
  by (rule reaches_start) simp

lemmas toy_repo1_reached = reaches_step [OF toy_repo0_reached toy_mutates(1)]
lemmas toy_repo2_reached = reaches_step [OF toy_repo1_reached toy_mutates(2)]

lemma toy_consistent: "consistent toy_module toy_repo0" "consistent toy_module toy_repo1" "consistent toy_module toy_repo2"
  using toy_mutates runs.opened_consistent [of toy_repo0 toy_host] runs.mutates_consistent [of toy_host]
  by (auto simp: opened_def)

lemma toy_current: "current_store toy_module toy_repo1 = Inr toy_store1" "current_store toy_module toy_repo2 = Inr toy_store2"
  by (simp_all add: current_store_def toy_repo1_def toy_repo2_def)

end
