(* ===== verification/RunStoreProperties.thy ===== *)
theory RunStoreProperties
  imports RunStoreExample
begin

text \<open>
  The properties of the store of delivery runs: what is stored is the history of runs that
  delivery-run.js produced, requests are idempotent and optimistically concurrent, errors
  leave the store as it was, and what a restart finds.
\<close>

section \<open>What is stored\<close>

text \<open>C39: In every store that a repository reaches from a missing file, the receipts of a run are
  its history: the first one is the result of createDeliveryRun, each next one the result of
  an operation of delivery-run.js on the one before, and the last one is the stored run, which
  therefore is reachable.\<close>

theorem stored_run_is_history:
  assumes "run_repository_reached H repo" "rp_poisoned repo = None"
    "current_store (run_module H) repo = Inr s" "run \<in> set (st_items s)"
  shows "run_history H (snapshots rn_id s (rn_id run)) \<and> last (snapshots rn_id s (rn_id run)) = run
    \<and> run_reachable H run"
  using run_courses.reached_item [OF assms] by simp

theorem stored_run_is_history_witness:
  "\<exists>run \<in> set (st_items toy_store2). run_history toy_host (snapshots rn_id toy_store2 (rn_id run))"
proof -
  have "toy_linked \<in> set (st_items toy_store2)"
    by (auto simp: toy_store2_def appended_def put_item_def toy_receipt2_def change_receipt_def toy_store1_simps
        toy_linked_def)
  with stored_run_is_history [OF toy_repo2_reached _ toy_current(2) this] show ?thesis
    by (auto simp: toy_repo2_def)
qed

text \<open>A reached store never holds two runs of the same plan revision (the same plan identifier
  and digest), nor two runs with the same identifier.\<close>

theorem one_run_per_plan:
  assumes "run_repository_reached H repo" "rp_poisoned repo = None"
    "current_store (run_module H) repo = Inr s"
  shows "distinct (map plan_binding (st_items s)) \<and> distinct (map rn_id (st_items s))"
  using run_courses.reached_store [OF assms] validateReceiptStore_Inr [of "run_module H" s s]
  by (simp add: plans_bound_once_def)

theorem one_run_per_plan_witness: "distinct (map plan_binding (st_items toy_store2))"
  using one_run_per_plan [OF toy_repo2_reached _ toy_current(2)] by (simp add: toy_repo2_def)

section \<open>Requests\<close>

text \<open>Requests are idempotent: a request that was answered, sent again after any number of
  other mutations, gets the same answer marked as a replay and changes nothing.\<close>

theorem request_replayed:
  assumes "run_repository_open H repo" "handle_request H env rq repo = (Inr y, repo1)"
    "(run_mutates H)\<^sup>*\<^sup>* repo1 repo2" "rp_poisoned repo2 = None"
  shows "handle_request H env' rq repo2 = (Inr (y\<lparr>ry_replayed := True\<rparr>), repo2)"
proof -
  from assms(2) obtain op where op: "prepareRequest H rq = Inr op"
    "mutate (run_module H) env (run_decide H op env) repo = (Inr y, repo1)" by (rule handle_request_Inr)
  from runs.replay_later [OF runs.reaches_inv [OF assms(1)] op(2) assms(3,4) refl] op(1)
  show ?thesis by (simp add: handle_request_mutate)
qed

lemma toy_create_handled: "handle_request toy_host (toy_env CHR ''0'') (RR_create toy_create_request) toy_repo0 =
    (Inr (fresh_reply toy_store0 toy_created), toy_repo1)"
  using toy_creates by (simp add: handle_request_mutate toy_prepares_create)

lemma toy_link_handled: "handle_request toy_host (toy_env CHR ''1'') (RR_change toy_link_request) toy_repo1 =
    (Inr (fresh_reply toy_store1 toy_linked), toy_repo2)"
  using toy_links by (simp add: handle_request_mutate toy_prepares_link)

lemma toy_repo_open: "run_repository_open toy_host toy_repo0" "run_repository_open toy_host toy_repo1"
    "run_repository_open toy_host toy_repo2"
proof -
  show a: "run_repository_open toy_host toy_repo0" by (rule reaches_start) (auto simp: opened_def)
  from reaches_step [OF a toy_mutates(1)] show b: "run_repository_open toy_host toy_repo1" .
  from reaches_step [OF b toy_mutates(2)] show "run_repository_open toy_host toy_repo2" .
qed

theorem request_replayed_witness:
  "fst (handle_request toy_host (toy_env CHR ''1'') (RR_create toy_create_request) toy_repo2)
     = Inr ((fresh_reply toy_store0 toy_created)\<lparr>ry_replayed := True\<rparr>)"
proof -
  have "(run_mutates toy_host)\<^sup>*\<^sup>* toy_repo1 toy_repo2"
    by (rule r_into_rtranclp) (rule toy_mutates(2))
  from request_replayed [OF toy_repo_open(1) toy_create_handled this] show ?thesis
    by (simp add: toy_repo2_def)
qed

text \<open>An operation identifier belongs to one request: after a request was answered, another
  request with the same identifier but another action or content is refused as a conflict,
  and nothing changes.\<close>

theorem request_conflict:
  assumes "run_repository_open H repo" "handle_request H env rq repo = (Inr y, repo1)"
    "(run_mutates H)\<^sup>*\<^sup>* repo1 repo2" "rp_poisoned repo2 = None"
    "prepareRequest H rq = Inr op" "prepareRequest H rq' = Inr op'"
    "fst (run_identity op') = fst (run_identity op)" "run_identity op' \<noteq> run_identity op"
  shows "handle_request H env' rq' repo2 = (Inl (drs_error ''operation_conflict''), repo2)"
proof -
  from assms(2,5) have op: "mutate (run_module H) env (run_decide H op env) repo = (Inr y, repo1)"
    by (simp add: handle_request_mutate)
  from runs.conflict_later [OF runs.reaches_inv [OF assms(1)] op assms(3,4,7,8)] assms(6)
  show ?thesis by (simp add: handle_request_mutate store_error_def drs_error_def)
qed

definition toy_conflict_request :: change_request where
  "toy_conflict_request = toy_link_request\<lparr>cq_operationId := ''create-1''\<rparr>"

theorem request_conflict_witness:
  "handle_request toy_host (toy_env CHR ''1'') (RR_change toy_conflict_request) toy_repo1
     = (Inl (drs_error ''operation_conflict''), toy_repo1)"
proof -
  let ?p = "toy_prepared_link\<lparr>pr_id := ''create-1''\<rparr>"
  have "prepareChange toy_host toy_conflict_request = Inr ?p" by code_simp
  then show ?thesis
    by (intro request_conflict [OF toy_repo_open(1) toy_create_handled rtranclp.rtrancl_refl,
          where op = toy_creation and op' = "M_change ?p"])
      (simp_all add: toy_prepares_create toy_repo1_def toy_prepared_create_def toy_prepared_link_def toy_link_request_def)
qed

text \<open>Concurrency is optimistic: once a request was committed, every request that expects the
  same or an earlier revision of the store and has not been answered itself is refused as a
  revision conflict, and nothing changes.\<close>

theorem stale_request_refused:
  assumes "run_repository_open H repo" "handle_request H env rq repo = (Inr y, repo1)" "\<not> ry_replayed y"
    "(run_mutates H)\<^sup>*\<^sup>* repo1 repo2" "rp_poisoned repo2 = None"
    "prepareRequest H rq = Inr op" "prepareRequest H rq' = Inr op'"
    "expected_revision op' \<le> expected_revision op"
    "current_store (run_module H) repo2 = Inr t" "fst (run_identity op') \<notin> set (map rc_id (st_operations t))"
  shows "handle_request H env' rq' repo2 = (Inl (drs_error ''revision_conflict''), repo2)"
proof -
  note c = runs.reaches_inv [OF assms(1)]
  from assms(2,6) have op: "mutate (run_module H) env (run_decide H op env) repo = (Inr y, repo1)"
    by (simp add: handle_request_mutate)
  from runs.mutate_Inr_loaded [OF c op] obtain t1 where t1: "rp_store repo1 = Some t1" "rp_poisoned repo1 = None"
    by blast
  note c1 = runs.mutate_consistent [OF c op]
  from runs.mutate_outcome [OF c op t1(2)] t1(1) assms(3) obtain s z where
    "run_decide H op env s = Inr (Commit t1 z)" "st_revision t1 = st_revision s + 1"
    by (auto simp: current_store_def commits_def reply_of_def)
  then have rev: "st_revision t1 = expected_revision op + 1" using run_decide_fresh_revision by metis
  from runs.history_grows [OF assms(4) c1 t1(1) assms(5)] obtain t2 where
    t2: "consistent (run_module H) repo2" "rp_store repo2 = Some t2" "extends t1 t2" by blast
  then have "t2 = t" using assms(9) by (simp add: current_store_def)
  moreover have "validateReceiptStore (run_module H) t1 = Inr t1" "validateReceiptStore (run_module H) t2 = Inr t2"
    using c1 t1(1) t2(1,2) by (simp_all add: consistent_def)
  ultimately have "st_revision t \<noteq> expected_revision op'"
    using extends_revision [of "run_module H" t1 t2] t2(3) rev assms(8) by simp
  from run_decide_stale [OF assms(10) this, of H] assms(5,7) t2(2) \<open>t2 = t\<close> show ?thesis
    by (simp add: handle_request_mutate mutate_def ensureInitialized_def)
qed

definition toy_stale_request :: change_request where
  "toy_stale_request = toy_link_request\<lparr>cq_operationId := ''link-002'', cq_expectedStoreRevision := 0\<rparr>"

theorem stale_request_refused_witness:
  "handle_request toy_host (toy_env CHR ''1'') (RR_change toy_stale_request) toy_repo1
     = (Inl (drs_error ''revision_conflict''), toy_repo1)"
proof -
  let ?p = "toy_prepared_link\<lparr>pr_id := ''link-002'', pr_storeRevision := 0\<rparr>"
  have "prepareChange toy_host toy_stale_request = Inr ?p" by code_simp
  then show ?thesis
    by (intro stale_request_refused [OF toy_repo_open(1) toy_create_handled _ rtranclp.rtrancl_refl,
          where op = toy_creation and op' = "M_change ?p" and t = toy_store1])
      (simp_all add: toy_prepares_create toy_repo1_def current_store_def toy_prepared_create_def
        fresh_reply_def toy_store1_simps toy_receipt1_simps)
qed

text \<open>A change that delivery-run.js accepts on the stored run is committed: with the expected
  revisions, a fresh operation identifier, room for a receipt, a clock that does not run
  backwards and no size limit exceeded, the receipt is appended, the run replaced, and both
  the file and the memory hold the new store. No check of the store refuses it.\<close>

theorem accepted_change_commits:
  assumes "sha256_hex H" "prepareChange H q = Inr p" "consistent (run_module H) repo" "rp_store repo = Some s"
    "find (\<lambda>c. rn_id c = pr_runId p) (st_items s) = Some run"
    "pr_storeRevision p = st_revision s" "pr_runRevision p = rn_revision run"
    "pr_id p \<notin> set (map rc_id (st_operations s))" "length (st_operations s) < 512"
    "valid_timestamp (en_now env)" "assertChronology (run_module H) s (en_now env) = None"
    "apply_operation H (change_operation H (pr_id p) (en_now env) (pr_change p)) (en_now env) run = Inr r"
    "byteLength (run_json r) \<le> MAX_RUN_BYTES"
    "t = appended (run_module H) s (change_receipt p (en_now env) s r)"
    "byteLength (store_json (run_module H) t) \<le> MAX_STORE_BYTES" "en_write env = W_done"
    "rp_poisoned repo = None"
  shows "handle_request H env (RR_change q) repo =
    (Inr (fresh_reply s r), repo\<lparr>rp_store := Some t, rp_file := F_store t\<rparr>)"
proof -
  have s: "validateReceiptStore (run_module H) s = Inr s" using assms(3,4) by (simp add: consistent_def)
  have n: "nextStore (run_module H) s (pr_id p) (change_action (pr_change p)) (pr_digest p) (en_now env) r = Inr t"
    using change_stored [OF assms(1,2) s assms(5,8-13)] assms(14,15) by simp
  have "find (\<lambda>c. rc_id c = pr_id p) (st_operations s) = None"
    unfolding find_key_None using assms(8) .
  then have "run_decide H (M_change p) env s = Inr (Commit t (fresh_reply s r))"
    using assms(5-7,9-12) n
    by (simp add: decideChange_def operationReplay_def freshChange_def assertStoreRevision_def
        assertCapacity_def st_timestamp_def)
  with assms(2,4,16,17) nextStore_Inr(1) [OF n] show ?thesis
    by (simp add: handle_request_mutate mutate_def ensureInitialized_def persist_def del: run_decide.simps)
qed

theorem accepted_change_commits_witness:
  "handle_request toy_host (toy_env CHR ''1'') (RR_change toy_link_request) toy_repo1 =
    (Inr (fresh_reply toy_store1 toy_linked), toy_repo2)"
proof -
  have "handle_request toy_host (toy_env CHR ''1'') (RR_change toy_link_request) toy_repo1 =
    (Inr (fresh_reply toy_store1 toy_linked), toy_repo1\<lparr>rp_store := Some toy_store2, rp_file := F_store toy_store2\<rparr>)"
    by (rule accepted_change_commits [OF toy_sha toy_prepares_link toy_consistent(2) _ toy_found])
      (use toy_times toy_clock toy_link_run toy_sizes toy_store_sizes toy_link_change in
        \<open>simp_all add: toy_repo1_def toy_store1_simps toy_receipt1_simps toy_store2_def toy_receipt2_def
           MAX_RUN_BYTES_def toy_created_def toy_prepared_link_def\<close>)
  then show ?thesis by (simp add: toy_repo1_def toy_repo2_def)
qed

text \<open>An answer that is not a replay is on disk: the file and the memory hold the old store
  with exactly one receipt more, that of this request, and the answer is its result.\<close>

theorem answer_is_durable:
  assumes "run_repository_open H repo" "handle_request H env rq repo = (Inr y, repo')" "\<not> ry_replayed y"
  shows "\<exists>s t c. current_store (run_module H) repo = Inr s \<and> rp_store repo' = Some t \<and> rp_file repo' = F_store t
    \<and> commits s t c \<and> rc_id c \<notin> set (map rc_id (st_operations s)) \<and> y = (reply_of c)\<lparr>ry_replayed := False\<rparr>"
proof -
  note c = runs.reaches_inv [OF assms(1)]
  from assms(2) obtain op where op: "mutate (run_module H) env (run_decide H op env) repo = (Inr y, repo')"
    by (rule handle_request_Inr)
  from runs.mutate_Inr_loaded [OF c op] obtain t where t: "rp_store repo' = Some t" "rp_poisoned repo' = None"
    by blast
  then have "current_store (run_module H) repo' = Inr t" by (simp add: current_store_def)
  with runs.mutate_outcome [OF c op t(2)] assms(3) t(1) show ?thesis
    by (auto simp: reply_of_def)
qed

theorem answer_is_durable_witness:
  "\<exists>s t c. rp_file toy_repo2 = F_store t \<and> commits s t c \<and> rc_item c = toy_linked"
  using answer_is_durable [OF toy_repo_open(2) toy_link_handled] by (fastforce simp: fresh_reply_def reply_of_def)

text \<open>A request that fails leaves the stored receipts as they were, or poisons the repository,
  or had its write committed without the directory being synchronised, in which case its
  receipt is stored and its repetition will be answered as a replay.\<close>

theorem failed_request_effect:
  assumes "run_repository_open H repo" "handle_request H env rq repo = (Inl e, repo')"
  shows "current_store (run_module H) repo' = current_store (run_module H) repo
    \<or> rp_poisoned repo' \<noteq> None
    \<or> (\<exists>s t c op e' f. current_store (run_module H) repo = Inr s \<and> current_store (run_module H) repo' = Inr t \<and>
         commits s t c \<and> prepareRequest H rq = Inr op \<and> receipt_of (run_identity op) c
         \<and> en_write env = W_unsynced e' f)"
proof (cases "prepareRequest H rq")
  case (Inl e')
  with assms(2) show ?thesis by (simp add: handle_request_mutate)
next
  case (Inr op)
  with assms(2) have op: "mutate (run_module H) env (run_decide H op env) repo = (Inl e, repo')"
    by (simp add: handle_request_mutate)
  show ?thesis
  proof (cases "rp_poisoned repo' = None")
    case True
    from runs.mutate_outcome [OF runs.reaches_inv [OF assms(1)] op True] show ?thesis
    proof
      assume "\<exists>s t c. current_store (run_module H) repo = Inr s \<and> current_store (run_module H) repo' = Inr t \<and>
         commits s t c \<and> rc_id c \<notin> set (map rc_id (st_operations s)) \<and> receipt_of (run_identity op) c \<and>
         run_decide H op env s = Inr (Commit t ((reply_of c)\<lparr>ry_replayed := False\<rparr>)) \<and>
         (Inl e = Inr ((reply_of c)\<lparr>ry_replayed := False\<rparr>) \<and> rp_file repo' = F_store t
          \<or> (\<exists>e' f. Inl e = Inl e' \<and> en_write env = W_unsynced e' f))"
      then obtain s t c e' f where "current_store (run_module H) repo = Inr s"
        "current_store (run_module H) repo' = Inr t" "commits s t c" "receipt_of (run_identity op) c"
        "en_write env = W_unsynced e' f" by auto
      with Inr show ?thesis by blast
    qed simp
  qed simp
qed

definition toy_unsynced :: "delivery_run environment" where
  "toy_unsynced = (toy_env CHR ''1'')\<lparr>en_write := W_unsynced (Error ''EIO'') (F_store toy_store2)\<rparr>"

lemma toy_file_size: "fileBytes toy_module toy_store2 \<le> MAX_STORE_BYTES"
  by code_simp

lemma toy_links_unsynced:
  "handle_request toy_host toy_unsynced (RR_change toy_link_request) toy_repo1 = (Inl (Error ''EIO''), toy_repo2)"
proof -
  have now: "en_now (env\<lparr>en_write := w\<rparr>) = en_now env" for env :: "delivery_run environment" and w by simp
  have "freshChange H p (env\<lparr>en_write := w\<rparr>) s = freshChange H p env s" for H p env w s
    unfolding freshChange_def now ..
  then have "decideChange H p (env\<lparr>en_write := w\<rparr>) s = decideChange H p env s" for H p env w s
    unfolding decideChange_def by simp
  then have "run_decide toy_host toy_linking toy_unsynced toy_store1 = Inr (Commit toy_store2 (fresh_reply toy_store1 toy_linked))"
    using toy_decides2 by (simp only: toy_unsynced_def run_decide.simps)
  then show ?thesis
    using toy_file_size
    by (simp add: handle_request_mutate toy_prepares_link mutate_def ensureInitialized_def toy_repo1_def
        persist_def toy_valid2 recoverCommittedWrite_def readStoreFile_def toy_unsynced_def toy_repo2_def
        del: run_decide.simps)
qed

theorem failed_request_effect_witness:
  "\<exists>c op. commits toy_store1 toy_store2 c \<and> prepareRequest toy_host (RR_change toy_link_request) = Inr op
     \<and> receipt_of (run_identity op) c"
proof -
  have "length (st_operations toy_store2) \<noteq> length (st_operations toy_store1)"
    by (simp add: toy_store2_def appended_def)
  then have "toy_store2 \<noteq> toy_store1" by metis
  with failed_request_effect [OF toy_repo_open(2) toy_links_unsynced, unfolded toy_current] show ?thesis
    by (auto simp: toy_repo2_def)
qed

text \<open>C40: After a restart, the repository finds the store of its file exactly when the indented
  text of the store fits the limit on the file; the check before a write measures the compact
  text instead, so a store whose indented text is larger is written and then lost to every
  later request.\<close>

theorem restart_finds_store:
  assumes "run_repository_open H repo" "rp_store repo = Some s" "rp_file repo = F_store s" "en_directory env = None"
  shows "ensureInitialized (run_module H) env (new_repository (rp_file repo)) =
    (if fileBytes (run_module H) s \<le> MAX_STORE_BYTES
     then (Inr s, (new_repository (F_store s))\<lparr>rp_store := Some s\<rparr>)
     else (Inl (drs_error ''too_large''), new_repository (F_store s)))"
proof -
  have "validateReceiptStore (run_module H) s = Inr s"
    using runs.reaches_inv [OF assms(1)] assms(2) by (simp add: consistent_def)
  with assms(3,4) show ?thesis
    by (simp add: ensureInitialized_def load_def new_repository_def readStoreFile_def throw_if_def
        ENOENT_def store_error_def drs_error_def)
qed

theorem restart_finds_store_witness:
  "fst (ensureInitialized toy_module (toy_env CHR ''2'') (new_repository (rp_file toy_repo2))) = Inr toy_store2"
  using restart_finds_store [OF toy_repo_open(3), of toy_store2 "toy_env CHR ''2''"] toy_file_size
  by (simp add: toy_repo2_def)

text \<open>The bounds of a store that is in memory: at most 64 runs and 512 receipts, a revision
  that counts the receipts and is a safe integer, receipts numbered from 1 in order, at most
  16 MiB of compact JSON.\<close>

theorem store_bounds:
  assumes "run_repository_open H repo" "rp_store repo = Some s"
  shows "length (st_items s) \<le> 64 \<and> length (st_operations s) \<le> 512
    \<and> st_revision s = int (length (st_operations s)) \<and> safe_integer (st_revision s)
    \<and> map rc_storeRevision (st_operations s) = map int [1..<Suc (length (st_operations s))]
    \<and> byteLength (store_json (run_module H) s) \<le> 16777216"
proof -
  have v: "validateReceiptStore (run_module H) s = Inr s"
    using runs.reaches_inv [OF assms(1)] assms(2) by (simp add: consistent_def)
  note b = validateReceiptStore_Inr [OF v]
  from strict_runs.valid_store_history [OF v] obtain seen where
    "validateHistory (run_module H) (set (map rn_id (st_items s))) {} None 0 Map.empty (st_operations s) = Inr seen"
    unfolding run_module_simps by metis
  from validateHistory_revisions [OF this]
  have "map rc_storeRevision (st_operations s) = map int [1..<Suc (length (st_operations s))]" by simp
  with b show ?thesis by (simp add: safe_integer_def MAX_SAFE_INTEGER_def MAX_STORE_BYTES_def)
qed

theorem store_bounds_witness: "map rc_storeRevision (st_operations toy_store2) = [1, 2]"
proof -
  have "length (st_operations toy_store2) = 2" by (simp add: toy_store2_def appended_def toy_store1_simps)
  with store_bounds [OF toy_repo_open(3), of toy_store2] show ?thesis
    by (simp add: toy_repo2_def upt_rec)
qed

section \<open>Summaries and reads\<close>

text \<open>The summary of a store counts every run once, as active, verified or aborted; the runs
  that need attention are among the active ones; both lists hold at most 64 runs, in the order
  of their last change, newest first.\<close>

theorem summary_partitions_runs:
  assumes "summaryFromValidatedStore H activeLimit recentLimit s = Inr r"
  shows "ss_total r = ss_activeCount r + ss_verified r + ss_aborted r \<and> ss_needsAttention r \<le> ss_activeCount r
    \<and> length (ss_active r) \<le> 64 \<and> length (ss_recent r) \<le> 64
    \<and> sorted_wrt (\<lambda>a b. date_ms (rs_updatedAt b) \<le> date_ms (rs_updatedAt a)) (ss_active r)
    \<and> sorted_wrt (\<lambda>a b. date_ms (rs_updatedAt b) \<le> date_ms (rs_updatedAt a)) (ss_recent r)"
proof -
  let ?a = "sort_by (newestFirst H) (filter (\<lambda>r. \<not> terminal_condition (rn_condition r)) (st_items s))"
  let ?t = "sort_by (newestFirst H) (filter (\<lambda>r. terminal_condition (rn_condition r)) (st_items s))"
  from assms obtain m n where limits: "normalizedLimit activeLimit 40 ''active_limit'' = Inr m"
      "normalizedLimit recentLimit 20 ''recent_limit'' = Inr n"
    and r: "ss_total r = length (st_items s)" "ss_activeCount r = length ?a"
      "ss_verified r = length (filter (\<lambda>r. rn_condition r = C_verified) ?t)"
      "ss_aborted r = length (filter (\<lambda>r. rn_condition r = C_aborted) ?t)"
      "ss_needsAttention r = length (filter (\<lambda>r. rn_condition r \<in> {C_blocked, C_off_course, C_reconcile_required}) ?a)"
      "ss_active r = map runSummary (take m ?a)" "ss_recent r = map runSummary (take n ?t)"
    by (auto simp: summaryFromValidatedStore_def Let_def)
  have mn: "m \<le> 64" "n \<le> 64" using limits by (auto simp: normalizedLimit_def Let_def)
  have "length (filter (\<lambda>r. rn_condition r = C_verified) rs) + length (filter (\<lambda>r. rn_condition r = C_aborted) rs)
      = length rs" if "\<forall>r \<in> set rs. terminal_condition (rn_condition r)" for rs
    using that by (induction rs) (auto simp: terminal_condition_def)
  from this [of ?t] have "ss_verified r + ss_aborted r = length ?t" unfolding r by simp
  moreover have "length ?a + length ?t = length (st_items s)"
    using sum_length_filter_compl [of "\<lambda>r. terminal_condition (rn_condition r)" "st_items s"] by simp
  moreover have "sorted_wrt (\<lambda>a b. date_ms (rs_updatedAt b) \<le> date_ms (rs_updatedAt a))
      (map runSummary (take k (sort_by (newestFirst H) rs)))" for k rs
    using sorted_wrt_take [OF newest_sorted [of H rs], of k]
    by (simp add: sorted_wrt_map runSummary_def)
  moreover have "ss_needsAttention r \<le> length ?a" unfolding r by (rule length_filter_le)
  ultimately show ?thesis using mn by (simp add: r min_le_iff_disj)
qed

theorem summary_partitions_runs_witness:
  "\<exists>r. summaryFromValidatedStore toy_host None None toy_store2 = Inr r \<and> ss_total r = 1
    \<and> ss_activeCount r + ss_verified r + ss_aborted r = 1"
proof -
  obtain r where r: "summaryFromValidatedStore toy_host None None toy_store2 = Inr r"
    by (cases "summaryFromValidatedStore toy_host None None toy_store2")
      (auto simp: summaryFromValidatedStore_def normalizedLimit_def safe_integer_def MAX_SAFE_INTEGER_def Let_def)
  then have "ss_total r = length (st_items toy_store2)"
    by (auto simp: summaryFromValidatedStore_def Let_def)
  also have "\<dots> = 1"
    by (simp add: toy_store2_def appended_def put_item_def toy_receipt2_def change_receipt_def toy_store1_simps toy_linked_def)
  finally show ?thesis using summary_partitions_runs [OF r] r by auto
qed

text \<open>A read answers with the stored run and its receipts, whose snapshots end with the run,
  or with nothing when no run has the identifier, and it changes nothing.\<close>

theorem get_run_answers_history:
  assumes "run_repository_reached H repo" "rp_poisoned repo = None" "rp_store repo = Some s" "runId i = Inr w"
  shows "get_run H env i repo = (Inr (map_option
      (\<lambda>run. (run, filter (\<lambda>c. rn_id (rc_item c) = w) (st_operations s)))
      (find (\<lambda>c. rn_id c = w) (st_items s))), repo)
    \<and> (case find (\<lambda>c. rn_id c = w) (st_items s) of
         None \<Rightarrow> \<forall>run \<in> set (st_items s). rn_id run \<noteq> w
       | Some run \<Rightarrow> rn_id run = w \<and>
           last (map rc_item (filter (\<lambda>c. rn_id (rc_item c) = w) (st_operations s))) = run)"
proof -
  have h: "store_history rn_id (run_created H) (run_operates H) s"
    using run_courses.reached_store [OF assms(1,2)] assms(2,3) by (simp add: current_store_def)
  have "last (map rc_item (filter (\<lambda>c. rn_id (rc_item c) = w) (st_operations s))) = run"
    if "run \<in> set (st_items s)" "rn_id run = w" for run
  proof -
    have "last (snapshots rn_id s w) = run" using h that by (auto simp: store_history_def)
    then show ?thesis unfolding snapshots_def by (simp add: filter_map comp_def)
  qed
  then show ?thesis
    using assms(2-4)
    by (auto simp: get_run_def afterMutations_def ensureInitialized_def find_None_iff split: option.splits
        dest!: find_SomeD)
qed

theorem get_run_answers_history_witness:
  "fst (get_run toy_host (toy_env CHR ''2'') ''run-abcdefgh'' toy_repo1) = Inr (Some (toy_created, [toy_receipt1]))"
proof -
  have "runId ''run-abcdefgh'' = Inr ''run-abcdefgh''" by code_simp
  from get_run_answers_history [OF toy_repo1_reached _ _ this, of toy_store1 "toy_env CHR ''2''"] show ?thesis
    by (simp add: toy_repo1_def toy_store1_simps toy_receipt1_simps toy_created_def)
qed

end
