(* ===== verification/JsDatePrint.thy ===== *)
theory JsDatePrint
  imports JsDate
begin

text \<open>
  Printing instants: \<open>iso_text t\<close> is \<open>new Date(t).toISOString()\<close>. It is the inverse of
  \<open>parse_iso\<close> in both directions, so the source's test that a time stamp equals the text of
  the instant it reads (\<open>validTimestamp\<close>) is the test that \<open>parse_iso\<close> accepts it.
\<close>

section \<open>Digits\<close>

fun pad_digits :: "nat \<Rightarrow> int \<Rightarrow> string" where
  "pad_digits 0 n = []"
| "pad_digits (Suc k) n = pad_digits k (n div 10) @ [char_of (48 + nat (n mod 10))]"

lemma div_mod_pair:
  fixes a b n :: int
  assumes "0 \<le> b" "b < n"
  shows "(a * n + b) div n = a" "(a * n + b) mod n = b"
proof -
  show "(a * n + b) div n = a"
    using int_div_pos_eq [of "a * n + b" n a b] assms by (simp add: mult.commute)
  show "(a * n + b) mod n = b"
    using int_mod_pos_eq [of "a * n + b" n a b] assms by (simp add: mult.commute)
qed

lemma digits_value_snoc: "digits_value (s @ [c]) = 10 * digits_value s + (int (code c) - 48)"
  by (simp add: digits_value_def)

lemma code_pad_digit: "code (char_of (48 + nat (n mod 10))) = 48 + nat (n mod 10)"
proof -
  have "nat (n mod 10) < 10" by (simp add: nat_less_iff)
  then show ?thesis by (simp add: code_def)
qed

lemma length_pad_digits [simp]: "length (pad_digits k n) = k"
  by (induction k arbitrary: n) simp_all

lemma pad_digits_digits [simp]: "list_all is_digit (pad_digits k n)"
proof (induction k arbitrary: n)
  case (Suc k)
  have "nat (n mod 10) < 10" by (simp add: nat_less_iff)
  then have "is_digit (char_of (48 + nat (n mod 10)))" by (simp add: is_digit_def code_pad_digit)
  with Suc show ?case by simp
qed simp

lemma digits_value_pad: "0 \<le> n \<Longrightarrow> n < 10 ^ k \<Longrightarrow> digits_value (pad_digits k n) = n"
proof (induction k arbitrary: n)
  case 0
  then show ?case by (simp add: digits_value_def)
next
  case (Suc k)
  have "n div 10 < p" if "n < 10 * p" for p :: int using that by presburger
  then have "n div 10 < 10 ^ k" using Suc.prems by simp
  with Suc show ?case by (simp add: digits_value_snoc code_pad_digit)
qed

lemma pad_digits_value: "list_all is_digit s \<Longrightarrow> pad_digits (length s) (digits_value s) = s"
proof (induction s rule: rev_induct)
  case (snoc c s)
  then have c: "48 \<le> code c" "code c \<le> 57" by (simp_all add: is_digit_def)
  let ?n = "10 * digits_value s + (int (code c) - 48)"
  have d: "?n div 10 = digits_value s" "?n mod 10 = int (code c) - 48"
    using c div_mod_pair [of "int (code c) - 48" 10 "digits_value s"] by (simp_all add: mult.commute)
  have "char_of (48 + nat (int (code c) - 48)) = c"
    using c by (simp add: nat_diff_distrib code_def)
  with snoc d show ?case by (simp add: digits_value_snoc)
qed (simp add: digits_value_def)

lemma digits_value_bounds:
  "list_all is_digit s \<Longrightarrow> 0 \<le> digits_value s \<and> digits_value s < 10 ^ length s"
proof (induction s rule: rev_induct)
  case (snoc c s)
  then have "48 \<le> code c" "code c \<le> 57" by (simp_all add: is_digit_def)
  with snoc show ?case by (simp add: digits_value_snoc)
qed (simp add: digits_value_def)

section \<open>The year and the month of a day\<close>

text \<open>The mean length of a year is 146097/400 days, so the estimate is off by at most one.\<close>

definition year_from_day :: "int \<Rightarrow> int" where
  "year_from_day d =
     (let y = 1970 + (400 * d) div 146097 in
      if day_from_year (y + 1) \<le> d then y + 1 else if d < day_from_year y then y - 1 else y)"

lemma div_bounds:
  fixes x n :: int
  assumes "0 < n"
  shows "n * (x div n) \<le> x \<and> x < n * (x div n) + n"
proof -
  have "x = n * (x div n) + x mod n" by simp
  then show ?thesis using pos_mod_bound [OF assms, of x] pos_mod_sign [OF assms, of x] by linarith
qed

lemma day_from_year_bounds:
  "400 * day_from_year y \<le> 146097 * (y - 1970) + 800 \<and> 146097 * (y - 1970) - 800 \<le> 400 * day_from_year y"
proof -
  have b: "4 * ((y - 1969) div 4) \<le> y - 1969" "y - 1969 < 4 * ((y - 1969) div 4) + 4"
    "100 * ((y - 1901) div 100) \<le> y - 1901" "y - 1901 < 100 * ((y - 1901) div 100) + 100"
    "400 * ((y - 1601) div 400) \<le> y - 1601" "y - 1601 < 400 * ((y - 1601) div 400) + 400"
    by (rule div_bounds [THEN conjunct1] div_bounds [THEN conjunct2], simp)+
  have "400 * (365 * (y - 1970) + a - b' + c) \<le> 146097 * (y - 1970) + 800
      \<and> 146097 * (y - 1970) - 800 \<le> 400 * (365 * (y - 1970) + a - b' + c)"
    if "4 * a \<le> y - 1969" "y - 1969 < 4 * a + 4" "100 * b' \<le> y - 1901" "y - 1901 < 100 * b' + 100"
      "400 * c \<le> y - 1601" "y - 1601 < 400 * c + 400" for a b' c :: int
    using that by (simp add: algebra_simps)
  from this [OF b] show ?thesis unfolding day_from_year_def .
qed

lemma year_from_day_correct:
  "day_from_year (year_from_day d) \<le> d \<and> d < day_from_year (year_from_day d + 1)"
proof -
  define q where "q = (400 * d) div 146097"
  define y where "y = 1970 + q"
  have q: "146097 * q \<le> 400 * d" "400 * d < 146097 * (q + 1)"
    using div_bounds [of 146097 "400 * d", OF zero_less_numeral] unfolding q_def
    by (simp_all add: algebra_simps)
  note b = day_from_year_bounds
  have lo: "day_from_year (y - 1) \<le> d"
    using b [of "y - 1"] q unfolding y_def by (simp add: algebra_simps)
  have hi: "d < day_from_year (y + 2)"
    using b [of "y + 2"] q unfolding y_def by (simp add: algebra_simps)
  show ?thesis
    using lo hi unfolding year_from_day_def Let_def q_def [symmetric] y_def [symmetric]
    by (auto simp: add.assoc)
qed

lemma day_from_year_mono: "y \<le> z \<Longrightarrow> day_from_year y \<le> day_from_year z"
proof (induction "nat (z - y)" arbitrary: z)
  case (Suc n)
  then have "day_from_year y \<le> day_from_year (z - 1)" by simp
  also have "\<dots> \<le> day_from_year (z - 1 + 1)" unfolding day_from_year_step by simp
  finally show ?case by simp
qed simp

lemma year_from_day_unique:
  assumes "day_from_year y \<le> d" "d < day_from_year (y + 1)"
  shows "year_from_day d = y"
proof (rule ccontr)
  assume "year_from_day d \<noteq> y"
  then consider "year_from_day d + 1 \<le> y" | "y + 1 \<le> year_from_day d" by linarith
  then show False
    using day_from_year_mono [of "year_from_day d + 1" y] day_from_year_mono [of "y + 1" "year_from_day d"]
      year_from_day_correct [of d] assms by cases linarith+
qed

definition month_from_day :: "int \<Rightarrow> int \<Rightarrow> int" where
  "month_from_day y n = int (length (filter (\<lambda>m. month_start y m \<le> n) [1, 2, 3, 4, 5, 6, 7, 8, 9, 10, 11, 12]))"

lemma month_cases:
  fixes m :: int
  assumes "1 \<le> m" "m \<le> 12"
  obtains "m = 1" | "m = 2" | "m = 3" | "m = 4" | "m = 5" | "m = 6" | "m = 7" | "m = 8" | "m = 9"
    | "m = 10" | "m = 11" | "m = 12"
proof -
  from assms have "m = 1 \<or> m = 2 \<or> m = 3 \<or> m = 4 \<or> m = 5 \<or> m = 6 \<or> m = 7 \<or> m = 8 \<or> m = 9
    \<or> m = 10 \<or> m = 11 \<or> m = 12" by presburger
  with that show thesis by blast
qed

lemma month_from_day_unique:
  assumes "1 \<le> m" "m \<le> 12" "month_start y m \<le> n" "n < month_start y m + days_in_month y m"
  shows "month_from_day y n = m"
  using assms(1,2)
  by (rule month_cases; use assms(3,4) in \<open>auto simp: month_from_day_def month_start_def days_in_month_def
      split: if_splits\<close>)

lemma month_from_day_correct:
  assumes "0 \<le> n" "n < (if leap_year y then 366 else 365)"
  shows "1 \<le> month_from_day y n \<and> month_from_day y n \<le> 12
    \<and> month_start y (month_from_day y n) \<le> n
    \<and> n < month_start y (month_from_day y n) + days_in_month y (month_from_day y n)"
proof -
  have "\<exists>m \<in> {1, 2, 3, 4, 5, 6, 7, 8, 9, 10, 11, 12}. month_start y m \<le> n \<and> n < month_start y m + days_in_month y m"
    using assms by (cases "leap_year y") (simp_all add: month_start_def days_in_month_def, presburger+)
  then obtain m where m: "m \<in> {1, 2, 3, 4, 5, 6, 7, 8, 9, 10, 11, 12}" "month_start y m \<le> n"
    "n < month_start y m + days_in_month y m" by blast
  from m(1) have "1 \<le> m" "m \<le> 12" by auto
  with m(2,3) show ?thesis using month_from_day_unique [of m y n] by simp
qed

section \<open>Fields\<close>

definition year_text :: "int \<Rightarrow> string" where
  "year_text y =
     (if 0 \<le> y \<and> y \<le> 9999 then pad_digits 4 y
      else if y < 0 then CHR ''-'' # pad_digits 6 (- y) else CHR ''+'' # pad_digits 6 y)"

definition iso_fields :: "int \<Rightarrow> int \<Rightarrow> int \<Rightarrow> int \<Rightarrow> int \<Rightarrow> int \<Rightarrow> int \<Rightarrow> string" where
  "iso_fields y m d h mi s ms =
     year_text y @ ''-'' @ pad_digits 2 m @ ''-'' @ pad_digits 2 d @ ''T'' @ pad_digits 2 h @ '':''
       @ pad_digits 2 mi @ '':'' @ pad_digits 2 s @ ''.'' @ pad_digits 3 ms @ ''Z''"

definition iso_text :: "int \<Rightarrow> string" where
  "iso_text t =
     (let d = t div MS_PER_DAY; r = t mod MS_PER_DAY;
          y = year_from_day d; n = d - day_from_year y; m = month_from_day y n
      in iso_fields y m (n - month_start y m + 1)
           (r div 3600000) (r div 60000 mod 60) (r div 1000 mod 60) (r mod 1000))"

text \<open>The instant of a group of fields, and when the group is one that \<open>parse_iso\<close> accepts.\<close>

definition instant_of :: "int \<Rightarrow> int \<Rightarrow> int \<Rightarrow> int \<Rightarrow> int \<Rightarrow> int \<Rightarrow> int \<Rightarrow> int" where
  "instant_of y m d h mi s ms = make_day y m d * MS_PER_DAY + make_time h mi s ms"

definition fields_ok :: "int \<Rightarrow> int \<Rightarrow> int \<Rightarrow> int \<Rightarrow> int \<Rightarrow> int \<Rightarrow> int \<Rightarrow> bool" where
  "fields_ok y m d h mi s ms \<longleftrightarrow> \<bar>y\<bar> < 1000000 \<and> 1 \<le> m \<and> m \<le> 12 \<and> 1 \<le> d \<and> d \<le> days_in_month y m
     \<and> 0 \<le> h \<and> h \<le> 23 \<and> 0 \<le> mi \<and> mi \<le> 59 \<and> 0 \<le> s \<and> s \<le> 59 \<and> 0 \<le> ms \<and> ms \<le> 999"

lemma parse_iso_year_text:
  assumes "\<bar>y\<bar> < 1000000"
  shows "parse_iso_year (year_text y @ r) = Some (y, r)"
proof -
  consider "0 \<le> y" "y \<le> 9999" | "y < 0" | "9999 < y" by linarith
  then show ?thesis
  proof cases
    case 1
    obtain a b where ab: "pad_digits 4 y = a # b" by (cases "pad_digits 4 y") (auto dest: arg_cong [of _ _ length])
    then have "is_digit a" using pad_digits_digits [of 4 y] by simp
    then have "a \<noteq> CHR ''+''" "a \<noteq> CHR ''-''" by (auto simp: is_digit_def code_def)
    then have sign: "\<not> starts_with ''+'' (pad_digits 4 y @ r)" "\<not> starts_with ''-'' (pad_digits 4 y @ r)"
      by (simp_all add: ab)
    show ?thesis
      using 1 sign by (simp add: year_text_def parse_iso_year_def digits_value_pad)
  next
    case 2
    then show ?thesis using assms by (simp add: year_text_def parse_iso_year_def digits_value_pad)
  next
    case 3
    then show ?thesis using assms by (simp add: year_text_def parse_iso_year_def digits_value_pad)
  qed
qed

lemma parse_iso_year_split:
  assumes "parse_iso_year s = Some (y, r)"
  shows "s = year_text y @ r \<and> \<bar>y\<bar> < 1000000"
proof -
  have six: "pad_digits 6 (digits_value w) = w \<and> digits_value w < 1000000"
    if "length w = 6" "list_all is_digit w" for w
    using that pad_digits_value [of w] digits_value_bounds [of w] by simp
  have four: "pad_digits 4 (digits_value w) = w \<and> 0 \<le> digits_value w \<and> digits_value w \<le> 9999"
    if "length w = 4" "list_all is_digit w" for w
    using that pad_digits_value [of w] digits_value_bounds [of w] by simp
  let ?y6 = "take 6 (drop 1 s)" and ?y4 = "take 4 s"
  have tail: "s = c # ?y6 @ drop 7 s" if "starts_with [c] s" for c
    using that by (cases s) (simp_all flip: append_take_drop_id [of 6])
  consider "starts_with ''+'' s" "length ?y6 = 6" "list_all is_digit ?y6" "9999 < digits_value ?y6"
      "y = digits_value ?y6" "r = drop 7 s"
    | "starts_with ''-'' s" "length ?y6 = 6" "list_all is_digit ?y6" "0 < digits_value ?y6"
      "y = - digits_value ?y6" "r = drop 7 s"
    | "length ?y4 = 4" "list_all is_digit ?y4" "y = digits_value ?y4" "r = drop 4 s"
    using assms unfolding parse_iso_year_def Let_def by (auto split: if_splits)
  then show ?thesis
  proof cases
    case 1
    with six [of ?y6] tail [of "CHR ''+''"] show ?thesis by (simp add: year_text_def)
  next
    case 2
    with six [of ?y6] tail [of "CHR ''-''"] show ?thesis by (simp add: year_text_def)
  next
    case 3
    with four [of ?y4] show ?thesis by (simp add: year_text_def)
  qed
qed

lemma pad_two:
  assumes "0 \<le> n" "n < 100"
  obtains a b where "pad_digits 2 n = [a, b]" "is_digit a" "is_digit b" "digits_value [a, b] = n"
proof -
  obtain a b where ab: "pad_digits 2 n = [a, b]"
    using length_pad_digits [of 2 n] by (auto simp: numeral_2_eq_2 length_Suc_conv)
  with pad_digits_digits [of 2 n] digits_value_pad [of n 2] assms that show thesis by simp
qed

lemma pad_three:
  assumes "0 \<le> n" "n < 1000"
  obtains a b c where "pad_digits 3 n = [a, b, c]" "is_digit a" "is_digit b" "is_digit c"
    "digits_value [a, b, c] = n"
proof -
  obtain a b c where abc: "pad_digits 3 n = [a, b, c]"
    using length_pad_digits [of 3 n] by (auto simp: numeral_3_eq_3 length_Suc_conv)
  with pad_digits_digits [of 3 n] digits_value_pad [of n 3] assms that show thesis by simp
qed

lemma days_in_month_le: "days_in_month y m \<le> 31"
  by (simp add: days_in_month_def)

lemma parse_iso_fields:
  assumes ok: "fields_ok y m d h mi s ms" and t: "\<bar>instant_of y m d h mi s ms\<bar> \<le> MAX_TIME"
  shows "parse_iso (iso_fields y m d h mi s ms) = Some (instant_of y m d h mi s ms)"
proof -
  note [simp del] = pad_digits.simps
  have d: "d < 100" using ok days_in_month_le [of y m] by (simp add: fields_ok_def)
  obtain m1 m2 where m: "pad_digits 2 m = [m1, m2]" "is_digit m1" "is_digit m2" "digits_value [m1, m2] = m"
    using ok by (auto simp: fields_ok_def intro: pad_two [of m])
  obtain d1 d2 where d: "pad_digits 2 d = [d1, d2]" "is_digit d1" "is_digit d2" "digits_value [d1, d2] = d"
    using ok d by (auto simp: fields_ok_def intro: pad_two [of d])
  obtain h1 h2 where h: "pad_digits 2 h = [h1, h2]" "is_digit h1" "is_digit h2" "digits_value [h1, h2] = h"
    using ok by (auto simp: fields_ok_def intro: pad_two [of h])
  obtain i1 i2 where mi: "pad_digits 2 mi = [i1, i2]" "is_digit i1" "is_digit i2" "digits_value [i1, i2] = mi"
    using ok by (auto simp: fields_ok_def intro: pad_two [of mi])
  obtain s1 s2 where s: "pad_digits 2 s = [s1, s2]" "is_digit s1" "is_digit s2" "digits_value [s1, s2] = s"
    using ok by (auto simp: fields_ok_def intro: pad_two [of s])
  obtain u1 u2 u3 where ms: "pad_digits 3 ms = [u1, u2, u3]" "is_digit u1" "is_digit u2" "is_digit u3"
      "digits_value [u1, u2, u3] = ms"
    using ok by (auto simp: fields_ok_def intro: pad_three [of ms])
  let ?r = "[CHR ''-'', m1, m2, CHR ''-'', d1, d2, CHR ''T'', h1, h2, CHR '':'', i1, i2, CHR '':'', s1, s2,
    CHR ''.'', u1, u2, u3, CHR ''Z'']"
  have printed: "iso_fields y m d h mi s ms = year_text y @ ?r"
    by (simp add: iso_fields_def m d h mi s ms)
  have "iso_rest_shape ?r" using m d h mi s ms by (simp add: iso_rest_shape_def)
  then show ?thesis
    using ok t m(4) d(4) h(4) mi(4) s(4) ms(5)
    by (simp add: printed parse_iso_def parse_iso_year_text fields_ok_def instant_of_def Let_def)
qed

lemma parse_iso_split:
  assumes "parse_iso s = Some t"
  obtains y m d h mi sec ms where "s = iso_fields y m d h mi sec ms" "fields_ok y m d h mi sec ms"
    "t = instant_of y m d h mi sec ms" "\<bar>t\<bar> \<le> MAX_TIME"
proof -
  from assms obtain y r where yr: "parse_iso_year s = Some (y, r)" and shape: "iso_rest_shape r"
    by (auto simp: parse_iso_def split: option.splits if_splits)
  have len: "length r = 20" using shape by (simp add: iso_rest_shape_def)
  have "r = map (\<lambda>i. r ! i) [0..<20]" using len map_nth [of r] by simp
  also have "[0..<20] = [0, 1, 2, 3, 4, 5, 6, 7, 8, 9, 10, 11, 12, 13, 14, 15, 16, 17, 18, 19]"
    by (simp add: upt_rec)
  finally have r: "r = [r ! 0, r ! 1, r ! 2, r ! 3, r ! 4, r ! 5, r ! 6, r ! 7, r ! 8, r ! 9, r ! 10, r ! 11,
    r ! 12, r ! 13, r ! 14, r ! 15, r ! 16, r ! 17, r ! 18, r ! 19]" by simp
  let ?m = "digits_value [r ! 1, r ! 2]" and ?d = "digits_value [r ! 4, r ! 5]"
    and ?h = "digits_value [r ! 7, r ! 8]" and ?mi = "digits_value [r ! 10, r ! 11]"
    and ?s = "digits_value [r ! 13, r ! 14]" and ?ms = "digits_value [r ! 16, r ! 17, r ! 18]"
  have two: "pad_digits 2 (digits_value [a, b]) = [a, b] \<and> 0 \<le> digits_value [a, b]"
    if "is_digit a" "is_digit b" for a b
    using that pad_digits_value [of "[a, b]"] digits_value_bounds [of "[a, b]"] by (simp add: numeral_2_eq_2)
  have three: "pad_digits 3 (digits_value [a, b, c]) = [a, b, c] \<and> 0 \<le> digits_value [a, b, c]
      \<and> digits_value [a, b, c] < 1000"
    if "is_digit a" "is_digit b" "is_digit c" for a b c
    using that pad_digits_value [of "[a, b, c]"] digits_value_bounds [of "[a, b, c]"] by (simp add: numeral_3_eq_3)
  note digits = shape [unfolded iso_rest_shape_def, simplified]
  have "s = year_text y @ r" "\<bar>y\<bar> < 1000000" using parse_iso_year_split [OF yr] by auto
  moreover have "r = ''-'' @ pad_digits 2 ?m @ ''-'' @ pad_digits 2 ?d @ ''T'' @ pad_digits 2 ?h @ '':''
      @ pad_digits 2 ?mi @ '':'' @ pad_digits 2 ?s @ ''.'' @ pad_digits 3 ?ms @ ''Z''"
    using digits two three by (subst r) simp
  ultimately have printed: "s = iso_fields y ?m ?d ?h ?mi ?s ?ms" by (simp add: iso_fields_def)
  have "1 \<le> ?m \<and> ?m \<le> 12 \<and> 1 \<le> ?d \<and> ?d \<le> days_in_month y ?m \<and> ?h \<le> 23 \<and> ?mi \<le> 59 \<and> ?s \<le> 59
      \<and> t = instant_of y ?m ?d ?h ?mi ?s ?ms \<and> \<bar>t\<bar> \<le> MAX_TIME"
    using assms yr shape by (auto simp: parse_iso_def instant_of_def Let_def split: if_splits)
  moreover have "0 \<le> ?h" "0 \<le> ?mi" "0 \<le> ?s" "0 \<le> ?ms" "?ms \<le> 999"
    using digits two [of "r ! 7" "r ! 8"] two [of "r ! 10" "r ! 11"] two [of "r ! 13" "r ! 14"]
      three [of "r ! 16" "r ! 17" "r ! 18"] by simp_all
  ultimately show thesis
    using \<open>\<bar>y\<bar> < 1000000\<close> by (intro that [OF printed]) (unfold fields_ok_def, blast+)
qed

section \<open>Printing and reading are inverse\<close>

lemma make_time_bounds:
  assumes "fields_ok y m d h mi s ms"
  shows "0 \<le> make_time h mi s ms \<and> make_time h mi s ms < MS_PER_DAY"
  using assms by (simp add: fields_ok_def make_time_def MS_PER_DAY_def)

lemma make_time_fields:
  assumes "fields_ok y m d h mi s ms" "r = make_time h mi s ms"
  shows "r div 3600000 = h" "r div 60000 mod 60 = mi" "r div 1000 mod 60 = s" "r mod 1000 = ms"
proof -
  have b: "0 \<le> mi" "mi < 60" "0 \<le> s" "s < 60" "0 \<le> ms" "ms < 1000" using assms(1) by (simp_all add: fields_ok_def)
  have r: "r = ((h * 60 + mi) * 60 + s) * 1000 + ms" using assms(2) by (simp add: make_time_def)
  show "r mod 1000 = ms" unfolding r by (rule div_mod_pair(2)) (use b in simp_all)
  have k: "r div 1000 = (h * 60 + mi) * 60 + s" unfolding r by (rule div_mod_pair(1)) (use b in simp_all)
  show "r div 1000 mod 60 = s" unfolding k by (rule div_mod_pair(2)) (use b in simp_all)
  have "r div 60000 = r div 1000 div 60" by (simp add: zdiv_zmult2_eq [symmetric])
  also have "\<dots> = h * 60 + mi" unfolding k by (rule div_mod_pair(1)) (use b in simp_all)
  finally have l: "r div 60000 = h * 60 + mi" .
  show "r div 60000 mod 60 = mi" unfolding l by (rule div_mod_pair(2)) (use b in simp_all)
  have "r div 3600000 = r div 60000 div 60" by (simp add: zdiv_zmult2_eq [symmetric])
  also have "\<dots> = h" unfolding l by (rule div_mod_pair(1)) (use b in simp_all)
  finally show "r div 3600000 = h" .
qed

lemma month_start_next:
  assumes "1 \<le> m" "m \<le> 12"
  shows "0 \<le> month_start y m \<and> month_start y m + days_in_month y m \<le> (if leap_year y then 366 else 365)"
  using assms(1,2)
  by (rule month_cases) (simp_all add: month_start_def days_in_month_def)

lemma iso_text_fields:
  assumes "fields_ok y m d h mi s ms"
  shows "iso_text (instant_of y m d h mi s ms) = iso_fields y m d h mi s ms"
proof -
  let ?t = "instant_of y m d h mi s ms"
  have t: "?t = make_day y m d * MS_PER_DAY + make_time h mi s ms" by (simp add: instant_of_def)
  note b = make_time_bounds [OF assms, THEN conjunct1] make_time_bounds [OF assms, THEN conjunct2]
  have day: "?t div MS_PER_DAY = make_day y m d" unfolding t by (rule div_mod_pair(1)) (use b in simp_all)
  have time: "?t mod MS_PER_DAY = make_time h mi s ms" unfolding t by (rule div_mod_pair(2)) (use b in simp_all)
  have m: "1 \<le> m" "m \<le> 12" "1 \<le> d" "d \<le> days_in_month y m" using assms by (simp_all add: fields_ok_def)
  note inside = month_start_next [OF m(1,2), of y]
  have year: "year_from_day (make_day y m d) = y"
    by (rule year_from_day_unique) (use m inside in \<open>simp_all add: make_day_def day_from_year_step\<close>)
  have rest: "make_day y m d - day_from_year y = month_start y m + d - 1" by (simp add: make_day_def)
  have month: "month_from_day y (month_start y m + d - 1) = m"
    by (rule month_from_day_unique) (use m in simp_all)
  show ?thesis
    unfolding iso_text_def day time Let_def year rest month
    by (simp add: make_time_fields [OF assms refl])
qed

lemma instant_fields:
  assumes "\<bar>t\<bar> \<le> MAX_TIME"
  obtains y m d h mi s ms where "fields_ok y m d h mi s ms" "t = instant_of y m d h mi s ms"
proof -
  define d r where "d = t div MS_PER_DAY" and "r = t mod MS_PER_DAY"
  have t: "t = d * MS_PER_DAY + r" by (simp add: d_def r_def)
  have r: "0 \<le> r" "r < 86400000" by (simp_all add: r_def MS_PER_DAY_def)
  define y where "y = year_from_day d"
  define n where "n = d - day_from_year y"
  have n: "0 \<le> n" "n < (if leap_year y then 366 else 365)"
    using year_from_day_correct [of d] by (simp_all add: n_def y_def day_from_year_step)
  define m where "m = month_from_day y n"
  note month = month_from_day_correct [OF n, folded m_def]
  have "- 100000000 \<le> d" "d \<le> 100000000"
    using assms r unfolding t MAX_TIME_def MS_PER_DAY_def by linarith+
  moreover have "\<bar>z\<bar> < 1000000"
    if "a \<le> d" "d < b" "146097 * (z - 1970) - 800 \<le> 400 * a" "400 * b \<le> 146097 * (z + 1 - 1970) + 800"
      "- 100000000 \<le> d" "d \<le> 100000000" for z a b :: int
    using that by (simp add: algebra_simps abs_less_iff)
  ultimately have "\<bar>y\<bar> < 1000000"
    using day_from_year_bounds [of y] day_from_year_bounds [of "y + 1"] year_from_day_correct [of d]
    unfolding y_def [symmetric] by blast
  have time: "make_time (r div 3600000) (r div 60000 mod 60) (r div 1000 mod 60) (r mod 1000) = r"
  proof -
    have k: "r div 60000 = r div 1000 div 60" "r div 3600000 = r div 60000 div 60"
      by (simp_all add: zdiv_zmult2_eq [symmetric])
    show ?thesis unfolding make_time_def by (simp add: k)
  qed
  have day: "make_day y m (n - month_start y m + 1) = d" by (simp add: make_day_def n_def)
  have "fields_ok y m (n - month_start y m + 1)
      (r div 3600000) (r div 60000 mod 60) (r div 1000 mod 60) (r mod 1000)"
    using month r \<open>\<bar>y\<bar> < 1000000\<close> unfolding fields_ok_def by auto
  moreover have "t = instant_of y m (n - month_start y m + 1)
      (r div 3600000) (r div 60000 mod 60) (r div 1000 mod 60) (r mod 1000)"
    unfolding instant_of_def time day by (rule t)
  ultimately show thesis by (rule that)
qed

lemma parse_iso_text: "\<bar>t\<bar> \<le> MAX_TIME \<Longrightarrow> parse_iso (iso_text t) = Some t"
proof -
  assume b: "\<bar>t\<bar> \<le> MAX_TIME"
  then obtain y m d h mi s ms where "fields_ok y m d h mi s ms" "t = instant_of y m d h mi s ms"
    by (rule instant_fields)
  with b parse_iso_fields iso_text_fields show ?thesis by metis
qed

lemma parse_iso_iff: "parse_iso s = Some t \<longleftrightarrow> \<bar>t\<bar> \<le> MAX_TIME \<and> s = iso_text t"
  by (auto simp: parse_iso_text iso_text_fields elim: parse_iso_split)

lemma valid_iso_text: "\<bar>t\<bar> \<le> MAX_TIME \<Longrightarrow> valid_timestamp (iso_text t)"
  by (simp add: valid_timestamp_def parse_iso_text)

text \<open>Time stamps round trip: \<open>parse_iso\<close> reads a string as an instant exactly when the string
  is what \<open>toISOString\<close> prints for it, and a string is a valid time stamp exactly when printing
  the instant it stands for gives it back, which is the source's test.\<close>

theorem iso_round_trip:
  "(parse_iso s = Some t \<longleftrightarrow> \<bar>t\<bar> \<le> MAX_TIME \<and> s = iso_text t)
   \<and> (valid_timestamp s \<longleftrightarrow> \<bar>date_ms s\<bar> \<le> MAX_TIME \<and> iso_text (date_ms s) = s)"
  by (auto simp: parse_iso_iff valid_timestamp_def date_ms_def parse_iso_text split: option.splits)

end
