(* ===== verification/DeliveryPlan.thy ===== *)
theory DeliveryPlan
  imports DeliveryRun JsDatePrint
begin

text \<open>
  delivery-plan.js: the digest-bound delivery plan. A plan is written by four roles (PO, BA,
  Dev, QA), linted for readiness, approved by the operator under the digest of its
  definition, executed, verified and released. Every operation normalises and validates the
  plan it is given and the plan it returns. Records take the place of the source's tests of
  types; \<open>None\<close> in a patch or an input stands for an absent member. The operations take the
  clock reading \<open>now\<close> that the source's default \<open>at = new Date()\<close> would make.
\<close>

section \<open>Data\<close>

record plan_baseline =
  pb_head :: string
  pb_workingTreeDigest :: string
  pb_instructionsDigest :: string
  pb_capturedAt :: string

record plan_classification =
  pc_intent :: string
  pc_depth :: string
  pc_risk :: string
  pc_dataClasses :: "string list"
  pc_mutationSurfaces :: "string list"

record role_po =
  po_user :: string
  po_problem :: string
  po_outcome :: string
  po_value :: string
  po_nonGoals :: "string list"
  po_assumptions :: "string list"
  po_openQuestions :: "string list"

record requirement =
  rq_id :: string
  rq_text :: string

record role_ba =
  ba_requirements :: "requirement list"
  ba_dependencies :: "string list"
  ba_edgeCases :: "string list"
  ba_constraints :: "string list"
  ba_openQuestions :: "string list"

record plan_step =
  sp_id :: string
  sp_title :: string
  sp_outcome :: string
  sp_requirementIds :: "string list"
  sp_scopePaths :: "string list"
  sp_checks :: "string list"

record role_dev =
  dv_architecture :: string
  dv_steps :: "plan_step list"
  dv_risks :: "string list"
  dv_rollback :: string
  dv_openQuestions :: "string list"

record acceptance =
  ac_id :: string
  ac_text :: string
  ac_requirementIds :: "string list"

record role_qa =
  qa_acceptanceCriteria :: "acceptance list"
  qa_testStrategy :: string
  qa_regressionChecks :: "string list"
  qa_releaseRequired :: bool
  qa_releaseChecks :: "string list"
  qa_openQuestions :: "string list"

record plan_roles =
  rl_po :: role_po
  rl_ba :: role_ba
  rl_dev :: role_dev
  rl_qa :: role_qa

record plan_authority =
  au_workspaceWrite :: bool
  au_commit :: bool
  au_push :: bool
  au_deploy :: bool
  au_network :: bool
  au_serviceControl :: bool
  au_destructive :: bool
  au_externalMessages :: bool

record plan_approval =
  ap_digest :: string
  ap_approvedAt :: "string option"
  ap_planRevision :: "int option"

record plan_gates =
  gt_implementationCaptured :: bool
  gt_qaPassed :: bool
  gt_releaseVerified :: bool

record delivery_plan =
  pl_version :: int
  pl_id :: string
  pl_revision :: int
  pl_phase :: string
  pl_title :: string
  pl_request :: string
  pl_workspace :: string
  pl_baseline :: plan_baseline
  pl_classification :: plan_classification
  pl_roles :: plan_roles
  pl_unresolvedQuestions :: "string list"
  pl_authority :: plan_authority
  pl_approval :: plan_approval
  pl_gates :: plan_gates
  pl_blocker :: string
  pl_createdAt :: string
  pl_updatedAt :: string

text \<open>A finding of the readiness check, and the row of one requirement in its table.\<close>

record finding =
  fd_code :: string
  fd_path :: string
  fd_message :: string

record trace_row =
  tr_requirementId :: string
  tr_stepIds :: "string list"
  tr_acceptanceIds :: "string list"
  tr_complete :: bool

record readiness =
  rd_ready :: bool
  rd_errors :: "finding list"
  rd_warnings :: "finding list"
  rd_traceability :: "trace_row list"

section \<open>Constants\<close>

definition plan_error :: "string \<Rightarrow> error" where
  "plan_error suffix = Error (''delivery_plan_'' @ suffix)"

definition DELIVERY_PLAN_VERSION :: int where "DELIVERY_PLAN_VERSION = 1"

definition DELIVERY_PLAN_PHASES :: "string list" where
  "DELIVERY_PLAN_PHASES = [''draft'', ''planning'', ''needs_decision'', ''ready_for_approval'', ''approved'',
     ''executing'', ''verifying'', ''ready_to_release'', ''blocked'', ''done'', ''canceled'']"

definition INTENT_SET :: "string list" where
  "INTENT_SET = [''answer'', ''review'', ''diagnose'', ''change'', ''build'', ''publish'', ''live_operation'']"

definition DEPTH_SET :: "string list" where
  "DEPTH_SET = [''quick'', ''standard'', ''high_risk'']"

definition RISK_SET :: "string list" where
  "RISK_SET = [''read_only'', ''local_reversible'', ''external_reversible'', ''live_or_destructive'']"

definition APPROVAL_PHASES :: "string list" where
  "APPROVAL_PHASES = [''approved'', ''executing'', ''verifying'', ''ready_to_release'', ''done'']"

definition TERMINAL_PHASES :: "string list" where
  "TERMINAL_PHASES = [''done'', ''canceled'']"

definition requirement_id_pattern :: "string \<Rightarrow> bool" where
  "requirement_id_pattern s = id_pattern ''REQ-'' upper_id_start upper_id_char 0 39 s"

definition LEGAL_TRANSITIONS :: "(string \<times> string list) list" where
  "LEGAL_TRANSITIONS =
     [(''draft'', [''planning'', ''canceled'']),
      (''planning'', [''needs_decision'', ''ready_for_approval'', ''blocked'', ''canceled'']),
      (''needs_decision'', [''planning'', ''ready_for_approval'', ''canceled'']),
      (''ready_for_approval'', [''planning'', ''approved'', ''canceled'']),
      (''approved'', [''planning'', ''executing'', ''canceled'']),
      (''executing'', [''planning'', ''verifying'', ''blocked'', ''canceled'']),
      (''verifying'', [''planning'', ''executing'', ''ready_to_release'', ''blocked'', ''canceled'']),
      (''ready_to_release'', [''planning'', ''done'', ''canceled'']),
      (''blocked'', [''planning'', ''canceled'']),
      (''done'', []),
      (''canceled'', [])]"

definition legal_transition :: "string \<Rightarrow> string \<Rightarrow> bool" where
  "legal_transition phase target =
     (case map_of LEGAL_TRANSITIONS phase of None \<Rightarrow> False | Some targets \<Rightarrow> target \<in> set targets)"

section \<open>Normalisation\<close>

definition normalizedId :: "string \<Rightarrow> string" where
  "normalizedId value = to_upper (js_inline value)"

definition normalizedWord :: "string \<Rightarrow> string" where
  "normalizedWord value = to_lower (js_inline value)"

text \<open>
  \<open>Date.parse\<close>: the ISO form, or what the host makes of another form, as long as it is a time
  value.
\<close>

definition date_parse :: "host \<Rightarrow> string \<Rightarrow> int option" where
  "date_parse H s =
     (case parse_iso s of
        Some t \<Rightarrow> Some t
      | None \<Rightarrow> (case dateParse H s of
            Some t \<Rightarrow> if \<bar>t\<bar> \<le> MAX_TIME then Some t else None
          | None \<Rightarrow> None))"

definition normalizedTimestamp :: "host \<Rightarrow> string \<Rightarrow> string \<Rightarrow> string" where
  "normalizedTimestamp H value fallback =
     (let t = js_inline (if value = [] then fallback else value) in
      case date_parse H t of Some ms \<Rightarrow> iso_text ms | None \<Rightarrow> t)"

text \<open>The loop of \<open>normalizedStringList\<close> and \<open>normalizedIdList\<close>: skip what is empty or seen.\<close>

definition normalized_list :: "(string \<Rightarrow> string) \<Rightarrow> string list \<Rightarrow> string list" where
  "normalized_list f xs = push_all_new [] (filter (\<lambda>t. t \<noteq> []) (map f xs))"

definition normalizedStringList :: "string list \<Rightarrow> string list" where
  "normalizedStringList xs = normalized_list js_text xs"

definition normalizedIdList :: "string list \<Rightarrow> string list" where
  "normalizedIdList xs = normalized_list normalizedId xs"

definition normalizedBaseline :: "host \<Rightarrow> plan_baseline \<Rightarrow> plan_baseline" where
  "normalizedBaseline H b =
     \<lparr>pb_head = normalizedWord (pb_head b),
      pb_workingTreeDigest = normalizedWord (pb_workingTreeDigest b),
      pb_instructionsDigest = normalizedWord (pb_instructionsDigest b),
      pb_capturedAt = normalizedTimestamp H (pb_capturedAt b) []\<rparr>"

definition normalizedClassification :: "plan_classification \<Rightarrow> plan_classification" where
  "normalizedClassification c =
     \<lparr>pc_intent = normalizedWord (pc_intent c), pc_depth = normalizedWord (pc_depth c),
      pc_risk = normalizedWord (pc_risk c),
      pc_dataClasses = normalizedStringList (pc_dataClasses c),
      pc_mutationSurfaces = normalizedStringList (pc_mutationSurfaces c)\<rparr>"

definition normalizedPo :: "role_po \<Rightarrow> role_po" where
  "normalizedPo r =
     \<lparr>po_user = js_text (po_user r), po_problem = js_text (po_problem r),
      po_outcome = js_text (po_outcome r), po_value = js_text (po_value r),
      po_nonGoals = normalizedStringList (po_nonGoals r),
      po_assumptions = normalizedStringList (po_assumptions r),
      po_openQuestions = normalizedStringList (po_openQuestions r)\<rparr>"

definition normalizedRequirement :: "requirement \<Rightarrow> requirement" where
  "normalizedRequirement q = \<lparr>rq_id = normalizedId (rq_id q), rq_text = js_text (rq_text q)\<rparr>"

definition normalizedBa :: "role_ba \<Rightarrow> role_ba" where
  "normalizedBa r =
     \<lparr>ba_requirements = map normalizedRequirement (ba_requirements r),
      ba_dependencies = normalizedStringList (ba_dependencies r),
      ba_edgeCases = normalizedStringList (ba_edgeCases r),
      ba_constraints = normalizedStringList (ba_constraints r),
      ba_openQuestions = normalizedStringList (ba_openQuestions r)\<rparr>"

definition normalizedStep :: "plan_step \<Rightarrow> plan_step" where
  "normalizedStep s =
     \<lparr>sp_id = normalizedId (sp_id s), sp_title = js_inline (sp_title s),
      sp_outcome = js_text (sp_outcome s),
      sp_requirementIds = normalizedIdList (sp_requirementIds s),
      sp_scopePaths = normalizedStringList (sp_scopePaths s),
      sp_checks = normalizedStringList (sp_checks s)\<rparr>"

definition normalizedDev :: "role_dev \<Rightarrow> role_dev" where
  "normalizedDev r =
     \<lparr>dv_architecture = js_text (dv_architecture r),
      dv_steps = map normalizedStep (dv_steps r),
      dv_risks = normalizedStringList (dv_risks r),
      dv_rollback = js_text (dv_rollback r),
      dv_openQuestions = normalizedStringList (dv_openQuestions r)\<rparr>"

definition normalizedAcceptance :: "acceptance \<Rightarrow> acceptance" where
  "normalizedAcceptance c =
     \<lparr>ac_id = normalizedId (ac_id c), ac_text = js_text (ac_text c),
      ac_requirementIds = normalizedIdList (ac_requirementIds c)\<rparr>"

definition normalizedQa :: "role_qa \<Rightarrow> role_qa" where
  "normalizedQa r =
     \<lparr>qa_acceptanceCriteria = map normalizedAcceptance (qa_acceptanceCriteria r),
      qa_testStrategy = js_text (qa_testStrategy r),
      qa_regressionChecks = normalizedStringList (qa_regressionChecks r),
      qa_releaseRequired = qa_releaseRequired r,
      qa_releaseChecks = normalizedStringList (qa_releaseChecks r),
      qa_openQuestions = normalizedStringList (qa_openQuestions r)\<rparr>"

definition normalizedRoles :: "plan_roles \<Rightarrow> plan_roles" where
  "normalizedRoles r =
     \<lparr>rl_po = normalizedPo (rl_po r), rl_ba = normalizedBa (rl_ba r),
      rl_dev = normalizedDev (rl_dev r), rl_qa = normalizedQa (rl_qa r)\<rparr>"

definition normalizedApproval :: "host \<Rightarrow> plan_approval \<Rightarrow> plan_approval" where
  "normalizedApproval H a =
     \<lparr>ap_digest = normalizedWord (ap_digest a),
      ap_approvedAt = map_option (\<lambda>t. normalizedTimestamp H t []) (ap_approvedAt a),
      ap_planRevision = ap_planRevision a\<rparr>"

definition normalizeDeliveryPlan :: "host \<Rightarrow> string \<Rightarrow> delivery_plan \<Rightarrow> delivery_plan" where
  "normalizeDeliveryPlan H now p =
     (let createdAt = normalizedTimestamp H (pl_createdAt p) now in
      \<lparr>pl_version = pl_version p, pl_id = normalizedWord (pl_id p), pl_revision = pl_revision p,
       pl_phase = normalizedWord (if pl_phase p = [] then ''draft'' else pl_phase p),
       pl_title = js_inline (pl_title p), pl_request = js_text (pl_request p),
       pl_workspace = js_inline (pl_workspace p),
       pl_baseline = normalizedBaseline H (pl_baseline p),
       pl_classification = normalizedClassification (pl_classification p),
       pl_roles = normalizedRoles (pl_roles p),
       pl_unresolvedQuestions = normalizedStringList (pl_unresolvedQuestions p),
       pl_authority = pl_authority p, pl_approval = normalizedApproval H (pl_approval p),
       pl_gates = pl_gates p, pl_blocker = js_text (pl_blocker p), pl_createdAt = createdAt,
       pl_updatedAt = normalizedTimestamp H (pl_updatedAt p) createdAt\<rparr>)"

section \<open>Checks on values\<close>

text \<open>Lengths as integers, counted element by element when evaluated.\<close>

definition js_length :: "'a list \<Rightarrow> int" where
  "js_length xs = int (length xs)"

lemma js_length_code [code]: "js_length [] = 0" "js_length (x # xs) = 1 + js_length xs"
  by (simp_all add: js_length_def)

definition pl_assertText :: "string \<Rightarrow> string \<Rightarrow> bool \<Rightarrow> int \<Rightarrow> error option" where
  "pl_assertText value field required maximum = throws
     [throw_if (required \<and> value = []) (plan_error (field @ ''_invalid'')),
      throw_if (maximum < js_length value) (plan_error (field @ ''_too_long'')),
      throw_if (list_ex is_control value) (plan_error ''control_characters_not_allowed'')]"

definition pl_assertStringList :: "string list \<Rightarrow> string \<Rightarrow> int \<Rightarrow> int \<Rightarrow> error option" where
  "pl_assertStringList value field maxItems maxChars =
     (if maxItems < js_length value then Some (plan_error (field @ ''_invalid''))
      else throws (map (\<lambda>item. pl_assertText item field True maxChars) value))"

text \<open>The defaults of the two functions.\<close>

abbreviation pl_roleText :: "string \<Rightarrow> string \<Rightarrow> error option" where
  "pl_roleText field value \<equiv> pl_assertText value field False 1600"

abbreviation pl_roleList :: "string \<Rightarrow> string list \<Rightarrow> error option" where
  "pl_roleList field value \<equiv> pl_assertStringList value field 100 800"

definition assertUniqueIds :: "string list \<Rightarrow> string \<Rightarrow> (string \<Rightarrow> bool) \<Rightarrow> error option" where
  "assertUniqueIds ids field pattern =
     each_indexed (\<lambda>i ident. throws
       [throw_if (\<not> pattern ident) (plan_error (field @ ''_invalid'')),
        throw_if (seen_before (\<lambda>x. x) ids i) (plan_error (field @ ''_duplicate''))]) ids"

definition assertScopePath :: "string \<Rightarrow> error option" where
  "assertScopePath value =
     (let normalized = path_normalize value; segments = split_at (CHR ''/'') normalized
      in throws
       [pl_assertText value ''scope_path'' True 512,
        throw_if (CHR 0x5C \<in> set value \<or> normalized = ''.'' \<or> normalized \<noteq> value
          \<or> path_is_absolute normalized \<or> ''..'' \<in> set segments \<or> ''.git'' \<in> set segments)
          (plan_error ''scope_path_invalid'')])"

text \<open>An absolute path in normal form that ends with a slash only when it is the root.\<close>

definition canonical_workspace :: "string \<Rightarrow> bool" where
  "canonical_workspace w \<longleftrightarrow> path_is_absolute w \<and> path_normalize w = w \<and> (w = ''/'' \<or> \<not> ends_with ''/'' w)"

definition plan_head_pattern :: "string \<Rightarrow> bool" where
  "plan_head_pattern h \<longleftrightarrow> 7 \<le> js_length h \<and> js_length h \<le> 64 \<and> list_all is_hex h"

section \<open>The shape of a plan\<close>

definition shape_header_checks :: "delivery_plan \<Rightarrow> error option list" where
  "shape_header_checks p =
     [throw_if (pl_version p \<noteq> DELIVERY_PLAN_VERSION) (plan_error ''version_unsupported''),
      throw_if (\<not> plan_id_pattern (pl_id p)) (plan_error ''id_invalid''),
      throw_if (\<not> safe_integer (pl_revision p) \<or> pl_revision p < 1) (plan_error ''revision_invalid''),
      throw_if (pl_phase p \<notin> set DELIVERY_PLAN_PHASES) (plan_error ''phase_invalid''),
      pl_assertText (pl_title p) ''title'' True 160,
      pl_assertText (pl_request p) ''request'' True 4000,
      pl_assertText (pl_workspace p) ''workspace'' False 4096,
      throw_if (pl_workspace p \<noteq> [] \<and> \<not> canonical_workspace (pl_workspace p))
        (plan_error ''workspace_invalid''),
      pl_assertText (pl_blocker p) ''blocker'' False 800,
      throw_if (\<not> valid_timestamp (pl_createdAt p) \<or> \<not> valid_timestamp (pl_updatedAt p)
          \<or> date_ms (pl_updatedAt p) < date_ms (pl_createdAt p))
        (plan_error ''timestamp_invalid'')]"

definition shape_baseline_checks :: "plan_baseline \<Rightarrow> error option list" where
  "shape_baseline_checks b =
     [pl_assertText (pb_head b) ''baseline_head'' False 80,
      throw_if (pb_head b \<noteq> [] \<and> pb_head b \<noteq> ''unborn'' \<and> \<not> plan_head_pattern (pb_head b))
        (plan_error ''baseline_head_invalid''),
      pl_assertText (pb_workingTreeDigest b) ''baseline_workingTreeDigest'' False 64,
      throw_if (pb_workingTreeDigest b \<noteq> [] \<and> \<not> digest_pattern (pb_workingTreeDigest b))
        (plan_error ''baseline_digest_invalid''),
      pl_assertText (pb_instructionsDigest b) ''baseline_instructionsDigest'' False 64,
      throw_if (pb_instructionsDigest b \<noteq> [] \<and> \<not> digest_pattern (pb_instructionsDigest b))
        (plan_error ''baseline_digest_invalid''),
      throw_if (pb_capturedAt b \<noteq> [] \<and> \<not> valid_timestamp (pb_capturedAt b))
        (plan_error ''baseline_timestamp_invalid'')]"

definition shape_classification_checks :: "plan_classification \<Rightarrow> error option list" where
  "shape_classification_checks c =
     [throw_if (pc_intent c \<noteq> [] \<and> pc_intent c \<notin> set INTENT_SET)
        (plan_error ''classification_intent_invalid''),
      throw_if (pc_depth c \<noteq> [] \<and> pc_depth c \<notin> set DEPTH_SET)
        (plan_error ''classification_depth_invalid''),
      throw_if (pc_risk c \<noteq> [] \<and> pc_risk c \<notin> set RISK_SET)
        (plan_error ''classification_risk_invalid''),
      pl_roleList ''classification_data_classes'' (pc_dataClasses c),
      pl_roleList ''classification_mutation_surfaces'' (pc_mutationSurfaces c)]"

definition shape_role_text_checks :: "plan_roles \<Rightarrow> error option list" where
  "shape_role_text_checks r =
     [pl_roleText ''po_user'' (po_user (rl_po r)),
      pl_roleText ''po_problem'' (po_problem (rl_po r)),
      pl_roleText ''po_outcome'' (po_outcome (rl_po r)),
      pl_roleText ''po_value'' (po_value (rl_po r)),
      pl_roleText ''dev_architecture'' (dv_architecture (rl_dev r)),
      pl_roleText ''dev_rollback'' (dv_rollback (rl_dev r)),
      pl_roleText ''qa_test_strategy'' (qa_testStrategy (rl_qa r))]"

definition shape_role_list_checks :: "plan_roles \<Rightarrow> string list \<Rightarrow> error option list" where
  "shape_role_list_checks r unresolved =
     [pl_roleList ''po_non_goals'' (po_nonGoals (rl_po r)),
      pl_roleList ''po_assumptions'' (po_assumptions (rl_po r)),
      pl_roleList ''po_open_questions'' (po_openQuestions (rl_po r)),
      pl_roleList ''ba_dependencies'' (ba_dependencies (rl_ba r)),
      pl_roleList ''ba_edge_cases'' (ba_edgeCases (rl_ba r)),
      pl_roleList ''ba_constraints'' (ba_constraints (rl_ba r)),
      pl_roleList ''ba_open_questions'' (ba_openQuestions (rl_ba r)),
      pl_roleList ''dev_risks'' (dv_risks (rl_dev r)),
      pl_roleList ''dev_open_questions'' (dv_openQuestions (rl_dev r)),
      pl_roleList ''qa_regression_checks'' (qa_regressionChecks (rl_qa r)),
      pl_roleList ''qa_release_checks'' (qa_releaseChecks (rl_qa r)),
      pl_roleList ''qa_open_questions'' (qa_openQuestions (rl_qa r)),
      pl_roleList ''unresolved_questions'' unresolved]"

definition shape_requirement_checks :: "requirement list \<Rightarrow> error option list" where
  "shape_requirement_checks qs =
     [throw_if (80 < js_length qs) (plan_error ''requirements_invalid''),
      assertUniqueIds (map rq_id qs) ''requirement_id'' requirement_id_pattern]
     @ map (\<lambda>q. pl_assertText (rq_text q) ''requirement_text'' True 800) qs"

definition shape_step_checks :: "string list \<Rightarrow> plan_step \<Rightarrow> error option list" where
  "shape_step_checks requirementIds s =
     [pl_assertText (sp_title s) ''step_title'' True 160,
      pl_assertText (sp_outcome s) ''step_outcome'' True 800,
      pl_assertStringList (sp_requirementIds s) ''step_requirement_ids'' 80 44,
      throw_if (list_ex (\<lambda>i. i \<notin> set requirementIds) (sp_requirementIds s))
        (plan_error ''step_requirement_unknown''),
      pl_assertStringList (sp_scopePaths s) ''step_scope_paths'' 100 512]
     @ map assertScopePath (sp_scopePaths s)
     @ [pl_roleList ''step_checks'' (sp_checks s)]"

definition shape_steps_checks :: "string list \<Rightarrow> plan_step list \<Rightarrow> error option list" where
  "shape_steps_checks requirementIds ss =
     [throw_if (80 < js_length ss) (plan_error ''steps_invalid''),
      assertUniqueIds (map sp_id ss) ''step_id'' step_id_pattern]
     @ concat (map (shape_step_checks requirementIds) ss)"

definition shape_criterion_checks :: "string list \<Rightarrow> acceptance \<Rightarrow> error option list" where
  "shape_criterion_checks requirementIds c =
     [pl_assertText (ac_text c) ''acceptance_text'' True 800,
      pl_assertStringList (ac_requirementIds c) ''acceptance_requirement_ids'' 80 44,
      throw_if (list_ex (\<lambda>i. i \<notin> set requirementIds) (ac_requirementIds c))
        (plan_error ''acceptance_requirement_unknown'')]"

definition shape_criteria_checks :: "string list \<Rightarrow> acceptance list \<Rightarrow> error option list" where
  "shape_criteria_checks requirementIds cs =
     [throw_if (120 < js_length cs) (plan_error ''acceptance_criteria_invalid''),
      assertUniqueIds (map ac_id cs) ''acceptance_id'' acceptance_id_pattern]
     @ concat (map (shape_criterion_checks requirementIds) cs)"

definition approval_present :: "plan_approval \<Rightarrow> bool" where
  "approval_present a \<longleftrightarrow> ap_digest a \<noteq> [] \<or> (ap_approvedAt a \<noteq> None \<and> ap_approvedAt a \<noteq> Some [])
     \<or> ap_planRevision a \<noteq> None"

definition approval_check :: "plan_approval \<Rightarrow> error option" where
  "approval_check a =
     throw_if (approval_present a \<and>
         (\<not> digest_pattern (ap_digest a)
          \<or> (case ap_approvedAt a of None \<Rightarrow> True | Some t \<Rightarrow> \<not> valid_timestamp t)
          \<or> (case ap_planRevision a of None \<Rightarrow> True | Some n \<Rightarrow> \<not> safe_integer n \<or> n < 1)))
       (plan_error ''approval_invalid'')"

text \<open>\<open>validateShape\<close> without \<open>enforcePhase\<close>.\<close>

definition shape_checks :: "delivery_plan \<Rightarrow> error option list" where
  "shape_checks p =
     (let r = pl_roles p; requirementIds = map rq_id (ba_requirements (rl_ba r)) in
      shape_header_checks p
      @ shape_baseline_checks (pl_baseline p)
      @ shape_classification_checks (pl_classification p)
      @ shape_role_text_checks r
      @ shape_role_list_checks r (pl_unresolvedQuestions p)
      @ shape_requirement_checks (ba_requirements (rl_ba r))
      @ shape_steps_checks requirementIds (dv_steps (rl_dev r))
      @ shape_criteria_checks requirementIds (qa_acceptanceCriteria (rl_qa r))
      @ [approval_check (pl_approval p)])"

definition validateShape :: "delivery_plan \<Rightarrow> delivery_plan result" where
  "validateShape p = guard (throws (shape_checks p)) (Inr p)"

section \<open>The definition of a plan and its digest\<close>

definition plan_baseline_json :: "plan_baseline \<Rightarrow> json" where
  "plan_baseline_json b = JObj
     [(''head'', JStr (pb_head b)), (''workingTreeDigest'', JStr (pb_workingTreeDigest b)),
      (''instructionsDigest'', JStr (pb_instructionsDigest b))]"

definition plan_classification_json :: "plan_classification \<Rightarrow> json" where
  "plan_classification_json c = JObj
     [(''intent'', JStr (pc_intent c)), (''depth'', JStr (pc_depth c)), (''risk'', JStr (pc_risk c)),
      (''dataClasses'', json_strings (pc_dataClasses c)),
      (''mutationSurfaces'', json_strings (pc_mutationSurfaces c))]"

definition po_json :: "role_po \<Rightarrow> json" where
  "po_json r = JObj
     [(''user'', JStr (po_user r)), (''problem'', JStr (po_problem r)), (''outcome'', JStr (po_outcome r)),
      (''value'', JStr (po_value r)), (''nonGoals'', json_strings (po_nonGoals r)),
      (''assumptions'', json_strings (po_assumptions r)),
      (''openQuestions'', json_strings (po_openQuestions r))]"

definition requirement_json :: "requirement \<Rightarrow> json" where
  "requirement_json q = JObj [(''id'', JStr (rq_id q)), (''text'', JStr (rq_text q))]"

definition ba_json :: "role_ba \<Rightarrow> json" where
  "ba_json r = JObj
     [(''requirements'', JArr (map requirement_json (ba_requirements r))),
      (''dependencies'', json_strings (ba_dependencies r)),
      (''edgeCases'', json_strings (ba_edgeCases r)), (''constraints'', json_strings (ba_constraints r)),
      (''openQuestions'', json_strings (ba_openQuestions r))]"

definition step_json :: "plan_step \<Rightarrow> json" where
  "step_json s = JObj
     [(''id'', JStr (sp_id s)), (''title'', JStr (sp_title s)), (''outcome'', JStr (sp_outcome s)),
      (''requirementIds'', json_strings (sp_requirementIds s)),
      (''scopePaths'', json_strings (sp_scopePaths s)), (''checks'', json_strings (sp_checks s))]"

definition dev_json :: "role_dev \<Rightarrow> json" where
  "dev_json r = JObj
     [(''architecture'', JStr (dv_architecture r)), (''steps'', JArr (map step_json (dv_steps r))),
      (''risks'', json_strings (dv_risks r)), (''rollback'', JStr (dv_rollback r)),
      (''openQuestions'', json_strings (dv_openQuestions r))]"

definition acceptance_json :: "acceptance \<Rightarrow> json" where
  "acceptance_json c = JObj
     [(''id'', JStr (ac_id c)), (''text'', JStr (ac_text c)),
      (''requirementIds'', json_strings (ac_requirementIds c))]"

definition qa_json :: "role_qa \<Rightarrow> json" where
  "qa_json r = JObj
     [(''acceptanceCriteria'', JArr (map acceptance_json (qa_acceptanceCriteria r))),
      (''testStrategy'', JStr (qa_testStrategy r)),
      (''regressionChecks'', json_strings (qa_regressionChecks r)),
      (''releaseRequired'', JBool (qa_releaseRequired r)),
      (''releaseChecks'', json_strings (qa_releaseChecks r)),
      (''openQuestions'', json_strings (qa_openQuestions r))]"

definition roles_json :: "plan_roles \<Rightarrow> json" where
  "roles_json r = JObj
     [(''po'', po_json (rl_po r)), (''ba'', ba_json (rl_ba r)), (''dev'', dev_json (rl_dev r)),
      (''qa'', qa_json (rl_qa r))]"

definition authority_members :: "plan_authority \<Rightarrow> (string \<times> bool) list" where
  "authority_members a =
     [(''workspaceWrite'', au_workspaceWrite a), (''commit'', au_commit a), (''push'', au_push a),
      (''deploy'', au_deploy a), (''network'', au_network a), (''serviceControl'', au_serviceControl a),
      (''destructive'', au_destructive a), (''externalMessages'', au_externalMessages a)]"

definition authority_json :: "plan_authority \<Rightarrow> json" where
  "authority_json a = JObj (map (\<lambda>(name, enabled). (name, JBool enabled)) (authority_members a))"

text \<open>The object that \<open>deliveryPlanDefinition\<close> returns for a normalised plan of valid shape.\<close>

definition definition_json :: "delivery_plan \<Rightarrow> json" where
  "definition_json p = JObj
     [(''version'', JNum (pl_version p)), (''id'', JStr (pl_id p)), (''title'', JStr (pl_title p)),
      (''request'', JStr (pl_request p)), (''workspace'', JStr (pl_workspace p)),
      (''baseline'', plan_baseline_json (pl_baseline p)),
      (''classification'', plan_classification_json (pl_classification p)),
      (''roles'', roles_json (pl_roles p)),
      (''unresolvedQuestions'', json_strings (pl_unresolvedQuestions p)),
      (''authority'', authority_json (pl_authority p))]"

definition deliveryPlanDefinition :: "host \<Rightarrow> string \<Rightarrow> delivery_plan \<Rightarrow> json result" where
  "deliveryPlanDefinition H now v =
     attempt (validateShape (normalizeDeliveryPlan H now v)) (\<lambda>p. Inr (definition_json p))"

definition deliveryPlanDigest :: "host \<Rightarrow> string \<Rightarrow> delivery_plan \<Rightarrow> string result" where
  "deliveryPlanDigest H now v =
     attempt (deliveryPlanDefinition H now v) (\<lambda>d. Inr (canonicalSha256 H d))"

definition approvalStatusUnchecked :: "host \<Rightarrow> string \<Rightarrow> delivery_plan \<Rightarrow> string result" where
  "approvalStatusUnchecked H now p =
     (if ap_digest (pl_approval p) = [] then Inr ''missing''
      else attempt (deliveryPlanDigest H now p) (\<lambda>d.
        Inr (if ap_digest (pl_approval p) = d then ''current'' else ''stale'')))"

definition deliveryPlanApprovalStatus :: "host \<Rightarrow> string \<Rightarrow> delivery_plan \<Rightarrow> string result" where
  "deliveryPlanApprovalStatus H now v =
     attempt (validateShape (normalizeDeliveryPlan H now v)) (approvalStatusUnchecked H now)"

section \<open>The discovery baseline\<close>

text \<open>A placeholder derived from the workspace path, for plans with no Git workspace yet.\<close>

definition deliveryPlanDiscoveryBaseline :: "host \<Rightarrow> string \<Rightarrow> string \<Rightarrow> plan_baseline result" where
  "deliveryPlanDiscoveryBaseline H workspace at =
     (let canonicalWorkspace = js_inline workspace in
      guard (throw_if (\<not> canonical_workspace canonicalWorkspace) (plan_error ''workspace_invalid''))
        (Inr \<lparr>pb_head = ''unborn'',
           pb_workingTreeDigest = canonicalSha256 H (JObj [(''version'', JNum 1),
             (''kind'', JStr ''aap_discovery''), (''workspace'', JStr canonicalWorkspace)]),
           pb_instructionsDigest = canonicalSha256 H (JObj [(''version'', JNum 1),
             (''kind'', JStr ''aap_discovery_instructions''), (''workspace'', JStr canonicalWorkspace)]),
           pb_capturedAt = normalizedTimestamp H at []\<rparr>))"

definition deliveryPlanHasDiscoveryBaseline :: "host \<Rightarrow> delivery_plan \<Rightarrow> bool" where
  "deliveryPlanHasDiscoveryBaseline H p =
     (if pl_workspace p = [] then False
      else (case deliveryPlanDiscoveryBaseline H (pl_workspace p) (pb_capturedAt (pl_baseline p)) of
          Inl e \<Rightarrow> False
        | Inr expected \<Rightarrow> pb_head (pl_baseline p) = pb_head expected
            \<and> pb_workingTreeDigest (pl_baseline p) = pb_workingTreeDigest expected
            \<and> pb_instructionsDigest (pl_baseline p) = pb_instructionsDigest expected))"

section \<open>Readiness\<close>

definition finding_if :: "bool \<Rightarrow> string \<Rightarrow> string \<Rightarrow> string \<Rightarrow> finding list" where
  "finding_if b code_name path_name message =
     (if b then [\<lparr>fd_code = code_name, fd_path = path_name, fd_message = message\<rparr>] else [])"

definition lint_po :: "role_po \<Rightarrow> finding list" where
  "lint_po r =
     finding_if (po_user r = []) ''po_user_missing'' ''roles.po.user'' ''PO user is required.''
     @ finding_if (po_problem r = []) ''po_problem_missing'' ''roles.po.problem'' ''PO problem is required.''
     @ finding_if (po_outcome r = []) ''po_outcome_missing'' ''roles.po.outcome'' ''PO outcome is required.''
     @ finding_if (po_value r = []) ''po_value_missing'' ''roles.po.value'' ''PO value is required.''
     @ finding_if (po_nonGoals r = []) ''po_non_goals_missing'' ''roles.po.nonGoals''
         ''At least one explicit non-goal is required.''"

definition lint_baseline :: "host \<Rightarrow> delivery_plan \<Rightarrow> finding list" where
  "lint_baseline H p =
     (let b = pl_baseline p in
      finding_if (pl_workspace p = []) ''workspace_missing'' ''workspace'' ''A canonical workspace is required.''
      @ finding_if (pb_head b = []) ''baseline_head_missing'' ''baseline.head'' ''The Git baseline is required.''
      @ finding_if (pb_workingTreeDigest b = []) ''baseline_worktree_missing'' ''baseline.workingTreeDigest''
          ''The recognized working-tree baseline is required.''
      @ finding_if (pb_instructionsDigest b = []) ''baseline_instructions_missing'' ''baseline.instructionsDigest''
          ''The project-instruction baseline is required.''
      @ finding_if (pb_capturedAt b = []) ''baseline_timestamp_missing'' ''baseline.capturedAt''
          ''The baseline capture time is required.''
      @ finding_if (deliveryPlanHasDiscoveryBaseline H p) ''baseline_discovery_only'' ''baseline''
          ''Connect a real Git workspace baseline before approval or coding. The discovery workshop may continue.'')"

definition lint_classification :: "plan_classification \<Rightarrow> finding list" where
  "lint_classification c =
     finding_if (pc_intent c = []) ''classification_intent_missing'' ''classification.intent''
       ''The requested action class is required.''
     @ finding_if (pc_depth c = []) ''classification_depth_missing'' ''classification.depth''
         ''The planning depth is required.''
     @ finding_if (pc_risk c = []) ''classification_risk_missing'' ''classification.risk''
         ''The mutation risk class is required.''"

definition lint_roles :: "plan_roles \<Rightarrow> finding list" where
  "lint_roles r =
     (let ba = rl_ba r; dev = rl_dev r; qa = rl_qa r in
      finding_if (ba_requirements ba = []) ''ba_requirements_missing'' ''roles.ba.requirements''
        ''At least one numbered requirement is required.''
      @ finding_if (dv_architecture dev = []) ''dev_architecture_missing'' ''roles.dev.architecture''
          ''A bounded technical approach is required.''
      @ finding_if (dv_steps dev = []) ''dev_steps_missing'' ''roles.dev.steps''
          ''At least one implementation step is required.''
      @ finding_if (dv_rollback dev = []) ''dev_rollback_missing'' ''roles.dev.rollback''
          ''A rollback or safe-abort strategy is required.''
      @ finding_if (qa_acceptanceCriteria qa = []) ''qa_acceptance_missing'' ''roles.qa.acceptanceCriteria''
          ''At least one acceptance criterion is required.''
      @ finding_if (qa_testStrategy qa = []) ''qa_test_strategy_missing'' ''roles.qa.testStrategy''
          ''A test strategy is required.''
      @ finding_if (qa_regressionChecks qa = []) ''qa_regression_missing'' ''roles.qa.regressionChecks''
          ''At least one regression check is required.''
      @ finding_if (qa_releaseRequired qa \<and> qa_releaseChecks qa = []) ''qa_release_checks_missing''
          ''roles.qa.releaseChecks'' ''Release checks are required when release is in scope.'')"

definition open_questions :: "delivery_plan \<Rightarrow> string list" where
  "open_questions p =
     (let r = pl_roles p in
      pl_unresolvedQuestions p @ po_openQuestions (rl_po r) @ ba_openQuestions (rl_ba r)
        @ dv_openQuestions (rl_dev r) @ qa_openQuestions (rl_qa r))"

definition lint_questions :: "delivery_plan \<Rightarrow> finding list" where
  "lint_questions p =
     finding_if (open_questions p \<noteq> []) ''unresolved_questions'' ''unresolvedQuestions''
       (int_text (js_length (open_questions p)) @ '' planning question(s) remain unresolved.'')"

definition trace_requirement :: "plan_roles \<Rightarrow> requirement \<Rightarrow> trace_row" where
  "trace_requirement r q =
     (let stepIds = map sp_id (filter (\<lambda>s. rq_id q \<in> set (sp_requirementIds s)) (dv_steps (rl_dev r)));
          acceptanceIds = map ac_id (filter (\<lambda>c. rq_id q \<in> set (ac_requirementIds c))
            (qa_acceptanceCriteria (rl_qa r)))
      in \<lparr>tr_requirementId = rq_id q, tr_stepIds = stepIds, tr_acceptanceIds = acceptanceIds,
          tr_complete = (stepIds \<noteq> [] \<and> acceptanceIds \<noteq> [])\<rparr>)"

definition lint_requirement :: "plan_roles \<Rightarrow> requirement \<Rightarrow> finding list" where
  "lint_requirement r q =
     (let t = trace_requirement r q in
      finding_if (tr_stepIds t = []) ''requirement_missing_step'' (''roles.ba.requirements.'' @ rq_id q)
        (rq_id q @ '' is not covered by an implementation step.'')
      @ finding_if (tr_acceptanceIds t = []) ''requirement_missing_acceptance''
          (''roles.ba.requirements.'' @ rq_id q) (rq_id q @ '' is not covered by an acceptance criterion.''))"

definition lint_step :: "plan_step \<Rightarrow> finding list" where
  "lint_step s =
     finding_if (sp_requirementIds s = []) ''step_requirements_missing'' (''roles.dev.steps.'' @ sp_id s)
       (sp_id s @ '' must trace to a requirement.'')
     @ finding_if (sp_scopePaths s = []) ''step_scope_missing'' (''roles.dev.steps.'' @ sp_id s)
         (sp_id s @ '' needs a bounded file or directory scope.'')
     @ finding_if (sp_checks s = []) ''step_checks_missing'' (''roles.dev.steps.'' @ sp_id s)
         (sp_id s @ '' needs at least one verification check.'')"

definition lint_criterion :: "acceptance \<Rightarrow> finding list" where
  "lint_criterion c =
     finding_if (ac_requirementIds c = []) ''acceptance_requirements_missing''
       (''roles.qa.acceptanceCriteria.'' @ ac_id c) (ac_id c @ '' must trace to a requirement.'')"

definition elevated_authority :: "plan_authority \<Rightarrow> string list" where
  "elevated_authority a =
     map fst (filter (\<lambda>(name, enabled). name \<noteq> ''workspaceWrite'' \<and> enabled) (authority_members a))"

definition lint_errors :: "host \<Rightarrow> delivery_plan \<Rightarrow> finding list" where
  "lint_errors H p =
     (let r = pl_roles p in
      lint_po (rl_po r) @ lint_baseline H p @ lint_classification (pl_classification p) @ lint_roles r
      @ lint_questions p
      @ concat (map (lint_requirement r) (ba_requirements (rl_ba r)))
      @ concat (map lint_step (dv_steps (rl_dev r)))
      @ concat (map lint_criterion (qa_acceptanceCriteria (rl_qa r))))"

definition lint_warnings :: "delivery_plan \<Rightarrow> finding list" where
  "lint_warnings p =
     (let elevated = elevated_authority (pl_authority p) in
      finding_if (dv_risks (rl_dev (pl_roles p)) = []) ''dev_risks_empty'' ''roles.dev.risks''
        ''No implementation risks were recorded.''
      @ finding_if (elevated \<noteq> []) ''elevated_authority'' ''authority''
          (''Elevated authority requested: '' @ join_with '', '' elevated @ ''.''))"

definition lintNormalizedReadiness :: "host \<Rightarrow> delivery_plan \<Rightarrow> readiness" where
  "lintNormalizedReadiness H p =
     \<lparr>rd_ready = (lint_errors H p = []), rd_errors = lint_errors H p, rd_warnings = lint_warnings p,
      rd_traceability = map (trace_requirement (pl_roles p)) (ba_requirements (rl_ba (pl_roles p)))\<rparr>"

definition lintDeliveryPlanReadiness :: "host \<Rightarrow> string \<Rightarrow> delivery_plan \<Rightarrow> readiness result" where
  "lintDeliveryPlanReadiness H now v =
     attempt (validateShape (normalizeDeliveryPlan H now v)) (\<lambda>p. Inr (lintNormalizedReadiness H p))"

section \<open>Validation\<close>

definition approval_current_check :: "host \<Rightarrow> string \<Rightarrow> delivery_plan \<Rightarrow> error option" where
  "approval_current_check H now p =
     (case approvalStatusUnchecked H now p of
        Inl e \<Rightarrow> Some e
      | Inr status \<Rightarrow> throw_if (status \<noteq> ''current'') (plan_error ''approval_not_current''))"

text \<open>The block of \<open>validateShape\<close> under \<open>enforcePhase\<close>.\<close>

definition phase_checks :: "host \<Rightarrow> string \<Rightarrow> delivery_plan \<Rightarrow> error option list" where
  "phase_checks H now p =
     [throw_if (pl_phase p \<in> set (''ready_for_approval'' # APPROVAL_PHASES)
          \<and> \<not> rd_ready (lintNormalizedReadiness H p)) (plan_error ''phase_not_ready''),
      (if pl_phase p \<in> set APPROVAL_PHASES then approval_current_check H now p else None),
      throw_if (pl_phase p \<in> set [''verifying'', ''ready_to_release'', ''done'']
          \<and> \<not> gt_implementationCaptured (pl_gates p)) (plan_error ''implementation_evidence_required''),
      throw_if (pl_phase p \<in> set [''ready_to_release'', ''done''] \<and> \<not> gt_qaPassed (pl_gates p))
        (plan_error ''qa_pass_required''),
      throw_if (pl_phase p = ''done'' \<and> qa_releaseRequired (rl_qa (pl_roles p))
          \<and> \<not> gt_releaseVerified (pl_gates p)) (plan_error ''release_verification_required'')]"

definition validateDeliveryPlan :: "host \<Rightarrow> string \<Rightarrow> delivery_plan \<Rightarrow> delivery_plan result" where
  "validateDeliveryPlan H now v =
     attempt (validateShape (normalizeDeliveryPlan H now v)) (\<lambda>p.
       guard (throws (phase_checks H now p)) (Inr p))"

section \<open>Invalidating an approval\<close>

definition emptyApproval :: plan_approval where
  "emptyApproval = \<lparr>ap_digest = [], ap_approvedAt = None, ap_planRevision = None\<rparr>"

definition emptyGates :: plan_gates where
  "emptyGates = \<lparr>gt_implementationCaptured = False, gt_qaPassed = False, gt_releaseVerified = False\<rparr>"

definition readinessPhase :: "host \<Rightarrow> delivery_plan \<Rightarrow> string" where
  "readinessPhase H p =
     (if rd_ready (lintNormalizedReadiness H p) then ''ready_for_approval'' else ''planning'')"

definition invalidateDeliveryPlanApproval ::
  "host \<Rightarrow> string \<Rightarrow> delivery_plan \<Rightarrow> string \<Rightarrow> delivery_plan result" where
  "invalidateDeliveryPlanApproval H now v at =
     attempt (validateShape (normalizeDeliveryPlan H now v)) (\<lambda>p.
     guard (throw_if (pl_phase p \<in> set TERMINAL_PHASES) (plan_error ''terminal''))
       (if ap_digest (pl_approval p) = [] \<and> pl_phase p \<notin> set (''ready_for_approval'' # APPROVAL_PHASES)
        then Inr p
        else validateDeliveryPlan H now
          (p\<lparr>pl_revision := pl_revision p + 1, pl_phase := readinessPhase H p,
             pl_approval := emptyApproval, pl_gates := emptyGates, pl_blocker := [],
             pl_updatedAt := normalizedTimestamp H at []\<rparr>)))"

section \<open>Updating the definition\<close>

text \<open>The members a patch gives. Those of \<open>{ ...plan.baseline, ...patch }\<close> that it leaves out are kept.\<close>

record baseline_patch =
  xb_head :: "string option"
  xb_workingTreeDigest :: "string option"
  xb_instructionsDigest :: "string option"
  xb_capturedAt :: "string option"

record classification_patch =
  xc_intent :: "string option"
  xc_depth :: "string option"
  xc_risk :: "string option"
  xc_dataClasses :: "string list option"
  xc_mutationSurfaces :: "string list option"

record po_patch =
  xp_user :: "string option"
  xp_problem :: "string option"
  xp_outcome :: "string option"
  xp_value :: "string option"
  xp_nonGoals :: "string list option"
  xp_assumptions :: "string list option"
  xp_openQuestions :: "string list option"

record ba_patch =
  xr_requirements :: "requirement list option"
  xr_dependencies :: "string list option"
  xr_edgeCases :: "string list option"
  xr_constraints :: "string list option"
  xr_openQuestions :: "string list option"

record dev_patch =
  xd_architecture :: "string option"
  xd_steps :: "plan_step list option"
  xd_risks :: "string list option"
  xd_rollback :: "string option"
  xd_openQuestions :: "string list option"

record qa_patch =
  xq_acceptanceCriteria :: "acceptance list option"
  xq_testStrategy :: "string option"
  xq_regressionChecks :: "string list option"
  xq_releaseRequired :: "bool option"
  xq_releaseChecks :: "string list option"
  xq_openQuestions :: "string list option"

record roles_patch =
  xl_po :: "po_patch option"
  xl_ba :: "ba_patch option"
  xl_dev :: "dev_patch option"
  xl_qa :: "qa_patch option"

record authority_patch =
  xa_workspaceWrite :: "bool option"
  xa_commit :: "bool option"
  xa_push :: "bool option"
  xa_deploy :: "bool option"
  xa_network :: "bool option"
  xa_serviceControl :: "bool option"
  xa_destructive :: "bool option"
  xa_externalMessages :: "bool option"

record plan_patch =
  xx_title :: "string option"
  xx_request :: "string option"
  xx_workspace :: "string option"
  xx_unresolvedQuestions :: "string list option"
  xx_baseline :: "baseline_patch option"
  xx_classification :: "classification_patch option"
  xx_authority :: "authority_patch option"
  xx_roles :: "roles_patch option"

definition over :: "'a option \<Rightarrow> 'a \<Rightarrow> 'a" where
  "over x old = (case x of None \<Rightarrow> old | Some new \<Rightarrow> new)"

definition patched :: "('p \<Rightarrow> 'a \<Rightarrow> 'a) \<Rightarrow> 'p option \<Rightarrow> 'a \<Rightarrow> 'a" where
  "patched f x old = (case x of None \<Rightarrow> old | Some patch \<Rightarrow> f patch old)"

definition patch_baseline :: "baseline_patch \<Rightarrow> plan_baseline \<Rightarrow> plan_baseline" where
  "patch_baseline x b =
     \<lparr>pb_head = over (xb_head x) (pb_head b),
      pb_workingTreeDigest = over (xb_workingTreeDigest x) (pb_workingTreeDigest b),
      pb_instructionsDigest = over (xb_instructionsDigest x) (pb_instructionsDigest b),
      pb_capturedAt = over (xb_capturedAt x) (pb_capturedAt b)\<rparr>"

definition patch_classification :: "classification_patch \<Rightarrow> plan_classification \<Rightarrow> plan_classification" where
  "patch_classification x c =
     \<lparr>pc_intent = over (xc_intent x) (pc_intent c), pc_depth = over (xc_depth x) (pc_depth c),
      pc_risk = over (xc_risk x) (pc_risk c), pc_dataClasses = over (xc_dataClasses x) (pc_dataClasses c),
      pc_mutationSurfaces = over (xc_mutationSurfaces x) (pc_mutationSurfaces c)\<rparr>"

definition patch_po :: "po_patch \<Rightarrow> role_po \<Rightarrow> role_po" where
  "patch_po x r =
     \<lparr>po_user = over (xp_user x) (po_user r), po_problem = over (xp_problem x) (po_problem r),
      po_outcome = over (xp_outcome x) (po_outcome r), po_value = over (xp_value x) (po_value r),
      po_nonGoals = over (xp_nonGoals x) (po_nonGoals r),
      po_assumptions = over (xp_assumptions x) (po_assumptions r),
      po_openQuestions = over (xp_openQuestions x) (po_openQuestions r)\<rparr>"

definition patch_ba :: "ba_patch \<Rightarrow> role_ba \<Rightarrow> role_ba" where
  "patch_ba x r =
     \<lparr>ba_requirements = over (xr_requirements x) (ba_requirements r),
      ba_dependencies = over (xr_dependencies x) (ba_dependencies r),
      ba_edgeCases = over (xr_edgeCases x) (ba_edgeCases r),
      ba_constraints = over (xr_constraints x) (ba_constraints r),
      ba_openQuestions = over (xr_openQuestions x) (ba_openQuestions r)\<rparr>"

definition patch_dev :: "dev_patch \<Rightarrow> role_dev \<Rightarrow> role_dev" where
  "patch_dev x r =
     \<lparr>dv_architecture = over (xd_architecture x) (dv_architecture r),
      dv_steps = over (xd_steps x) (dv_steps r), dv_risks = over (xd_risks x) (dv_risks r),
      dv_rollback = over (xd_rollback x) (dv_rollback r),
      dv_openQuestions = over (xd_openQuestions x) (dv_openQuestions r)\<rparr>"

definition patch_qa :: "qa_patch \<Rightarrow> role_qa \<Rightarrow> role_qa" where
  "patch_qa x r =
     \<lparr>qa_acceptanceCriteria = over (xq_acceptanceCriteria x) (qa_acceptanceCriteria r),
      qa_testStrategy = over (xq_testStrategy x) (qa_testStrategy r),
      qa_regressionChecks = over (xq_regressionChecks x) (qa_regressionChecks r),
      qa_releaseRequired = over (xq_releaseRequired x) (qa_releaseRequired r),
      qa_releaseChecks = over (xq_releaseChecks x) (qa_releaseChecks r),
      qa_openQuestions = over (xq_openQuestions x) (qa_openQuestions r)\<rparr>"

definition patch_roles :: "roles_patch \<Rightarrow> plan_roles \<Rightarrow> plan_roles" where
  "patch_roles x r =
     \<lparr>rl_po = patched patch_po (xl_po x) (rl_po r), rl_ba = patched patch_ba (xl_ba x) (rl_ba r),
      rl_dev = patched patch_dev (xl_dev x) (rl_dev r), rl_qa = patched patch_qa (xl_qa x) (rl_qa r)\<rparr>"

definition patch_authority :: "authority_patch \<Rightarrow> plan_authority \<Rightarrow> plan_authority" where
  "patch_authority x a =
     \<lparr>au_workspaceWrite = over (xa_workspaceWrite x) (au_workspaceWrite a),
      au_commit = over (xa_commit x) (au_commit a), au_push = over (xa_push x) (au_push a),
      au_deploy = over (xa_deploy x) (au_deploy a), au_network = over (xa_network x) (au_network a),
      au_serviceControl = over (xa_serviceControl x) (au_serviceControl a),
      au_destructive = over (xa_destructive x) (au_destructive a),
      au_externalMessages = over (xa_externalMessages x) (au_externalMessages a)\<rparr>"

definition mergedDefinition :: "delivery_plan \<Rightarrow> 'a plan_patch_scheme \<Rightarrow> delivery_plan" where
  "mergedDefinition p x = p
     \<lparr>pl_title := over (xx_title x) (pl_title p), pl_request := over (xx_request x) (pl_request p),
      pl_workspace := over (xx_workspace x) (pl_workspace p),
      pl_unresolvedQuestions := over (xx_unresolvedQuestions x) (pl_unresolvedQuestions p),
      pl_baseline := patched patch_baseline (xx_baseline x) (pl_baseline p),
      pl_classification := patched patch_classification (xx_classification x) (pl_classification p),
      pl_authority := patched patch_authority (xx_authority x) (pl_authority p),
      pl_roles := patched patch_roles (xx_roles x) (pl_roles p)\<rparr>"

definition updateDeliveryPlanDefinition ::
  "host \<Rightarrow> string \<Rightarrow> delivery_plan \<Rightarrow> plan_patch \<Rightarrow> string \<Rightarrow> delivery_plan result" where
  "updateDeliveryPlanDefinition H now v patch at =
     attempt (validateDeliveryPlan H now v) (\<lambda>p.
     guard (throws
       [throw_if (pl_phase p \<in> set TERMINAL_PHASES) (plan_error ''terminal''),
        throw_if (pl_phase p \<in> set [''executing'', ''verifying'', ''ready_to_release''])
          (plan_error ''execution_locked'')])
     (let candidate = normalizeDeliveryPlan H now (mergedDefinition p patch) in
      attempt (validateShape candidate) (\<lambda>_.
      attempt (deliveryPlanDigest H now candidate) (\<lambda>new.
      attempt (deliveryPlanDigest H now p) (\<lambda>old.
        if new = old then Inr p
        else if ap_digest (pl_approval p) \<noteq> [] \<or> pl_phase p \<in> set (''ready_for_approval'' # APPROVAL_PHASES)
        then invalidateDeliveryPlanApproval H now candidate at
        else validateDeliveryPlan H now
          (candidate\<lparr>pl_revision := pl_revision p + 1, pl_phase := pl_phase p,
             pl_approval := pl_approval p, pl_gates := pl_gates p, pl_blocker := [],
             pl_createdAt := pl_createdAt p, pl_updatedAt := normalizedTimestamp H at []\<rparr>))))))"

section \<open>Transitions\<close>

record transition_conditions =
  tc_expectedRevision :: "int option"
  tc_confirmation :: "string option"
  tc_reason :: "string option"
  tc_deliveryRunAborted :: "bool option"
  tc_baselineCurrent :: "bool option"
  tc_workspaceAvailable :: "bool option"
  tc_taskGraphReady :: "bool option"
  tc_remediationApproved :: "bool option"
  tc_implementationResultCaptured :: "bool option"
  tc_qaPassed :: "bool option"
  tc_releaseVerified :: "bool option"

definition requireCondition :: "bool \<Rightarrow> string \<Rightarrow> error option" where
  "requireCondition condition suffix = throw_if (\<not> condition) (plan_error suffix)"

definition transition_reason :: "transition_conditions \<Rightarrow> string" where
  "transition_reason c = js_text (over (tc_reason c) [])"

text \<open>While a plan executes, only its own run moves it, or its aborted run returns it to planning.\<close>

definition execution_locked :: "string \<Rightarrow> string \<Rightarrow> transition_conditions \<Rightarrow> bool" where
  "execution_locked phase target c \<longleftrightarrow>
     (let replan = (target = ''planning'' \<and> tc_deliveryRunAborted c = Some True) in
      (phase = ''executing'' \<and> target \<noteq> ''verifying'' \<and> \<not> replan)
      \<or> (phase = ''verifying'' \<and> target \<notin> set [''executing'', ''ready_to_release''] \<and> \<not> replan)
      \<or> (phase = ''ready_to_release'' \<and> target \<noteq> ''done'' \<and> \<not> replan))"

text \<open>The guards before the target's own conditions.\<close>

definition transition_guards :: "delivery_plan \<Rightarrow> string \<Rightarrow> transition_conditions \<Rightarrow> error option list" where
  "transition_guards p target c =
     [throw_if (target \<notin> set DELIVERY_PLAN_PHASES \<or> \<not> legal_transition (pl_phase p) target)
        (plan_error ''transition_invalid''),
      throw_if (execution_locked (pl_phase p) target c) (plan_error ''execution_locked''),
      throw_if (tc_expectedRevision c \<noteq> None \<and> tc_expectedRevision c \<noteq> Some (pl_revision p))
        (plan_error ''revision_conflict'')]"

definition executing_conditions ::
  "host \<Rightarrow> string \<Rightarrow> delivery_plan \<Rightarrow> transition_conditions \<Rightarrow> error option list" where
  "executing_conditions H now p c =
     [approval_current_check H now p,
      requireCondition (au_workspaceWrite (pl_authority p)) ''workspace_write_not_approved'',
      requireCondition (tc_baselineCurrent c = Some True) ''baseline_changed'',
      requireCondition (tc_workspaceAvailable c = Some True) ''workspace_locked'',
      requireCondition (tc_taskGraphReady c = Some True) ''task_graph_required'',
      requireCondition (pl_phase p = ''approved'' \<longrightarrow> tc_confirmation c = Some ''start-execution'')
        ''execution_confirmation_required'',
      requireCondition (pl_phase p = ''verifying'' \<longrightarrow> tc_confirmation c = Some ''resume-execution'')
        ''remediation_confirmation_required'',
      requireCondition (pl_phase p = ''verifying'' \<longrightarrow> tc_remediationApproved c = Some True)
        ''remediation_approval_required'']"

definition target_conditions ::
  "host \<Rightarrow> string \<Rightarrow> delivery_plan \<Rightarrow> string \<Rightarrow> transition_conditions \<Rightarrow> error option list" where
  "target_conditions H now p target c =
     (if target = ''canceled'' then
        [requireCondition (tc_confirmation c = Some ''cancel-plan'') ''cancellation_confirmation_required'']
      else if target = ''needs_decision'' \<or> target = ''blocked'' then
        [requireCondition (transition_reason c \<noteq> []) ''blocker_required'']
      else if target = ''ready_for_approval'' then
        [requireCondition (rd_ready (lintNormalizedReadiness H p)) ''not_ready'']
      else if target = ''approved'' then
        [requireCondition (tc_confirmation c = Some ''approve-plan'') ''approval_confirmation_required'',
         requireCondition (rd_ready (lintNormalizedReadiness H p)) ''not_ready'']
      else if target = ''planning'' then
        [requireCondition (pl_phase p \<in> set [''approved'', ''executing'', ''verifying'', ''ready_to_release'', ''blocked'']
            \<longrightarrow> tc_confirmation c = Some ''replan'') ''replan_confirmation_required'']
      else if target = ''executing'' then executing_conditions H now p c
      else if target = ''verifying'' then
        [requireCondition (tc_implementationResultCaptured c = Some True) ''implementation_evidence_required'']
      else if target = ''ready_to_release'' then
        [requireCondition (tc_qaPassed c = Some True) ''qa_pass_required'']
      else if target = ''done'' then
        [requireCondition (tc_confirmation c = Some ''complete-plan'') ''completion_confirmation_required'',
         requireCondition (gt_qaPassed (pl_gates p)) ''qa_pass_required'',
         requireCondition (qa_releaseRequired (rl_qa (pl_roles p)) \<longrightarrow> tc_releaseVerified c = Some True)
           ''release_verification_required'']
      else [])"

text \<open>What the transition changes besides phase, revision, blocker and time.\<close>

definition next_approval ::
  "host \<Rightarrow> string \<Rightarrow> delivery_plan \<Rightarrow> string \<Rightarrow> string \<Rightarrow> plan_approval result" where
  "next_approval H now p target updatedAt =
     (if target = ''approved'' then
        attempt (deliveryPlanDigest H now p) (\<lambda>d.
          Inr \<lparr>ap_digest = d, ap_approvedAt = Some updatedAt, ap_planRevision = Some (pl_revision p + 1)\<rparr>)
      else if target = ''planning'' \<and> ap_digest (pl_approval p) \<noteq> [] then Inr emptyApproval
      else Inr (pl_approval p))"

definition next_gates :: "delivery_plan \<Rightarrow> string \<Rightarrow> plan_gates" where
  "next_gates p target =
     (if target = ''planning'' \<and> ap_digest (pl_approval p) \<noteq> [] then emptyGates
      else if target = ''executing'' \<and> pl_phase p = ''verifying'' then
        (pl_gates p)\<lparr>gt_implementationCaptured := False, gt_qaPassed := False, gt_releaseVerified := False\<rparr>
      else if target = ''verifying'' then
        (pl_gates p)\<lparr>gt_implementationCaptured := True, gt_qaPassed := False, gt_releaseVerified := False\<rparr>
      else if target = ''ready_to_release'' then
        (pl_gates p)\<lparr>gt_qaPassed := True, gt_releaseVerified := False\<rparr>
      else if target = ''done'' \<and> qa_releaseRequired (rl_qa (pl_roles p)) then
        (pl_gates p)\<lparr>gt_releaseVerified := True\<rparr>
      else pl_gates p)"

definition transitionDeliveryPlan ::
  "host \<Rightarrow> string \<Rightarrow> delivery_plan \<Rightarrow> string \<Rightarrow> transition_conditions \<Rightarrow> string \<Rightarrow> delivery_plan result" where
  "transitionDeliveryPlan H now v to c at =
     attempt (validateDeliveryPlan H now v) (\<lambda>p.
     (let target = normalizedWord to; updatedAt = normalizedTimestamp H at [] in
      guard (throws (transition_guards p target c))
      (guard (throws (target_conditions H now p target c))
      (attempt (next_approval H now p target updatedAt) (\<lambda>approval.
       validateDeliveryPlan H now
         (p\<lparr>pl_revision := pl_revision p + 1, pl_phase := target,
            pl_blocker := (if target \<in> set [''needs_decision'', ''blocked''] then transition_reason c else []),
            pl_updatedAt := updatedAt, pl_approval := approval, pl_gates := next_gates p target\<rparr>))))))"

section \<open>The execution envelope\<close>

text \<open>The em dash of the envelope, a code unit above 255, stands as the unit 0x97 here.\<close>

definition EM_DASH :: char where "EM_DASH = CHR 0x97"

definition bulletList :: "string list \<Rightarrow> string" where
  "bulletList items =
     (if items = [] then ''- None recorded.''
      else join_with [CHR 0x0A] (map (\<lambda>v. ''- '' @ v) items))"

record expected_baseline =
  eb_head :: string
  eb_workingTreeDigest :: string
  eb_instructionsDigest :: string
  eb_digest :: string

record envelope_input =
  ei_stepId :: string
  ei_maxChars :: int
  ei_expectedBaseline :: "expected_baseline option"

record envelope =
  en_text :: string
  en_chars :: int
  en_digest :: string
  en_planId :: string
  en_planRevision :: int
  en_stepId :: string

definition envelope_baseline :: "delivery_plan \<Rightarrow> expected_baseline option \<Rightarrow> expected_baseline" where
  "envelope_baseline p x =
     (case x of
        Some b \<Rightarrow> b
      | None \<Rightarrow> \<lparr>eb_head = pb_head (pl_baseline p),
          eb_workingTreeDigest = pb_workingTreeDigest (pl_baseline p),
          eb_instructionsDigest = pb_instructionsDigest (pl_baseline p), eb_digest = []\<rparr>)"

definition expectedBaselineDigest_of :: "host \<Rightarrow> expected_baseline \<Rightarrow> string" where
  "expectedBaselineDigest_of H b =
     (if eb_digest b \<noteq> [] then eb_digest b
      else canonicalSha256 H (JObj [(''head'', JStr (eb_head b)),
        (''workingTreeDigest'', JStr (eb_workingTreeDigest b)),
        (''instructionsDigest'', JStr (eb_instructionsDigest b))]))"

definition envelope_baseline_check :: "expected_baseline \<Rightarrow> string \<Rightarrow> error option" where
  "envelope_baseline_check b digest =
     throw_if (eb_head b = [] \<or> \<not> digest_pattern (eb_workingTreeDigest b)
         \<or> \<not> digest_pattern (eb_instructionsDigest b) \<or> \<not> digest_pattern digest)
       (plan_error ''execution_baseline_invalid'')"

definition names_or_none :: "string list \<Rightarrow> string" where
  "names_or_none names = (if names = [] then ''none'' else join_with '', '' names)"

definition allowed_authority :: "plan_authority \<Rightarrow> string list" where
  "allowed_authority a = map fst (filter snd (authority_members a))"

definition forbidden_authority :: "plan_authority \<Rightarrow> string list" where
  "forbidden_authority a = map fst (filter (\<lambda>m. \<not> snd m) (authority_members a))"

definition step_requirements :: "delivery_plan \<Rightarrow> plan_step \<Rightarrow> requirement list" where
  "step_requirements p s =
     filter (\<lambda>q. rq_id q \<in> set (sp_requirementIds s)) (ba_requirements (rl_ba (pl_roles p)))"

definition step_criteria :: "delivery_plan \<Rightarrow> plan_step \<Rightarrow> acceptance list" where
  "step_criteria p s =
     filter (\<lambda>c. list_ex (\<lambda>i. i \<in> set (sp_requirementIds s)) (ac_requirementIds c))
       (qa_acceptanceCriteria (rl_qa (pl_roles p)))"

definition envelope_lines ::
  "delivery_plan \<Rightarrow> plan_step \<Rightarrow> string \<Rightarrow> expected_baseline \<Rightarrow> string \<Rightarrow> string list" where
  "envelope_lines p s digest b baselineDigest =
     [''[PaneFleet Delivery Plan '' @ pl_id p @ '']'',
      ''Approved definition: sha256:'' @ digest,
      ''Plan revision: '' @ int_text (pl_revision p),
      ''Workspace: '' @ pl_workspace p,
      ''Expected baseline: sha256:'' @ baselineDigest,
      ''Expected HEAD: '' @ eb_head b,
      ''Expected working tree: sha256:'' @ eb_workingTreeDigest b,
      ''Expected instructions: sha256:'' @ eb_instructionsDigest b,
      ''Outcome: '' @ po_outcome (rl_po (pl_roles p)),
      ''Current step: '' @ sp_id s @ '' '' @ [EM_DASH] @ '' '' @ sp_title s,
      ''Step outcome: '' @ sp_outcome s,
      ''Requirements:'',
      bulletList (map (\<lambda>q. rq_id q @ '': '' @ rq_text q) (step_requirements p s)),
      ''Acceptance criteria:'',
      bulletList (map (\<lambda>c. ac_id c @ '': '' @ ac_text c) (step_criteria p s)),
      ''Bounded scope:'',
      bulletList (sp_scopePaths s),
      ''Required checks:'',
      bulletList (sp_checks s),
      ''Non-goals:'',
      bulletList (po_nonGoals (rl_po (pl_roles p))),
      ''Known risks:'',
      bulletList (dv_risks (rl_dev (pl_roles p))),
      ''Approved authority: '' @ names_or_none (allowed_authority (pl_authority p)),
      ''Forbidden without a separate explicit approval: '' @ names_or_none (forbidden_authority (pl_authority p)),
      ''Rollback or safe abort: '' @ dv_rollback (rl_dev (pl_roles p)),
      ''Read the workspace instructions first. Work only on this approved step. Stop if the baseline, exact workspace, scope, or authority differs; do not silently re-plan, broaden scope, deploy, push, message externally, or retry an uncertain action.'',
      ''When stopping, return exactly one bounded result block:'',
      ''[PANEFLEET DELIVERY RESULT]'',
      ''PLAN: '' @ pl_id p,
      ''DIGEST: '' @ digest,
      ''STEP: '' @ sp_id s,
      ''STATUS: complete | blocked | failed | needs_approval'',
      ''RESULT: concise outcome for this step'',
      ''FILES: changed paths or none'',
      ''CHECKS: commands and outcomes or not_run with reason'',
      ''EVIDENCE: concise observable evidence'',
      ''RISKS: residual risks or none'',
      ''NEXT ACTION: operator acceptance, decision, or safe next step'',
      ''[/PANEFLEET DELIVERY RESULT]'']"

definition compileDeliveryPlanExecutionEnvelope ::
  "host \<Rightarrow> string \<Rightarrow> delivery_plan \<Rightarrow> envelope_input \<Rightarrow> envelope result" where
  "compileDeliveryPlanExecutionEnvelope H now v i =
     attempt (validateDeliveryPlan H now v) (\<lambda>p.
     guard (throws
       [throw_if (ei_maxChars i < 800 \<or> 8000 < ei_maxChars i)
          (plan_error ''execution_envelope_limit_invalid''),
        throw_if (pl_phase p \<notin> set [''approved'', ''executing'']) (plan_error ''not_approved_for_execution'')])
     (attempt (deliveryPlanApprovalStatus H now p) (\<lambda>status.
      guard (throws
        [throw_if (status \<noteq> ''current'') (plan_error ''approval_not_current''),
         throw_if (\<not> au_workspaceWrite (pl_authority p)) (plan_error ''workspace_write_not_approved'')])
      (case find (\<lambda>s. sp_id s = normalizedId (ei_stepId i)) (dv_steps (rl_dev (pl_roles p))) of
         None \<Rightarrow> Inl (plan_error ''step_not_found'')
       | Some s \<Rightarrow>
          attempt (deliveryPlanDigest H now p) (\<lambda>digest.
          (let b = envelope_baseline p (ei_expectedBaseline i);
               baselineDigest = expectedBaselineDigest_of H b
           in guard (envelope_baseline_check b baselineDigest)
          (let body = join_with [CHR 0x0A] (envelope_lines p s digest b baselineDigest) in
           guard (throw_if (ei_maxChars i < js_length body) (plan_error ''execution_envelope_too_long''))
            (Inr \<lparr>en_text = body, en_chars = js_length body, en_digest = digest, en_planId = pl_id p,
               en_planRevision = pl_revision p, en_stepId = sp_id s\<rparr>))))))))"

end
