(* ===== verification/JsTextFacts.thy ===== *)
theory JsTextFacts
  imports JsText
begin

text \<open>
  The text normalisations of the delivery modules are idempotent: \<open>js_text\<close>, \<open>js_inline\<close>, and
  \<open>js_inline\<close> followed by a change of case. A value that has been normalised once is left as it
  is by every later normalisation.
\<close>

named_theorems normal_simps \<open>what a normalisation does to a normalised text\<close>

section \<open>Trimming\<close>

lemma dropWhile_idem: "dropWhile p (dropWhile p s) = dropWhile p s"
  by (induction s) auto

lemma set_dropWhile_le: "x \<in> set (dropWhile p s) \<Longrightarrow> x \<in> set s"
  by (induction s) (auto split: if_splits)

text \<open>A trimmed string starts and ends with other characters than white space.\<close>

definition trimmed :: "string \<Rightarrow> bool" where
  "trimmed s \<longleftrightarrow> s = [] \<or> \<not> is_space (hd s) \<and> \<not> is_space (last s)"

lemma dropWhile_trimmed: "s = [] \<or> \<not> p (hd s) \<Longrightarrow> dropWhile p s = s"
  by (cases s) auto

lemma js_trim_trimmed: "trimmed s \<Longrightarrow> js_trim s = s"
  by (auto simp: js_trim_def trimmed_def dropWhile_trimmed hd_rev)

lemma trimmed_js_trim: "trimmed (js_trim s)"
proof -
  let ?d = "dropWhile is_space s"
  let ?r = "dropWhile is_space (rev ?d)"
  have "?r = [] \<or> \<not> is_space (hd ?r)" by (metis hd_dropWhile)
  moreover have "?r = [] \<or> \<not> is_space (last ?r)"
  proof (cases "?r = []")
    case False
    have "rev ?d = takeWhile is_space (rev ?d) @ ?r" by simp
    then have "last (rev ?d) = last ?r" using False by (metis last_append)
    moreover have "?d \<noteq> []" using False by (metis dropWhile.simps(1) rev.simps(1))
    ultimately show ?thesis by (metis hd_dropWhile last_rev)
  qed simp
  ultimately show ?thesis
    unfolding trimmed_def js_trim_def
    by (cases "?r = []") (simp_all add: hd_rev last_rev del: dropWhile_eq_Nil_conv)
qed

section \<open>Line breaks\<close>

lemma unify_newlines_no_cr: "CHR 0x0D \<notin> set s \<Longrightarrow> unify_newlines s = s"
  by (induction s) auto

lemma set_drop_lf: "set (drop_lf s) \<subseteq> set s"
  by (cases s) auto

lemma unify_newlines_cr: "CHR 0x0D \<notin> set (unify_newlines s)"
  by (induction s rule: unify_newlines.induct) auto

lemma set_js_trim: "set (js_trim s) \<subseteq> set s"
  unfolding js_trim_def by (auto dest!: set_dropWhile_le)

lemma js_text_idem [normal_simps]: "js_text (js_text s) = js_text s"
proof -
  have "CHR 0x0D \<notin> set (js_text s)"
    using set_js_trim unify_newlines_cr by (auto simp: js_text_def)
  then show ?thesis
    by (simp add: js_text_def [of "js_text s"] unify_newlines_no_cr js_trim_trimmed)
       (simp add: js_text_def js_trim_trimmed trimmed_js_trim)
qed

section \<open>Inline text\<close>

text \<open>Inline text is trimmed, and its only white space is single spaces.\<close>

fun single_spaced :: "string \<Rightarrow> bool" where
  "single_spaced [] = True"
| "single_spaced (c # cs) =
     ((is_space c \<longrightarrow> c = CHR '' '' \<and> (cs = [] \<or> \<not> is_space (hd cs))) \<and> single_spaced cs)"

lemma fold_spaces_single: "single_spaced s \<Longrightarrow> fold_spaces s = s"
proof (induction s rule: fold_spaces.induct)
  case (2 c cs)
  then have "is_space c \<Longrightarrow> dropWhile is_space cs = cs" by (auto simp: dropWhile_trimmed)
  with 2 show ?case by auto
qed simp

lemma hd_fold_spaces: "s \<noteq> [] \<Longrightarrow> is_space (hd (fold_spaces s)) = is_space (hd s) \<and> fold_spaces s \<noteq> []"
  by (cases s) (auto simp: is_space_def code_def)

lemma single_spaced_fold: "single_spaced (fold_spaces s)"
proof (induction s rule: fold_spaces.induct)
  case (2 c cs)
  have "fold_spaces (dropWhile is_space cs) = [] \<or> \<not> is_space (hd (fold_spaces (dropWhile is_space cs)))"
    using hd_fold_spaces [of "dropWhile is_space cs"] hd_dropWhile [of is_space cs]
    by (cases "dropWhile is_space cs = []") (auto simp del: dropWhile_eq_Nil_conv)
  with 2 show ?case by auto
qed simp

lemma last_fold_spaces:
  "s \<noteq> [] \<Longrightarrow> \<not> is_space (last s) \<Longrightarrow> \<not> is_space (last (fold_spaces s))"
proof (induction s rule: fold_spaces.induct)
  case (2 c cs)
  let ?d = "dropWhile is_space cs"
  show ?case
  proof (cases "is_space c")
    case True
    with 2(3,4) have "cs \<noteq> []" "\<not> is_space (last cs)" by (auto split: if_splits)
    then have "?d \<noteq> []" by (auto simp: dropWhile_eq_Nil_conv)
    then have "last ?d = last cs" by (metis dropWhile_append3 last_append takeWhile_dropWhile_id)
    with True 2 \<open>?d \<noteq> []\<close> \<open>\<not> is_space (last cs)\<close> hd_fold_spaces [of ?d] show ?thesis by auto
  next
    case False
    with 2 hd_fold_spaces [of cs] show ?thesis by (cases "cs = []") auto
  qed
qed simp

definition inline_normal :: "string \<Rightarrow> bool" where
  "inline_normal s \<longleftrightarrow> trimmed s \<and> single_spaced s"

lemma single_spaced_no_cr: "single_spaced s \<Longrightarrow> CHR 0x0D \<notin> set s"
  by (induction s) (auto simp: is_space_def code_def)

lemma js_inline_fixed: "inline_normal s \<Longrightarrow> js_inline s = s"
  by (simp add: inline_normal_def js_inline_def js_text_def unify_newlines_no_cr single_spaced_no_cr
      js_trim_trimmed fold_spaces_single)

lemma inline_normal_js_inline: "inline_normal (js_inline s)"
proof -
  have "trimmed (js_text s)" by (simp add: js_text_def trimmed_js_trim)
  then have "trimmed (fold_spaces (js_text s))"
    using hd_fold_spaces [of "js_text s"] last_fold_spaces [of "js_text s"]
    by (cases "js_text s = []") (auto simp: trimmed_def)
  then show ?thesis by (simp add: inline_normal_def js_inline_def single_spaced_fold)
qed

lemma js_inline_idem [normal_simps]: "js_inline (js_inline s) = js_inline s"
  by (simp add: js_inline_fixed inline_normal_js_inline)

section \<open>Changes of case\<close>

lemma lower_char_space: "is_space (lower_char c) = is_space c \<and> (is_space c \<longrightarrow> lower_char c = c)"
proof (cases c)
  case (Char b0 b1 b2 b3 b4 b5 b6 b7)
  show ?thesis
    unfolding Char
    by (cases b0; cases b1; cases b2; cases b3; cases b4; cases b5; cases b6; cases b7;
      simp add: lower_char_bits is_upper_bits is_space_bits)
qed

lemma lower_char_idem: "lower_char (lower_char c) = lower_char c"
proof (cases c)
  case (Char b0 b1 b2 b3 b4 b5 b6 b7)
  show ?thesis
    unfolding Char
    by (cases b0; cases b1; cases b2; cases b3; cases b4; cases b5; cases b6; cases b7;
      simp add: lower_char_bits is_upper_bits)
qed

lemma inline_normal_lower: "inline_normal s \<Longrightarrow> inline_normal (to_lower s)"
proof -
  have "single_spaced s \<Longrightarrow> single_spaced (map lower_char s)"
    by (induction s) (auto simp: lower_char_space hd_map)
  moreover have "trimmed s \<Longrightarrow> trimmed (map lower_char s)"
    by (auto simp: trimmed_def hd_map last_map lower_char_space)
  ultimately show "inline_normal s \<Longrightarrow> inline_normal (to_lower s)"
    by (simp add: inline_normal_def to_lower_def)
qed

lemma lower_inline_idem [normal_simps]: "to_lower (js_inline (to_lower (js_inline s))) = to_lower (js_inline s)"
proof -
  have "js_inline (to_lower (js_inline s)) = to_lower (js_inline s)"
    by (rule js_inline_fixed) (rule inline_normal_lower [OF inline_normal_js_inline])
  then show ?thesis by (simp add: to_lower_def comp_def lower_char_idem)
qed

lemma upper_char_shape:
  "upper_char c \<noteq> [] \<and> (is_space c \<longrightarrow> upper_char c = [c])
   \<and> (\<not> is_space c \<longrightarrow> list_all (\<lambda>d. \<not> is_space d) (upper_char c))
   \<and> concat (map upper_char (upper_char c)) = upper_char c"
proof (cases c)
  case (Char b0 b1 b2 b3 b4 b5 b6 b7)
  show ?thesis
    unfolding Char
    by (cases b0; cases b1; cases b2; cases b3; cases b4; cases b5; cases b6; cases b7;
      simp add: upper_char_bits is_lower_bits is_space_bits)
qed

lemma to_upper_Cons: "to_upper (c # s) = upper_char c @ to_upper s"
  by (simp add: to_upper_def)

lemma upper_idem: "to_upper (to_upper s) = to_upper s"
  by (induction s) (simp_all add: to_upper_def upper_char_shape)

lemma single_spaced_upper:
  "single_spaced s \<Longrightarrow> single_spaced (to_upper s) \<and>
   (s \<noteq> [] \<longrightarrow> to_upper s \<noteq> [] \<and> is_space (hd (to_upper s)) = is_space (hd s)
     \<and> is_space (last (to_upper s)) = is_space (last s))"
proof (induction s)
  case (Cons c s)
  then have IH: "single_spaced (to_upper s)" "s \<noteq> [] \<Longrightarrow> to_upper s \<noteq> []
    \<and> is_space (hd (to_upper s)) = is_space (hd s) \<and> is_space (last (to_upper s)) = is_space (last s)"
    by simp_all
  have empty: "s = [] \<Longrightarrow> to_upper s = []" by (simp add: to_upper_def)
  show ?case
  proof (cases "is_space c")
    case True
    then have "upper_char c = [c]" using upper_char_shape by blast
    with Cons.prems IH empty True show ?thesis by (cases "s = []") (auto simp: to_upper_Cons)
  next
    case False
    then have u: "upper_char c \<noteq> []" "list_all (\<lambda>d. \<not> is_space d) (upper_char c)"
      using upper_char_shape by blast+
    have app: "single_spaced (xs @ ys)" if "list_all (\<lambda>d. \<not> is_space d) xs" "single_spaced ys" for xs ys
      using that by (induction xs) auto
    have "\<not> is_space (hd (upper_char c))" "\<not> is_space (last (upper_char c))"
      using u by (simp_all add: list_all_iff)
    with Cons.prems IH empty False u show ?thesis
      by (cases "s = []") (auto simp: to_upper_Cons app hd_append app [of _ "[]", simplified])
  qed
qed (simp add: to_upper_def)

lemma upper_inline_idem [normal_simps]: "to_upper (js_inline (to_upper (js_inline s))) = to_upper (js_inline s)"
proof -
  have "inline_normal (to_upper (js_inline s))"
    using inline_normal_js_inline [of s] single_spaced_upper [of "js_inline s"]
    by (cases "js_inline s = []") (auto simp: inline_normal_def trimmed_def to_upper_def)
  then show ?thesis by (simp add: js_inline_fixed upper_idem)
qed

end
