(* ===== verification/DeliveryPlanFacts.thy ===== *)
theory DeliveryPlanFacts
  imports DeliveryPlan JsTextFacts RunJson
begin

text \<open>
  Facts about the operations of delivery-plan.js: normalisation is idempotent, so a validated
  plan is a fixed point of every later normalisation; what validation, invalidation, update
  and transition return, written out once for the properties.
\<close>

named_theorems plan_simps \<open>validation of a plan, taken apart\<close>

section \<open>Normalisation is idempotent\<close>

lemma push_all_new_distinct: "distinct (acc @ xs) \<Longrightarrow> push_all_new acc xs = acc @ xs"
  by (induction xs arbitrary: acc) (auto simp: push_all_new_def push_new_def)

lemma normalized_list_idem:
  assumes "\<And>x. f (f x) = f x"
  shows "normalized_list f (normalized_list f xs) = normalized_list f xs"
proof -
  let ?ys = "normalized_list f xs"
  have ys: "distinct ?ys" "\<forall>y \<in> set ?ys. y \<noteq> [] \<and> f y = y"
    using assms by (auto simp: normalized_list_def)
  then have "map f ?ys = ?ys" "filter (\<lambda>t. t \<noteq> []) ?ys = ?ys" by (auto intro: map_idI)
  then have "normalized_list f ?ys = push_all_new [] ?ys" by (simp add: normalized_list_def)
  with ys(1) push_all_new_distinct [of "[]" ?ys] show ?thesis by simp
qed

lemma normalizedId_idem [normal_simps]: "normalizedId (normalizedId s) = normalizedId s"
  by (simp add: normalizedId_def normal_simps)

lemma normalizedWord_idem [normal_simps]: "normalizedWord (normalizedWord s) = normalizedWord s"
  by (simp add: normalizedWord_def normal_simps)

lemma normalizedStringList_idem [normal_simps]: "normalizedStringList (normalizedStringList xs) = normalizedStringList xs"
  unfolding normalizedStringList_def by (rule normalized_list_idem) (simp add: normal_simps)

lemma normalizedIdList_idem [normal_simps]: "normalizedIdList (normalizedIdList xs) = normalizedIdList xs"
  unfolding normalizedIdList_def by (rule normalized_list_idem) (simp add: normal_simps)

lemma date_parse_bound: "date_parse H s = Some t \<Longrightarrow> \<bar>t\<bar> \<le> MAX_TIME"
  by (auto simp: date_parse_def parse_iso_iff split: option.splits if_splits)

lemma date_parse_iso_text: "\<bar>t\<bar> \<le> MAX_TIME \<Longrightarrow> date_parse H (iso_text t) = Some t"
  by (simp add: date_parse_def parse_iso_text)

lemma iso_text_inline: "\<bar>t\<bar> \<le> MAX_TIME \<Longrightarrow> js_inline (iso_text t) = iso_text t"
  by (simp add: valid_timestamp_inline valid_iso_text)

text \<open>A time stamp that is not empty after normalisation is a fixed point, whatever the fallback.\<close>

lemma normalizedTimestamp_fixed:
  assumes "normalizedTimestamp H v f \<noteq> []"
  shows "normalizedTimestamp H (normalizedTimestamp H v f) g = normalizedTimestamp H v f"
proof -
  define t where "t = js_inline (if v = [] then f else v)"
  show ?thesis
  proof (cases "date_parse H t")
    case None
    then have "normalizedTimestamp H v f = t" by (simp add: normalizedTimestamp_def t_def)
    with None assms show ?thesis by (simp add: normalizedTimestamp_def t_def js_inline_idem)
  next
    case (Some ms)
    then have n: "normalizedTimestamp H v f = iso_text ms" by (simp add: normalizedTimestamp_def t_def)
    with Some assms show ?thesis
      by (simp add: normalizedTimestamp_def iso_text_inline date_parse_bound date_parse_iso_text)
  qed
qed

lemma parse_iso_Nil [simp]: "parse_iso [] = None"
  by (simp add: parse_iso_def parse_iso_year_def)

lemma iso_text_nonempty: "\<bar>t\<bar> \<le> MAX_TIME \<Longrightarrow> iso_text t \<noteq> []"
  using parse_iso_text [of t] by auto

lemma js_inline_Nil [simp]: "js_inline [] = []"
  by (simp add: js_inline_def js_text_def js_trim_def)

lemma normalizedTimestamp_idem [normal_simps]:
  "normalizedTimestamp H (normalizedTimestamp H v []) [] = normalizedTimestamp H v []"
proof (cases "normalizedTimestamp H v [] = []")
  case True
  have "date_parse H (js_inline v) = None"
  proof (cases "date_parse H (js_inline v)")
    case (Some ms)
    with True iso_text_nonempty [OF date_parse_bound [OF Some]] show ?thesis
      by (auto simp: normalizedTimestamp_def split: if_splits)
  qed simp
  with True have "date_parse H [] = None" by (auto simp: normalizedTimestamp_def split: if_splits)
  with True show ?thesis by (simp add: normalizedTimestamp_def)
qed (rule normalizedTimestamp_fixed)

lemma valid_timestamp_fixed:
  assumes "valid_timestamp t"
  shows "normalizedTimestamp H t f = t"
proof -
  from assms obtain ms where ms: "parse_iso t = Some ms" by (auto simp: valid_timestamp_def)
  then have "t \<noteq> []" "iso_text ms = t" by (auto simp: parse_iso_iff iso_text_nonempty)
  with ms assms show ?thesis by (simp add: normalizedTimestamp_def valid_timestamp_inline date_parse_def)
qed

lemma normalizedBaseline_idem [normal_simps]: "normalizedBaseline H (normalizedBaseline H b) = normalizedBaseline H b"
  by (simp add: normalizedBaseline_def normal_simps)

lemma normalizedClassification_idem [normal_simps]:
  "normalizedClassification (normalizedClassification c) = normalizedClassification c"
  by (simp add: normalizedClassification_def normal_simps)

lemma normalizedRequirement_idem [normal_simps]: "normalizedRequirement (normalizedRequirement q) = normalizedRequirement q"
  by (simp add: normalizedRequirement_def normal_simps)

lemma normalizedStep_idem [normal_simps]: "normalizedStep (normalizedStep s) = normalizedStep s"
  by (simp add: normalizedStep_def normal_simps)

lemma normalizedAcceptance_idem [normal_simps]: "normalizedAcceptance (normalizedAcceptance c) = normalizedAcceptance c"
  by (simp add: normalizedAcceptance_def normal_simps)

lemma normalizedRoles_idem [normal_simps]: "normalizedRoles (normalizedRoles r) = normalizedRoles r"
  by (simp add: normalizedRoles_def normalizedPo_def normalizedBa_def normalizedDev_def normalizedQa_def
      normal_simps comp_def)

lemma normalizedApproval_idem [normal_simps]: "normalizedApproval H (normalizedApproval H a) = normalizedApproval H a"
  by (cases "ap_approvedAt a") (simp_all add: normalizedApproval_def normal_simps)

text \<open>A plan that every normalisation leaves alone.\<close>

definition normal_plan :: "host \<Rightarrow> delivery_plan \<Rightarrow> bool" where
  "normal_plan H p \<longleftrightarrow> (\<forall>now. normalizeDeliveryPlan H now p = p)"

lemma normal_planD: "normal_plan H p \<Longrightarrow> normalizeDeliveryPlan H now p = p"
  by (simp add: normal_plan_def)

lemma normalize_normal:
  assumes "valid_timestamp (pl_createdAt (normalizeDeliveryPlan H now v))"
    "valid_timestamp (pl_updatedAt (normalizeDeliveryPlan H now v))"
    "pl_phase (normalizeDeliveryPlan H now v) \<noteq> []"
  shows "normal_plan H (normalizeDeliveryPlan H now v)"
  using assms
  by (simp add: normal_plan_def normalizeDeliveryPlan_def Let_def normal_simps valid_timestamp_fixed)

section \<open>Validated plans\<close>

definition shape_ok :: "delivery_plan \<Rightarrow> bool" where
  "shape_ok p \<longleftrightarrow> throws (shape_checks p) = None"

definition plan_ready :: "host \<Rightarrow> delivery_plan \<Rightarrow> bool" where
  "plan_ready H p \<longleftrightarrow> lint_errors H p = []"

definition plan_digest :: "host \<Rightarrow> delivery_plan \<Rightarrow> string" where
  "plan_digest H p = canonicalSha256 H (definition_json p)"

text \<open>What the phase of a plan promises.\<close>

definition phase_ok :: "host \<Rightarrow> delivery_plan \<Rightarrow> bool" where
  "phase_ok H p \<longleftrightarrow>
     (pl_phase p \<in> set (''ready_for_approval'' # APPROVAL_PHASES) \<longrightarrow> plan_ready H p)
     \<and> (pl_phase p \<in> set APPROVAL_PHASES \<longrightarrow>
          ap_digest (pl_approval p) \<noteq> [] \<and> ap_digest (pl_approval p) = plan_digest H p)
     \<and> (pl_phase p \<in> set [''verifying'', ''ready_to_release'', ''done''] \<longrightarrow> gt_implementationCaptured (pl_gates p))
     \<and> (pl_phase p \<in> set [''ready_to_release'', ''done''] \<longrightarrow> gt_qaPassed (pl_gates p))
     \<and> (pl_phase p = ''done'' \<and> qa_releaseRequired (rl_qa (pl_roles p)) \<longrightarrow> gt_releaseVerified (pl_gates p))"

definition sound_plan :: "host \<Rightarrow> delivery_plan \<Rightarrow> bool" where
  "sound_plan H p \<longleftrightarrow> normal_plan H p \<and> shape_ok p \<and> phase_ok H p"

lemma validateShape_Inr [plan_simps]: "validateShape p = Inr q \<longleftrightarrow> q = p \<and> shape_ok p"
  by (auto simp: validateShape_def shape_ok_def)

lemma shape_ok_header:
  assumes "shape_ok p"
  shows "pl_version p = 1" "plan_id_pattern (pl_id p)" "safe_integer (pl_revision p)" "1 \<le> pl_revision p"
    "pl_phase p \<in> set DELIVERY_PLAN_PHASES" "valid_timestamp (pl_createdAt p)" "valid_timestamp (pl_updatedAt p)"
    "date_ms (pl_createdAt p) \<le> date_ms (pl_updatedAt p)" "approval_check (pl_approval p) = None"
  using assms
  by (simp_all add: shape_ok_def shape_checks_def Let_def shape_header_checks_def DELIVERY_PLAN_VERSION_def)

lemma shape_ok_normal:
  assumes "shape_ok (normalizeDeliveryPlan H now v)"
  shows "normal_plan H (normalizeDeliveryPlan H now v)"
  using shape_ok_header [OF assms]
  by (intro normalize_normal) (auto simp: DELIVERY_PLAN_PHASES_def)

lemma normalized_shape:
  "validateShape (normalizeDeliveryPlan H now v) = Inr p \<longleftrightarrow>
     p = normalizeDeliveryPlan H now v \<and> normal_plan H p \<and> shape_ok p"
  using shape_ok_normal by (auto simp: validateShape_Inr)

lemma plan_digest_Inr [plan_simps]:
  "normal_plan H p \<Longrightarrow> shape_ok p \<Longrightarrow> deliveryPlanDigest H now p = Inr (plan_digest H p)"
  by (simp add: deliveryPlanDigest_def deliveryPlanDefinition_def normal_planD validateShape_def
      shape_ok_def plan_digest_def)

lemma approval_status_Inr [plan_simps]:
  "normal_plan H p \<Longrightarrow> shape_ok p \<Longrightarrow> approvalStatusUnchecked H now p =
     Inr (if ap_digest (pl_approval p) = [] then ''missing''
          else if ap_digest (pl_approval p) = plan_digest H p then ''current'' else ''stale'')"
  by (simp add: approvalStatusUnchecked_def plan_digest_Inr)

lemma approval_current_None [plan_simps]:
  "normal_plan H p \<Longrightarrow> shape_ok p \<Longrightarrow> approval_current_check H now p = None \<longleftrightarrow>
     ap_digest (pl_approval p) \<noteq> [] \<and> ap_digest (pl_approval p) = plan_digest H p"
  by (simp add: approval_current_check_def approval_status_Inr)

lemma phase_checks_None:
  assumes "normal_plan H p" "shape_ok p"
  shows "throws (phase_checks H now p) = None \<longleftrightarrow> phase_ok H p"
  using assms
  by (auto simp: phase_checks_def phase_ok_def plan_ready_def lintNormalizedReadiness_def approval_current_None)

lemma validateDeliveryPlan_Inr [plan_simps]:
  "validateDeliveryPlan H now v = Inr p \<longleftrightarrow> p = normalizeDeliveryPlan H now v \<and> sound_plan H p"
  by (auto simp: validateDeliveryPlan_def normalized_shape phase_checks_None sound_plan_def)

lemma sound_plan_valid: "sound_plan H p \<Longrightarrow> validateDeliveryPlan H now p = Inr p"
  by (simp add: validateDeliveryPlan_Inr) (simp add: sound_plan_def normal_planD)

lemma sound_planD:
  assumes "sound_plan H p"
  shows "normal_plan H p" "shape_ok p" "phase_ok H p"
  using assms by (simp_all add: sound_plan_def)

text \<open>Normalising a plan whose definition is normal already.\<close>

lemma normal_plan_parts:
  assumes "normal_plan H p"
  shows "normalizedWord (pl_id p) = pl_id p" "js_inline (pl_title p) = pl_title p"
    "js_text (pl_request p) = pl_request p" "js_inline (pl_workspace p) = pl_workspace p"
    "normalizedBaseline H (pl_baseline p) = pl_baseline p"
    "normalizedClassification (pl_classification p) = pl_classification p"
    "normalizedRoles (pl_roles p) = pl_roles p"
    "normalizedStringList (pl_unresolvedQuestions p) = pl_unresolvedQuestions p"
    "normalizedTimestamp H (pl_createdAt p) now = pl_createdAt p"
    "js_text (pl_blocker p) = pl_blocker p" "normalizedApproval H (pl_approval p) = pl_approval p"
  using normal_planD [OF assms, of now]
  by (simp_all add: normalizeDeliveryPlan_def Let_def delivery_plan.splits)
     (metis delivery_plan.select_convs)+

lemma normalize_step:
  assumes "normal_plan H p"
  shows "normalizeDeliveryPlan H now (p\<lparr>pl_revision := r, pl_phase := ph, pl_blocker := b,
      pl_updatedAt := u, pl_approval := a, pl_gates := g\<rparr>) =
    p\<lparr>pl_revision := r, pl_phase := normalizedWord (if ph = [] then ''draft'' else ph), pl_blocker := js_text b,
      pl_updatedAt := normalizedTimestamp H u (pl_createdAt p), pl_approval := normalizedApproval H a,
      pl_gates := g\<rparr>"
  by (simp add: normalizeDeliveryPlan_def Let_def normal_plan_parts [OF assms])

section \<open>What the operations return\<close>

text \<open>The time stamp of an updated plan; with a valid clock reading it is that reading.\<close>

definition stamp :: "host \<Rightarrow> delivery_plan \<Rightarrow> string \<Rightarrow> string" where
  "stamp H p at = normalizedTimestamp H (normalizedTimestamp H at []) (pl_createdAt p)"

lemma stamp_valid [simp]: "valid_timestamp at \<Longrightarrow> stamp H p at = at"
  by (simp add: stamp_def valid_timestamp_fixed)

lemma phase_word: "ph \<in> set DELIVERY_PLAN_PHASES \<Longrightarrow> normalizedWord ph = ph \<and> ph \<noteq> []"
proof -
  have "list_all (\<lambda>ph. normalizedWord ph = ph \<and> ph \<noteq> []) DELIVERY_PLAN_PHASES" by code_simp
  then show "ph \<in> set DELIVERY_PLAN_PHASES \<Longrightarrow> ?thesis" by (simp add: list_all_iff)
qed

lemma normalizedWord_Nil [simp]: "normalizedWord [] = []"
  by (simp add: normalizedWord_def to_lower_def)

lemma emptyApproval_normal [simp]: "normalizedApproval H emptyApproval = emptyApproval"
  by (simp add: normalizedApproval_def emptyApproval_def)

lemma js_text_Nil [simp]: "js_text [] = []"
  by (simp add: js_text_def js_trim_def)

lemma readinessPhase_phase: "readinessPhase H p \<in> set DELIVERY_PLAN_PHASES"
  by (simp add: readinessPhase_def DELIVERY_PLAN_PHASES_def)

definition invalidated :: "host \<Rightarrow> string \<Rightarrow> delivery_plan \<Rightarrow> delivery_plan" where
  "invalidated H at p = p\<lparr>pl_revision := pl_revision p + 1, pl_phase := readinessPhase H p,
     pl_approval := emptyApproval, pl_gates := emptyGates, pl_blocker := [], pl_updatedAt := stamp H p at\<rparr>"

definition approval_relevant :: "delivery_plan \<Rightarrow> bool" where
  "approval_relevant p \<longleftrightarrow>
     ap_digest (pl_approval p) \<noteq> [] \<or> pl_phase p \<in> set (''ready_for_approval'' # APPROVAL_PHASES)"

lemma invalidate_Inr [plan_simps]:
  "invalidateDeliveryPlanApproval H now v at = Inr q \<longleftrightarrow>
     (let p = normalizeDeliveryPlan H now v in
      normal_plan H p \<and> shape_ok p \<and> pl_phase p \<notin> set TERMINAL_PHASES
      \<and> (if approval_relevant p then q = invalidated H at p \<and> sound_plan H q else q = p))"
proof -
  define p where "p = normalizeDeliveryPlan H now v"
  have step: "normalizeDeliveryPlan H now (p\<lparr>pl_revision := pl_revision p + 1, pl_phase := readinessPhase H p,
      pl_approval := emptyApproval, pl_gates := emptyGates, pl_blocker := [],
      pl_updatedAt := normalizedTimestamp H at []\<rparr>) = invalidated H at p" if "normal_plan H p"
    using phase_word [OF readinessPhase_phase, of H p]
    by (simp add: normalizeDeliveryPlan_def Let_def normal_plan_parts [OF that] invalidated_def stamp_def)
  show ?thesis
    unfolding invalidateDeliveryPlanApproval_def Let_def p_def [symmetric]
    by (auto simp: normalized_shape [of H now v, folded p_def] validateDeliveryPlan_Inr step approval_relevant_def)
qed

definition revised :: "host \<Rightarrow> string \<Rightarrow> delivery_plan \<Rightarrow> delivery_plan \<Rightarrow> delivery_plan" where
  "revised H at p c = c\<lparr>pl_revision := pl_revision p + 1, pl_blocker := [], pl_updatedAt := stamp H p at\<rparr>"

text \<open>
  The candidate of an update keeps revision, phase, approval, gates, blocker and times.
\<close>

definition candidate_of :: "host \<Rightarrow> delivery_plan \<Rightarrow> plan_patch \<Rightarrow> delivery_plan" where
  "candidate_of H p patch = normalizeDeliveryPlan H [] (mergedDefinition p patch)"

lemma candidate_frame:
  assumes "sound_plan H p"
  shows "normalizeDeliveryPlan H now (mergedDefinition p patch) = candidate_of H p patch"
    "pl_id (candidate_of H p patch) = pl_id p" "pl_revision (candidate_of H p patch) = pl_revision p"
    "pl_phase (candidate_of H p patch) = pl_phase p" "pl_approval (candidate_of H p patch) = pl_approval p"
    "pl_gates (candidate_of H p patch) = pl_gates p" "pl_blocker (candidate_of H p patch) = pl_blocker p"
    "pl_createdAt (candidate_of H p patch) = pl_createdAt p" "pl_updatedAt (candidate_of H p patch) = pl_updatedAt p"
    "pl_version (candidate_of H p patch) = pl_version p"
proof -
  have normal: "normal_plan H p" and shape: "shape_ok p" using assms by (simp_all add: sound_plan_def)
  note parts = normal_plan_parts [OF normal]
  have ph: "normalizedWord (pl_phase p) = pl_phase p" "pl_phase p \<noteq> []"
    using phase_word [OF shape_ok_header(5) [OF shape]] by simp_all
  have at: "normalizedTimestamp H (pl_createdAt p) f = pl_createdAt p"
    "normalizedTimestamp H (pl_updatedAt p) f = pl_updatedAt p" for f
    using shape_ok_header(6,7) [OF shape] by (simp_all add: valid_timestamp_fixed)
  show "normalizeDeliveryPlan H now (mergedDefinition p patch) = candidate_of H p patch"
    by (simp add: candidate_of_def normalizeDeliveryPlan_def mergedDefinition_def Let_def at)
  show "pl_id (candidate_of H p patch) = pl_id p" "pl_revision (candidate_of H p patch) = pl_revision p"
    "pl_phase (candidate_of H p patch) = pl_phase p" "pl_approval (candidate_of H p patch) = pl_approval p"
    "pl_gates (candidate_of H p patch) = pl_gates p" "pl_blocker (candidate_of H p patch) = pl_blocker p"
    "pl_createdAt (candidate_of H p patch) = pl_createdAt p" "pl_updatedAt (candidate_of H p patch) = pl_updatedAt p"
    "pl_version (candidate_of H p patch) = pl_version p"
    by (simp_all add: candidate_of_def normalizeDeliveryPlan_def mergedDefinition_def Let_def parts ph at)
qed

lemma normalize_revise:
  assumes "normal_plan H c" "normalizedWord (pl_phase c) = pl_phase c \<and> pl_phase c \<noteq> []"
  shows "normalizeDeliveryPlan H now (c\<lparr>pl_revision := r, pl_phase := pl_phase c,
      pl_approval := pl_approval c, pl_gates := pl_gates c, pl_blocker := [],
      pl_createdAt := pl_createdAt c, pl_updatedAt := u\<rparr>)
    = c\<lparr>pl_revision := r, pl_blocker := [], pl_updatedAt := normalizedTimestamp H u (pl_createdAt c)\<rparr>"
  using assms(2) by (simp add: normalizeDeliveryPlan_def Let_def normal_plan_parts [OF assms(1)])

lemma update_Inr [plan_simps]:
  "updateDeliveryPlanDefinition H now v patch at = Inr q \<longleftrightarrow>
     (let p = normalizeDeliveryPlan H now v; c = candidate_of H p patch in
      sound_plan H p \<and> pl_phase p \<notin> set TERMINAL_PHASES
      \<and> pl_phase p \<notin> set [''executing'', ''verifying'', ''ready_to_release'']
      \<and> normal_plan H c \<and> shape_ok c
      \<and> (if plan_digest H c = plan_digest H p then q = p
         else (q = (if approval_relevant p then invalidated H at c else revised H at p c) \<and> sound_plan H q)))"
proof -
  define p where "p = normalizeDeliveryPlan H now v"
  define c where "c = candidate_of H p patch"
  show ?thesis
  proof (cases "sound_plan H p \<and> pl_phase p \<notin> set TERMINAL_PHASES
      \<and> pl_phase p \<notin> set [''executing'', ''verifying'', ''ready_to_release'']")
    case True
    then have sound: "sound_plan H p" by simp
    note frame = candidate_frame [OF sound, where patch = patch, folded c_def]
    have valid: "validateDeliveryPlan H now v = Inr p" using sound by (simp add: validateDeliveryPlan_Inr p_def)
    have norm_c: "validateShape c = Inr c' \<longleftrightarrow> c' = c \<and> normal_plan H c \<and> shape_ok c" for c'
      using normalized_shape [of H now "mergedDefinition p patch" c'] frame(1) [where now = now] by auto
    have fixed: "normal_plan H c \<Longrightarrow> normalizeDeliveryPlan H now c = c" by (rule normal_planD)
    have invalid: "invalidateDeliveryPlanApproval H now c at = Inr q \<longleftrightarrow> q = invalidated H at c \<and> sound_plan H q"
      if "normal_plan H c" "shape_ok c" "approval_relevant p" for q
      using that True frame(4,5) by (auto simp: invalidate_Inr Let_def fixed approval_relevant_def)
    have step: "normalizeDeliveryPlan H now (c\<lparr>pl_revision := pl_revision p + 1, pl_phase := pl_phase p,
        pl_approval := pl_approval p, pl_gates := pl_gates p, pl_blocker := [],
        pl_createdAt := pl_createdAt p, pl_updatedAt := normalizedTimestamp H at []\<rparr>) = revised H at p c"
      if "normal_plan H c"
      using normalize_revise [OF that, where r = "pl_revision p + 1" and u = "normalizedTimestamp H at []"]
        phase_word [OF shape_ok_header(5) [OF sound_planD(2) [OF sound]]]
      unfolding frame(2-) revised_def stamp_def by simp
    have merged: "normalizeDeliveryPlan H now (mergedDefinition p patch) = c" by (rule frame(1))
    have old: "deliveryPlanDigest H now p = Inr (plan_digest H p)"
      using sound by (simp add: plan_digest_Inr sound_plan_def)
    have unlocked: "throws [throw_if (pl_phase p \<in> set TERMINAL_PHASES) (plan_error ''terminal''),
        throw_if (pl_phase p \<in> set [''executing'', ''verifying'', ''ready_to_release''])
          (plan_error ''execution_locked'')] = None" using True by simp
    show ?thesis
    proof (cases "normal_plan H c \<and> shape_ok c")
      case nc: True
      then have c: "validateShape c = Inr c" "deliveryPlanDigest H now c = Inr (plan_digest H c)"
        by (simp_all add: norm_c plan_digest_Inr)
      show ?thesis
        unfolding updateDeliveryPlanDefinition_def Let_def p_def [symmetric] c_def [symmetric] valid attempt.simps
          unlocked guard.simps merged c old approval_relevant_def [symmetric]
        using True nc invalid step by (simp add: validateDeliveryPlan_Inr eq_commute [of p q])
    next
      case nc: False
      then obtain e where c: "validateShape c = Inl e" using norm_c by (cases "validateShape c") auto
      show ?thesis
        unfolding updateDeliveryPlanDefinition_def Let_def p_def [symmetric] c_def [symmetric] valid attempt.simps
          unlocked guard.simps merged c
        using nc by auto
    qed
  next
    case False
    then show ?thesis
      unfolding updateDeliveryPlanDefinition_def Let_def p_def [symmetric] c_def [symmetric]
      by (auto simp: validateDeliveryPlan_Inr p_def [symmetric])
  qed
qed

text \<open>The plan a transition to \<open>target\<close> makes of a sound plan.\<close>

definition fresh_approval :: "host \<Rightarrow> string \<Rightarrow> delivery_plan \<Rightarrow> plan_approval" where
  "fresh_approval H at p = \<lparr>ap_digest = plan_digest H p, ap_approvedAt = Some (normalizedTimestamp H at []),
     ap_planRevision = Some (pl_revision p + 1)\<rparr>"

definition approval_after :: "host \<Rightarrow> string \<Rightarrow> delivery_plan \<Rightarrow> string \<Rightarrow> plan_approval" where
  "approval_after H at p target =
     (if target = ''approved'' then normalizedApproval H (fresh_approval H at p)
      else if target = ''planning'' \<and> ap_digest (pl_approval p) \<noteq> [] then emptyApproval
      else pl_approval p)"

definition transitioned ::
  "host \<Rightarrow> string \<Rightarrow> delivery_plan \<Rightarrow> string \<Rightarrow> transition_conditions \<Rightarrow> delivery_plan" where
  "transitioned H at p target c = p\<lparr>pl_revision := pl_revision p + 1, pl_phase := target,
     pl_blocker := (if target \<in> set [''needs_decision'', ''blocked''] then transition_reason c else []),
     pl_updatedAt := stamp H p at, pl_approval := approval_after H at p target,
     pl_gates := next_gates p target\<rparr>"

definition transition_allowed ::
  "host \<Rightarrow> string \<Rightarrow> delivery_plan \<Rightarrow> string \<Rightarrow> transition_conditions \<Rightarrow> bool" where
  "transition_allowed H now p target c \<longleftrightarrow>
     throws (transition_guards p target c) = None \<and> throws (target_conditions H now p target c) = None"

lemma transition_reason_idem [simp]: "js_text (transition_reason c) = transition_reason c"
  by (simp add: transition_reason_def normal_simps)

lemma next_approval_Inr:
  assumes "sound_plan H p"
  shows "\<exists>a. next_approval H now p target (normalizedTimestamp H at []) = Inr a
    \<and> normalizedApproval H a = approval_after H at p target"
  using assms normal_plan_parts(11) [OF sound_planD(1) [OF assms]]
  by (auto simp: next_approval_def approval_after_def fresh_approval_def plan_digest_Inr sound_plan_def)

lemma transition_Inr [plan_simps]:
  "transitionDeliveryPlan H now v to c at = Inr q \<longleftrightarrow>
     (let p = normalizeDeliveryPlan H now v; target = normalizedWord to in
      sound_plan H p \<and> transition_allowed H now p target c \<and> q = transitioned H at p target c \<and> sound_plan H q)"
proof -
  define p where "p = normalizeDeliveryPlan H now v"
  define target where "target = normalizedWord to"
  show ?thesis
  proof (cases "sound_plan H p \<and> transition_allowed H now p target c")
    case True
    then have sound: "sound_plan H p" by simp
    note normal = sound_planD(1) [OF sound]
    have valid: "validateDeliveryPlan H now v = Inr p" using sound by (simp add: validateDeliveryPlan_Inr p_def)
    from True have checks: "throws (transition_guards p target c) = None" "throws (target_conditions H now p target c) = None"
      by (simp_all add: transition_allowed_def)
    have word: "normalizedWord target = target" "target \<noteq> []"
      using checks(1) phase_word [of target] by (auto simp: transition_guards_def)
    obtain a where a: "next_approval H now p target (normalizedTimestamp H at []) = Inr a"
      "normalizedApproval H a = approval_after H at p target" using next_approval_Inr [OF sound] by blast
    have blocker: "js_text (if x then transition_reason c else []) = (if x then transition_reason c else [])" for x
      by simp
    have step: "normalizeDeliveryPlan H now (p\<lparr>pl_revision := pl_revision p + 1, pl_phase := target,
        pl_blocker := (if target \<in> set [''needs_decision'', ''blocked''] then transition_reason c else []),
        pl_updatedAt := normalizedTimestamp H at [], pl_approval := a, pl_gates := next_gates p target\<rparr>)
      = transitioned H at p target c"
      unfolding normalize_step [OF normal] a blocker transitioned_def stamp_def using word by simp
    show ?thesis
      unfolding transitionDeliveryPlan_def Let_def p_def [symmetric] target_def [symmetric] valid attempt.simps
        checks guard.simps a validateDeliveryPlan_Inr step
      using True by simp
  next
    case False
    then show ?thesis
      unfolding transitionDeliveryPlan_def Let_def p_def [symmetric] target_def [symmetric]
      by (auto simp: validateDeliveryPlan_Inr p_def [symmetric] transition_allowed_def)
  qed
qed

lemma transitioned_simps [simp]:
  "pl_id (transitioned H at p target c) = pl_id p" "pl_revision (transitioned H at p target c) = pl_revision p + 1"
  "pl_phase (transitioned H at p target c) = target" "pl_createdAt (transitioned H at p target c) = pl_createdAt p"
  "pl_roles (transitioned H at p target c) = pl_roles p" "pl_workspace (transitioned H at p target c) = pl_workspace p"
  "pl_authority (transitioned H at p target c) = pl_authority p"
  "pl_gates (transitioned H at p target c) = next_gates p target"
  "pl_approval (transitioned H at p target c) = approval_after H at p target"
  "pl_updatedAt (transitioned H at p target c) = stamp H p at"
  "pl_blocker (transitioned H at p target c) = (if target \<in> set [''needs_decision'', ''blocked''] then transition_reason c else [])"
  by (simp_all add: transitioned_def)

lemma transitioned_definition [simp]:
  "definition_json (transitioned H at p target c) = definition_json p"
  "plan_digest H (transitioned H at p target c) = plan_digest H p"
  by (simp_all add: plan_digest_def definition_json_def transitioned_def)

lemma lint_errors_cong:
  assumes "pl_workspace q = pl_workspace p" "pl_baseline q = pl_baseline p" "pl_classification q = pl_classification p"
    "pl_roles q = pl_roles p" "pl_unresolvedQuestions q = pl_unresolvedQuestions p"
  shows "lint_errors H q = lint_errors H p"
  unfolding lint_errors_def lint_baseline_def lint_questions_def open_questions_def
    deliveryPlanHasDiscoveryBaseline_def Let_def assms by (rule refl)

lemma transitioned_ready [simp]: "plan_ready H (transitioned H at p target c) = plan_ready H p"
  unfolding plan_ready_def by (subst lint_errors_cong [of _ p]) (simp_all add: transitioned_def)

section \<open>The definition of a plan is determined by its JSON\<close>

lemma requirement_json_faithful: "faithful requirement_json"
  unfolding requirement_json_def by (rule faithful_object) (auto simp: json_inj intro: requirement.equality)

lemmas requirement_json_inj [json_inj] = faithful_iff [OF requirement_json_faithful] faithful_list [OF requirement_json_faithful]

lemma step_json_faithful: "faithful step_json"
  unfolding step_json_def by (rule faithful_object) (auto simp: json_inj intro: plan_step.equality)

lemmas step_json_inj [json_inj] = faithful_iff [OF step_json_faithful] faithful_list [OF step_json_faithful]

lemma acceptance_json_faithful: "faithful acceptance_json"
  unfolding acceptance_json_def by (rule faithful_object) (auto simp: json_inj intro: acceptance.equality)

lemmas acceptance_json_inj [json_inj] = faithful_iff [OF acceptance_json_faithful] faithful_list [OF acceptance_json_faithful]

lemma po_json_faithful: "faithful po_json"
  unfolding po_json_def by (rule faithful_object) (auto simp: json_inj intro: role_po.equality)

lemma ba_json_faithful: "faithful ba_json"
  unfolding ba_json_def by (rule faithful_object) (auto simp: json_inj intro: role_ba.equality)

lemma dev_json_faithful: "faithful dev_json"
  unfolding dev_json_def by (rule faithful_object) (auto simp: json_inj intro: role_dev.equality)

lemma qa_json_faithful: "faithful qa_json"
  unfolding qa_json_def by (rule faithful_object) (auto simp: json_inj intro: role_qa.equality)

lemmas role_json_inj [json_inj] = faithful_iff [OF po_json_faithful] faithful_iff [OF ba_json_faithful]
  faithful_iff [OF dev_json_faithful] faithful_iff [OF qa_json_faithful]

lemma roles_json_faithful: "faithful roles_json"
  unfolding roles_json_def by (rule faithful_object) (auto simp: json_inj intro: plan_roles.equality)

lemma plan_classification_json_faithful: "faithful plan_classification_json"
  unfolding plan_classification_json_def
  by (rule faithful_object) (auto simp: json_inj intro: plan_classification.equality)

lemma authority_json_faithful: "faithful authority_json"
  unfolding authority_json_def
  by (rule faithful_object) (auto simp: authority_members_def json_inj intro: plan_authority.equality)

lemmas definition_part_inj [json_inj] = faithful_iff [OF roles_json_faithful]
  faithful_iff [OF plan_classification_json_faithful] faithful_iff [OF authority_json_faithful]

text \<open>The parts of a plan that its digest covers.\<close>

definition same_definition :: "delivery_plan \<Rightarrow> delivery_plan \<Rightarrow> bool" where
  "same_definition p q \<longleftrightarrow>
     pl_version p = pl_version q \<and> pl_id p = pl_id q \<and> pl_title p = pl_title q \<and> pl_request p = pl_request q
     \<and> pl_workspace p = pl_workspace q \<and> pb_head (pl_baseline p) = pb_head (pl_baseline q)
     \<and> pb_workingTreeDigest (pl_baseline p) = pb_workingTreeDigest (pl_baseline q)
     \<and> pb_instructionsDigest (pl_baseline p) = pb_instructionsDigest (pl_baseline q)
     \<and> pl_classification p = pl_classification q \<and> pl_roles p = pl_roles q
     \<and> pl_unresolvedQuestions p = pl_unresolvedQuestions q \<and> pl_authority p = pl_authority q"

lemma plan_baseline_json_inj [json_inj]:
  "norm_json (plan_baseline_json a) = norm_json (plan_baseline_json b) \<longleftrightarrow>
     pb_head a = pb_head b \<and> pb_workingTreeDigest a = pb_workingTreeDigest b
     \<and> pb_instructionsDigest a = pb_instructionsDigest b"
  unfolding plan_baseline_json_def by (subst norm_json_object) auto

lemma definition_json_iff:
  "canonicalJson (definition_json p) = canonicalJson (definition_json q) \<longleftrightarrow> same_definition p q"
  unfolding canonicalJson_norm_iff definition_json_def same_definition_def
  by (subst norm_json_object) (auto simp: json_inj)

section \<open>Merging twice\<close>

lemmas patch_defs = over_def patched_def patch_baseline_def patch_classification_def patch_po_def patch_ba_def
  patch_dev_def patch_qa_def patch_roles_def patch_authority_def

lemma over_twice: "(\<And>x. f (f x) = f x) \<Longrightarrow> f (over x (f (over x b))) = f (over x b)"
  by (cases x) (simp_all add: over_def)

lemma over_over [simp]: "over x (over x b) = over x b"
  by (cases x) (simp_all add: over_def)

lemma map_twice: "(\<And>x. f (f x) = f x) \<Longrightarrow> map f (over x (map f (over x b))) = map f (over x b)"
  by (cases x) (simp_all add: over_def comp_def)

lemma patched_twice:
  assumes "\<And>y b. f (g y (f (g y b))) = f (g y b)" "\<And>b. f (f b) = f b"
  shows "f (patched g x (f (patched g x b))) = f (patched g x b)"
  using assms by (cases x) (simp_all add: patched_def)

lemma baseline_twice:
  "normalizedBaseline H (patched patch_baseline x (normalizedBaseline H (patched patch_baseline x b)))
     = normalizedBaseline H (patched patch_baseline x b)"
  by (rule patched_twice) (simp_all add: normalizedBaseline_def patch_baseline_def over_twice normal_simps
      over_twice [of "\<lambda>t. normalizedTimestamp H t []", OF normalizedTimestamp_idem])

lemma classification_twice:
  "normalizedClassification (patched patch_classification x (normalizedClassification (patched patch_classification x b)))
     = normalizedClassification (patched patch_classification x b)"
  by (rule patched_twice) (simp_all add: normalizedClassification_def patch_classification_def over_twice normal_simps)

lemma po_twice:
  "normalizedPo (patched patch_po x (normalizedPo (patched patch_po x b))) = normalizedPo (patched patch_po x b)"
  by (rule patched_twice) (simp_all add: normalizedPo_def patch_po_def over_twice normal_simps)

lemma ba_twice:
  "normalizedBa (patched patch_ba x (normalizedBa (patched patch_ba x b))) = normalizedBa (patched patch_ba x b)"
  by (rule patched_twice) (simp_all add: normalizedBa_def patch_ba_def over_twice map_twice normal_simps comp_def)

lemma dev_twice:
  "normalizedDev (patched patch_dev x (normalizedDev (patched patch_dev x b))) = normalizedDev (patched patch_dev x b)"
  by (rule patched_twice) (simp_all add: normalizedDev_def patch_dev_def over_twice map_twice normal_simps comp_def)

lemma qa_twice:
  "normalizedQa (patched patch_qa x (normalizedQa (patched patch_qa x b))) = normalizedQa (patched patch_qa x b)"
  by (rule patched_twice) (simp_all add: normalizedQa_def patch_qa_def over_twice map_twice normal_simps comp_def)

lemma roles_twice:
  "normalizedRoles (patched patch_roles x (normalizedRoles (patched patch_roles x b)))
     = normalizedRoles (patched patch_roles x b)"
  by (rule patched_twice)
     (simp_all add: normalizedRoles_def patch_roles_def po_twice ba_twice dev_twice qa_twice normalizedRoles_idem [unfolded normalizedRoles_def, simplified])

lemma authority_twice:
  "patched patch_authority x (patched patch_authority x b) = patched patch_authority x b"
  by (cases x) (simp_all add: patched_def patch_authority_def)

text \<open>A plan with the definition of a candidate is its own candidate for the same patch.\<close>

lemma candidate_again:
  assumes q: "sound_plan H q" and p: "sound_plan H p"
    and parts: "pl_title q = pl_title (candidate_of H p x)" "pl_request q = pl_request (candidate_of H p x)"
      "pl_workspace q = pl_workspace (candidate_of H p x)" "pl_baseline q = pl_baseline (candidate_of H p x)"
      "pl_classification q = pl_classification (candidate_of H p x)" "pl_roles q = pl_roles (candidate_of H p x)"
      "pl_unresolvedQuestions q = pl_unresolvedQuestions (candidate_of H p x)"
      "pl_authority q = pl_authority (candidate_of H p x)"
  shows "candidate_of H q x = q"
proof (rule delivery_plan.equality)
  show "pl_title (candidate_of H q x) = pl_title q"
    by (simp add: candidate_of_def normalizeDeliveryPlan_def mergedDefinition_def Let_def parts over_twice normal_simps)
  show "pl_request (candidate_of H q x) = pl_request q"
    by (simp add: candidate_of_def normalizeDeliveryPlan_def mergedDefinition_def Let_def parts over_twice normal_simps)
  show "pl_workspace (candidate_of H q x) = pl_workspace q"
    by (simp add: candidate_of_def normalizeDeliveryPlan_def mergedDefinition_def Let_def parts over_twice normal_simps)
  show "pl_baseline (candidate_of H q x) = pl_baseline q"
    by (simp add: candidate_of_def normalizeDeliveryPlan_def mergedDefinition_def Let_def parts baseline_twice)
  show "pl_classification (candidate_of H q x) = pl_classification q"
    by (simp add: candidate_of_def normalizeDeliveryPlan_def mergedDefinition_def Let_def parts classification_twice)
  show "pl_roles (candidate_of H q x) = pl_roles q"
    by (simp add: candidate_of_def normalizeDeliveryPlan_def mergedDefinition_def Let_def parts roles_twice)
  show "pl_unresolvedQuestions (candidate_of H q x) = pl_unresolvedQuestions q"
    by (simp add: candidate_of_def normalizeDeliveryPlan_def mergedDefinition_def Let_def parts over_twice normal_simps)
  show "pl_authority (candidate_of H q x) = pl_authority q"
    by (simp add: candidate_of_def normalizeDeliveryPlan_def mergedDefinition_def Let_def parts authority_twice)
qed (use candidate_frame [OF q, where patch = x] in simp_all)

end
