(* ===== verification/PlanLifecycle.thy ===== *)
theory PlanLifecycle
  imports DeliveryPlanFacts Machine
begin

text \<open>
  The specification of a delivery plan: the course it takes from draft to done, as a step
  relation over its phase, whether it carries an approval, and its gates; the operations of
  delivery-plan.js as steps of a machine; and the proof that they refine the course.
\<close>

section \<open>The course of a plan\<close>

datatype plan_phase =
  P_draft | P_planning | P_needs_decision | P_ready_for_approval | P_approved | P_executing
| P_verifying | P_ready_to_release | P_blocked | P_done | P_canceled

fun phase_of :: "string \<Rightarrow> plan_phase" where
  "phase_of s =
     (if s = ''draft'' then P_draft else if s = ''planning'' then P_planning
      else if s = ''needs_decision'' then P_needs_decision
      else if s = ''ready_for_approval'' then P_ready_for_approval
      else if s = ''approved'' then P_approved else if s = ''executing'' then P_executing
      else if s = ''verifying'' then P_verifying else if s = ''ready_to_release'' then P_ready_to_release
      else if s = ''blocked'' then P_blocked else if s = ''done'' then P_done else P_canceled)"

text \<open>The inverse of \<open>phase_of\<close> on the phases of a valid plan.\<close>

fun phase_text :: "plan_phase \<Rightarrow> string" where
  "phase_text P_draft = ''draft''"
| "phase_text P_planning = ''planning''"
| "phase_text P_needs_decision = ''needs_decision''"
| "phase_text P_ready_for_approval = ''ready_for_approval''"
| "phase_text P_approved = ''approved''"
| "phase_text P_executing = ''executing''"
| "phase_text P_verifying = ''verifying''"
| "phase_text P_ready_to_release = ''ready_to_release''"
| "phase_text P_blocked = ''blocked''"
| "phase_text P_done = ''done''"
| "phase_text P_canceled = ''canceled''"

lemma phase_of_text [simp]: "phase_of (phase_text f) = f"
  by (cases f) simp_all

lemma phase_text_inj [simp]: "phase_text f = phase_text g \<longleftrightarrow> f = g"
  by (metis phase_of_text)

lemma phase_obtain:
  assumes "t \<in> set DELIVERY_PLAN_PHASES"
  obtains f where "t = phase_text f"
  using assms unfolding DELIVERY_PLAN_PHASES_def
  by (simp only: list.set insert_iff empty_iff simp_thms) (metis phase_text.simps)

declare phase_of.simps [simp del]

record plan_course =
  cs_phase :: plan_phase
  cs_approved :: bool
  cs_gates :: plan_gates

definition gates_of :: "bool \<Rightarrow> bool \<Rightarrow> bool \<Rightarrow> plan_gates" where
  "gates_of captured passed released =
     \<lparr>gt_implementationCaptured = captured, gt_qaPassed = passed, gt_releaseVerified = released\<rparr>"

definition move_course :: "plan_phase \<Rightarrow> bool \<Rightarrow> plan_gates \<Rightarrow> plan_course" where
  "move_course phase approved gates = \<lparr>cs_phase = phase, cs_approved = approved, cs_gates = gates\<rparr>"

inductive course_step :: "plan_course \<Rightarrow> plan_course \<Rightarrow> bool" where
  open_planning: "f \<in> {P_draft, P_needs_decision, P_blocked} \<Longrightarrow>
     course_step (move_course f a g) (move_course P_planning a g)"
| ask: "course_step (move_course P_planning a g) (move_course P_needs_decision a g)"
| get_stuck: "course_step (move_course P_planning a g) (move_course P_blocked a g)"
| offer: "f \<in> {P_planning, P_needs_decision} \<Longrightarrow>
     course_step (move_course f a g) (move_course P_ready_for_approval a g)"
| approve: "course_step (move_course P_ready_for_approval a g) (move_course P_approved True g)"
| relint: "f \<in> {P_ready_for_approval, P_approved, P_executing, P_verifying, P_ready_to_release} \<Longrightarrow>
     course_step (move_course f a g) (move_course P_ready_for_approval False emptyGates)"
| replan: "f \<in> {P_ready_for_approval, P_approved, P_executing, P_verifying, P_ready_to_release} \<Longrightarrow>
     course_step (move_course f a g) (move_course P_planning False emptyGates)"
| start: "course_step (move_course P_approved a g) (move_course P_executing a g)"
| capture_result: "course_step (move_course P_executing a g) (move_course P_verifying a (gates_of True False False))"
| remediate: "course_step (move_course P_verifying a g) (move_course P_executing a emptyGates)"
| pass_qa: "course_step (move_course P_verifying a g) (move_course P_ready_to_release a (gates_of True True False))"
| finish: "course_step (move_course P_ready_to_release a g) (move_course P_done a (gates_of True True released))"
| cancel: "f \<in> {P_draft, P_planning, P_needs_decision, P_ready_for_approval, P_approved, P_blocked} \<Longrightarrow>
     course_step (move_course f a g) (move_course P_canceled a g)"

inductive_cases course_stepE: "course_step s t"

definition course_start :: "plan_course \<Rightarrow> bool" where
  "course_start s \<longleftrightarrow> s = move_course P_draft False emptyGates \<or> s = move_course P_planning False emptyGates"

text \<open>The phase determines the approval (except for a canceled plan) and the gates.\<close>

definition course_inv :: "plan_course \<Rightarrow> bool" where
  "course_inv s \<longleftrightarrow>
     (cs_phase s \<in> {P_approved, P_executing, P_verifying, P_ready_to_release, P_done} \<longrightarrow> cs_approved s)
     \<and> (cs_phase s \<in> {P_draft, P_planning, P_needs_decision, P_ready_for_approval, P_blocked} \<longrightarrow> \<not> cs_approved s)
     \<and> (cs_phase s \<notin> {P_verifying, P_ready_to_release, P_done} \<longrightarrow> cs_gates s = emptyGates)
     \<and> (cs_phase s = P_verifying \<longrightarrow> cs_gates s = gates_of True False False)
     \<and> (cs_phase s = P_ready_to_release \<longrightarrow> cs_gates s = gates_of True True False)
     \<and> (cs_phase s = P_done \<longrightarrow> (\<exists>r. cs_gates s = gates_of True True r))"

lemmas course_defs = course_inv_def move_course_def

interpretation course: machine course_start course_step course_inv
proof
  fix s assume "course_start s" then show "course_inv s"
    by (auto simp: course_start_def course_defs)
next
  fix s t assume "course_inv s" "course_step s t" then show "course_inv t"
    by (elim course_stepE) (auto simp: course_defs)
qed

section \<open>The operations as steps\<close>

datatype plan_operation =
    Update plan_patch
  | Transition string transition_conditions
  | Invalidate

fun apply_plan_operation ::
  "host \<Rightarrow> string \<Rightarrow> plan_operation \<Rightarrow> string \<Rightarrow> delivery_plan \<Rightarrow> delivery_plan result" where
  "apply_plan_operation H now (Update patch) at v = updateDeliveryPlanDefinition H now v patch at"
| "apply_plan_operation H now (Transition to c) at v = transitionDeliveryPlan H now v to c at"
| "apply_plan_operation H now Invalidate at v = invalidateDeliveryPlanApproval H now v at"

inductive plan_step_relation :: "host \<Rightarrow> delivery_plan \<Rightarrow> delivery_plan \<Rightarrow> bool" for H where
  plan_step: "sound_plan H p \<Longrightarrow> apply_plan_operation H now op at p = Inr q \<Longrightarrow> plan_step_relation H p q"

inductive_cases plan_stepE: "plan_step_relation H p q"

text \<open>A new plan: validated, in draft or planning, with no approval and no gate passed.\<close>

definition plan_start :: "host \<Rightarrow> delivery_plan \<Rightarrow> bool" where
  "plan_start H p \<longleftrightarrow> sound_plan H p \<and> pl_phase p \<in> {''draft'', ''planning''}
     \<and> ap_digest (pl_approval p) = [] \<and> pl_gates p = emptyGates"

definition course_of :: "delivery_plan \<Rightarrow> plan_course" where
  "course_of p = move_course (phase_of (pl_phase p)) (ap_digest (pl_approval p) \<noteq> []) (pl_gates p)"

text \<open>The plans that operations lead to.\<close>

abbreviation plan_reachable :: "host \<Rightarrow> delivery_plan \<Rightarrow> bool" where
  "plan_reachable H p \<equiv> reaches (plan_start H) (plan_step_relation H) p"

section \<open>Every operation returns a sound plan\<close>

lemma phase_ok_irrelevant: "\<not> approval_relevant p \<Longrightarrow> phase_ok H p"
  by (auto simp: approval_relevant_def phase_ok_def APPROVAL_PHASES_def)

lemma operation_sound:
  assumes "apply_plan_operation H now op at v = Inr q"
  shows "sound_plan H q"
proof (cases op)
  case (Update patch)
  with assms show ?thesis by (auto simp: update_Inr Let_def split: if_splits)
next
  case (Transition to c)
  with assms show ?thesis by (auto simp: transition_Inr Let_def)
next
  case Invalidate
  with assms show ?thesis
    by (auto simp: invalidate_Inr Let_def sound_plan_def phase_ok_irrelevant split: if_splits)
qed

lemma reachable_sound: "plan_reachable H p \<Longrightarrow> sound_plan H p"
  by (induction rule: reaches.induct) (auto simp: plan_start_def intro: operation_sound elim: plan_stepE)

lemma reachable_operation:
  "plan_reachable H p \<Longrightarrow> apply_plan_operation H now op at p = Inr q \<Longrightarrow> plan_reachable H q"
  using reachable_sound by (blast intro: reaches_step plan_step)

section \<open>Refinement\<close>

text \<open>The transitions that the table allows and the execution lock leaves.\<close>

fun effective_step :: "plan_phase \<Rightarrow> plan_phase \<Rightarrow> bool" where
  "effective_step P_draft t \<longleftrightarrow> t \<in> {P_planning, P_canceled}"
| "effective_step P_planning t \<longleftrightarrow> t \<in> {P_needs_decision, P_ready_for_approval, P_blocked, P_canceled}"
| "effective_step P_needs_decision t \<longleftrightarrow> t \<in> {P_planning, P_ready_for_approval, P_canceled}"
| "effective_step P_ready_for_approval t \<longleftrightarrow> t \<in> {P_planning, P_approved, P_canceled}"
| "effective_step P_approved t \<longleftrightarrow> t \<in> {P_planning, P_executing, P_canceled}"
| "effective_step P_executing t \<longleftrightarrow> t \<in> {P_planning, P_verifying}"
| "effective_step P_verifying t \<longleftrightarrow> t \<in> {P_planning, P_executing, P_ready_to_release}"
| "effective_step P_ready_to_release t \<longleftrightarrow> t \<in> {P_planning, P_done}"
| "effective_step P_blocked t \<longleftrightarrow> t \<in> {P_planning, P_canceled}"
| "effective_step P_done t \<longleftrightarrow> False"
| "effective_step P_canceled t \<longleftrightarrow> False"

lemma effective_transition:
  assumes "legal_transition (phase_text f) (phase_text t)" "\<not> execution_locked (phase_text f) (phase_text t) c"
  shows "effective_step f t"
  using assms
  by (cases f; simp add: legal_transition_def LEGAL_TRANSITIONS_def;
      cases t; simp add: execution_locked_def)

text \<open>The approval and the gates after a transition, on phases.\<close>

definition gates_after :: "plan_phase \<Rightarrow> plan_phase \<Rightarrow> bool \<Rightarrow> bool \<Rightarrow> plan_gates \<Rightarrow> plan_gates" where
  "gates_after f t approved release g =
     (if t = P_planning \<and> approved then emptyGates
      else if t = P_executing \<and> f = P_verifying then gates_of False False False
      else if t = P_verifying then gates_of True False False
      else if t = P_ready_to_release then gates_of (gt_implementationCaptured g) True False
      else if t = P_done \<and> release then gates_of (gt_implementationCaptured g) (gt_qaPassed g) True
      else g)"

lemma text_is_phase:
  "''draft'' = phase_text P_draft" "''planning'' = phase_text P_planning"
  "''needs_decision'' = phase_text P_needs_decision" "''ready_for_approval'' = phase_text P_ready_for_approval"
  "''approved'' = phase_text P_approved" "''executing'' = phase_text P_executing"
  "''verifying'' = phase_text P_verifying" "''ready_to_release'' = phase_text P_ready_to_release"
  "''blocked'' = phase_text P_blocked" "''done'' = phase_text P_done" "''canceled'' = phase_text P_canceled"
  by simp_all

lemma next_gates_phase:
  assumes "pl_phase p = phase_text f"
  shows "next_gates p (phase_text t) = gates_after f t (ap_digest (pl_approval p) \<noteq> [])
    (qa_releaseRequired (rl_qa (pl_roles p))) (pl_gates p)"
  unfolding next_gates_def gates_after_def assms text_is_phase phase_text_inj
  by (simp add: gates_of_def)

lemma course_of_transitioned:
  assumes "sound_plan H (transitioned H at p (phase_text t) c)" "pl_phase p = phase_text f"
  shows "course_of (transitioned H at p (phase_text t) c) = move_course t
     (t = P_approved \<or> t \<noteq> P_planning \<and> ap_digest (pl_approval p) \<noteq> [])
     (gates_after f t (ap_digest (pl_approval p) \<noteq> []) (qa_releaseRequired (rl_qa (pl_roles p))) (pl_gates p))"
proof -
  have "ap_digest (approval_after H at p ''approved'') \<noteq> []" if "t = P_approved"
    using sound_planD(3) [OF assms(1)] that by (simp add: phase_ok_def APPROVAL_PHASES_def) metis
  then have "ap_digest (approval_after H at p (phase_text t)) \<noteq> []
      \<longleftrightarrow> t = P_approved \<or> t \<noteq> P_planning \<and> ap_digest (pl_approval p) \<noteq> []"
    unfolding approval_after_def text_is_phase phase_text_inj by (auto simp: emptyApproval_def)
  then show ?thesis
    by (simp add: course_of_def next_gates_phase [OF assms(2)])
qed

lemma inv_course_of:
  assumes "course_inv (course_of p)" "pl_phase p = phase_text f"
  shows "f \<in> {P_draft, P_planning, P_needs_decision, P_ready_for_approval, P_blocked} \<Longrightarrow> ap_digest (pl_approval p) = []"
    "f \<in> {P_approved, P_executing, P_verifying, P_ready_to_release, P_done} \<Longrightarrow> ap_digest (pl_approval p) \<noteq> []"
    "f \<notin> {P_verifying, P_ready_to_release, P_done} \<Longrightarrow> pl_gates p = emptyGates"
    "f = P_verifying \<Longrightarrow> pl_gates p = gates_of True False False"
    "f = P_ready_to_release \<Longrightarrow> pl_gates p = gates_of True True False"
proof -
  have "course_inv (move_course f (ap_digest (pl_approval p) \<noteq> []) (pl_gates p))"
    using assms by (simp add: course_of_def)
  note inv = this [unfolded course_inv_def move_course_def plan_course.select_convs]
  show "f \<in> {P_draft, P_planning, P_needs_decision, P_ready_for_approval, P_blocked} \<Longrightarrow> ap_digest (pl_approval p) = []"
    using inv by blast
  show "f \<in> {P_approved, P_executing, P_verifying, P_ready_to_release, P_done} \<Longrightarrow> ap_digest (pl_approval p) \<noteq> []"
    using inv by blast
  show "f \<notin> {P_verifying, P_ready_to_release, P_done} \<Longrightarrow> pl_gates p = emptyGates" using inv by blast
  show "f = P_verifying \<Longrightarrow> pl_gates p = gates_of True False False" using inv by blast
  show "f = P_ready_to_release \<Longrightarrow> pl_gates p = gates_of True True False" using inv by blast
qed

lemma gates_of_simps [simp]:
  "gt_implementationCaptured (gates_of a b c) = a" "gt_qaPassed (gates_of a b c) = b"
  "gt_releaseVerified (gates_of a b c) = c" "gates_of False False False = emptyGates"
  by (simp_all add: gates_of_def emptyGates_def)

lemma transition_course:
  assumes inv: "course_inv (course_of p)" and allowed: "transition_allowed H now p target c"
    and sound: "sound_plan H p" "sound_plan H (transitioned H at p target c)"
  shows "course_step (course_of p) (course_of (transitioned H at p target c))"
proof -
  from allowed have legal: "legal_transition (pl_phase p) target" "\<not> execution_locked (pl_phase p) target c"
    "target \<in> set DELIVERY_PLAN_PHASES"
    by (simp_all add: transition_allowed_def transition_guards_def)
  obtain f where f: "pl_phase p = phase_text f"
    using shape_ok_header(5) [OF sound_planD(2) [OF sound(1)]] by (rule phase_obtain)
  obtain t where t: "target = phase_text t" using legal(3) by (rule phase_obtain)
  have eff: "effective_step f t" using legal(1,2) unfolding f t by (rule effective_transition)
  have p: "course_of p = move_course f (ap_digest (pl_approval p) \<noteq> []) (pl_gates p)"
    by (simp add: course_of_def f)
  note course_of_transitioned [OF sound(2) [unfolded t] f, folded t]
  then show ?thesis
    using eff inv_course_of [OF inv f] unfolding p
    by (cases f; simp; elim disjE; simp add: gates_after_def course_step.intros)
qed

lemma text_in_phases:
  "phase_text f \<in> set APPROVAL_PHASES \<longleftrightarrow> f \<in> {P_approved, P_executing, P_verifying, P_ready_to_release, P_done}"
  "phase_text f \<in> set TERMINAL_PHASES \<longleftrightarrow> f \<in> {P_done, P_canceled}"
  unfolding APPROVAL_PHASES_def TERMINAL_PHASES_def text_is_phase list.set insert_iff empty_iff phase_text_inj
  by simp_all

lemma invalidated_course:
  assumes inv: "course_inv (course_of p)" and p: "pl_phase p \<in> set DELIVERY_PLAN_PHASES"
    and relevant: "approval_relevant p" "pl_phase p \<notin> set TERMINAL_PHASES"
    and frame: "pl_phase c = pl_phase p"
  shows "course_step (course_of p) (course_of (invalidated H at c))"
proof -
  obtain f where f: "pl_phase p = phase_text f" using p by (rule phase_obtain)
  have "approval_relevant p \<Longrightarrow> f \<in> {P_ready_for_approval, P_approved, P_executing, P_verifying, P_ready_to_release}"
    using inv_course_of(1) [OF inv f] relevant(2) unfolding approval_relevant_def f list.set(2) insert_iff
      text_is_phase phase_text_inj text_in_phases
    by (cases f) auto
  then have f': "f \<in> {P_ready_for_approval, P_approved, P_executing, P_verifying, P_ready_to_release}"
    using relevant by simp
  have "course_of (invalidated H at c) = move_course P_planning False emptyGates
      \<or> course_of (invalidated H at c) = move_course P_ready_for_approval False emptyGates"
    by (simp add: course_of_def invalidated_def readinessPhase_def emptyApproval_def text_is_phase
        del: phase_text.simps)
  then show ?thesis
    using f' unfolding course_of_def [of p] f phase_of_text
    by (auto intro: course_step.replan course_step.relint)
qed

lemma operation_course:
  assumes inv: "course_inv (course_of p)" and sound: "sound_plan H p"
    and op: "apply_plan_operation H now op at p = Inr q"
  shows "course_step (course_of p) (course_of q) \<or> course_of q = course_of p"
proof -
  have fixed: "normalizeDeliveryPlan H now p = p" using sound by (simp add: sound_plan_def normal_planD)
  have phase: "pl_phase p \<in> set DELIVERY_PLAN_PHASES" by (rule shape_ok_header(5) [OF sound_planD(2) [OF sound]])
  show ?thesis
  proof (cases op)
    case (Update patch)
    note frame = candidate_frame [OF sound, where patch = patch]
    from op Update have "q = p \<or> (\<not> approval_relevant p \<and> q = revised H at p (candidate_of H p patch))
        \<or> (approval_relevant p \<and> pl_phase p \<notin> set TERMINAL_PHASES \<and> q = invalidated H at (candidate_of H p patch))"
      by (auto simp: update_Inr Let_def fixed split: if_splits)
    then show ?thesis
    proof (elim disjE conjE)
      assume "q = revised H at p (candidate_of H p patch)"
      then have "course_of q = course_of p" by (simp add: course_of_def revised_def frame)
      then show ?thesis by simp
    next
      assume "approval_relevant p" "pl_phase p \<notin> set TERMINAL_PHASES"
        "q = invalidated H at (candidate_of H p patch)"
      with invalidated_course [OF inv phase _ _ frame(4)] show ?thesis by blast
    qed simp
  next
    case (Transition to c)
    with op sound inv show ?thesis
      by (auto simp: transition_Inr Let_def fixed intro: transition_course)
  next
    case Invalidate
    with op have "q = p \<or> (approval_relevant p \<and> pl_phase p \<notin> set TERMINAL_PHASES \<and> q = invalidated H at p)"
      by (auto simp: invalidate_Inr Let_def fixed split: if_splits)
    with invalidated_course [OF inv phase _ _ refl] show ?thesis by blast
  qed
qed

interpretation plans: refinement course_start course_step course_inv "plan_start H" "plan_step_relation H" course_of
  for H :: host
proof
  fix p assume "plan_start H p"
  then show "course_start (course_of p)"
    by (auto simp: plan_start_def course_start_def course_of_def text_is_phase simp del: phase_text.simps)
next
  fix p q assume "course_inv (course_of p)" "plan_step_relation H p q"
  then show "course_step (course_of p) (course_of q) \<or> course_of q = course_of p"
    by (auto elim!: plan_stepE dest: operation_course)
qed

section \<open>Facts about operations on sound plans\<close>

lemma reachable_course: "plan_reachable H p \<Longrightarrow> course_inv (course_of p)"
  by (rule plans.reaches_abs_inv)

lemma fixed_point: "sound_plan H p \<Longrightarrow> normalizeDeliveryPlan H now p = p"
  by (simp add: sound_plan_def normal_planD)

text \<open>The outcomes of an update of a sound plan.\<close>

lemma update_outcomes:
  assumes "sound_plan H p" "updateDeliveryPlanDefinition H now p patch at = Inr q"
  shows "q = p \<or> q = revised H at p (candidate_of H p patch) \<and> \<not> approval_relevant p
    \<or> q = invalidated H at (candidate_of H p patch) \<and> approval_relevant p"
  using assms by (auto simp: update_Inr Let_def fixed_point split: if_splits)

lemma invalidate_outcomes:
  assumes "sound_plan H p" "invalidateDeliveryPlanApproval H now p at = Inr q"
  shows "q = p \<or> q = invalidated H at p \<and> approval_relevant p"
  using assms by (auto simp: invalidate_Inr Let_def fixed_point split: if_splits)

lemma transition_outcome:
  assumes "sound_plan H p" "transitionDeliveryPlan H now p to c at = Inr q"
  shows "q = transitioned H at p (normalizedWord to) c \<and> transition_allowed H now p (normalizedWord to) c"
  using assms by (auto simp: transition_Inr Let_def fixed_point)

lemma invalidated_phase: "pl_phase (invalidated H at c) \<in> {''planning'', ''ready_for_approval''}"
  by (simp add: invalidated_def readinessPhase_def)

lemma invalidated_not_approval: "pl_phase (invalidated H at c) \<notin> set APPROVAL_PHASES"
  by (simp add: invalidated_def readinessPhase_def APPROVAL_PHASES_def)

lemma approval_phase_relevant: "pl_phase p \<in> set APPROVAL_PHASES \<Longrightarrow> approval_relevant p"
  by (simp add: approval_relevant_def)

lemma not_approval_phase: "''planning'' \<notin> set APPROVAL_PHASES" "''ready_for_approval'' \<notin> set APPROVAL_PHASES"
  by (simp_all add: APPROVAL_PHASES_def)

text \<open>An operation returns its plan unchanged, or the next revision of it.\<close>

lemma sound_operation_frame:
  assumes sound: "sound_plan H p" and op: "apply_plan_operation H now op at p = Inr q"
  shows "q = p \<or> pl_revision q = pl_revision p + 1 \<and> pl_id q = pl_id p \<and> pl_createdAt q = pl_createdAt p
    \<and> pl_version q = pl_version p \<and> (valid_timestamp at \<longrightarrow> pl_updatedAt q = at)"
proof (cases op)
  case (Update patch)
  with op update_outcomes [OF sound, of now patch at q] candidate_frame [OF sound, where patch = patch]
  show ?thesis by (auto simp: revised_def invalidated_def)
next
  case (Transition to c)
  with op transition_outcome [OF sound, of now to c at q] show ?thesis
    by (auto simp: transitioned_def)
next
  case Invalidate
  with op invalidate_outcomes [OF sound, of now at q] show ?thesis by (auto simp: invalidated_def)
qed

end
