(* ===== verification/PlanProperties.thy ===== *)
theory PlanProperties
  imports PlanLifecycle
begin

text \<open>The properties of delivery plans, with their witnesses on a concrete plan.\<close>

section \<open>A concrete plan\<close>

definition toy_roles :: plan_roles where
  "toy_roles =
     \<lparr>rl_po = \<lparr>po_user = ''u'', po_problem = ''p'', po_outcome = ''o'', po_value = ''v'', po_nonGoals = [''n''],
        po_assumptions = [], po_openQuestions = []\<rparr>,
      rl_ba = \<lparr>ba_requirements = [\<lparr>rq_id = ''REQ-1'', rq_text = ''r''\<rparr>], ba_dependencies = [], ba_edgeCases = [],
        ba_constraints = [], ba_openQuestions = []\<rparr>,
      rl_dev = \<lparr>dv_architecture = ''a'',
        dv_steps = [\<lparr>sp_id = ''STEP-1'', sp_title = ''t'', sp_outcome = ''o'', sp_requirementIds = [''REQ-1''],
          sp_scopePaths = [''a''], sp_checks = [''c'']\<rparr>],
        dv_risks = [], dv_rollback = ''b'', dv_openQuestions = []\<rparr>,
      rl_qa = \<lparr>qa_acceptanceCriteria = [\<lparr>ac_id = ''AC-1'', ac_text = ''t'', ac_requirementIds = [''REQ-1'']\<rparr>],
        qa_testStrategy = ''s'', qa_regressionChecks = [''g''], qa_releaseRequired = False,
        qa_releaseChecks = [], qa_openQuestions = []\<rparr>\<rparr>"

definition plan_time :: "char \<Rightarrow> string" where
  "plan_time c = ''2026-01-01T00:00:0'' @ [c] @ ''.000Z''"

definition toy_plan :: delivery_plan where
  "toy_plan =
     \<lparr>pl_version = 1, pl_id = ''plan-12345678'', pl_revision = 1, pl_phase = ''planning'', pl_title = ''t'',
      pl_request = ''r'', pl_workspace = ''/w'',
      pl_baseline = \<lparr>pb_head = ''abcdef0'', pb_workingTreeDigest = replicate 64 CHR ''1'',
        pb_instructionsDigest = replicate 64 CHR ''2'', pb_capturedAt = plan_time CHR ''0''\<rparr>,
      pl_classification = \<lparr>pc_intent = ''change'', pc_depth = ''quick'', pc_risk = ''read_only'',
        pc_dataClasses = [], pc_mutationSurfaces = []\<rparr>,
      pl_roles = toy_roles, pl_unresolvedQuestions = [],
      pl_authority = \<lparr>au_workspaceWrite = True, au_commit = False, au_push = False, au_deploy = False,
        au_network = False, au_serviceControl = False, au_destructive = False, au_externalMessages = False\<rparr>,
      pl_approval = emptyApproval, pl_gates = emptyGates, pl_blocker = [],
      pl_createdAt = plan_time CHR ''0'', pl_updatedAt = plan_time CHR ''0''\<rparr>"

definition conditions_met :: "string \<Rightarrow> transition_conditions" where
  "conditions_met confirmation =
     \<lparr>tc_expectedRevision = None, tc_confirmation = Some confirmation, tc_reason = None,
      tc_deliveryRunAborted = None, tc_baselineCurrent = Some True, tc_workspaceAvailable = Some True,
      tc_taskGraphReady = Some True, tc_remediationApproved = Some True,
      tc_implementationResultCaptured = Some True, tc_qaPassed = Some True, tc_releaseVerified = Some True\<rparr>"

definition toy_digest_text :: "string \<Rightarrow> string" where
  "toy_digest_text s = replicate 63 CHR ''0'' @ [hex_digit (length s mod 16)]"

definition plan_host :: host where
  "plan_host = \<lparr>sha256hex = toy_digest_text,
     localeCompare = (\<lambda>a b. if a = b then 0 else if a < b then -1 else 1), dateParse = (\<lambda>s. None)\<rparr>"

lemma toy_plan_valid: "validateDeliveryPlan plan_host [] toy_plan = Inr toy_plan"
  by code_simp

lemma toy_plan_start: "plan_start plan_host toy_plan"
  using toy_plan_valid
  by (auto simp: validateDeliveryPlan_Inr plan_start_def toy_plan_def emptyApproval_def)

definition toy_offered :: delivery_plan where
  "toy_offered = toy_plan\<lparr>pl_revision := 2, pl_phase := ''ready_for_approval'', pl_updatedAt := plan_time CHR ''1''\<rparr>"

definition toy_approval :: plan_approval where
  "toy_approval = \<lparr>ap_digest = canonicalSha256 plan_host (definition_json toy_plan),
     ap_approvedAt = Some (plan_time CHR ''2''), ap_planRevision = Some 3\<rparr>"

definition toy_approved :: delivery_plan where
  "toy_approved = toy_offered\<lparr>pl_revision := 3, pl_phase := ''approved'', pl_updatedAt := plan_time CHR ''2'',
     pl_approval := toy_approval\<rparr>"

definition toy_executing :: delivery_plan where
  "toy_executing = toy_approved\<lparr>pl_revision := 4, pl_phase := ''executing'', pl_updatedAt := plan_time CHR ''3''\<rparr>"

lemma toy_offer: "transitionDeliveryPlan plan_host [] toy_plan ''ready_for_approval'' (conditions_met [])
    (plan_time CHR ''1'') = Inr toy_offered"
  by code_simp

lemma toy_approve: "transitionDeliveryPlan plan_host [] toy_offered ''approved'' (conditions_met ''approve-plan'')
    (plan_time CHR ''2'') = Inr toy_approved"
  by code_simp

lemma toy_execute: "transitionDeliveryPlan plan_host [] toy_approved ''executing'' (conditions_met ''start-execution'')
    (plan_time CHR ''3'') = Inr toy_executing"
  by code_simp

section \<open>Refinement and safety\<close>

text \<open>C12: The operations of delivery-plan.js refine the course of a plan: from a reachable plan,
  every successful update, transition or invalidation leads to a reachable plan and is either
  a step of the course or leaves phase, approval and gates as they are, and the phase of the
  result determines its approval and its gates.\<close>

theorem plan_operation_refines:
  assumes "plan_reachable H p" "apply_plan_operation H now op at p = Inr q"
  shows "plan_reachable H q \<and> course_inv (course_of q)
    \<and> (course_step (course_of p) (course_of q) \<or> course_of q = course_of p)"
proof -
  have q: "plan_reachable H q" by (rule reachable_operation [OF assms])
  have "plan_step_relation H p q" using assms reachable_sound by (blast intro: plan_step)
  with assms(1) have "course_step (course_of p) (course_of q) \<or> course_of q = course_of p"
    by (rule plans.reaches_sim)
  with q reachable_course show ?thesis by blast
qed

lemma toy_reachable: "plan_reachable plan_host toy_plan"
  by (rule reaches_start) (rule toy_plan_start)

lemma toy_offered_reachable: "plan_reachable plan_host toy_offered"
  by (rule reachable_operation [OF toy_reachable toy_offer [folded apply_plan_operation.simps]])

lemma toy_approved_reachable: "plan_reachable plan_host toy_approved"
  by (rule reachable_operation [OF toy_offered_reachable toy_approve [folded apply_plan_operation.simps]])

theorem plan_operation_refines_witness:
  "course_inv (course_of toy_approved) \<and> course_step (course_of toy_offered) (course_of toy_approved)"
proof -
  have "apply_plan_operation plan_host [] (Transition ''approved'' (conditions_met ''approve-plan''))
      (plan_time CHR ''2'') toy_offered = Inr toy_approved" by (simp add: toy_approve)
  from plan_operation_refines [OF toy_offered_reachable this]
  show ?thesis by (auto simp: course_of_def toy_approved_def toy_offered_def move_course_def phase_of.simps)
qed

text \<open>C15: What the operator approved is what is executed. A reachable plan in an approval phase
  carries the digest of its current definition, has no readiness error and no placeholder
  baseline; and as long as operations keep it in the approval phases, its definition and its
  approval stay the same.\<close>

theorem approved_definition_is_frozen:
  assumes "plan_reachable H p" "pl_phase p \<in> set APPROVAL_PHASES"
    "apply_plan_operation H now op at p = Inr q" "pl_phase q \<in> set APPROVAL_PHASES"
  shows "ap_digest (pl_approval p) = canonicalSha256 H (definition_json p) \<and> lint_errors H p = []
    \<and> \<not> deliveryPlanHasDiscoveryBaseline H p
    \<and> definition_json q = definition_json p \<and> pl_approval q = pl_approval p"
proof -
  have sound: "sound_plan H p" using assms(1) by (rule reachable_sound)
  note ok = sound_planD(3) [OF sound]
  have ready: "lint_errors H p = []" using ok assms(2) by (simp add: phase_ok_def plan_ready_def)
  then have "lint_baseline H p = []" by (simp add: lint_errors_def Let_def)
  then have real: "\<not> deliveryPlanHasDiscoveryBaseline H p"
    by (auto simp: lint_baseline_def Let_def finding_if_def split: if_splits)
  have "definition_json q = definition_json p \<and> pl_approval q = pl_approval p"
  proof (cases op)
    case (Update patch)
    with assms sound update_outcomes [of H p now patch at q] invalidated_not_approval
    show ?thesis by (auto simp: approval_phase_relevant)
  next
    case (Transition to c)
    with assms(3) sound have q: "q = transitioned H at p (normalizedWord to) c"
      "transition_allowed H now p (normalizedWord to) c"
      using transition_outcome [of H p now to c at q] by simp_all
    have "normalizedWord to \<noteq> ''approved''"
    proof
      assume "normalizedWord to = ''approved''"
      with q(2) have "legal_transition (pl_phase p) ''approved''"
        by (simp add: transition_allowed_def transition_guards_def)
      with assms(2) show False by (auto simp: legal_transition_def LEGAL_TRANSITIONS_def APPROVAL_PHASES_def)
    qed
    moreover have "normalizedWord to \<noteq> ''planning''" using assms(4) not_approval_phase unfolding q(1) by auto
    ultimately show ?thesis by (simp add: q(1) approval_after_def)
  next
    case Invalidate
    with assms sound invalidate_outcomes [of H p now at q] invalidated_not_approval
    show ?thesis by (auto simp: approval_phase_relevant)
  qed
  with ok assms(2) ready real show ?thesis by (simp add: phase_ok_def plan_digest_def)
qed

theorem approved_definition_is_frozen_witness:
  "ap_digest (pl_approval toy_approved) = canonicalSha256 plan_host (definition_json toy_approved)
   \<and> definition_json toy_executing = definition_json toy_approved"
proof -
  have "apply_plan_operation plan_host [] (Transition ''executing'' (conditions_met ''start-execution''))
      (plan_time CHR ''3'') toy_approved = Inr toy_executing" by (simp add: toy_execute)
  moreover have "pl_phase toy_approved \<in> set APPROVAL_PHASES" "pl_phase toy_executing \<in> set APPROVAL_PHASES"
    by (simp_all add: toy_approved_def toy_executing_def APPROVAL_PHASES_def)
  ultimately show ?thesis using approved_definition_is_frozen [OF toy_approved_reachable] by blast
qed

text \<open>C18: Nobody executes by accident. A transition to executing succeeds only with the operator's
  confirmation for the phase it leaves, a current approval, write authority, an unchanged
  baseline, a free workspace and a task graph; it changes neither the definition nor the
  approval and starts with no gate passed.\<close>

theorem execution_start_guarded:
  assumes "plan_reachable H p" "transitionDeliveryPlan H now p ''executing'' c at = Inr q"
  shows "(pl_phase p = ''approved'' \<and> tc_confirmation c = Some ''start-execution''
      \<or> pl_phase p = ''verifying'' \<and> tc_confirmation c = Some ''resume-execution'' \<and> tc_remediationApproved c = Some True)
    \<and> (ap_digest (pl_approval p) = canonicalSha256 H (definition_json p) \<and> au_workspaceWrite (pl_authority p)
      \<and> tc_baselineCurrent c = Some True \<and> tc_workspaceAvailable c = Some True \<and> tc_taskGraphReady c = Some True
      \<and> (tc_expectedRevision c = None \<or> tc_expectedRevision c = Some (pl_revision p)))
    \<and> (definition_json q = definition_json p \<and> pl_approval q = pl_approval p \<and> pl_gates q = emptyGates
      \<and> pl_revision q = pl_revision p + 1 \<and> pl_phase q = ''executing'')"
    (is "?confirmed \<and> ?guards \<and> ?result")
proof -
  have sound: "sound_plan H p" using assms(1) by (rule reachable_sound)
  have word: "normalizedWord ''executing'' = ''executing''"
    using phase_word [of "''executing''"] by (simp add: DELIVERY_PLAN_PHASES_def)
  have q: "q = transitioned H at p ''executing'' c" "transition_allowed H now p ''executing'' c"
    using transition_outcome [OF sound assms(2)] unfolding word by simp_all
  have from_phase: "pl_phase p = ''approved'' \<or> pl_phase p = ''verifying''"
    using q(2) unfolding transition_allowed_def transition_guards_def legal_transition_def LEGAL_TRANSITIONS_def
    by (auto split: if_splits)
  note executing = q(2) [unfolded transition_allowed_def, THEN conjunct2, unfolded target_conditions_def, simplified]
  have confirmed: ?confirmed
    using executing from_phase by (auto simp: executing_conditions_def requireCondition_def)
  have guards: ?guards
    using executing q(2) sound_planD [OF sound]
    by (simp add: executing_conditions_def requireCondition_def approval_current_None plan_digest_def
        transition_allowed_def transition_guards_def)
  have "pl_gates p = emptyGates" if "pl_phase p = ''approved''"
    using inv_course_of(3) [OF reachable_course [OF assms(1)], of P_approved] that by simp
  with from_phase have "next_gates p ''executing'' = emptyGates"
    by (auto simp: next_gates_def emptyGates_def)
  then have ?result
    by (simp add: q(1) approval_after_def)
  with confirmed guards show ?thesis by blast
qed

theorem execution_start_guarded_witness:
  "tc_confirmation (conditions_met ''start-execution'') = Some ''start-execution''
   \<and> pl_gates toy_executing = emptyGates \<and> pl_revision toy_executing = pl_revision toy_approved + 1"
  using execution_start_guarded [OF toy_approved_reachable toy_execute]
  by (auto simp: toy_approved_def toy_offered_def)

text \<open>A plan that is done was implemented, passed QA and, when a release was in scope, had its
  release verified, all for the definition the operator approved; a plan that is waiting for
  release has not been released, and a plan before approval has no gate passed.\<close>

theorem gates_follow_phases:
  assumes "plan_reachable H p"
  shows "(pl_phase p = ''done'' \<longrightarrow> gt_implementationCaptured (pl_gates p) \<and> gt_qaPassed (pl_gates p)
        \<and> (qa_releaseRequired (rl_qa (pl_roles p)) \<longrightarrow> gt_releaseVerified (pl_gates p))
        \<and> ap_digest (pl_approval p) = canonicalSha256 H (definition_json p))
    \<and> (pl_phase p = ''ready_to_release'' \<longrightarrow> pl_gates p = gates_of True True False)
    \<and> (pl_phase p = ''verifying'' \<longrightarrow> pl_gates p = gates_of True False False)
    \<and> (pl_phase p \<notin> {''verifying'', ''ready_to_release'', ''done''} \<longrightarrow> pl_gates p = emptyGates)"
proof -
  have sound: "sound_plan H p" using assms by (rule reachable_sound)
  obtain f where f: "pl_phase p = phase_text f"
    using shape_ok_header(5) [OF sound_planD(2) [OF sound]] by (rule phase_obtain)
  note inv = inv_course_of(3-5) [OF reachable_course [OF assms] f]
  have "pl_phase p \<notin> {''verifying'', ''ready_to_release'', ''done''} \<longrightarrow> pl_gates p = emptyGates"
    "pl_phase p = ''ready_to_release'' \<longrightarrow> pl_gates p = gates_of True True False"
    "pl_phase p = ''verifying'' \<longrightarrow> pl_gates p = gates_of True False False"
    using inv unfolding f text_is_phase insert_iff empty_iff phase_text_inj by blast+
  moreover have "pl_phase p = ''done'' \<longrightarrow> gt_implementationCaptured (pl_gates p) \<and> gt_qaPassed (pl_gates p)
        \<and> (qa_releaseRequired (rl_qa (pl_roles p)) \<longrightarrow> gt_releaseVerified (pl_gates p))
        \<and> ap_digest (pl_approval p) = canonicalSha256 H (definition_json p)"
    using sound_planD(3) [OF sound] by (simp add: phase_ok_def APPROVAL_PHASES_def plan_digest_def)
  ultimately show ?thesis by blast
qed

theorem gates_follow_phases_witness: "pl_gates toy_approved = emptyGates"
  using gates_follow_phases [OF toy_approved_reachable] by (simp add: toy_approved_def toy_offered_def)

text \<open>A plan that is done or canceled is final: every update and every invalidation is refused
  as terminal, and every transition is refused.\<close>

theorem terminal_plan_rejects:
  assumes "plan_reachable H p" "pl_phase p \<in> set TERMINAL_PHASES"
  shows "updateDeliveryPlanDefinition H now p patch at = Inl (plan_error ''terminal'')
    \<and> invalidateDeliveryPlanApproval H now p at = Inl (plan_error ''terminal'')
    \<and> transitionDeliveryPlan H now p to c at = Inl (plan_error ''transition_invalid'')"
proof -
  have sound: "sound_plan H p" using assms(1) by (rule reachable_sound)
  note valid = sound_plan_valid [OF sound, of now]
  have shape: "validateShape (normalizeDeliveryPlan H now p) = Inr p"
    using sound by (simp add: fixed_point validateShape_Inr sound_plan_def)
  have "\<not> legal_transition (pl_phase p) target" for target
    using assms(2) by (auto simp: legal_transition_def LEGAL_TRANSITIONS_def TERMINAL_PHASES_def)
  then show ?thesis
    using assms(2) valid shape
    by (simp add: updateDeliveryPlanDefinition_def invalidateDeliveryPlanApproval_def transitionDeliveryPlan_def
        transition_guards_def Let_def)
qed

definition toy_canceled :: delivery_plan where
  "toy_canceled = toy_plan\<lparr>pl_revision := 2, pl_phase := ''canceled'', pl_updatedAt := plan_time CHR ''1''\<rparr>"

lemma toy_cancel: "transitionDeliveryPlan plan_host [] toy_plan ''canceled'' (conditions_met ''cancel-plan'')
    (plan_time CHR ''1'') = Inr toy_canceled"
  by code_simp

theorem terminal_plan_rejects_witness:
  "transitionDeliveryPlan plan_host [] toy_canceled ''planning'' (conditions_met ''replan'') (plan_time CHR ''2'')
     = Inl (plan_error ''transition_invalid'')"
proof -
  have "plan_reachable plan_host toy_canceled"
    by (rule reachable_operation [OF toy_reachable toy_cancel [folded apply_plan_operation.simps]])
  moreover have "pl_phase toy_canceled \<in> set TERMINAL_PHASES" by (simp add: toy_canceled_def TERMINAL_PHASES_def)
  ultimately show ?thesis using terminal_plan_rejects by blast
qed

text \<open>The identity of a plan and its revision: an operation on a reachable plan returns it as it
  is, or a plan with the same identifier, creation time and version whose revision is one
  more and, with a valid clock reading, whose time is that reading.\<close>

theorem plan_operation_frame:
  assumes "plan_reachable H p" "apply_plan_operation H now op at p = Inr q"
  shows "q = p \<or> pl_revision q = pl_revision p + 1 \<and> pl_id q = pl_id p \<and> pl_createdAt q = pl_createdAt p
    \<and> pl_version q = pl_version p \<and> (valid_timestamp at \<longrightarrow> pl_updatedAt q = at)"
  by (rule sound_operation_frame [OF reachable_sound [OF assms(1)] assms(2)])

theorem plan_operation_frame_witness:
  "pl_revision toy_executing = pl_revision toy_approved + 1 \<and> pl_updatedAt toy_executing = plan_time CHR ''3''"
proof -
  have "valid_timestamp (plan_time CHR ''3'')" by code_simp
  then show ?thesis
    using plan_operation_frame [OF toy_approved_reachable toy_execute [folded apply_plan_operation.simps]]
    by (auto simp: toy_executing_def toy_approved_def)
qed

section \<open>What determines a plan\<close>

text \<open>The digest the operator approves identifies the definition: two reachable plans in an
  approval phase with the same approved digest have the same definition (version, identifier,
  texts, workspace, baseline, classification, roles, questions and authority), or their
  canonical texts collide under the hash.\<close>

theorem approval_identifies_definition:
  assumes "plan_reachable H p" "plan_reachable H q"
    "pl_phase p \<in> set APPROVAL_PHASES" "pl_phase q \<in> set APPROVAL_PHASES"
    "ap_digest (pl_approval p) = ap_digest (pl_approval q)"
  shows "same_definition p q
    \<or> canonicalJson (definition_json p) \<noteq> canonicalJson (definition_json q)
      \<and> sha256hex H (canonicalJson (definition_json p)) = sha256hex H (canonicalJson (definition_json q))"
proof -
  have digest: "ap_digest (pl_approval r) = plan_digest H r" if "plan_reachable H r" "pl_phase r \<in> set APPROVAL_PHASES" for r
    using that sound_planD(3) [OF reachable_sound [OF that(1)]] by (simp add: phase_ok_def)
  have "plan_digest H p = plan_digest H q"
    using digest [OF assms(1,3)] digest [OF assms(2,4)] assms(5) by simp
  then show ?thesis
    by (auto simp: definition_json_iff [symmetric] plan_digest_def canonicalSha256_def)
qed

lemma toy_executing_reachable: "plan_reachable plan_host toy_executing"
  by (rule reachable_operation [OF toy_approved_reachable toy_execute [folded apply_plan_operation.simps]])

theorem approval_identifies_definition_witness: "same_definition toy_approved toy_executing"
proof -
  have "pl_phase toy_approved \<in> set APPROVAL_PHASES" "pl_phase toy_executing \<in> set APPROVAL_PHASES"
    "ap_digest (pl_approval toy_approved) = ap_digest (pl_approval toy_executing)"
    "definition_json toy_executing = definition_json toy_approved"
    by (simp_all add: toy_approved_def toy_executing_def APPROVAL_PHASES_def definition_json_def)
  with approval_identifies_definition [OF toy_approved_reachable toy_executing_reachable] show ?thesis by simp
qed

text \<open>C33: Validation settles a plan: what \<open>validateDeliveryPlan\<close> returns for any input is a fixed
  point of normalisation and of validation at every later reading of the clock, its digest is
  the digest of its definition as it stands, and its time stamps are in order.\<close>

theorem validation_settles:
  assumes "validateDeliveryPlan H now v = Inr p"
  shows "normalizeDeliveryPlan H later p = p \<and> validateDeliveryPlan H later p = Inr p
    \<and> deliveryPlanDigest H later p = Inr (canonicalSha256 H (definition_json p))
    \<and> valid_timestamp (pl_createdAt p) \<and> valid_timestamp (pl_updatedAt p)
    \<and> date_ms (pl_createdAt p) \<le> date_ms (pl_updatedAt p)"
proof -
  have sound: "sound_plan H p" using assms unfolding validateDeliveryPlan_Inr by blast
  then show ?thesis
    using sound_planD [OF sound] shape_ok_header [OF sound_planD(2) [OF sound]]
    by (simp add: fixed_point sound_plan_valid plan_digest_Inr plan_digest_def)
qed

theorem validation_settles_witness:
  "normalizeDeliveryPlan plan_host ''later'' toy_plan = toy_plan"
  using validation_settles [OF toy_plan_valid] by blast

text \<open>Updates are idempotent: applying the patch of a successful update again, at any later time,
  returns the updated plan unchanged, with its revision and its approval.\<close>

theorem update_idempotent:
  assumes "plan_reachable H p" "updateDeliveryPlanDefinition H now p patch at = Inr q"
  shows "updateDeliveryPlanDefinition H later q patch at' = Inr q"
proof -
  have sound: "sound_plan H p" using assms(1) by (rule reachable_sound)
  have sound_q: "sound_plan H q" using operation_sound [of H now "Update patch"] assms(2) by simp
  have open_phase: "pl_phase p \<notin> set TERMINAL_PHASES" "pl_phase p \<notin> set [''executing'', ''verifying'', ''ready_to_release'']"
    using assms(2) by (simp_all add: update_Inr Let_def fixed_point [OF sound])
  show ?thesis
  proof (cases "q = p")
    case True
    have "sound_plan H p \<and> normal_plan H (candidate_of H p patch) \<and> shape_ok (candidate_of H p patch)"
      using assms(2) by (simp add: update_Inr Let_def fixed_point [OF sound])
    moreover have "plan_digest H (candidate_of H p patch) = plan_digest H p"
    proof (rule ccontr)
      assume "plan_digest H (candidate_of H p patch) \<noteq> plan_digest H p"
      with assms(2) True have "p = (if approval_relevant p then invalidated H at (candidate_of H p patch)
          else revised H at p (candidate_of H p patch))"
        by (simp add: update_Inr Let_def fixed_point [OF sound])
      then have "pl_revision p = pl_revision (if approval_relevant p then invalidated H at (candidate_of H p patch)
          else revised H at p (candidate_of H p patch))" by (rule arg_cong)
      also have "\<dots> = pl_revision p + 1"
        using candidate_frame(3) [OF sound, of patch] by (simp add: invalidated_def revised_def)
      finally have "pl_revision p = pl_revision p + 1" .
      then show False by simp
    qed
    ultimately show ?thesis using True open_phase by (simp add: update_Inr Let_def fixed_point)
  next
    case False
    with update_outcomes [OF sound assms(2)]
    have q: "q = revised H at p (candidate_of H p patch) \<or> q = invalidated H at (candidate_of H p patch)" by blast
    then have again: "candidate_of H q patch = q"
      by (intro candidate_again [OF sound_q sound]) (auto simp: revised_def invalidated_def)
    have "pl_phase q = pl_phase p \<or> pl_phase q \<in> {''planning'', ''ready_for_approval''}"
      using q candidate_frame(4) [OF sound, of patch] invalidated_phase by (auto simp: revised_def)
    then have "pl_phase q \<notin> set TERMINAL_PHASES" "pl_phase q \<notin> set [''executing'', ''verifying'', ''ready_to_release'']"
      using open_phase by (elim disjE insertE emptyE; simp add: TERMINAL_PHASES_def)+
    then show ?thesis
      using again sound_q sound_planD [OF sound_q] by (simp add: update_Inr Let_def fixed_point)
  qed
qed

definition toy_patch :: plan_patch where
  "toy_patch = \<lparr>xx_title = Some '' new  title '', xx_request = None, xx_workspace = None,
     xx_unresolvedQuestions = None, xx_baseline = None, xx_classification = None, xx_authority = None,
     xx_roles = None\<rparr>"

definition toy_retitled :: delivery_plan where
  "toy_retitled = toy_approved\<lparr>pl_revision := 4, pl_phase := ''ready_for_approval'', pl_title := ''new title'',
     pl_approval := emptyApproval, pl_updatedAt := plan_time CHR ''4''\<rparr>"

lemma toy_update: "updateDeliveryPlanDefinition plan_host [] toy_approved toy_patch (plan_time CHR ''4'') = Inr toy_retitled"
  by code_simp

theorem update_idempotent_witness:
  "updateDeliveryPlanDefinition plan_host [] toy_retitled toy_patch (plan_time CHR ''5'') = Inr toy_retitled"
  by (rule update_idempotent [OF toy_approved_reachable toy_update])

end
