(* ===== verification/PlanExecution.thy ===== *)
theory PlanExecution
  imports PlanProperties
begin

text \<open>
  Readiness, progress and the execution envelope: when a plan is ready, that a ready plan can
  be brought to done, and what the text handed to the executing agent contains.
\<close>

section \<open>Readiness\<close>

lemma finding_if_Nil [simp]: "finding_if b x y z = [] \<longleftrightarrow> \<not> b"
  by (simp add: finding_if_def)

text \<open>Every requirement has a step and a criterion, every step and criterion a requirement.\<close>

definition traced :: "plan_roles \<Rightarrow> bool" where
  "traced r \<longleftrightarrow>
     (\<forall>q \<in> set (ba_requirements (rl_ba r)).
        (\<exists>s \<in> set (dv_steps (rl_dev r)). rq_id q \<in> set (sp_requirementIds s))
        \<and> (\<exists>c \<in> set (qa_acceptanceCriteria (rl_qa r)). rq_id q \<in> set (ac_requirementIds c)))
     \<and> (\<forall>s \<in> set (dv_steps (rl_dev r)). sp_requirementIds s \<noteq> [] \<and> sp_scopePaths s \<noteq> [] \<and> sp_checks s \<noteq> [])
     \<and> (\<forall>c \<in> set (qa_acceptanceCriteria (rl_qa r)). ac_requirementIds c \<noteq> [])"

definition complete_fields :: "delivery_plan \<Rightarrow> bool" where
  "complete_fields p \<longleftrightarrow>
     (let r = pl_roles p; b = pl_baseline p; c = pl_classification p in
      [] \<notin> {po_user (rl_po r), po_problem (rl_po r), po_outcome (rl_po r), po_value (rl_po r), pl_workspace p,
         pb_head b, pb_workingTreeDigest b, pb_instructionsDigest b, pb_capturedAt b,
         pc_intent c, pc_depth c, pc_risk c, dv_architecture (rl_dev r), dv_rollback (rl_dev r),
         qa_testStrategy (rl_qa r)}
      \<and> po_nonGoals (rl_po r) \<noteq> [] \<and> ba_requirements (rl_ba r) \<noteq> [] \<and> dv_steps (rl_dev r) \<noteq> []
      \<and> qa_acceptanceCriteria (rl_qa r) \<noteq> [] \<and> qa_regressionChecks (rl_qa r) \<noteq> []
      \<and> (qa_releaseRequired (rl_qa r) \<longrightarrow> qa_releaseChecks (rl_qa r) \<noteq> []))"

lemma lint_trace_Nil:
  "concat (map (lint_requirement r) (ba_requirements (rl_ba r))) = []
     \<and> concat (map lint_step (dv_steps (rl_dev r))) = []
     \<and> concat (map lint_criterion (qa_acceptanceCriteria (rl_qa r))) = [] \<longleftrightarrow> traced r"
  by (auto simp: lint_requirement_def lint_step_def lint_criterion_def trace_requirement_def Let_def traced_def
      filter_empty_conv)

lemma lint_fields_Nil:
  "lint_po (rl_po (pl_roles p)) = [] \<and> lint_baseline H p = [] \<and> lint_classification (pl_classification p) = []
     \<and> lint_roles (pl_roles p) = [] \<longleftrightarrow> complete_fields p \<and> \<not> deliveryPlanHasDiscoveryBaseline H p"
  by (auto simp: lint_po_def lint_baseline_def lint_classification_def lint_roles_def complete_fields_def Let_def)

lemma lint_errors_Nil:
  "lint_errors H p = [] \<longleftrightarrow>
     complete_fields p \<and> \<not> deliveryPlanHasDiscoveryBaseline H p \<and> open_questions p = [] \<and> traced (pl_roles p)"
  using lint_trace_Nil [of "pl_roles p"] lint_fields_Nil [of p H]
  by (simp add: lint_errors_def Let_def lint_questions_def) blast

text \<open>C32: Readiness is completeness with traceability. For a plan of valid shape, the check reports
  ready exactly when every field of the four roles, the baseline and the classification is
  filled, the baseline is not the discovery placeholder, no question is open, every
  requirement is covered by a step and by an acceptance criterion, and every step and
  criterion traces to one; the rows of its table are the requirements, in order, and they are
  all complete when the plan is ready.\<close>

theorem readiness_is_traceability:
  assumes "lintDeliveryPlanReadiness H now v = Inr r"
  shows "(rd_ready r \<longleftrightarrow> complete_fields (normalizeDeliveryPlan H now v)
        \<and> \<not> deliveryPlanHasDiscoveryBaseline H (normalizeDeliveryPlan H now v)
        \<and> open_questions (normalizeDeliveryPlan H now v) = [] \<and> traced (pl_roles (normalizeDeliveryPlan H now v)))
    \<and> (rd_ready r \<longleftrightarrow> rd_errors r = [])
    \<and> map tr_requirementId (rd_traceability r) = map rq_id (ba_requirements (rl_ba (pl_roles (normalizeDeliveryPlan H now v))))
    \<and> (rd_ready r \<longrightarrow> list_all tr_complete (rd_traceability r))"
proof -
  define p where "p = normalizeDeliveryPlan H now v"
  have r: "r = lintNormalizedReadiness H p"
    using assms by (auto simp: lintDeliveryPlanReadiness_def normalized_shape p_def)
  have "tr_complete (trace_requirement (pl_roles p) q)"
    if "traced (pl_roles p)" "q \<in> set (ba_requirements (rl_ba (pl_roles p)))" for q
    using that by (auto simp: traced_def trace_requirement_def Let_def filter_empty_conv)
  then show ?thesis
    unfolding p_def [symmetric] r
    by (auto simp: lintNormalizedReadiness_def lint_errors_Nil list_all_iff trace_requirement_def Let_def comp_def)
qed

lemma toy_lint: "lintDeliveryPlanReadiness plan_host [] toy_plan = Inr (lintNormalizedReadiness plan_host toy_plan)
    \<and> rd_ready (lintNormalizedReadiness plan_host toy_plan)"
  by code_simp

theorem readiness_is_traceability_witness: "traced (pl_roles (normalizeDeliveryPlan plan_host [] toy_plan))"
  using readiness_is_traceability [OF toy_lint [THEN conjunct1]] toy_lint by blast

section \<open>Progress\<close>

lemma pl_assertText_blank [simp]: "0 \<le> m \<Longrightarrow> pl_assertText [] field False m = None"
  by (simp add: pl_assertText_def js_length_def)

text \<open>The shape of a plan whose lifecycle members change.\<close>

lemma shape_ok_transitioned:
  assumes "shape_ok p" "pl_revision q = pl_revision p + 1" "pl_revision p < MAX_SAFE_INTEGER"
    "pl_phase q \<in> set DELIVERY_PLAN_PHASES" "pl_blocker q = []" "valid_timestamp (pl_updatedAt q)"
    "date_ms (pl_createdAt p) \<le> date_ms (pl_updatedAt q)" "approval_check (pl_approval q) = None"
    "pl_version q = pl_version p" "pl_id q = pl_id p" "pl_title q = pl_title p" "pl_request q = pl_request p"
    "pl_workspace q = pl_workspace p" "pl_createdAt q = pl_createdAt p" "pl_baseline q = pl_baseline p"
    "pl_classification q = pl_classification p" "pl_roles q = pl_roles p"
    "pl_unresolvedQuestions q = pl_unresolvedQuestions p"
  shows "shape_ok q"
proof -
  have "safe_integer (pl_revision p + 1)"
    using shape_ok_header(3,4) [OF assms(1)] assms(3) by (simp add: safe_integer_def)
  with assms shape_ok_header(4) [OF assms(1)] show ?thesis
    by (simp add: shape_ok_def shape_checks_def Let_def shape_header_checks_def)
qed

definition can_advance :: "host \<Rightarrow> delivery_plan \<Rightarrow> string \<Rightarrow> bool" where
  "can_advance H p at \<longleftrightarrow> sound_plan H p \<and> pl_revision p < MAX_SAFE_INTEGER \<and> valid_timestamp at
     \<and> date_ms (pl_createdAt p) \<le> date_ms at \<and> digest_pattern (plan_digest H p)"

lemma digest_word: "digest_pattern d \<Longrightarrow> normalizedWord d = d \<and> d \<noteq> []"
proof -
  assume d: "digest_pattern d"
  have "is_hex c \<Longrightarrow> lower_id_char c" for c
    by (auto simp: is_hex_def lower_id_char_def is_lower_def is_digit_def)
  with d have "list_all lower_id_char d" by (auto simp: digest_pattern_def list_all_iff)
  with d show ?thesis by (auto simp: normalizedWord_def lower_id_normal digest_pattern_def)
qed

lemma fresh_approval_valid:
  assumes "can_advance H p at"
  shows "normalizedApproval H (fresh_approval H at p) = fresh_approval H at p"
    "approval_check (fresh_approval H at p) = None"
proof -
  have at: "valid_timestamp at" and d: "digest_pattern (plan_digest H p)" and sound: "sound_plan H p"
    and rev: "pl_revision p < MAX_SAFE_INTEGER" using assms by (simp_all add: can_advance_def)
  show "normalizedApproval H (fresh_approval H at p) = fresh_approval H at p"
    using digest_word [OF d] by (simp add: normalizedApproval_def fresh_approval_def valid_timestamp_fixed [OF at])
  show "approval_check (fresh_approval H at p) = None"
    using shape_ok_header(4) [OF sound_planD(2) [OF sound]] rev at d
    by (simp add: approval_check_def fresh_approval_def valid_timestamp_fixed [OF at] safe_integer_def)
qed

lemma approval_after_valid:
  assumes "can_advance H p at"
  shows "approval_check (approval_after H at p target) = None"
    "normalizedApproval H (approval_after H at p target) = approval_after H at p target"
proof -
  have sound: "sound_plan H p" using assms by (simp add: can_advance_def)
  have "approval_check emptyApproval = None"
    by (simp add: approval_check_def approval_present_def emptyApproval_def)
  then show "approval_check (approval_after H at p target) = None"
    using shape_ok_header(9) [OF sound_planD(2) [OF sound]] fresh_approval_valid [OF assms]
    by (simp add: approval_after_def)
  show "normalizedApproval H (approval_after H at p target) = approval_after H at p target"
    using fresh_approval_valid [OF assms] normal_plan_parts(11) [OF sound_planD(1) [OF sound]]
    by (simp add: approval_after_def)
qed

lemma advance:
  assumes can: "can_advance H p at" and allowed: "transition_allowed H now p target c"
    and free: "target \<notin> set [''needs_decision'', ''blocked'']"
    and ok: "phase_ok H (transitioned H at p target c)"
  shows "transitionDeliveryPlan H now p target c at = Inr (transitioned H at p target c)"
    "sound_plan H (transitioned H at p target c)"
proof -
  have sound: "sound_plan H p" and at: "valid_timestamp at" using can by (simp_all add: can_advance_def)
  note normal = sound_planD(1) [OF sound] and shape = sound_planD(2) [OF sound]
  have target: "target \<in> set DELIVERY_PLAN_PHASES" using allowed by (simp add: transition_allowed_def transition_guards_def)
  note word = phase_word [OF target]
  have shape': "shape_ok (transitioned H at p target c)"
    using can free at approval_after_valid(1) [OF can] target
    by (intro shape_ok_transitioned [OF shape]) (simp_all add: can_advance_def, simp_all add: transitioned_def)
  have normal': "normal_plan H (transitioned H at p target c)"
    unfolding normal_plan_def
  proof
    fix later
    have blocker: "pl_blocker (transitioned H at p target c) = []" using free by simp
    show "normalizeDeliveryPlan H later (transitioned H at p target c) = transitioned H at p target c"
      unfolding transitioned_def normalize_step [OF normal] stamp_valid [OF at]
      using word approval_after_valid(2) [OF can] valid_timestamp_fixed [OF at] free by simp
  qed
  show sound': "sound_plan H (transitioned H at p target c)"
    using normal' shape' ok by (simp add: sound_plan_def)
  show "transitionDeliveryPlan H now p target c at = Inr (transitioned H at p target c)"
    using sound sound' allowed word by (simp add: transition_Inr Let_def fixed_point)
qed

text \<open>The transitions that bring an offered plan to done, at the given times.\<close>

definition complete_delivery ::
  "host \<Rightarrow> string \<Rightarrow> transition_conditions \<Rightarrow> delivery_plan \<Rightarrow> string list \<Rightarrow> delivery_plan result" where
  "complete_delivery H now c p ats =
     attempt (transitionDeliveryPlan H now p ''approved'' (c\<lparr>tc_confirmation := Some ''approve-plan''\<rparr>) (ats ! 0)) (\<lambda>p1.
     attempt (transitionDeliveryPlan H now p1 ''executing'' (c\<lparr>tc_confirmation := Some ''start-execution''\<rparr>) (ats ! 1)) (\<lambda>p2.
     attempt (transitionDeliveryPlan H now p2 ''verifying'' c (ats ! 2)) (\<lambda>p3.
     attempt (transitionDeliveryPlan H now p3 ''ready_to_release'' c (ats ! 3)) (\<lambda>p4.
     transitionDeliveryPlan H now p4 ''done'' (c\<lparr>tc_confirmation := Some ''complete-plan''\<rparr>) (ats ! 4)))))"

definition evidence_given :: "transition_conditions \<Rightarrow> bool" where
  "evidence_given c \<longleftrightarrow> tc_expectedRevision c = None \<and> tc_baselineCurrent c = Some True
     \<and> tc_workspaceAvailable c = Some True \<and> tc_taskGraphReady c = Some True
     \<and> tc_implementationResultCaptured c = Some True \<and> tc_qaPassed c = Some True \<and> tc_releaseVerified c = Some True"

lemma can_advance_next:
  assumes "can_advance H p at" "sound_plan H (transitioned H at p target c)"
    "pl_revision p + 1 < MAX_SAFE_INTEGER" "valid_timestamp at'" "date_ms (pl_createdAt p) \<le> date_ms at'"
  shows "can_advance H (transitioned H at p target c) at'"
  using assms by (simp add: can_advance_def)

lemma phase_literals:
  "''approved'' \<in> set DELIVERY_PLAN_PHASES" "''executing'' \<in> set DELIVERY_PLAN_PHASES"
  "''verifying'' \<in> set DELIVERY_PLAN_PHASES" "''ready_to_release'' \<in> set DELIVERY_PLAN_PHASES"
  "''done'' \<in> set DELIVERY_PLAN_PHASES"
  by (simp_all add: DELIVERY_PLAN_PHASES_def)

lemma legal_literals:
  "legal_transition ''ready_for_approval'' ''approved''" "legal_transition ''approved'' ''executing''"
  "legal_transition ''executing'' ''verifying''" "legal_transition ''verifying'' ''ready_to_release''"
  "legal_transition ''ready_to_release'' ''done''"
  by (simp_all add: legal_transition_def LEGAL_TRANSITIONS_def)

lemmas allowed_simps = transition_allowed_def transition_guards_def target_conditions_def requireCondition_def
  phase_literals legal_literals execution_locked_def evidence_given_def

lemma step_approve:
  assumes "can_advance H p at" "pl_phase p = ''ready_for_approval''" "evidence_given c"
  shows "transition_allowed H now p ''approved'' (c\<lparr>tc_confirmation := Some ''approve-plan''\<rparr>)"
    "phase_ok H (transitioned H at p ''approved'' x)"
proof -
  have ok: "phase_ok H p" using assms(1) by (simp add: can_advance_def sound_plan_def)
  then have ready: "plan_ready H p" using assms(2) by (simp add: phase_ok_def)
  then show "transition_allowed H now p ''approved'' (c\<lparr>tc_confirmation := Some ''approve-plan''\<rparr>)"
    using assms(2,3) by (simp add: allowed_simps plan_ready_def lintNormalizedReadiness_def)
  have "digest_pattern (plan_digest H p)" using assms(1) by (simp add: can_advance_def)
  from digest_word [OF this] fresh_approval_valid(1) [OF assms(1)]
  show "phase_ok H (transitioned H at p ''approved'' x)"
    using ready by (simp add: phase_ok_def approval_after_def fresh_approval_def)
qed

lemma approval_phase_ok:
  assumes "can_advance H p at" "pl_phase p \<in> set APPROVAL_PHASES"
  shows "ap_digest (pl_approval p) \<noteq> []" "ap_digest (pl_approval p) = plan_digest H p" "plan_ready H p"
  using assms by (auto simp: can_advance_def sound_plan_def phase_ok_def)

lemma step_execute:
  assumes "can_advance H p at" "pl_phase p = ''approved''" "evidence_given c" "au_workspaceWrite (pl_authority p)"
  shows "transition_allowed H now p ''executing'' (c\<lparr>tc_confirmation := Some ''start-execution''\<rparr>)"
    "phase_ok H (transitioned H at p ''executing'' x)"
proof -
  have sound: "sound_plan H p" using assms(1) by (simp add: can_advance_def)
  have phase: "pl_phase p \<in> set APPROVAL_PHASES" using assms(2) by (simp add: APPROVAL_PHASES_def)
  note current = approval_phase_ok [OF assms(1) phase]
  then have "approval_current_check H now p = None"
    using approval_current_None [OF sound_planD(1,2) [OF sound]] by blast
  then show "transition_allowed H now p ''executing'' (c\<lparr>tc_confirmation := Some ''start-execution''\<rparr>)"
    using assms(2-4) by (simp add: allowed_simps executing_conditions_def)
  show "phase_ok H (transitioned H at p ''executing'' x)"
    using current by (simp only: phase_ok_def transitioned_simps transitioned_ready transitioned_definition)
      (simp add: approval_after_def)
qed

lemma step_verify:
  assumes "can_advance H p at" "pl_phase p = ''executing''" "evidence_given c"
  shows "transition_allowed H now p ''verifying'' c" "phase_ok H (transitioned H at p ''verifying'' x)"
  using assms approval_phase_ok [OF assms(1)]
  by (simp_all add: allowed_simps phase_ok_def approval_after_def next_gates_def APPROVAL_PHASES_def)

lemma step_release:
  assumes "can_advance H p at" "pl_phase p = ''verifying''" "evidence_given c"
  shows "transition_allowed H now p ''ready_to_release'' c" "phase_ok H (transitioned H at p ''ready_to_release'' x)"
proof -
  have "gt_implementationCaptured (pl_gates p)"
    using assms(1,2) by (simp add: can_advance_def sound_plan_def phase_ok_def)
  then show "transition_allowed H now p ''ready_to_release'' c" "phase_ok H (transitioned H at p ''ready_to_release'' x)"
    using assms approval_phase_ok [OF assms(1)]
    by (simp_all add: allowed_simps phase_ok_def approval_after_def next_gates_def APPROVAL_PHASES_def)
qed

lemma step_done:
  assumes "can_advance H p at" "pl_phase p = ''ready_to_release''" "evidence_given c"
  shows "transition_allowed H now p ''done'' (c\<lparr>tc_confirmation := Some ''complete-plan''\<rparr>)"
    "phase_ok H (transitioned H at p ''done'' x)"
proof -
  have "gt_implementationCaptured (pl_gates p)" "gt_qaPassed (pl_gates p)"
    using assms(1,2) by (simp_all add: can_advance_def sound_plan_def phase_ok_def)
  then show "transition_allowed H now p ''done'' (c\<lparr>tc_confirmation := Some ''complete-plan''\<rparr>)"
    "phase_ok H (transitioned H at p ''done'' x)"
    using assms approval_phase_ok [OF assms(1)]
    by (simp_all add: allowed_simps phase_ok_def approval_after_def next_gates_def APPROVAL_PHASES_def)
qed

text \<open>C19: Delivery can always be completed: from every reachable plan that is ready for approval and
  asks for write authority, given the operator's confirmations, the evidence, clock readings
  after its creation, a hash with hexadecimal digests and room for five revisions, the five
  transitions from approval to done all succeed, and the plan ends done with every required
  gate passed. No validation on the way can refuse what an earlier one accepted.\<close>

theorem ready_plan_completes:
  assumes "plan_reachable H p" "pl_phase p = ''ready_for_approval''" "au_workspaceWrite (pl_authority p)"
    "evidence_given c" "length ats = 5"
    "\<forall>at \<in> set ats. valid_timestamp at \<and> date_ms (pl_createdAt p) \<le> date_ms at"
    "pl_revision p + 5 \<le> MAX_SAFE_INTEGER" "digest_pattern (canonicalSha256 H (definition_json p))"
  shows "\<exists>q. complete_delivery H now c p ats = Inr q \<and> pl_phase q = ''done''
    \<and> pl_revision q = pl_revision p + 5 \<and> pl_updatedAt q = ats ! 4
    \<and> (qa_releaseRequired (rl_qa (pl_roles q)) \<longrightarrow> gt_releaseVerified (pl_gates q))"
proof -
  have at: "valid_timestamp (ats ! i)" "date_ms (pl_createdAt p) \<le> date_ms (ats ! i)" if "i < 5" for i
    using assms(5,6) that by simp_all
  let ?c1 = "c\<lparr>tc_confirmation := Some ''approve-plan''\<rparr>" and ?c2 = "c\<lparr>tc_confirmation := Some ''start-execution''\<rparr>"
    and ?c5 = "c\<lparr>tc_confirmation := Some ''complete-plan''\<rparr>"
  define p1 where "p1 = transitioned H (ats ! 0) p ''approved'' ?c1"
  define p2 where "p2 = transitioned H (ats ! 1) p1 ''executing'' ?c2"
  define p3 where "p3 = transitioned H (ats ! 2) p2 ''verifying'' c"
  define p4 where "p4 = transitioned H (ats ! 3) p3 ''ready_to_release'' c"
  define p5 where "p5 = transitioned H (ats ! 4) p4 ''done'' ?c5"
  have can: "can_advance H p (ats ! 0)"
    using at [of 0] assms(1,7,8) by (simp add: can_advance_def reachable_sound plan_digest_def)
  note s1 = advance [OF can step_approve(1) [OF can assms(2,4)] _ step_approve(2) [OF can assms(2,4)], folded p1_def]
  have can1: "can_advance H p1 (ats ! 1)"
    unfolding p1_def by (rule can_advance_next [OF can]) (use s1(2) at [of 1] assms(7) in \<open>simp_all add: p1_def\<close>)
  have p1: "pl_phase p1 = ''approved''" "au_workspaceWrite (pl_authority p1)" using assms(3) by (simp_all add: p1_def)
  note s2 = advance [OF can1 step_execute(1) [OF can1 p1(1) assms(4) p1(2)] _ step_execute(2) [OF can1 p1(1) assms(4) p1(2)],
    folded p2_def]
  have can2: "can_advance H p2 (ats ! 2)"
    unfolding p2_def by (rule can_advance_next [OF can1]) (use s2(2) at [of 2] assms(7) in \<open>simp_all add: p1_def p2_def\<close>)
  have p2: "pl_phase p2 = ''executing''" by (simp add: p2_def)
  note s3 = advance [OF can2 step_verify(1) [OF can2 p2 assms(4)] _ step_verify(2) [OF can2 p2 assms(4)], folded p3_def]
  have can3: "can_advance H p3 (ats ! 3)"
    unfolding p3_def
    by (rule can_advance_next [OF can2]) (use s3(2) at [of 3] assms(7) in \<open>simp_all add: p1_def p2_def p3_def\<close>)
  have p3: "pl_phase p3 = ''verifying''" by (simp add: p3_def)
  note s4 = advance [OF can3 step_release(1) [OF can3 p3 assms(4)] _ step_release(2) [OF can3 p3 assms(4)], folded p4_def]
  have can4: "can_advance H p4 (ats ! 4)"
    unfolding p4_def
    by (rule can_advance_next [OF can3]) (use s4(2) at [of 4] assms(7) in \<open>simp_all add: p1_def p2_def p3_def p4_def\<close>)
  have p4: "pl_phase p4 = ''ready_to_release''" by (simp add: p4_def)
  note s5 = advance [OF can4 step_done(1) [OF can4 p4 assms(4)] _ step_done(2) [OF can4 p4 assms(4)], folded p5_def]
  have "complete_delivery H now c p ats = Inr p5"
    using s1(1) s2(1) s3(1) s4(1) s5(1) by (simp add: complete_delivery_def)
  moreover have "phase_ok H p5" using s5(2) by (simp add: sound_plan_def)
  moreover have "pl_updatedAt p5 = ats ! 4" using at [of 4] by (simp add: p5_def)
  ultimately show ?thesis
    by (intro exI [of _ p5]) (simp add: phase_ok_def p1_def p2_def p3_def p4_def p5_def)
qed

theorem ready_plan_completes_witness:
  "\<exists>q. complete_delivery plan_host [] (conditions_met []) toy_offered
      (map plan_time [CHR ''2'', CHR ''3'', CHR ''4'', CHR ''5'', CHR ''6'']) = Inr q \<and> pl_phase q = ''done''"
proof -
  have stamps: "\<forall>at \<in> set (map plan_time [CHR ''2'', CHR ''3'', CHR ''4'', CHR ''5'', CHR ''6'']).
      valid_timestamp at \<and> date_ms (pl_createdAt toy_offered) \<le> date_ms at"
    unfolding list_all_iff [symmetric] by code_simp
  have "digest_pattern (canonicalSha256 plan_host (definition_json toy_offered))" by code_simp
  moreover have "pl_phase toy_offered = ''ready_for_approval''" "au_workspaceWrite (pl_authority toy_offered)"
    "evidence_given (conditions_met [])" "pl_revision toy_offered + 5 \<le> MAX_SAFE_INTEGER"
    by (simp_all add: toy_offered_def toy_plan_def evidence_given_def conditions_met_def MAX_SAFE_INTEGER_def)
  ultimately show ?thesis
    using ready_plan_completes [OF toy_offered_reachable _ _ _ _ stamps] by fastforce
qed

section \<open>The execution envelope\<close>

text \<open>What the executing agent is given. An envelope exists only for an approved or executing
  plan with write authority; its text is no longer than the caller's limit and the hard limit
  of 8000, carries the approved digest, names a step of the plan, and consists of exactly the
  lines for that step, where every permission of the plan is listed as approved or as
  forbidden, never as both.\<close>

theorem envelope_is_bounded:
  assumes "plan_reachable H p" "compileDeliveryPlanExecutionEnvelope H now p i = Inr e"
  shows "pl_phase p \<in> {''approved'', ''executing''} \<and> au_workspaceWrite (pl_authority p)
    \<and> en_chars e = int (length (en_text e)) \<and> en_chars e \<le> ei_maxChars i \<and> ei_maxChars i \<le> 8000
    \<and> en_digest e = ap_digest (pl_approval p) \<and> en_planId e = pl_id p \<and> en_planRevision e = pl_revision p
    \<and> (\<exists>s \<in> set (dv_steps (rl_dev (pl_roles p))). sp_id s = normalizedId (ei_stepId i) \<and> en_stepId e = sp_id s
        \<and> (\<exists>b d. en_text e = join_with [CHR 0x0A] (envelope_lines p s (en_digest e) b d)
            \<and> digest_pattern (eb_workingTreeDigest b) \<and> digest_pattern d))
    \<and> (\<forall>(name, enabled) \<in> set (authority_members (pl_authority p)).
        (name \<in> set (allowed_authority (pl_authority p)) \<longleftrightarrow> enabled)
        \<and> (name \<in> set (forbidden_authority (pl_authority p)) \<longleftrightarrow> \<not> enabled))"
proof -
  have sound: "sound_plan H p" using assms(1) by (rule reachable_sound)
  note normal = sound_planD(1) [OF sound] and shape = sound_planD(2) [OF sound]
  have authority: "\<forall>(name, enabled) \<in> set (authority_members (pl_authority p)).
        (name \<in> set (allowed_authority (pl_authority p)) \<longleftrightarrow> enabled)
        \<and> (name \<in> set (forbidden_authority (pl_authority p)) \<longleftrightarrow> \<not> enabled)"
    by (simp add: authority_members_def allowed_authority_def forbidden_authority_def)
  from assms(2) obtain s where s: "find (\<lambda>s. sp_id s = normalizedId (ei_stepId i)) (dv_steps (rl_dev (pl_roles p))) = Some s"
    and e: "en_text e = join_with [CHR 0x0A] (envelope_lines p s (plan_digest H p)
        (envelope_baseline p (ei_expectedBaseline i)) (expectedBaselineDigest_of H (envelope_baseline p (ei_expectedBaseline i))))"
      "en_chars e = js_length (en_text e)" "en_digest e = plan_digest H p" "en_planId e = pl_id p"
      "en_planRevision e = pl_revision p" "en_stepId e = sp_id s" "en_chars e \<le> ei_maxChars i" "ei_maxChars i \<le> 8000"
      "pl_phase p \<in> {''approved'', ''executing''}" "au_workspaceWrite (pl_authority p)"
      "envelope_baseline_check (envelope_baseline p (ei_expectedBaseline i))
        (expectedBaselineDigest_of H (envelope_baseline p (ei_expectedBaseline i))) = None"
    unfolding compileDeliveryPlanExecutionEnvelope_def sound_plan_valid [OF sound] attempt.simps plan_digest_Inr [OF normal shape]
    by (auto simp: Let_def split: option.splits)
  have digest: "ap_digest (pl_approval p) = plan_digest H p"
    using e(9) sound_planD(3) [OF sound] by (auto simp: phase_ok_def APPROVAL_PHASES_def)
  have "\<exists>s \<in> set (dv_steps (rl_dev (pl_roles p))). sp_id s = normalizedId (ei_stepId i) \<and> en_stepId e = sp_id s
        \<and> (\<exists>b d. en_text e = join_with [CHR 0x0A] (envelope_lines p s (en_digest e) b d)
            \<and> digest_pattern (eb_workingTreeDigest b) \<and> digest_pattern d)"
    using find_SomeD [OF s] e(6) e(11) unfolding e(1) e(3)
    by (intro bexI [of _ s] conjI exI [of _ "envelope_baseline p (ei_expectedBaseline i)"]
          exI [of _ "expectedBaselineDigest_of H (envelope_baseline p (ei_expectedBaseline i))"])
       (simp_all add: envelope_baseline_check_def)
  with e(2-5) e(7-10) digest authority show ?thesis by (simp add: js_length_def)
qed

definition toy_envelope_input :: envelope_input where
  "toy_envelope_input = \<lparr>ei_stepId = ''step-1'', ei_maxChars = 4000, ei_expectedBaseline = None\<rparr>"

lemma toy_compiles: "case compileDeliveryPlanExecutionEnvelope plan_host [] toy_approved toy_envelope_input of
    Inl e \<Rightarrow> False | Inr e \<Rightarrow> True"
  by code_simp

theorem envelope_is_bounded_witness:
  "\<exists>e. compileDeliveryPlanExecutionEnvelope plan_host [] toy_approved toy_envelope_input = Inr e
     \<and> int (length (en_text e)) \<le> 4000"
proof -
  obtain e where e: "compileDeliveryPlanExecutionEnvelope plan_host [] toy_approved toy_envelope_input = Inr e"
    using toy_compiles by (auto split: sum.splits)
  with envelope_is_bounded [OF toy_approved_reachable e] show ?thesis by (auto simp: toy_envelope_input_def)
qed

end
