(* ===== verification/PlanJson.thy ===== *)
theory PlanJson
  imports RunJson DeliveryPlanFacts
begin

text \<open>
  The JSON of a delivery plan, as delivery-plan-store.js writes, measures and compares it, and
  the JSON of the requests that the store digests. The JSON of a plan determines it.
\<close>

section \<open>Plans\<close>

definition stored_baseline_json :: "plan_baseline \<Rightarrow> json" where
  "stored_baseline_json b = JObj
     [(''head'', JStr (pb_head b)), (''workingTreeDigest'', JStr (pb_workingTreeDigest b)),
      (''instructionsDigest'', JStr (pb_instructionsDigest b)), (''capturedAt'', JStr (pb_capturedAt b))]"

definition approval_json :: "plan_approval \<Rightarrow> json" where
  "approval_json a = JObj
     [(''digest'', JStr (ap_digest a)), (''approvedAt'', json_nullable (ap_approvedAt a)),
      (''planRevision'', json_option JNum (ap_planRevision a))]"

definition gates_json :: "plan_gates \<Rightarrow> json" where
  "gates_json g = JObj
     [(''implementationCaptured'', JBool (gt_implementationCaptured g)),
      (''qaPassed'', JBool (gt_qaPassed g)), (''releaseVerified'', JBool (gt_releaseVerified g))]"

definition plan_json :: "delivery_plan \<Rightarrow> json" where
  "plan_json p = JObj
     [(''version'', JNum (pl_version p)), (''id'', JStr (pl_id p)), (''revision'', JNum (pl_revision p)),
      (''phase'', JStr (pl_phase p)), (''title'', JStr (pl_title p)), (''request'', JStr (pl_request p)),
      (''workspace'', JStr (pl_workspace p)), (''baseline'', stored_baseline_json (pl_baseline p)),
      (''classification'', plan_classification_json (pl_classification p)),
      (''roles'', roles_json (pl_roles p)),
      (''unresolvedQuestions'', json_strings (pl_unresolvedQuestions p)),
      (''authority'', authority_json (pl_authority p)), (''approval'', approval_json (pl_approval p)),
      (''gates'', gates_json (pl_gates p)), (''blocker'', JStr (pl_blocker p)),
      (''createdAt'', JStr (pl_createdAt p)), (''updatedAt'', JStr (pl_updatedAt p))]"

lemma stored_baseline_json_faithful: "faithful stored_baseline_json"
  unfolding stored_baseline_json_def
  by (rule faithful_object) (auto simp: json_inj intro: plan_baseline.equality)

lemma JNum_option_inj [json_inj]: "norm_json (json_option JNum a) = norm_json (json_option JNum b) \<longleftrightarrow> a = b"
  by (cases a; cases b) (simp_all add: json_option_def)

lemma approval_json_faithful: "faithful approval_json"
  unfolding approval_json_def
  by (rule faithful_object) (auto simp: json_inj json_nullable_inj intro: plan_approval.equality)

lemma gates_json_faithful: "faithful gates_json"
  unfolding gates_json_def by (rule faithful_object) (auto simp: json_inj intro: plan_gates.equality)

lemmas plan_part_inj [json_inj] = faithful_iff [OF stored_baseline_json_faithful]
  faithful_iff [OF approval_json_faithful] faithful_iff [OF gates_json_faithful]

lemma plan_json_faithful: "faithful plan_json"
  unfolding plan_json_def by (rule faithful_object) (auto simp: json_inj intro: delivery_plan.equality)

section \<open>Requests\<close>

text \<open>A member that the request gives; an absent one is not part of the JSON.\<close>

definition given :: "string \<Rightarrow> ('a \<Rightarrow> json) \<Rightarrow> 'a option \<Rightarrow> (string \<times> json) list" where
  "given k f x = (case x of None \<Rightarrow> [] | Some y \<Rightarrow> [(k, f y)])"

definition objects :: "('a \<Rightarrow> json) \<Rightarrow> 'a list \<Rightarrow> json" where
  "objects f xs = JArr (map f xs)"

definition baseline_patch_json :: "baseline_patch \<Rightarrow> json" where
  "baseline_patch_json x = JObj
     (given ''head'' JStr (xb_head x) @ given ''workingTreeDigest'' JStr (xb_workingTreeDigest x)
      @ given ''instructionsDigest'' JStr (xb_instructionsDigest x)
      @ given ''capturedAt'' JStr (xb_capturedAt x))"

definition classification_patch_json :: "classification_patch \<Rightarrow> json" where
  "classification_patch_json x = JObj
     (given ''intent'' JStr (xc_intent x) @ given ''depth'' JStr (xc_depth x)
      @ given ''risk'' JStr (xc_risk x) @ given ''dataClasses'' json_strings (xc_dataClasses x)
      @ given ''mutationSurfaces'' json_strings (xc_mutationSurfaces x))"

definition po_patch_json :: "po_patch \<Rightarrow> json" where
  "po_patch_json x = JObj
     (given ''user'' JStr (xp_user x) @ given ''problem'' JStr (xp_problem x)
      @ given ''outcome'' JStr (xp_outcome x) @ given ''value'' JStr (xp_value x)
      @ given ''nonGoals'' json_strings (xp_nonGoals x)
      @ given ''assumptions'' json_strings (xp_assumptions x)
      @ given ''openQuestions'' json_strings (xp_openQuestions x))"

definition ba_patch_json :: "ba_patch \<Rightarrow> json" where
  "ba_patch_json x = JObj
     (given ''requirements'' (objects requirement_json) (xr_requirements x)
      @ given ''dependencies'' json_strings (xr_dependencies x)
      @ given ''edgeCases'' json_strings (xr_edgeCases x)
      @ given ''constraints'' json_strings (xr_constraints x)
      @ given ''openQuestions'' json_strings (xr_openQuestions x))"

definition dev_patch_json :: "dev_patch \<Rightarrow> json" where
  "dev_patch_json x = JObj
     (given ''architecture'' JStr (xd_architecture x) @ given ''steps'' (objects step_json) (xd_steps x)
      @ given ''risks'' json_strings (xd_risks x) @ given ''rollback'' JStr (xd_rollback x)
      @ given ''openQuestions'' json_strings (xd_openQuestions x))"

definition qa_patch_json :: "qa_patch \<Rightarrow> json" where
  "qa_patch_json x = JObj
     (given ''acceptanceCriteria'' (objects acceptance_json) (xq_acceptanceCriteria x)
      @ given ''testStrategy'' JStr (xq_testStrategy x)
      @ given ''regressionChecks'' json_strings (xq_regressionChecks x)
      @ given ''releaseRequired'' JBool (xq_releaseRequired x)
      @ given ''releaseChecks'' json_strings (xq_releaseChecks x)
      @ given ''openQuestions'' json_strings (xq_openQuestions x))"

definition roles_patch_json :: "roles_patch \<Rightarrow> json" where
  "roles_patch_json x = JObj
     (given ''po'' po_patch_json (xl_po x) @ given ''ba'' ba_patch_json (xl_ba x)
      @ given ''dev'' dev_patch_json (xl_dev x) @ given ''qa'' qa_patch_json (xl_qa x))"

definition authority_patch_json :: "authority_patch \<Rightarrow> json" where
  "authority_patch_json x = JObj
     (given ''workspaceWrite'' JBool (xa_workspaceWrite x) @ given ''commit'' JBool (xa_commit x)
      @ given ''push'' JBool (xa_push x) @ given ''deploy'' JBool (xa_deploy x)
      @ given ''network'' JBool (xa_network x) @ given ''serviceControl'' JBool (xa_serviceControl x)
      @ given ''destructive'' JBool (xa_destructive x)
      @ given ''externalMessages'' JBool (xa_externalMessages x))"

definition patch_members :: "'a plan_patch_scheme \<Rightarrow> (string \<times> json) list" where
  "patch_members x =
     given ''title'' JStr (xx_title x) @ given ''request'' JStr (xx_request x)
     @ given ''workspace'' JStr (xx_workspace x)
     @ given ''unresolvedQuestions'' json_strings (xx_unresolvedQuestions x)
     @ given ''baseline'' baseline_patch_json (xx_baseline x)
     @ given ''classification'' classification_patch_json (xx_classification x)
     @ given ''authority'' authority_patch_json (xx_authority x)
     @ given ''roles'' roles_patch_json (xx_roles x)"

definition conditions_json :: "transition_conditions \<Rightarrow> json" where
  "conditions_json c = JObj
     (given ''expectedRevision'' JNum (tc_expectedRevision c)
      @ given ''confirmation'' JStr (tc_confirmation c) @ given ''reason'' JStr (tc_reason c)
      @ given ''deliveryRunAborted'' JBool (tc_deliveryRunAborted c)
      @ given ''baselineCurrent'' JBool (tc_baselineCurrent c)
      @ given ''workspaceAvailable'' JBool (tc_workspaceAvailable c)
      @ given ''taskGraphReady'' JBool (tc_taskGraphReady c)
      @ given ''remediationApproved'' JBool (tc_remediationApproved c)
      @ given ''implementationResultCaptured'' JBool (tc_implementationResultCaptured c)
      @ given ''qaPassed'' JBool (tc_qaPassed c) @ given ''releaseVerified'' JBool (tc_releaseVerified c))"

text \<open>
  The plan of a creation request: any members of a plan. Those that a definition's patch has
  come first; the revision and the times are replaced by the store.
\<close>

record approval_input =
  yv_digest :: "string option"
  yv_approvedAt :: "string option"
  yv_planRevision :: "int option"

record gates_input =
  yg_implementationCaptured :: "bool option"
  yg_qaPassed :: "bool option"
  yg_releaseVerified :: "bool option"

record plan_input = plan_patch +
  yi_version :: "int option"
  yi_id :: "string option"
  yi_revision :: "int option"
  yi_phase :: "string option"
  yi_approval :: "approval_input option"
  yi_gates :: "gates_input option"
  yi_blocker :: "string option"
  yi_createdAt :: "string option"
  yi_updatedAt :: "string option"

definition approval_input_json :: "approval_input \<Rightarrow> json" where
  "approval_input_json a = JObj
     (given ''digest'' JStr (yv_digest a) @ given ''approvedAt'' JStr (yv_approvedAt a)
      @ given ''planRevision'' JNum (yv_planRevision a))"

definition gates_input_json :: "gates_input \<Rightarrow> json" where
  "gates_input_json g = JObj
     (given ''implementationCaptured'' JBool (yg_implementationCaptured g)
      @ given ''qaPassed'' JBool (yg_qaPassed g) @ given ''releaseVerified'' JBool (yg_releaseVerified g))"

definition plan_input_json :: "plan_input \<Rightarrow> json" where
  "plan_input_json v = JObj
     (patch_members v
      @ given ''version'' JNum (yi_version v) @ given ''id'' JStr (yi_id v)
      @ given ''revision'' JNum (yi_revision v) @ given ''phase'' JStr (yi_phase v)
      @ given ''approval'' approval_input_json (yi_approval v)
      @ given ''gates'' gates_input_json (yi_gates v) @ given ''blocker'' JStr (yi_blocker v)
      @ given ''createdAt'' JStr (yi_createdAt v) @ given ''updatedAt'' JStr (yi_updatedAt v))"

section \<open>The plan of a creation request\<close>

text \<open>What \<open>normalizeDeliveryPlan\<close> takes for the members that the value does not have.\<close>

definition blank_plan :: delivery_plan where
  "blank_plan = \<lparr>pl_version = DELIVERY_PLAN_VERSION, pl_id = [], pl_revision = 1, pl_phase = [],
     pl_title = [], pl_request = [], pl_workspace = [],
     pl_baseline = \<lparr>pb_head = [], pb_workingTreeDigest = [], pb_instructionsDigest = [], pb_capturedAt = []\<rparr>,
     pl_classification = \<lparr>pc_intent = [], pc_depth = [], pc_risk = [], pc_dataClasses = [],
       pc_mutationSurfaces = []\<rparr>,
     pl_roles = \<lparr>rl_po = \<lparr>po_user = [], po_problem = [], po_outcome = [], po_value = [], po_nonGoals = [],
         po_assumptions = [], po_openQuestions = []\<rparr>,
       rl_ba = \<lparr>ba_requirements = [], ba_dependencies = [], ba_edgeCases = [], ba_constraints = [],
         ba_openQuestions = []\<rparr>,
       rl_dev = \<lparr>dv_architecture = [], dv_steps = [], dv_risks = [], dv_rollback = [], dv_openQuestions = []\<rparr>,
       rl_qa = \<lparr>qa_acceptanceCriteria = [], qa_testStrategy = [], qa_regressionChecks = [],
         qa_releaseRequired = False, qa_releaseChecks = [], qa_openQuestions = []\<rparr>\<rparr>,
     pl_unresolvedQuestions = [],
     pl_authority = \<lparr>au_workspaceWrite = False, au_commit = False, au_push = False, au_deploy = False,
       au_network = False, au_serviceControl = False, au_destructive = False, au_externalMessages = False\<rparr>,
     pl_approval = emptyApproval, pl_gates = emptyGates, pl_blocker = [], pl_createdAt = [], pl_updatedAt = []\<rparr>"

definition given_approval :: "approval_input \<Rightarrow> plan_approval" where
  "given_approval a = \<lparr>ap_digest = over (yv_digest a) [], ap_approvedAt = yv_approvedAt a,
     ap_planRevision = yv_planRevision a\<rparr>"

definition given_gates :: "gates_input \<Rightarrow> plan_gates" where
  "given_gates g = \<lparr>gt_implementationCaptured = over (yg_implementationCaptured g) False,
     gt_qaPassed = over (yg_qaPassed g) False, gt_releaseVerified = over (yg_releaseVerified g) False\<rparr>"

text \<open>\<open>{ ...request.value.plan, id, revision: 1, createdAt: at, updatedAt: at }\<close>.\<close>

definition created_plan_input :: "plan_input \<Rightarrow> string \<Rightarrow> string \<Rightarrow> delivery_plan" where
  "created_plan_input v i at = (mergedDefinition blank_plan v)
     \<lparr>pl_version := over (yi_version v) DELIVERY_PLAN_VERSION, pl_id := i, pl_revision := 1,
      pl_phase := over (yi_phase v) [],
      pl_approval := over (map_option given_approval (yi_approval v)) emptyApproval,
      pl_gates := over (map_option given_gates (yi_gates v)) emptyGates,
      pl_blocker := over (yi_blocker v) [], pl_createdAt := at, pl_updatedAt := at\<rparr>"

end
