(* ===== verification/DeliveryPlanStore.thy ===== *)
theory DeliveryPlanStore
  imports ReceiptRepository PlanJson PlanLifecycle
begin

text \<open>
  delivery-plan-store.js: the durable store of delivery plans, the second instance of
  \<open>ReceiptStore\<close> and \<open>ReceiptRepository\<close>. This theory holds the strict check of a plan, the
  lifecycle that consecutive receipts of a plan must follow, the requests with their digests,
  and the operations of the repository.
\<close>

section \<open>Plans in the store\<close>

definition DELIVERY_PLAN_STORE_VERSION :: int where "DELIVERY_PLAN_STORE_VERSION = 1"
definition MAX_PLANS :: nat where "MAX_PLANS = 128"
definition MAX_PLAN_OPERATIONS :: nat where "MAX_PLAN_OPERATIONS = 1024"
definition MAX_PLAN_BYTES :: int where "MAX_PLAN_BYTES = 524288"
definition MAX_SUMMARY_ITEMS :: int where "MAX_SUMMARY_ITEMS = 128"

definition PLAN_ACTIONS :: "string list" where
  "PLAN_ACTIONS = [''plan.create'', ''plan.update'', ''plan.transition'']"

definition dps_error :: "string \<Rightarrow> error" where
  "dps_error suffix = Error (''delivery_plan_store_'' @ suffix)"

text \<open>
  Any error of the plan's validator becomes the given one. The validator reads the clock only
  for a plan without times, and then the plan differs from the validated one: the outcome does
  not depend on \<open>now\<close>.
\<close>

definition strictPlan :: "host \<Rightarrow> string \<Rightarrow> error \<Rightarrow> delivery_plan \<Rightarrow> delivery_plan result" where
  "strictPlan H now e v =
     (case validateDeliveryPlan H now v of
        Inl cause \<Rightarrow> Inl e
      | Inr validated \<Rightarrow> guard (throws
          [throw_if (canonicalJson (plan_json v) \<noteq> canonicalJson (plan_json validated)) e,
           throw_if (MAX_PLAN_BYTES < byteLength (plan_json validated)) (dps_error ''plan_too_large'')])
          (Inr validated))"

definition assertCreateLifecycle :: "delivery_plan \<Rightarrow> error option" where
  "assertCreateLifecycle p = throws
     [throw_if (pl_phase p \<notin> set [''draft'', ''planning'']) (dps_error ''create_phase_invalid''),
      throw_if (pl_revision p \<noteq> 1) (dps_error ''create_revision_invalid''),
      throw_if (ap_digest (pl_approval p) \<noteq> [] \<or> ap_approvedAt (pl_approval p) \<noteq> None
          \<or> ap_planRevision (pl_approval p) \<noteq> None) (dps_error ''create_approval_invalid''),
      throw_if (gt_implementationCaptured (pl_gates p) \<or> gt_qaPassed (pl_gates p)
          \<or> gt_releaseVerified (pl_gates p)) (dps_error ''create_gates_invalid''),
      throw_if (pl_blocker p \<noteq> []) (dps_error ''create_blocker_invalid'')]"

text \<open>The lifecycle of a receipt, given the previous snapshot of its plan.\<close>

definition plan_receipt_lifecycle :: "delivery_plan receipt \<Rightarrow> delivery_plan option \<Rightarrow> error option" where
  "plan_receipt_lifecycle c previous =
     (let s = rc_item c; invalid = dps_error ''operation_lifecycle_invalid'' in
      if rc_action c = ''plan.create''
      then throws [throw_if (previous \<noteq> None \<or> pl_revision s \<noteq> 1) invalid, assertCreateLifecycle s]
      else (case previous of
          None \<Rightarrow> Some invalid
        | Some p \<Rightarrow>
            (let delta = pl_revision s - pl_revision p in throws
              [throw_if (pl_createdAt s \<noteq> pl_createdAt p) invalid,
               throw_if (if rc_action c = ''plan.transition'' then delta \<noteq> 1 else delta \<notin> {0, 1}) invalid])))"

definition plan_module :: "host \<Rightarrow> delivery_plan store_module" where
  "plan_module H = \<lparr>md_family = ''plan'', md_noun = ''plan'', md_version = DELIVERY_PLAN_STORE_VERSION, md_maxItems = MAX_PLANS,
     md_maxOperations = MAX_PLAN_OPERATIONS, md_maxBytes = MAX_STORE_BYTES, md_maxRequest = MAX_REQUEST_BYTES,
     md_actions = PLAN_ACTIONS, md_id = pl_id,
     md_strict = strictPlan H [], md_lifecycle = plan_receipt_lifecycle, md_json = plan_json,
     md_itemLimit = (\<lambda>_. None), md_receiptLimit = (\<lambda>_. None), md_itemsRule = (\<lambda>_. None),
     md_storeLimit = (\<lambda>j _. compactLimit (dps_error ''too_large'') j)\<rparr>"

lemma plan_module_simps [simp]:
  "md_family (plan_module H) = ''plan''" "md_noun (plan_module H) = ''plan''" "md_version (plan_module H) = 1" "md_maxItems (plan_module H) = 128"
  "md_maxOperations (plan_module H) = 1024" "md_actions (plan_module H) = PLAN_ACTIONS"
  "md_id (plan_module H) = pl_id" "md_strict (plan_module H) = strictPlan H []"
  "md_lifecycle (plan_module H) = plan_receipt_lifecycle" "md_json (plan_module H) = plan_json"
  "md_maxBytes (plan_module H) = MAX_STORE_BYTES" "md_maxRequest (plan_module H) = MAX_REQUEST_BYTES"
  "md_itemLimit (plan_module H) j = None" "md_receiptLimit (plan_module H) j = None" "md_itemsRule (plan_module H) xs = None"
  "md_storeLimit (plan_module H) j s = compactLimit (dps_error ''too_large'') j"
  by (simp_all add: plan_module_def DELIVERY_PLAN_STORE_VERSION_def MAX_PLANS_def MAX_PLAN_OPERATIONS_def)

section \<open>The functions of the file that both stores share\<close>

abbreviation emptyDeliveryPlanStore where "emptyDeliveryPlanStore H \<equiv> emptyReceiptStore (plan_module H)"
abbreviation validatePlanReceipt where "validatePlanReceipt H \<equiv> validateReceipt (plan_module H)"
abbreviation validateDeliveryPlanStore where "validateDeliveryPlanStore H \<equiv> validateReceiptStore (plan_module H)"
abbreviation nextPlanStore where "nextPlanStore H \<equiv> nextStore (plan_module H)"
abbreviation planOperationReplay where "planOperationReplay H \<equiv> operationReplay (plan_module H)"
abbreviation assertPlanStoreRevision where "assertPlanStoreRevision H \<equiv> assertStoreRevision (plan_module H)"
abbreviation assertMutationCapacity where "assertMutationCapacity H \<equiv> assertCapacity (plan_module H)"
abbreviation assertPlanChronology where "assertPlanChronology H \<equiv> assertChronology (plan_module H)"
abbreviation planOperationId where "planOperationId H \<equiv> st_operationId (plan_module H)"
abbreviation requestedPlanStoreRevision where "requestedPlanStoreRevision H \<equiv> requestedRevision (plan_module H)"
abbreviation planRequestSnapshot where "planRequestSnapshot H \<equiv> requestSnapshot (plan_module H)"
abbreviation planTimestamp where "planTimestamp H \<equiv> st_timestamp (plan_module H)"
abbreviation readPlanStoreFile where "readPlanStoreFile H \<equiv> readStoreFile (plan_module H)"
abbreviation poisonPlansAfterCommittedWrite where "poisonPlansAfterCommittedWrite H \<equiv> poisonAfterCommittedWrite (plan_module H)"
abbreviation recoverCommittedPlans where "recoverCommittedPlans H \<equiv> recoverCommittedWrite (plan_module H)"
abbreviation persistPlans where "persistPlans H \<equiv> persist (plan_module H)"
abbreviation loadPlans where "loadPlans H \<equiv> load (plan_module H)"
abbreviation ensurePlansInitialized where "ensurePlansInitialized H \<equiv> ensureInitialized (plan_module H)"
abbreviation afterPlanMutations where "afterPlanMutations H \<equiv> afterMutations (plan_module H)"
abbreviation mutatePlans where "mutatePlans H \<equiv> mutate (plan_module H)"

section \<open>Requests\<close>

record create_plan_request =
  cpq_operationId :: string
  cpq_expectedStoreRevision :: int
  cpq_plan :: plan_input

record update_plan_request =
  upq_planId :: string
  upq_operationId :: string
  upq_expectedStoreRevision :: int
  upq_expectedPlanRevision :: int
  upq_patch :: plan_patch

record transition_plan_request =
  tpq_planId :: string
  tpq_operationId :: string
  tpq_expectedStoreRevision :: int
  tpq_expectedPlanRevision :: int
  tpq_to :: string
  tpq_conditions :: transition_conditions

datatype plan_request =
  PR_create create_plan_request | PR_update update_plan_request | PR_transition transition_plan_request

definition planId :: "string \<Rightarrow> string result" where
  "planId value =
     (let r = to_lower (js_trim value) in
      guard (throw_if (\<not> plan_id_pattern r) (dps_error ''plan_id_invalid'')) (Inr r))"

text \<open>What is known of a mutation before it enters the queue.\<close>

record prepared_plan =
  pp_id :: string
  pp_digest :: string
  pp_storeRevision :: int

record prepared_plan_create = prepared_plan +
  pp_plan :: plan_input

record prepared_plan_update = prepared_plan +
  pp_planId :: string
  pp_planRevision :: int
  pp_patch :: plan_patch

record prepared_plan_transition = prepared_plan +
  pt_planId :: string
  pt_planRevision :: int
  pt_to :: string
  pt_conditions :: transition_conditions

datatype plan_mutation =
  PM_create prepared_plan_create | PM_update prepared_plan_update | PM_transition prepared_plan_transition

definition preparePlanCreate :: "host \<Rightarrow> create_plan_request \<Rightarrow> prepared_plan_create result" where
  "preparePlanCreate H q =
     attempt (planOperationId H (cpq_operationId q)) (\<lambda>i.
     attempt (requestedPlanStoreRevision H (cpq_expectedStoreRevision q) ''expected_store_revision'' 0) (\<lambda>sr.
     attempt (planRequestSnapshot H H (JObj
         [(''expectedStoreRevision'', JNum sr), (''plan'', plan_input_json (cpq_plan q))])) (\<lambda>digest.
     Inr \<lparr>pp_id = i, pp_digest = digest, pp_storeRevision = sr, pp_plan = cpq_plan q\<rparr>)))"

definition preparePlanUpdate :: "host \<Rightarrow> update_plan_request \<Rightarrow> prepared_plan_update result" where
  "preparePlanUpdate H q =
     attempt (planId (upq_planId q)) (\<lambda>wanted.
     attempt (planOperationId H (upq_operationId q)) (\<lambda>i.
     attempt (requestedPlanStoreRevision H (upq_expectedStoreRevision q) ''expected_store_revision'' 0) (\<lambda>sr.
     attempt (requestedPlanStoreRevision H (upq_expectedPlanRevision q) ''expected_plan_revision'' 1) (\<lambda>pr.
     attempt (planRequestSnapshot H H (JObj
         [(''planId'', JStr wanted), (''expectedStoreRevision'', JNum sr), (''expectedPlanRevision'', JNum pr),
          (''patch'', JObj (patch_members (upq_patch q)))])) (\<lambda>digest.
     Inr \<lparr>pp_id = i, pp_digest = digest, pp_storeRevision = sr, pp_planId = wanted, pp_planRevision = pr,
          pp_patch = upq_patch q\<rparr>)))))"

definition preparePlanTransition :: "host \<Rightarrow> transition_plan_request \<Rightarrow> prepared_plan_transition result" where
  "preparePlanTransition H q =
     attempt (planId (tpq_planId q)) (\<lambda>wanted.
     attempt (planOperationId H (tpq_operationId q)) (\<lambda>i.
     attempt (requestedPlanStoreRevision H (tpq_expectedStoreRevision q) ''expected_store_revision'' 0) (\<lambda>sr.
     attempt (requestedPlanStoreRevision H (tpq_expectedPlanRevision q) ''expected_plan_revision'' 1) (\<lambda>pr.
     guard (throw_if (tc_expectedRevision (tpq_conditions q) \<noteq> None
         \<and> tc_expectedRevision (tpq_conditions q) \<noteq> Some pr) (dps_error ''expected_plan_revision_conflict''))
    (attempt (planRequestSnapshot H H (JObj
         [(''planId'', JStr wanted), (''expectedStoreRevision'', JNum sr), (''expectedPlanRevision'', JNum pr),
          (''to'', JStr (tpq_to q)), (''conditions'', conditions_json (tpq_conditions q))])) (\<lambda>digest.
     Inr \<lparr>pp_id = i, pp_digest = digest, pp_storeRevision = sr, pt_planId = wanted, pt_planRevision = pr,
          pt_to = tpq_to q, pt_conditions = tpq_conditions q\<rparr>))))))"

fun preparePlanRequest :: "host \<Rightarrow> plan_request \<Rightarrow> plan_mutation result" where
  "preparePlanRequest H (PR_create q) = attempt (preparePlanCreate H q) (\<lambda>p. Inr (PM_create p))"
| "preparePlanRequest H (PR_update q) = attempt (preparePlanUpdate H q) (\<lambda>p. Inr (PM_update p))"
| "preparePlanRequest H (PR_transition q) = attempt (preparePlanTransition H q) (\<lambda>p. Inr (PM_transition p))"

section \<open>Decisions\<close>

definition plan_reply :: "delivery_plan receipt_store \<Rightarrow> delivery_plan \<Rightarrow> delivery_plan reply" where
  "plan_reply s plan = \<lparr>ry_replayed = False, ry_storeRevision = st_revision s + 1, ry_item = plan\<rparr>"

text \<open>The part of a mutator after the test for a replay; first the creation.\<close>

definition freshPlanCreate ::
  "host \<Rightarrow> prepared_plan_create \<Rightarrow> delivery_plan environment \<Rightarrow> delivery_plan receipt_store \<Rightarrow>
   delivery_plan decision result" where
  "freshPlanCreate H p env s =
     guard (throws
       [assertPlanStoreRevision H s (pp_storeRevision p), assertMutationCapacity H s True])
    (attempt (planTimestamp H (en_now env)) (\<lambda>at.
     attempt (planId (case yi_id (pp_plan p) of
         Some x \<Rightarrow> if x = [] then en_newId env else x | None \<Rightarrow> en_newId env)) (\<lambda>candidateId.
     guard (throw_if (list_ex (\<lambda>c. pl_id c = candidateId) (st_items s)) (dps_error ''plan_duplicate''))
    (case validateDeliveryPlan H at (created_plan_input (pp_plan p) candidateId at) of
       Inl cause \<Rightarrow> Inl (dps_error ''plan_invalid'')
     | Inr plan \<Rightarrow>
         guard (throws
           [throw_if (MAX_PLAN_BYTES < byteLength (plan_json plan)) (dps_error ''plan_too_large''),
            assertCreateLifecycle plan, assertPlanChronology H s at])
        (attempt (nextPlanStore H s (pp_id p) ''plan.create'' (pp_digest p) at plan)
           (\<lambda>t. Inr (Commit t (plan_reply s plan))))))))"

text \<open>The shared part of an update and a transition.\<close>

definition freshPlanChange ::
  "host \<Rightarrow> 'a prepared_plan_scheme \<Rightarrow> string \<Rightarrow> int \<Rightarrow> string \<Rightarrow> plan_operation \<Rightarrow> delivery_plan environment \<Rightarrow>
   delivery_plan receipt_store \<Rightarrow> delivery_plan decision result" where
  "freshPlanChange H p wanted expectedPlanRevision action op env s =
     guard (throws
       [assertPlanStoreRevision H s (pp_storeRevision p), assertMutationCapacity H s False])
    (case find (\<lambda>c. pl_id c = wanted) (st_items s) of
       None \<Rightarrow> Inl (dps_error ''plan_not_found'')
     | Some plan \<Rightarrow>
         guard (throw_if (pl_revision plan \<noteq> expectedPlanRevision) (dps_error ''plan_revision_conflict''))
        (attempt (planTimestamp H (en_now env)) (\<lambda>at.
         attempt (apply_plan_operation H at op at plan) (\<lambda>changed.
         guard (assertPlanChronology H s at)
        (attempt (nextPlanStore H s (pp_id p) action (pp_digest p) at changed)
           (\<lambda>t. Inr (Commit t (plan_reply s changed))))))))"

definition freshPlanUpdate ::
  "host \<Rightarrow> prepared_plan_update \<Rightarrow> delivery_plan environment \<Rightarrow> delivery_plan receipt_store \<Rightarrow>
   delivery_plan decision result" where
  "freshPlanUpdate H p = freshPlanChange H p (pp_planId p) (pp_planRevision p) ''plan.update'' (Update (pp_patch p))"

definition freshPlanTransition ::
  "host \<Rightarrow> prepared_plan_transition \<Rightarrow> delivery_plan environment \<Rightarrow> delivery_plan receipt_store \<Rightarrow>
   delivery_plan decision result" where
  "freshPlanTransition H p = freshPlanChange H p (pt_planId p) (pt_planRevision p) ''plan.transition''
     (Transition (pt_to p) ((pt_conditions p)\<lparr>tc_expectedRevision := Some (pt_planRevision p)\<rparr>))"

fun plan_fresh ::
  "host \<Rightarrow> plan_mutation \<Rightarrow> delivery_plan environment \<Rightarrow> delivery_plan receipt_store \<Rightarrow>
   delivery_plan decision result" where
  "plan_fresh H (PM_create p) = freshPlanCreate H p"
| "plan_fresh H (PM_update p) = freshPlanUpdate H p"
| "plan_fresh H (PM_transition p) = freshPlanTransition H p"

fun plan_identity :: "plan_mutation \<Rightarrow> string \<times> string \<times> string" where
  "plan_identity (PM_create p) = (pp_id p, ''plan.create'', pp_digest p)"
| "plan_identity (PM_update p) = (pp_id p, ''plan.update'', pp_digest p)"
| "plan_identity (PM_transition p) = (pp_id p, ''plan.transition'', pp_digest p)"

definition plan_decide ::
  "host \<Rightarrow> plan_mutation \<Rightarrow> delivery_plan environment \<Rightarrow> delivery_plan receipt_store \<Rightarrow>
   delivery_plan decision result" where
  "plan_decide H op env s =
     (case plan_identity op of (i, action, digest) \<Rightarrow>
      attempt (planOperationReplay H s i action digest) (\<lambda>replay.
        case replay of Some y \<Rightarrow> Inr (Replay y) | None \<Rightarrow> plan_fresh H op env s))"

section \<open>The repository's operations\<close>

type_synonym plan_repository = "delivery_plan repository"

text \<open>\<open>create\<close>, \<open>update\<close> and \<open>transition\<close>: an error in the request is answered without the queue.\<close>

definition handle_plan_request ::
  "host \<Rightarrow> delivery_plan environment \<Rightarrow> plan_request \<Rightarrow> plan_repository \<Rightarrow>
   delivery_plan reply result \<times> plan_repository" where
  "handle_plan_request H env rq repo =
     (case preparePlanRequest H rq of
        Inl e \<Rightarrow> (Inl e, repo)
      | Inr op \<Rightarrow> mutatePlans H env (plan_decide H op env) repo)"

text \<open>The history of a plan: a receipt whose snapshot repeats the previous one is left out.\<close>

fun changed_receipts :: "delivery_plan option \<Rightarrow> delivery_plan receipt list \<Rightarrow> delivery_plan receipt list" where
  "changed_receipts previous [] = []"
| "changed_receipts previous (c # cs) =
     (if (case previous of None \<Rightarrow> False
          | Some p \<Rightarrow> canonicalJson (plan_json p) = canonicalJson (plan_json (rc_item c)))
      then changed_receipts previous cs
      else c # changed_receipts (Some (rc_item c)) cs)"

definition get_plan ::
  "host \<Rightarrow> delivery_plan environment \<Rightarrow> string \<Rightarrow> bool \<Rightarrow> plan_repository \<Rightarrow>
   (delivery_plan \<times> delivery_plan receipt list option) option result \<times> plan_repository" where
  "get_plan H env value includeHistory repo =
     (case planId value of
        Inl e \<Rightarrow> (Inl e, repo)
      | Inr wanted \<Rightarrow> afterPlanMutations H env (\<lambda>s. Inr
          (case find (\<lambda>c. pl_id c = wanted) (st_items s) of
             None \<Rightarrow> None
           | Some plan \<Rightarrow> Some (plan, if includeHistory
               then Some (changed_receipts None (filter (\<lambda>c. pl_id (rc_item c) = wanted) (st_operations s)))
               else None))) repo)"

section \<open>Summaries\<close>

record plan_summary =
  ps_id :: string
  ps_revision :: int
  ps_phase :: string
  ps_title :: string
  ps_digest :: string
  ps_ready :: bool
  ps_errorCount :: nat
  ps_warningCount :: nat
  ps_updatedAt :: string

record plan_counts =
  ct_total :: nat
  ct_active :: nat
  ct_terminal :: nat
  ct_done :: nat
  ct_canceled :: nat
  ct_draft :: nat
  ct_needsDecision :: nat
  ct_awaitingApproval :: nat
  ct_approved :: nat
  ct_closed :: nat
  ct_operations :: nat

record plan_store_summary =
  sm_version :: int
  sm_revision :: int
  sm_counts :: plan_counts
  sm_active :: "plan_summary list"
  sm_recent :: "plan_summary list"

definition planSummary :: "host \<Rightarrow> string \<Rightarrow> delivery_plan \<Rightarrow> plan_summary result" where
  "planSummary H now p =
     attempt (lintDeliveryPlanReadiness H now p) (\<lambda>readiness.
     attempt (deliveryPlanDigest H now p) (\<lambda>digest.
     Inr \<lparr>ps_id = pl_id p, ps_revision = pl_revision p, ps_phase = pl_phase p, ps_title = pl_title p,
       ps_digest = digest, ps_ready = rd_ready readiness, ps_errorCount = length (rd_errors readiness),
       ps_warningCount = length (rd_warnings readiness), ps_updatedAt = pl_updatedAt p\<rparr>))"

definition newestPlanFirst :: "host \<Rightarrow> delivery_plan \<Rightarrow> delivery_plan \<Rightarrow> int" where
  "newestPlanFirst H l r =
     (let d = date_ms (pl_updatedAt r) - date_ms (pl_updatedAt l) in
      if d \<noteq> 0 then d else localeCompare H (pl_id l) (pl_id r))"

definition planLimit :: "int option \<Rightarrow> int \<Rightarrow> string \<Rightarrow> nat result" where
  "planLimit value fallback field =
     (let r = (case value of None \<Rightarrow> fallback | Some n \<Rightarrow> n) in
      guard (throw_if (\<not> safe_integer r \<or> r < 0 \<or> MAX_SUMMARY_ITEMS < r) (dps_error (field @ ''_invalid'')))
        (Inr (nat r)))"

definition phase_count :: "string list \<Rightarrow> delivery_plan list \<Rightarrow> nat" where
  "phase_count phases ps = length (filter (\<lambda>p. pl_phase p \<in> set phases) ps)"

definition planStoreSummary ::
  "host \<Rightarrow> string \<Rightarrow> int option \<Rightarrow> int option \<Rightarrow> delivery_plan receipt_store \<Rightarrow> plan_store_summary result" where
  "planStoreSummary H now activeLimit recentLimit s =
     attempt (planLimit activeLimit 50 ''active_limit'') (\<lambda>activeMax.
     attempt (planLimit recentLimit 20 ''recent_limit'') (\<lambda>recentMax.
     (let active = sort_by (newestPlanFirst H) (filter (\<lambda>p. pl_phase p \<notin> set TERMINAL_PHASES) (st_items s));
          terminal = sort_by (newestPlanFirst H) (filter (\<lambda>p. pl_phase p \<in> set TERMINAL_PHASES) (st_items s))
      in attempt (map_result (planSummary H now) (take activeMax active)) (\<lambda>activeRows.
         attempt (map_result (planSummary H now) (take recentMax terminal)) (\<lambda>recentRows.
         Inr \<lparr>sm_version = st_version s, sm_revision = st_revision s,
           sm_counts = \<lparr>ct_total = length (st_items s), ct_active = length active,
             ct_terminal = length terminal, ct_done = phase_count [''done''] terminal,
             ct_canceled = phase_count [''canceled''] terminal, ct_draft = phase_count [''draft''] (st_items s),
             ct_needsDecision = phase_count [''needs_decision'', ''blocked''] (st_items s),
             ct_awaitingApproval = phase_count [''ready_for_approval''] (st_items s),
             ct_approved = phase_count [''approved''] (st_items s), ct_closed = length terminal,
             ct_operations = length (st_operations s)\<rparr>,
           sm_active = activeRows, sm_recent = recentRows\<rparr>)))))"

definition list_plans ::
  "host \<Rightarrow> delivery_plan environment \<Rightarrow> string \<Rightarrow> int option \<Rightarrow> int option \<Rightarrow> plan_repository \<Rightarrow>
   plan_store_summary result \<times> plan_repository" where
  "list_plans H env now activeLimit recentLimit repo =
     afterPlanMutations H env (planStoreSummary H now activeLimit recentLimit) repo"

section \<open>The contract of the repository\<close>

lemma freshPlanChange_Inr:
  assumes "freshPlanChange H p wanted r action op env s = Inr z"
  obtains plan q t where
    "find (\<lambda>c. pl_id c = wanted) (st_items s) = Some plan" "pl_revision plan = r"
    "st_revision s = pp_storeRevision p" "length (st_operations s) < 1024"
    "apply_plan_operation H (en_now env) op (en_now env) plan = Inr q"
    "nextStore (plan_module H) s (pp_id p) action (pp_digest p) (en_now env) q = Inr t"
    "z = Commit t (plan_reply s q)"
  using assms
  by (auto simp: freshPlanChange_def assertStoreRevision_def assertCapacity_def st_timestamp_def
      split: option.splits)

lemma freshPlanCreate_Inr:
  assumes "freshPlanCreate H p env s = Inr z"
  obtains plan t i where
    "st_revision s = pp_storeRevision p" "length (st_operations s) < 1024" "length (st_items s) < 128"
    "valid_timestamp (en_now env)" "plan_id_pattern i" "\<forall>c \<in> set (st_items s). pl_id c \<noteq> i"
    "validateDeliveryPlan H (en_now env) (created_plan_input (pp_plan p) i (en_now env)) = Inr plan"
    "assertCreateLifecycle plan = None"
    "nextStore (plan_module H) s (pp_id p) ''plan.create'' (pp_digest p) (en_now env) plan = Inr t"
    "z = Commit t (plan_reply s plan)"
  using assms
  by (auto simp: freshPlanCreate_def assertStoreRevision_def assertCapacity_def st_timestamp_def list_ex_iff
      planId_def Let_def split: sum.splits)

interpretation stored_plans: durable_repository "plan_module H" plan_identity "plan_fresh H" "plan_decide H"
  for H :: host
proof
  let ?M = "plan_module H" and ?e = "emptyReceiptStore (plan_module H)"
  have "utf8_length (canonicalJson (store_json ?M ?e)) = 53"
    by (simp add: emptyReceiptStore_def store_json_def) code_simp
  then show "validateReceiptStore ?M ?e = Inr ?e"
    by (simp add: validateReceiptStore_def byteLength_def MAX_STORE_BYTES_def)
      (simp add: emptyReceiptStore_def each_indexed_def safe_integer_def MAX_SAFE_INTEGER_def)
next
  show "plan_decide H op env s = (case plan_identity op of (i, action, digest) \<Rightarrow>
      attempt (operationReplay (plan_module H) s i action digest) (\<lambda>replay.
        case replay of Some y \<Rightarrow> Inr (Replay y) | None \<Rightarrow> plan_fresh H op env s))" for op env s
    by (simp add: plan_decide_def)
next
  fix op env s z i action digest
  assume "plan_fresh H op env s = Inr z" "plan_identity op = (i, action, digest)"
  then show "\<exists>x at next. nextStore (plan_module H) s i action digest at x = Inr next \<and>
      z = Commit next \<lparr>ry_replayed = False, ry_storeRevision = st_revision s + 1, ry_item = x\<rparr>"
    by (cases op) (auto simp: plan_reply_def freshPlanUpdate_def freshPlanTransition_def
        elim!: freshPlanChange_Inr freshPlanCreate_Inr)
next
  show "canonicalJson (store_json (plan_module H) a) = canonicalJson (store_json (plan_module H) b) \<Longrightarrow> a = b"
    for a b by (rule canonicalJson_faithful [OF store_json_faithful]) (simp_all add: plan_json_faithful)
qed

end
