(* ===== verification/PlanStoreFacts.thy ===== *)
theory PlanStoreFacts
  imports DeliveryPlanStore StoreCourse
begin

text \<open>
  The store of delivery plans against delivery-plan.js: what the strict check accepts, the
  lifecycle of consecutive receipts, and the receipts of a plan as its history.
\<close>

section \<open>The strict check\<close>

lemma strictPlan_eq:
  "strictPlan H now e v =
     (if sound_plan H v
      then guard (throw_if (MAX_PLAN_BYTES < byteLength (plan_json v)) (dps_error ''plan_too_large'')) (Inr v)
      else Inl e)"
proof (cases "sound_plan H v")
  case True
  then show ?thesis by (simp add: strictPlan_def sound_plan_valid throw_if_def)
next
  case False
  have "canonicalJson (plan_json v) \<noteq> canonicalJson (plan_json w)" if "validateDeliveryPlan H now v = Inr w" for w
    using that False canonicalJson_faithful [OF plan_json_faithful, of v w] by (auto simp: validateDeliveryPlan_Inr)
  with False show ?thesis by (auto simp: strictPlan_def split: sum.splits)
qed

text \<open>The clock that the validator would read does not matter.\<close>

lemma strictPlan_clock: "strictPlan H now e v = strictPlan H now' e v"
  by (simp add: strictPlan_eq)

lemma strictPlan_Inr:
  "strictPlan H now e v = Inr p \<longleftrightarrow> sound_plan H v \<and> byteLength (plan_json v) \<le> MAX_PLAN_BYTES \<and> p = v"
  by (auto simp: strictPlan_eq)

interpretation strict_plans: strict_module "plan_module H" for H :: host
  by unfold_locales (auto simp: strictPlan_Inr MAX_SAFE_INTEGER_def plan_json_faithful)

lemma stored_plan_sound:
  assumes "validateReceiptStore (plan_module H) s = Inr s" "p \<in> set (st_items s)"
  shows "sound_plan H p"
  using strict_plans.valid_store_history [OF assms(1)] assms(2) unfolding plan_module_simps
  by (metis strictPlan_Inr)

section \<open>The lifecycle of consecutive receipts\<close>

lemma created_plan_start:
  assumes "sound_plan H p" "assertCreateLifecycle p = None"
  shows "plan_start H p"
  using assms
  by (cases "pl_gates p") (auto simp: plan_start_def assertCreateLifecycle_def emptyGates_def)

lemma plan_create_lifecycle:
  assumes "assertCreateLifecycle p = None" "rc_action c = ''plan.create''" "rc_item c = p"
  shows "plan_receipt_lifecycle c None = None"
  using assms by (simp add: plan_receipt_lifecycle_def assertCreateLifecycle_def Let_def)

lemma plan_change_lifecycle:
  assumes sound: "sound_plan H p" and op: "apply_plan_operation H now op at p = Inr q"
    and c: "rc_item c = q" "rc_action c = (case op of Transition to x \<Rightarrow> ''plan.transition'' | _ \<Rightarrow> ''plan.update'')"
  shows "plan_receipt_lifecycle c (Some p) = None"
proof -
  note frame = sound_operation_frame [OF sound op]
  have "pl_revision q = pl_revision p + 1" if "op = Transition to x" for to x
    using that op transition_outcome [OF sound, of now to x at q] by simp
  with frame c show ?thesis
    by (cases op) (auto simp: plan_receipt_lifecycle_def Let_def)
qed

lemma plan_id_word: "plan_id_pattern i \<Longrightarrow> normalizedWord i = i"
proof -
  assume "plan_id_pattern i"
  then have "list_all lower_id_char i"
    unfolding plan_id_pattern_def by (rule id_pattern_all) (auto simp: lower_id_start_def lower_id_char_def is_lower_def code_def)
  then show ?thesis unfolding normalizedWord_def by (rule lower_id_normal)
qed

lemma created_plan_id:
  assumes "validateDeliveryPlan H now (created_plan_input v i at) = Inr p" "plan_id_pattern i"
  shows "pl_id p = i"
  using assms plan_id_word
  by (auto simp: validateDeliveryPlan_Inr normalizeDeliveryPlan_def Let_def created_plan_input_def)

section \<open>The history of a plan\<close>

lemma plan_create_course:
  assumes "freshPlanCreate H p env s = Inr (Commit t y)"
  shows "course_commit (plan_module H) (plan_start H) (plan_step_relation H) s t"
  using assms
proof (rule freshPlanCreate_Inr)
  fix plan t' i
  assume i: "plan_id_pattern i" and new: "\<forall>c \<in> set (st_items s). pl_id c \<noteq> i"
    and valid: "validateDeliveryPlan H (en_now env) (created_plan_input (pp_plan p) i (en_now env)) = Inr plan"
    and cycle: "assertCreateLifecycle plan = None"
    and n: "nextStore (plan_module H) s (pp_id p) ''plan.create'' (pp_digest p) (en_now env) plan = Inr t'"
    and "Commit t y = Commit t' (plan_reply s plan)"
  then have t: "t' = t" by simp
  have "plan_start H plan" using valid cycle by (auto simp: validateDeliveryPlan_Inr intro: created_plan_start)
  moreover have "pl_id plan \<notin> pl_id ` set (st_items s)" using created_plan_id [OF valid i] new by auto
  ultimately show ?thesis using course_commit_new [OF n [unfolded t]] by simp
qed

lemma plan_change_course:
  assumes "validateReceiptStore (plan_module H) s = Inr s"
    "freshPlanChange H p wanted r action op env s = Inr (Commit t y)"
  shows "course_commit (plan_module H) (plan_start H) (plan_step_relation H) s t"
  using assms(2)
proof (rule freshPlanChange_Inr)
  fix plan q t'
  assume plan: "find (\<lambda>c. pl_id c = wanted) (st_items s) = Some plan"
    and op: "apply_plan_operation H (en_now env) op (en_now env) plan = Inr q"
    and n: "nextStore (plan_module H) s (pp_id p) action (pp_digest p) (en_now env) q = Inr t'"
    and "Commit t y = Commit t' (plan_reply s q)"
  then have t: "t' = t" by simp
  have mem: "plan \<in> set (st_items s)" using find_SomeD [OF plan] by simp
  have sound: "sound_plan H plan" by (rule stored_plan_sound [OF assms(1) mem])
  have "pl_id q = pl_id plan" using sound_operation_frame [OF sound op] by auto
  moreover have "plan_step_relation H plan q" using sound op by (rule plan_step)
  ultimately show ?thesis using course_commit_step [OF n [unfolded t] mem] by simp
qed

interpretation plan_courses: item_course "plan_module H" plan_identity "plan_fresh H" "plan_decide H"
  "plan_start H" "plan_step_relation H" "\<lambda>s. True" for H :: host
proof
  fix s op env t y
  assume "validateReceiptStore (plan_module H) s = Inr s" "plan_fresh H op env s = Inr (Commit t y)"
  then show "True \<and> course_commit (plan_module H) (plan_start H) (plan_step_relation H) s t"
    by (cases op) (auto simp: freshPlanUpdate_def freshPlanTransition_def
        dest: plan_create_course plan_change_course)
qed simp

abbreviation plan_mutates :: "host \<Rightarrow> plan_repository \<Rightarrow> plan_repository \<Rightarrow> bool" where
  "plan_mutates H \<equiv> mutates (plan_module H) (plan_decide H)"

abbreviation plan_repository_reached :: "host \<Rightarrow> plan_repository \<Rightarrow> bool" where
  "plan_repository_reached H \<equiv> reaches (\<lambda>repo. repo = new_repository F_absent) (plan_mutates H)"

abbreviation plan_repository_open :: "host \<Rightarrow> plan_repository \<Rightarrow> bool" where
  "plan_repository_open H \<equiv> reaches opened (plan_mutates H)"

section \<open>What a change writes\<close>

text \<open>The plan, the revision and the operation that an update or a transition asks for.\<close>

fun plan_target :: "plan_mutation \<Rightarrow> (string \<times> int \<times> plan_operation) option" where
  "plan_target (PM_create p) = None"
| "plan_target (PM_update p) = Some (pp_planId p, pp_planRevision p, Update (pp_patch p))"
| "plan_target (PM_transition p) = Some (pt_planId p, pt_planRevision p,
     Transition (pt_to p) ((pt_conditions p)\<lparr>tc_expectedRevision := Some (pt_planRevision p)\<rparr>))"

fun mutation_revision :: "plan_mutation \<Rightarrow> int" where
  "mutation_revision (PM_create p) = pp_storeRevision p"
| "mutation_revision (PM_update p) = pp_storeRevision p"
| "mutation_revision (PM_transition p) = pp_storeRevision p"

definition plan_receipt ::
  "plan_mutation \<Rightarrow> string \<Rightarrow> delivery_plan receipt_store \<Rightarrow> delivery_plan \<Rightarrow> delivery_plan receipt" where
  "plan_receipt m at s q = (case plan_identity m of (i, action, digest) \<Rightarrow>
     \<lparr>rc_id = i, rc_action = action, rc_requestDigest = digest, rc_at = at,
      rc_storeRevision = st_revision s + 1, rc_item = q\<rparr>)"

lemma prepared_identity:
  assumes "preparePlanRequest H rq = Inr m" "\<And>s. digest_pattern (sha256hex H s)" "plan_identity m = (i, action, digest)"
  shows "operation_id_pattern i" "action \<in> set PLAN_ACTIONS" "digest_pattern digest"
  using assms
  by (cases rq; auto simp: preparePlanCreate_def preparePlanUpdate_def preparePlanTransition_def
      st_operationId_def requestSnapshot_def requestedRevision_def Let_def canonicalSha256_def PLAN_ACTIONS_def)+

lemma target_fresh:
  assumes "plan_target m = Some (wanted, r, op)" "plan_identity m = (i, action, digest)"
  shows "plan_fresh H m env s =
     guard (throws
       [assertStoreRevision (plan_module H) s (mutation_revision m), assertCapacity (plan_module H) s False])
    (case find (\<lambda>c. pl_id c = wanted) (st_items s) of
       None \<Rightarrow> Inl (dps_error ''plan_not_found'')
     | Some plan \<Rightarrow>
         guard (throw_if (pl_revision plan \<noteq> r) (dps_error ''plan_revision_conflict''))
        (attempt (st_timestamp (plan_module H) (en_now env)) (\<lambda>at.
         attempt (apply_plan_operation H at op at plan) (\<lambda>changed.
         guard (assertChronology (plan_module H) s at)
        (attempt (nextStore (plan_module H) s i action digest at changed)
           (\<lambda>t. Inr (Commit t (plan_reply s changed))))))))"
  using assms
  by (cases m) (auto simp: freshPlanUpdate_def freshPlanTransition_def freshPlanChange_def)

lemma target_action:
  assumes "plan_target m = Some (wanted, r, op)" "plan_identity m = (i, action, digest)"
  shows "action = (case op of Transition to x \<Rightarrow> ''plan.transition'' | _ \<Rightarrow> ''plan.update'')"
  using assms by (cases m) auto

lemma plan_change_stored:
  assumes hex: "\<And>s. digest_pattern (sha256hex H s)" and rq: "preparePlanRequest H rq = Inr m"
    and m: "plan_target m = Some (wanted, r, op)" "plan_identity m = (i, action, digest)"
    and valid: "validateReceiptStore (plan_module H) s = Inr s"
    and plan: "find (\<lambda>c. pl_id c = wanted) (st_items s) = Some plan"
    and new: "i \<notin> set (map rc_id (st_operations s))" "length (st_operations s) < 1024"
    and clock: "valid_timestamp at" "assertChronology (plan_module H) s at = None"
    and op: "apply_plan_operation H now op at plan = Inr q"
    and size: "byteLength (plan_json q) \<le> MAX_PLAN_BYTES"
  shows "nextStore (plan_module H) s i action digest at q =
    guard (throw_if (MAX_STORE_BYTES <
        byteLength (store_json (plan_module H) (appended (plan_module H) s (plan_receipt m at s q))))
      (dps_error ''too_large''))
    (Inr (appended (plan_module H) s (plan_receipt m at s q)))"
proof -
  note form = prepared_identity [OF rq hex m(2)]
  have mem: "plan \<in> set (st_items s)" using find_SomeD [OF plan] by simp
  have sound: "sound_plan H plan" by (rule stored_plan_sound [OF valid mem])
  have kept: "pl_id q = pl_id plan" using sound_operation_frame [OF sound op] by auto
  have latest: "latest_of pl_id (pl_id plan) (st_operations s) = Some plan"
    using strict_plans.valid_store_history [OF valid] mem unfolding plan_module_simps by metis
  have e: "guard (throw_if (MAX_STORE_BYTES < byteLength (store_json (plan_module H) t)) (dps_error ''too_large'')) (Inr t) =
      guard (md_storeLimit (plan_module H) (store_json (plan_module H) t) t) (Inr t)" for t
    by (simp add: compactLimit_def)
  note v = validateReceiptStore_Inr [OF valid]
  have "length (put_item pl_id (st_items s) q) = card (insert (pl_id q) (pl_id ` set (st_items s)))"
    using strict_plans.put_item_length [of H "st_items s" q] v by simp
  also have "\<dots> = length (st_items s)"
    using mem kept v distinct_card [of "map pl_id (st_items s)"] by (simp add: insert_absorb)
  finally have room: "length (put_item pl_id (st_items s) q) \<le> 128" using v by simp
  show ?thesis
    unfolding e
  proof (rule strict_plans.nextStore_total)
    show "md_strict (plan_module H) (Error []) q = Inr q"
      using operation_sound [OF op] size by (simp add: strictPlan_Inr)
    show "md_lifecycle (plan_module H) (plan_receipt m at s q)
        (latest_of (md_id (plan_module H)) (md_id (plan_module H) q) (st_operations s)) = None"
      using plan_change_lifecycle [OF sound op, of "plan_receipt m at s q"] target_action [OF m] m(2)
      by (simp add: kept latest plan_receipt_def)
    show "length (put_item (md_id (plan_module H)) (st_items s) q) \<le> md_maxItems (plan_module H)"
      using room by simp
  qed (use valid new clock form m(2) in \<open>simp_all add: plan_receipt_def\<close>)
qed

lemma plan_fresh_lookup:
  "i \<notin> set (map rc_id (st_operations s)) \<Longrightarrow> plan_identity m = (i, action, digest) \<Longrightarrow>
   plan_decide H m env s = plan_fresh H m env s"
proof -
  assume i: "i \<notin> set (map rc_id (st_operations s))" and m: "plan_identity m = (i, action, digest)"
  have "find (\<lambda>c. rc_id c = i) (st_operations s) = None" unfolding find_key_None using i .
  with m show ?thesis by (simp add: plan_decide_def operationReplay_def)
qed

text \<open>What a creation writes.\<close>

lemma plan_create_stored:
  assumes hex: "\<And>s. digest_pattern (sha256hex H s)" and rq: "preparePlanRequest H rq = Inr m"
    and m: "plan_identity m = (i, ''plan.create'', digest)"
    and valid: "validateReceiptStore (plan_module H) s = Inr s"
    and new: "i \<notin> set (map rc_id (st_operations s))" "length (st_operations s) < 1024"
      "pl_id p \<notin> pl_id ` set (st_items s)" "length (st_items s) < 128"
    and clock: "valid_timestamp at" "assertChronology (plan_module H) s at = None"
    and p: "sound_plan H p" "assertCreateLifecycle p = None" "byteLength (plan_json p) \<le> MAX_PLAN_BYTES"
  shows "nextStore (plan_module H) s i ''plan.create'' digest at p =
    guard (throw_if (MAX_STORE_BYTES <
        byteLength (store_json (plan_module H) (appended (plan_module H) s (plan_receipt m at s p))))
      (dps_error ''too_large''))
    (Inr (appended (plan_module H) s (plan_receipt m at s p)))"
proof -
  note form = prepared_identity [OF rq hex m]
  have e: "guard (throw_if (MAX_STORE_BYTES < byteLength (store_json (plan_module H) t)) (dps_error ''too_large'')) (Inr t) =
      guard (md_storeLimit (plan_module H) (store_json (plan_module H) t) t) (Inr t)" for t
    by (simp add: compactLimit_def)
  have "set (map (pl_id \<circ> rc_item) (st_operations s)) = pl_id ` set (st_items s)"
    using strict_plans.valid_store_history [OF valid] unfolding plan_module_simps by (metis set_map)
  then have "pl_id (rc_item c) \<noteq> pl_id p" if "c \<in> set (st_operations s)" for c
    using new(3) that by (metis comp_apply image_eqI set_map)
  then have none: "latest_of pl_id (pl_id p) (st_operations s) = None"
    by (simp add: latest_of_def Let_def filter_empty_conv)
  have put: "put_item pl_id (st_items s) p = st_items s @ [p]"
    using new(3) unfolding put_item_def list_ex_iff by (metis image_eqI)
  show ?thesis
    unfolding e
  proof (rule strict_plans.nextStore_total)
    show "md_strict (plan_module H) (Error []) p = Inr p" using p(1,3) by (simp add: strictPlan_Inr)
    show "md_lifecycle (plan_module H) (plan_receipt m at s p)
        (latest_of (md_id (plan_module H)) (md_id (plan_module H) p) (st_operations s)) = None"
      using plan_create_lifecycle [OF p(2), of "plan_receipt m at s p"] m by (simp add: none plan_receipt_def)
  qed (use valid new clock form put m in \<open>simp_all add: plan_receipt_def\<close>)
qed

end
