(* ===== verification/PlanStoreProperties.thy ===== *)
theory PlanStoreProperties
  imports PlanStoreFacts PlanProperties
begin

text \<open>The properties of the store of delivery plans, with their witnesses on a concrete store.\<close>

section \<open>A concrete store\<close>

abbreviation plans_M :: "delivery_plan store_module" where
  "plans_M \<equiv> plan_module plan_host"

definition plan_env :: "char \<Rightarrow> delivery_plan environment" where
  "plan_env c = \<lparr>en_now = plan_time c, en_newId = ''plan-12345678'', en_directory = None,
     en_initial = W_done, en_write = W_done\<rparr>"

lemma plan_env_simps [simp]:
  "en_now (plan_env c) = plan_time c" "en_directory (plan_env c) = None"
  "en_initial (plan_env c) = W_done" "en_write (plan_env c) = W_done" "en_newId (plan_env c) = ''plan-12345678''"
  by (simp_all add: plan_env_def)

text \<open>The request that creates the example plan; it leaves the identifier to the store.\<close>

definition toy_plan_input :: plan_input where
  "toy_plan_input =
     \<lparr>xx_title = Some ''t'', xx_request = Some ''r'', xx_workspace = Some ''/w'', xx_unresolvedQuestions = None,
      xx_baseline = Some \<lparr>xb_head = Some ''abcdef0'', xb_workingTreeDigest = Some (replicate 64 CHR ''1''),
        xb_instructionsDigest = Some (replicate 64 CHR ''2''), xb_capturedAt = Some (plan_time CHR ''0'')\<rparr>,
      xx_classification = Some \<lparr>xc_intent = Some ''change'', xc_depth = Some ''quick'', xc_risk = Some ''read_only'',
        xc_dataClasses = None, xc_mutationSurfaces = None\<rparr>,
      xx_authority = Some \<lparr>xa_workspaceWrite = Some True, xa_commit = None, xa_push = None, xa_deploy = None,
        xa_network = None, xa_serviceControl = None, xa_destructive = None, xa_externalMessages = None\<rparr>,
      xx_roles = Some
        \<lparr>xl_po = Some \<lparr>xp_user = Some ''u'', xp_problem = Some ''p'', xp_outcome = Some ''o'', xp_value = Some ''v'',
           xp_nonGoals = Some [''n''], xp_assumptions = None, xp_openQuestions = None\<rparr>,
         xl_ba = Some \<lparr>xr_requirements = Some (ba_requirements (rl_ba toy_roles)), xr_dependencies = None,
           xr_edgeCases = None, xr_constraints = None, xr_openQuestions = None\<rparr>,
         xl_dev = Some \<lparr>xd_architecture = Some ''a'', xd_steps = Some (dv_steps (rl_dev toy_roles)), xd_risks = None,
           xd_rollback = Some ''b'', xd_openQuestions = None\<rparr>,
         xl_qa = Some \<lparr>xq_acceptanceCriteria = Some (qa_acceptanceCriteria (rl_qa toy_roles)),
           xq_testStrategy = Some ''s'', xq_regressionChecks = Some [''g''], xq_releaseRequired = None,
           xq_releaseChecks = None, xq_openQuestions = None\<rparr>\<rparr>,
      yi_version = None, yi_id = None, yi_revision = None, yi_phase = Some ''planning'', yi_approval = None,
      yi_gates = None, yi_blocker = None, yi_createdAt = None, yi_updatedAt = None\<rparr>"

definition toy_plan_create :: create_plan_request where
  "toy_plan_create = \<lparr>cpq_operationId = ''create-1'', cpq_expectedStoreRevision = 0, cpq_plan = toy_plan_input\<rparr>"

definition toy_plan_offer :: transition_plan_request where
  "toy_plan_offer = \<lparr>tpq_planId = ''plan-12345678'', tpq_operationId = ''offer-01'', tpq_expectedStoreRevision = 1,
     tpq_expectedPlanRevision = 1, tpq_to = ''ready_for_approval'', tpq_conditions = conditions_met []\<rparr>"

lemma toy_plan_created: "created_plan_input toy_plan_input ''plan-12345678'' (plan_time CHR ''0'') = toy_plan"
  by (simp add: created_plan_input_def toy_plan_input_def toy_plan_def mergedDefinition_def blank_plan_def
      patch_defs toy_roles_def patch_roles_def patch_authority_def DELIVERY_PLAN_VERSION_def)

definition toy_plan_creation :: plan_mutation where
  "toy_plan_creation = PM_create \<lparr>pp_id = ''create-1'', pp_digest = replicate 63 CHR ''0'' @ ''3'',
     pp_storeRevision = 0, pp_plan = toy_plan_input\<rparr>"

definition toy_plan_offering :: plan_mutation where
  "toy_plan_offering = PM_transition \<lparr>pp_id = ''offer-01'', pp_digest = replicate 63 CHR ''0'' @ ''5'',
     pp_storeRevision = 1, pt_planId = ''plan-12345678'', pt_planRevision = 1, pt_to = ''ready_for_approval'',
     pt_conditions = conditions_met []\<rparr>"

lemma toy_prepares:
  "preparePlanRequest plan_host (PR_create toy_plan_create) = Inr toy_plan_creation"
  "preparePlanRequest plan_host (PR_transition toy_plan_offer) = Inr toy_plan_offering"
  by code_simp+

lemma plan_sha: "digest_pattern (sha256hex plan_host s)"
proof -
  have "is_hex (hex_digit n)" if "n < 16" for n
    using that by (auto simp: hex_digit_def is_hex_def is_digit_def code_def)
  then show ?thesis
    by (auto simp: plan_host_def toy_digest_text_def digest_pattern_def list_all_iff)
      (simp add: is_hex_def is_digit_def code_def)
qed

lemma toy_plan_sizes:
  "byteLength (plan_json toy_plan) \<le> MAX_PLAN_BYTES" "byteLength (plan_json toy_offered) \<le> MAX_PLAN_BYTES"
  by code_simp+

lemma plan_times: "valid_timestamp (plan_time CHR ''0'')" "valid_timestamp (plan_time CHR ''1'')"
    "date_ms (plan_time CHR ''0'') = 1767225600000" "date_ms (plan_time CHR ''1'') = 1767225601000"
  by code_simp+

text \<open>Two mutations: the creation, and the offer for approval.\<close>

abbreviation plan_store0 :: "delivery_plan receipt_store" where
  "plan_store0 \<equiv> emptyReceiptStore plans_M"

definition plan_receipt1 :: "delivery_plan receipt" where
  "plan_receipt1 = plan_receipt toy_plan_creation (plan_time CHR ''0'') plan_store0 toy_plan"

definition plan_store1 :: "delivery_plan receipt_store" where
  "plan_store1 = appended plans_M plan_store0 plan_receipt1"

definition plan_receipt2 :: "delivery_plan receipt" where
  "plan_receipt2 = plan_receipt toy_plan_offering (plan_time CHR ''1'') plan_store1 toy_offered"

definition plan_store2 :: "delivery_plan receipt_store" where
  "plan_store2 = appended plans_M plan_store1 plan_receipt2"

lemma plan_store_sizes:
  "byteLength (store_json plans_M plan_store1) \<le> MAX_STORE_BYTES"
  "byteLength (store_json plans_M plan_store2) \<le> MAX_STORE_BYTES"
  by code_simp+

lemma toy_identities:
  "plan_identity toy_plan_creation = (''create-1'', ''plan.create'', replicate 63 CHR ''0'' @ ''3'')"
  "plan_identity toy_plan_offering = (''offer-01'', ''plan.transition'', replicate 63 CHR ''0'' @ ''5'')"
  by (simp_all add: toy_plan_creation_def toy_plan_offering_def)

lemma toy_sound: "sound_plan plan_host toy_plan"
  using toy_plan_valid by (simp add: validateDeliveryPlan_Inr)

lemma toy_first: "assertCreateLifecycle toy_plan = None"
  by (simp add: assertCreateLifecycle_def toy_plan_def emptyApproval_def emptyGates_def)

lemma plan_next1: "nextStore plans_M plan_store0 ''create-1'' ''plan.create'' (replicate 63 CHR ''0'' @ ''3'')
    (plan_time CHR ''0'') toy_plan = Inr plan_store1"
  using plan_create_stored [OF plan_sha toy_prepares(1) toy_identities(1) stored_plans.empty_valid
      _ _ _ _ plan_times(1) _ toy_sound toy_first toy_plan_sizes(1)] plan_store_sizes(1)
  by (simp add: emptyReceiptStore_def assertChronology_def plan_store1_def plan_receipt1_def)

lemmas plan_valid1 = nextStore_Inr(1) [OF plan_next1]

lemma plan_store1_simps:
  "st_items plan_store1 = [toy_plan]" "st_operations plan_store1 = [plan_receipt1]" "st_revision plan_store1 = 1"
  by (simp_all add: plan_store1_def appended_def emptyReceiptStore_def put_item_def plan_receipt1_def
      plan_receipt_def toy_identities)

lemma plan_receipt1_simps:
  "rc_id plan_receipt1 = ''create-1''" "rc_at plan_receipt1 = plan_time CHR ''0''" "rc_item plan_receipt1 = toy_plan"
  by (simp_all add: plan_receipt1_def plan_receipt_def toy_identities)

lemma toy_offer_seen: "apply_plan_operation plan_host (plan_time CHR ''1'')
    (Transition ''ready_for_approval'' ((conditions_met [])\<lparr>tc_expectedRevision := Some 1\<rparr>))
    (plan_time CHR ''1'') toy_plan = Inr toy_offered"
  by code_simp

lemma toy_target: "plan_target toy_plan_offering = Some (''plan-12345678'', 1,
    Transition ''ready_for_approval'' ((conditions_met [])\<lparr>tc_expectedRevision := Some 1\<rparr>))"
  by (simp add: toy_plan_offering_def)

lemma toy_plan_found: "find (\<lambda>c. pl_id c = ''plan-12345678'') (st_items plan_store1) = Some toy_plan"
  by (simp add: plan_store1_simps toy_plan_def)

lemma plan_clock: "assertChronology plans_M plan_store1 (plan_time CHR ''1'') = None"
  by (simp add: assertChronology_def plan_store1_simps plan_receipt1_simps plan_times)

abbreviation plan_repo0 :: plan_repository where "plan_repo0 \<equiv> new_repository F_absent"

definition plan_repo1 :: plan_repository where
  "plan_repo1 = \<lparr>rp_store = Some plan_store1, rp_file = F_store plan_store1, rp_poisoned = None\<rparr>"

definition plan_repo2 :: plan_repository where
  "plan_repo2 = \<lparr>rp_store = Some plan_store2, rp_file = F_store plan_store2, rp_poisoned = None\<rparr>"

lemma toy_plan_decides: "plan_decide plan_host toy_plan_creation (plan_env CHR ''0'') plan_store0 =
    Inr (Commit plan_store1 (plan_reply plan_store0 toy_plan))"
proof -
  have "plan_id_pattern ''plan-12345678''" "to_lower (js_trim ''plan-12345678'') = ''plan-12345678''"
    by code_simp+
  then have "planId ''plan-12345678'' = Inr ''plan-12345678''" by (simp add: planId_def)
  moreover have "MAX_PLAN_BYTES < byteLength (plan_json toy_plan) \<longleftrightarrow> False" using toy_plan_sizes(1) by simp
  moreover have "yi_id toy_plan_input = None" by (simp add: toy_plan_input_def)
  moreover have "validateDeliveryPlan plan_host (plan_time CHR ''0'') toy_plan = Inr toy_plan"
    by (rule sound_plan_valid [OF toy_sound])
  ultimately show ?thesis
    using plan_next1 toy_first toy_plan_created
    by (simp add: plan_decide_def toy_plan_creation_def operationReplay_def freshPlanCreate_def
        assertStoreRevision_def assertCapacity_def st_timestamp_def assertChronology_def plan_times
        emptyReceiptStore_def)
qed

lemma toy_plan_creates: "handle_plan_request plan_host (plan_env CHR ''0'') (PR_create toy_plan_create) plan_repo0 =
    (Inr (plan_reply plan_store0 toy_plan), plan_repo1)"
  unfolding handle_plan_request_def toy_prepares
  by (simp add: mutate_def ensureInitialized_def load_def new_repository_def
      readStoreFile_def persist_def stored_plans.empty_valid plan_valid1 toy_plan_decides plan_repo1_def)

lemma plan_mutates1: "plan_mutates plan_host plan_repo0 plan_repo1"
  using toy_plan_creates unfolding handle_plan_request_def toy_prepares mutates_def by auto

lemma plan_repo0_reached: "plan_repository_reached plan_host plan_repo0"
  by (rule reaches_start) simp

lemmas plan_repo1_reached = reaches_step [OF plan_repo0_reached plan_mutates1]

lemma plan_repo_open: "plan_repository_open plan_host plan_repo0" "plan_repository_open plan_host plan_repo1"
proof -
  show a: "plan_repository_open plan_host plan_repo0" by (rule reaches_start) (auto simp: opened_def)
  from reaches_step [OF a plan_mutates1] show "plan_repository_open plan_host plan_repo1" .
qed

lemma plan_consistent: "consistent plans_M plan_repo1"
  using stored_plans.reaches_inv [OF plan_repo_open(2)] .

lemma plan_current: "current_store plans_M plan_repo1 = Inr plan_store1"
  by (simp add: current_store_def plan_repo1_def)

lemma plan_next2: "nextStore plans_M plan_store1 ''offer-01'' ''plan.transition'' (replicate 63 CHR ''0'' @ ''5'')
    (plan_time CHR ''1'') toy_offered = Inr plan_store2"
  using plan_change_stored [OF plan_sha toy_prepares(2) toy_target toy_identities(2) plan_valid1 toy_plan_found
      _ _ plan_times(2) plan_clock toy_offer_seen toy_plan_sizes(2)] plan_store_sizes(2)
  by (simp add: plan_store1_simps plan_receipt1_simps plan_store2_def plan_receipt2_def)

lemma toy_plan_offers: "handle_plan_request plan_host (plan_env CHR ''1'') (PR_transition toy_plan_offer) plan_repo1 =
    (Inr (plan_reply plan_store1 toy_offered), plan_repo2)"
proof -
  have "''offer-01'' \<notin> set (map rc_id (st_operations plan_store1))"
    by (simp add: plan_store1_simps plan_receipt1_simps)
  from plan_fresh_lookup [OF this toy_identities(2)] target_fresh [OF toy_target toy_identities(2)]
  have "plan_decide plan_host toy_plan_offering (plan_env CHR ''1'') plan_store1 =
    Inr (Commit plan_store2 (plan_reply plan_store1 toy_offered))"
    using toy_plan_found plan_clock plan_times toy_offer_seen plan_next2
    by (simp add: assertStoreRevision_def assertCapacity_def st_timestamp_def plan_store1_simps
        toy_plan_offering_def toy_plan_def)
  then show ?thesis
    unfolding handle_plan_request_def toy_prepares
    by (simp add: mutate_def ensureInitialized_def persist_def nextStore_Inr(1) [OF plan_next2]
        plan_repo1_def plan_repo2_def)
qed

section \<open>What is stored\<close>

text \<open>In every store that a plan repository reaches from a missing file, the receipts of a plan
  are its history: a validated plan in draft or planning, then results of delivery-plan.js's
  operations, each on the snapshot before; the last one is the stored plan, which is reachable,
  so every property of reachable plans holds for it.\<close>

theorem stored_plan_is_history:
  assumes "plan_repository_reached H repo" "rp_poisoned repo = None"
    "current_store (plan_module H) repo = Inr s" "p \<in> set (st_items s)"
  shows "item_history (plan_start H) (plan_step_relation H) (snapshots pl_id s (pl_id p))
    \<and> last (snapshots pl_id s (pl_id p)) = p \<and> plan_reachable H p \<and> course_inv (course_of p)"
  using plan_courses.reached_item [OF assms] by (auto intro: reachable_course)

theorem stored_plan_is_history_witness: "snapshots pl_id plan_store1 (pl_id toy_plan) \<noteq> [] \<and> plan_reachable plan_host toy_plan"
  using stored_plan_is_history [OF plan_repo1_reached _ plan_current, of toy_plan]
  by (simp add: plan_repo1_def plan_store1_simps item_history_def)

section \<open>Requests\<close>

text \<open>An update or a transition that delivery-plan.js accepts on the stored plan is committed: with
  the expected revisions, a fresh operation identifier, room for a receipt, a clock that does
  not run backwards and no size limit exceeded, the receipt is appended, the plan replaced, and
  both the file and the memory hold the new store. No check of the store refuses it.\<close>

theorem accepted_plan_change_commits:
  assumes "\<And>x. digest_pattern (sha256hex H x)" "preparePlanRequest H rq = Inr m"
    "plan_target m = Some (wanted, r, op)" "plan_identity m = (i, action, digest)"
    "consistent (plan_module H) repo" "rp_store repo = Some s" "rp_poisoned repo = None"
    "find (\<lambda>c. pl_id c = wanted) (st_items s) = Some plan"
    "mutation_revision m = st_revision s" "r = pl_revision plan"
    "i \<notin> set (map rc_id (st_operations s))" "length (st_operations s) < 1024"
    "valid_timestamp (en_now env)" "assertChronology (plan_module H) s (en_now env) = None"
    "apply_plan_operation H (en_now env) op (en_now env) plan = Inr q"
    "byteLength (plan_json q) \<le> MAX_PLAN_BYTES"
    "t = appended (plan_module H) s (plan_receipt m (en_now env) s q)"
    "byteLength (store_json (plan_module H) t) \<le> MAX_STORE_BYTES" "en_write env = W_done"
  shows "handle_plan_request H env rq repo =
    (Inr (plan_reply s q), repo\<lparr>rp_store := Some t, rp_file := F_store t\<rparr>)"
proof -
  have s: "validateReceiptStore (plan_module H) s = Inr s" using assms(5,6) by (simp add: consistent_def)
  have n: "nextStore (plan_module H) s i action digest (en_now env) q = Inr t"
    using plan_change_stored [OF assms(1-4) s assms(8,11-16)] assms(17,18) by simp
  have "plan_decide H m env s = Inr (Commit t (plan_reply s q))"
    using assms(8-15) n
    by (simp add: plan_fresh_lookup [OF assms(11,4)] target_fresh [OF assms(3,4)] assertStoreRevision_def
        assertCapacity_def st_timestamp_def)
  with assms(2,6,7,19) nextStore_Inr(1) [OF n] show ?thesis
    by (simp add: handle_plan_request_def mutate_def ensureInitialized_def persist_def)
qed

theorem accepted_plan_change_commits_witness:
  "handle_plan_request plan_host (plan_env CHR ''1'') (PR_transition toy_plan_offer) plan_repo1 =
    (Inr (plan_reply plan_store1 toy_offered), plan_repo2)"
proof -
  have "handle_plan_request plan_host (plan_env CHR ''1'') (PR_transition toy_plan_offer) plan_repo1 =
    (Inr (plan_reply plan_store1 toy_offered), plan_repo1\<lparr>rp_store := Some plan_store2, rp_file := F_store plan_store2\<rparr>)"
    by (rule accepted_plan_change_commits [OF plan_sha toy_prepares(2) toy_target toy_identities(2) plan_consistent _ _
          toy_plan_found _ _ _ _ _ _ _ toy_plan_sizes(2) _ plan_store_sizes(2)])
      (use plan_times plan_clock toy_offer_seen in
        \<open>simp_all add: plan_repo1_def plan_store1_simps plan_receipt1_simps plan_store2_def plan_receipt2_def
           toy_plan_def toy_plan_offering_def\<close>)
  then show ?thesis by (simp add: plan_repo1_def plan_repo2_def)
qed

text \<open>A request of a plan repository takes effect at most once: after it was answered, and after
  any other mutations, it gets the same answer marked as a replay, another request under its
  identifier is refused as a conflict, and neither changes anything.\<close>

theorem plan_request_once:
  assumes "plan_repository_open H repo" "handle_plan_request H env rq repo = (Inr y, repo1)"
    "preparePlanRequest H rq = Inr m" "preparePlanRequest H rq' = Inr m'" "fst (plan_identity m') = fst (plan_identity m)"
    "(plan_mutates H)\<^sup>*\<^sup>* repo1 repo2" "rp_poisoned repo2 = None"
  shows "handle_plan_request H env' rq' repo2 =
    (if plan_identity m' = plan_identity m then Inr (y\<lparr>ry_replayed := True\<rparr>)
     else Inl (dps_error ''operation_conflict''), repo2)"
proof -
  note c = stored_plans.reaches_inv [OF assms(1)]
  from assms(2,3) have op: "mutate (plan_module H) env (plan_decide H m env) repo = (Inr y, repo1)"
    by (simp add: handle_plan_request_def)
  show ?thesis
    using stored_plans.replay_later [OF c op assms(6,7), of m' env']
      stored_plans.conflict_later [OF c op assms(6,7,5), of env'] assms(4)
    by (simp add: handle_plan_request_def store_error_def dps_error_def)
qed

theorem plan_request_once_witness:
  "handle_plan_request plan_host (plan_env CHR ''1'') (PR_create toy_plan_create) plan_repo1
     = (Inr ((plan_reply plan_store0 toy_plan)\<lparr>ry_replayed := True\<rparr>), plan_repo1)"
  using plan_request_once [OF plan_repo_open(1) toy_plan_creates toy_prepares(1) toy_prepares(1) refl
      rtranclp.rtrancl_refl, of "plan_env CHR ''1''"]
  by (simp add: plan_repo1_def)

text \<open>The operator acts on the revision that was shown: an update or a transition that is
  answered, and is not a replay, was applied to the stored plan at exactly the plan revision
  and the store revision that the request names, and what it answers is what delivery-plan.js
  makes of that plan.\<close>

theorem plan_change_applies_to_seen_revision:
  assumes "plan_repository_open H repo" "handle_plan_request H env rq repo = (Inr y, repo')" "\<not> ry_replayed y"
    "preparePlanRequest H rq = Inr m" "plan_target m = Some (wanted, r, op)"
  shows "\<exists>s plan. current_store (plan_module H) repo = Inr s \<and> st_revision s = mutation_revision m
    \<and> find (\<lambda>c. pl_id c = wanted) (st_items s) = Some plan \<and> pl_revision plan = r
    \<and> apply_plan_operation H (en_now env) op (en_now env) plan = Inr (ry_item y)
    \<and> (\<exists>t. rp_store repo' = Some t \<and> rp_file repo' = F_store t \<and> st_revision t = mutation_revision m + 1)"
proof -
  note c = stored_plans.reaches_inv [OF assms(1)]
  from assms(2,4) have mut: "mutate (plan_module H) env (plan_decide H m env) repo = (Inr y, repo')"
    by (simp add: handle_plan_request_def)
  from stored_plans.mutate_Inr_loaded [OF c mut] obtain t where t: "rp_store repo' = Some t" "rp_poisoned repo' = None"
    by blast
  from stored_plans.mutate_outcome [OF c mut t(2)] assms(3) t obtain s where
    s: "current_store (plan_module H) repo = Inr s" "plan_decide H m env s = Inr (Commit t y)"
      "rp_file repo' = F_store t" "st_revision t = st_revision s + 1"
    by (auto simp: current_store_def reply_of_def commits_def)
  obtain i action digest where idn: "plan_identity m = (i, action, digest)" by (metis prod_cases3)
  from plan_courses.decide_commit_fresh [OF s(2), unfolded target_fresh [OF assms(5) idn]]
  obtain plan q where "st_revision s = mutation_revision m" "find (\<lambda>c. pl_id c = wanted) (st_items s) = Some plan"
    "pl_revision plan = r" "apply_plan_operation H (en_now env) op (en_now env) plan = Inr q" "ry_item y = q"
    by (auto simp: assertStoreRevision_def st_timestamp_def plan_reply_def split: option.splits)
  with s t show ?thesis by auto
qed

theorem plan_change_applies_to_seen_revision_witness:
  "\<exists>env y repo'. handle_plan_request plan_host env (PR_transition toy_plan_offer) plan_repo1 = (Inr y, repo')
     \<and> apply_plan_operation plan_host (en_now env) (Transition ''ready_for_approval''
         ((conditions_met [])\<lparr>tc_expectedRevision := Some 1\<rparr>)) (en_now env) toy_plan = Inr (ry_item y)"
proof -
  let ?env = "plan_env CHR ''1''"
  have w: "handle_plan_request plan_host ?env (PR_transition toy_plan_offer) plan_repo1 =
    (Inr (plan_reply plan_store1 toy_offered), plan_repo2)" by (rule toy_plan_offers)
  from plan_change_applies_to_seen_revision [OF plan_repo_open(2) w _ toy_prepares(2) toy_target]
  have "apply_plan_operation plan_host (en_now ?env) (Transition ''ready_for_approval''
         ((conditions_met [])\<lparr>tc_expectedRevision := Some 1\<rparr>)) (en_now ?env) toy_plan
       = Inr (ry_item (plan_reply plan_store1 toy_offered))"
    by (auto simp: plan_reply_def plan_current toy_plan_found)
  with w show ?thesis by blast
qed

section \<open>Summaries\<close>

text \<open>The summary of a store never fails on a plan: with limits in range, the rows of a valid
  store exist, their digest is the digest the operator approves, a row is ready exactly when it
  has no errors, and every plan is counted once, as active, done or canceled.\<close>

theorem plan_summary_total:
  assumes "validateReceiptStore (plan_module H) s = Inr s"
    "planLimit activeLimit 50 ''active_limit'' = Inr a" "planLimit recentLimit 20 ''recent_limit'' = Inr b"
  shows "\<exists>r. planStoreSummary H now activeLimit recentLimit s = Inr r
    \<and> ct_total (sm_counts r) = ct_active (sm_counts r) + ct_done (sm_counts r) + ct_canceled (sm_counts r)
    \<and> length (sm_active r) = min a (ct_active (sm_counts r))
    \<and> list_all (\<lambda>row. \<exists>p \<in> set (st_items s). ps_id row = pl_id p \<and> ps_digest row = canonicalSha256 H (definition_json p)
         \<and> (ps_ready row \<longleftrightarrow> ps_errorCount row = 0)) (sm_active r @ sm_recent r)"
proof -
  let ?row = "\<lambda>p. \<lparr>ps_id = pl_id p, ps_revision = pl_revision p, ps_phase = pl_phase p, ps_title = pl_title p,
       ps_digest = plan_digest H p, ps_ready = (lint_errors H p = []), ps_errorCount = length (lint_errors H p),
       ps_warningCount = length (lint_warnings p), ps_updatedAt = pl_updatedAt p\<rparr>"
  have row: "planSummary H now p = Inr (?row p)" if "sound_plan H p" for p
    using that sound_planD [OF that]
    by (simp add: planSummary_def lintDeliveryPlanReadiness_def normal_planD validateShape_Inr [THEN iffD2]
        plan_digest_Inr lintNormalizedReadiness_def)
  have rows: "map_result (planSummary H now) ps = Inr (map ?row ps)" if "\<forall>p \<in> set ps. sound_plan H p" for ps
    using that by (induction ps) (simp_all add: row)
  let ?active = "sort_by (newestPlanFirst H) (filter (\<lambda>p. pl_phase p \<notin> set TERMINAL_PHASES) (st_items s))"
  let ?terminal = "sort_by (newestPlanFirst H) (filter (\<lambda>p. pl_phase p \<in> set TERMINAL_PHASES) (st_items s))"
  have sound: "sound_plan H p" "p \<in> set (st_items s)" if "p \<in> set (take n ?active) \<union> set (take n ?terminal)" for p n
    using that stored_plan_sound [OF assms(1)] by (auto dest!: in_set_takeD)
  have counts: "phase_count [''done''] ps + phase_count [''canceled''] ps = length ps"
    if "\<forall>p \<in> set ps. pl_phase p \<in> set TERMINAL_PHASES" for ps
    using that by (induction ps) (auto simp: phase_count_def TERMINAL_PHASES_def)
  have "phase_count [''done''] ?terminal + phase_count [''canceled''] ?terminal = length ?terminal"
    by (rule counts) simp
  moreover have "length ?active + length ?terminal = length (st_items s)"
    using sum_length_filter_compl [of "\<lambda>p. pl_phase p \<in> set TERMINAL_PHASES" "st_items s"] by simp
  ultimately have counted: "length (st_items s) = length ?active
      + phase_count [''done''] ?terminal + phase_count [''canceled''] ?terminal" by simp
  have "map_result (planSummary H now) (take a ?active) = Inr (map ?row (take a ?active))"
    "map_result (planSummary H now) (take b ?terminal) = Inr (map ?row (take b ?terminal))"
    by (rule rows; use sound(1) in blast)+
  then obtain r where r: "planStoreSummary H now activeLimit recentLimit s = Inr r"
    "sm_active r = map ?row (take a ?active)" "sm_recent r = map ?row (take b ?terminal)"
    "ct_total (sm_counts r) = length (st_items s)" "ct_active (sm_counts r) = length ?active"
    "ct_done (sm_counts r) = phase_count [''done''] ?terminal"
    "ct_canceled (sm_counts r) = phase_count [''canceled''] ?terminal"
    using assms(2,3) unfolding planStoreSummary_def Let_def by simp
  have "list_all (\<lambda>row. \<exists>p \<in> set (st_items s). ps_id row = pl_id p \<and> ps_digest row = plan_digest H p
         \<and> (ps_ready row \<longleftrightarrow> ps_errorCount row = 0)) (map ?row ps)"
    if "set ps \<subseteq> set (st_items s)" for ps
    using that by (auto simp: list_all_iff)
  with sound(2) have "list_all (\<lambda>row. \<exists>p \<in> set (st_items s). ps_id row = pl_id p \<and> ps_digest row = plan_digest H p
         \<and> (ps_ready row \<longleftrightarrow> ps_errorCount row = 0)) (sm_active r @ sm_recent r)"
    unfolding r list_all_append by blast
  with r counted show ?thesis by (auto simp: plan_digest_def min.commute)
qed

theorem plan_summary_total_witness:
  "\<exists>r. planStoreSummary plan_host [] None None plan_store1 = Inr r \<and> length (sm_active r) = min 50 (ct_active (sm_counts r))"
proof -
  have "planLimit None 50 ''active_limit'' = Inr 50" "planLimit None 20 ''recent_limit'' = Inr 20"
    by (simp_all add: planLimit_def safe_integer_def MAX_SAFE_INTEGER_def MAX_SUMMARY_ITEMS_def Let_def)
  from plan_summary_total [OF plan_valid1 this] show ?thesis by blast
qed

end
