(* ===== verification/StrictJson.thy ===== *)
theory StrictJson
  imports CanonicalFacts
begin

text \<open>
  \<open>strictJsonParse\<close> of planning-role-report.js: a recursive-descent parser that refuses
  duplicate members and more than sixteen levels of nesting. The text that is left stands
  for the source's \<open>offset\<close>. A call may run out of fuel, so that not returning is the value
  \<open>None\<close>; the facts theory proves that it never does. Strings hold code units below 256: an
  escape of a higher one is outside the model and is refused like a malformed escape.
\<close>

section \<open>Numbers\<close>

text \<open>A double that is an integer, or \<open>m / 2^k\<close>.\<close>

datatype number = Whole int | Dyadic int nat

datatype parsed =
    P_null
  | P_bool bool
  | P_number number
  | P_string string
  | P_array "parsed list"
  | P_object "(string \<times> parsed) list"

fun bit_length :: "nat \<Rightarrow> nat" where
  "bit_length n = (if n = 0 then 0 else Suc (bit_length (n div 2)))"

declare bit_length.simps [simp del]

definition round_half_even :: "nat \<Rightarrow> nat \<Rightarrow> nat" where
  "round_half_even a b =
     (let q = a div b; r = a mod b in if b < 2 * r \<or> b = 2 * r \<and> odd q then q + 1 else q)"

text \<open>The exponent of the unit in the last place of the double next to \<open>a / b\<close>.\<close>

definition double_exponent :: "nat \<Rightarrow> nat \<Rightarrow> int" where
  "double_exponent a b =
     (let d = int (bit_length a) - int (bit_length b);
          at_least = (if 0 \<le> d then b * 2 ^ nat d \<le> a else b \<le> a * 2 ^ nat (- d));
          magnitude = (if at_least then d else d - 1)
      in max (- 1074) (magnitude - 52))"

text \<open>\<open>Number(text)\<close> of the decimal \<open>a / b\<close>, rounded to a double; \<open>None\<close> when it is infinite.\<close>

definition double_value :: "bool \<Rightarrow> nat \<Rightarrow> nat \<Rightarrow> number option" where
  "double_value negative a b =
     (let k = double_exponent a b;
          q = (if 0 \<le> k then round_half_even a (b * 2 ^ nat k) else round_half_even (a * 2 ^ nat (- k)) b);
          m = (if negative then - int q else int q)
      in if 0 \<le> k then (if 2 ^ 1024 \<le> q * 2 ^ nat k then None else Some (Whole (m * 2 ^ nat k)))
         else if 2 ^ nat (- k) dvd q then Some (Whole (m div 2 ^ nat (- k)))
         else Some (Dyadic m (nat (- k))))"

text \<open>The parts of \<open>-?(0|[1-9]\d*)(\.\d+)?([eE][+-]?\d+)?\<close>, each as long as possible.\<close>

definition minus_part :: "string \<Rightarrow> bool \<times> string" where
  "minus_part s = (if starts_with ''-'' s then (True, tl s) else (False, s))"

definition whole_part :: "string \<Rightarrow> (string \<times> string) option" where
  "whole_part s =
     (if s = [] \<or> \<not> is_digit (hd s) then None
      else if hd s = CHR ''0'' then Some (''0'', tl s)
      else Some (takeWhile is_digit s, dropWhile is_digit s))"

definition fraction_part :: "string \<Rightarrow> string \<times> string" where
  "fraction_part s =
     (if starts_with ''.'' s \<and> takeWhile is_digit (tl s) \<noteq> []
      then (takeWhile is_digit (tl s), dropWhile is_digit (tl s)) else ([], s))"

definition exponent_sign :: "string \<Rightarrow> bool \<times> string" where
  "exponent_sign s =
     (if starts_with ''-'' s then (True, tl s) else if starts_with ''+'' s then (False, tl s) else (False, s))"

definition exponent_part :: "string \<Rightarrow> int \<times> string" where
  "exponent_part s =
     (if starts_with ''e'' s \<or> starts_with ''E'' s
      then let (negative, t) = exponent_sign (tl s); digits = takeWhile is_digit t in
        if digits = [] then (0, s)
        else ((if negative then - int (decimal_value digits) else int (decimal_value digits)),
              dropWhile is_digit t)
      else (0, s))"

definition report_error :: "string \<Rightarrow> error" where
  "report_error suffix = Error (''planning_role_report_'' @ suffix)"

abbreviation invalid :: "'a result" where
  "invalid \<equiv> Inl (report_error ''json_invalid'')"

definition strict_number :: "string \<Rightarrow> (parsed \<times> string) result" where
  "strict_number s =
     (let (negative, s1) = minus_part s in
      case whole_part s1 of
        None \<Rightarrow> invalid
      | Some (whole, s2) \<Rightarrow>
          let (fraction, s3) = fraction_part s2; (power, s4) = exponent_part s3;
              a = decimal_value (whole @ fraction); e = power - int (length fraction)
          in (case (if 0 \<le> e then double_value negative (a * 10 ^ nat e) 1
                    else double_value negative a (10 ^ nat (- e))) of
                None \<Rightarrow> invalid
              | Some n \<Rightarrow> Inr (P_number n, s4)))"

section \<open>Strings\<close>

text \<open>Up to the closing quote; \<open>escaped\<close> tells that the last character was a backslash that escapes.\<close>

fun scan_string :: "bool \<Rightarrow> string \<Rightarrow> (string \<times> string) option" where
  "scan_string escaped [] = None"
| "scan_string escaped (c # cs) =
     (if \<not> escaped \<and> c = CHR 0x22 then Some ([], cs)
      else if \<not> escaped \<and> code c < 32 then None
      else map_option (map_prod (Cons c) (\<lambda>r. r)) (scan_string (\<not> escaped \<and> c = CHR 0x5C) cs))"

definition is_hexadecimal :: "char \<Rightarrow> bool" where
  "is_hexadecimal c \<longleftrightarrow> is_hex (lower_char c)"

definition hexadecimal_value :: "char \<Rightarrow> nat" where
  "hexadecimal_value c = hex_value (lower_char c)"

text \<open>The character of an escape whose letter is \<open>e\<close>, and the text after it.\<close>

definition unescaped :: "char \<Rightarrow> string \<Rightarrow> (char \<times> string) option" where
  "unescaped e r =
     (if e = CHR 0x22 \<or> e = CHR 0x5C \<or> e = CHR ''/'' then Some (e, r)
      else if e = CHR ''b'' then Some (CHR 0x08, r)
      else if e = CHR ''t'' then Some (CHR 0x09, r)
      else if e = CHR ''n'' then Some (CHR 0x0A, r)
      else if e = CHR ''f'' then Some (CHR 0x0C, r)
      else if e = CHR ''r'' then Some (CHR 0x0D, r)
      else if e = CHR ''u'' \<and> 4 \<le> length r \<and> list_all is_hexadecimal (take 4 r) \<and> take 2 r = ''00''
      then Some (char_of (16 * hexadecimal_value (r ! 2) + hexadecimal_value (r ! 3)), drop 4 r)
      else None)"

lemma unescaped_shorter: "unescaped e r = Some (c, r') \<Longrightarrow> length r' \<le> length r"
  by (auto simp: unescaped_def split: if_splits)

text \<open>\<open>JSON.parse\<close> of the literal with the given content.\<close>

function literal_value :: "string \<Rightarrow> string option" where
  "literal_value [] = Some []"
| "literal_value (c # cs) =
     (if c \<noteq> CHR 0x5C then (if code c < 32 \<or> c = CHR 0x22 then None else map_option (Cons c) (literal_value cs))
      else (case cs of
          [] \<Rightarrow> None
        | e # r \<Rightarrow> (case unescaped e r of
              None \<Rightarrow> None
            | Some (d, r') \<Rightarrow> map_option (Cons d) (literal_value r'))))"
  by pat_completeness auto
termination
  by (relation "measure length") (auto dest!: unescaped_shorter)

definition strict_string :: "string \<Rightarrow> (string \<times> string) result" where
  "strict_string s =
     (if \<not> starts_with [CHR 0x22] s then invalid
      else (case scan_string False (tl s) of
          None \<Rightarrow> invalid
        | Some (content, r) \<Rightarrow> (case literal_value content of
              None \<Rightarrow> invalid
            | Some v \<Rightarrow> Inr (v, r))))"

section \<open>Values\<close>

definition MAX_JSON_DEPTH :: nat where "MAX_JSON_DEPTH = 16"

definition json_space :: "char \<Rightarrow> bool" where
  "json_space c \<longleftrightarrow> c = CHR 0x09 \<or> c = CHR 0x0A \<or> c = CHR 0x0D \<or> c = CHR '' ''"

definition skip_space :: "string \<Rightarrow> string" where
  "skip_space s = dropWhile json_space s"

text \<open>What follows the value of a parse that returned.\<close>

fun parse_then ::
  "('a \<times> string) result option \<Rightarrow> ('a \<Rightarrow> string \<Rightarrow> 'b result option) \<Rightarrow> 'b result option" where
  "parse_then None f = None"
| "parse_then (Some (Inl e)) f = Some (Inl e)"
| "parse_then (Some (Inr (v, r))) f = f v r"

definition strict_atom :: "string \<Rightarrow> (parsed \<times> string) result" where
  "strict_atom s =
     (if starts_with ''true'' s then Inr (P_bool True, drop 4 s)
      else if starts_with ''false'' s then Inr (P_bool False, drop 5 s)
      else if starts_with ''null'' s then Inr (P_null, drop 4 s)
      else strict_number s)"

text \<open>
  \<open>strict_members\<close> and \<open>strict_items\<close> are the loops of \<open>object\<close> and \<open>array\<close> after their
  opening bracket, with the members and items read so far.
\<close>

fun strict_value :: "nat \<Rightarrow> nat \<Rightarrow> string \<Rightarrow> (parsed \<times> string) result option"
  and strict_members :: "nat \<Rightarrow> nat \<Rightarrow> (string \<times> parsed) list \<Rightarrow> string \<Rightarrow> (parsed \<times> string) result option"
  and strict_items :: "nat \<Rightarrow> nat \<Rightarrow> parsed list \<Rightarrow> string \<Rightarrow> (parsed \<times> string) result option"
where
  "strict_value 0 depth s = None"
| "strict_value (Suc fuel) depth s =
     (if MAX_JSON_DEPTH < depth then Some (Inl (report_error ''json_depth_exceeded''))
      else let t = skip_space s in
        if starts_with [CHR 0x22] t
        then Some (attempt (strict_string t) (\<lambda>(v, r). Inr (P_string v, r)))
        else if starts_with ''{'' t then
          (let r = skip_space (tl t) in
           if starts_with ''}'' r then Some (Inr (P_object [], tl r))
           else strict_members fuel (depth + 1) [] r)
        else if starts_with ''['' t then
          (let r = skip_space (tl t) in
           if starts_with '']'' r then Some (Inr (P_array [], tl r))
           else strict_items fuel (depth + 1) [] r)
        else Some (strict_atom t))"
| "strict_members 0 depth acc s = None"
| "strict_members (Suc fuel) depth acc s =
     (case strict_string (skip_space s) of
        Inl e \<Rightarrow> Some (Inl e)
      | Inr (key, r) \<Rightarrow>
          if key \<in> set (map fst acc) then Some (Inl (report_error ''json_duplicate_key''))
          else if \<not> starts_with '':'' (skip_space r) then Some invalid
          else parse_then (strict_value fuel depth (tl (skip_space r))) (\<lambda>v r'.
            let t = skip_space r' in
            if starts_with ''}'' t then Some (Inr (P_object (acc @ [(key, v)]), tl t))
            else if \<not> starts_with '','' t then Some invalid
            else strict_members fuel depth (acc @ [(key, v)]) (tl t)))"
| "strict_items 0 depth acc s = None"
| "strict_items (Suc fuel) depth acc s =
     (if s = [] then Some invalid
      else parse_then (strict_value fuel depth s) (\<lambda>v r.
        let t = skip_space r in
        if starts_with '']'' t then Some (Inr (P_array (acc @ [v]), tl t))
        else if \<not> starts_with '','' t then Some invalid
        else strict_items fuel depth (acc @ [v]) (tl t)))"

text \<open>Every call of \<open>value\<close>, and every round of a loop, has at least one character to itself.\<close>

definition parse_fuel :: "string \<Rightarrow> nat" where
  "parse_fuel s = 2 * length s + 1"

definition strictJsonParse :: "string \<Rightarrow> parsed result option" where
  "strictJsonParse s =
     parse_then (strict_value (parse_fuel s) 0 s) (\<lambda>v r. Some (if skip_space r = [] then Inr v else invalid))"

end
