(* ===== verification/PlanningReport.thy ===== *)
theory PlanningReport
  imports StrictJson ReceiptRepository DeliveryPlan
begin

text \<open>
  planning-role-report.js: the report a planning worker returns. The text of the worker's
  final answer is parsed strictly and validated; what the worker wrote may not carry
  PaneFleet's private identities. A value that passes is a record: each check returns the
  part it has checked, so the validator reads a parsed value of any shape.
\<close>

section \<open>Reports\<close>

datatype role = R_po | R_ba | R_qa | R_dev

fun role_text :: "role \<Rightarrow> string" where
  "role_text R_po = ''po''"
| "role_text R_ba = ''ba''"
| "role_text R_qa = ''qa''"
| "role_text R_dev = ''dev''"

definition PLANNING_ROLE_REPORT_ROLES :: "role list" where
  "PLANNING_ROLE_REPORT_ROLES = [R_po, R_ba, R_dev, R_qa]"

datatype report_status = S_complete | S_needs_input | S_blocked | S_failed

fun status_text :: "report_status \<Rightarrow> string" where
  "status_text S_complete = ''complete''"
| "status_text S_needs_input = ''needs_input''"
| "status_text S_blocked = ''blocked''"
| "status_text S_failed = ''failed''"

definition PLANNING_ROLE_REPORT_STATUSES :: "report_status list" where
  "PLANNING_ROLE_REPORT_STATUSES = [S_complete, S_needs_input, S_blocked, S_failed]"

datatype artifact = A_po role_po | A_ba role_ba | A_dev role_dev | A_qa role_qa

record report_evidence =
  re_summary :: string
  re_trusted :: bool

record planning_report =
  pr_version :: int
  pr_runId :: string
  pr_planId :: string
  pr_planRevision :: int
  pr_role :: role
  pr_attemptId :: string
  pr_inputDigest :: string
  pr_status :: report_status
  pr_artifact :: artifact
  pr_challenges :: "string list"
  pr_evidence :: "report_evidence list"

definition artifact_json :: "artifact \<Rightarrow> json" where
  "artifact_json a =
     (case a of A_po r \<Rightarrow> po_json r | A_ba r \<Rightarrow> ba_json r | A_dev r \<Rightarrow> dev_json r | A_qa r \<Rightarrow> qa_json r)"

definition report_evidence_json :: "report_evidence \<Rightarrow> json" where
  "report_evidence_json e = JObj [(''summary'', JStr (re_summary e)), (''trusted'', JBool (re_trusted e))]"

definition report_json :: "planning_report \<Rightarrow> json" where
  "report_json r = JObj
     [(''version'', JNum (pr_version r)), (''runId'', JStr (pr_runId r)), (''planId'', JStr (pr_planId r)),
      (''planRevision'', JNum (pr_planRevision r)), (''role'', JStr (role_text (pr_role r))),
      (''attemptId'', JStr (pr_attemptId r)), (''inputDigest'', JStr (pr_inputDigest r)),
      (''status'', JStr (status_text (pr_status r))), (''artifact'', artifact_json (pr_artifact r)),
      (''challenges'', json_strings (pr_challenges r)),
      (''evidence'', JArr (map report_evidence_json (pr_evidence r)))]"

text \<open>A JSON value as the parser would give it.\<close>

primrec parsed_of :: "json \<Rightarrow> parsed" where
  "parsed_of JNull = P_null"
| "parsed_of (JBool b) = P_bool b"
| "parsed_of (JNum n) = P_number (Whole n)"
| "parsed_of (JStr s) = P_string s"
| "parsed_of (JArr xs) = P_array (map parsed_of xs)"
| "parsed_of (JObj kvs) = P_object (map (map_prod (\<lambda>k. k) parsed_of) kvs)"

section \<open>Constants and patterns\<close>

definition PLANNING_ROLE_REPORT_VERSION :: int where "PLANNING_ROLE_REPORT_VERSION = 1"
definition PLANNING_ROLE_REPORT_MAX_PERSISTED_BYTES :: int where
  "PLANNING_ROLE_REPORT_MAX_PERSISTED_BYTES = 16 * 1024"
definition MAX_FINAL_ANSWER_BYTES :: int where "MAX_FINAL_ANSWER_BYTES = 256 * 1024"

definition REPORT_KEYS :: "string list" where
  "REPORT_KEYS = [''version'', ''runId'', ''planId'', ''planRevision'', ''role'', ''attemptId'',
     ''inputDigest'', ''status'', ''artifact'', ''challenges'', ''evidence'']"

definition EXPECTED_ERROR_FIELDS :: "(string \<times> string) list" where
  "EXPECTED_ERROR_FIELDS = [(''runId'', ''run_id''), (''planId'', ''plan_id''), (''planRevision'', ''plan_revision''),
     (''role'', ''role''), (''attemptId'', ''attempt_id''), (''inputDigest'', ''input_digest'')]"

definition planning_run_id_pattern :: "string \<Rightarrow> bool" where
  "planning_run_id_pattern s = id_pattern ''planning-run-'' lower_id_start lower_id_char 7 63 s"

definition planning_attempt_id_pattern :: "string \<Rightarrow> bool" where
  "planning_attempt_id_pattern s = id_pattern ''planning-attempt-'' lower_id_start lower_id_char 7 63 s"

text \<open>\<open>/[\u0000-\u001f\u007f]/\<close>\<close>

definition is_c0_control :: "char \<Rightarrow> bool" where
  "is_c0_control c \<longleftrightarrow> code c \<le> 31 \<or> code c = 127"

lemma is_c0_control_bits [code]:
  "is_c0_control (Char b0 b1 b2 b3 b4 b5 b6 b7) \<longleftrightarrow>
     \<not> b7 \<and> (if b6 \<or> b5 then b6 \<and> b5 \<and> b4 \<and> b3 \<and> b2 \<and> b1 \<and> b0 else True)"
  by (cases b0; cases b1; cases b2; cases b3; cases b4; cases b5; cases b6; cases b7;
    simp add: is_c0_control_def code_def)

section \<open>Private text\<close>

text \<open>A pattern that may match anywhere, given by the texts that it matches the start of.\<close>

fun matches_in :: "(string \<Rightarrow> bool) \<Rightarrow> string \<Rightarrow> bool" where
  "matches_in p [] = p []"
| "matches_in p (c # cs) = (p (c # cs) \<or> matches_in p cs)"

definition is_slash :: "char \<Rightarrow> bool" where
  "is_slash c \<longleftrightarrow> c = CHR ''/'' \<or> c = CHR 0x5C"

text \<open>\<open>(?:^|[\\/])\<close>\<close>

definition at_boundary :: "(string \<Rightarrow> bool) \<Rightarrow> string \<Rightarrow> bool" where
  "at_boundary p s \<longleftrightarrow> p s \<or> matches_in (\<lambda>t. t \<noteq> [] \<and> is_slash (hd t) \<and> p (tl t)) s"

definition hex_token_role :: "string \<Rightarrow> string \<Rightarrow> bool" where
  "hex_token_role prefix t \<longleftrightarrow>
     starts_with prefix t \<and>
     (let u = drop (length prefix) t in
      24 \<le> length u \<and> list_all is_hex (take 24 u) \<and>
      list_ex (\<lambda>r. starts_with (CHR ''-'' # role_text r) (drop 24 u)) PLANNING_ROLE_REPORT_ROLES)"

definition attempt_text :: "string \<Rightarrow> bool" where
  "attempt_text t \<longleftrightarrow>
     starts_with ''planning-attempt-'' t \<and>
     (let u = drop 17 t in u \<noteq> [] \<and> lower_id_start (hd u) \<and> 7 \<le> length (takeWhile lower_id_char (tl u)))"

definition is_word_char :: "char \<Rightarrow> bool" where
  "is_word_char c \<longleftrightarrow> is_alnum c \<or> c = CHR ''_''"

definition marker_text :: "string \<Rightarrow> bool" where
  "marker_text t \<longleftrightarrow>
     starts_with ''[panefleet planning dispatch'' t \<and>
     (let u = drop 28 t; inside = takeWhile (\<lambda>c. c \<noteq> CHR '']'' \<and> c \<noteq> CHR 0x0D \<and> c \<noteq> CHR 0x0A) u
      in (u = [] \<or> \<not> is_word_char (hd u)) \<and> length inside \<le> 128
         \<and> starts_with '']'' (drop (length inside) u))"

definition scope_text :: "string \<Rightarrow> bool" where
  "scope_text t \<longleftrightarrow>
     starts_with ''panefleet-planning-'' t \<and>
     (let u = drop 19 t in
      24 \<le> length u \<and> list_all is_hex (take 24 u) \<and> starts_with ''.scope'' (drop 24 u))"

definition rollout_end :: "string \<Rightarrow> bool" where
  "rollout_end t \<longleftrightarrow> t = [] \<or> is_space (hd t) \<or> hd t \<in> {CHR 0x22, CHR 0x27, CHR 0x60} \<union> set ''),.;:''"

definition rollout_text :: "string \<Rightarrow> bool" where
  "rollout_text t \<longleftrightarrow>
     starts_with ''rollout-'' t \<and>
     (let u = drop 8 t in
      list_ex (\<lambda>n. n \<le> length u \<and> list_all (\<lambda>c. \<not> is_slash c \<and> \<not> is_space c) (take n u)
        \<and> starts_with ''.jsonl'' (drop n u) \<and> rollout_end (drop (n + 6) u)) [1..<201])"

definition sessions_text :: "string \<Rightarrow> bool" where
  "sessions_text t \<longleftrightarrow>
     (let u = (if starts_with ''.'' t then tl t else t) in
      starts_with ''codex'' u \<and> drop 5 u \<noteq> [] \<and> is_slash (drop 5 u ! 0)
      \<and> starts_with ''sessions'' (drop 6 u) \<and> drop 14 u \<noteq> [] \<and> is_slash (drop 14 u ! 0))"

definition planning_directory_text :: "string \<Rightarrow> bool" where
  "planning_directory_text t \<longleftrightarrow>
     starts_with ''panefleet-planning'' t \<and> drop 18 t \<noteq> [] \<and> is_slash (drop 18 t ! 0)"

text \<open>\<open>PRIVATE_PLANNING_TEXT_PATTERNS\<close>: the patterns ignore case, so they read the lower-case text.\<close>

definition private_planning_text :: "string \<Rightarrow> bool" where
  "private_planning_text s \<longleftrightarrow>
     (let t = to_lower s in
      matches_in attempt_text t \<or> matches_in marker_text t
      \<or> matches_in (hex_token_role ''codex-planning-'') t
      \<or> matches_in (hex_token_role ''planning-spawn-lease-'') t
      \<or> matches_in scope_text t
      \<or> at_boundary rollout_text t \<or> at_boundary sessions_text t \<or> at_boundary planning_directory_text t)"

section \<open>Checks on parsed values\<close>

text \<open>An absent member reads as null: no test of the validator tells them apart.\<close>

definition own :: "(string \<times> parsed) list \<Rightarrow> string \<Rightarrow> parsed" where
  "own kvs k = (case map_of kvs k of None \<Rightarrow> P_null | Some v \<Rightarrow> v)"

definition pr_exactKeys :: "parsed \<Rightarrow> string list \<Rightarrow> string \<Rightarrow> (string \<times> parsed) list result" where
  "pr_exactKeys v expected e =
     (case v of
        P_object kvs \<Rightarrow> if sort (map fst kvs) = sort expected then Inr kvs else Inl (report_error e)
      | _ \<Rightarrow> Inl (report_error e))"

definition pr_assertText :: "string \<Rightarrow> bool \<Rightarrow> int \<Rightarrow> parsed \<Rightarrow> string result" where
  "pr_assertText e required maximum v =
     (case v of
        P_string s \<Rightarrow> guard (throws
          [throw_if (required \<and> s = [] \<or> maximum < js_length s) (report_error e),
           throw_if (list_ex is_c0_control s) (report_error ''control_characters_not_allowed'')]) (Inr s)
      | _ \<Rightarrow> Inl (report_error e))"

fun pr_unique_texts :: "string \<Rightarrow> int \<Rightarrow> string list \<Rightarrow> parsed list \<Rightarrow> string list result" where
  "pr_unique_texts e maxChars seen [] = Inr []"
| "pr_unique_texts e maxChars seen (v # vs) =
     attempt (pr_assertText e True maxChars v) (\<lambda>s.
       if s \<in> set seen then Inl (report_error (e @ ''_duplicate''))
       else attempt (pr_unique_texts e maxChars (s # seen) vs) (\<lambda>ss. Inr (s # ss)))"

definition pr_assertUniqueTextList :: "string \<Rightarrow> int \<Rightarrow> int \<Rightarrow> parsed \<Rightarrow> string list result" where
  "pr_assertUniqueTextList e maxItems maxChars v =
     (case v of
        P_array vs \<Rightarrow>
          if maxItems < js_length vs then Inl (report_error e) else pr_unique_texts e maxChars [] vs
      | _ \<Rightarrow> Inl (report_error e))"

definition pr_list :: "string \<Rightarrow> parsed \<Rightarrow> string list result" where
  "pr_list e v = pr_assertUniqueTextList e 100 800 v"

definition assertIdList :: "string \<Rightarrow> (string \<Rightarrow> bool) \<Rightarrow> parsed \<Rightarrow> string list result" where
  "assertIdList e pattern v =
     attempt (pr_assertUniqueTextList e 80 44 v) (\<lambda>ids.
       if list_ex (\<lambda>i. \<not> pattern i) ids then Inl (report_error e) else Inr ids)"

text \<open>The identifiers of a list of objects; the objects are read again by the caller.\<close>

fun unique_object_ids :: "string \<Rightarrow> (string \<Rightarrow> bool) \<Rightarrow> string list \<Rightarrow> parsed list \<Rightarrow> error option" where
  "unique_object_ids e pattern seen [] = None"
| "unique_object_ids e pattern seen (v # vs) =
     (case v of
        P_object kvs \<Rightarrow>
          (case own kvs ''id'' of
             P_string i \<Rightarrow>
               if \<not> pattern i then Some (report_error e)
               else if i \<in> set seen then Some (report_error (e @ ''_duplicate''))
               else unique_object_ids e pattern (i # seen) vs
           | _ \<Rightarrow> Some (report_error e))
      | _ \<Rightarrow> Some (report_error e))"

definition assertUniqueObjectsById :: "string \<Rightarrow> (string \<Rightarrow> bool) \<Rightarrow> int \<Rightarrow> parsed \<Rightarrow> parsed list result" where
  "assertUniqueObjectsById e pattern maximum v =
     (case v of
        P_array vs \<Rightarrow>
          if maximum < js_length vs then Inl (report_error e)
          else guard (unique_object_ids e pattern [] vs) (Inr vs)
      | _ \<Rightarrow> Inl (report_error e))"

definition text_of :: "parsed \<Rightarrow> string" where
  "text_of v = (case v of P_string s \<Rightarrow> s | _ \<Rightarrow> [])"

definition pr_assertScopePath :: "string \<Rightarrow> error option" where
  "pr_assertScopePath value =
     (case pr_assertText ''scope_path_invalid'' True 512 (P_string value) of
        Inl e \<Rightarrow> Some e
      | Inr _ \<Rightarrow>
          (let normalized = path_normalize value; segments = split_at (CHR ''/'') normalized in
           throw_if (CHR 0x5C \<in> set value \<or> normalized = ''.'' \<or> normalized \<noteq> value
               \<or> path_is_absolute normalized \<or> ''..'' \<in> set segments \<or> ''.git'' \<in> set segments)
             (report_error ''scope_path_invalid'')))"

section \<open>Artifacts\<close>

definition role_keys :: "role \<Rightarrow> string list" where
  "role_keys r =
     (case r of
        R_po \<Rightarrow> [''user'', ''problem'', ''outcome'', ''value'', ''nonGoals'', ''assumptions'', ''openQuestions'']
      | R_ba \<Rightarrow> [''requirements'', ''dependencies'', ''edgeCases'', ''constraints'', ''openQuestions'']
      | R_dev \<Rightarrow> [''architecture'', ''steps'', ''risks'', ''rollback'', ''openQuestions'']
      | R_qa \<Rightarrow> [''acceptanceCriteria'', ''testStrategy'', ''regressionChecks'', ''releaseRequired'',
          ''releaseChecks'', ''openQuestions''])"

definition validatePoArtifact :: "parsed \<Rightarrow> role_po result" where
  "validatePoArtifact v =
     attempt (pr_exactKeys v (role_keys R_po) ''po_artifact_invalid'') (\<lambda>m.
     attempt (pr_assertText ''po_user_invalid'' False 1600 (own m ''user'')) (\<lambda>user.
     attempt (pr_assertText ''po_problem_invalid'' False 1600 (own m ''problem'')) (\<lambda>problem.
     attempt (pr_assertText ''po_outcome_invalid'' False 1600 (own m ''outcome'')) (\<lambda>outcome.
     attempt (pr_assertText ''po_value_invalid'' False 1600 (own m ''value'')) (\<lambda>val.
     attempt (pr_list ''po_nonGoals_invalid'' (own m ''nonGoals'')) (\<lambda>nonGoals.
     attempt (pr_list ''po_assumptions_invalid'' (own m ''assumptions'')) (\<lambda>assumptions.
     attempt (pr_list ''po_openQuestions_invalid'' (own m ''openQuestions'')) (\<lambda>questions.
       Inr \<lparr>po_user = user, po_problem = problem, po_outcome = outcome, po_value = val,
         po_nonGoals = nonGoals, po_assumptions = assumptions, po_openQuestions = questions\<rparr>))))))))"

definition report_requirement :: "parsed \<Rightarrow> requirement result" where
  "report_requirement v =
     attempt (pr_exactKeys v [''id'', ''text''] ''ba_requirement_invalid'') (\<lambda>m.
     attempt (pr_assertText ''ba_requirement_text_invalid'' True 800 (own m ''text'')) (\<lambda>t.
       Inr \<lparr>rq_id = text_of (own m ''id''), rq_text = t\<rparr>))"

definition validateBaArtifact :: "parsed \<Rightarrow> role_ba result" where
  "validateBaArtifact v =
     attempt (pr_exactKeys v (role_keys R_ba) ''ba_artifact_invalid'') (\<lambda>m.
     attempt (assertUniqueObjectsById ''ba_requirements_invalid'' requirement_id_pattern 80
       (own m ''requirements'')) (\<lambda>vs.
     attempt (map_result report_requirement vs) (\<lambda>requirements.
     attempt (pr_list ''ba_dependencies_invalid'' (own m ''dependencies'')) (\<lambda>dependencies.
     attempt (pr_list ''ba_edgeCases_invalid'' (own m ''edgeCases'')) (\<lambda>edgeCases.
     attempt (pr_list ''ba_constraints_invalid'' (own m ''constraints'')) (\<lambda>constraints.
     attempt (pr_list ''ba_openQuestions_invalid'' (own m ''openQuestions'')) (\<lambda>questions.
       Inr \<lparr>ba_requirements = requirements, ba_dependencies = dependencies, ba_edgeCases = edgeCases,
         ba_constraints = constraints, ba_openQuestions = questions\<rparr>)))))))"

definition report_step :: "parsed \<Rightarrow> plan_step result" where
  "report_step v =
     attempt (pr_exactKeys v [''id'', ''title'', ''outcome'', ''requirementIds'', ''scopePaths'', ''checks'']
       ''dev_step_invalid'') (\<lambda>m.
     attempt (pr_assertText ''dev_step_title_invalid'' True 160 (own m ''title'')) (\<lambda>title.
     attempt (pr_assertText ''dev_step_outcome_invalid'' True 800 (own m ''outcome'')) (\<lambda>outcome.
     attempt (assertIdList ''dev_requirement_ids_invalid'' requirement_id_pattern (own m ''requirementIds'')) (\<lambda>ids.
     attempt (pr_assertUniqueTextList ''dev_scope_paths_invalid'' 100 512 (own m ''scopePaths'')) (\<lambda>paths.
     guard (throws (map pr_assertScopePath paths)) (
     attempt (pr_list ''dev_checks_invalid'' (own m ''checks'')) (\<lambda>checks.
       Inr \<lparr>sp_id = text_of (own m ''id''), sp_title = title, sp_outcome = outcome,
         sp_requirementIds = ids, sp_scopePaths = paths, sp_checks = checks\<rparr>)))))))"

definition validateDevArtifact :: "parsed \<Rightarrow> role_dev result" where
  "validateDevArtifact v =
     attempt (pr_exactKeys v (role_keys R_dev) ''dev_artifact_invalid'') (\<lambda>m.
     attempt (pr_assertText ''dev_architecture_invalid'' False 1600 (own m ''architecture'')) (\<lambda>architecture.
     attempt (assertUniqueObjectsById ''dev_steps_invalid'' step_id_pattern 80 (own m ''steps'')) (\<lambda>vs.
     attempt (map_result report_step vs) (\<lambda>steps.
     attempt (pr_list ''dev_risks_invalid'' (own m ''risks'')) (\<lambda>risks.
     attempt (pr_assertText ''dev_rollback_invalid'' False 1600 (own m ''rollback'')) (\<lambda>rollback.
     attempt (pr_list ''dev_openQuestions_invalid'' (own m ''openQuestions'')) (\<lambda>questions.
       Inr \<lparr>dv_architecture = architecture, dv_steps = steps, dv_risks = risks,
         dv_rollback = rollback, dv_openQuestions = questions\<rparr>)))))))"

definition report_criterion :: "parsed \<Rightarrow> acceptance result" where
  "report_criterion v =
     attempt (pr_exactKeys v [''id'', ''text'', ''requirementIds''] ''qa_acceptance_criterion_invalid'') (\<lambda>m.
     attempt (pr_assertText ''qa_acceptance_text_invalid'' True 800 (own m ''text'')) (\<lambda>t.
     attempt (assertIdList ''qa_requirement_ids_invalid'' requirement_id_pattern (own m ''requirementIds'')) (\<lambda>ids.
       Inr \<lparr>ac_id = text_of (own m ''id''), ac_text = t, ac_requirementIds = ids\<rparr>)))"

definition pr_assertBool :: "string \<Rightarrow> parsed \<Rightarrow> bool result" where
  "pr_assertBool e v = (case v of P_bool b \<Rightarrow> Inr b | _ \<Rightarrow> Inl (report_error e))"

definition validateQaArtifact :: "parsed \<Rightarrow> role_qa result" where
  "validateQaArtifact v =
     attempt (pr_exactKeys v (role_keys R_qa) ''qa_artifact_invalid'') (\<lambda>m.
     attempt (assertUniqueObjectsById ''qa_acceptance_criteria_invalid'' acceptance_id_pattern 120
       (own m ''acceptanceCriteria'')) (\<lambda>vs.
     attempt (map_result report_criterion vs) (\<lambda>criteria.
     attempt (pr_assertText ''qa_test_strategy_invalid'' False 1600 (own m ''testStrategy'')) (\<lambda>strategy.
     attempt (pr_list ''qa_regression_checks_invalid'' (own m ''regressionChecks'')) (\<lambda>regression.
     attempt (pr_assertBool ''qa_release_required_invalid'' (own m ''releaseRequired'')) (\<lambda>required.
     attempt (pr_list ''qa_release_checks_invalid'' (own m ''releaseChecks'')) (\<lambda>release.
     attempt (pr_list ''qa_openQuestions_invalid'' (own m ''openQuestions'')) (\<lambda>questions.
       Inr \<lparr>qa_acceptanceCriteria = criteria, qa_testStrategy = strategy, qa_regressionChecks = regression,
         qa_releaseRequired = required, qa_releaseChecks = release, qa_openQuestions = questions\<rparr>))))))))"

definition validateArtifact :: "role \<Rightarrow> parsed \<Rightarrow> artifact result" where
  "validateArtifact r v =
     (case r of
        R_po \<Rightarrow> attempt (validatePoArtifact v) (\<lambda>a. Inr (A_po a))
      | R_ba \<Rightarrow> attempt (validateBaArtifact v) (\<lambda>a. Inr (A_ba a))
      | R_dev \<Rightarrow> attempt (validateDevArtifact v) (\<lambda>a. Inr (A_dev a))
      | R_qa \<Rightarrow> attempt (validateQaArtifact v) (\<lambda>a. Inr (A_qa a)))"

section \<open>The report\<close>

fun evidence_items :: "string list \<Rightarrow> parsed list \<Rightarrow> report_evidence list result" where
  "evidence_items seen [] = Inr []"
| "evidence_items seen (v # vs) =
     attempt (pr_exactKeys v [''summary'', ''trusted''] ''evidence_item_invalid'') (\<lambda>m.
     attempt (pr_assertText ''evidence_summary_invalid'' True 800 (own m ''summary'')) (\<lambda>s.
     guard (throws
       [throw_if (own m ''trusted'' \<noteq> P_bool False) (report_error ''evidence_trust_invalid''),
        throw_if (s \<in> set seen) (report_error ''evidence_duplicate'')])
     (attempt (evidence_items (s # seen) vs) (\<lambda>es.
       Inr (\<lparr>re_summary = s, re_trusted = False\<rparr> # es)))))"

definition pr_validateEvidence :: "parsed \<Rightarrow> report_evidence list result" where
  "pr_validateEvidence v =
     (case v of
        P_array vs \<Rightarrow>
          if 40 < js_length vs then Inl (report_error ''evidence_invalid'') else evidence_items [] vs
      | _ \<Rightarrow> Inl (report_error ''evidence_invalid''))"

text \<open>The strings of a value: the work list of the source visits them in some order.\<close>

primrec strings_in :: "parsed \<Rightarrow> string list" where
  "strings_in P_null = []"
| "strings_in (P_bool b) = []"
| "strings_in (P_number n) = []"
| "strings_in (P_string s) = [s]"
| "strings_in (P_array vs) = concat (map strings_in vs)"
| "strings_in (P_object kvs) = concat (map snd (map (map_prod (\<lambda>k. k) strings_in) kvs))"

definition assertNoPrivatePlanningText :: "parsed \<Rightarrow> error option" where
  "assertNoPrivatePlanningText v =
     throw_if (list_ex private_planning_text (strings_in v)) (report_error ''private_identity_not_allowed'')"

type_synonym report_expected = "(string \<times> parsed) list"

definition validateExpected :: "(string \<times> parsed) list \<Rightarrow> report_expected option \<Rightarrow> error option" where
  "validateExpected report expected =
     (case expected of
        None \<Rightarrow> None
      | Some wanted \<Rightarrow>
          if list_ex (\<lambda>f. fst f \<notin> set (map fst EXPECTED_ERROR_FIELDS)) wanted
          then Some (report_error ''expected_invalid'')
          else throws (map (\<lambda>(field, expectedValue).
            throw_if (own report field \<noteq> expectedValue)
              (report_error (the (map_of EXPECTED_ERROR_FIELDS field) @ ''_mismatch''))) wanted))"

definition persistedJsonBytes :: "json \<Rightarrow> int" where
  "persistedJsonBytes j = utf8_length (prettyJson j []) + 1"

lemma persistedJsonBytes_size [code]: "persistedJsonBytes j = pretty_size j 0 + 1"
  by (simp add: persistedJsonBytes_def pretty_size_correct utf8_length_code(1))

definition report_pattern :: "string \<Rightarrow> (string \<Rightarrow> bool) \<Rightarrow> parsed \<Rightarrow> string result" where
  "report_pattern e pattern v =
     (case v of P_string s \<Rightarrow> if pattern s then Inr s else Inl (report_error e)
      | _ \<Rightarrow> Inl (report_error e))"

definition report_revision :: "parsed \<Rightarrow> int result" where
  "report_revision v =
     (case v of
        P_number (Whole n) \<Rightarrow>
          if \<not> safe_integer n \<or> n < 1 then Inl (report_error ''plan_revision_invalid'') else Inr n
      | _ \<Rightarrow> Inl (report_error ''plan_revision_invalid''))"

text \<open>\<open>SET.has(value)\<close> for a set of words: the member that the value names.\<close>

definition report_word :: "string \<Rightarrow> ('a \<Rightarrow> string) \<Rightarrow> 'a list \<Rightarrow> parsed \<Rightarrow> 'a result" where
  "report_word e word_text words v =
     (case find (\<lambda>w. P_string (word_text w) = v) words of
        None \<Rightarrow> Inl (report_error e)
      | Some w \<Rightarrow> Inr w)"

definition validatePlanningRoleReport :: "parsed \<Rightarrow> report_expected option \<Rightarrow> planning_report result" where
  "validatePlanningRoleReport v expected =
     attempt (pr_exactKeys v REPORT_KEYS ''shape_invalid'') (\<lambda>m.
     guard (throw_if (own m ''version'' \<noteq> P_number (Whole PLANNING_ROLE_REPORT_VERSION))
       (report_error ''version_unsupported'')) (
     attempt (report_pattern ''run_id_invalid'' planning_run_id_pattern (own m ''runId'')) (\<lambda>runId.
     attempt (report_pattern ''plan_id_invalid'' plan_id_pattern (own m ''planId'')) (\<lambda>planId.
     attempt (report_revision (own m ''planRevision'')) (\<lambda>planRevision.
     attempt (report_word ''role_invalid'' role_text PLANNING_ROLE_REPORT_ROLES (own m ''role'')) (\<lambda>role.
     attempt (report_pattern ''attempt_id_invalid'' planning_attempt_id_pattern (own m ''attemptId'')) (\<lambda>attemptId.
     attempt (report_pattern ''input_digest_invalid'' digest_pattern (own m ''inputDigest'')) (\<lambda>inputDigest.
     attempt (report_word ''status_invalid'' status_text PLANNING_ROLE_REPORT_STATUSES (own m ''status'')) (\<lambda>status.
     attempt (validateArtifact role (own m ''artifact'')) (\<lambda>artifact.
     attempt (pr_assertUniqueTextList ''challenges_invalid'' 40 800 (own m ''challenges'')) (\<lambda>challenges.
     attempt (pr_validateEvidence (own m ''evidence'')) (\<lambda>evidence.
     guard (throws
       [assertNoPrivatePlanningText (own m ''artifact''),
        assertNoPrivatePlanningText (own m ''challenges''),
        assertNoPrivatePlanningText (own m ''evidence''),
        validateExpected m expected])
     (let report = \<lparr>pr_version = PLANNING_ROLE_REPORT_VERSION, pr_runId = runId, pr_planId = planId,
            pr_planRevision = planRevision, pr_role = role, pr_attemptId = attemptId,
            pr_inputDigest = inputDigest, pr_status = status, pr_artifact = artifact,
            pr_challenges = challenges, pr_evidence = evidence\<rparr>
      in guard (throw_if (PLANNING_ROLE_REPORT_MAX_PERSISTED_BYTES < persistedJsonBytes (report_json report))
           (report_error ''persisted_size_exceeded'')) (Inr report))))))))))))))"

section \<open>Parsing the final answer\<close>

definition OPEN_MARKER :: string where "OPEN_MARKER = ''[PANEFLEET PLANNING RESULT]''"
definition CLOSE_MARKER :: string where "CLOSE_MARKER = ''[/PANEFLEET PLANNING RESULT]''"

text \<open>\<open>text.split(marker).length - 1\<close>: the occurrences from the left that do not overlap.\<close>

function occurrences :: "string \<Rightarrow> string \<Rightarrow> nat" where
  "occurrences p s =
     (if p = [] \<or> s = [] then 0
      else if starts_with p s then Suc (occurrences p (drop (length p) s))
      else occurrences p (tl s))"
  by pat_completeness auto
termination by (relation "measure (\<lambda>(p, s). length s)") (auto simp: neq_Nil_conv)

declare occurrences.simps [simp del]

definition parsePlanningRoleReport :: "string \<Rightarrow> report_expected option \<Rightarrow> planning_report result option" where
  "parsePlanningRoleReport text expected =
     (let prefix = OPEN_MARKER @ [CHR 0x0A]; suffix = CHR 0x0A # CLOSE_MARKER;
          jsonText = take (length text - length prefix - length suffix) (drop (length prefix) text) in
      if MAX_FINAL_ANSWER_BYTES < utf8_length text then Some (Inl (report_error ''size_exceeded''))
      else if \<not> starts_with prefix text \<or> \<not> ends_with suffix text
      then Some (Inl (report_error ''boundary_invalid''))
      else if occurrences OPEN_MARKER text \<noteq> 1 \<or> occurrences CLOSE_MARKER text \<noteq> 1
      then Some (Inl (report_error ''boundary_ambiguous''))
      else if jsonText = [] \<or> hd jsonText \<noteq> CHR ''{'' then Some (Inl (report_error ''json_invalid''))
      else map_option (\<lambda>r. attempt r (\<lambda>v. validatePlanningRoleReport v expected)) (strictJsonParse jsonText))"

definition planningRoleReportOutputDigest :: "host \<Rightarrow> planning_report \<Rightarrow> string result" where
  "planningRoleReportOutputDigest H report =
     attempt (validatePlanningRoleReport (parsed_of (report_json report)) None) (\<lambda>r.
       Inr (canonicalSha256 H (report_json r)))"

section \<open>The worker's authority\<close>

text \<open>What the rollout says of the turn that gave the final answer.\<close>

record final_answer =
  fa_text :: string
  fa_at :: string
  fa_sandbox :: string
  fa_approvalPolicy :: string
  fa_networkAccess :: bool
  fa_sandboxObserved :: bool
  fa_approvalPolicyObserved :: bool
  fa_networkAccessObserved :: bool

record required_authority =
  qr_sandbox :: string
  qr_approvalPolicy :: string
  qr_networkAccess :: bool
  qr_allowUnobservedNetwork :: "bool option"

datatype authority_demand = D_none | D_default | D_required required_authority

definition default_authority :: required_authority where
  "default_authority = \<lparr>qr_sandbox = ''read-only'', qr_approvalPolicy = ''never'', qr_networkAccess = False,
     qr_allowUnobservedNetwork = Some True\<rparr>"

definition authority_check :: "final_answer \<Rightarrow> required_authority \<Rightarrow> error option" where
  "authority_check final required =
     throw_if (\<not> fa_sandboxObserved final \<or> \<not> fa_approvalPolicyObserved final
         \<or> fa_sandbox final \<noteq> qr_sandbox required
         \<or> fa_approvalPolicy final \<noteq> qr_approvalPolicy required
         \<or> (if fa_networkAccessObserved final then fa_networkAccess final \<noteq> qr_networkAccess required
            else qr_allowUnobservedNetwork required \<noteq> Some True))
       (report_error ''authority_mismatch'')"

definition assertPlanningAuthority :: "final_answer \<Rightarrow> authority_demand \<Rightarrow> error option" where
  "assertPlanningAuthority final demand =
     (case demand of
        D_none \<Rightarrow> None
      | D_default \<Rightarrow> authority_check final default_authority
      | D_required required \<Rightarrow> authority_check final required)"

record read_report =
  rr_report :: planning_report
  rr_outputDigest :: string
  rr_completedAt :: string
  rr_final :: final_answer

definition dispatch_marker :: "string \<Rightarrow> string" where
  "dispatch_marker attemptId = ''[PaneFleet Planning Dispatch '' @ attemptId @ '']''"

text \<open>The attempt that a confirmation marker names.\<close>

definition marker_attempt :: "string \<Rightarrow> string option" where
  "marker_attempt marker =
     (let prefix = ''[PaneFleet Planning Dispatch ''; a = take (length marker - length prefix - 1) (drop (length prefix) marker) in
      if marker = dispatch_marker a \<and> planning_attempt_id_pattern a then Some a else None)"

text \<open>\<open>{ ...expected, attemptId: expected.attemptId ?? marker }\<close>\<close>

definition effective_expected :: "report_expected option \<Rightarrow> string \<Rightarrow> report_expected" where
  "effective_expected expected attemptId =
     (case expected of
        None \<Rightarrow> [(''attemptId'', P_string attemptId)]
      | Some wanted \<Rightarrow>
          if map_of wanted ''attemptId'' = None then wanted @ [(''attemptId'', P_string attemptId)]
          else map (\<lambda>(k, v). (k, if k = ''attemptId'' \<and> v = P_null then P_string attemptId else v)) wanted)"

text \<open>
  \<open>readCodexPlanningRoleReport\<close>; \<open>final\<close> is what \<open>readCodexFinalAnswer\<close> returned for the rollout
  file. The outer option is the parser's, the inner one the source's null.
\<close>

definition readCodexPlanningRoleReport ::
  "host \<Rightarrow> string \<Rightarrow> report_expected option \<Rightarrow> authority_demand \<Rightarrow> final_answer option result
     \<Rightarrow> read_report option result option" where
  "readCodexPlanningRoleReport H marker expected demand final =
     (case marker_attempt marker of
        None \<Rightarrow> Some (Inr None)
      | Some attemptId \<Rightarrow>
          (let wanted = effective_expected expected attemptId in
           if map_of wanted ''attemptId'' \<noteq> Some (P_string attemptId)
           then Some (Inl (report_error ''attempt_id_mismatch''))
           else (case final of
               Inl e \<Rightarrow> Some (Inl e)
             | Inr None \<Rightarrow> Some (Inr None)
             | Inr (Some answer) \<Rightarrow>
                 (case assertPlanningAuthority answer demand of
                    Some e \<Rightarrow> Some (Inl e)
                  | None \<Rightarrow> map_option (\<lambda>parsed.
                      attempt parsed (\<lambda>report.
                      attempt (planningRoleReportOutputDigest H report) (\<lambda>digest.
                        Inr (Some \<lparr>rr_report = report, rr_outputDigest = digest,
                          rr_completedAt = fa_at answer, rr_final = answer\<rparr>))))
                      (parsePlanningRoleReport (fa_text answer) (Some wanted))))))"

end
