(* ===== verification/PlanningRunData.thy ===== *)
theory PlanningRunData
  imports PlanningReport PlanJson
begin

text \<open>
  The data of delivery-planning-run.js: a planning run sends the frozen source plan to four
  workers (PO, BA, QA, DEV), each with one attempt that is bound to a spawn lease, a worker
  and a cleanup, and compiles their reports into a candidate that the operator may apply.
  Enumerations and records take the place of the source's sets of words and tests of types;
  an object with the keys po, ba, qa and dev is a function of the role.
\<close>

section \<open>Errors and constants\<close>

definition planning_error :: "string \<Rightarrow> error" where
  "planning_error suffix = Error (''delivery_planning_run_'' @ suffix)"

definition DELIVERY_PLANNING_RUN_VERSION :: int where "DELIVERY_PLANNING_RUN_VERSION = 1"

definition DELIVERY_PLANNING_RUN_ROLES :: "role list" where
  "DELIVERY_PLANNING_RUN_ROLES = [R_po, R_ba, R_qa, R_dev]"

definition SOURCE_PLAN_MAX_BYTES :: int where "SOURCE_PLAN_MAX_BYTES = 16 * 1024"
definition PLANNING_RUN_MAX_BYTES :: int where "PLANNING_RUN_MAX_BYTES = 256 * 1024"
definition MAX_CONTINUE_RECEIPTS :: int where "MAX_CONTINUE_RECEIPTS = 12"
definition MAX_RESOURCE_CONTINUE_RECEIPTS :: int where "MAX_RESOURCE_CONTINUE_RECEIPTS = 6"
definition MAX_CLEANUP_CONTINUE_RECEIPTS :: int where "MAX_CLEANUP_CONTINUE_RECEIPTS = 6"
definition SPAWN_LEASE_MAX_BIND_MS :: int where "SPAWN_LEASE_MAX_BIND_MS = 5 * 60 * 1000"
definition MAX_CLEANUP_RECOVERIES :: int where "MAX_CLEANUP_RECOVERIES = 3"
definition MAX_ATTEMPTS :: int where "MAX_ATTEMPTS = 1"
definition ROLE_ENVELOPE_MAX_CHARS :: int where "ROLE_ENVELOPE_MAX_CHARS = 64 * 1024"

definition SPAWN_SCOPE_LIMITS :: json where
  "SPAWN_SCOPE_LIMITS = JObj
     [(''memoryHighBytes'', JNum 734003200), (''memoryMaxBytes'', JNum 1153433600),
      (''memorySwapMaxBytes'', JNum 1073741824), (''tasksMax'', JNum 256),
      (''runtimeMaxSec'', JStr ''30min''), (''timeoutStopSec'', JStr ''30s''),
      (''killMode'', JStr ''control-group''), (''killSignal'', JStr ''SIGTERM''),
      (''sendSIGHUP'', JStr ''no''), (''sendSIGKILL'', JStr ''yes''),
      (''finalKillSignal'', JStr ''SIGKILL''), (''managedOOMMemoryPressure'', JStr ''kill''),
      (''managedOOMMemoryPressureLimitPercent'', JNum 80), (''managedOOMSwap'', JStr ''kill'')]"

section \<open>States\<close>

datatype planning_phase = PH_po | PH_ba | PH_challenge | PH_synthesis | PH_review | PH_applied | PH_closed

datatype planning_condition =
  K_active | K_resource_wait | K_needs_input | K_reconcile_required | K_off_course | K_failed | K_canceled

datatype role_state =
  Q_pending | Q_spawn_claimed | Q_dispatch_claimed | Q_dispatched | Q_completed | Q_needs_input
| Q_failed | Q_reconcile_required

datatype attempt_state =
  AT_spawn_claimed | AT_dispatch_claimed | AT_dispatched | AT_finished | AT_crashed | AT_reconcile_required

datatype attempt_outcome = OC_none | OC_complete | OC_needs_input | OC_blocked | OC_failed | OC_crashed

datatype lease_state = SL_claimed | SL_bound | SL_reconcile_required | SL_adopted | SL_closed

datatype lease_status = LS_none | LS_exact_pane | LS_present_unattestable | LS_scope_and_pane_absent

datatype lease_cleanup_state = LC_claimed | LC_sent | LC_complete

datatype cleanup_state = CS_pending | CS_claimed | CS_sent | CS_complete | CS_reconcile_required

datatype apply_state = AS_held | AS_claimed | AS_reconcile_required | AS_abandoned | AS_applied

datatype continue_kind = CK_resource_retry | CK_cleanup_only

datatype recovery_outcome = RO_none | RO_worker_absent | RO_exact_worker

datatype blocker_code = SB_invalid | SB_too_large | SB_unchanged

section \<open>Records\<close>

record lease_binding =
  lb_leaseId :: string
  lb_session :: string
  lb_contextDigest :: string
  lb_scopeUnit :: string
  lb_scopeDigest :: string
  lb_launchDigest :: string
  lb_bindDeadlineAt :: string

record pane_observation =
  pane_sessionCreatedAt :: string
  pane_paneId :: string
  pane_tmuxPaneId :: string
  pane_panePid :: int
  pane_paneTty :: string

record lease_observed =
  ob_status :: lease_status
  ob_sessionCreatedAt :: "string option"
  ob_paneId :: string
  ob_tmuxPaneId :: string
  ob_panePid :: "int option"
  ob_paneTty :: string
  ob_boundAt :: "string option"
  ob_observedAt :: "string option"

record lease_cleanup =
  lc_action :: string
  lc_state :: lease_cleanup_state
  lc_claimId :: string
  lc_operatorConfirmed :: bool
  lc_claimedAt :: string
  lc_sentAt :: "string option"
  lc_completedAt :: "string option"
  lc_observation :: string

record spawn_lease = lease_binding +
  sl_claimedAt :: string
  sl_state :: lease_state
  sl_observed :: lease_observed
  sl_cleanup :: "lease_cleanup option"
  sl_error :: string

record cleanup_recovery =
  rv_outcome :: recovery_outcome
  rv_claimId :: string
  rv_observedAt :: string

record cleanup =
  cl_state :: cleanup_state
  cl_claimId :: string
  cl_claimedAt :: "string option"
  cl_sentAt :: "string option"
  cl_completedAt :: "string option"
  cl_error :: string
  cl_recoveryOutcome :: recovery_outcome
  cl_recoveredAt :: "string option"
  cl_recoveryCount :: int
  cl_recoveryHistory :: "cleanup_recovery list"

record role_attempt =
  at_id :: string
  at_kind :: role
  at_state :: attempt_state
  at_inputDigest :: string
  at_spawnLease :: spawn_lease
  at_session :: string
  at_sessionCreatedAt :: "string option"
  at_paneId :: string
  at_tmuxPaneId :: string
  at_panePid :: "int option"
  at_paneTty :: string
  at_codexPid :: "int option"
  at_rolloutId :: string
  at_sourceId :: string
  at_commandDigest :: string
  at_rolloutPath :: string
  at_rolloutStartOffset :: "int option"
  at_scopeUnit :: string
  at_scopeDigest :: string
  at_confirmationMarker :: string
  at_promptDigest :: string
  at_claimedAt :: string
  at_dispatchClaimedAt :: "string option"
  at_submittedAt :: "string option"
  at_finishedAt :: "string option"
  at_outcome :: attempt_outcome
  at_summary :: string
  at_error :: string
  at_cleanup :: "cleanup option"

record role_record =
  ro_state :: role_state
  ro_inputDigest :: string
  ro_attempts :: "role_attempt list"
  ro_report :: "planning_report option"
  ro_outputDigest :: string

record definition_patch =
  dp_roles :: plan_roles
  dp_unresolvedQuestions :: "string list"

record candidate =
  cd_definitionPatch :: definition_patch
  cd_digest :: string
  cd_previewPlanDigest :: string
  cd_readiness :: readiness
  cd_challenges :: "string list"
  cd_roleOutputDigests :: "role \<Rightarrow> string"
  cd_compiledAt :: string

record apply_outbox =
  ao_state :: apply_state
  ao_candidateDigest :: string
  ao_claimId :: string
  ao_claimedAt :: "string option"
  ao_appliedPlanRevision :: "int option"
  ao_appliedPlanDigest :: string
  ao_appliedAt :: "string option"
  ao_observation :: string
  ao_error :: string
  ao_updatedAt :: string

record synthesis_blocker =
  sb_code :: blocker_code
  sb_reason :: string
  sb_recordedAt :: string

record continue_receipt =
  cr_operationId :: string
  cr_kind :: continue_kind
  cr_role :: role
  cr_attemptId :: string
  cr_claimId :: string
  cr_cleanupRecoveryOutcome :: recovery_outcome
  cr_requestedStoreRevision :: int
  cr_requestedRunRevision :: int
  cr_authorizedAt :: string

record planning_run =
  pn_version :: int
  pn_id :: string
  pn_revision :: int
  pn_phase :: planning_phase
  pn_condition :: planning_condition
  pn_planId :: string
  pn_planRevision :: int
  pn_planDigest :: string
  pn_workspace :: string
  pn_baseline :: plan_baseline
  pn_inputDigest :: string
  pn_sourcePlan :: delivery_plan
  pn_roles :: "role \<Rightarrow> role_record"
  pn_candidate :: "candidate option"
  pn_applyOutbox :: apply_outbox
  pn_synthesisBlocker :: "synthesis_blocker option"
  pn_continueReceipts :: "continue_receipt list"
  pn_blocker :: string
  pn_createdAt :: string
  pn_updatedAt :: string

section \<open>Words\<close>

fun phase_word :: "planning_phase \<Rightarrow> string" where
  "phase_word PH_po = ''po''"
| "phase_word PH_ba = ''ba''"
| "phase_word PH_challenge = ''challenge''"
| "phase_word PH_synthesis = ''synthesis''"
| "phase_word PH_review = ''review''"
| "phase_word PH_applied = ''applied''"
| "phase_word PH_closed = ''closed''"

fun condition_word :: "planning_condition \<Rightarrow> string" where
  "condition_word K_active = ''active''"
| "condition_word K_resource_wait = ''resource_wait''"
| "condition_word K_needs_input = ''needs_input''"
| "condition_word K_reconcile_required = ''reconcile_required''"
| "condition_word K_off_course = ''off_course''"
| "condition_word K_failed = ''failed''"
| "condition_word K_canceled = ''canceled''"

fun role_state_word :: "role_state \<Rightarrow> string" where
  "role_state_word Q_pending = ''pending''"
| "role_state_word Q_spawn_claimed = ''spawn_claimed''"
| "role_state_word Q_dispatch_claimed = ''dispatch_claimed''"
| "role_state_word Q_dispatched = ''dispatched''"
| "role_state_word Q_completed = ''completed''"
| "role_state_word Q_needs_input = ''needs_input''"
| "role_state_word Q_failed = ''failed''"
| "role_state_word Q_reconcile_required = ''reconcile_required''"

fun attempt_state_word :: "attempt_state \<Rightarrow> string" where
  "attempt_state_word AT_spawn_claimed = ''spawn_claimed''"
| "attempt_state_word AT_dispatch_claimed = ''dispatch_claimed''"
| "attempt_state_word AT_dispatched = ''dispatched''"
| "attempt_state_word AT_finished = ''finished''"
| "attempt_state_word AT_crashed = ''crashed''"
| "attempt_state_word AT_reconcile_required = ''reconcile_required''"

fun outcome_word :: "attempt_outcome \<Rightarrow> string" where
  "outcome_word OC_none = ''''"
| "outcome_word OC_complete = ''complete''"
| "outcome_word OC_needs_input = ''needs_input''"
| "outcome_word OC_blocked = ''blocked''"
| "outcome_word OC_failed = ''failed''"
| "outcome_word OC_crashed = ''crashed''"

fun lease_state_word :: "lease_state \<Rightarrow> string" where
  "lease_state_word SL_claimed = ''claimed''"
| "lease_state_word SL_bound = ''bound''"
| "lease_state_word SL_reconcile_required = ''reconcile_required''"
| "lease_state_word SL_adopted = ''adopted''"
| "lease_state_word SL_closed = ''closed''"

fun lease_status_word :: "lease_status \<Rightarrow> string" where
  "lease_status_word LS_none = ''none''"
| "lease_status_word LS_exact_pane = ''exact_pane''"
| "lease_status_word LS_present_unattestable = ''present_unattestable''"
| "lease_status_word LS_scope_and_pane_absent = ''scope_and_pane_absent''"

fun lease_cleanup_word :: "lease_cleanup_state \<Rightarrow> string" where
  "lease_cleanup_word LC_claimed = ''claimed''"
| "lease_cleanup_word LC_sent = ''sent''"
| "lease_cleanup_word LC_complete = ''complete''"

fun cleanup_word :: "cleanup_state \<Rightarrow> string" where
  "cleanup_word CS_pending = ''pending''"
| "cleanup_word CS_claimed = ''claimed''"
| "cleanup_word CS_sent = ''sent''"
| "cleanup_word CS_complete = ''complete''"
| "cleanup_word CS_reconcile_required = ''reconcile_required''"

fun apply_word :: "apply_state \<Rightarrow> string" where
  "apply_word AS_held = ''held''"
| "apply_word AS_claimed = ''claimed''"
| "apply_word AS_reconcile_required = ''reconcile_required''"
| "apply_word AS_abandoned = ''abandoned''"
| "apply_word AS_applied = ''applied''"

fun kind_word :: "continue_kind \<Rightarrow> string" where
  "kind_word CK_resource_retry = ''resource_retry''"
| "kind_word CK_cleanup_only = ''cleanup_only''"

fun recovery_word :: "recovery_outcome \<Rightarrow> string" where
  "recovery_word RO_none = ''''"
| "recovery_word RO_worker_absent = ''worker_absent''"
| "recovery_word RO_exact_worker = ''exact_worker''"

fun blocker_word :: "blocker_code \<Rightarrow> string" where
  "blocker_word SB_invalid = ''delivery_planning_run_candidate_invalid''"
| "blocker_word SB_too_large = ''delivery_planning_run_candidate_too_large''"
| "blocker_word SB_unchanged = ''delivery_planning_run_candidate_unchanged''"

section \<open>Roles as an enumeration\<close>

text \<open>Objects by role are compared role by role.\<close>

instantiation role :: enum
begin

definition "enum_role = [R_po, R_ba, R_qa, R_dev]"
definition "enum_all_role P \<longleftrightarrow> P R_po \<and> P R_ba \<and> P R_qa \<and> P R_dev"
definition "enum_ex_role P \<longleftrightarrow> P R_po \<or> P R_ba \<or> P R_qa \<or> P R_dev"

instance
proof
  show "(UNIV :: role set) = set enum_class.enum"
    using role.exhaust by (auto simp: enum_role_def)
  show "distinct (enum_class.enum :: role list)" by (simp add: enum_role_def)
  show "enum_class.enum_all P \<longleftrightarrow> Ball UNIV P" for P :: "role \<Rightarrow> bool"
    unfolding enum_all_role_def by (metis UNIV_I role.exhaust)
  show "enum_class.enum_ex P \<longleftrightarrow> Bex UNIV P" for P :: "role \<Rightarrow> bool"
    unfolding enum_ex_role_def by (metis UNIV_I role.exhaust)
qed

end

section \<open>JSON\<close>

definition lease_binding_json :: "lease_binding \<Rightarrow> json" where
  "lease_binding_json b = JObj
     [(''leaseId'', JStr (lb_leaseId b)), (''session'', JStr (lb_session b)),
      (''contextDigest'', JStr (lb_contextDigest b)), (''scopeUnit'', JStr (lb_scopeUnit b)),
      (''scopeDigest'', JStr (lb_scopeDigest b)), (''launchDigest'', JStr (lb_launchDigest b)),
      (''bindDeadlineAt'', JStr (lb_bindDeadlineAt b))]"

definition lease_observed_json :: "lease_observed \<Rightarrow> json" where
  "lease_observed_json o' = JObj
     [(''status'', JStr (lease_status_word (ob_status o'))),
      (''sessionCreatedAt'', json_nullable (ob_sessionCreatedAt o')), (''paneId'', JStr (ob_paneId o')),
      (''tmuxPaneId'', JStr (ob_tmuxPaneId o')), (''panePid'', json_option JNum (ob_panePid o')),
      (''paneTty'', JStr (ob_paneTty o')), (''boundAt'', json_nullable (ob_boundAt o')),
      (''observedAt'', json_nullable (ob_observedAt o'))]"

definition lease_cleanup_json :: "lease_cleanup \<Rightarrow> json" where
  "lease_cleanup_json c = JObj
     [(''action'', JStr (lc_action c)), (''state'', JStr (lease_cleanup_word (lc_state c))),
      (''claimId'', JStr (lc_claimId c)), (''operatorConfirmed'', JBool (lc_operatorConfirmed c)),
      (''claimedAt'', JStr (lc_claimedAt c)), (''sentAt'', json_nullable (lc_sentAt c)),
      (''completedAt'', json_nullable (lc_completedAt c)), (''observation'', JStr (lc_observation c))]"

definition spawn_lease_json :: "spawn_lease \<Rightarrow> json" where
  "spawn_lease_json l = JObj
     [(''leaseId'', JStr (lb_leaseId l)), (''session'', JStr (lb_session l)),
      (''contextDigest'', JStr (lb_contextDigest l)), (''scopeUnit'', JStr (lb_scopeUnit l)),
      (''scopeDigest'', JStr (lb_scopeDigest l)), (''launchDigest'', JStr (lb_launchDigest l)),
      (''bindDeadlineAt'', JStr (lb_bindDeadlineAt l)), (''claimedAt'', JStr (sl_claimedAt l)),
      (''state'', JStr (lease_state_word (sl_state l))), (''observed'', lease_observed_json (sl_observed l)),
      (''cleanup'', json_option lease_cleanup_json (sl_cleanup l)), (''error'', JStr (sl_error l))]"

definition cleanup_recovery_json :: "cleanup_recovery \<Rightarrow> json" where
  "cleanup_recovery_json r = JObj
     [(''outcome'', JStr (recovery_word (rv_outcome r))), (''claimId'', JStr (rv_claimId r)),
      (''observedAt'', JStr (rv_observedAt r))]"

definition cleanup_json :: "cleanup \<Rightarrow> json" where
  "cleanup_json c = JObj
     [(''state'', JStr (cleanup_word (cl_state c))), (''claimId'', JStr (cl_claimId c)),
      (''claimedAt'', json_nullable (cl_claimedAt c)), (''sentAt'', json_nullable (cl_sentAt c)),
      (''completedAt'', json_nullable (cl_completedAt c)), (''error'', JStr (cl_error c)),
      (''recoveryOutcome'', JStr (recovery_word (cl_recoveryOutcome c))),
      (''recoveredAt'', json_nullable (cl_recoveredAt c)), (''recoveryCount'', JNum (cl_recoveryCount c)),
      (''recoveryHistory'', objects cleanup_recovery_json (cl_recoveryHistory c))]"

definition attempt_json :: "role_attempt \<Rightarrow> json" where
  "attempt_json a = JObj
     [(''id'', JStr (at_id a)), (''kind'', JStr (role_text (at_kind a))),
      (''state'', JStr (attempt_state_word (at_state a))), (''inputDigest'', JStr (at_inputDigest a)),
      (''spawnLease'', spawn_lease_json (at_spawnLease a)), (''session'', JStr (at_session a)),
      (''sessionCreatedAt'', json_nullable (at_sessionCreatedAt a)), (''paneId'', JStr (at_paneId a)),
      (''tmuxPaneId'', JStr (at_tmuxPaneId a)), (''panePid'', json_option JNum (at_panePid a)),
      (''paneTty'', JStr (at_paneTty a)), (''codexPid'', json_option JNum (at_codexPid a)),
      (''rolloutId'', JStr (at_rolloutId a)), (''sourceId'', JStr (at_sourceId a)),
      (''commandDigest'', JStr (at_commandDigest a)), (''rolloutPath'', JStr (at_rolloutPath a)),
      (''rolloutStartOffset'', json_option JNum (at_rolloutStartOffset a)),
      (''scopeUnit'', JStr (at_scopeUnit a)), (''scopeDigest'', JStr (at_scopeDigest a)),
      (''confirmationMarker'', JStr (at_confirmationMarker a)), (''promptDigest'', JStr (at_promptDigest a)),
      (''claimedAt'', JStr (at_claimedAt a)), (''dispatchClaimedAt'', json_nullable (at_dispatchClaimedAt a)),
      (''submittedAt'', json_nullable (at_submittedAt a)), (''finishedAt'', json_nullable (at_finishedAt a)),
      (''outcome'', JStr (outcome_word (at_outcome a))), (''summary'', JStr (at_summary a)),
      (''error'', JStr (at_error a)), (''cleanup'', json_option cleanup_json (at_cleanup a))]"

definition role_record_json :: "role_record \<Rightarrow> json" where
  "role_record_json r = JObj
     [(''state'', JStr (role_state_word (ro_state r))), (''inputDigest'', JStr (ro_inputDigest r)),
      (''attempts'', objects attempt_json (ro_attempts r)), (''report'', json_option report_json (ro_report r)),
      (''outputDigest'', JStr (ro_outputDigest r))]"

definition definition_patch_json :: "definition_patch \<Rightarrow> json" where
  "definition_patch_json d = JObj
     [(''roles'', roles_json (dp_roles d)), (''unresolvedQuestions'', json_strings (dp_unresolvedQuestions d))]"

definition by_role_json :: "('a \<Rightarrow> json) \<Rightarrow> (role \<Rightarrow> 'a) \<Rightarrow> json" where
  "by_role_json f g = JObj (map (\<lambda>r. (role_text r, f (g r))) DELIVERY_PLANNING_RUN_ROLES)"

definition finding_json :: "finding \<Rightarrow> json" where
  "finding_json f = JObj
     [(''code'', JStr (fd_code f)), (''path'', JStr (fd_path f)), (''message'', JStr (fd_message f))]"

definition trace_row_json :: "trace_row \<Rightarrow> json" where
  "trace_row_json t = JObj
     [(''requirementId'', JStr (tr_requirementId t)), (''stepIds'', json_strings (tr_stepIds t)),
      (''acceptanceIds'', json_strings (tr_acceptanceIds t)), (''complete'', JBool (tr_complete t))]"

definition readiness_json :: "readiness \<Rightarrow> json" where
  "readiness_json r = JObj
     [(''ready'', JBool (rd_ready r)), (''errors'', objects finding_json (rd_errors r)),
      (''warnings'', objects finding_json (rd_warnings r)),
      (''traceability'', objects trace_row_json (rd_traceability r))]"

definition candidate_json :: "candidate \<Rightarrow> json" where
  "candidate_json c = JObj
     [(''definitionPatch'', definition_patch_json (cd_definitionPatch c)), (''digest'', JStr (cd_digest c)),
      (''previewPlanDigest'', JStr (cd_previewPlanDigest c)), (''readiness'', readiness_json (cd_readiness c)),
      (''challenges'', json_strings (cd_challenges c)),
      (''roleOutputDigests'', by_role_json JStr (cd_roleOutputDigests c)),
      (''compiledAt'', JStr (cd_compiledAt c))]"

definition apply_outbox_json :: "apply_outbox \<Rightarrow> json" where
  "apply_outbox_json a = JObj
     [(''state'', JStr (apply_word (ao_state a))), (''candidateDigest'', JStr (ao_candidateDigest a)),
      (''claimId'', JStr (ao_claimId a)), (''claimedAt'', json_nullable (ao_claimedAt a)),
      (''appliedPlanRevision'', json_option JNum (ao_appliedPlanRevision a)),
      (''appliedPlanDigest'', JStr (ao_appliedPlanDigest a)), (''appliedAt'', json_nullable (ao_appliedAt a)),
      (''observation'', JStr (ao_observation a)), (''error'', JStr (ao_error a)),
      (''updatedAt'', JStr (ao_updatedAt a))]"

definition synthesis_blocker_json :: "synthesis_blocker \<Rightarrow> json" where
  "synthesis_blocker_json b = JObj
     [(''code'', JStr (blocker_word (sb_code b))), (''reason'', JStr (sb_reason b)),
      (''recordedAt'', JStr (sb_recordedAt b))]"

definition continue_receipt_json :: "continue_receipt \<Rightarrow> json" where
  "continue_receipt_json r = JObj
     [(''operationId'', JStr (cr_operationId r)), (''kind'', JStr (kind_word (cr_kind r))),
      (''role'', JStr (role_text (cr_role r))), (''attemptId'', JStr (cr_attemptId r)),
      (''claimId'', JStr (cr_claimId r)),
      (''cleanupRecoveryOutcome'', JStr (recovery_word (cr_cleanupRecoveryOutcome r))),
      (''requestedStoreRevision'', JNum (cr_requestedStoreRevision r)),
      (''requestedRunRevision'', JNum (cr_requestedRunRevision r)),
      (''authorizedAt'', JStr (cr_authorizedAt r))]"

definition planning_run_json :: "planning_run \<Rightarrow> json" where
  "planning_run_json v = JObj
     [(''version'', JNum (pn_version v)), (''id'', JStr (pn_id v)), (''revision'', JNum (pn_revision v)),
      (''phase'', JStr (phase_word (pn_phase v))), (''condition'', JStr (condition_word (pn_condition v))),
      (''planId'', JStr (pn_planId v)), (''planRevision'', JNum (pn_planRevision v)),
      (''planDigest'', JStr (pn_planDigest v)), (''workspace'', JStr (pn_workspace v)),
      (''baseline'', stored_baseline_json (pn_baseline v)), (''inputDigest'', JStr (pn_inputDigest v)),
      (''sourcePlan'', plan_json (pn_sourcePlan v)), (''roles'', by_role_json role_record_json (pn_roles v)),
      (''candidate'', json_option candidate_json (pn_candidate v)),
      (''applyOutbox'', apply_outbox_json (pn_applyOutbox v)),
      (''synthesisBlocker'', json_option synthesis_blocker_json (pn_synthesisBlocker v)),
      (''continueReceipts'', objects continue_receipt_json (pn_continueReceipts v)),
      (''blocker'', JStr (pn_blocker v)), (''createdAt'', JStr (pn_createdAt v)),
      (''updatedAt'', JStr (pn_updatedAt v))]"

section \<open>Fresh parts\<close>

definition emptyRole :: role_record where
  "emptyRole = \<lparr>ro_state = Q_pending, ro_inputDigest = [], ro_attempts = [], ro_report = None, ro_outputDigest = []\<rparr>"

definition emptyApplyOutbox :: "string \<Rightarrow> apply_outbox" where
  "emptyApplyOutbox at = \<lparr>ao_state = AS_held, ao_candidateDigest = [], ao_claimId = [], ao_claimedAt = None,
     ao_appliedPlanRevision = None, ao_appliedPlanDigest = [], ao_appliedAt = None, ao_observation = [],
     ao_error = [], ao_updatedAt = at\<rparr>"

definition emptySpawnLeaseObservation :: lease_observed where
  "emptySpawnLeaseObservation = \<lparr>ob_status = LS_none, ob_sessionCreatedAt = None, ob_paneId = [],
     ob_tmuxPaneId = [], ob_panePid = None, ob_paneTty = [], ob_boundAt = None, ob_observedAt = None\<rparr>"

definition pendingCleanup :: cleanup where
  "pendingCleanup = \<lparr>cl_state = CS_pending, cl_claimId = [], cl_claimedAt = None, cl_sentAt = None,
     cl_completedAt = None, cl_error = [], cl_recoveryOutcome = RO_none, cl_recoveredAt = None,
     cl_recoveryCount = 0, cl_recoveryHistory = []\<rparr>"

end
