(* ===== verification/PlanningRunChecks.thy ===== *)
theory PlanningRunChecks
  imports PlanningRunData
begin

text \<open>
  The validator of delivery-planning-run.js: a planning run is checked as a whole, against
  the frozen source plan, before and after every operation. The tests stand in the source's
  order, and each throws the source's error.
\<close>

section \<open>Patterns\<close>

definition claim_id_char :: "char \<Rightarrow> bool" where
  "claim_id_char c \<longleftrightarrow> is_alnum c \<or> c \<in> set ''._:-''"

definition claim_id_pattern :: "string \<Rightarrow> bool" where
  "claim_id_pattern s = id_pattern [] is_alnum claim_id_char 7 127 s"

text \<open>\<open>/^prefix-[a-f0-9]{24}-(po|ba|qa|dev)$/\<close> with the given role.\<close>

definition token_role_pattern :: "string \<Rightarrow> role \<Rightarrow> string \<Rightarrow> bool" where
  "token_role_pattern prefix r s \<longleftrightarrow>
     starts_with prefix s \<and>
     (let u = drop (length prefix) s in
      list_all is_hex (take 24 u) \<and> drop 24 u = CHR ''-'' # role_text r)"

definition planning_scope_pattern :: "string \<Rightarrow> bool" where
  "planning_scope_pattern s \<longleftrightarrow>
     starts_with ''panefleet-planning-'' s \<and>
     (let u = drop 19 s in list_all is_hex (take 24 u) \<and> drop 24 u = ''.scope'')"

definition rollout_id_pattern :: "string \<Rightarrow> bool" where
  "rollout_id_pattern s \<longleftrightarrow>
     (let t = to_lower s in
      list_all is_hex (take 8 t) \<and> starts_with ''-'' (drop 8 t) \<and> 36 \<le> length t
      \<and> list_all (\<lambda>c. is_hex c \<or> c = CHR ''-'') (drop 9 t))"

definition source_id_pattern :: "string \<Rightarrow> bool" where
  "source_id_pattern s \<longleftrightarrow> length s = 24 \<and> list_all is_hex s"

definition tmux_pane_pattern :: "string \<Rightarrow> bool" where
  "tmux_pane_pattern s \<longleftrightarrow> starts_with ''%'' s \<and> tl s \<noteq> [] \<and> list_all is_digit (tl s)"

definition scope_unit_char :: "char \<Rightarrow> bool" where
  "scope_unit_char c \<longleftrightarrow> is_alnum c \<or> c \<in> set ''_.@:-''"

definition scope_unit_pattern :: "string \<Rightarrow> bool" where
  "scope_unit_pattern s \<longleftrightarrow>
     ends_with ''.scope'' s \<and> id_pattern [] is_alnum scope_unit_char 0 249 (take (length s - 6) s)"

section \<open>Simple checks\<close>

definition pn_assertText :: "string \<Rightarrow> bool \<Rightarrow> int \<Rightarrow> bool \<Rightarrow> string \<Rightarrow> error option" where
  "pn_assertText e required maximum inline value = throws
     [throw_if (required \<and> value = [] \<or> maximum < js_length value) (planning_error e),
      throw_if (list_ex is_c0_control value) (planning_error ''control_characters_not_allowed''),
      throw_if (inline \<and> fold_spaces (js_trim value) \<noteq> value) (planning_error e)]"

definition assertDigest :: "string \<Rightarrow> string \<Rightarrow> error option" where
  "assertDigest e value = throw_if (\<not> digest_pattern value) (planning_error e)"

definition pn_timestamp :: "string \<Rightarrow> string result" where
  "pn_timestamp value = (if valid_timestamp value then Inr value else Inl (planning_error ''timestamp_invalid''))"

definition nullableTimestamp :: "string \<Rightarrow> string option \<Rightarrow> error option" where
  "nullableTimestamp e value =
     (case value of None \<Rightarrow> None | Some t \<Rightarrow> throw_if (\<not> valid_timestamp t) (planning_error e))"

text \<open>\<open>Boolean(value)\<close> of a nullable text or number.\<close>

definition given_text :: "string option \<Rightarrow> bool" where
  "given_text t \<longleftrightarrow> t \<noteq> None \<and> t \<noteq> Some []"

definition given_number :: "int option \<Rightarrow> bool" where
  "given_number n \<longleftrightarrow> n \<noteq> None \<and> n \<noteq> Some 0"

definition text_ms :: "string option \<Rightarrow> int" where
  "text_ms t = (case t of None \<Rightarrow> 0 | Some s \<Rightarrow> date_ms s)"

definition assertAttemptId :: "string \<Rightarrow> error option" where
  "assertAttemptId value = throw_if (\<not> planning_attempt_id_pattern value) (planning_error ''attempt_id_invalid'')"

definition assertClaimId :: "string \<Rightarrow> string \<Rightarrow> error option" where
  "assertClaimId e value = throw_if (\<not> claim_id_pattern value) (planning_error e)"

definition assertPid :: "string \<Rightarrow> int option \<Rightarrow> error option" where
  "assertPid e value =
     (case value of None \<Rightarrow> None | Some n \<Rightarrow> throw_if (\<not> safe_integer n \<or> n < 1) (planning_error e))"

definition canonical_path :: "string \<Rightarrow> bool" where
  "canonical_path p \<longleftrightarrow> path_is_absolute p \<and> path_normalize p = p"

section \<open>The source plan\<close>

definition strictSourcePlan :: "host \<Rightarrow> string \<Rightarrow> delivery_plan \<Rightarrow> delivery_plan result" where
  "strictSourcePlan H now v =
     (case validateDeliveryPlan H now v of
        Inl cause \<Rightarrow> Inl (planning_error ''source_plan_invalid'')
      | Inr plan \<Rightarrow>
          (let enabled = allowed_authority (pl_authority plan) in
           guard (throws
             [throw_if (canonicalJson (plan_json plan) \<noteq> canonicalJson (plan_json v))
                (planning_error ''source_plan_not_canonical''),
              throw_if (SOURCE_PLAN_MAX_BYTES < persistedJsonBytes (plan_json plan))
                (planning_error ''source_plan_too_large''),
              throw_if (pl_phase plan \<noteq> ''planning'') (planning_error ''source_plan_phase_invalid''),
              throw_if (pc_depth (pl_classification plan) \<noteq> ''standard'') (planning_error ''source_plan_depth_invalid''),
              throw_if (pc_intent (pl_classification plan) \<notin> set [''change'', ''build''])
                (planning_error ''source_plan_intent_invalid''),
              throw_if (pc_risk (pl_classification plan) \<noteq> ''local_reversible'')
                (planning_error ''source_plan_risk_invalid''),
              throw_if (pc_mutationSurfaces (pl_classification plan) \<noteq> [''workspace''])
                (planning_error ''source_plan_surface_invalid''),
              throw_if (enabled \<noteq> [''workspaceWrite'']) (planning_error ''source_plan_authority_invalid'')])
             (Inr plan)))"

definition assertBaseline :: "plan_baseline \<Rightarrow> plan_baseline \<Rightarrow> error option" where
  "assertBaseline b expected = throws
     [pn_assertText ''baseline_head_invalid'' True 80 True (pb_head b),
      throw_if (pb_head b \<noteq> ''unborn'' \<and> \<not> plan_head_pattern (pb_head b)) (planning_error ''baseline_head_invalid''),
      assertDigest ''baseline_worktree_digest_invalid'' (pb_workingTreeDigest b),
      assertDigest ''baseline_instructions_digest_invalid'' (pb_instructionsDigest b),
      throw_if (\<not> valid_timestamp (pb_capturedAt b)) (planning_error ''baseline_timestamp_invalid''),
      throw_if (canonicalJson (stored_baseline_json b) \<noteq> canonicalJson (stored_baseline_json expected))
        (planning_error ''baseline_binding_mismatch'')]"

definition runInputDigest :: "host \<Rightarrow> planning_run \<Rightarrow> string" where
  "runInputDigest H v = canonicalSha256 H (JObj
     [(''id'', JStr (pn_id v)), (''planId'', JStr (pn_planId v)), (''planRevision'', JNum (pn_planRevision v)),
      (''planDigest'', JStr (pn_planDigest v)), (''workspace'', JStr (pn_workspace v)),
      (''baseline'', stored_baseline_json (pn_baseline v)), (''sourcePlan'', plan_json (pn_sourcePlan v))])"

section \<open>Spawn leases\<close>

text \<open>The identities that a lease must have: digests of what the run, the attempt and its launch are.\<close>

definition lease_token :: "host \<Rightarrow> planning_run \<Rightarrow> role \<Rightarrow> string \<Rightarrow> string \<Rightarrow> string \<Rightarrow> string \<Rightarrow> string" where
  "lease_token H v r attemptId inputDigest contextDigest launchDigest =
     take 24 (canonicalSha256 H (JObj
       [(''version'', JNum DELIVERY_PLANNING_RUN_VERSION), (''runId'', JStr (pn_id v)),
        (''planId'', JStr (pn_planId v)), (''planRevision'', JNum (pn_planRevision v)),
        (''planDigest'', JStr (pn_planDigest v)), (''role'', JStr (role_text r)),
        (''attemptId'', JStr attemptId), (''inputDigest'', JStr inputDigest),
        (''contextDigest'', JStr contextDigest), (''launchDigest'', JStr launchDigest)]))"

definition expectedSpawnLeaseBinding ::
  "host \<Rightarrow> planning_run \<Rightarrow> role \<Rightarrow> string \<Rightarrow> string \<Rightarrow> string \<Rightarrow> string \<Rightarrow> string \<Rightarrow> lease_binding" where
  "expectedSpawnLeaseBinding H v r attemptId inputDigest contextDigest launchDigest bindDeadlineAt =
     (let token = lease_token H v r attemptId inputDigest contextDigest launchDigest;
          session = ''codex-planning-'' @ token @ ''-'' @ role_text r;
          scopeUnit = ''panefleet-planning-'' @ take 24 (canonicalSha256 H (JObj
            [(''version'', JNum DELIVERY_PLANNING_RUN_VERSION), (''session'', JStr session),
             (''contextDigest'', JStr contextDigest), (''launchDigest'', JStr launchDigest)])) @ ''.scope''
      in \<lparr>lb_leaseId = ''planning-spawn-lease-'' @ token @ ''-'' @ role_text r, lb_session = session,
          lb_contextDigest = contextDigest, lb_scopeUnit = scopeUnit,
          lb_scopeDigest = canonicalSha256 H (JObj [(''scopeUnit'', JStr scopeUnit), (''limits'', SPAWN_SCOPE_LIMITS)]),
          lb_launchDigest = launchDigest, lb_bindDeadlineAt = bindDeadlineAt\<rparr>)"

definition validateSpawnLeaseCleanup :: "lease_cleanup \<Rightarrow> error option" where
  "validateSpawnLeaseCleanup c =
     (let lifecycle = planning_error ''spawn_lease_cleanup_lifecycle_invalid'';
          chronology = planning_error ''spawn_lease_cleanup_chronology_invalid'' in throws
     [throw_if (lc_action c \<noteq> ''stop_exact_scope'') (planning_error ''spawn_lease_cleanup_action_invalid''),
      assertClaimId ''spawn_lease_cleanup_claim_id_invalid'' (lc_claimId c),
      throw_if (\<not> lc_operatorConfirmed c) (planning_error ''spawn_lease_cleanup_confirmation_invalid''),
      nullableTimestamp ''spawn_lease_cleanup_claimedAt_invalid'' (Some (lc_claimedAt c)),
      nullableTimestamp ''spawn_lease_cleanup_sentAt_invalid'' (lc_sentAt c),
      nullableTimestamp ''spawn_lease_cleanup_completedAt_invalid'' (lc_completedAt c),
      throw_if (lc_observation c \<notin> set ['''', ''scope_and_pane_absent''])
        (planning_error ''spawn_lease_cleanup_observation_invalid''),
      throw_if (lc_state c = LC_claimed
          \<and> (given_text (lc_sentAt c) \<or> given_text (lc_completedAt c) \<or> lc_observation c \<noteq> [])) lifecycle,
      throw_if (lc_state c = LC_sent
          \<and> (\<not> given_text (lc_sentAt c) \<or> given_text (lc_completedAt c) \<or> lc_observation c \<noteq> [])) lifecycle,
      throw_if (lc_state c = LC_complete
          \<and> (\<not> given_text (lc_completedAt c) \<or> lc_observation c \<noteq> ''scope_and_pane_absent'')) lifecycle,
      throw_if (given_text (lc_sentAt c) \<and> text_ms (lc_sentAt c) < date_ms (lc_claimedAt c)) chronology,
      throw_if (given_text (lc_completedAt c)
          \<and> text_ms (lc_completedAt c)
              < (if given_text (lc_sentAt c) then text_ms (lc_sentAt c) else date_ms (lc_claimedAt c))) chronology])"

definition exact_pane :: "lease_observed \<Rightarrow> bool" where
  "exact_pane v \<longleftrightarrow> given_text (ob_sessionCreatedAt v) \<and> ob_paneId v \<noteq> [] \<and> ob_tmuxPaneId v \<noteq> []
     \<and> given_number (ob_panePid v) \<and> ob_paneTty v \<noteq> [] \<and> given_text (ob_boundAt v)"

definition any_pane :: "lease_observed \<Rightarrow> bool" where
  "any_pane v \<longleftrightarrow> given_text (ob_sessionCreatedAt v) \<or> ob_paneId v \<noteq> [] \<or> ob_tmuxPaneId v \<noteq> []
     \<or> given_number (ob_panePid v) \<or> ob_paneTty v \<noteq> [] \<or> given_text (ob_boundAt v)"

definition validateSpawnLeaseObserved :: "lease_observed \<Rightarrow> error option" where
  "validateSpawnLeaseObserved v =
     (let lifecycle = planning_error ''spawn_lease_observation_lifecycle_invalid'' in throws
     [pn_assertText ''spawn_lease_paneId_invalid'' False 512 False (ob_paneId v),
      pn_assertText ''spawn_lease_paneTty_invalid'' False 512 False (ob_paneTty v),
      nullableTimestamp ''spawn_lease_session_timestamp_invalid'' (ob_sessionCreatedAt v),
      nullableTimestamp ''spawn_lease_bound_at_invalid'' (ob_boundAt v),
      nullableTimestamp ''spawn_lease_observed_at_invalid'' (ob_observedAt v),
      throw_if (ob_tmuxPaneId v \<noteq> [] \<and> \<not> tmux_pane_pattern (ob_tmuxPaneId v))
        (planning_error ''spawn_lease_tmux_pane_id_invalid''),
      assertPid ''spawn_lease_pane_pid_invalid'' (ob_panePid v),
      throw_if (any_pane v \<noteq> exact_pane v) (planning_error ''spawn_lease_pane_binding_incomplete''),
      throw_if (ob_status v = LS_none \<and> (any_pane v \<or> given_text (ob_observedAt v))) lifecycle,
      throw_if (ob_status v = LS_exact_pane \<and> (\<not> exact_pane v \<or> \<not> given_text (ob_observedAt v))) lifecycle,
      throw_if (ob_status v \<in> {LS_present_unattestable, LS_scope_and_pane_absent}
          \<and> \<not> given_text (ob_observedAt v)) lifecycle])"

text \<open>The lifecycle of a lease: each state with what may have been observed, and its cleanup.\<close>

definition lease_lifecycle_checks :: "spawn_lease \<Rightarrow> error option list" where
  "lease_lifecycle_checks l =
     (let v = sl_observed l; lifecycle = planning_error ''spawn_lease_lifecycle_invalid'';
          cleanup_in = (\<lambda>states. case sl_cleanup l of None \<Rightarrow> True | Some c \<Rightarrow> lc_state c \<in> set states) in
     [throw_if (sl_state l = SL_claimed \<and> (ob_status v \<noteq> LS_none \<or> sl_cleanup l \<noteq> None \<or> sl_error l \<noteq> [])) lifecycle,
      throw_if (sl_state l = SL_bound
          \<and> (ob_status v \<noteq> LS_exact_pane \<or> \<not> exact_pane v \<or> sl_cleanup l \<noteq> None \<or> sl_error l \<noteq> [])) lifecycle,
      throw_if (sl_state l = SL_reconcile_required
          \<and> (ob_status v \<noteq> LS_present_unattestable \<or> sl_error l = [] \<or> \<not> cleanup_in [LC_claimed, LC_sent])) lifecycle,
      throw_if (sl_state l = SL_adopted
          \<and> (ob_status v \<noteq> LS_exact_pane \<or> \<not> exact_pane v \<or> sl_cleanup l \<noteq> None \<or> sl_error l \<noteq> [])) lifecycle,
      throw_if (sl_state l = SL_closed
          \<and> (ob_status v \<noteq> LS_scope_and_pane_absent \<or> sl_error l = [] \<or> \<not> cleanup_in [LC_complete])) lifecycle])"

definition validateSpawnLease :: "role \<Rightarrow> lease_binding \<Rightarrow> spawn_lease \<Rightarrow> error option" where
  "validateSpawnLease r expected l =
     (let v = sl_observed l; duration = date_ms (lb_bindDeadlineAt l) - date_ms (sl_claimedAt l);
          chronology = planning_error ''spawn_lease_chronology_invalid'' in throws (
     [throw_if (\<not> token_role_pattern ''planning-spawn-lease-'' r (lb_leaseId l)) (planning_error ''spawn_lease_id_invalid''),
      throw_if (\<not> token_role_pattern ''codex-planning-'' r (lb_session l)) (planning_error ''spawn_lease_session_invalid''),
      assertDigest ''spawn_lease_context_digest_invalid'' (lb_contextDigest l),
      throw_if (\<not> planning_scope_pattern (lb_scopeUnit l)) (planning_error ''spawn_lease_scope_unit_invalid''),
      assertDigest ''spawn_lease_scope_digest_invalid'' (lb_scopeDigest l),
      assertDigest ''spawn_lease_launch_digest_invalid'' (lb_launchDigest l),
      throw_if (\<not> valid_timestamp (lb_bindDeadlineAt l) \<or> \<not> valid_timestamp (sl_claimedAt l))
        (planning_error ''spawn_lease_timestamp_invalid''),
      throw_if (duration \<le> 0 \<or> SPAWN_LEASE_MAX_BIND_MS < duration) (planning_error ''spawn_lease_deadline_invalid''),
      validateSpawnLeaseObserved v,
      throw_if (canonicalJson (lease_binding_json (lease_binding.truncate l)) \<noteq> canonicalJson (lease_binding_json expected))
        (planning_error ''spawn_lease_binding_mismatch''),
      pn_assertText ''spawn_lease_error_invalid'' False 800 False (sl_error l),
      (case sl_cleanup l of None \<Rightarrow> None | Some c \<Rightarrow> validateSpawnLeaseCleanup c),
      throw_if (given_text (ob_observedAt v) \<and> text_ms (ob_observedAt v) < date_ms (sl_claimedAt l)) chronology,
      throw_if (given_text (ob_boundAt v) \<and> text_ms (ob_boundAt v) < date_ms (sl_claimedAt l)) chronology,
      throw_if (given_text (ob_boundAt v) \<and> date_ms (lb_bindDeadlineAt l) < text_ms (ob_boundAt v))
        (planning_error ''spawn_lease_bound_after_deadline'')]
     @ lease_lifecycle_checks l
     @ [(case sl_cleanup l of None \<Rightarrow> None
         | Some c \<Rightarrow> throw_if (date_ms (lc_claimedAt c) < date_ms (sl_claimedAt l))
             (planning_error ''spawn_lease_cleanup_chronology_invalid''))]))"

section \<open>Cleanups\<close>

text \<open>The history of recoveries, with the claims used so far and the time of the last one.\<close>

fun recovery_history_from :: "string list \<Rightarrow> string option \<Rightarrow> cleanup_recovery list \<Rightarrow> error option" where
  "recovery_history_from claims earlier [] = None"
| "recovery_history_from claims earlier (r # rs) =
     (let e = ''cleanup_recovery_history_invalid'' in
      case throws
        [throw_if (rv_outcome r = RO_none) (planning_error e),
         throw_if (\<not> valid_timestamp (rv_observedAt r)) (planning_error e),
         throw_if (given_text earlier \<and> date_ms (rv_observedAt r) < text_ms earlier) (planning_error e),
         (if rv_outcome r = RO_worker_absent then throw_if (rv_claimId r \<noteq> []) (planning_error e)
          else throws [assertClaimId e (rv_claimId r), throw_if (rv_claimId r \<in> set claims) (planning_error e)])]
      of Some x \<Rightarrow> Some x
       | None \<Rightarrow> recovery_history_from (if rv_outcome r = RO_worker_absent then claims else rv_claimId r # claims)
           (Some (rv_observedAt r)) rs)"

definition latest_recovery_agrees :: "cleanup \<Rightarrow> bool" where
  "latest_recovery_agrees c \<longleftrightarrow>
     (if cl_recoveryHistory c = [] then cl_recoveryOutcome c = RO_none \<and> \<not> given_text (cl_recoveredAt c)
      else cl_recoveryOutcome c = rv_outcome (last (cl_recoveryHistory c))
        \<and> cl_recoveredAt c = Some (rv_observedAt (last (cl_recoveryHistory c))))"

text \<open>A claim after a recovery is one of an exact worker, and carries the time of the recovery.\<close>

definition recovery_unbound :: "cleanup \<Rightarrow> bool" where
  "recovery_unbound c \<longleftrightarrow>
     (if cl_recoveryOutcome c = RO_exact_worker then \<not> given_text (cl_recoveredAt c) else given_text (cl_recoveredAt c))"

definition cleanup_lifecycle_checks :: "cleanup \<Rightarrow> error option list" where
  "cleanup_lifecycle_checks c =
     (let e = planning_error ''cleanup_lifecycle_invalid'' in
     [throw_if (cl_state c = CS_pending
          \<and> (cl_claimId c \<noteq> [] \<or> given_text (cl_claimedAt c) \<or> given_text (cl_sentAt c)
             \<or> given_text (cl_completedAt c) \<or> cl_error c \<noteq> [] \<or> cl_recoveryCount c \<noteq> 0)) e,
      throw_if (cl_state c = CS_claimed
          \<and> (cl_claimId c = [] \<or> \<not> given_text (cl_claimedAt c) \<or> given_text (cl_sentAt c)
             \<or> given_text (cl_completedAt c) \<or> cl_error c \<noteq> []
             \<or> cl_recoveryOutcome c = RO_worker_absent \<or> recovery_unbound c)) e,
      throw_if (cl_state c = CS_sent
          \<and> (cl_claimId c = [] \<or> \<not> given_text (cl_claimedAt c) \<or> \<not> given_text (cl_sentAt c)
             \<or> given_text (cl_completedAt c) \<or> cl_error c \<noteq> []
             \<or> cl_recoveryOutcome c = RO_worker_absent \<or> recovery_unbound c)) e,
      throw_if (cl_state c = CS_complete
          \<and> (if cl_recoveryOutcome c = RO_worker_absent
             then cl_claimId c \<noteq> [] \<or> given_text (cl_claimedAt c) \<or> given_text (cl_sentAt c)
               \<or> \<not> given_text (cl_completedAt c) \<or> cl_error c \<noteq> [] \<or> \<not> given_text (cl_recoveredAt c)
             else cl_claimId c = [] \<or> \<not> given_text (cl_claimedAt c) \<or> \<not> given_text (cl_sentAt c)
               \<or> \<not> given_text (cl_completedAt c) \<or> cl_error c \<noteq> [] \<or> recovery_unbound c)) e,
      throw_if (cl_state c = CS_reconcile_required
          \<and> (cl_error c = [] \<or> given_text (cl_completedAt c) \<or> cl_recoveryOutcome c = RO_worker_absent)) e])"

definition validateCleanup :: "cleanup \<Rightarrow> error option" where
  "validateCleanup c =
     (let history = planning_error ''cleanup_recovery_history_invalid'' in throws (
     [pn_assertText ''cleanup_claim_id_invalid'' False 128 False (cl_claimId c),
      (if cl_claimId c \<noteq> [] then assertClaimId ''cleanup_claim_id_invalid'' (cl_claimId c) else None),
      nullableTimestamp ''cleanup_claimedAt_invalid'' (cl_claimedAt c),
      nullableTimestamp ''cleanup_sentAt_invalid'' (cl_sentAt c),
      nullableTimestamp ''cleanup_completedAt_invalid'' (cl_completedAt c),
      nullableTimestamp ''cleanup_recoveredAt_invalid'' (cl_recoveredAt c),
      pn_assertText ''cleanup_error_invalid'' False 800 False (cl_error c),
      throw_if (\<not> safe_integer (cl_recoveryCount c) \<or> cl_recoveryCount c < 0
          \<or> MAX_CLEANUP_RECOVERIES < cl_recoveryCount c
          \<or> js_length (cl_recoveryHistory c) \<noteq> cl_recoveryCount c) history,
      recovery_history_from [] None (cl_recoveryHistory c),
      throw_if (\<not> latest_recovery_agrees c) history]
     @ cleanup_lifecycle_checks c))"

section \<open>Attempts\<close>

definition assertAttemptBinding :: "host \<Rightarrow> planning_run \<Rightarrow> role \<Rightarrow> role_attempt \<Rightarrow> error option" where
  "assertAttemptBinding H run r a =
     (let l = at_spawnLease a in throws
     [assertAttemptId (at_id a),
      throw_if (at_kind a \<noteq> r) (planning_error ''attempt_role_mismatch''),
      validateSpawnLease r (expectedSpawnLeaseBinding H run r (at_id a) (at_inputDigest a)
        (lb_contextDigest l) (lb_launchDigest l) (lb_bindDeadlineAt l)) l,
      assertDigest ''attempt_input_digest_invalid'' (at_inputDigest a),
      pn_assertText ''attempt_session_invalid'' False 512 False (at_session a),
      pn_assertText ''attempt_paneId_invalid'' False 512 False (at_paneId a),
      pn_assertText ''attempt_paneTty_invalid'' False 512 False (at_paneTty a),
      pn_assertText ''attempt_confirmationMarker_invalid'' False 512 False (at_confirmationMarker a),
      pn_assertText ''attempt_summary_invalid'' False 800 False (at_summary a),
      pn_assertText ''attempt_error_invalid'' False 800 False (at_error a),
      throw_if (at_tmuxPaneId a \<noteq> [] \<and> \<not> tmux_pane_pattern (at_tmuxPaneId a))
        (planning_error ''attempt_tmux_pane_id_invalid''),
      assertPid ''attempt_panePid_invalid'' (at_panePid a),
      assertPid ''attempt_codexPid_invalid'' (at_codexPid a),
      throw_if (at_rolloutId a \<noteq> [] \<and> \<not> rollout_id_pattern (at_rolloutId a))
        (planning_error ''attempt_rollout_id_invalid''),
      throw_if (at_sourceId a \<noteq> [] \<and> \<not> source_id_pattern (at_sourceId a))
        (planning_error ''attempt_source_id_invalid''),
      (if at_commandDigest a \<noteq> [] then assertDigest ''attempt_commandDigest_invalid'' (at_commandDigest a) else None),
      (if at_promptDigest a \<noteq> [] then assertDigest ''attempt_promptDigest_invalid'' (at_promptDigest a) else None),
      (if at_scopeUnit a \<noteq> []
       then throws [pn_assertText ''attempt_scope_unit_invalid'' True 256 True (at_scopeUnit a),
         throw_if (\<not> scope_unit_pattern (at_scopeUnit a)) (planning_error ''attempt_scope_unit_invalid'')]
       else None),
      (if at_scopeDigest a \<noteq> [] then assertDigest ''attempt_scope_digest_invalid'' (at_scopeDigest a) else None),
      (if at_rolloutPath a \<noteq> []
       then throws [pn_assertText ''attempt_rollout_path_invalid'' True 4096 False (at_rolloutPath a),
         throw_if (\<not> canonical_path (at_rolloutPath a)) (planning_error ''attempt_rollout_path_invalid'')]
       else None),
      (case at_rolloutStartOffset a of None \<Rightarrow> None
       | Some n \<Rightarrow> throw_if (\<not> safe_integer n \<or> n < 0) (planning_error ''attempt_rollout_offset_invalid'')),
      nullableTimestamp ''attempt_claimedAt_invalid'' (Some (at_claimedAt a)),
      nullableTimestamp ''attempt_dispatchClaimedAt_invalid'' (at_dispatchClaimedAt a),
      nullableTimestamp ''attempt_submittedAt_invalid'' (at_submittedAt a),
      nullableTimestamp ''attempt_finishedAt_invalid'' (at_finishedAt a),
      (case at_cleanup a of None \<Rightarrow> None | Some c \<Rightarrow> validateCleanup c)])"

definition worker_bound :: "role_attempt \<Rightarrow> bool" where
  "worker_bound a \<longleftrightarrow> at_session a \<noteq> []"

definition all_worker_fields :: "role_attempt \<Rightarrow> bool" where
  "all_worker_fields a \<longleftrightarrow>
     given_text (at_sessionCreatedAt a) \<and> at_paneId a \<noteq> [] \<and> at_tmuxPaneId a \<noteq> [] \<and> given_number (at_panePid a)
     \<and> at_paneTty a \<noteq> [] \<and> given_number (at_codexPid a) \<and> at_rolloutId a \<noteq> [] \<and> at_sourceId a \<noteq> []
     \<and> at_commandDigest a \<noteq> [] \<and> at_scopeUnit a \<noteq> [] \<and> at_scopeDigest a \<noteq> []
     \<and> at_rolloutPath a \<noteq> [] \<and> at_rolloutStartOffset a \<noteq> None"

text \<open>The worker's identity is the one that the adopted lease observed.\<close>

definition worker_matches_lease :: "role_attempt \<Rightarrow> bool" where
  "worker_matches_lease a \<longleftrightarrow>
     (let l = at_spawnLease a; v = sl_observed l in
      sl_state l = SL_adopted \<and> ob_status v = LS_exact_pane \<and> at_session a = lb_session l
      \<and> at_sessionCreatedAt a = ob_sessionCreatedAt v \<and> at_paneId a = ob_paneId v
      \<and> at_tmuxPaneId a = ob_tmuxPaneId v \<and> at_panePid a = ob_panePid v \<and> at_paneTty a = ob_paneTty v
      \<and> at_commandDigest a = lb_launchDigest l \<and> at_scopeUnit a = lb_scopeUnit l
      \<and> at_scopeDigest a = lb_scopeDigest l)"

text \<open>Nothing after the dispatch yet: no end, no outcome, no cleanup.\<close>

definition unfinished :: "role_attempt \<Rightarrow> bool" where
  "unfinished a \<longleftrightarrow> \<not> given_text (at_finishedAt a) \<and> at_outcome a = OC_none \<and> at_summary a = [] \<and> at_error a = []
     \<and> at_cleanup a = None"

definition assertAttemptLifecycle :: "role_attempt \<Rightarrow> error option" where
  "assertAttemptLifecycle a =
     (let l = at_spawnLease a; e = planning_error ''attempt_lifecycle_invalid'';
          overlap = planning_error ''attempt_cleanup_overlap'' in throws
     [throw_if (worker_bound a \<noteq> all_worker_fields a) (planning_error ''attempt_worker_binding_incomplete''),
      throw_if (worker_bound a \<and> \<not> worker_matches_lease a) (planning_error ''attempt_spawn_lease_binding_mismatch''),
      throw_if (\<not> worker_bound a \<and> sl_state l = SL_adopted) (planning_error ''attempt_spawn_lease_binding_mismatch''),
      throw_if (at_cleanup a \<noteq> None \<and> (sl_state l \<noteq> SL_adopted \<or> sl_cleanup l \<noteq> None)) overlap,
      throw_if (sl_cleanup l \<noteq> None \<and> at_cleanup a \<noteq> None) overlap,
      throw_if (at_state a = AT_spawn_claimed
          \<and> (sl_state l \<notin> {SL_claimed, SL_bound} \<or> worker_bound a \<or> given_text (at_dispatchClaimedAt a)
             \<or> given_text (at_submittedAt a) \<or> \<not> unfinished a)) e,
      throw_if (at_state a = AT_dispatch_claimed
          \<and> (\<not> worker_bound a \<or> \<not> given_text (at_dispatchClaimedAt a) \<or> given_text (at_submittedAt a)
             \<or> \<not> unfinished a)) e,
      throw_if (at_state a = AT_dispatched
          \<and> (\<not> worker_bound a \<or> \<not> given_text (at_dispatchClaimedAt a) \<or> \<not> given_text (at_submittedAt a)
             \<or> \<not> unfinished a)) e,
      throw_if (at_state a = AT_finished
          \<and> (sl_state l \<noteq> SL_adopted \<or> \<not> given_text (at_finishedAt a) \<or> at_outcome a = OC_none \<or> at_summary a = []
             \<or> (if worker_bound a then at_cleanup a = None else at_cleanup a \<noteq> None))) e,
      throw_if (at_state a = AT_crashed
          \<and> (\<not> given_text (at_finishedAt a) \<or> at_outcome a \<noteq> OC_crashed \<or> at_summary a = []
             \<or> (\<not> worker_bound a \<and> sl_state l \<noteq> SL_closed))) e,
      throw_if (at_state a = AT_reconcile_required
          \<and> (\<not> given_text (at_finishedAt a) \<or> at_outcome a \<noteq> OC_none \<or> at_summary a = [] \<or> at_error a = []
             \<or> (\<not> worker_bound a \<and> sl_state l \<noteq> SL_reconcile_required))) e])"

section \<open>Reports of a role\<close>

definition workerAuthoredReportStrings :: "planning_report \<Rightarrow> string list" where
  "workerAuthoredReportStrings r =
     strings_in (parsed_of (artifact_json (pr_artifact r))) @ pr_challenges r @ map re_summary (pr_evidence r)"

definition privateRunValues :: "planning_run \<Rightarrow> role_attempt \<Rightarrow> string list" where
  "privateRunValues run a =
     (let l = at_spawnLease a in
      filter (\<lambda>s. 4 \<le> js_length s)
        [pn_workspace run, at_id a, at_confirmationMarker a, at_session a, at_scopeUnit a, at_rolloutId a,
         at_sourceId a, at_commandDigest a, at_rolloutPath a, at_paneTty a, at_promptDigest a,
         lb_leaseId l, lb_session l, lb_contextDigest l, lb_scopeUnit l, lb_scopeDigest l, lb_launchDigest l])"

definition assertReportHasNoPrivateRunValues :: "planning_report \<Rightarrow> planning_run \<Rightarrow> role_attempt \<Rightarrow> error option" where
  "assertReportHasNoPrivateRunValues report run a =
     throw_if (list_ex (\<lambda>t. list_ex (\<lambda>p. includes_text p t) (privateRunValues run a))
         (workerAuthoredReportStrings report))
       (planning_error ''report_private_value_not_allowed'')"

definition report_binding :: "planning_run \<Rightarrow> role \<Rightarrow> string \<Rightarrow> string \<Rightarrow> report_expected" where
  "report_binding run r attemptId inputDigest =
     [(''runId'', P_string (pn_id run)), (''planId'', P_string (pn_planId run)),
      (''planRevision'', P_number (Whole (pn_planRevision run))), (''role'', P_string (role_text r)),
      (''attemptId'', P_string attemptId), (''inputDigest'', P_string inputDigest)]"

definition currentAttempt :: "role_record \<Rightarrow> role_attempt result" where
  "currentAttempt rec =
     (if ro_attempts rec = [] then Inl (planning_error ''attempt_missing'') else Inr (last (ro_attempts rec)))"

definition latest_attempt :: "role_record \<Rightarrow> role_attempt option" where
  "latest_attempt rec = (if ro_attempts rec = [] then None else Some (last (ro_attempts rec)))"

definition role_report_check :: "host \<Rightarrow> planning_run \<Rightarrow> role \<Rightarrow> role_record \<Rightarrow> error option" where
  "role_report_check H run r rec =
     (case ro_report rec of
        None \<Rightarrow> throw_if (ro_outputDigest rec \<noteq> []) (planning_error ''role_output_without_report'')
      | Some stored \<Rightarrow>
          error_of (attempt (currentAttempt rec) (\<lambda>a.
            attempt (validatePlanningRoleReport (parsed_of (report_json stored))
              (Some (report_binding run r (at_id a) (ro_inputDigest rec)))) (\<lambda>report.
            guard (assertReportHasNoPrivateRunValues report run a) (
            attempt (planningRoleReportOutputDigest H report) (\<lambda>digest.
            guard (throw_if (ro_outputDigest rec \<noteq> digest) (planning_error ''role_output_digest_mismatch''))
              (Inr ())))))))"

text \<open>A test of the latest attempt; an absent attempt fails it.\<close>

definition latest_is :: "role_record \<Rightarrow> (role_attempt \<Rightarrow> bool) \<Rightarrow> bool" where
  "latest_is rec p \<longleftrightarrow> (case latest_attempt rec of None \<Rightarrow> False | Some a \<Rightarrow> p a)"

definition report_status_of :: "role_record \<Rightarrow> report_status option" where
  "report_status_of rec = map_option pr_status (ro_report rec)"

definition role_lifecycle_checks :: "role_record \<Rightarrow> error option list" where
  "role_lifecycle_checks rec =
     (let e = planning_error ''role_lifecycle_invalid''; working =
        (\<lambda>s t. ro_state rec = s \<and> (ro_inputDigest rec = [] \<or> \<not> latest_is rec (\<lambda>a. at_state a = t)
           \<or> ro_report rec \<noteq> None \<or> ro_outputDigest rec \<noteq> [])) in
     [throw_if (ro_state rec = Q_pending
          \<and> (ro_inputDigest rec \<noteq> [] \<or> ro_attempts rec \<noteq> [] \<or> ro_report rec \<noteq> None \<or> ro_outputDigest rec \<noteq> [])) e,
      throw_if (working Q_spawn_claimed AT_spawn_claimed \<or> working Q_dispatch_claimed AT_dispatch_claimed
          \<or> working Q_dispatched AT_dispatched) e,
      throw_if (ro_state rec = Q_completed
          \<and> (report_status_of rec \<noteq> Some S_complete
             \<or> \<not> latest_is rec (\<lambda>a. at_state a = AT_finished \<and> at_outcome a = OC_complete))) e,
      throw_if (ro_state rec = Q_needs_input
          \<and> (\<not> latest_is rec (\<lambda>a. at_state a = AT_finished \<and> at_outcome a = OC_needs_input)
             \<or> report_status_of rec \<notin> {None, Some S_needs_input})) e,
      throw_if (ro_state rec = Q_failed
          \<and> \<not> latest_is rec (\<lambda>a. at_state a = AT_finished \<and> at_outcome a \<in> {OC_blocked, OC_failed}
               \<or> at_state a = AT_crashed \<and> at_outcome a = OC_crashed)) e,
      throw_if (ro_state rec = Q_reconcile_required
          \<and> \<not> latest_is rec (\<lambda>a. at_state a = AT_reconcile_required)) e])"

text \<open>\<open>ids.has\<close> after the two checks of each attempt.\<close>

definition attempts_checks :: "host \<Rightarrow> planning_run \<Rightarrow> role \<Rightarrow> role_record \<Rightarrow> error option" where
  "attempts_checks H run r rec =
     each_indexed (\<lambda>i a. throws
       [assertAttemptBinding H run r a, assertAttemptLifecycle a,
        throw_if (seen_before at_id (ro_attempts rec) i) (planning_error ''attempt_duplicate''),
        throw_if (ro_inputDigest rec \<noteq> [] \<and> at_inputDigest a \<noteq> ro_inputDigest rec)
          (planning_error ''attempt_input_binding_mismatch'')]) (ro_attempts rec)"

definition validateRoleRecord :: "host \<Rightarrow> planning_run \<Rightarrow> role \<Rightarrow> error option" where
  "validateRoleRecord H run r =
     (let rec = pn_roles run r in throws (
     [(if ro_inputDigest rec \<noteq> [] then assertDigest ''role_input_digest_invalid'' (ro_inputDigest rec) else None),
      throw_if (MAX_ATTEMPTS < js_length (ro_attempts rec)) (planning_error ''attempts_invalid''),
      attempts_checks H run r rec,
      role_report_check H run r rec]
     @ role_lifecycle_checks rec))"

section \<open>The candidate\<close>

definition challenges_of :: "role_record \<Rightarrow> string list" where
  "challenges_of rec = (case ro_report rec of None \<Rightarrow> [] | Some r \<Rightarrow> pr_challenges r)"

definition artifact_of :: "role_record \<Rightarrow> artifact option" where
  "artifact_of rec = map_option pr_artifact (ro_report rec)"

fun artifact_questions :: "artifact \<Rightarrow> string list" where
  "artifact_questions (A_po a) = po_openQuestions a"
| "artifact_questions (A_ba a) = ba_openQuestions a"
| "artifact_questions (A_dev a) = dv_openQuestions a"
| "artifact_questions (A_qa a) = qa_openQuestions a"

fun role_artifact :: "role \<Rightarrow> plan_roles \<Rightarrow> artifact" where
  "role_artifact R_po rs = A_po (rl_po rs)"
| "role_artifact R_ba rs = A_ba (rl_ba rs)"
| "role_artifact R_dev rs = A_dev (rl_dev rs)"
| "role_artifact R_qa rs = A_qa (rl_qa rs)"

definition role_label :: "role \<Rightarrow> string" where
  "role_label r = to_upper (role_text r)"

text \<open>The reports are there wherever the two lists are computed.\<close>

definition candidateChallenges :: "planning_run \<Rightarrow> string list" where
  "candidateChallenges run =
     concat (map (\<lambda>r. map (\<lambda>c. role_label r @ '': '' @ c) (challenges_of (pn_roles run r)))
       DELIVERY_PLANNING_RUN_ROLES)"

definition role_questions :: "planning_run \<Rightarrow> role \<Rightarrow> string list" where
  "role_questions run r =
     artifact_questions (role_artifact r (pl_roles (pn_sourcePlan run)))
     @ (case artifact_of (pn_roles run r) of None \<Rightarrow> [] | Some a \<Rightarrow> artifact_questions a)
     @ map (\<lambda>c. role_label r @ '' challenge: '' @ c) (challenges_of (pn_roles run r))"

definition candidateQuestions :: "planning_run \<Rightarrow> string list" where
  "candidateQuestions run =
     push_all_new [] (pl_unresolvedQuestions (pn_sourcePlan run)
       @ concat (map (role_questions run) DELIVERY_PLANNING_RUN_ROLES))"

definition candidateDigest :: "host \<Rightarrow> planning_run \<Rightarrow> definition_patch \<Rightarrow> (role \<Rightarrow> string) \<Rightarrow> string" where
  "candidateDigest H run patch digests = canonicalSha256 H (JObj
     [(''version'', JNum DELIVERY_PLANNING_RUN_VERSION), (''runId'', JStr (pn_id run)),
      (''planId'', JStr (pn_planId run)), (''planRevision'', JNum (pn_planRevision run)),
      (''planDigest'', JStr (pn_planDigest run)), (''definitionPatch'', definition_patch_json patch),
      (''roleOutputDigests'', by_role_json JStr digests)])"

text \<open>The patch as the argument of \<open>updateDeliveryPlanDefinition\<close>: every role is given in full.\<close>

definition candidate_patch :: "definition_patch \<Rightarrow> plan_patch" where
  "candidate_patch d =
     (let po = rl_po (dp_roles d); ba = rl_ba (dp_roles d); dev = rl_dev (dp_roles d); qa = rl_qa (dp_roles d) in
      \<lparr>xx_title = None, xx_request = None, xx_workspace = None,
       xx_unresolvedQuestions = Some (dp_unresolvedQuestions d),
       xx_baseline = None, xx_classification = None, xx_authority = None,
       xx_roles = Some
         \<lparr>xl_po = Some \<lparr>xp_user = Some (po_user po), xp_problem = Some (po_problem po),
            xp_outcome = Some (po_outcome po), xp_value = Some (po_value po), xp_nonGoals = Some (po_nonGoals po),
            xp_assumptions = Some (po_assumptions po), xp_openQuestions = Some (po_openQuestions po)\<rparr>,
          xl_ba = Some \<lparr>xr_requirements = Some (ba_requirements ba), xr_dependencies = Some (ba_dependencies ba),
            xr_edgeCases = Some (ba_edgeCases ba), xr_constraints = Some (ba_constraints ba),
            xr_openQuestions = Some (ba_openQuestions ba)\<rparr>,
          xl_dev = Some \<lparr>xd_architecture = Some (dv_architecture dev), xd_steps = Some (dv_steps dev),
            xd_risks = Some (dv_risks dev), xd_rollback = Some (dv_rollback dev),
            xd_openQuestions = Some (dv_openQuestions dev)\<rparr>,
          xl_qa = Some \<lparr>xq_acceptanceCriteria = Some (qa_acceptanceCriteria qa),
            xq_testStrategy = Some (qa_testStrategy qa), xq_regressionChecks = Some (qa_regressionChecks qa),
            xq_releaseRequired = Some (qa_releaseRequired qa), xq_releaseChecks = Some (qa_releaseChecks qa),
            xq_openQuestions = Some (qa_openQuestions qa)\<rparr>\<rparr>\<rparr>)"

definition preview_plan :: "host \<Rightarrow> string \<Rightarrow> planning_run \<Rightarrow> definition_patch \<Rightarrow> string \<Rightarrow> delivery_plan result" where
  "preview_plan H now run patch at = updateDeliveryPlanDefinition H now (pn_sourcePlan run) (candidate_patch patch) at"

text \<open>A discovery baseline may be planned on: its finding only warns.\<close>

definition planningCandidateReadiness :: "host \<Rightarrow> string \<Rightarrow> delivery_plan \<Rightarrow> readiness result" where
  "planningCandidateReadiness H now plan =
     attempt (lintDeliveryPlanReadiness H now plan) (\<lambda>rd.
       if \<not> deliveryPlanHasDiscoveryBaseline H plan then Inr rd
       else (let discovery = filter (\<lambda>f. fd_code f = ''baseline_discovery_only'') (rd_errors rd);
                 errors = filter (\<lambda>f. fd_code f \<noteq> ''baseline_discovery_only'') (rd_errors rd)
             in Inr \<lparr>rd_ready = (errors = []), rd_errors = errors, rd_warnings = rd_warnings rd @ discovery,
                  rd_traceability = rd_traceability rd\<rparr>))"

definition validateFinding :: "finding \<Rightarrow> error option" where
  "validateFinding f = throws
     [pn_assertText ''candidate_finding_invalid'' True 128 True (fd_code f),
      pn_assertText ''candidate_finding_invalid'' True 512 False (fd_path f),
      pn_assertText ''candidate_finding_invalid'' True 800 False (fd_message f)]"

definition findings_check :: "finding list \<Rightarrow> error option" where
  "findings_check fs =
     (if 240 < js_length fs then Some (planning_error ''candidate_readiness_invalid'')
      else throws (map validateFinding fs))"

definition trace_ids_check :: "string list \<Rightarrow> error option" where
  "trace_ids_check ids =
     (if 120 < js_length ids then Some (planning_error ''candidate_traceability_invalid'')
      else throws (map (pn_assertText ''candidate_traceability_invalid'' True 44 True) ids))"

definition validateReadiness :: "readiness \<Rightarrow> error option" where
  "validateReadiness rd = throws (
     [findings_check (rd_errors rd), findings_check (rd_warnings rd),
      throw_if (80 < js_length (rd_traceability rd)) (planning_error ''candidate_traceability_invalid'')]
     @ map (\<lambda>t. throws
         [pn_assertText ''candidate_traceability_invalid'' True 44 False (tr_requirementId t),
          trace_ids_check (tr_stepIds t), trace_ids_check (tr_acceptanceIds t)]) (rd_traceability rd))"

definition candidate_role_checks :: "planning_run \<Rightarrow> candidate \<Rightarrow> role \<Rightarrow> error option" where
  "candidate_role_checks run c r = throws
     [throw_if (Some (canonicalJson (artifact_json (role_artifact r (dp_roles (cd_definitionPatch c)))))
          \<noteq> map_option (\<lambda>a. canonicalJson (artifact_json a)) (artifact_of (pn_roles run r)))
        (planning_error ''candidate_role_binding_mismatch''),
      throw_if (cd_roleOutputDigests c r \<noteq> ro_outputDigest (pn_roles run r))
        (planning_error ''candidate_output_binding_mismatch'')]"

definition candidate_preview_check :: "host \<Rightarrow> string \<Rightarrow> planning_run \<Rightarrow> candidate \<Rightarrow> error option" where
  "candidate_preview_check H now run c =
     (case preview_plan H now run (cd_definitionPatch c) (cd_compiledAt c) of
        Inl cause \<Rightarrow> Some (planning_error ''candidate_preview_invalid'')
      | Inr preview \<Rightarrow>
          (let mismatch = planning_error ''candidate_preview_binding_mismatch'' in
           if pl_revision preview \<noteq> pn_planRevision run + 1 \<or> cd_previewPlanDigest c = pn_planDigest run
           then Some mismatch
           else (case deliveryPlanDigest H now preview of
               Inl e \<Rightarrow> Some e
             | Inr digest \<Rightarrow>
                 if cd_previewPlanDigest c \<noteq> digest then Some mismatch
                 else (case planningCandidateReadiness H now preview of
                     Inl e \<Rightarrow> Some e
                   | Inr rd \<Rightarrow> throw_if (canonicalJson (readiness_json (cd_readiness c)) \<noteq> canonicalJson (readiness_json rd))
                       mismatch))))"

definition validateCandidate :: "host \<Rightarrow> string \<Rightarrow> planning_run \<Rightarrow> candidate \<Rightarrow> error option" where
  "validateCandidate H now run c =
     (let d = cd_definitionPatch c in throws (
     map (candidate_role_checks run c) DELIVERY_PLANNING_RUN_ROLES
     @ map (pn_assertText ''candidate_question_invalid'' True 800 False) (dp_unresolvedQuestions d)
     @ [throw_if (canonicalJson (json_strings (dp_unresolvedQuestions d)) \<noteq> canonicalJson (json_strings (candidateQuestions run)))
          (planning_error ''candidate_questions_binding_mismatch''),
        throw_if (160 < js_length (cd_challenges c)) (planning_error ''candidate_challenges_invalid'')]
     @ map (pn_assertText ''candidate_challenge_invalid'' True 800 False) (cd_challenges c)
     @ [throw_if (canonicalJson (json_strings (cd_challenges c)) \<noteq> canonicalJson (json_strings (candidateChallenges run)))
          (planning_error ''candidate_challenges_binding_mismatch''),
        assertDigest ''candidate_digest_invalid'' (cd_digest c),
        assertDigest ''candidate_preview_digest_invalid'' (cd_previewPlanDigest c),
        throw_if (\<not> valid_timestamp (cd_compiledAt c)) (planning_error ''candidate_timestamp_invalid''),
        validateReadiness (cd_readiness c),
        candidate_preview_check H now run c,
        throw_if (cd_digest c \<noteq> candidateDigest H run d (cd_roleOutputDigests c))
          (planning_error ''candidate_digest_mismatch'')]))"

section \<open>The outbox, the blocker and the receipts\<close>

text \<open>The outbox has asked for the candidate, under a claim.\<close>

definition outbox_claimed :: "apply_outbox \<Rightarrow> bool" where
  "outbox_claimed a \<longleftrightarrow> ao_candidateDigest a \<noteq> [] \<and> ao_claimId a \<noteq> [] \<and> given_text (ao_claimedAt a)"

definition outbox_unapplied :: "apply_outbox \<Rightarrow> bool" where
  "outbox_unapplied a \<longleftrightarrow> \<not> given_number (ao_appliedPlanRevision a) \<and> ao_appliedPlanDigest a = []
     \<and> \<not> given_text (ao_appliedAt a)"

definition validateApplyOutbox :: "planning_run \<Rightarrow> error option" where
  "validateApplyOutbox run =
     (let a = pn_applyOutbox run; e = planning_error ''apply_lifecycle_invalid'' in throws
     [(if ao_candidateDigest a \<noteq> [] then assertDigest ''apply_candidate_digest_invalid'' (ao_candidateDigest a) else None),
      pn_assertText ''apply_claim_id_invalid'' False 128 False (ao_claimId a),
      (if ao_claimId a \<noteq> [] then assertClaimId ''apply_claim_id_invalid'' (ao_claimId a) else None),
      nullableTimestamp ''apply_claimed_at_invalid'' (ao_claimedAt a),
      nullableTimestamp ''apply_applied_at_invalid'' (ao_appliedAt a),
      assertPid ''applied_plan_revision_invalid'' (ao_appliedPlanRevision a),
      (if ao_appliedPlanDigest a \<noteq> [] then assertDigest ''applied_plan_digest_invalid'' (ao_appliedPlanDigest a) else None),
      throw_if (ao_observation a \<notin> set ['''', ''plan_receipt_absent'']) (planning_error ''apply_observation_invalid''),
      pn_assertText ''apply_error_invalid'' False 800 False (ao_error a),
      throw_if (\<not> valid_timestamp (ao_updatedAt a)) (planning_error ''apply_updated_at_invalid''),
      throw_if (ao_state a \<noteq> AS_held
          \<and> map_option cd_digest (pn_candidate run) \<noteq> Some (ao_candidateDigest a))
        (planning_error ''apply_candidate_binding_mismatch''),
      throw_if (ao_state a = AS_held
          \<and> (ao_candidateDigest a \<noteq> [] \<or> ao_claimId a \<noteq> [] \<or> given_text (ao_claimedAt a) \<or> \<not> outbox_unapplied a
             \<or> ao_observation a \<noteq> [] \<or> ao_error a \<noteq> [])) e,
      throw_if (ao_state a = AS_claimed
          \<and> (\<not> outbox_claimed a \<or> \<not> outbox_unapplied a \<or> ao_observation a \<noteq> [] \<or> ao_error a \<noteq> [])) e,
      throw_if (ao_state a = AS_reconcile_required
          \<and> (\<not> outbox_claimed a \<or> ao_observation a \<noteq> [] \<or> ao_error a = [])) e,
      throw_if (ao_state a = AS_abandoned
          \<and> (\<not> outbox_claimed a \<or> \<not> outbox_unapplied a
             \<or> ao_observation a \<noteq> ''plan_receipt_absent'' \<or> ao_error a = [])) e,
      throw_if (ao_state a = AS_applied
          \<and> (\<not> outbox_claimed a \<or> \<not> given_number (ao_appliedPlanRevision a) \<or> ao_appliedPlanDigest a = []
             \<or> \<not> given_text (ao_appliedAt a) \<or> ao_observation a \<noteq> [] \<or> ao_error a \<noteq> [])) e])"

definition validateSynthesisBlocker :: "planning_run \<Rightarrow> error option" where
  "validateSynthesisBlocker run =
     (case pn_synthesisBlocker run of
        None \<Rightarrow> None
      | Some b \<Rightarrow> throws
          [pn_assertText ''synthesis_blocker_invalid'' True 800 False (sb_reason b),
           throw_if (\<not> valid_timestamp (sb_recordedAt b)) (planning_error ''synthesis_blocker_invalid''),
           throw_if (pn_candidate run \<noteq> None
               \<or> list_ex (\<lambda>r. report_status_of (pn_roles run r) \<noteq> Some S_complete) DELIVERY_PLANNING_RUN_ROLES
               \<or> pn_phase run \<notin> {PH_challenge, PH_synthesis, PH_closed} \<or> pn_condition run = K_active)
             (planning_error ''synthesis_blocker_lifecycle_invalid'')])"

definition receipt_intent :: "continue_kind \<Rightarrow> role \<Rightarrow> string \<Rightarrow> string \<Rightarrow> string" where
  "receipt_intent kind r attemptId claimId =
     kind_word kind @ '':'' @ role_text r @ '':'' @ attemptId @ '':'' @ claimId"

definition cr_intent :: "continue_receipt \<Rightarrow> string" where
  "cr_intent r = receipt_intent (cr_kind r) (cr_role r) (cr_attemptId r) (cr_claimId r)"

definition receipts_of_kind :: "continue_kind \<Rightarrow> continue_receipt list \<Rightarrow> continue_receipt list" where
  "receipts_of_kind kind rs = filter (\<lambda>r. cr_kind r = kind) rs"

text \<open>One receipt, after those before it.\<close>

definition continue_receipt_checks :: "planning_run \<Rightarrow> continue_receipt list \<Rightarrow> continue_receipt \<Rightarrow> error option list" where
  "continue_receipt_checks run earlier r =
     [assertClaimId ''continue_operation_id_invalid'' (cr_operationId r),
      throw_if (MAX_RESOURCE_CONTINUE_RECEIPTS < js_length (receipts_of_kind CK_resource_retry (earlier @ [r]))
          \<or> MAX_CLEANUP_CONTINUE_RECEIPTS < js_length (receipts_of_kind CK_cleanup_only (earlier @ [r])))
        (planning_error ''continue_receipts_invalid''),
      throw_if (\<not> safe_integer (cr_requestedStoreRevision r) \<or> cr_requestedStoreRevision r < 0)
        (planning_error ''continue_store_revision_invalid''),
      throw_if (\<not> safe_integer (cr_requestedRunRevision r) \<or> cr_requestedRunRevision r < 1
          \<or> pn_revision run \<le> cr_requestedRunRevision r) (planning_error ''continue_run_revision_invalid''),
      throw_if (\<not> valid_timestamp (cr_authorizedAt r)) (planning_error ''continue_timestamp_invalid''),
      throw_if (earlier \<noteq> [] \<and> date_ms (cr_authorizedAt r) < date_ms (cr_authorizedAt (last earlier)))
        (planning_error ''continue_chronology_invalid''),
      (if cr_kind r = CK_resource_retry
       then throw_if (cr_attemptId r \<noteq> [] \<or> cr_claimId r \<noteq> [] \<or> cr_cleanupRecoveryOutcome r \<noteq> RO_none)
         (planning_error ''continue_binding_invalid'')
       else throws
         [assertAttemptId (cr_attemptId r), assertClaimId ''continue_claim_id_invalid'' (cr_claimId r),
          throw_if (cr_cleanupRecoveryOutcome r \<notin> {RO_none, RO_exact_worker})
            (planning_error ''continue_recovery_outcome_invalid'')]),
      throw_if (cr_operationId r \<in> set (map cr_operationId earlier)) (planning_error ''continue_operation_duplicate''),
      throw_if (cr_kind r = CK_cleanup_only
          \<and> cr_intent r \<in> set (map cr_intent (receipts_of_kind CK_cleanup_only earlier)))
        (planning_error ''continue_intent_duplicate'')]"

definition validateContinueReceipts :: "planning_run \<Rightarrow> error option" where
  "validateContinueReceipts run =
     (let rs = pn_continueReceipts run in
      if MAX_CONTINUE_RECEIPTS < js_length rs then Some (planning_error ''continue_receipts_invalid'')
      else each_indexed (\<lambda>i r. throws (continue_receipt_checks run (take i rs) r)) rs)"

section \<open>Phases and conditions\<close>

definition completedAndCleaned :: "planning_run \<Rightarrow> role \<Rightarrow> bool" where
  "completedAndCleaned run r \<longleftrightarrow>
     (let rec = pn_roles run r in
      ro_state rec = Q_completed \<and> report_status_of rec = Some S_complete
      \<and> latest_is rec (\<lambda>a. map_option cl_state (at_cleanup a) = Some CS_complete))"

definition assertPhaseLifecycle :: "planning_run \<Rightarrow> error option" where
  "assertPhaseLifecycle run =
     (let poReady = completedAndCleaned run R_po; baReady = completedAndCleaned run R_ba;
          challengeReady = (completedAndCleaned run R_qa \<and> completedAndCleaned run R_dev);
          started = (\<lambda>r. ro_state (pn_roles run r) \<noteq> Q_pending);
          e = planning_error ''phase_lifecycle_invalid''; ph = pn_phase run in throws
     [throw_if (ph = PH_po \<and> list_ex started [R_ba, R_qa, R_dev]) e,
      throw_if (ph = PH_ba \<and> (\<not> poReady \<or> list_ex started [R_qa, R_dev])) e,
      throw_if (ph = PH_challenge \<and> (\<not> poReady \<or> \<not> baReady)) e,
      throw_if (ph \<in> {PH_synthesis, PH_review, PH_applied} \<and> (\<not> poReady \<or> \<not> baReady \<or> \<not> challengeReady)) e,
      throw_if (pn_candidate run \<noteq> None \<and> ph \<notin> {PH_review, PH_applied, PH_closed})
        (planning_error ''candidate_phase_invalid''),
      throw_if (pn_candidate run = None \<and> ph \<in> {PH_review, PH_applied})
        (planning_error ''review_candidate_required''),
      throw_if (ao_state (pn_applyOutbox run) \<noteq> AS_held \<and> ph \<notin> {PH_review, PH_applied, PH_closed})
        (planning_error ''apply_phase_invalid''),
      throw_if (ph = PH_closed \<and> ao_state (pn_applyOutbox run) \<notin> {AS_held, AS_abandoned})
        (planning_error ''apply_phase_invalid'')])"

definition some_role :: "planning_run \<Rightarrow> role_state \<Rightarrow> bool" where
  "some_role run s \<longleftrightarrow> list_ex (\<lambda>r. ro_state (pn_roles run r) = s) DELIVERY_PLANNING_RUN_ROLES"

definition assertConditionLifecycle :: "planning_run \<Rightarrow> error option" where
  "assertConditionLifecycle run =
     (let k = pn_condition run in throws
     [throw_if (k = K_active \<and> pn_blocker run \<noteq> []) (planning_error ''active_blocker_invalid''),
      throw_if (k \<noteq> K_active \<and> pn_blocker run = []) (planning_error ''blocker_required''),
      throw_if (k = K_needs_input \<and> \<not> some_role run Q_needs_input \<and> pn_synthesisBlocker run = None)
        (planning_error ''needs_input_role_required''),
      throw_if (k = K_failed \<and> \<not> some_role run Q_failed) (planning_error ''failed_role_required''),
      throw_if (k = K_reconcile_required
          \<and> ao_state (pn_applyOutbox run) \<noteq> AS_reconcile_required \<and> \<not> some_role run Q_reconcile_required)
        (planning_error ''reconcile_evidence_required'')])"

section \<open>The run\<close>

definition planning_header_checks :: "planning_run \<Rightarrow> error option list" where
  "planning_header_checks run =
     [throw_if (pn_version run \<noteq> DELIVERY_PLANNING_RUN_VERSION) (planning_error ''version_unsupported''),
      throw_if (\<not> planning_run_id_pattern (pn_id run)) (planning_error ''id_invalid''),
      throw_if (\<not> safe_integer (pn_revision run) \<or> pn_revision run < 1) (planning_error ''revision_invalid''),
      throw_if (\<not> plan_id_pattern (pn_planId run)) (planning_error ''plan_id_invalid''),
      throw_if (\<not> safe_integer (pn_planRevision run) \<or> pn_planRevision run < 1) (planning_error ''plan_revision_invalid''),
      assertDigest ''plan_digest_invalid'' (pn_planDigest run),
      pn_assertText ''workspace_invalid'' True 4096 False (pn_workspace run),
      throw_if (\<not> canonical_path (pn_workspace run)) (planning_error ''workspace_invalid'')]"

definition source_binding_check :: "host \<Rightarrow> string \<Rightarrow> planning_run \<Rightarrow> delivery_plan \<Rightarrow> error option" where
  "source_binding_check H now run plan =
     (if pl_id plan \<noteq> pn_planId run \<or> pl_revision plan \<noteq> pn_planRevision run \<or> pl_workspace plan \<noteq> pn_workspace run
      then Some (planning_error ''plan_binding_mismatch'')
      else (case deliveryPlanDigest H now plan of
          Inl e \<Rightarrow> Some e
        | Inr digest \<Rightarrow> throw_if (digest \<noteq> pn_planDigest run) (planning_error ''plan_binding_mismatch'')))"

definition run_body_checks :: "host \<Rightarrow> string \<Rightarrow> planning_run \<Rightarrow> delivery_plan \<Rightarrow> error option list" where
  "run_body_checks H now run plan =
     [source_binding_check H now run plan,
      assertBaseline (pn_baseline run) (pl_baseline plan),
      assertDigest ''input_digest_invalid'' (pn_inputDigest run),
      throw_if (pn_inputDigest run \<noteq> runInputDigest H run) (planning_error ''input_digest_mismatch'')]
     @ map (validateRoleRecord H run) DELIVERY_PLANNING_RUN_ROLES
     @ [(case pn_candidate run of None \<Rightarrow> None | Some c \<Rightarrow> validateCandidate H now run c),
        validateApplyOutbox run,
        validateSynthesisBlocker run,
        validateContinueReceipts run,
        pn_assertText ''blocker_invalid'' False 800 False (pn_blocker run),
        throw_if (\<not> valid_timestamp (pn_createdAt run) \<or> \<not> valid_timestamp (pn_updatedAt run))
          (planning_error ''timestamp_invalid''),
        throw_if (date_ms (pn_updatedAt run) < date_ms (pn_createdAt run)) (planning_error ''timestamp_invalid''),
        throw_if (pn_phase run = PH_review \<and> pn_candidate run = None) (planning_error ''review_candidate_required''),
        throw_if (pn_phase run = PH_applied \<and> ao_state (pn_applyOutbox run) \<noteq> AS_applied)
          (planning_error ''applied_outbox_required''),
        throw_if (pn_phase run = PH_closed
            \<and> pn_condition run \<notin> {K_canceled, K_off_course, K_failed, K_reconcile_required})
          (planning_error ''closed_condition_invalid''),
        throw_if (pn_condition run = K_canceled \<and> pn_phase run \<noteq> PH_closed) (planning_error ''canceled_phase_invalid''),
        assertPhaseLifecycle run,
        assertConditionLifecycle run,
        throw_if (PLANNING_RUN_MAX_BYTES < persistedJsonBytes (planning_run_json run)) (planning_error ''too_large'')]"

definition validateDeliveryPlanningRun :: "host \<Rightarrow> string \<Rightarrow> planning_run \<Rightarrow> planning_run result" where
  "validateDeliveryPlanningRun H now run =
     guard (throws (planning_header_checks run)) (
     attempt (strictSourcePlan H now (pn_sourcePlan run)) (\<lambda>plan.
     guard (throws (run_body_checks H now run plan)) (Inr run)))"

end
