(* ===== verification/PlanningRunFacts.thy ===== *)
theory PlanningRunFacts
  imports DeliveryPlanningRun
begin

text \<open>
  What a validated planning run satisfies, and what an operation of delivery-planning-run.js
  that returned has done: the library behind the properties of planning runs.
\<close>

section \<open>Validated runs\<close>

definition valid_planning_run :: "host \<Rightarrow> string \<Rightarrow> planning_run \<Rightarrow> bool" where
  "valid_planning_run H now v \<longleftrightarrow> validateDeliveryPlanningRun H now v = Inr v"

lemma validate_run_Inr: "validateDeliveryPlanningRun H now v = Inr w \<longleftrightarrow> w = v \<and> valid_planning_run H now v"
  by (auto simp: valid_planning_run_def validateDeliveryPlanningRun_def)

lemma valid_planning_run_iff:
  "valid_planning_run H now v \<longleftrightarrow> throws (planning_header_checks v) = None
     \<and> (\<exists>plan. strictSourcePlan H now (pn_sourcePlan v) = Inr plan \<and> throws (run_body_checks H now v plan) = None)"
  by (auto simp: valid_planning_run_def validateDeliveryPlanningRun_def)

lemma valid_planning_runD:
  assumes "valid_planning_run H now v"
  shows valid_role: "validateRoleRecord H v r = None"
    and valid_candidate: "pn_candidate v = Some c \<Longrightarrow> validateCandidate H now v c = None"
    and valid_outbox: "validateApplyOutbox v = None"
    and valid_synthesis: "validateSynthesisBlocker v = None"
    and valid_receipts: "validateContinueReceipts v = None"
    and valid_phase: "assertPhaseLifecycle v = None"
    and valid_condition: "assertConditionLifecycle v = None"
    and valid_applied: "pn_phase v = PH_applied \<Longrightarrow> ao_state (pn_applyOutbox v) = AS_applied"
    and valid_clock: "date_ms (pn_createdAt v) \<le> date_ms (pn_updatedAt v)"
    and valid_inputs: "pn_inputDigest v = runInputDigest H v"
    and valid_size: "persistedJsonBytes (planning_run_json v) \<le> PLANNING_RUN_MAX_BYTES"
    and valid_revision: "1 \<le> pn_revision v" "safe_integer (pn_revision v)"
proof -
  obtain plan where body: "throws (run_body_checks H now v plan) = None" and header: "throws (planning_header_checks v) = None"
    using assms by (auto simp: valid_planning_run_iff)
  have roles: "\<forall>x \<in> set DELIVERY_PLANNING_RUN_ROLES. validateRoleRecord H v x = None"
    using body by (simp add: run_body_checks_def throws_map_None)
  show "validateRoleRecord H v r = None"
    using roles by (cases r) (simp_all add: DELIVERY_PLANNING_RUN_ROLES_def)
  show "pn_candidate v = Some c \<Longrightarrow> validateCandidate H now v c = None" "validateApplyOutbox v = None"
    "validateSynthesisBlocker v = None" "validateContinueReceipts v = None" "assertPhaseLifecycle v = None"
    "assertConditionLifecycle v = None" "pn_phase v = PH_applied \<Longrightarrow> ao_state (pn_applyOutbox v) = AS_applied"
    "date_ms (pn_createdAt v) \<le> date_ms (pn_updatedAt v)" "pn_inputDigest v = runInputDigest H v"
    "persistedJsonBytes (planning_run_json v) \<le> PLANNING_RUN_MAX_BYTES"
    using body by (simp_all add: run_body_checks_def)
  show "1 \<le> pn_revision v" "safe_integer (pn_revision v)"
    using header by (simp_all add: planning_header_checks_def)
qed

lemma no_or_one: "int (length xs) \<le> 1 \<Longrightarrow> xs = [] \<or> (\<exists>x. xs = [x])"
  by (cases xs) auto

lemma valid_attempts:
  assumes "valid_planning_run H now v"
  shows "ro_attempts (pn_roles v r) = [] \<or> (\<exists>a. ro_attempts (pn_roles v r) = [a])"
  using valid_role [OF assms, of r]
  by (intro no_or_one) (simp add: validateRoleRecord_def Let_def MAX_ATTEMPTS_def js_length_def)

lemma valid_attempt:
  assumes "valid_planning_run H now v" "ro_attempts (pn_roles v r) = [a]"
  shows valid_binding: "assertAttemptBinding H v r a = None"
    and valid_lifecycle: "assertAttemptLifecycle a = None"
  using valid_role [OF assms(1), of r] assms(2)
  by (simp_all add: validateRoleRecord_def Let_def attempts_checks_def each_indexed_None)

lemma valid_role_lifecycle: "valid_planning_run H now v \<Longrightarrow> throws (role_lifecycle_checks (pn_roles v r)) = None"
  using valid_role [of H now v r] by (simp add: validateRoleRecord_def Let_def)

lemma valid_receipt_count: "valid_planning_run H now v \<Longrightarrow> length (pn_continueReceipts v) \<le> 12"
  using valid_receipts [of H now v]
  by (simp add: validateContinueReceipts_def Let_def MAX_CONTINUE_RECEIPTS_def js_length_def split: if_splits)

section \<open>Changes\<close>

definition bump :: "planning_run \<Rightarrow> string \<Rightarrow> planning_run" where
  "bump n at = n\<lparr>pn_revision := pn_revision n + 1, pn_updatedAt := at\<rparr>"

lemma bump_simps [simp]:
  "pn_version (bump n at) = pn_version n" "pn_id (bump n at) = pn_id n" "pn_revision (bump n at) = pn_revision n + 1"
  "pn_phase (bump n at) = pn_phase n" "pn_condition (bump n at) = pn_condition n" "pn_planId (bump n at) = pn_planId n"
  "pn_planRevision (bump n at) = pn_planRevision n" "pn_planDigest (bump n at) = pn_planDigest n"
  "pn_workspace (bump n at) = pn_workspace n" "pn_baseline (bump n at) = pn_baseline n"
  "pn_inputDigest (bump n at) = pn_inputDigest n" "pn_sourcePlan (bump n at) = pn_sourcePlan n"
  "pn_roles (bump n at) = pn_roles n" "pn_candidate (bump n at) = pn_candidate n"
  "pn_applyOutbox (bump n at) = pn_applyOutbox n" "pn_synthesisBlocker (bump n at) = pn_synthesisBlocker n"
  "pn_continueReceipts (bump n at) = pn_continueReceipts n" "pn_blocker (bump n at) = pn_blocker n"
  "pn_createdAt (bump n at) = pn_createdAt n" "pn_updatedAt (bump n at) = at"
  by (simp_all add: bump_def)

lemma pn_timestamp_Inr: "pn_timestamp at = Inr t \<longleftrightarrow> t = at \<and> valid_timestamp at"
  by (auto simp: pn_timestamp_def)

definition turned :: "host \<Rightarrow> string \<Rightarrow> planning_run \<Rightarrow> planning_run \<Rightarrow> string \<Rightarrow> planning_run \<Rightarrow> bool" where
  "turned H now v n at w \<longleftrightarrow> valid_planning_run H now v \<and> valid_planning_run H now w \<and> valid_timestamp at
     \<and> date_ms (pn_updatedAt v) \<le> date_ms at \<and> w = bump n at"

lemma nextRun_Inr:
  "nextRun H now v change at = Inr w \<longleftrightarrow> (\<exists>n. change v at = Inr n \<and> turned H now v n at w)"
  by (auto simp: nextRun_def validate_run_Inr pn_timestamp_Inr turned_def bump_def)

lemma turnedD:
  assumes "turned H now v n at w"
  shows "valid_planning_run H now v" "valid_planning_run H now w" "valid_timestamp at" "date_ms (pn_updatedAt v) \<le> date_ms at" "w = bump n at"
  using assms unfolding turned_def by blast+

lemma put_role_simps [simp]:
  "pn_version (put_role v r x) = pn_version v" "pn_id (put_role v r x) = pn_id v"
  "pn_revision (put_role v r x) = pn_revision v" "pn_phase (put_role v r x) = pn_phase v"
  "pn_condition (put_role v r x) = pn_condition v" "pn_planId (put_role v r x) = pn_planId v"
  "pn_planRevision (put_role v r x) = pn_planRevision v" "pn_planDigest (put_role v r x) = pn_planDigest v"
  "pn_workspace (put_role v r x) = pn_workspace v" "pn_baseline (put_role v r x) = pn_baseline v"
  "pn_inputDigest (put_role v r x) = pn_inputDigest v" "pn_sourcePlan (put_role v r x) = pn_sourcePlan v"
  "pn_roles (put_role v r x) = (pn_roles v)(r := x)" "pn_candidate (put_role v r x) = pn_candidate v"
  "pn_applyOutbox (put_role v r x) = pn_applyOutbox v" "pn_synthesisBlocker (put_role v r x) = pn_synthesisBlocker v"
  "pn_continueReceipts (put_role v r x) = pn_continueReceipts v" "pn_blocker (put_role v r x) = pn_blocker v"
  "pn_createdAt (put_role v r x) = pn_createdAt v" "pn_updatedAt (put_role v r x) = pn_updatedAt v"
  by (simp_all add: put_role_def)

lemma with_attempt_simps [simp]:
  "ro_state (with_attempt rec a) = ro_state rec" "ro_inputDigest (with_attempt rec a) = ro_inputDigest rec"
  "ro_report (with_attempt rec a) = ro_report rec" "ro_outputDigest (with_attempt rec a) = ro_outputDigest rec"
  "ro_attempts (with_attempt rec a) = butlast (ro_attempts rec) @ [a]"
  by (simp_all add: with_attempt_def)

lemma set_condition_simps [simp]:
  "pn_version (set_condition v k e) = pn_version v" "pn_id (set_condition v k e) = pn_id v"
  "pn_revision (set_condition v k e) = pn_revision v" "pn_phase (set_condition v k e) = pn_phase v"
  "pn_condition (set_condition v k e) = (if pn_condition v = K_off_course then K_off_course else k)"
  "pn_planId (set_condition v k e) = pn_planId v"
  "pn_planRevision (set_condition v k e) = pn_planRevision v" "pn_planDigest (set_condition v k e) = pn_planDigest v"
  "pn_workspace (set_condition v k e) = pn_workspace v" "pn_baseline (set_condition v k e) = pn_baseline v"
  "pn_inputDigest (set_condition v k e) = pn_inputDigest v" "pn_sourcePlan (set_condition v k e) = pn_sourcePlan v"
  "pn_roles (set_condition v k e) = pn_roles v" "pn_candidate (set_condition v k e) = pn_candidate v"
  "pn_applyOutbox (set_condition v k e) = pn_applyOutbox v"
  "pn_synthesisBlocker (set_condition v k e) = pn_synthesisBlocker v"
  "pn_continueReceipts (set_condition v k e) = pn_continueReceipts v"
  "pn_createdAt (set_condition v k e) = pn_createdAt v" "pn_updatedAt (set_condition v k e) = pn_updatedAt v"
  by (simp_all add: set_condition_def)

lemma selectedAttempt_Inr:
  "selectedAttempt v r i s = Inr a \<longleftrightarrow>
     ro_attempts (pn_roles v r) \<noteq> [] \<and> a = last (ro_attempts (pn_roles v r)) \<and> at_id a = i
     \<and> (s = None \<or> s = Some (at_state a))"
  by (auto simp: selectedAttempt_def currentAttempt_def)

lemma cleanupAttempt_Inr:
  "cleanupAttempt v r i = Inr (a, c) \<longleftrightarrow> selectedAttempt v r i None = Inr a \<and> at_cleanup a = Some c"
  by (auto simp: cleanupAttempt_def split: option.splits)

lemma selectedSpawnLease_Inr:
  "selectedSpawnLease v r i states = Inr a \<longleftrightarrow>
     selectedAttempt v r i None = Inr a \<and> sl_state (at_spawnLease a) \<in> set states"
  by (auto simp: selectedSpawnLease_def)

lemma eligible_Inr:
  "roleEligibilityUnchecked H now v r = Inr e \<Longrightarrow> el_eligible e \<Longrightarrow>
     pn_condition v \<in> {K_active, K_resource_wait} \<and> r \<in> set (phaseRoles v)
     \<and> ro_state (pn_roles v r) = Q_pending \<and> ro_attempts (pn_roles v r) = []
     \<and> deliveryPlanningRoleInputDigest H now v r = Inr (el_inputDigest e)"
  by (cases "pn_condition v") (auto simp: roleEligibilityUnchecked_def ineligible_def split: if_splits)

lemma retry_Inr:
  assumes "deliveryPlanningResourceRetryEligibility H now v (Some r) = Inr e" "el_eligible e"
  shows "\<exists>e'. roleEligibilityUnchecked H now v r = Inr e' \<and> el_eligible e'"
  using assms
  by (auto simp: deliveryPlanningResourceRetryEligibility_def deliveryPlanningRoleEligibility_def
      validate_run_Inr Let_def split: if_splits)

section \<open>The operations\<close>

datatype planning_operation =
    ClaimSpawn role string lease_binding
  | BindLease role string lease_reference pane_observation
  | LoseLease role string lease_reference string string
  | CloseLease role string lease_reference string string
  | ClaimStop role string string string string bool
  | SendStop role string string string
  | CompleteStop role string lease_reference string string string
  | ClaimDispatch role string string dispatch_input
  | MarkDispatched role string
  | RecordReport role string parsed string
  | ResourceWait role string
  | EndUnreported role string string unreported
  | ClaimCleanup role string string
  | SendCleanup role string
  | CompleteCleanup role string
  | LoseCleanup role string string
  | RecoverCleanup role string recovery_outcome string
  | Continue continue_input
  | CompileCandidate
  | ClaimApply string string
  | MarkApplied string string int string
  | LoseApply string string
  | AbandonApply string string string string
  | GoOffCourse string
  | CancelRun bool string

fun apply_planning :: "host \<Rightarrow> string \<Rightarrow> planning_operation \<Rightarrow> string \<Rightarrow> planning_run \<Rightarrow> planning_run result" where
  "apply_planning H now (ClaimSpawn r i b) at v = claimDeliveryPlanningRoleSpawn H now v r i b at"
| "apply_planning H now (BindLease r i ref p) at v = bindDeliveryPlanningRoleSpawnLease H now v r i ref p at"
| "apply_planning H now (LoseLease r i ref ob e) at v =
     markDeliveryPlanningRoleSpawnLeaseReconcileRequired H now v r i ref ob e at"
| "apply_planning H now (CloseLease r i ref ob e) at v = closeDeliveryPlanningRoleSpawnLeaseAbsent H now v r i ref ob e at"
| "apply_planning H now (ClaimStop r i l c act ok) at v =
     claimDeliveryPlanningRoleSpawnLeaseCleanup H now v r i l c act ok at"
| "apply_planning H now (SendStop r i l c) at v = markDeliveryPlanningRoleSpawnLeaseCleanupSent H now v r i l c at"
| "apply_planning H now (CompleteStop r i ref c ob e) at v =
     markDeliveryPlanningRoleSpawnLeaseCleanupComplete H now v r i ref c ob e at"
| "apply_planning H now (ClaimDispatch r i l d) at v = claimDeliveryPlanningRoleDispatch H now v r i l d at"
| "apply_planning H now (MarkDispatched r i) at v = markDeliveryPlanningRoleDispatched H now v r i at"
| "apply_planning H now (RecordReport r i x d) at v = recordDeliveryPlanningRoleReport H now v r i x d at"
| "apply_planning H now (ResourceWait r e) at v = markDeliveryPlanningResourceWait H now v r e at"
| "apply_planning H now (EndUnreported r i e u) at v = markRoleFinishedWithoutReport H now v r i e u at"
| "apply_planning H now (ClaimCleanup r i c) at v = claimDeliveryPlanningRoleCleanup H now v r i c at"
| "apply_planning H now (SendCleanup r i) at v = markDeliveryPlanningRoleCleanupSent H now v r i at"
| "apply_planning H now (CompleteCleanup r i) at v = markDeliveryPlanningRoleCleanupComplete H now v r i at"
| "apply_planning H now (LoseCleanup r i e) at v = markDeliveryPlanningRoleCleanupRequired H now v r i e at"
| "apply_planning H now (RecoverCleanup r i out c) at v = recoverDeliveryPlanningRoleCleanup H now v r i out c at"
| "apply_planning H now (Continue ci) at v = authorizeDeliveryPlanningContinue H now v ci at"
| "apply_planning H now CompileCandidate at v = compileDeliveryPlanningCandidate H now v at"
| "apply_planning H now (ClaimApply c d) at v = claimDeliveryPlanningApply H now v c d at"
| "apply_planning H now (MarkApplied c d n pd) at v = markDeliveryPlanningApplied H now v c d n pd at"
| "apply_planning H now (LoseApply c e) at v = markDeliveryPlanningApplyReconcileRequired H now v c e at"
| "apply_planning H now (AbandonApply c d ob e) at v = abandonDeliveryPlanningApply H now v c d ob e at"
| "apply_planning H now (GoOffCourse e) at v = markDeliveryPlanningRunOffCourse H now v e at"
| "apply_planning H now (CancelRun ok e) at v = cancelDeliveryPlanningRun H now v ok e at"

lemmas planning_operation_defs =
  claimDeliveryPlanningRoleSpawn_def bindDeliveryPlanningRoleSpawnLease_def
  markDeliveryPlanningRoleSpawnLeaseReconcileRequired_def closeDeliveryPlanningRoleSpawnLeaseAbsent_def
  claimDeliveryPlanningRoleSpawnLeaseCleanup_def markDeliveryPlanningRoleSpawnLeaseCleanupSent_def
  markDeliveryPlanningRoleSpawnLeaseCleanupComplete_def claimDeliveryPlanningRoleDispatch_def
  markDeliveryPlanningRoleDispatched_def markDeliveryPlanningResourceWait_def markRoleFinishedWithoutReport_def
  claimDeliveryPlanningRoleCleanup_def markDeliveryPlanningRoleCleanupSent_def
  markDeliveryPlanningRoleCleanupComplete_def markDeliveryPlanningRoleCleanupRequired_def
  recoverDeliveryPlanningRoleCleanup_def authorizeDeliveryPlanningContinue_def
  claimDeliveryPlanningApply_def markDeliveryPlanningApplied_def
  markDeliveryPlanningApplyReconcileRequired_def abandonDeliveryPlanningApply_def
  markDeliveryPlanningRunOffCourse_def cancelDeliveryPlanningRun_def

lemma record_report_Inr:
  assumes "recordDeliveryPlanningRoleReport H now v r i x d at = Inr w"
  shows "\<exists>a report n. ro_attempts (pn_roles v r) \<noteq> [] \<and> a = last (ro_attempts (pn_roles v r)) \<and> at_id a = i
    \<and> ro_state (pn_roles v r) = Q_dispatched \<and> at_state a = AT_dispatched
    \<and> validatePlanningRoleReport x (Some (report_binding v r i (ro_inputDigest (pn_roles v r)))) = Inr report
    \<and> assertReportHasNoPrivateRunValues report v a = None \<and> planningRoleReportOutputDigest H report = Inr d
    \<and> turned H now v n at w
    \<and> (n = reported_run v r a report d at
       \<or> pr_status report = S_complete \<and> r \<in> {R_qa, R_dev}
         \<and> (\<exists>b. n = set_condition ((reported_run v r a report d at)\<lparr>pn_synthesisBlocker := Some
              \<lparr>sb_code = b, sb_reason = synthesisBlockerReason b, sb_recordedAt = at\<rparr>\<rparr>)
              K_needs_input (synthesisBlockerReason b)))"
proof -
  have blocked: "n = m \<or> (\<exists>b. n = set_condition (m\<lparr>pn_synthesisBlocker := Some
      \<lparr>sb_code = b, sb_reason = synthesisBlockerReason b, sb_recordedAt = at\<rparr>\<rparr>) K_needs_input (synthesisBlockerReason b))"
    if "with_synthesis_check H now m at = Inr n" for m n
    using that by (auto simp: with_synthesis_check_def split: sum.splits option.splits)
  let ?rec = "pn_roles v r" and ?run = "\<lambda>a report d n. if pr_status report = S_complete \<and> r \<in> {R_qa, R_dev}
      \<and> ro_report (pn_roles (reported_run v r a report d at) R_qa) \<noteq> None
      \<and> ro_report (pn_roles (reported_run v r a report d at) R_dev) \<noteq> None
    then with_synthesis_check H now (reported_run v r a report d at) at = Inr n
    else n = reported_run v r a report d at"
  obtain a report d' n where a: "currentAttempt ?rec = Inr a"
    and guards: "ro_state ?rec = Q_dispatched" "at_state a = AT_dispatched" "at_id a = i"
    and report: "validatePlanningRoleReport x (Some (report_binding v r (at_id a) (ro_inputDigest ?rec))) = Inr report"
    and clean: "assertReportHasNoPrivateRunValues report v a = None"
    and digest: "planningRoleReportOutputDigest H report = Inr d'" "d = d'"
    and n: "?run a report d' n" and w: "turned H now v n at w"
    using assms
    unfolding recordDeliveryPlanningRoleReport_def attempt_Inr guard_Inr validate_run_Inr nextRun_Inr throw_if_None
      de_Morgan_disj not_not Let_def
    apply (elim exE conjE)
    subgoal premises ps for run a report d' n n' a'
      by (rule that [of a report d' n']) (use ps in \<open>auto split: if_splits\<close>)
    done
  from a have a': "ro_attempts ?rec \<noteq> []" "a = last (ro_attempts ?rec)" by (auto simp: currentAttempt_def split: if_splits)
  from n have "n = reported_run v r a report d at
       \<or> pr_status report = S_complete \<and> r \<in> {R_qa, R_dev}
         \<and> (\<exists>b. n = set_condition ((reported_run v r a report d at)\<lparr>pn_synthesisBlocker := Some
              \<lparr>sb_code = b, sb_reason = synthesisBlockerReason b, sb_recordedAt = at\<rparr>\<rparr>)
              K_needs_input (synthesisBlockerReason b))"
    using blocked unfolding digest(2) by (simp split: if_splits)
  with a' guards report clean digest w show ?thesis by blast
qed

lemma compile_candidate_Inr:
  assumes "compileDeliveryPlanningCandidate H now v at = Inr w"
  shows "pn_phase v = PH_synthesis \<and> pn_condition v = K_active \<and>
    (\<exists>n. turned H now v n at w \<and>
      ((\<exists>b. n = blocked_synthesis v b at) \<or>
       (\<exists>c. buildCandidate H now v at = Inr c \<and> n = v\<lparr>pn_phase := PH_review, pn_candidate := Some c,
          pn_synthesisBlocker := None, pn_applyOutbox := emptyApplyOutbox at, pn_blocker := []\<rparr>)))"
  using assms
  by (auto simp: compileDeliveryPlanningCandidate_def validate_run_Inr nextRun_Inr pn_timestamp_Inr
      split: sum.splits option.splits)

section \<open>What no operation changes\<close>

lemma case_error_Inr:
  "(case x of None \<Rightarrow> Inl e | Some c \<Rightarrow> f c) = Inr y \<longleftrightarrow> (\<exists>c. x = Some c \<and> f c = Inr y)"
  "(if b then Inl e else k) = Inr y \<longleftrightarrow> \<not> b \<and> k = Inr y"
  by (auto split: option.splits)

definition same_binding :: "planning_run \<Rightarrow> planning_run \<Rightarrow> bool" where
  "same_binding v w \<longleftrightarrow> pn_version w = pn_version v \<and> pn_id w = pn_id v \<and> pn_planId w = pn_planId v
     \<and> pn_planRevision w = pn_planRevision v \<and> pn_planDigest w = pn_planDigest v \<and> pn_workspace w = pn_workspace v
     \<and> pn_baseline w = pn_baseline v \<and> pn_inputDigest w = pn_inputDigest v \<and> pn_sourcePlan w = pn_sourcePlan v
     \<and> pn_createdAt w = pn_createdAt v"

definition kept :: "host \<Rightarrow> string \<Rightarrow> planning_run \<Rightarrow> string \<Rightarrow> planning_run \<Rightarrow> bool" where
  "kept H now v at w \<longleftrightarrow> (\<exists>n. turned H now v n at w \<and> same_binding v n \<and> pn_revision n = pn_revision v)"

lemma keptI: "turned H now v n at w \<Longrightarrow> same_binding v n \<Longrightarrow> pn_revision n = pn_revision v \<Longrightarrow> kept H now v at w"
  by (auto simp: kept_def)

lemma next_kept:
  assumes "nextRun H now v change at = Inr w"
    and "\<And>n. change v at = Inr n \<Longrightarrow> same_binding v n \<and> pn_revision n = pn_revision v"
  shows "kept H now v at w"
  using assms by (auto simp: nextRun_Inr intro: keptI)

lemma put_attempt_simps [simp]:
  "same_binding v (put_attempt w r a) = same_binding v w" "pn_revision (put_attempt w r a) = pn_revision w"
  by (simp_all add: put_attempt_def same_binding_def)
lemma put_cleanup_simps [simp]:
  "same_binding v (put_cleanup w r a c) = same_binding v w" "pn_revision (put_cleanup w r a c) = pn_revision w"
  by (simp_all add: put_cleanup_def)
lemma same_put_role [simp]: "same_binding v (put_role w r x) = same_binding v w"
 "same_binding v (set_condition w k e) = same_binding v w" "same_binding v v"
 "same_binding v (w\<lparr>pn_condition := k\<rparr>) = same_binding v w"
 "same_binding v (w\<lparr>pn_blocker := e\<rparr>) = same_binding v w"
 "same_binding v (w\<lparr>pn_phase := ph\<rparr>) = same_binding v w"
 "same_binding v (w\<lparr>pn_candidate := c\<rparr>) = same_binding v w"
 "same_binding v (w\<lparr>pn_applyOutbox := ao\<rparr>) = same_binding v w"
 "same_binding v (w\<lparr>pn_synthesisBlocker := sb\<rparr>) = same_binding v w"
 "same_binding v (w\<lparr>pn_continueReceipts := cr\<rparr>) = same_binding v w"
  by (simp_all add: same_binding_def)

lemma advance_simps [simp]:
  "same_binding v (advanceAfterCleanup w r) = same_binding v w" "pn_revision (advanceAfterCleanup w r) = pn_revision w"
  by (simp_all add: advanceAfterCleanup_def Let_def same_binding_def)

lemma close_simps [simp]:
  "same_binding v (closeProvisionalSpawnLease w r a l e at) = same_binding v w"
  "pn_revision (closeProvisionalSpawnLease w r a l e at) = pn_revision w"
  by (simp_all add: closeProvisionalSpawnLease_def Let_def)

lemma reported_simps [simp]:
  "same_binding v (reported_run w r a report d at) = same_binding v w"
  "pn_revision (reported_run w r a report d at) = pn_revision w"
  by (simp_all add: reported_run_def Let_def)

lemma blocked_simps [simp]:
  "same_binding v (blocked_synthesis w b at) = same_binding v w"
  "pn_revision (blocked_synthesis w b at) = pn_revision w"
  by (simp_all add: blocked_synthesis_def Let_def)

lemma continued_kept: "continued_run v ci at = Inr n \<Longrightarrow> same_binding v n \<and> pn_revision n = pn_revision v"
  by (auto simp: continued_run_def split: if_splits)

lemma operation_kept:
  assumes "apply_planning H now op at v = Inr w"
  shows "kept H now v at w"
proof (cases op)
  case (RecordReport r i x d)
  with assms record_report_Inr [of H now v r i x d at w] show ?thesis by (auto intro: keptI)
next
  case CompileCandidate
  with assms compile_candidate_Inr [of H now v at w] show ?thesis by (auto intro: keptI)
next
  case (Continue ci)
  then show ?thesis using assms continued_kept 
    by (auto simp: authorizeDeliveryPlanningContinue_def validate_run_Inr elim!: next_kept)
qed (use assms in \<open>auto simp: planning_operation_defs validate_run_Inr Let_def case_error_Inr elim!: next_kept\<close>)
end
