(* ===== verification/PlanningCourse.thy ===== *)
theory PlanningCourse
  imports PlanningRunData Machine
begin

text \<open>
  The specification of a planning run: the life of each role's worker as a step relation on
  stages, and the course of the run over its phase, its condition, the four stages, the
  application of the candidate and the number of continue receipts of each kind. Every step raises
  \<open>progress\<close>, which is bounded, so every run ends.
\<close>

section \<open>The life of a worker\<close>

text \<open>
  A role without an attempt is idle. Otherwise: the state of the role, of the lease with its
  stop, of the attempt, and of the cleanup with the number of recoveries.
\<close>

datatype stage =
    Idle
  | Busy role_state lease_state "lease_cleanup_state option" attempt_state "(cleanup_state \<times> nat) option"

abbreviation "spawning l \<equiv> Busy Q_spawn_claimed l None AT_spawn_claimed None"
abbreviation "working q s \<equiv> Busy q SL_adopted None s None"
abbreviation "cleaning q s c n \<equiv> Busy q SL_adopted None s (Some (c, n))"
abbreviation "stopping c \<equiv> Busy Q_reconcile_required SL_reconcile_required c AT_reconcile_required None"
abbreviation "gone c \<equiv> Busy Q_failed SL_closed c AT_crashed None"

text \<open>What a step of a worker does to the condition of its run.\<close>

datatype effect = Quiet | Sets planning_condition | Completes | Cleaned | Recovered

inductive stage_step :: "effect \<Rightarrow> stage \<Rightarrow> stage \<Rightarrow> bool" where
  bind_lease: "stage_step Quiet (spawning SL_claimed) (spawning SL_bound)"
| lose_lease: "l \<in> {SL_claimed, SL_bound} \<Longrightarrow> stage_step (Sets K_reconcile_required) (spawning l) (stopping None)"
| close_spawning: "l \<in> {SL_claimed, SL_bound} \<Longrightarrow> stage_step (Sets K_failed) (spawning l) (gone None)"
| close_lost: "stage_step (Sets K_failed) (stopping None) (gone None)"
| claim_stop: "stage_step Quiet (stopping None) (stopping (Some LC_claimed))"
| send_stop: "stage_step Quiet (stopping (Some LC_claimed)) (stopping (Some LC_sent))"
| complete_stop: "c \<in> {LC_claimed, LC_sent} \<Longrightarrow>
     stage_step (Sets K_failed) (stopping (Some c)) (gone (Some LC_complete))"
| adopt: "stage_step Quiet (spawning SL_bound) (working Q_dispatch_claimed AT_dispatch_claimed)"
| dispatch: "stage_step Quiet (working Q_dispatch_claimed AT_dispatch_claimed) (working Q_dispatched AT_dispatched)"
| report_complete: "stage_step Completes (working Q_dispatched AT_dispatched) (cleaning Q_completed AT_finished CS_pending 0)"
| report_needs_input: "stage_step (Sets K_needs_input) (working Q_dispatched AT_dispatched)
     (cleaning Q_needs_input AT_finished CS_pending 0)"
| report_failure: "stage_step (Sets K_failed) (working Q_dispatched AT_dispatched)
     (cleaning Q_failed AT_finished CS_pending 0)"
| end_needs_input: "(q, s) \<in> {(Q_dispatch_claimed, AT_dispatch_claimed), (Q_dispatched, AT_dispatched)} \<Longrightarrow>
     stage_step (Sets K_needs_input) (working q s) (cleaning Q_needs_input AT_finished CS_pending 0)"
| end_crashed: "(q, s) \<in> {(Q_dispatch_claimed, AT_dispatch_claimed), (Q_dispatched, AT_dispatched)} \<Longrightarrow>
     stage_step (Sets K_failed) (working q s) (cleaning Q_failed AT_crashed CS_pending 0)"
| end_unknown: "(q, s) \<in> {(Q_dispatch_claimed, AT_dispatch_claimed), (Q_dispatched, AT_dispatched)} \<Longrightarrow>
     stage_step (Sets K_reconcile_required) (working q s)
       (cleaning Q_reconcile_required AT_reconcile_required CS_reconcile_required 0)"
| claim_cleanup: "stage_step Quiet (cleaning q s CS_pending n) (cleaning q s CS_claimed n)"
| send_cleanup: "stage_step Quiet (cleaning q s CS_claimed n) (cleaning q s CS_sent n)"
| complete_cleanup: "stage_step Cleaned (cleaning q s CS_sent n) (cleaning q s CS_complete n)"
| lose_cleanup: "c \<in> {CS_pending, CS_claimed, CS_sent} \<Longrightarrow> n < 3 \<Longrightarrow>
     stage_step (Sets K_reconcile_required) (cleaning q s c n)
       (cleaning Q_reconcile_required AT_reconcile_required CS_reconcile_required n)"
| recover_absent: "n < 3 \<Longrightarrow>
     stage_step Recovered (cleaning Q_reconcile_required AT_reconcile_required CS_reconcile_required n)
       (cleaning Q_reconcile_required AT_reconcile_required CS_complete (Suc n))"
| recover_exact: "n < 2 \<Longrightarrow>
     stage_step Recovered (cleaning Q_reconcile_required AT_reconcile_required CS_reconcile_required n)
       (cleaning Q_reconcile_required AT_reconcile_required CS_claimed (Suc n))"

inductive_cases stage_stepE: "stage_step e x y"

text \<open>The combinations that a worker can be in.\<close>

inductive stage_ok :: "stage \<Rightarrow> bool" where
  "stage_ok Idle"
| "l \<in> {SL_claimed, SL_bound} \<Longrightarrow> stage_ok (spawning l)"
| "c \<noteq> Some LC_complete \<Longrightarrow> stage_ok (stopping c)"
| "c \<in> {None, Some LC_complete} \<Longrightarrow> stage_ok (gone c)"
| "(q, s) \<in> {(Q_dispatch_claimed, AT_dispatch_claimed), (Q_dispatched, AT_dispatched)} \<Longrightarrow> stage_ok (working q s)"
| "(q, s) \<in> {(Q_completed, AT_finished), (Q_needs_input, AT_finished), (Q_failed, AT_finished), (Q_failed, AT_crashed)} \<Longrightarrow>
   c \<noteq> CS_reconcile_required \<Longrightarrow> stage_ok (cleaning q s c 0)"
| "n \<le> 3 \<Longrightarrow> c \<noteq> CS_pending \<Longrightarrow> (n = 3 \<longrightarrow> c = CS_complete) \<Longrightarrow>
   stage_ok (cleaning Q_reconcile_required AT_reconcile_required c n)"

inductive_cases stage_okE: "stage_ok x"

inductive_simps stage_ok_simps:
  "stage_ok Idle" "stage_ok (Busy q l lc s c)"

lemma stage_step_ok: "stage_step e x y \<Longrightarrow> stage_ok x \<Longrightarrow> stage_ok y"
  by (induction rule: stage_step.induct) (auto simp: stage_ok_simps)

definition finished_clean :: "stage \<Rightarrow> bool" where
  "finished_clean x \<longleftrightarrow> (\<exists>n. x = cleaning Q_completed AT_finished CS_complete n)"

lemma finished_clean_final: "finished_clean x \<Longrightarrow> \<not> stage_step e x y"
  by (auto simp: finished_clean_def elim: stage_stepE)

text \<open>Nothing of the worker is left running: \<open>\<not> unresolvedWorker\<close> of one role.\<close>

fun settled :: "stage \<Rightarrow> bool" where
  "settled Idle = True"
| "settled (Busy q l lc s c) \<longleftrightarrow>
     (l = SL_closed \<or> l = SL_adopted \<and> map_option fst c = Some CS_complete)
     \<and> s \<notin> {AT_spawn_claimed, AT_dispatch_claimed, AT_dispatched}
     \<and> map_option fst c \<in> {None, Some CS_complete}"

lemma settled_final: "settled x \<Longrightarrow> \<not> stage_step e x y"
  by (auto elim: stage_stepE)

section \<open>The course of a run\<close>

record run_course =
  wc_phase :: planning_phase
  wc_condition :: planning_condition
  wc_stage :: "role \<Rightarrow> stage"
  wc_apply :: apply_state
  wc_receipts :: "continue_kind \<Rightarrow> nat"

fun roles_of_phase :: "planning_phase \<Rightarrow> role set" where
  "roles_of_phase PH_po = {R_po}"
| "roles_of_phase PH_ba = {R_ba}"
| "roles_of_phase PH_challenge = {R_qa, R_dev}"
| "roles_of_phase p = {}"

definition move :: "role \<Rightarrow> stage \<Rightarrow> run_course \<Rightarrow> run_course" where
  "move r x s = s\<lparr>wc_stage := (wc_stage s)(r := x)\<rparr>"

definition blame :: "planning_condition \<Rightarrow> run_course \<Rightarrow> run_course" where
  "blame k s = (if wc_condition s = K_off_course then s else s\<lparr>wc_condition := k\<rparr>)"

text \<open>The phase that follows when an active run has cleaned up after a role.\<close>

definition advanced_phase :: "role \<Rightarrow> run_course \<Rightarrow> planning_phase" where
  "advanced_phase r s =
     (if wc_condition s \<noteq> K_active then wc_phase s
      else if r = R_po \<and> wc_phase s = PH_po \<and> finished_clean (wc_stage s R_po) then PH_ba
      else if r = R_ba \<and> wc_phase s = PH_ba \<and> finished_clean (wc_stage s R_ba) then PH_challenge
      else if r \<in> {R_qa, R_dev} \<and> wc_phase s = PH_challenge
          \<and> finished_clean (wc_stage s R_qa) \<and> finished_clean (wc_stage s R_dev) then PH_synthesis
      else wc_phase s)"

fun settle :: "effect \<Rightarrow> role \<Rightarrow> run_course \<Rightarrow> run_course" where
  "settle (Sets k) r s = blame k s"
| "settle Cleaned r s = s\<lparr>wc_phase := advanced_phase r s\<rparr>"
| "settle _ r s = s"

fun effect_allowed :: "effect \<Rightarrow> run_course \<Rightarrow> bool" where
  "effect_allowed Completes s \<longleftrightarrow> wc_condition s \<in> {K_active, K_off_course}"
| "effect_allowed Recovered s \<longleftrightarrow> wc_condition s \<in> {K_reconcile_required, K_off_course}"
| "effect_allowed _ s \<longleftrightarrow> True"

definition count_receipt :: "continue_kind \<Rightarrow> run_course \<Rightarrow> run_course" where
  "count_receipt k s = s\<lparr>wc_receipts := (wc_receipts s)(k := Suc (wc_receipts s k))\<rparr>"

inductive course_moves :: "run_course \<Rightarrow> run_course \<Rightarrow> bool" where
  spawn: "wc_condition s \<in> {K_active, K_resource_wait} \<Longrightarrow> r \<in> roles_of_phase (wc_phase s) \<Longrightarrow> wc_stage s r = Idle \<Longrightarrow>
     course_moves s ((move r (spawning SL_claimed) s)\<lparr>wc_condition := K_active\<rparr>)"
| work: "stage_step e (wc_stage s r) x \<Longrightarrow> effect_allowed e s \<Longrightarrow> course_moves s (settle e r (move r x s))"
| report_unsynthesizable: "r \<in> {R_qa, R_dev} \<Longrightarrow> wc_stage s r = working Q_dispatched AT_dispatched \<Longrightarrow>
     course_moves s (blame K_needs_input (move r (cleaning Q_completed AT_finished CS_pending 0) s))"
| wait: "wc_condition s = K_active \<Longrightarrow> r \<in> roles_of_phase (wc_phase s) \<Longrightarrow> wc_stage s r = Idle \<Longrightarrow>
     course_moves s (s\<lparr>wc_condition := K_resource_wait\<rparr>)"
| retry: "wc_condition s \<in> {K_active, K_resource_wait} \<Longrightarrow> r \<in> roles_of_phase (wc_phase s) \<Longrightarrow> wc_stage s r = Idle \<Longrightarrow>
     wc_receipts s CK_resource_retry < 6 \<Longrightarrow>
     course_moves s (count_receipt CK_resource_retry (s\<lparr>wc_condition := K_active\<rparr>))"
| continue_cleanup: "x = wc_stage s r \<or> stage_step Quiet (wc_stage s r) x \<or> stage_step Recovered (wc_stage s r) x \<Longrightarrow>
     wc_stage s r = Busy q l lc a c \<Longrightarrow> \<not> settled (wc_stage s r) \<Longrightarrow> wc_receipts s CK_cleanup_only < 6 \<Longrightarrow>
     course_moves s (count_receipt CK_cleanup_only (move r x s))"
| compile: "wc_phase s = PH_synthesis \<Longrightarrow> wc_condition s = K_active \<Longrightarrow>
     course_moves s (s\<lparr>wc_phase := PH_review, wc_apply := AS_held\<rparr>)"
| refuse: "wc_phase s = PH_synthesis \<Longrightarrow> wc_condition s = K_active \<Longrightarrow>
     course_moves s (s\<lparr>wc_condition := K_needs_input, wc_apply := AS_held\<rparr>)"
| claim_apply: "wc_phase s = PH_review \<Longrightarrow> wc_condition s = K_active \<Longrightarrow> wc_apply s = AS_held \<Longrightarrow>
     course_moves s (s\<lparr>wc_apply := AS_claimed\<rparr>)"
| applied: "(wc_condition s, wc_apply s) \<in> {(K_active, AS_claimed), (K_reconcile_required, AS_reconcile_required)} \<Longrightarrow>
     course_moves s (s\<lparr>wc_phase := PH_applied, wc_condition := K_active, wc_apply := AS_applied\<rparr>)"
| lose_apply: "wc_condition s = K_active \<Longrightarrow> wc_apply s = AS_claimed \<Longrightarrow>
     course_moves s (s\<lparr>wc_condition := K_reconcile_required, wc_apply := AS_reconcile_required\<rparr>)"
| abandon: "wc_phase s = PH_review \<Longrightarrow> wc_condition s = K_off_course \<Longrightarrow> wc_apply s \<in> {AS_claimed, AS_reconcile_required} \<Longrightarrow>
     course_moves s (s\<lparr>wc_apply := AS_abandoned\<rparr>)"
| off_course: "wc_phase s \<notin> {PH_applied, PH_closed} \<Longrightarrow> wc_condition s \<noteq> K_off_course \<Longrightarrow>
     course_moves s (s\<lparr>wc_condition := K_off_course\<rparr>)"
| cancel: "wc_phase s \<notin> {PH_applied, PH_closed} \<Longrightarrow> \<forall>r. settled (wc_stage s r) \<Longrightarrow>
     wc_apply s \<notin> {AS_claimed, AS_reconcile_required} \<Longrightarrow>
     course_moves s (s\<lparr>wc_phase := PH_closed, wc_condition := K_canceled\<rparr>)"

inductive_cases course_movesE: "course_moves s t"

definition course_begins :: "run_course \<Rightarrow> bool" where
  "course_begins s \<longleftrightarrow> s = \<lparr>wc_phase = PH_po, wc_condition = K_active, wc_stage = (\<lambda>r. Idle),
     wc_apply = AS_held, wc_receipts = (\<lambda>k. 0)\<rparr>"

section \<open>The invariant\<close>

definition course_ok :: "run_course \<Rightarrow> bool" where
  "course_ok s \<longleftrightarrow>
     (\<forall>r. stage_ok (wc_stage s r)) \<and> (\<forall>k. wc_receipts s k \<le> 6)
     \<and> (wc_phase s = PH_po \<longrightarrow> wc_stage s R_ba = Idle)
     \<and> (wc_phase s \<in> {PH_po, PH_ba} \<longrightarrow> wc_stage s R_qa = Idle \<and> wc_stage s R_dev = Idle)
     \<and> (wc_phase s \<notin> {PH_po, PH_closed} \<longrightarrow> finished_clean (wc_stage s R_po))
     \<and> (wc_phase s \<notin> {PH_po, PH_ba, PH_closed} \<longrightarrow> finished_clean (wc_stage s R_ba))
     \<and> (wc_phase s \<in> {PH_synthesis, PH_review, PH_applied} \<longrightarrow>
         finished_clean (wc_stage s R_qa) \<and> finished_clean (wc_stage s R_dev))
     \<and> (wc_phase s \<in> {PH_po, PH_ba, PH_challenge, PH_synthesis} \<longrightarrow> wc_apply s = AS_held)
     \<and> (wc_apply s = AS_applied \<longleftrightarrow> wc_phase s = PH_applied)
     \<and> (wc_phase s = PH_applied \<longrightarrow> wc_condition s = K_active)
     \<and> (wc_phase s = PH_closed \<longrightarrow> wc_condition s = K_canceled \<and> (\<forall>r. settled (wc_stage s r))
         \<and> wc_apply s \<notin> {AS_claimed, AS_reconcile_required})
     \<and> (wc_condition s = K_canceled \<longrightarrow> wc_phase s = PH_closed)
     \<and> (wc_apply s = AS_reconcile_required \<longrightarrow> wc_condition s \<in> {K_reconcile_required, K_off_course})"

lemma course_ok_stage: "course_ok s \<Longrightarrow> stage_ok (wc_stage s r)"
  by (simp add: course_ok_def)

lemma move_simps [simp]:
  "wc_phase (move r x s) = wc_phase s" "wc_condition (move r x s) = wc_condition s"
  "wc_apply (move r x s) = wc_apply s" "wc_receipts (move r x s) = wc_receipts s"
  "wc_stage (move r x s) = (wc_stage s)(r := x)"
  by (simp_all add: move_def)

lemma count_receipt_simps [simp]:
  "wc_phase (count_receipt k s) = wc_phase s" "wc_condition (count_receipt k s) = wc_condition s"
  "wc_stage (count_receipt k s) = wc_stage s" "wc_apply (count_receipt k s) = wc_apply s"
  "wc_receipts (count_receipt k s) = (wc_receipts s)(k := Suc (wc_receipts s k))"
  by (simp_all add: count_receipt_def)

lemma blame_simps [simp]:
  "wc_phase (blame k s) = wc_phase s" "wc_stage (blame k s) = wc_stage s"
  "wc_apply (blame k s) = wc_apply s" "wc_receipts (blame k s) = wc_receipts s"
  "wc_condition (blame k s) = (if wc_condition s = K_off_course then K_off_course else k)"
  by (simp_all add: blame_def)

lemma settle_simps [simp]:
  "wc_stage (settle e r s) = wc_stage s" "wc_apply (settle e r s) = wc_apply s"
  "wc_receipts (settle e r s) = wc_receipts s"
  "wc_phase (settle e r s) = (if e = Cleaned then advanced_phase r s else wc_phase s)"
  by (cases e; simp)+

lemma not_finished: "stage_step e x y \<Longrightarrow> \<not> finished_clean x" "stage_step e Idle y \<Longrightarrow> False"
  "stage_step e x y \<Longrightarrow> \<not> settled x"
  using finished_clean_final settled_final by (blast, blast elim: stage_stepE, blast)

text \<open>A worker moves only in the phase of its role, and only before the run is closed.\<close>

lemma busy_phase:
  assumes "course_ok s" "\<not> settled (wc_stage s r)"
  shows "r \<in> roles_of_phase (wc_phase s)"
proof -
  have clean: "settled x" if "finished_clean x" for x using that by (auto simp: finished_clean_def)
  show ?thesis
    using assms clean by (cases "wc_phase s"; cases r) (auto simp: course_ok_def)
qed

lemma advanced_cases:
  "advanced_phase r s \<in> {wc_phase s, PH_ba, PH_challenge, PH_synthesis}"
  by (simp add: advanced_phase_def)

definition condition_sets :: "planning_condition set" where
  "condition_sets = {K_needs_input, K_failed, K_reconcile_required}"

lemma stage_step_sets: "stage_step (Sets k) x y \<Longrightarrow> k \<in> condition_sets"
  by (auto simp: condition_sets_def elim: stage_stepE)

lemma settle_condition:
  "wc_condition (settle e r s) =
     (case e of Sets k \<Rightarrow> if wc_condition s = K_off_course then K_off_course else k | _ \<Rightarrow> wc_condition s)"
  by (cases e) simp_all

lemma open_phase:
  assumes "r \<in> roles_of_phase f"
  obtains "f = PH_po" "r = R_po" | "f = PH_ba" "r = R_ba" | "f = PH_challenge" "r \<in> {R_qa, R_dev}"
  using assms by (cases f) auto

lemma course_okD:
  assumes "course_ok s"
  shows "r \<in> roles_of_phase (wc_phase s) \<Longrightarrow> wc_condition s \<noteq> K_canceled"
    and "wc_receipts s k \<le> 6"
proof -
  assume r: "r \<in> roles_of_phase (wc_phase s)"
  have "wc_condition s = K_canceled \<longrightarrow> wc_phase s = PH_closed" using assms unfolding course_ok_def by blast
  with r show "wc_condition s \<noteq> K_canceled" by auto
next
  show "wc_receipts s k \<le> 6" using assms unfolding course_ok_def by blast
qed

lemma course_ok_ended:
  assumes "course_ok s"
  shows "wc_phase s = PH_closed \<Longrightarrow> wc_condition s = K_canceled"
    and "wc_phase s = PH_closed \<Longrightarrow> wc_apply s \<notin> {AS_claimed, AS_reconcile_required}"
    and "wc_phase s = PH_applied \<Longrightarrow> wc_condition s = K_active"
    and "wc_apply s = AS_applied \<longleftrightarrow> wc_phase s = PH_applied"
  using assms unfolding course_ok_def by blast+

lemma course_ok_open:
  assumes "course_ok s"
  shows "wc_phase s \<noteq> PH_closed \<Longrightarrow> wc_condition s \<noteq> K_canceled"
    and "wc_phase s = PH_po \<Longrightarrow> wc_stage s R_ba = Idle"
    and "wc_phase s \<in> {PH_po, PH_ba} \<Longrightarrow> wc_stage s R_qa = Idle"
    and "wc_phase s \<in> {PH_po, PH_ba} \<Longrightarrow> wc_stage s R_dev = Idle"
    and "wc_phase s \<notin> {PH_po, PH_closed} \<Longrightarrow> finished_clean (wc_stage s R_po)"
    and "wc_phase s \<notin> {PH_po, PH_ba, PH_closed} \<Longrightarrow> finished_clean (wc_stage s R_ba)"
    and "wc_phase s \<in> {PH_synthesis, PH_review, PH_applied} \<Longrightarrow> finished_clean (wc_stage s R_qa)"
    and "wc_phase s \<in> {PH_synthesis, PH_review, PH_applied} \<Longrightarrow> finished_clean (wc_stage s R_dev)"
    and "wc_phase s \<in> {PH_po, PH_ba, PH_challenge, PH_synthesis} \<Longrightarrow> wc_apply s = AS_held"
  using assms unfolding course_ok_def by blast+

lemma idle_not_finished: "x = Idle \<Longrightarrow> \<not> finished_clean x"
  "\<not> finished_clean (working q a)" "\<not> settled x \<Longrightarrow> \<not> finished_clean x"
  by (auto simp: finished_clean_def)

lemma moved_ok:
  assumes ok: "course_ok s" and r: "r \<in> roles_of_phase (wc_phase s)"
    and x: "stage_ok x" "\<not> finished_clean (wc_stage s r)"
    and k: "k \<noteq> K_canceled" and n: "\<And>c. n c \<le> 6"
    and f: "f \<in> {wc_phase s, advanced_phase r (move r x s)}"
  shows "course_ok ((move r x s)\<lparr>wc_phase := f, wc_condition := k, wc_receipts := n\<rparr>)"
  using r
proof (cases rule: open_phase)
  case 1
  with ok x k n f show ?thesis
    by (auto simp: course_ok_def advanced_phase_def split: if_splits)
next
  case 2
  with ok x k n f show ?thesis
    by (auto simp: course_ok_def advanced_phase_def split: if_splits)
next
  case 3
  with ok x k n f show ?thesis
    by (auto simp: course_ok_def advanced_phase_def split: if_splits)
qed

lemma work_ok:
  assumes ok: "course_ok s" and step: "stage_step e (wc_stage s r) x"
  shows "course_ok (settle e r (move r x s))"
proof -
  let ?t = "settle e r (move r x s)"
  have r: "r \<in> roles_of_phase (wc_phase s)" by (rule busy_phase [OF ok not_finished(3) [OF step]])
  note open_run = course_okD(1) [OF ok r]
  have k: "wc_condition ?t \<noteq> K_canceled"
    using open_run step by (auto simp: settle_condition condition_sets_def dest: stage_step_sets split: effect.split)
  have "?t = (move r x s)\<lparr>wc_phase := wc_phase ?t, wc_condition := wc_condition ?t, wc_receipts := wc_receipts s\<rparr>"
    by (cases e) (simp_all add: blame_def)
  also have "course_ok \<dots>"
    by (rule moved_ok [OF ok r stage_step_ok [OF step course_ok_stage [OF ok]] not_finished(1) [OF step] k course_okD(2) [OF ok]])
      (cases e; simp)
  finally show ?thesis .
qed

lemma course_moves_ok: "course_moves s t \<Longrightarrow> course_ok s \<Longrightarrow> course_ok t"
proof (induction rule: course_moves.induct)
  case (spawn s r)
  have "course_ok ((move r (spawning SL_claimed) s)\<lparr>wc_phase := wc_phase s, wc_condition := K_active, wc_receipts := wc_receipts s\<rparr>)"
    by (rule moved_ok [OF spawn.prems spawn(2)])
      (use spawn(3) course_okD(2) [OF spawn.prems] in \<open>simp_all add: stage_ok_simps idle_not_finished\<close>)
  then show ?case by (simp add: move_def)
next
  case (work e s r x)
  then show ?case by (simp add: work_ok)
next
  case (report_unsynthesizable r s)
  let ?x = "cleaning Q_completed AT_finished CS_pending 0" and ?k = "if wc_condition s = K_off_course then K_off_course else K_needs_input"
  have r: "r \<in> roles_of_phase (wc_phase s)"
    by (rule busy_phase [OF report_unsynthesizable.prems]) (simp add: report_unsynthesizable)
  have "course_ok ((move r ?x s)\<lparr>wc_phase := wc_phase s, wc_condition := ?k, wc_receipts := wc_receipts s\<rparr>)"
    by (rule moved_ok [OF report_unsynthesizable.prems r])
      (use report_unsynthesizable(2) course_okD(2) [OF report_unsynthesizable.prems]
        in \<open>simp_all add: stage_ok_simps idle_not_finished\<close>)
  moreover have "blame K_needs_input (move r ?x s)
      = (move r ?x s)\<lparr>wc_phase := wc_phase s, wc_condition := ?k, wc_receipts := wc_receipts s\<rparr>"
    by (simp add: move_def blame_def)
  ultimately show ?case by (simp only:)
next
  case (continue_cleanup x s r q l lc a c)
  have r: "r \<in> roles_of_phase (wc_phase s)" by (rule busy_phase [OF continue_cleanup.prems continue_cleanup(3)])
  then have "wc_condition s \<noteq> K_canceled" by (rule course_okD(1) [OF continue_cleanup.prems])
  moreover have "stage_ok x"
    using continue_cleanup(1) stage_step_ok course_ok_stage [OF continue_cleanup.prems] by metis
  moreover have "\<not> finished_clean (wc_stage s r)"
    by (rule idle_not_finished(3) [OF continue_cleanup(3)])
  ultimately have "course_ok ((move r x s)\<lparr>wc_phase := wc_phase s, wc_condition := wc_condition s,
      wc_receipts := wc_receipts (count_receipt CK_cleanup_only s)\<rparr>)"
    using continue_cleanup(4) course_okD(2) [OF continue_cleanup.prems]
    by (intro moved_ok [OF continue_cleanup.prems r]) simp_all
  then show ?case by (simp add: move_def count_receipt_def)
next
  case (wait s r)
  then show ?case by (cases "wc_phase s"; simp add: course_ok_def; fastforce)
next
  case (retry s r)
  then show ?case by (cases "wc_phase s"; simp add: course_ok_def; fastforce)
next
  case (compile s)
  then show ?case by (cases "wc_phase s"; simp add: course_ok_def; fastforce)
next
  case (refuse s)
  then show ?case by (cases "wc_phase s"; simp add: course_ok_def; fastforce)
next
  case (claim_apply s)
  then show ?case by (cases "wc_phase s"; simp add: course_ok_def; fastforce)
next
  case (applied s)
  then show ?case by (cases "wc_phase s"; simp add: course_ok_def; fastforce)
next
  case (lose_apply s)
  then show ?case by (cases "wc_phase s"; simp add: course_ok_def; fastforce)
next
  case (abandon s)
  then show ?case by (cases "wc_phase s"; simp add: course_ok_def; fastforce)
next
  case (off_course s)
  then show ?case by (cases "wc_phase s"; simp add: course_ok_def; fastforce)
next
  case (cancel s)
  then show ?case by (cases "wc_phase s"; simp add: course_ok_def; fastforce)
qed

interpretation planning_course: machine course_begins course_moves course_ok
proof
  fix s assume "course_begins s" then show "course_ok s"
    by (auto simp: course_begins_def course_ok_def stage_ok_simps)
next
  fix s t assume "course_ok s" "course_moves s t" then show "course_ok t"
    by (blast intro: course_moves_ok)
qed

section \<open>Progress\<close>

text \<open>
  How far a worker is. A recovery gives the cleanup three more steps, and the last one, which
  can only find the worker absent, a single one: a worker takes at most 16 steps. A resource
  retry may follow a wait, so that it counts twice; a continued cleanup counts once.
\<close>

fun cleanup_rank :: "cleanup_state \<Rightarrow> nat" where
  "cleanup_rank CS_pending = 0" | "cleanup_rank CS_claimed = 1" | "cleanup_rank CS_sent = 2"
| "cleanup_rank CS_reconcile_required = 3" | "cleanup_rank CS_complete = 3"

fun stop_rank :: "lease_cleanup_state option \<Rightarrow> nat" where
  "stop_rank None = 0" | "stop_rank (Some LC_claimed) = 1" | "stop_rank (Some _) = 2"

fun stage_rank :: "stage \<Rightarrow> nat" where
  "stage_rank Idle = 0"
| "stage_rank (Busy q l d s (Some (c, n))) = (if n = 3 then 16 else 6 + 3 * n + cleanup_rank c)"
| "stage_rank (Busy q SL_claimed d s None) = 2"
| "stage_rank (Busy q SL_bound d s None) = 3"
| "stage_rank (Busy q SL_adopted d s None) = (if s = AT_dispatch_claimed then 4 else 5)"
| "stage_rank (Busy q SL_reconcile_required d s None) = 4 + stop_rank d"
| "stage_rank (Busy q SL_closed d s None) = 7"

fun phase_rank :: "planning_phase \<Rightarrow> nat" where
  "phase_rank PH_review = 1" | "phase_rank PH_applied = 2" | "phase_rank PH_closed = 1"
| "phase_rank _ = 0"

fun apply_rank :: "apply_state \<Rightarrow> nat" where
  "apply_rank AS_held = 0" | "apply_rank AS_claimed = 1" | "apply_rank AS_reconcile_required = 2"
| "apply_rank AS_abandoned = 3" | "apply_rank AS_applied = 3"

fun condition_rank :: "planning_condition \<Rightarrow> nat" where
  "condition_rank K_active = 0" | "condition_rank K_off_course = 2" | "condition_rank K_canceled = 3"
| "condition_rank _ = 1"

definition progress :: "run_course \<Rightarrow> nat" where
  "progress s = stage_rank (wc_stage s R_po) + stage_rank (wc_stage s R_ba) + stage_rank (wc_stage s R_qa)
     + stage_rank (wc_stage s R_dev) + phase_rank (wc_phase s) + apply_rank (wc_apply s) + 2 * wc_receipts s CK_resource_retry
     + wc_receipts s CK_cleanup_only + condition_rank (wc_condition s)"

lemma rank_bounds: "cleanup_rank c \<le> 3" "stop_rank d \<le> 2" "phase_rank f \<le> 2"
  "apply_rank b \<le> 3" "condition_rank k \<le> 3"
  subgoal by (cases c) simp_all
  subgoal by (cases d rule: stop_rank.cases) simp_all
  subgoal by (cases f) simp_all
  subgoal by (cases b) simp_all
  subgoal by (cases k) simp_all
  done

lemma stage_step_rank: "stage_step e x y \<Longrightarrow> stage_ok x \<Longrightarrow> stage_rank x < stage_rank y"
proof (induction rule: stage_step.induct)
  case (lose_cleanup c n q s)
  then show ?case by (auto simp: less_Suc_eq numeral_eq_Suc)
next
  case (recover_absent n)
  then show ?case by (auto simp: less_Suc_eq numeral_eq_Suc)
next
  case (recover_exact n)
  then show ?case by (auto simp: less_Suc_eq numeral_eq_Suc)
qed (auto simp: stage_ok_simps)

lemma stage_rank_bound: "stage_ok x \<Longrightarrow> stage_rank x \<le> 16"
proof (induction rule: stage_ok.induct)
  case (3 c)
  then show ?case using rank_bounds(2) [of c] by simp
next
  case (6 q s c)
  then show ?case using rank_bounds(1) [of c] by simp
next
  case (7 n c)
  then show ?case using rank_bounds(1) [of c] by simp
qed auto

lemma finished_rank: "stage_ok x \<Longrightarrow> finished_clean x \<Longrightarrow> stage_rank x = 9"
  by (auto simp: finished_clean_def stage_ok_simps)

lemma progress_move: "progress (move r x s) + stage_rank (wc_stage s r) = progress s + stage_rank x"
  by (cases r) (simp_all add: progress_def)

lemma progress_condition:
  "progress (s\<lparr>wc_condition := k\<rparr>) + condition_rank (wc_condition s) = progress s + condition_rank k"
  by (simp add: progress_def)

lemma progress_blame:
  "condition_rank k = 1 \<Longrightarrow> wc_condition s \<noteq> K_canceled \<Longrightarrow> progress s \<le> progress (blame k s)"
  using progress_condition [where s = s and k = k] by (cases "wc_condition s") (simp_all add: blame_def)

lemma progress_settle:
  assumes "stage_step e y x" "wc_condition s \<noteq> K_canceled" "wc_phase s \<in> {PH_po, PH_ba, PH_challenge}"
  shows "progress s \<le> progress (settle e r s)"
proof (cases e)
  case (Sets k)
  then have "k \<in> condition_sets" using stage_step_sets [of k y x] assms(1) by simp
  then have "condition_rank k = 1" by (auto simp: condition_sets_def)
  then show ?thesis using Sets assms(2) by (simp add: progress_blame)
next
  case Cleaned
  have "phase_rank (wc_phase s) = 0" using assms(3) by auto
  with Cleaned show ?thesis by (simp add: progress_def)
qed simp_all

text \<open>Every step makes progress.\<close>

lemma course_progress: "course_moves s t \<Longrightarrow> course_ok s \<Longrightarrow> progress s < progress t"
proof (induction rule: course_moves.induct)
  case (spawn s r)
  have "progress (move r (spawning SL_claimed) s) = progress s + 2"
    using progress_move [of r "spawning SL_claimed" s] spawn(3) by simp
  moreover have "condition_rank (wc_condition s) \<le> 1" using spawn(1) by auto
  ultimately show ?case
    using progress_condition [where s = "move r (spawning SL_claimed) s" and k = K_active] by simp
next
  case (work e s r x)
  have r: "r \<in> roles_of_phase (wc_phase s)" by (rule busy_phase [OF work.prems not_finished(3) [OF work(1)]])
  then have f: "wc_phase s \<in> {PH_po, PH_ba, PH_challenge}" by (cases "wc_phase s") simp_all
  have "progress (move r x s) \<le> progress (settle e r (move r x s))"
    by (rule progress_settle [OF work(1)]) (use course_okD(1) [OF work.prems r] f in simp_all)
  then show ?case
    using stage_step_rank [OF work(1) course_ok_stage [OF work.prems]] progress_move [of r x s] by linarith
next
  case (report_unsynthesizable r s)
  let ?x = "cleaning Q_completed AT_finished CS_pending 0"
  have "r \<in> roles_of_phase (wc_phase s)"
    by (rule busy_phase [OF report_unsynthesizable.prems]) (simp add: report_unsynthesizable)
  then have "wc_condition (move r ?x s) \<noteq> K_canceled" using course_okD(1) [OF report_unsynthesizable.prems] by simp
  then have "progress (move r ?x s) \<le> progress (blame K_needs_input (move r ?x s))" by (simp add: progress_blame)
  then show ?case using progress_move [of r ?x s] report_unsynthesizable(2) by simp
next
  case (continue_cleanup x s r q l lc a c)
  have "stage_rank (wc_stage s r) \<le> stage_rank x"
    using continue_cleanup(1) course_ok_stage [OF continue_cleanup.prems, of r] by (auto dest: stage_step_rank)
  then have "progress s \<le> progress (move r x s)" using progress_move [of r x s] by linarith
  also have "\<dots> < progress (count_receipt CK_cleanup_only (move r x s))" by (simp add: progress_def)
  finally show ?case .
next
  case (cancel s)
  then have "wc_condition s \<noteq> K_canceled" by (intro course_ok_open(1)) auto
  then have "condition_rank (wc_condition s) \<le> 2" by (cases "wc_condition s") simp_all
  moreover have "phase_rank (wc_phase s) \<le> 1" using cancel by (cases "wc_phase s") simp_all
  ultimately show ?case by (simp add: progress_def)
next
  case (off_course s)
  then have "wc_condition s \<noteq> K_canceled" by (intro course_ok_open(1)) auto
  with off_course have "condition_rank (wc_condition s) \<le> 1" by (cases "wc_condition s") simp_all
  then show ?case by (simp add: progress_def)
next
  case (applied s)
  then have "wc_phase s = PH_review" by (cases "wc_phase s") (auto simp: course_ok_def)
  with applied show ?case by (auto simp: progress_def)
next
  case (compile s)
  then show ?case by (simp add: progress_def course_ok_open(9))
next
  case (refuse s)
  then show ?case by (simp add: progress_def course_ok_open(9))
qed (auto simp: progress_def)

text \<open>
  While a run is not over, the workers of the earlier phases are finished, so that only two
  workers can be far.
\<close>

lemma progress_bound: "course_ok s \<Longrightarrow> wc_phase s \<notin> {PH_applied, PH_closed} \<Longrightarrow> progress s \<le> 70"
proof -
  assume ok: "course_ok s" and f: "wc_phase s \<notin> {PH_applied, PH_closed}"
  let ?n = "\<lambda>r. stage_rank (wc_stage s r)"
  have far: "?n r \<le> 16" for r by (rule stage_rank_bound [OF course_ok_stage [OF ok]])
  have clean: "?n r = 9" if "finished_clean (wc_stage s r)" for r
    by (rule finished_rank [OF course_ok_stage [OF ok] that])
  have "wc_condition s \<noteq> K_canceled" by (rule course_ok_open(1) [OF ok]) (use f in simp)
  then have k: "condition_rank (wc_condition s) \<le> 2" by (cases "wc_condition s") simp_all
  have "?n R_po + ?n R_ba + ?n R_qa + ?n R_dev + phase_rank (wc_phase s) + apply_rank (wc_apply s) \<le> 50"
  proof (cases "wc_phase s")
    case PH_po
    with far [of R_po] show ?thesis by (simp add: course_ok_open [OF ok])
  next
    case PH_ba
    with far [of R_ba] show ?thesis by (simp add: course_ok_open [OF ok] clean)
  next
    case PH_challenge
    with far [of R_qa] far [of R_dev] show ?thesis by (simp add: course_ok_open [OF ok] clean)
  next
    case PH_synthesis
    then show ?thesis by (simp add: course_ok_open [OF ok] clean)
  next
    case PH_review
    then show ?thesis using rank_bounds(4) [of "wc_apply s"] by (simp add: course_ok_open [OF ok] clean)
  qed (use f in simp_all)
  with k course_okD(2) [OF ok, of CK_resource_retry] course_okD(2) [OF ok, of CK_cleanup_only] show ?thesis
    by (simp add: progress_def)
qed

lemma progress_limit: "course_ok s \<Longrightarrow> progress s \<le> 90"
proof -
  assume ok: "course_ok s"
  have "stage_rank (wc_stage s r) \<le> 16" for r by (rule stage_rank_bound [OF course_ok_stage [OF ok]])
  from this [of R_po] this [of R_ba] this [of R_qa] this [of R_dev] rank_bounds(3) [of "wc_phase s"]
    rank_bounds(4) [of "wc_apply s"] rank_bounds(5) [of "wc_condition s"]
    course_okD(2) [OF ok, of CK_resource_retry] course_okD(2) [OF ok, of CK_cleanup_only]
  show ?thesis by (simp add: progress_def)
qed

text \<open>An applied run and a closed run take no step.\<close>

lemma terminal_course:
  assumes "course_ok s" "wc_phase s \<in> {PH_applied, PH_closed}"
  shows "\<not> course_moves s t"
proof
  have settled: "settled (wc_stage s r)" for r
    using busy_phase [OF assms(1), of r] assms(2) by (cases "settled (wc_stage s r)") auto
  have outbox: "wc_apply s \<notin> {AS_claimed, AS_reconcile_required}"
    using course_ok_ended(2,4) [OF assms(1)] assms(2) by auto
  have phase: "roles_of_phase (wc_phase s) = {}" "wc_phase s \<noteq> PH_review" "wc_phase s \<noteq> PH_synthesis"
    using assms(2) by auto
  have off: "wc_condition s \<noteq> K_off_course"
    using course_ok_ended(1,3) [OF assms(1)] assms(2) by auto
  assume "course_moves s t"
  then show False
  proof cases
    case (work e r x)
    then show False using not_finished(3) settled by blast
  next
    case (report_unsynthesizable r)
    then show False using settled [of r] by simp
  next
    case (continue_cleanup x r q l lc a c)
    then show False using settled by blast
  qed (use settled outbox phase off assms(2) in \<open>auto simp del: settled.simps\<close>)
qed

text \<open>The phases in order; only cancellation leaves the order.\<close>

inductive phase_follows :: "planning_phase \<Rightarrow> planning_phase \<Rightarrow> bool" where
  "phase_follows PH_po PH_ba" | "phase_follows PH_ba PH_challenge" | "phase_follows PH_challenge PH_synthesis"
| "phase_follows PH_synthesis PH_review" | "phase_follows PH_review PH_applied"
| "f \<notin> {PH_applied, PH_closed} \<Longrightarrow> phase_follows f PH_closed"

lemma course_phases: "course_moves s t \<Longrightarrow> course_ok s \<Longrightarrow> wc_phase t = wc_phase s \<or> phase_follows (wc_phase s) (wc_phase t)"
proof (induction rule: course_moves.induct)
  case (work e s r x)
  then show ?case by (auto simp: advanced_phase_def intro: phase_follows.intros)
next
  case (applied s)
  then have "wc_phase s = PH_review" by (cases "wc_phase s") (auto simp: course_ok_def)
  then show ?case by (auto intro: phase_follows.intros)
qed (auto intro: phase_follows.intros)

end
