(* ===== verification/PlanningRunRefinement.thy ===== *)
theory PlanningRunRefinement
  imports PlanningRunFacts PlanningCourse
begin

text \<open>
  The operations of delivery-planning-run.js refine the course of a planning run: each one
  that returns is a step of the course, so no operation stutters.
\<close>

section \<open>The course of a run\<close>

definition attempt_stage :: "role_state \<Rightarrow> role_attempt \<Rightarrow> stage" where
  "attempt_stage q a = Busy q (sl_state (at_spawnLease a)) (map_option lc_state (sl_cleanup (at_spawnLease a)))
     (at_state a) (map_option (\<lambda>c. (cl_state c, nat (cl_recoveryCount c))) (at_cleanup a))"

definition stage_of :: "role_record \<Rightarrow> stage" where
  "stage_of rec = (case latest_attempt rec of None \<Rightarrow> Idle | Some a \<Rightarrow> attempt_stage (ro_state rec) a)"

definition run_course_of :: "planning_run \<Rightarrow> run_course" where
  "run_course_of v = \<lparr>wc_phase = pn_phase v, wc_condition = pn_condition v, wc_stage = (\<lambda>r. stage_of (pn_roles v r)),
     wc_apply = ao_state (pn_applyOutbox v), wc_receipts = (\<lambda>k. length (receipts_of_kind k (pn_continueReceipts v)))\<rparr>"

lemma run_course_simps [simp]:
  "wc_phase (run_course_of v) = pn_phase v" "wc_condition (run_course_of v) = pn_condition v"
  "wc_stage (run_course_of v) r = stage_of (pn_roles v r)" "wc_apply (run_course_of v) = ao_state (pn_applyOutbox v)"
  "wc_receipts (run_course_of v) k = length (receipts_of_kind k (pn_continueReceipts v))"
  by (simp_all add: run_course_of_def)

lemma stage_of_attempts:
  "ro_attempts rec = [] \<Longrightarrow> stage_of rec = Idle"
  "ro_attempts rec \<noteq> [] \<Longrightarrow> stage_of rec = attempt_stage (ro_state rec) (last (ro_attempts rec))"
  by (simp_all add: stage_of_def latest_attempt_def)

lemma stage_of_with [simp]:
  "stage_of (with_attempt rec a) = attempt_stage (ro_state rec) a"
  "stage_of ((with_attempt rec a)\<lparr>ro_state := q\<rparr>) = attempt_stage q a"
  "stage_of ((with_attempt rec a)\<lparr>ro_report := x, ro_outputDigest := d, ro_state := q\<rparr>) = attempt_stage q a"
  by (simp_all add: stage_of_def latest_attempt_def)

lemma course_of_bump [simp]: "run_course_of (bump n at) = run_course_of n"
  by (simp add: run_course_of_def)

lemma course_of_put_role [simp]: "run_course_of (put_role v r rec) = move r (stage_of rec) (run_course_of v)"
  by (auto simp: run_course_of_def move_def)

lemma course_of_set_condition [simp]: "run_course_of (set_condition v k e) = blame k (run_course_of v)"
  by (simp add: run_course_of_def set_condition_def blame_def)

lemma course_of_put_attempt [simp]:
  "run_course_of (put_attempt v r a) = move r (attempt_stage (ro_state (pn_roles v r)) a) (run_course_of v)"
  by (simp add: put_attempt_def)

lemma course_of_put_cleanup [simp]:
  "run_course_of (put_cleanup v r a c) = move r (attempt_stage (ro_state (pn_roles v r)) (a\<lparr>at_cleanup := Some c\<rparr>)) (run_course_of v)"
  by (simp add: put_cleanup_def)

lemma course_of_updates [simp]:
  "run_course_of (v\<lparr>pn_blocker := e\<rparr>) = run_course_of v"
  "run_course_of (v\<lparr>pn_condition := k\<rparr>) = (run_course_of v)\<lparr>wc_condition := k\<rparr>"
  "run_course_of (v\<lparr>pn_phase := f\<rparr>) = (run_course_of v)\<lparr>wc_phase := f\<rparr>"
  "run_course_of (v\<lparr>pn_candidate := c\<rparr>) = run_course_of v"
  "run_course_of (v\<lparr>pn_synthesisBlocker := b\<rparr>) = run_course_of v"
  "run_course_of (v\<lparr>pn_applyOutbox := ob\<rparr>) = (run_course_of v)\<lparr>wc_apply := ao_state ob\<rparr>"
  "run_course_of (v\<lparr>pn_continueReceipts := rs\<rparr>) = (run_course_of v)\<lparr>wc_receipts := \<lambda>k. length (receipts_of_kind k rs)\<rparr>"
  by (simp_all add: run_course_of_def)

lemma course_of_receipt [simp]:
  "run_course_of (v\<lparr>pn_continueReceipts := pn_continueReceipts v @ [r]\<rparr>) = count_receipt (cr_kind r) (run_course_of v)"
  by (auto simp: run_course_of_def count_receipt_def receipts_of_kind_def)

lemma phaseRoles_iff: "r \<in> set (phaseRoles v) \<longleftrightarrow> r \<in> roles_of_phase (pn_phase v)"
  by (simp add: phaseRoles_def split: planning_phase.splits)

lemma selected_stage:
  "selectedAttempt v r i s = Inr a \<Longrightarrow> stage_of (pn_roles v r) = attempt_stage (ro_state (pn_roles v r)) a"
  by (simp add: selectedAttempt_Inr stage_of_attempts)

text \<open>The stage of the attempt that an operation selects, in a run that is on its course.\<close>

lemma selected_ok:
  assumes "course_ok (run_course_of v)" "selectedAttempt v r i s = Inr a"
  shows "stage_ok (attempt_stage (ro_state (pn_roles v r)) a)"
  using course_ok_stage [OF assms(1), of r] selected_stage [OF assms(2)] by simp

lemma work_step:
  assumes "selectedAttempt v r i s = Inr a" "stage_step e (attempt_stage (ro_state (pn_roles v r)) a) x"
    and "effect_allowed e (run_course_of v)" "run_course_of n = settle e r (move r x (run_course_of v))"
  shows "course_moves (run_course_of v) (run_course_of (bump n at))"
  using course_moves.work [of e "run_course_of v" r x] assms by (simp add: selected_stage [OF assms(1)])

section \<open>Leases\<close>

lemma claim_spawn_step:
  assumes "claimDeliveryPlanningRoleSpawn H now v r i b at = Inr w"
  shows "course_moves (run_course_of v) (run_course_of w)"
proof -
  obtain e l n where e: "roleEligibilityUnchecked H now v r = Inr e" "el_eligible e"
    and l: "newSpawnLease H v r i (el_inputDigest e) b at = Inr l" and w: "w = bump n at"
    and n: "n = put_role (v\<lparr>pn_condition := K_active, pn_blocker := []\<rparr>) r ((pn_roles v r)\<lparr>ro_state := Q_spawn_claimed,
       ro_inputDigest := el_inputDigest e, ro_attempts := ro_attempts (pn_roles v r) @ [newAttempt r i (el_inputDigest e) l at]\<rparr>)"
    using assms
    by (auto simp: claimDeliveryPlanningRoleSpawn_def validate_run_Inr nextRun_Inr turned_def eligible_role_def Let_def)
  from l have "attempt_stage Q_spawn_claimed (newAttempt r i (el_inputDigest e) l at) = spawning SL_claimed"
    by (auto simp: newSpawnLease_def Let_def newAttempt_def attempt_stage_def lease_binding.defs)
  then have "run_course_of w = (move r (spawning SL_claimed) (run_course_of v))\<lparr>wc_condition := K_active\<rparr>"
    using n w by (simp add: stage_of_attempts move_def)
  then show ?thesis
    using course_moves.spawn [of "run_course_of v" r] eligible_Inr [OF e] by (simp add: phaseRoles_iff stage_of_attempts)
qed

text \<open>
  An operation selects the attempt of a role, or its spawn lease by state, or its cleanup, and
  changes it: it is a step of the worker, with an effect on the run.
\<close>

definition works :: "planning_run \<Rightarrow> role \<Rightarrow> role_attempt \<Rightarrow> planning_run \<Rightarrow> bool" where
  "works v r a n \<longleftrightarrow> (\<exists>e x. stage_step e (attempt_stage (ro_state (pn_roles v r)) a) x
     \<and> effect_allowed e (run_course_of v) \<and> run_course_of n = settle e r (move r x (run_course_of v)))"

lemma worksI:
  "stage_step e (attempt_stage (ro_state (pn_roles v r)) a) x \<Longrightarrow> effect_allowed e (run_course_of v) \<Longrightarrow>
   run_course_of n = settle e r (move r x (run_course_of v)) \<Longrightarrow> works v r a n"
  by (auto simp: works_def)

lemma attempt_work:
  assumes "nextRun H now v (\<lambda>next changedAt. attempt (selectedAttempt next r i s) (f next changedAt)) at = Inr w"
    and ok: "course_ok (run_course_of v)"
    and work: "\<And>a n. selectedAttempt v r i s = Inr a \<Longrightarrow> stage_ok (attempt_stage (ro_state (pn_roles v r)) a) \<Longrightarrow>
      turned H now v n at w \<Longrightarrow> f v at a = Inr n \<Longrightarrow> works v r a n"
  shows "course_moves (run_course_of v) (run_course_of w)"
proof -
  from assms(1) obtain a n where a: "selectedAttempt v r i s = Inr a" and n: "f v at a = Inr n" and w: "turned H now v n at w"
    by (auto simp: nextRun_Inr)
  from work [OF a selected_ok [OF ok a] w n] have "course_moves (run_course_of v) (run_course_of (bump n at))"
    unfolding works_def by (elim exE conjE) (rule work_step [OF a])
  with turnedD(5) [OF w] show ?thesis by simp
qed

lemma lease_work:
  assumes next_run: "nextRun H now v (\<lambda>next changedAt. attempt (selectedSpawnLease next r i states) (f next changedAt)) at = Inr w"
    and ok: "course_ok (run_course_of v)"
    and work: "\<And>a n. sl_state (at_spawnLease a) \<in> set states \<Longrightarrow> stage_ok (attempt_stage (ro_state (pn_roles v r)) a) \<Longrightarrow>
      f v at a = Inr n \<Longrightarrow> works v r a n"
  shows "course_moves (run_course_of v) (run_course_of w)"
proof -
  have "nextRun H now v (\<lambda>next changedAt. attempt (selectedAttempt next r i None) (\<lambda>a.
      guard (throw_if (sl_state (at_spawnLease a) \<notin> set states) (planning_error ''spawn_lease_state_conflict'')) (f next changedAt a))) at = Inr w"
    using next_run by (auto simp: nextRun_Inr selectedSpawnLease_Inr)
  then show ?thesis by (rule attempt_work [OF _ ok]) (auto intro: work)
qed

lemma cleanup_work:
  assumes next_run: "nextRun H now v (\<lambda>next changedAt. attempt (cleanupAttempt next r i) (f next changedAt)) at = Inr w"
    and ok: "course_ok (run_course_of v)"
    and work: "\<And>a c n. at_cleanup a = Some c \<Longrightarrow> stage_ok (attempt_stage (ro_state (pn_roles v r)) a) \<Longrightarrow>
      turned H now v n at w \<Longrightarrow> selectedAttempt v r i None = Inr a \<Longrightarrow> f v at (a, c) = Inr n \<Longrightarrow> works v r a n"
  shows "course_moves (run_course_of v) (run_course_of w)"
proof -
  have "nextRun H now v (\<lambda>next changedAt. attempt (selectedAttempt next r i None) (\<lambda>a.
      case at_cleanup a of None \<Rightarrow> Inl (Error []) | Some c \<Rightarrow> f next changedAt (a, c))) at = Inr w"
    using next_run by (auto simp: nextRun_Inr cleanupAttempt_def case_error_Inr)
  then show ?thesis by (rule attempt_work [OF _ ok]) (auto simp: case_error_Inr intro: work)
qed

lemmas stage_simps = attempt_stage_def stage_ok_simps Let_def case_error_Inr still_spawning_def

lemma bind_lease_step:
  assumes "bindDeliveryPlanningRoleSpawnLease H now v r i ref p at = Inr w" "course_ok (run_course_of v)"
  shows "course_moves (run_course_of v) (run_course_of w)"
  using assms(1) unfolding bindDeliveryPlanningRoleSpawnLease_def guard_Inr
  by (elim conjE lease_work [OF _ assms(2)])
    (rule worksI [where e = Quiet and x = "spawning SL_bound"]; auto simp: stage_simps intro: stage_step.bind_lease)

lemma lose_lease_step:
  assumes "markDeliveryPlanningRoleSpawnLeaseReconcileRequired H now v r i ref ob e at = Inr w" "course_ok (run_course_of v)"
  shows "course_moves (run_course_of v) (run_course_of w)"
  using assms(1) unfolding markDeliveryPlanningRoleSpawnLeaseReconcileRequired_def guard_Inr
  by (elim conjE lease_work [OF _ assms(2)])
    (rule worksI [where e = "Sets K_reconcile_required" and x = "stopping None"];
     auto simp: stage_simps intro: stage_step.lose_lease)

lemma closed_stage:
  "run_course_of (closeProvisionalSpawnLease v r a l e at)
    = settle (Sets K_failed) r (move r (gone (map_option lc_state (sl_cleanup l))) (run_course_of v))"
  by (simp add: closeProvisionalSpawnLease_def Let_def attempt_stage_def)

lemma close_lease_step:
  assumes "closeDeliveryPlanningRoleSpawnLeaseAbsent H now v r i ref ob e at = Inr w" "course_ok (run_course_of v)"
  shows "course_moves (run_course_of v) (run_course_of w)"
  using assms(1) unfolding closeDeliveryPlanningRoleSpawnLeaseAbsent_def guard_Inr
  by (elim conjE lease_work [OF _ assms(2)])
    (rule worksI [where e = "Sets K_failed" and x = "gone None"];
     auto simp: stage_simps closed_stage intro: stage_step.close_spawning stage_step.close_lost)

lemma claim_stop_step:
  assumes "claimDeliveryPlanningRoleSpawnLeaseCleanup H now v r i l c act ok at = Inr w" "course_ok (run_course_of v)"
  shows "course_moves (run_course_of v) (run_course_of w)"
  using assms(1) unfolding claimDeliveryPlanningRoleSpawnLeaseCleanup_def guard_Inr
  by (elim conjE lease_work [OF _ assms(2)])
    (rule worksI [where e = Quiet and x = "stopping (Some LC_claimed)"]; auto simp: stage_simps intro: stage_step.claim_stop)

lemma send_stop_step:
  assumes "markDeliveryPlanningRoleSpawnLeaseCleanupSent H now v r i l c at = Inr w" "course_ok (run_course_of v)"
  shows "course_moves (run_course_of v) (run_course_of w)"
  using assms(1) unfolding markDeliveryPlanningRoleSpawnLeaseCleanupSent_def guard_Inr
  by (elim conjE lease_work [OF _ assms(2)])
    (rule worksI [where e = Quiet and x = "stopping (Some LC_sent)"]; auto simp: stage_simps intro: stage_step.send_stop)

lemma complete_stop_step:
  assumes "markDeliveryPlanningRoleSpawnLeaseCleanupComplete H now v r i ref c ob e at = Inr w" "course_ok (run_course_of v)"
  shows "course_moves (run_course_of v) (run_course_of w)"
  using assms(1) unfolding markDeliveryPlanningRoleSpawnLeaseCleanupComplete_def guard_Inr
  by (elim conjE lease_work [OF _ assms(2)])
    (rule worksI [where e = "Sets K_failed" and x = "gone (Some LC_complete)"];
     auto simp: stage_simps closed_stage intro: stage_step.complete_stop)

section \<open>Dispatch and reports\<close>

lemma claim_dispatch_step:
  assumes "claimDeliveryPlanningRoleDispatch H now v r i l d at = Inr w" "course_ok (run_course_of v)"
  shows "course_moves (run_course_of v) (run_course_of w)"
  using assms(1) unfolding claimDeliveryPlanningRoleDispatch_def guard_Inr
  by (elim conjE attempt_work [OF _ assms(2)])
    (rule worksI [where e = Quiet and x = "working Q_dispatch_claimed AT_dispatch_claimed"];
     auto simp: stage_simps dispatched_attempt_def intro: stage_step.adopt)

lemma mark_dispatched_step:
  assumes "markDeliveryPlanningRoleDispatched H now v r i at = Inr w" "course_ok (run_course_of v)"
  shows "course_moves (run_course_of v) (run_course_of w)"
  using assms(1) unfolding markDeliveryPlanningRoleDispatched_def guard_Inr
  by (elim conjE attempt_work [OF _ assms(2)])
    (rule worksI [where e = Quiet and x = "working Q_dispatched AT_dispatched"];
     auto simp: stage_simps selectedAttempt_Inr intro: stage_step.dispatch)

text \<open>A dispatched worker has a session, so its end leaves a cleanup behind.\<close>

lemma dispatched_session:
  assumes "valid_planning_run H now v" "selectedAttempt v r i s = Inr a" "at_state a \<in> {AT_dispatch_claimed, AT_dispatched}"
  shows "at_session a \<noteq> []"
proof -
  have "ro_attempts (pn_roles v r) = [a]"
    using valid_attempts [OF assms(1), of r] assms(2) by (auto simp: selectedAttempt_Inr)
  from valid_lifecycle [OF assms(1) this] assms(3) show ?thesis
    by (auto simp: assertAttemptLifecycle_def Let_def worker_bound_def)
qed

lemma reported_course:
  assumes "at_session a \<noteq> []" "sl_cleanup (at_spawnLease a) = None" "sl_state (at_spawnLease a) = SL_adopted"
  shows "run_course_of (reported_run v r a report d at)
    = settle (case pr_status report of S_complete \<Rightarrow> Completes | S_needs_input \<Rightarrow> Sets K_needs_input | _ \<Rightarrow> Sets K_failed) r
        (move r (cleaning (status_role_state (pr_status report)) AT_finished CS_pending 0) (run_course_of v))"
  using assms
  by (cases "pr_status report")
    (simp_all add: reported_run_def Let_def finishAttempt_def attempt_stage_def pendingCleanup_def blame_def)

lemma reported_condition:
  "pn_condition v \<noteq> K_off_course \<Longrightarrow> pr_status report = S_complete \<Longrightarrow>
     pn_condition (reported_run v r a report d at) = pn_condition v \<and> pn_blocker (reported_run v r a report d at) = []"
  by (simp add: reported_run_def Let_def)

lemma record_report_step:
  assumes "recordDeliveryPlanningRoleReport H now v r i x d at = Inr w" "course_ok (run_course_of v)"
  shows "course_moves (run_course_of v) (run_course_of w)"
proof -
  from record_report_Inr [OF assms(1)] obtain a report n where
    a: "selectedAttempt v r i None = Inr a" and q: "ro_state (pn_roles v r) = Q_dispatched" "at_state a = AT_dispatched"
    and w: "turned H now v n at w"
    and n: "n = reported_run v r a report d at \<or> pr_status report = S_complete \<and> r \<in> {R_qa, R_dev}
       \<and> (\<exists>b. n = set_condition ((reported_run v r a report d at)\<lparr>pn_synthesisBlocker := Some
              \<lparr>sb_code = b, sb_reason = synthesisBlockerReason b, sb_recordedAt = at\<rparr>\<rparr>)
              K_needs_input (synthesisBlockerReason b))"
    by (auto simp: selectedAttempt_Inr)
  have stage: "attempt_stage (ro_state (pn_roles v r)) a = working Q_dispatched AT_dispatched"
    using selected_ok [OF assms(2) a] q by (auto simp: attempt_stage_def stage_ok_simps)
  then have lease: "sl_state (at_spawnLease a) = SL_adopted" "sl_cleanup (at_spawnLease a) = None"
    by (simp_all add: attempt_stage_def)
  have session: "at_session a \<noteq> []" by (rule dispatched_session [OF turnedD(1) [OF w] a]) (simp add: q)
  note course = reported_course [OF session lease(2,1), of v r report d at]
  show ?thesis
  proof (cases "n = reported_run v r a report d at")
    case True
    have active: "pn_condition v \<in> {K_active, K_off_course}" if "pr_status report = S_complete"
      using reported_condition [OF _ that, of v r a d at] turnedD(2,5) [OF w] True valid_condition [of H now w]
      by (auto simp: assertConditionLifecycle_def Let_def)
    let ?e = "case pr_status report of S_complete \<Rightarrow> Completes | S_needs_input \<Rightarrow> Sets K_needs_input | _ \<Rightarrow> Sets K_failed"
    have "stage_step ?e (working Q_dispatched AT_dispatched) (cleaning (status_role_state (pr_status report)) AT_finished CS_pending 0)"
      by (cases "pr_status report")
        (simp_all add: stage_step.report_complete stage_step.report_needs_input stage_step.report_failure)
    moreover have "effect_allowed ?e (run_course_of v)" by (cases "pr_status report") (use active in simp_all)
    ultimately have "works v r a n" using course True by (intro worksI) (simp_all only: stage)
    then show ?thesis unfolding works_def turnedD(5) [OF w] by (elim exE conjE) (rule work_step [OF a])
  next
    case False
    with n course have r: "r \<in> {R_qa, R_dev}"
      and n': "run_course_of n = blame K_needs_input (move r (cleaning Q_completed AT_finished CS_pending 0) (run_course_of v))"
      by auto
    show ?thesis
      unfolding turnedD(5) [OF w] course_of_bump n'
      by (rule course_moves.report_unsynthesizable [OF r]) (simp add: selected_stage [OF a] stage)
  qed
qed

lemma resource_wait_step:
  assumes "markDeliveryPlanningResourceWait H now v r e at = Inr w"
  shows "course_moves (run_course_of v) (run_course_of w)"
proof -
  from assms obtain el where el: "roleEligibilityUnchecked H now v r = Inr el" "el_eligible el" and k: "pn_condition v = K_active"
    and w: "w = bump (v\<lparr>pn_condition := K_resource_wait, pn_blocker := e\<rparr>) at"
    by (auto simp: markDeliveryPlanningResourceWait_def validate_run_Inr nextRun_Inr turned_def)
  show ?thesis
    using course_moves.wait [of "run_course_of v" r] eligible_Inr [OF el] k w
    by (simp add: phaseRoles_iff stage_of_attempts)
qed

text \<open>Before its dispatch a worker ends only through its lease.\<close>

lemma unreported_spawning:
  assumes "assertAttemptLifecycle (unreported_attempt u a e at) = None" "at_state a = AT_spawn_claimed"
    "assertAttemptLifecycle a = None"
  shows False
  using assms
  by (cases u)
    (auto simp: assertAttemptLifecycle_def Let_def unreported_attempt_def finishAttempt_def worker_bound_def)

lemma end_unreported_step:
  assumes "markRoleFinishedWithoutReport H now v r i e u at = Inr w" and ok: "course_ok (run_course_of v)"
  shows "course_moves (run_course_of v) (run_course_of w)"
proof -
  let ?n = "\<lambda>a. set_condition (put_role v r ((with_attempt (pn_roles v r) (unreported_attempt u a e at))
            \<lparr>ro_state := unreported_role u\<rparr>)) (unreported_condition u) e"
  from assms(1) obtain a where a: "selectedAttempt v r i None = Inr a"
    and s: "at_state a \<notin> {AT_finished, AT_crashed, AT_reconcile_required}" and w: "turned H now v (?n a) at w"
    by (auto simp: markRoleFinishedWithoutReport_def validate_run_Inr nextRun_Inr)
  have one: "ro_attempts (pn_roles v r) = [a]"
    using valid_attempts [OF turnedD(1) [OF w], of r] a by (auto simp: selectedAttempt_Inr)
  then have "ro_attempts (pn_roles w r) = [unreported_attempt u a e at]" using turnedD(5) [OF w] by simp
  note life = valid_lifecycle [OF turnedD(2) [OF w] this] valid_lifecycle [OF turnedD(1) [OF w] one]
  have s': "at_state a \<in> {AT_dispatch_claimed, AT_dispatched}"
    using s unreported_spawning [OF life(1) _ life(2)] by (cases "at_state a") auto
  note session = dispatched_session [OF turnedD(1) [OF w] a s']
  have "works v r a (?n a)"
    using selected_ok [OF ok a] s' session
    by (cases u; intro worksI [where e = "Sets (unreported_condition u)" and x = "attempt_stage (unreported_role u) (unreported_attempt u a e at)"])
      (auto simp: attempt_stage_def stage_ok_simps unreported_attempt_def finishAttempt_def pendingCleanup_def
        intro: stage_step.end_needs_input stage_step.end_crashed stage_step.end_unknown)
  then show ?thesis unfolding works_def turnedD(5) [OF w] by (elim exE conjE) (rule work_step [OF a])
qed

section \<open>Cleanups\<close>

lemma cleaning_stage:
  assumes "stage_ok (attempt_stage q a)" "at_cleanup a = Some c"
  shows "attempt_stage q a = cleaning q (at_state a) (cl_state c) (nat (cl_recoveryCount c))"
    and "sl_state (at_spawnLease a) = SL_adopted" "sl_cleanup (at_spawnLease a) = None"
  using assms by (auto simp: attempt_stage_def stage_ok_simps)

lemma cleaned_stage:
  assumes "stage_ok (attempt_stage q a)" "at_cleanup a = Some c"
  shows "attempt_stage q (a\<lparr>at_cleanup := Some d\<rparr>) = cleaning q (at_state a) (cl_state d) (nat (cl_recoveryCount d))"
  using cleaning_stage(2,3) [OF assms] by (simp add: attempt_stage_def)

lemma claim_cleanup_step:
  assumes "claimDeliveryPlanningRoleCleanup H now v r i c at = Inr w" "course_ok (run_course_of v)"
  shows "course_moves (run_course_of v) (run_course_of w)"
  using assms(1) unfolding claimDeliveryPlanningRoleCleanup_def guard_Inr
proof (elim conjE cleanup_work [OF _ assms(2)])
  fix a d n
  assume d: "at_cleanup a = Some d" and ok: "stage_ok (attempt_stage (ro_state (pn_roles v r)) a)"
    and n: "(case (a, d) of (a, d) \<Rightarrow> guard (cleanup_in d CS_pending)
      (Inr (put_cleanup v r a (d\<lparr>cl_state := CS_claimed, cl_claimId := c, cl_claimedAt := Some at\<rparr>)))) = Inr n"
  show "works v r a n"
    by (rule worksI [where e = Quiet and x = "cleaning (ro_state (pn_roles v r)) (at_state a) CS_claimed (nat (cl_recoveryCount d))"])
      (use n in \<open>auto simp: cleaning_stage(1) [OF ok d] cleaned_stage [OF ok d] cleanup_in_def stage_step.claim_cleanup\<close>)
qed

lemma send_cleanup_step:
  assumes "markDeliveryPlanningRoleCleanupSent H now v r i at = Inr w" "course_ok (run_course_of v)"
  shows "course_moves (run_course_of v) (run_course_of w)"
  using assms(1) unfolding markDeliveryPlanningRoleCleanupSent_def guard_Inr
proof (elim conjE cleanup_work [OF _ assms(2)])
  fix a d n
  assume d: "at_cleanup a = Some d" and ok: "stage_ok (attempt_stage (ro_state (pn_roles v r)) a)"
    and n: "(case (a, d) of (a, d) \<Rightarrow> guard (cleanup_in d CS_claimed)
      (Inr (put_cleanup v r a (d\<lparr>cl_state := CS_sent, cl_sentAt := Some at\<rparr>)))) = Inr n"
  show "works v r a n"
    by (rule worksI [where e = Quiet and x = "cleaning (ro_state (pn_roles v r)) (at_state a) CS_sent (nat (cl_recoveryCount d))"])
      (use n in \<open>auto simp: cleaning_stage(1) [OF ok d] cleaned_stage [OF ok d] cleanup_in_def stage_step.send_cleanup\<close>)
qed

lemma lifecycle_cleanup:
  assumes "assertAttemptLifecycle a = None" "at_cleanup a = Some c"
  shows "sl_state (at_spawnLease a) = SL_adopted" "sl_cleanup (at_spawnLease a) = None"
  using assms by (simp_all add: assertAttemptLifecycle_def Let_def)

lemma lifecycle_completed:
  assumes "throws (role_lifecycle_checks rec) = None" "ro_state rec = Q_completed" "ro_attempts rec = [a]"
  shows "report_status_of rec = Some S_complete" "at_state a = AT_finished"
  using assms by (simp_all add: role_lifecycle_checks_def Let_def latest_is_def latest_attempt_def)

text \<open>In a validated run, a role is completed and cleaned when its stage says so.\<close>

lemma completed_stage:
  assumes "valid_planning_run H now w" "pn_roles m = pn_roles w"
  shows "completedAndCleaned m x \<longleftrightarrow> finished_clean (stage_of (pn_roles w x))"
proof (cases "ro_attempts (pn_roles w x) = []")
  case True
  with assms(2) show ?thesis
    by (simp add: completedAndCleaned_def Let_def latest_is_def latest_attempt_def stage_of_attempts finished_clean_def)
next
  case False
  then obtain a where a: "ro_attempts (pn_roles w x) = [a]" using valid_attempts [OF assms(1), of x] by auto
  note cleanup = lifecycle_cleanup [OF valid_lifecycle [OF assms(1) a]]
  note role = lifecycle_completed [OF valid_role_lifecycle [OF assms(1)] _ a]
  show ?thesis
    using role cleanup
    by (cases "at_cleanup a")
      (auto simp: completedAndCleaned_def Let_def assms(2) latest_is_def latest_attempt_def stage_of_attempts a
        attempt_stage_def finished_clean_def)
qed

lemma advance_course:
  assumes "valid_planning_run H now w" "pn_roles m = pn_roles w"
  shows "run_course_of (advanceAfterCleanup m r) = settle Cleaned r (run_course_of m)"
proof -
  note c = completed_stage [OF assms]
  have same: "completedAndCleaned (m\<lparr>pn_phase := f\<rparr>) x = completedAndCleaned m x" for f x
    by (simp add: completedAndCleaned_def)
  show ?thesis
    unfolding advanceAfterCleanup_def Let_def
    by (cases r) (auto simp: advanced_phase_def c same assms(2) run_course_of_def)
qed

lemma advance_roles [simp]: "pn_roles (advanceAfterCleanup m r) = pn_roles m"
  by (simp add: advanceAfterCleanup_def Let_def)

lemma complete_cleanup_step:
  assumes "markDeliveryPlanningRoleCleanupComplete H now v r i at = Inr w" "course_ok (run_course_of v)"
  shows "course_moves (run_course_of v) (run_course_of w)"
  using assms(1) unfolding markDeliveryPlanningRoleCleanupComplete_def guard_Inr
proof (elim conjE cleanup_work [OF _ assms(2)])
  fix a c n
  assume c: "at_cleanup a = Some c" and ok: "stage_ok (attempt_stage (ro_state (pn_roles v r)) a)"
    and w: "turned H now v n at w"
    and n: "(case (a, c) of (a, c) \<Rightarrow> guard (cleanup_in c CS_sent) (Inr (advanceAfterCleanup (put_cleanup v r a
          (c\<lparr>cl_state := CS_complete, cl_completedAt := Some at\<rparr>)) r))) = Inr n"
  let ?m = "put_cleanup v r a (c\<lparr>cl_state := CS_complete, cl_completedAt := Some at\<rparr>)"
  from n have n: "n = advanceAfterCleanup ?m r" and sent: "cl_state c = CS_sent" by (auto simp: cleanup_in_def)
  have "pn_roles ?m = pn_roles w" using turnedD(5) [OF w] n by simp
  from advance_course [OF turnedD(2) [OF w] this, of r] show "works v r a n"
    by (intro worksI [where e = Cleaned and x = "cleaning (ro_state (pn_roles v r)) (at_state a) CS_complete (nat (cl_recoveryCount c))"])
      (simp_all add: n sent cleaning_stage(1) [OF ok c] cleaned_stage [OF ok c] stage_step.complete_cleanup)
qed

lemma lose_cleanup_step:
  assumes "markDeliveryPlanningRoleCleanupRequired H now v r i e at = Inr w" "course_ok (run_course_of v)"
  shows "course_moves (run_course_of v) (run_course_of w)"
  using assms(1) unfolding markDeliveryPlanningRoleCleanupRequired_def guard_Inr
proof (elim conjE cleanup_work [OF _ assms(2)])
  fix a c n
  assume c: "at_cleanup a = Some c" and ok: "stage_ok (attempt_stage (ro_state (pn_roles v r)) a)"
    and n: "(case (a, c) of (a, c) \<Rightarrow> guard (throw_if (cl_state c = CS_complete \<or> cl_state c = CS_reconcile_required
           \<or> MAX_CLEANUP_RECOVERIES \<le> cl_recoveryCount c) (planning_error ''cleanup_state_conflict''))
       (let a' = a\<lparr>at_cleanup := Some (c\<lparr>cl_state := CS_reconcile_required, cl_error := e\<rparr>),
              at_state := AT_reconcile_required, at_outcome := OC_none,
              at_summary := ''Exact cleanup state requires operator reconciliation.'', at_error := e\<rparr>;
            rec = (with_attempt (pn_roles v r) a')\<lparr>ro_state := Q_reconcile_required\<rparr>
        in Inr (set_condition (put_role v r rec) K_reconcile_required e))) = Inr n"
  have "cl_state c \<in> {CS_pending, CS_claimed, CS_sent}" using n by (cases "cl_state c") auto
  moreover have "nat (cl_recoveryCount c) < 3" using n by (auto simp: MAX_CLEANUP_RECOVERIES_def)
  ultimately have "stage_step (Sets K_reconcile_required) (attempt_stage (ro_state (pn_roles v r)) a)
      (cleaning Q_reconcile_required AT_reconcile_required CS_reconcile_required (nat (cl_recoveryCount c)))"
    unfolding cleaning_stage(1) [OF ok c] by (rule stage_step.lose_cleanup)
  then show "works v r a n"
    by (rule worksI) (use n cleaning_stage(2,3) [OF ok c] in \<open>auto simp: attempt_stage_def Let_def\<close>)
qed

lemma valid_recovery_count:
  assumes "valid_planning_run H now v" "selectedAttempt v r i s = Inr a" "at_cleanup a = Some c"
  shows "0 \<le> cl_recoveryCount c"
proof -
  have "ro_attempts (pn_roles v r) = [a]"
    using valid_attempts [OF assms(1), of r] assms(2) by (auto simp: selectedAttempt_Inr)
  from valid_binding [OF assms(1) this] assms(3) show ?thesis
    by (simp add: assertAttemptBinding_def Let_def validateCleanup_def)
qed

lemma recovered_stage:
  assumes "stage_ok (attempt_stage q a)" "at_cleanup a = Some c" "cl_state c = CS_reconcile_required" "0 \<le> cl_recoveryCount c"
    "cl_recoveryCount c < 3" "out = RO_exact_worker \<longrightarrow> cl_recoveryCount c < 2" "out \<noteq> RO_none"
  shows "stage_step Recovered (attempt_stage q a) (attempt_stage q (a\<lparr>at_cleanup := Some (recovered_cleanup c out claim at)\<rparr>))"
proof -
  from assms(1-3) have q: "q = Q_reconcile_required" "at_state a = AT_reconcile_required"
    by (auto simp: attempt_stage_def stage_ok_simps)
  note stage = cleaning_stage [OF assms(1,2), unfolded q assms(3)]
  have after: "attempt_stage q (a\<lparr>at_cleanup := Some (recovered_cleanup c out claim at)\<rparr>)
      = cleaning q (at_state a) (if out = RO_worker_absent then CS_complete else CS_claimed) (Suc (nat (cl_recoveryCount c)))"
    using stage(2,3) assms(4) by (simp add: attempt_stage_def recovered_cleanup_def Suc_nat_eq_nat_zadd1 add.commute)
  show ?thesis
    using assms(4-7) unfolding after unfolding q stage(1)
    by (cases out) (simp_all add: stage_step.recover_absent stage_step.recover_exact)
qed

lemma recover_cleanup_step:
  assumes "recoverDeliveryPlanningRoleCleanup H now v r i out c at = Inr w" "course_ok (run_course_of v)"
  shows "course_moves (run_course_of v) (run_course_of w)"
proof -
  let ?f = "\<lambda>next changedAt (a, c'). guard (throws
         [throw_if (ro_state (pn_roles next r) \<noteq> Q_reconcile_required \<or> at_state a \<noteq> AT_reconcile_required
             \<or> cl_state c' \<noteq> CS_reconcile_required \<or> MAX_CLEANUP_RECOVERIES \<le> cl_recoveryCount c')
            (planning_error ''cleanup_recovery_not_expected''),
          throw_if (out = RO_exact_worker \<and> 2 \<le> cl_recoveryCount c')
            (planning_error ''cleanup_recovery_outcome_conflict''),
          throw_if (out = RO_exact_worker
              \<and> c \<in> set (filter (\<lambda>i. i \<noteq> []) (cl_claimId c' # map rv_claimId (cl_recoveryHistory c'))))
            (planning_error ''cleanup_recovery_claim_conflict'')])
       (Inr (put_cleanup next r a (recovered_cleanup c' out c changedAt)))"
  have k: "pn_condition v \<in> {K_reconcile_required, K_off_course}" and out: "out \<noteq> RO_none"
    and step: "nextRun H now v (\<lambda>next changedAt. attempt (cleanupAttempt next r i) (?f next changedAt)) at = Inr w"
    using assms(1) unfolding recoverDeliveryPlanningRoleCleanup_def guard_Inr attempt_Inr validate_run_Inr
    by auto
  show ?thesis
  proof (rule cleanup_work [OF step assms(2)])
    fix a d n
    assume d: "at_cleanup a = Some d" and ok: "stage_ok (attempt_stage (ro_state (pn_roles v r)) a)"
      and w: "turned H now v n at w" and a: "selectedAttempt v r i None = Inr a" and n: "?f v at (a, d) = Inr n"
    have "stage_step Recovered (attempt_stage (ro_state (pn_roles v r)) a)
        (attempt_stage (ro_state (pn_roles v r)) (a\<lparr>at_cleanup := Some (recovered_cleanup d out c at)\<rparr>))"
      by (rule recovered_stage [OF ok d _ valid_recovery_count [OF turnedD(1) [OF w] a d]])
        (use n out in \<open>auto simp: MAX_CLEANUP_RECOVERIES_def\<close>)
    then show "works v r a n" by (rule worksI) (use n k in auto)
  qed
qed

section \<open>Continuing\<close>

lemma move_same: "move r (wc_stage s r) s = s"
  by (cases s) (simp add: move_def)

lemma continue_retry_step:
  assumes "authorizeDeliveryPlanningContinue H now v ci at = Inr w" "ci_kind ci = CK_resource_retry"
  shows "course_moves (run_course_of v) (run_course_of w)"
proof -
  from assms obtain e where e: "deliveryPlanningResourceRetryEligibility H now v (Some (ci_role ci)) = Inr e" "el_eligible e"
    and rs: "int (length (receipts_of_kind CK_resource_retry (pn_continueReceipts v))) < 6"
    and w: "\<exists>n. turned H now v n at w
       \<and> n = v\<lparr>pn_condition := K_active, pn_blocker := [],
          pn_continueReceipts := pn_continueReceipts v @ [continue_receipt_of ci at]\<rparr>"
    unfolding authorizeDeliveryPlanningContinue_def guard_Inr attempt_Inr validate_run_Inr
    by (auto simp: continue_allowed_def nextRun_Inr continued_run_def MAX_RESOURCE_CONTINUE_RECEIPTS_def js_length_def)
  obtain el where el: "roleEligibilityUnchecked H now v (ci_role ci) = Inr el" "el_eligible el" using retry_Inr [OF e] by blast
  have "cr_kind (continue_receipt_of ci at) = CK_resource_retry" using assms(2) by (simp add: continue_receipt_of_def)
  then have "run_course_of w = count_receipt CK_resource_retry ((run_course_of v)\<lparr>wc_condition := K_active\<rparr>)"
    using w course_of_receipt [of "v\<lparr>pn_condition := K_active, pn_blocker := []\<rparr>" "continue_receipt_of ci at"]
    by (auto simp: turned_def)
  then show ?thesis
    using course_moves.retry [of "run_course_of v" "ci_role ci"] eligible_Inr [OF el] rs
    by (simp add: phaseRoles_iff stage_of_attempts)
qed

lemma continue_cleanup_step:
  assumes "authorizeDeliveryPlanningContinue H now v ci at = Inr w" "ci_kind ci = CK_cleanup_only"
    and ok: "course_ok (run_course_of v)"
  shows "course_moves (run_course_of v) (run_course_of w)"
proof -
  let ?r = "ci_role ci" and ?s = "run_course_of v"
  from assms(1,2) obtain a c n where ac: "cleanupAttempt v ?r (ci_attemptId ci) = Inr (a, c)" and go_on: "cleanup_continues v ci a c"
    and rs: "int (length (receipts_of_kind CK_cleanup_only (pn_continueReceipts v))) < 6" and n: "continued_run v ci at = Inr n"
    and w: "turned H now v (n\<lparr>pn_continueReceipts := pn_continueReceipts n @ [continue_receipt_of ci at]\<rparr>) at w"
    unfolding authorizeDeliveryPlanningContinue_def guard_Inr attempt_Inr validate_run_Inr
    by (auto simp: continue_allowed_def nextRun_Inr MAX_CLEANUP_CONTINUE_RECEIPTS_def js_length_def split: prod.splits)
  from ac have a: "selectedAttempt v ?r (ci_attemptId ci) None = Inr a" and c: "at_cleanup a = Some c"
    by (simp_all add: cleanupAttempt_Inr)
  note okay = selected_ok [OF ok a]
  let ?q = "ro_state (pn_roles v ?r)"
  have stage: "wc_stage ?s ?r = cleaning ?q (at_state a) (cl_state c) (nat (cl_recoveryCount c))"
    using selected_stage [OF a] cleaning_stage(1) [OF okay c] by simp
  obtain x where x: "x = wc_stage ?s ?r \<or> stage_step Quiet (wc_stage ?s ?r) x \<or> stage_step Recovered (wc_stage ?s ?r) x"
    and nx: "run_course_of n = move ?r x ?s" and len: "pn_continueReceipts n = pn_continueReceipts v"
    and open_cleanup: "cl_state c \<in> {CS_pending, CS_claimed, CS_reconcile_required}"
  proof -
    consider "cl_state c = CS_pending" | "cl_state c = CS_claimed"
      | "cl_state c = CS_reconcile_required" "cl_recoveryCount c < 2"
      using go_on by (auto simp: cleanup_continues_def)
    then show thesis
    proof cases
      case 1
      show thesis
        by (rule that [of "cleaning ?q (at_state a) CS_claimed (nat (cl_recoveryCount c))"])
          (use n assms(2) 1 ac in \<open>auto simp: continued_run_def stage [simplified] cleaned_stage [OF okay c] put_cleanup_def
            put_attempt_def stage_step.claim_cleanup\<close>)
    next
      case 2
      have "move ?r (wc_stage ?s ?r) ?s = ?s" by (rule move_same)
      with n assms(2) 2 ac show thesis
        by (intro that [of "wc_stage ?s ?r"]) (auto simp: continued_run_def)
    next
      case 3
      note count = valid_recovery_count [OF turnedD(1) [OF w] a c]
      have "cl_recoveryCount c < 3" using 3(2) by simp
      from recovered_stage [OF okay c 3(1) count this, of RO_exact_worker] 3(2)
      have "stage_step Recovered (wc_stage ?s ?r)
          (attempt_stage ?q (a\<lparr>at_cleanup := Some (recovered_cleanup c RO_exact_worker (ci_claimId ci) at)\<rparr>))"
        using selected_stage [OF a] by simp
      then show thesis
        by (rule that [OF disjI2 [OF disjI2]])
          (use n assms(2) 3 ac in \<open>auto simp: continued_run_def put_cleanup_def put_attempt_def\<close>)
    qed
  qed
  have "cr_kind (continue_receipt_of ci at) = CK_cleanup_only" using assms(2) by (simp add: continue_receipt_of_def)
  then have "run_course_of w = count_receipt CK_cleanup_only (move ?r x ?s)"
    using turnedD(5) [OF w] course_of_receipt [of n "continue_receipt_of ci at"] nx by simp
  moreover have "\<not> settled (wc_stage ?s ?r)" using open_cleanup by (auto simp: stage [simplified])
  ultimately show ?thesis
    using course_moves.continue_cleanup [OF x stage] rs by simp
qed

section \<open>The candidate and the end of a run\<close>

lemma compile_step:
  assumes "compileDeliveryPlanningCandidate H now v at = Inr w"
  shows "course_moves (run_course_of v) (run_course_of w)"
proof -
  from compile_candidate_Inr [OF assms] obtain n where v: "pn_phase v = PH_synthesis" "pn_condition v = K_active"
    and w: "turned H now v n at w"
    and n: "(\<exists>b. n = blocked_synthesis v b at) \<or> (\<exists>c. n = v\<lparr>pn_phase := PH_review, pn_candidate := Some c,
          pn_synthesisBlocker := None, pn_applyOutbox := emptyApplyOutbox at, pn_blocker := []\<rparr>)"
    by blast
  have "run_course_of w = (run_course_of v)\<lparr>wc_condition := K_needs_input, wc_apply := AS_held\<rparr>
      \<or> run_course_of w = (run_course_of v)\<lparr>wc_phase := PH_review, wc_apply := AS_held\<rparr>"
    using n turnedD(5) [OF w] by (auto simp: blocked_synthesis_def Let_def run_course_of_def emptyApplyOutbox_def)
  then show ?thesis
    using course_moves.refuse [of "run_course_of v"] course_moves.compile [of "run_course_of v"] v by auto
qed

lemma claim_apply_step:
  assumes "claimDeliveryPlanningApply H now v c d at = Inr w"
  shows "course_moves (run_course_of v) (run_course_of w)"
proof -
  from assms have v: "candidate_applyable v d" and "run_course_of w = (run_course_of v)\<lparr>wc_apply := AS_claimed\<rparr>"
    by (auto simp: claimDeliveryPlanningApply_def validate_run_Inr nextRun_Inr turned_def)
  then show ?thesis
    using course_moves.claim_apply [of "run_course_of v"] v by (auto simp: candidate_applyable_def)
qed

lemma mark_applied_step:
  assumes "markDeliveryPlanningApplied H now v c d r pd at = Inr w"
  shows "course_moves (run_course_of v) (run_course_of w)"
proof -
  from assms have v: "(pn_condition v, ao_state (pn_applyOutbox v)) \<in> {(K_active, AS_claimed), (K_reconcile_required, AS_reconcile_required)}"
    and "run_course_of w = (run_course_of v)\<lparr>wc_phase := PH_applied, wc_condition := K_active, wc_apply := AS_applied\<rparr>"
    by (auto simp: markDeliveryPlanningApplied_def validate_run_Inr nextRun_Inr turned_def run_course_of_def)
  then show ?thesis using course_moves.applied [of "run_course_of v"] v by simp
qed

lemma lose_apply_step:
  assumes "markDeliveryPlanningApplyReconcileRequired H now v c e at = Inr w"
  shows "course_moves (run_course_of v) (run_course_of w)"
proof -
  from assms have v: "pn_condition v = K_active" "ao_state (pn_applyOutbox v) = AS_claimed"
    and "run_course_of w = (run_course_of v)\<lparr>wc_condition := K_reconcile_required, wc_apply := AS_reconcile_required\<rparr>"
    by (auto simp: markDeliveryPlanningApplyReconcileRequired_def validate_run_Inr nextRun_Inr turned_def Let_def run_course_of_def)
  then show ?thesis using course_moves.lose_apply [of "run_course_of v"] v by simp
qed

lemma abandon_apply_step:
  assumes "abandonDeliveryPlanningApply H now v c d ob e at = Inr w"
  shows "course_moves (run_course_of v) (run_course_of w)"
proof -
  from assms have v: "pn_phase v = PH_review" "pn_condition v = K_off_course"
      "ao_state (pn_applyOutbox v) \<in> {AS_claimed, AS_reconcile_required}"
    and "run_course_of w = (run_course_of v)\<lparr>wc_apply := AS_abandoned\<rparr>"
    by (auto simp: abandonDeliveryPlanningApply_def validate_run_Inr nextRun_Inr turned_def)
  then show ?thesis using course_moves.abandon [of "run_course_of v"] v by simp
qed

lemma run_off_course_step:
  assumes "markDeliveryPlanningRunOffCourse H now v e at = Inr w"
  shows "course_moves (run_course_of v) (run_course_of w)"
proof -
  from assms have v: "pn_phase v \<notin> {PH_applied, PH_closed}" "pn_condition v \<noteq> K_off_course"
    and w: "w = bump (v\<lparr>pn_condition := K_off_course, pn_blocker := e\<rparr>) at"
    by (auto simp: markDeliveryPlanningRunOffCourse_def validate_run_Inr nextRun_Inr turned_def)
  then show ?thesis using course_moves.off_course [of "run_course_of v"] by simp
qed

lemma resolved_settled:
  assumes "\<not> unresolvedWorker v"
  shows "settled (stage_of (pn_roles v r))" "ao_state (pn_applyOutbox v) \<notin> {AS_claimed, AS_reconcile_required}"
proof -
  have "\<not> latest_is (pn_roles v r) unresolved_attempt"
    using assms by (cases r) (simp_all add: unresolvedWorker_def DELIVERY_PLANNING_RUN_ROLES_def)
  then show "settled (stage_of (pn_roles v r))"
    by (cases "latest_attempt (pn_roles v r)")
      (auto simp: latest_is_def stage_of_def attempt_stage_def unresolved_attempt_def option.map_comp comp_def)
  show "ao_state (pn_applyOutbox v) \<notin> {AS_claimed, AS_reconcile_required}"
    using assms by (simp add: unresolvedWorker_def)
qed

lemma cancel_step:
  assumes "cancelDeliveryPlanningRun H now v ok e at = Inr w"
  shows "course_moves (run_course_of v) (run_course_of w)"
proof -
  from assms have v: "pn_phase v \<notin> {PH_applied, PH_closed}" "\<not> unresolvedWorker v"
    and w: "w = bump (v\<lparr>pn_phase := PH_closed, pn_condition := K_canceled, pn_blocker := e\<rparr>) at"
    by (auto simp: cancelDeliveryPlanningRun_def validate_run_Inr nextRun_Inr turned_def)
  have "run_course_of w = (run_course_of v)\<lparr>wc_phase := PH_closed, wc_condition := K_canceled\<rparr>"
    using w by (simp add: run_course_of_def)
  then show ?thesis
    using course_moves.cancel [of "run_course_of v"] v(1) resolved_settled [OF v(2)] by simp
qed

section \<open>Refinement\<close>

lemma planning_operation_moves:
  assumes "apply_planning H now op at v = Inr w" "course_ok (run_course_of v)"
  shows "course_moves (run_course_of v) (run_course_of w)"
proof (cases op)
  case (Continue ci)
  with assms show ?thesis
    by (cases "ci_kind ci") (auto intro: continue_retry_step continue_cleanup_step)
qed (use assms in \<open>auto intro: claim_spawn_step bind_lease_step lose_lease_step close_lease_step claim_stop_step
    send_stop_step complete_stop_step claim_dispatch_step mark_dispatched_step record_report_step resource_wait_step
    end_unreported_step claim_cleanup_step send_cleanup_step complete_cleanup_step lose_cleanup_step
    recover_cleanup_step compile_step claim_apply_step mark_applied_step lose_apply_step abandon_apply_step
    run_off_course_step cancel_step\<close>)

text \<open>A new run, and the runs that operations lead to. The clock readings may differ from one to the next.\<close>

definition planning_start :: "host \<Rightarrow> planning_run \<Rightarrow> bool" where
  "planning_start H v \<longleftrightarrow> (\<exists>now ident plan at. createDeliveryPlanningRun H now ident plan at = Inr v)"

inductive planning_step :: "host \<Rightarrow> planning_run \<Rightarrow> planning_run \<Rightarrow> bool" for H where
  planning_operation: "apply_planning H now op at v = Inr w \<Longrightarrow> planning_step H v w"

inductive_cases planning_stepE: "planning_step H v w"

abbreviation planning_reachable :: "host \<Rightarrow> planning_run \<Rightarrow> bool" where
  "planning_reachable H v \<equiv> reaches (planning_start H) (planning_step H) v"

lemma created_run:
  assumes "createDeliveryPlanningRun H now ident plan at = Inr v"
  shows "\<exists>p d. v = blank_run H ident p d at \<and> strictSourcePlan H now plan = Inr p \<and> deliveryPlanDigest H now p = Inr d"
    and "valid_planning_run H now v" "valid_timestamp at"
  using assms by (auto simp: createDeliveryPlanningRun_def pn_timestamp_Inr validate_run_Inr)

lemma blank_run_course: "course_begins (run_course_of (blank_run H ident p d at))"
  by (simp add: blank_run_def Let_def course_begins_def run_course_of_def stage_of_attempts emptyRole_def emptyApplyOutbox_def
      receipts_of_kind_def)

interpretation planning_runs: refinement course_begins course_moves course_ok "planning_start H" "planning_step H" run_course_of
  for H :: host
proof
  fix v assume "planning_start H v"
  then show "course_begins (run_course_of v)"
    using created_run(1) blank_run_course by (auto simp: planning_start_def) blast
next
  fix v w assume "course_ok (run_course_of v)" "planning_step H v w"
  then show "course_moves (run_course_of v) (run_course_of w) \<or> run_course_of w = run_course_of v"
    by (auto elim!: planning_stepE intro: planning_operation_moves)
qed

lemma reachable_course_ok: "planning_reachable H v \<Longrightarrow> course_ok (run_course_of v)"
  by (rule planning_runs.reaches_abs_inv)

lemma planning_reachable_step:
  "planning_reachable H v \<Longrightarrow> apply_planning H now op at v = Inr w \<Longrightarrow> planning_reachable H w"
  by (blast intro: reaches_step planning_operation)

lemma planning_step_valid: "planning_step H v w \<Longrightarrow> \<exists>now. valid_planning_run H now w"
  by (elim planning_stepE) (use operation_kept turnedD(2) in \<open>fastforce simp: kept_def\<close>)

lemma planning_reachable_valid: "planning_reachable H v \<Longrightarrow> \<exists>now. valid_planning_run H now v"
proof (induction rule: reaches.induct)
  case (reaches_start v)
  then show ?case unfolding planning_start_def by (elim exE) (rule exI, rule created_run(2))
qed (rule planning_step_valid)

end
