(* ===== verification/PlanningRunHistory.thy ===== *)
theory PlanningRunHistory
  imports PlanningRunRefinement
begin

text \<open>
  What a planning run keeps while operations change it: the identity of an attempt and of its
  worker, the reports, the input digests the attempts are bound to, and the binding of the
  application to the reviewed candidate.
\<close>

section \<open>Attempts and reports stay\<close>

text \<open>What was observed of the pane that a lease was bound to.\<close>

definition bound_pane :: "lease_observed \<Rightarrow> string option \<times> string \<times> string \<times> int option \<times> string \<times> string option" where
  "bound_pane ob = (ob_sessionCreatedAt ob, ob_paneId ob, ob_tmuxPaneId ob, ob_panePid ob, ob_paneTty ob, ob_boundAt ob)"

definition lease_follows :: "spawn_lease \<Rightarrow> spawn_lease \<Rightarrow> bool" where
  "lease_follows l m \<longleftrightarrow>
     lease_binding.truncate m = lease_binding.truncate l \<and> sl_claimedAt m = sl_claimedAt l
     \<and> (given_text (ob_boundAt (sl_observed l)) \<longrightarrow> bound_pane (sl_observed m) = bound_pane (sl_observed l))
     \<and> (\<forall>c. sl_cleanup l = Some c \<longrightarrow> (\<exists>d. sl_cleanup m = Some d \<and> lc_claimId d = lc_claimId c
          \<and> lc_action d = lc_action c \<and> lc_claimedAt d = lc_claimedAt c))"

lemma lease_follows_refl [simp]: "lease_follows l l"
  by (simp add: lease_follows_def)

lemma lease_follows_trans: "lease_follows l m \<Longrightarrow> lease_follows m n \<Longrightarrow> lease_follows l n"
  by (fastforce simp: lease_follows_def bound_pane_def)

lemma lease_follows_state [simp]:
  "lease_follows l (m\<lparr>sl_state := q\<rparr>) = lease_follows l m" "lease_follows l (m\<lparr>sl_error := e\<rparr>) = lease_follows l m"
  "lease_follows l (m\<lparr>sl_observed := (sl_observed m)\<lparr>ob_status := st, ob_observedAt := t\<rparr>\<rparr>) = lease_follows l m"
  by (simp_all add: lease_follows_def bound_pane_def lease_binding.defs)

definition attempt_follows :: "role_attempt \<Rightarrow> role_attempt \<Rightarrow> bool" where
  "attempt_follows a b \<longleftrightarrow>
     at_id b = at_id a \<and> at_kind b = at_kind a \<and> at_inputDigest b = at_inputDigest a \<and> at_claimedAt b = at_claimedAt a
     \<and> lease_follows (at_spawnLease a) (at_spawnLease b)
     \<and> (at_session b = [] \<longrightarrow> at_scopeUnit b = at_scopeUnit a)
     \<and> (at_session a \<noteq> [] \<longrightarrow> at_session b = at_session a \<and> at_tmuxPaneId b = at_tmuxPaneId a
         \<and> at_panePid b = at_panePid a \<and> at_codexPid b = at_codexPid a \<and> at_rolloutId b = at_rolloutId a
         \<and> at_rolloutPath b = at_rolloutPath a \<and> at_scopeUnit b = at_scopeUnit a
         \<and> at_scopeDigest b = at_scopeDigest a \<and> at_promptDigest b = at_promptDigest a)"

definition record_follows :: "role_record \<Rightarrow> role_record \<Rightarrow> bool" where
  "record_follows rec rec' \<longleftrightarrow>
     (\<forall>a. latest_attempt rec = Some a \<longrightarrow> ro_inputDigest rec' = ro_inputDigest rec
        \<and> (\<exists>b. latest_attempt rec' = Some b \<and> attempt_follows a b))
     \<and> (\<forall>x. ro_report rec = Some x \<longrightarrow> ro_report rec' = Some x \<and> ro_outputDigest rec' = ro_outputDigest rec)"

definition follows :: "planning_run \<Rightarrow> planning_run \<Rightarrow> bool" where
  "follows v w \<longleftrightarrow> (\<forall>r. record_follows (pn_roles v r) (pn_roles w r))"

lemma attempt_follows_refl [simp]: "attempt_follows a a"
  by (simp add: attempt_follows_def)

lemma record_follows_refl [simp]: "record_follows rec rec"
  by (simp add: record_follows_def)

lemma attempt_follows_trans: "attempt_follows a b \<Longrightarrow> attempt_follows b c \<Longrightarrow> attempt_follows a c"
  unfolding attempt_follows_def by (metis lease_follows_trans)

lemma record_follows_trans:
  assumes xy: "record_follows x y" and yz: "record_follows y z"
  shows "record_follows x z"
  unfolding record_follows_def
proof (intro conjI allI impI)
  fix a assume "latest_attempt x = Some a"
  with xy obtain b where b: "latest_attempt y = Some b" "attempt_follows a b" "ro_inputDigest y = ro_inputDigest x"
    by (auto simp: record_follows_def)
  with yz obtain c where c: "latest_attempt z = Some c" "attempt_follows b c" "ro_inputDigest z = ro_inputDigest y"
    by (auto simp: record_follows_def)
  show "ro_inputDigest z = ro_inputDigest x" using b(3) c(3) by simp
  show "\<exists>c. latest_attempt z = Some c \<and> attempt_follows a c"
    using c(1) attempt_follows_trans [OF b(2) c(2)] by blast
next
  fix u assume "ro_report x = Some u"
  with xy yz show "ro_report z = Some u" "ro_outputDigest z = ro_outputDigest x" by (auto simp: record_follows_def)
qed

text \<open>Every operation but a claimed spawn also leaves the roles without an attempt as they are.\<close>

definition keeps :: "planning_run \<Rightarrow> planning_run \<Rightarrow> bool" where
  "keeps v w \<longleftrightarrow> follows v w \<and> (\<forall>r. ro_attempts (pn_roles v r) = [] \<longrightarrow> pn_roles w r = pn_roles v r)"

lemma keeps_refl: "pn_roles w = pn_roles v \<Longrightarrow> keeps v w"
  by (simp_all add: keeps_def follows_def)

text \<open>An attempt that is selected is the last one of its role.\<close>

abbreviation "newest v r \<equiv> last (ro_attempts (pn_roles v r))"

lemma followsI:
  assumes "ro_attempts (pn_roles v r) \<noteq> []" "attempt_follows (newest v r) b" "pn_roles n = (pn_roles v)(r := rec)"
    "ro_attempts rec = butlast (ro_attempts (pn_roles v r)) @ [b]" "ro_inputDigest rec = ro_inputDigest (pn_roles v r)"
    "ro_report (pn_roles v r) \<noteq> None \<Longrightarrow> ro_report rec = ro_report (pn_roles v r)
      \<and> ro_outputDigest rec = ro_outputDigest (pn_roles v r)"
  shows "keeps v n"
  using assms by (auto simp: keeps_def follows_def record_follows_def latest_attempt_def)

lemma next_follows:
  assumes "nextRun H now v change at = Inr w" "\<And>n. change v at = Inr n \<Longrightarrow> keeps v n"
  shows "keeps v w"
  using assms by (auto simp: nextRun_Inr turned_def keeps_def follows_def)

lemma advance_follows [simp]: "keeps v (advanceAfterCleanup m r) = keeps v m"
  "keeps v (m\<lparr>pn_continueReceipts := rs\<rparr>) = keeps v m"
  by (simp_all add: keeps_def follows_def)

lemma put_attempt_follows:
  "ro_attempts (pn_roles v r) \<noteq> [] \<Longrightarrow> attempt_follows (newest v r) b \<Longrightarrow> keeps v (put_attempt v r b)"
  by (rule followsI [where rec = "with_attempt (pn_roles v r) b"]) (simp_all add: put_attempt_def)

lemma put_cleanup_follows:
  "ro_attempts (pn_roles v r) \<noteq> [] \<Longrightarrow> keeps v (put_cleanup v r (newest v r) d)"
  unfolding put_cleanup_def by (erule put_attempt_follows) (simp add: attempt_follows_def)

lemma put_role_follows:
  "ro_attempts (pn_roles v r) \<noteq> [] \<Longrightarrow> attempt_follows (newest v r) b \<Longrightarrow>
   keeps v (put_role v r ((with_attempt (pn_roles v r) b)\<lparr>ro_state := q\<rparr>))"
  by (rule followsI [where rec = "(with_attempt (pn_roles v r) b)\<lparr>ro_state := q\<rparr>"]) simp_all

lemma keeps_set_condition [simp]: "keeps v (set_condition w k e) = keeps v w"
  by (simp add: keeps_def follows_def)

lemma closed_follows:
  assumes "ro_attempts (pn_roles v r) \<noteq> []" "lease_follows (at_spawnLease (newest v r)) l"
  shows "keeps v (closeProvisionalSpawnLease v r (newest v r) l e at)"
  unfolding closeProvisionalSpawnLease_def Let_def keeps_set_condition
  by (rule put_role_follows [OF assms(1)])
    (use assms(2) in \<open>auto simp: attempt_follows_def lease_follows_def bound_pane_def lease_binding.defs\<close>)

lemma continued_follows:
  assumes "continued_run v ci at = Inr n"
  shows "keeps v n"
  using assms
  by (auto simp: continued_run_def keeps_refl cleanupAttempt_Inr selectedAttempt_Inr
      intro!: put_cleanup_follows split: if_splits)

lemma dispatch_follows:
  assumes "claimDeliveryPlanningRoleDispatch H now v r i l d at = Inr w"
  shows "keeps v w"
proof -
  from assms obtain a where a: "selectedAttempt v r i (Some AT_spawn_claimed) = Inr a"
    and worker: "validateWorker (di_worker d) = None"
    and w: "turned H now v (put_role v r ((with_attempt (pn_roles v r) (dispatched_attempt a d at))\<lparr>ro_state := Q_dispatch_claimed\<rparr>)) at w"
    by (auto simp: claimDeliveryPlanningRoleDispatch_def nextRun_Inr)
  have "ro_attempts (pn_roles v r) = [a]"
    using valid_attempts [OF turnedD(1) [OF w], of r] a by (auto simp: selectedAttempt_Inr)
  moreover have bound: "wk_session (di_worker d) \<noteq> []"
    using worker by (auto simp: validateWorker_def pn_assertText_def)
  ultimately have "at_session a = []"
    using valid_lifecycle [OF turnedD(1) [OF w], of r a] a
    by (auto simp: selectedAttempt_Inr assertAttemptLifecycle_def Let_def worker_bound_def)
  then have "attempt_follows a (dispatched_attempt a d at)"
    using bound by (simp add: attempt_follows_def dispatched_attempt_def Let_def)
  with a have "keeps v (put_role v r ((with_attempt (pn_roles v r) (dispatched_attempt a d at))\<lparr>ro_state := Q_dispatch_claimed\<rparr>))"
    by (intro put_role_follows) (auto simp: selectedAttempt_Inr)
  then show ?thesis using turnedD(5) [OF w] by (simp add: keeps_def follows_def)
qed

lemma bind_follows:
  assumes "bindDeliveryPlanningRoleSpawnLease H now v r i ref p at = Inr w"
  shows "keeps v w"
proof -
  from assms obtain a ob where a: "selectedAttempt v r i None = Inr a" and q: "sl_state (at_spawnLease a) = SL_claimed"
    and w: "turned H now v (put_attempt v r (a\<lparr>at_spawnLease := (at_spawnLease a)\<lparr>sl_state := SL_bound, sl_observed := ob\<rparr>\<rparr>)) at w"
    by (auto simp: bindDeliveryPlanningRoleSpawnLease_def nextRun_Inr selectedSpawnLease_Inr Let_def)
  have "ro_attempts (pn_roles v r) = [a]"
    using valid_attempts [OF turnedD(1) [OF w], of r] a by (auto simp: selectedAttempt_Inr)
  from valid_binding [OF turnedD(1) [OF w] this] q
  have "validateSpawnLeaseObserved (sl_observed (at_spawnLease a)) = None" "ob_status (sl_observed (at_spawnLease a)) = LS_none"
    by (simp_all add: assertAttemptBinding_def Let_def validateSpawnLease_def lease_lifecycle_checks_def)
  then have "\<not> given_text (ob_boundAt (sl_observed (at_spawnLease a)))"
    by (simp add: validateSpawnLeaseObserved_def Let_def any_pane_def)
  then have "attempt_follows a (a\<lparr>at_spawnLease := (at_spawnLease a)\<lparr>sl_state := SL_bound, sl_observed := ob\<rparr>\<rparr>)"
    by (simp add: attempt_follows_def lease_follows_def lease_binding.defs)
  with a have "keeps v (put_attempt v r (a\<lparr>at_spawnLease := (at_spawnLease a)\<lparr>sl_state := SL_bound, sl_observed := ob\<rparr>\<rparr>))"
    by (intro put_attempt_follows) (auto simp: selectedAttempt_Inr)
  then show ?thesis using turnedD(5) [OF w] by (simp add: keeps_def follows_def)
qed

lemma reported_roles:
  "\<exists>b. attempt_follows a b \<and> pn_roles (reported_run v r a report d at) = (pn_roles v)(r := (with_attempt (pn_roles v r) b)
     \<lparr>ro_report := Some report, ro_outputDigest := d, ro_state := status_role_state (pr_status report)\<rparr>)"
  by (rule exI [where x = "finishAttempt a (status_outcome (pr_status report))
            (role_label r @ '' planning report '' @ status_text (pr_status report) @ ''.'')
            (if pr_status report \<in> {S_blocked, S_failed} then joined_challenges report else []) at"])
    (simp add: reported_run_def Let_def finishAttempt_def attempt_follows_def)

lemma report_follows:
  assumes "recordDeliveryPlanningRoleReport H now v r i x d at = Inr w"
  shows "keeps v w" "\<exists>report. ro_report (pn_roles w r) = Some report \<and> ro_outputDigest (pn_roles w r) = d
    \<and> validatePlanningRoleReport x (Some (report_binding v r i (ro_inputDigest (pn_roles v r)))) = Inr report
    \<and> assertReportHasNoPrivateRunValues report v (last (ro_attempts (pn_roles v r))) = None
    \<and> planningRoleReportOutputDigest H report = Inr d"
proof -
  from record_report_Inr [OF assms] obtain a report n where a: "selectedAttempt v r i None = Inr a"
    and q: "ro_state (pn_roles v r) = Q_dispatched" and w: "turned H now v n at w"
    and n: "pn_roles n = pn_roles (reported_run v r a report d at)"
    and report: "validatePlanningRoleReport x (Some (report_binding v r i (ro_inputDigest (pn_roles v r)))) = Inr report"
      "assertReportHasNoPrivateRunValues report v (last (ro_attempts (pn_roles v r))) = None"
      "planningRoleReportOutputDigest H report = Inr d"
    by (elim exE conjE disjE) (auto simp: selectedAttempt_Inr)
  obtain b where b: "attempt_follows a b" and roles: "pn_roles w = (pn_roles v)(r := (with_attempt (pn_roles v r) b)
     \<lparr>ro_report := Some report, ro_outputDigest := d, ro_state := status_role_state (pr_status report)\<rparr>)"
    using reported_roles [of a v r report d at] n turnedD(5) [OF w] by auto
  have "ro_report (pn_roles v r) = None"
    using valid_role_lifecycle [OF turnedD(1) [OF w], of r] q by (simp add: role_lifecycle_checks_def Let_def)
  then show "keeps v w"
    using a b by (intro followsI [OF _ _ roles]) (auto simp: selectedAttempt_Inr)
  show "\<exists>report. ro_report (pn_roles w r) = Some report \<and> ro_outputDigest (pn_roles w r) = d
    \<and> validatePlanningRoleReport x (Some (report_binding v r i (ro_inputDigest (pn_roles v r)))) = Inr report
    \<and> assertReportHasNoPrivateRunValues report v (last (ro_attempts (pn_roles v r))) = None
    \<and> planningRoleReportOutputDigest H report = Inr d"
    using roles report by simp
qed

lemma compile_follows:
  assumes "compileDeliveryPlanningCandidate H now v at = Inr w"
  shows "keeps v w"
  using compile_candidate_Inr [OF assms]
  by (auto simp: turned_def blocked_synthesis_def Let_def intro!: keeps_refl)

lemma claim_spawn_Inr:
  assumes "claimDeliveryPlanningRoleSpawn H now v r i b at = Inr w"
  obtains d l where "deliveryPlanningRoleInputDigest H now v r = Inr d" "ro_attempts (pn_roles v r) = []"
    "ro_state (pn_roles v r) = Q_pending" "newSpawnLease H v r i d b at = Inr l"
    "turned H now v (put_role (v\<lparr>pn_condition := K_active, pn_blocker := []\<rparr>) r ((pn_roles v r)\<lparr>ro_state := Q_spawn_claimed,
       ro_inputDigest := d, ro_attempts := [newAttempt r i d l at]\<rparr>)) at w"
proof -
  from assms obtain e l where e: "roleEligibilityUnchecked H now v r = Inr e" "el_eligible e"
    and l: "newSpawnLease H v r i (el_inputDigest e) b at = Inr l"
    and w: "turned H now v (put_role (v\<lparr>pn_condition := K_active, pn_blocker := []\<rparr>) r ((pn_roles v r)\<lparr>ro_state := Q_spawn_claimed,
       ro_inputDigest := el_inputDigest e, ro_attempts := ro_attempts (pn_roles v r) @ [newAttempt r i (el_inputDigest e) l at]\<rparr>)) at w"
    by (auto simp: claimDeliveryPlanningRoleSpawn_def validate_run_Inr nextRun_Inr eligible_role_def Let_def)
  from eligible_Inr [OF e] l w show thesis by (intro that) auto
qed

lemma spawn_follows:
  assumes "claimDeliveryPlanningRoleSpawn H now v r i b at = Inr w"
  shows "follows v w"
  using assms by (elim claim_spawn_Inr) (auto simp: follows_def record_follows_def latest_attempt_def turned_def)

lemma planning_operation_keeps:
  assumes "apply_planning H now op at v = Inr w" "\<And>r i b. op \<noteq> ClaimSpawn r i b"
  shows "keeps v w"
proof (cases op)
  case (Continue ci)
  with assms show ?thesis
    by (auto simp: authorizeDeliveryPlanningContinue_def validate_run_Inr elim!: next_follows) (erule continued_follows)
next
  case CompileCandidate
  with assms show ?thesis by (simp add: compile_follows)
next
  case (RecordReport r i x d)
  with assms show ?thesis by (simp add: report_follows)
next
  case (ClaimSpawn r i b)
  with assms(2) [of r i b] show ?thesis by simp
next
  case (ClaimDispatch r i l d)
  with assms show ?thesis by (simp add: dispatch_follows)
next
  case (BindLease r i ref p)
  with assms show ?thesis by (simp add: bind_follows)
qed (use assms(1) in \<open>auto simp: planning_operation_defs validate_run_Inr Let_def case_error_Inr selectedSpawnLease_Inr
      selectedAttempt_Inr cleanupAttempt_Inr attempt_follows_def lease_follows_def bound_pane_def lease_binding.defs finishAttempt_def
      unreported_attempt_def recovered_cleanup_def
      intro: keeps_refl intro!: put_attempt_follows put_cleanup_follows put_role_follows closed_follows
      elim!: next_follows split: unreported.splits\<close>)

lemma operation_follows: "apply_planning H now op at v = Inr w \<Longrightarrow> follows v w"
proof (cases "\<exists>r i b. op = ClaimSpawn r i b")
  case True
  assume "apply_planning H now op at v = Inr w"
  with True show ?thesis using spawn_follows by auto
next
  case False
  assume "apply_planning H now op at v = Inr w"
  with planning_operation_keeps [OF this] False show ?thesis by (auto simp: keeps_def)
qed

text \<open>An attempt has a scope only with its worker.\<close>

definition scoped_workers :: "planning_run \<Rightarrow> bool" where
  "scoped_workers v \<longleftrightarrow> (\<forall>r. \<forall>a \<in> set (ro_attempts (pn_roles v r)). at_session a = [] \<longrightarrow> at_scopeUnit a = [])"

lemma operation_scoped:
  assumes op: "apply_planning H now op at v = Inr w" and v: "scoped_workers v"
  shows "scoped_workers w"
  unfolding scoped_workers_def
proof (intro allI ballI impI)
  fix r b assume b: "b \<in> set (ro_attempts (pn_roles w r))" "at_session b = []"
  have w: "valid_planning_run H now w" using operation_kept [OF op] by (auto simp: kept_def turned_def)
  show "at_scopeUnit b = []"
  proof (cases "ro_attempts (pn_roles v r) = []")
    case False
    with operation_follows [OF op] obtain c where c: "latest_attempt (pn_roles w r) = Some c"
      "attempt_follows (newest v r) c"
      unfolding follows_def record_follows_def by (metis latest_attempt_def)
    with valid_attempts [OF w, of r] b have "c = b" by (auto simp: latest_attempt_def)
    with c b have "at_session (newest v r) = []" "at_scopeUnit b = at_scopeUnit (newest v r)"
      by (auto simp: attempt_follows_def)
    with v False show ?thesis unfolding scoped_workers_def by (metis last_in_set)
  next
    case True
    have "\<exists>i l. op = ClaimSpawn r i l"
    proof (rule ccontr)
      assume no: "\<nexists>i l. op = ClaimSpawn r i l"
      show False
      proof (cases "\<exists>r' i l. op = ClaimSpawn r' i l")
        case False
        with planning_operation_keeps [OF op] have "keeps v w" by blast
        with True b show False by (auto simp: keeps_def)
      next
        case spawn: True
        then obtain r' i l where op': "op = ClaimSpawn r' i l" "r' \<noteq> r" using no by blast
        with op have "claimDeliveryPlanningRoleSpawn H now v r' i l at = Inr w" by simp
        then show False by (rule claim_spawn_Inr) (use op'(2) True b in \<open>auto dest: turnedD(5)\<close>)
      qed
    qed
    then obtain i l where "op = ClaimSpawn r i l" by blast
    with op have "claimDeliveryPlanningRoleSpawn H now v r i l at = Inr w" by simp
    then show ?thesis by (rule claim_spawn_Inr) (use b in \<open>auto simp: newAttempt_def dest!: turnedD(5)\<close>)
  qed
qed

lemma reachable_scoped: "planning_reachable H v \<Longrightarrow> scoped_workers v"
proof (induction rule: reaches.induct)
  case (reaches_start v)
  then show ?case
    using created_run(1) by (auto simp: planning_start_def scoped_workers_def blank_run_def Let_def emptyRole_def) fastforce
next
  case (reaches_step v w)
  then show ?case by (auto elim: planning_stepE intro: operation_scoped)
qed

section \<open>The input digests\<close>

definition role_input :: "host \<Rightarrow> planning_run \<Rightarrow> role \<Rightarrow> string result" where
  "role_input H v r = attempt (roleCommonInput v r) (\<lambda>c. Inr (role_input_digest H v r c))"

lemma input_digest_Inr: "deliveryPlanningRoleInputDigest H now v r = Inr d \<longleftrightarrow> valid_planning_run H now v \<and> role_input H v r = Inr d"
  by (auto simp: deliveryPlanningRoleInputDigest_def role_input_def validate_run_Inr)

lemma artifact_stays:
  "follows v w \<Longrightarrow> artifact_of (pn_roles v r) = Some a \<Longrightarrow>
     artifact_of (pn_roles w r) = Some a \<and> ro_outputDigest (pn_roles w r) = ro_outputDigest (pn_roles v r)"
  by (auto simp: follows_def record_follows_def artifact_of_def)

lemma common_input_stays:
  assumes "roleCommonInput v r = Inr c" "pn_sourcePlan w = pn_sourcePlan v" "follows v w"
  shows "roleCommonInput w r = Inr c"
proof (cases "r = R_po")
  case True
  with assms show ?thesis by (simp add: roleCommonInput_def Let_def)
next
  case False
  with assms(1) obtain po where po: "artifact_of (pn_roles v R_po) = Some po"
    by (cases "artifact_of (pn_roles v R_po)") (auto simp: roleCommonInput_def Let_def report_required_def)
  note po' = artifact_stays [OF assms(3) po]
  show ?thesis
  proof (cases "r = R_ba")
    case True
    with assms(1,2) po po' show ?thesis by (simp add: roleCommonInput_def Let_def report_required_def)
  next
    case F: False
    with assms(1) False po obtain ba where ba: "artifact_of (pn_roles v R_ba) = Some ba"
      by (cases "artifact_of (pn_roles v R_ba)") (auto simp: roleCommonInput_def Let_def report_required_def)
    note ba' = artifact_stays [OF assms(3) ba]
    show ?thesis using assms(1,2) False F po po' ba ba' by (simp add: roleCommonInput_def Let_def report_required_def)
  qed
qed

lemma role_input_stays:
  assumes "role_input H v r = Inr d" "same_binding v w" "follows v w"
  shows "role_input H w r = Inr d"
proof -
  from assms(1) obtain c where c: "roleCommonInput v r = Inr c" "d = role_input_digest H v r c" by (auto simp: role_input_def)
  have "role_input_digest H w r c = role_input_digest H v r c"
    using assms(2) by (simp add: role_input_digest_def same_binding_def)
  with common_input_stays [OF c(1) _ assms(3)] c(2) assms(2) show ?thesis
    by (simp add: role_input_def same_binding_def)
qed

lemma kept_binding: "kept H now v at w \<Longrightarrow> same_binding v w"
  by (auto simp: kept_def turned_def same_binding_def)

text \<open>An attempt is bound to the digest of what its role reads, then and later.\<close>

definition inputs_current :: "host \<Rightarrow> planning_run \<Rightarrow> bool" where
  "inputs_current H v \<longleftrightarrow> (\<forall>r. ro_attempts (pn_roles v r) \<noteq> [] \<longrightarrow> role_input H v r = Inr (ro_inputDigest (pn_roles v r)))"

lemma operation_inputs:
  assumes "apply_planning H now op at v = Inr w" "inputs_current H v"
  shows "inputs_current H w"
  unfolding inputs_current_def
proof (intro allI impI)
  fix r assume r: "ro_attempts (pn_roles w r) \<noteq> []"
  note follows = operation_follows [OF assms(1)]
  note stays = role_input_stays [OF _ kept_binding [OF operation_kept [OF assms(1)]] follows]
  show "role_input H w r = Inr (ro_inputDigest (pn_roles w r))"
  proof (cases "ro_attempts (pn_roles v r) = []")
    case False
    with follows have "ro_inputDigest (pn_roles w r) = ro_inputDigest (pn_roles v r)"
      by (auto simp: follows_def record_follows_def latest_attempt_def)
    with stays [where r = r] assms(2) False show ?thesis by (simp add: inputs_current_def)
  next
    case True
    have "\<exists>r' i b. op = ClaimSpawn r' i b"
    proof (rule ccontr)
      assume "\<nexists>r' i b. op = ClaimSpawn r' i b"
      with planning_operation_keeps [OF assms(1)] have "keeps v w" by blast
      with True r show False by (simp add: keeps_def)
    qed
    then obtain r' i b where op: "op = ClaimSpawn r' i b" by blast
    with assms(1) have "claimDeliveryPlanningRoleSpawn H now v r' i b at = Inr w" by simp
    then show ?thesis
    proof (rule claim_spawn_Inr)
      fix d l
      assume d: "deliveryPlanningRoleInputDigest H now v r' = Inr d"
        and w: "turned H now v (put_role (v\<lparr>pn_condition := K_active, pn_blocker := []\<rparr>) r' ((pn_roles v r')\<lparr>ro_state := Q_spawn_claimed,
          ro_inputDigest := d, ro_attempts := [newAttempt r' i d l at]\<rparr>)) at w"
      have "r = r'" using r True turnedD(5) [OF w] by (auto split: if_splits)
      with d stays [where r = r and d = d] turnedD(5) [OF w] show ?thesis by (simp add: input_digest_Inr)
    qed
  qed
qed

lemma reachable_inputs: "planning_reachable H v \<Longrightarrow> inputs_current H v"
proof (induction rule: reaches.induct)
  case (reaches_start v)
  then show ?case
    using created_run(1) by (auto simp: planning_start_def inputs_current_def blank_run_def Let_def emptyRole_def) fastforce
next
  case (reaches_step v w)
  then show ?case by (auto elim: planning_stepE intro: operation_inputs)
qed

section \<open>The application is that of the candidate\<close>

text \<open>Everything that is claimed, lost, abandoned or applied is the ready candidate of the run.\<close>

definition outbox_bound :: "planning_run \<Rightarrow> bool" where
  "outbox_bound v \<longleftrightarrow> (ao_state (pn_applyOutbox v) \<noteq> AS_held \<longrightarrow> (\<exists>c. pn_candidate v = Some c
     \<and> rd_ready (cd_readiness c) \<and> ao_candidateDigest (pn_applyOutbox v) = cd_digest c
     \<and> (ao_state (pn_applyOutbox v) = AS_applied \<longrightarrow>
         ao_appliedPlanRevision (pn_applyOutbox v) = Some (pn_planRevision v + 1)
         \<and> ao_appliedPlanDigest (pn_applyOutbox v) = cd_previewPlanDigest c)))"

definition same_outbox :: "planning_run \<Rightarrow> planning_run \<Rightarrow> bool" where
  "same_outbox v w \<longleftrightarrow> pn_candidate w = pn_candidate v \<and> pn_applyOutbox w = pn_applyOutbox v"

lemma next_outbox:
  assumes "nextRun H now v change at = Inr w" "\<And>n. change v at = Inr n \<Longrightarrow> same_outbox v n"
  shows "same_outbox v w"
  using assms by (auto simp: nextRun_Inr turned_def same_outbox_def)

lemma same_outbox_simps [simp]:
  "same_outbox v v" "same_outbox v (put_role w r x) = same_outbox v w"
  "same_outbox v (set_condition w k e) = same_outbox v w"
  "same_outbox v (put_attempt w r a) = same_outbox v w" "same_outbox v (put_cleanup w r a c) = same_outbox v w"
  "same_outbox v (advanceAfterCleanup w r) = same_outbox v w"
  "same_outbox v (closeProvisionalSpawnLease w r a l e at) = same_outbox v w"
  "same_outbox v (reported_run w r a report d at) = same_outbox v w"
  "same_outbox v (w\<lparr>pn_condition := k\<rparr>) = same_outbox v w" "same_outbox v (w\<lparr>pn_blocker := e\<rparr>) = same_outbox v w"
  "same_outbox v (w\<lparr>pn_phase := f\<rparr>) = same_outbox v w" "same_outbox v (w\<lparr>pn_synthesisBlocker := b\<rparr>) = same_outbox v w"
  "same_outbox v (w\<lparr>pn_continueReceipts := rs\<rparr>) = same_outbox v w" "same_outbox v (bump w at) = same_outbox v w"
  by (simp_all add: same_outbox_def put_attempt_def put_cleanup_def advanceAfterCleanup_def
      closeProvisionalSpawnLease_def reported_run_def Let_def)

lemma continued_outbox: "continued_run v ci at = Inr n \<Longrightarrow> same_outbox v n"
  by (auto simp: continued_run_def split: if_splits)

definition applies :: "planning_operation \<Rightarrow> bool" where
  "applies op \<longleftrightarrow> (case op of CompileCandidate \<Rightarrow> True | ClaimApply _ _ \<Rightarrow> True | MarkApplied _ _ _ _ \<Rightarrow> True
     | LoseApply _ _ \<Rightarrow> True | AbandonApply _ _ _ _ \<Rightarrow> True | _ \<Rightarrow> False)"

lemma operation_same_outbox:
  assumes "apply_planning H now op at v = Inr w" "\<not> applies op"
  shows "same_outbox v w"
proof (cases op)
  case (Continue ci)
  with assms show ?thesis
    by (auto simp: authorizeDeliveryPlanningContinue_def validate_run_Inr elim!: next_outbox) (erule continued_outbox)
next
  case (RecordReport r i x d)
  with assms record_report_Inr [of H now v r i x d at w] show ?thesis by (auto simp: turned_def)
qed (use assms in \<open>auto simp: planning_operation_defs validate_run_Inr Let_def case_error_Inr applies_def elim!: next_outbox\<close>)

lemma bound_same: "same_outbox v w \<Longrightarrow> pn_planRevision w = pn_planRevision v \<Longrightarrow> outbox_bound w = outbox_bound v"
  by (simp add: outbox_bound_def same_outbox_def)

lemma operation_outbox:
  assumes op: "apply_planning H now op at v = Inr w" and bound: "outbox_bound v"
  shows "outbox_bound w"
proof (cases "applies op")
  case False
  from kept_binding [OF operation_kept [OF op]] have "pn_planRevision w = pn_planRevision v" by (simp add: same_binding_def)
  from bound_same [OF operation_same_outbox [OF op False] this] bound show ?thesis by simp
next
  case True
  then show ?thesis
  proof (cases op)
    case CompileCandidate
    with assms(1) have "compileDeliveryPlanningCandidate H now v at = Inr w" by simp
    from compile_candidate_Inr [OF this] show ?thesis
      by (auto simp: turned_def outbox_bound_def blocked_synthesis_def Let_def emptyApplyOutbox_def)
  next
    case (ClaimApply c d)
    with op show ?thesis
      by (auto simp: claimDeliveryPlanningApply_def validate_run_Inr nextRun_Inr turned_def candidate_applyable_def
          outbox_bound_def split: option.splits)
  next
    case (MarkApplied c d n pd)
    with op bound show ?thesis
      by (auto simp: markDeliveryPlanningApplied_def validate_run_Inr nextRun_Inr turned_def applied_binding_def Let_def
          outbox_bound_def)
  next
    case (LoseApply c e)
    with op bound show ?thesis
      by (auto simp: markDeliveryPlanningApplyReconcileRequired_def validate_run_Inr nextRun_Inr turned_def Let_def outbox_bound_def)
  next
    case (AbandonApply c d ob e)
    with op bound show ?thesis
      by (auto simp: abandonDeliveryPlanningApply_def validate_run_Inr nextRun_Inr turned_def outbox_bound_def)
  qed (auto simp: applies_def)
qed

lemma reachable_outbox: "planning_reachable H v \<Longrightarrow> outbox_bound v"
proof (induction rule: reaches.induct)
  case (reaches_start v)
  then obtain now ident plan at where "createDeliveryPlanningRun H now ident plan at = Inr v" by (auto simp: planning_start_def)
  from created_run(1) [OF this] show ?case
    by (auto simp: outbox_bound_def blank_run_def Let_def emptyApplyOutbox_def)
next
  case (reaches_step v w)
  then show ?case by (auto elim: planning_stepE intro: operation_outbox)
qed

section \<open>Revisions\<close>

lemma operation_revision: "apply_planning H now op at v = Inr w \<Longrightarrow> pn_revision w = pn_revision v + 1"
  using operation_kept [of H now op at v w] by (auto simp: kept_def turned_def)

lemma reachable_progress: "planning_reachable H v \<Longrightarrow> pn_revision v \<le> 1 + int (progress (run_course_of v))"
proof (induction rule: reaches.induct)
  case (reaches_start v)
  then obtain now ident plan at where "createDeliveryPlanningRun H now ident plan at = Inr v" by (auto simp: planning_start_def)
  from created_run(1) [OF this] show ?case by (auto simp: blank_run_def Let_def)
next
  case (reaches_step v w)
  from reaches_step.hyps(2) obtain now op at where op: "apply_planning H now op at v = Inr w" by (rule planning_stepE)
  note ok = reachable_course_ok [OF reaches_step.hyps(1)]
  have "progress (run_course_of v) < progress (run_course_of w)"
    by (rule course_progress [OF planning_operation_moves [OF op ok] ok])
  with operation_revision [OF op] reaches_step.IH show ?case by simp
qed

lemma open_revision:
  assumes "planning_reachable H v" "pn_phase v \<notin> {PH_applied, PH_closed}"
  shows "pn_revision v \<le> 71"
  using reachable_progress [OF assms(1)] progress_bound [OF reachable_course_ok [OF assms(1)]] assms(2) by simp

text \<open>The last operation of a run is taken from an open run.\<close>

lemma reachable_revision: "planning_reachable H v \<Longrightarrow> pn_revision v \<le> 72"
proof (induction rule: reaches.induct)
  case (reaches_start v)
  then obtain now ident plan at where "createDeliveryPlanningRun H now ident plan at = Inr v" by (auto simp: planning_start_def)
  from created_run(1) [OF this] show ?case by (auto simp: blank_run_def Let_def)
next
  case (reaches_step v w)
  from reaches_step.hyps(2) obtain now op at where op: "apply_planning H now op at v = Inr w" by (rule planning_stepE)
  note ok = reachable_course_ok [OF reaches_step.hyps(1)]
  have "pn_phase v \<notin> {PH_applied, PH_closed}"
    using terminal_course [OF ok, of "run_course_of w"] planning_operation_moves [OF op ok] by auto
  from open_revision [OF reaches_step.hyps(1) this] operation_revision [OF op] show ?case by simp
qed

end
