(* ===== verification/PlanningRunExample.thy ===== *)
theory PlanningRunExample
  imports PlanningRunHistory PlanProperties
begin

text \<open>
  A concrete planning run: created from the source plan of the plan example, with a claimed
  spawn, and canceled. The properties of planning runs are applied to it.
\<close>

section \<open>The source plan\<close>

definition pr_plan :: delivery_plan where
  "pr_plan = toy_plan\<lparr>pl_classification := \<lparr>pc_intent = ''change'', pc_depth = ''standard'',
     pc_risk = ''local_reversible'', pc_dataClasses = [], pc_mutationSurfaces = [''workspace'']\<rparr>\<rparr>"

definition pr_digest :: "char \<Rightarrow> string" where "pr_digest c = replicate 63 CHR ''0'' @ [c]"

lemma pr_plan_simps [simp]:
  "pl_id pr_plan = ''plan-12345678''" "pl_revision pr_plan = 1" "pl_workspace pr_plan = ''/w''"
  "pl_baseline pr_plan = pl_baseline toy_plan" "pl_unresolvedQuestions pr_plan = []"
  by (simp_all add: pr_plan_def toy_plan_def)

lemma pr_strict: "strictSourcePlan plan_host [] pr_plan = Inr pr_plan"
  by code_simp

lemma pr_plan_digest: "deliveryPlanDigest plan_host [] pr_plan = Inr (pr_digest CHR ''f'')"
  by code_simp

section \<open>The run as created\<close>

definition pr_created :: planning_run where
  "pr_created = \<lparr>pn_version = 1, pn_id = ''planning-run-12345678'', pn_revision = 1, pn_phase = PH_po,
     pn_condition = K_active, pn_planId = ''plan-12345678'', pn_planRevision = 1, pn_planDigest = pr_digest CHR ''f'',
     pn_workspace = ''/w'', pn_baseline = pl_baseline toy_plan, pn_inputDigest = pr_digest CHR ''f'',
     pn_sourcePlan = pr_plan, pn_roles = (\<lambda>r. emptyRole), pn_candidate = None,
     pn_applyOutbox = emptyApplyOutbox (plan_time CHR ''1''), pn_synthesisBlocker = None, pn_continueReceipts = [],
     pn_blocker = [], pn_createdAt = plan_time CHR ''1'', pn_updatedAt = plan_time CHR ''1''\<rparr>"

lemma pr_created_input: "runInputDigest plan_host pr_created = pr_digest CHR ''f''"
  by code_simp

lemma pr_created_bytes: "persistedJsonBytes (planning_run_json pr_created) = 4227"
  by code_simp

text \<open>The parts of a run that do not change between the runs of the example.\<close>

definition pr_same :: "planning_run \<Rightarrow> bool" where
  "pr_same v \<longleftrightarrow> same_binding pr_created v \<and> pn_candidate v = None
     \<and> pn_applyOutbox v = emptyApplyOutbox (plan_time CHR ''1'') \<and> pn_synthesisBlocker v = None
     \<and> pn_continueReceipts v = [] \<and> pn_updatedAt v \<in> {plan_time CHR ''1'', plan_time CHR ''2''}"

lemma pr_times: "valid_timestamp (plan_time CHR ''1'')" "valid_timestamp (plan_time CHR ''2'')"
  "date_ms (plan_time CHR ''1'') < date_ms (plan_time CHR ''2'')"
  by code_simp+

lemma pr_header: "throws (planning_header_checks pr_created) = None"
  by code_simp

lemma pr_bindings: "source_binding_check plan_host [] pr_created pr_plan = None"
  "assertBaseline (pn_baseline pr_created) (pl_baseline pr_plan) = None"
  "assertDigest ''input_digest_invalid'' (pr_digest CHR ''f'') = None"
  subgoal by (simp add: source_binding_check_def pr_plan_digest pr_created_def)
  subgoal by code_simp
  subgoal by code_simp
  done

lemma pr_outbox: "pn_applyOutbox v = emptyApplyOutbox (plan_time CHR ''1'') \<Longrightarrow> validateApplyOutbox v = None"
  using pr_times by (simp add: validateApplyOutbox_def Let_def emptyApplyOutbox_def pn_assertText_def nullableTimestamp_def
      assertPid_def js_length_def given_text_def given_number_def outbox_unapplied_def)

lemma pr_valid:
  assumes same: "pr_same v" and revision: "1 \<le> pn_revision v" "safe_integer (pn_revision v)"
    and roles: "\<forall>r. validateRoleRecord plan_host v r = None"
    and blocker: "pn_assertText ''blocker_invalid'' False 800 False (pn_blocker v) = None"
    and closed: "pn_phase v = PH_closed \<Longrightarrow> pn_condition v = K_canceled" "pn_condition v = K_canceled \<Longrightarrow> pn_phase v = PH_closed"
    and open_run: "pn_phase v \<notin> {PH_review, PH_applied}"
    and life: "assertPhaseLifecycle v = None" "assertConditionLifecycle v = None"
    and size: "persistedJsonBytes (planning_run_json v) \<le> PLANNING_RUN_MAX_BYTES"
  shows "valid_planning_run plan_host [] v"
proof -
  have b: "pn_version v = pn_version pr_created" "pn_id v = pn_id pr_created" "pn_planId v = pn_planId pr_created"
    "pn_planRevision v = pn_planRevision pr_created" "pn_planDigest v = pn_planDigest pr_created"
    "pn_workspace v = pn_workspace pr_created" "pn_baseline v = pn_baseline pr_created"
    "pn_inputDigest v = pn_inputDigest pr_created" "pn_sourcePlan v = pr_plan" "pn_createdAt v = plan_time CHR ''1''"
    using same by (simp_all add: pr_same_def same_binding_def pr_created_def)
  have header: "throws (planning_header_checks v) = None"
    using pr_header b revision by (simp add: planning_header_checks_def)
  have input: "runInputDigest plan_host v = pr_digest CHR ''f''"
    unfolding pr_created_input [symmetric] runInputDigest_def b(2-7,9) by (simp add: pr_created_def)
  have d: "pn_inputDigest v = pr_digest CHR ''f''" using b(8) by (simp add: pr_created_def)
  have source: "source_binding_check plan_host [] v pr_plan = None"
    using pr_bindings(1) unfolding source_binding_check_def b .
  have times: "valid_timestamp (pn_updatedAt v)" "date_ms (plan_time CHR ''1'') \<le> date_ms (pn_updatedAt v)"
    using same pr_times by (auto simp: pr_same_def)
  have "throws (run_body_checks plan_host [] v pr_plan) = None"
    unfolding run_body_checks_def throws_append_None throws_map_None
    using source pr_bindings(2,3) b(7,10) d input roles blocker closed open_run life size times pr_times(1) pr_outbox [of v] same
    by (simp add: pr_same_def validateSynthesisBlocker_def validateContinueReceipts_def Let_def MAX_CONTINUE_RECEIPTS_def
        js_length_def each_indexed_def)
  with header b(9) pr_strict show ?thesis by (auto simp: valid_planning_run_iff)
qed

lemma empty_role_valid: "pn_roles v r = emptyRole \<Longrightarrow> validateRoleRecord H v r = None"
  by (simp add: validateRoleRecord_def Let_def emptyRole_def attempts_checks_def each_indexed_def role_report_check_def
      role_lifecycle_checks_def js_length_def MAX_ATTEMPTS_def)

lemma pr_created_valid: "valid_planning_run plan_host [] pr_created"
proof (rule pr_valid)
  show "pr_same pr_created" by (simp add: pr_same_def same_binding_def pr_created_def)
  show "\<forall>r. validateRoleRecord plan_host pr_created r = None" by (simp add: empty_role_valid pr_created_def)
  show "persistedJsonBytes (planning_run_json pr_created) \<le> PLANNING_RUN_MAX_BYTES"
    by (simp add: pr_created_bytes PLANNING_RUN_MAX_BYTES_def)
  show "assertPhaseLifecycle pr_created = None" "assertConditionLifecycle pr_created = None"
    by (simp_all add: assertPhaseLifecycle_def assertConditionLifecycle_def Let_def pr_created_def emptyRole_def emptyApplyOutbox_def)
qed (simp_all add: pr_created_def safe_integer_def MAX_SAFE_INTEGER_def pn_assertText_def js_length_def)

text \<open>Its creation, with the assignment of the first role within its limit.\<close>

lemma pr_blank: "blank_run plan_host ''planning-run-12345678'' pr_plan (pr_digest CHR ''f'') (plan_time CHR ''1'') = pr_created"
proof -
  have "\<lparr>pn_version = DELIVERY_PLANNING_RUN_VERSION, pn_id = ''planning-run-12345678'', pn_revision = 1, pn_phase = PH_po,
        pn_condition = K_active, pn_planId = pl_id pr_plan, pn_planRevision = pl_revision pr_plan,
        pn_planDigest = pr_digest CHR ''f'', pn_workspace = pl_workspace pr_plan, pn_baseline = pl_baseline pr_plan,
        pn_inputDigest = [], pn_sourcePlan = pr_plan, pn_roles = (\<lambda>r. emptyRole), pn_candidate = None,
        pn_applyOutbox = emptyApplyOutbox (plan_time CHR ''1''), pn_synthesisBlocker = None, pn_continueReceipts = [],
        pn_blocker = [], pn_createdAt = plan_time CHR ''1'', pn_updatedAt = plan_time CHR ''1''\<rparr>
      = pr_created\<lparr>pn_inputDigest := []\<rparr>"
    by (simp add: pr_created_def DELIVERY_PLANNING_RUN_VERSION_def)
  moreover have "runInputDigest plan_host (pr_created\<lparr>pn_inputDigest := []\<rparr>) = pr_digest CHR ''f''"
    unfolding pr_created_input [symmetric] by (simp add: runInputDigest_def)
  moreover have "pr_created\<lparr>pn_inputDigest := pr_digest CHR ''f''\<rparr> = pr_created" by (simp add: pr_created_def)
  ultimately show ?thesis by (simp add: blank_run_def)
qed

definition pr_input :: string where "pr_input = pr_digest CHR ''a''"

lemma pr_role_input: "role_input_digest plan_host pr_created R_po (JObj [(''sourcePlan'', plan_json pr_plan)]) = pr_input"
  by code_simp

lemma pr_envelope: "js_length (envelope_text (envelope_payload pr_created R_po pr_input
    (JObj [(''sourcePlan'', plan_json pr_plan)]))) \<le> ROLE_ENVELOPE_MAX_CHARS"
  by code_simp

lemma pr_common_input: "roleCommonInput pr_created R_po = Inr (JObj [(''sourcePlan'', plan_json pr_plan)])"
  by (simp add: roleCommonInput_def Let_def pr_created_def)

lemma pr_input_digest: "deliveryPlanningRoleInputDigest plan_host [] pr_created R_po = Inr pr_input"
  by (simp add: input_digest_Inr pr_created_valid role_input_def pr_common_input pr_role_input)

lemma pr_creates: "createDeliveryPlanningRun plan_host [] ''planning-run-12345678'' pr_plan (plan_time CHR ''1'') = Inr pr_created"
proof -
  have "planning_run_id_pattern ''planning-run-12345678''" by code_simp
  then show ?thesis
    using pr_envelope
    by (simp add: createDeliveryPlanningRun_def pn_timestamp_Inr pr_times pr_strict pr_plan_digest pr_blank validate_run_Inr
        pr_created_valid buildRoleEnvelope_def pr_common_input pr_input_digest Let_def)
qed

lemma pr_created_reachable: "planning_reachable plan_host pr_created"
  using pr_creates by (intro reaches_start) (auto simp: planning_start_def)

section \<open>A claimed spawn\<close>

text \<open>The decimal text of an integer by division of integers, for evaluation.\<close>

function int_digits :: "int \<Rightarrow> string" where
  "int_digits n = (if n < 10 then [char_of (48 + nat n)] else int_digits (n div 10) @ [char_of (48 + nat (n mod 10))])"
  by auto
termination by (relation "measure nat") auto
declare int_digits.simps [simp del]

lemma nat_text_int_digits: "nat_text k = int_digits (int k)"
proof (induction k rule: nat_text.induct)
  case (1 k)
  then show ?case
    by (subst nat_text.simps, subst int_digits.simps) (auto simp: nat_mod_distrib zdiv_int)
qed

lemma int_text_digits [code]: "int_text n = (if n < 0 then CHR ''-'' # int_digits (- n) else int_digits n)"
  by (simp add: int_text_def nat_text_int_digits)

definition pr_attempt_id :: string where "pr_attempt_id = ''planning-attempt-12345678''"

definition pr_binding :: lease_binding where
  "pr_binding = \<lparr>lb_leaseId = ''planning-spawn-lease-'' @ replicate 24 CHR ''0'' @ ''-po'',
     lb_session = ''codex-planning-'' @ replicate 24 CHR ''0'' @ ''-po'', lb_contextDigest = pr_digest CHR ''a'',
     lb_scopeUnit = ''panefleet-planning-'' @ replicate 24 CHR ''0'' @ ''.scope'', lb_scopeDigest = pr_digest CHR ''a'',
     lb_launchDigest = pr_digest CHR ''b'', lb_bindDeadlineAt = plan_time CHR ''9''\<rparr>"

lemma pr_expected: "expectedSpawnLeaseBinding plan_host pr_created R_po pr_attempt_id pr_input (pr_digest CHR ''a'')
    (pr_digest CHR ''b'') (plan_time CHR ''9'') = pr_binding"
  by code_simp

definition pr_lease :: spawn_lease where
  "pr_lease = lease_binding.extend pr_binding \<lparr>sl_claimedAt = plan_time CHR ''2'', sl_state = SL_claimed,
     sl_observed = emptySpawnLeaseObservation, sl_cleanup = None, sl_error = []\<rparr>"

definition pr_attempt :: role_attempt where
  "pr_attempt = newAttempt R_po pr_attempt_id pr_input pr_lease (plan_time CHR ''2'')"

definition pr_claimed :: planning_run where
  "pr_claimed = pr_created\<lparr>pn_revision := 2, pn_updatedAt := plan_time CHR ''2'',
     pn_roles := (\<lambda>r. emptyRole)(R_po := \<lparr>ro_state = Q_spawn_claimed, ro_inputDigest = pr_input,
       ro_attempts = [pr_attempt], ro_report = None, ro_outputDigest = []\<rparr>)\<rparr>"

lemma pr_lease_valid: "validateSpawnLease R_po pr_binding pr_lease = None"
  by code_simp

lemma pr_lease_fields:
  "lb_contextDigest pr_lease = pr_digest CHR ''a''" "lb_launchDigest pr_lease = pr_digest CHR ''b''"
  "lb_bindDeadlineAt pr_lease = plan_time CHR ''9''"
  by (simp_all add: pr_lease_def pr_binding_def lease_binding.defs)

lemma expected_lease_same_binding:
  "same_binding u v \<Longrightarrow> expectedSpawnLeaseBinding H v = expectedSpawnLeaseBinding H u"
  by (intro ext) (simp add: expectedSpawnLeaseBinding_def lease_token_def same_binding_def Let_def)

lemma pr_same_claimed: "pr_same pr_claimed"
  by (simp add: pr_same_def same_binding_def pr_claimed_def pr_created_def)

lemma pr_attempt_checks:
  "assertAttemptBinding plan_host pr_claimed R_po pr_attempt = None" "assertAttemptLifecycle pr_attempt = None"
proof -
  have "expectedSpawnLeaseBinding plan_host pr_claimed = expectedSpawnLeaseBinding plan_host pr_created"
    using pr_same_claimed by (intro expected_lease_same_binding) (simp add: pr_same_def)
  moreover have "assertAttemptId pr_attempt_id = None" "assertDigest ''attempt_input_digest_invalid'' pr_input = None"
    by code_simp+
  ultimately show "assertAttemptBinding plan_host pr_claimed R_po pr_attempt = None"
    using pr_times
    by (simp add: assertAttemptBinding_def pr_attempt_def newAttempt_def Let_def pr_lease_fields pr_expected pr_lease_valid
        pn_assertText_def js_length_def assertPid_def nullableTimestamp_def)
  show "assertAttemptLifecycle pr_attempt = None" by code_simp
qed

lemma pr_claimed_bytes: "persistedJsonBytes (planning_run_json pr_claimed) \<le> PLANNING_RUN_MAX_BYTES"
  by code_simp

lemma pr_claimed_valid: "valid_planning_run plan_host [] pr_claimed"
proof (rule pr_valid)
  show "pr_same pr_claimed" by (rule pr_same_claimed)
  show "persistedJsonBytes (planning_run_json pr_claimed) \<le> PLANNING_RUN_MAX_BYTES" by (rule pr_claimed_bytes)
  show "\<forall>r. validateRoleRecord plan_host pr_claimed r = None"
  proof
    fix r show "validateRoleRecord plan_host pr_claimed r = None"
    proof (cases "r = R_po")
      case True
      have "assertDigest ''role_input_digest_invalid'' pr_input = None" "pr_input \<noteq> []" by code_simp+
      moreover have "at_state pr_attempt = AT_spawn_claimed" "at_inputDigest pr_attempt = pr_input"
        by (simp_all add: pr_attempt_def newAttempt_def)
      ultimately show ?thesis
        using True pr_attempt_checks
        by (simp add: validateRoleRecord_def Let_def pr_claimed_def attempts_checks_def each_indexed_def
            role_report_check_def role_lifecycle_checks_def js_length_def MAX_ATTEMPTS_def latest_is_def
            latest_attempt_def seen_before_def)
    qed (simp add: empty_role_valid pr_claimed_def)
  qed
  show "assertPhaseLifecycle pr_claimed = None" "assertConditionLifecycle pr_claimed = None"
    by (simp_all add: assertPhaseLifecycle_def assertConditionLifecycle_def Let_def pr_claimed_def pr_created_def emptyRole_def
        emptyApplyOutbox_def)
qed (simp_all add: pr_claimed_def pr_created_def safe_integer_def MAX_SAFE_INTEGER_def
    pn_assertText_def js_length_def)

lemma pr_claims: "claimDeliveryPlanningRoleSpawn plan_host [] pr_created R_po pr_attempt_id pr_binding (plan_time CHR ''2'') = Inr pr_claimed"
proof -
  have "roleEligibilityUnchecked plan_host [] pr_created R_po
      = Inr \<lparr>el_eligible = True, el_reason = [], el_role = R_po, el_inputDigest = pr_input\<rparr>"
    by (simp add: roleEligibilityUnchecked_def pr_input_digest) (simp add: pr_created_def phaseRoles_def emptyRole_def)
  moreover have "assertAttemptId pr_attempt_id = None" by code_simp
  moreover have "newSpawnLease plan_host pr_created R_po pr_attempt_id pr_input pr_binding (plan_time CHR ''2'') = Inr pr_lease"
    using pr_lease_valid pr_expected by (simp add: newSpawnLease_def pr_binding_def) (simp add: pr_lease_def pr_binding_def)
  moreover have "pr_claimed = bump (put_role (pr_created\<lparr>pn_condition := K_active, pn_blocker := []\<rparr>) R_po
      (emptyRole\<lparr>ro_state := Q_spawn_claimed, ro_inputDigest := pr_input, ro_attempts := [pr_attempt]\<rparr>)) (plan_time CHR ''2'')"
    by (simp add: pr_claimed_def bump_def put_role_def pr_created_def emptyRole_def)
  ultimately show ?thesis
    using pr_created_valid pr_claimed_valid pr_times
    by (auto simp: claimDeliveryPlanningRoleSpawn_def validate_run_Inr nextRun_Inr eligible_role_def turned_def Let_def
        pr_attempt_def pr_created_def emptyRole_def)
qed

lemma pr_claim_operation:
  "apply_planning plan_host [] (ClaimSpawn R_po pr_attempt_id pr_binding) (plan_time CHR ''2'') pr_created = Inr pr_claimed"
  by (simp add: pr_claims)

lemma pr_claimed_reachable: "planning_reachable plan_host pr_claimed"
  by (rule planning_reachable_step [OF pr_created_reachable pr_claim_operation])

section \<open>A canceled run\<close>

definition pr_canceled :: planning_run where
  "pr_canceled = pr_created\<lparr>pn_revision := 2, pn_updatedAt := plan_time CHR ''2'', pn_phase := PH_closed,
     pn_condition := K_canceled, pn_blocker := ''stop''\<rparr>"

lemma pr_canceled_bytes: "persistedJsonBytes (planning_run_json pr_canceled) \<le> PLANNING_RUN_MAX_BYTES"
  by code_simp

lemma pr_canceled_valid: "valid_planning_run plan_host [] pr_canceled"
proof (rule pr_valid)
  show "pr_same pr_canceled" by (simp add: pr_same_def same_binding_def pr_canceled_def pr_created_def)
  show "persistedJsonBytes (planning_run_json pr_canceled) \<le> PLANNING_RUN_MAX_BYTES" by (rule pr_canceled_bytes)
  show "\<forall>r. validateRoleRecord plan_host pr_canceled r = None" by (simp add: empty_role_valid pr_canceled_def pr_created_def)
  show "assertPhaseLifecycle pr_canceled = None" "assertConditionLifecycle pr_canceled = None"
    by (simp_all add: assertPhaseLifecycle_def assertConditionLifecycle_def Let_def pr_canceled_def pr_created_def
        emptyRole_def emptyApplyOutbox_def)
  show "pn_assertText ''blocker_invalid'' False 800 False (pn_blocker pr_canceled) = None"
    by (simp add: pr_canceled_def) code_simp
qed (simp_all add: pr_canceled_def pr_created_def safe_integer_def MAX_SAFE_INTEGER_def)

lemma pr_cancels: "cancelDeliveryPlanningRun plan_host [] pr_created True ''stop'' (plan_time CHR ''2'') = Inr pr_canceled"
proof -
  have "\<not> unresolvedWorker pr_created" "pn_phase pr_created = PH_po" by code_simp+
  moreover have "pn_assertText ''cancel_reason_invalid'' True 800 False ''stop'' = None" by code_simp
  moreover have "pr_canceled = bump (pr_created\<lparr>pn_phase := PH_closed, pn_condition := K_canceled, pn_blocker := ''stop''\<rparr>)
      (plan_time CHR ''2'')" by (simp add: pr_canceled_def bump_def pr_created_def)
  moreover have "pn_updatedAt pr_created = plan_time CHR ''1''" by (simp add: pr_created_def)
  ultimately show ?thesis
    using pr_created_valid pr_canceled_valid pr_times
    by (simp add: cancelDeliveryPlanningRun_def validate_run_Inr nextRun_Inr turned_def)
qed

lemma pr_canceled_reachable: "planning_reachable plan_host pr_canceled"
  by (rule planning_reachable_step [OF pr_created_reachable, of "[]" "CancelRun True ''stop''" "plan_time CHR ''2''"])
    (simp add: pr_cancels)

end
