(* ===== verification/PlanningRunProperties.thy ===== *)
theory PlanningRunProperties
  imports PlanningRunExample
begin

text \<open>
  The properties of planning runs (delivery-planning-run.js): the operations refine the course of
  PlanningCourse, every run ends, what is terminal stays, and what a reviewed candidate rests on.
\<close>

section \<open>The course\<close>

text \<open>C2: Every operation that succeeds on a reachable planning run is one step of the abstract course:
  the phase, the condition, the stage of each worker and the state of the application change as
  the course allows, the invariant of the course holds again, and the progress of the run grows.\<close>

theorem planning_operation_refines:
  assumes "planning_reachable H v" "apply_planning H now op at v = Inr w"
  shows "course_moves (run_course_of v) (run_course_of w) \<and> course_ok (run_course_of w)
    \<and> progress (run_course_of v) < progress (run_course_of w)"
proof -
  note ok = reachable_course_ok [OF assms(1)]
  note moves = planning_operation_moves [OF assms(2) ok]
  show ?thesis using moves course_moves_ok [OF moves ok] course_progress [OF moves ok] by blast
qed

theorem planning_operation_refines_witness:
  "course_moves (run_course_of pr_created) (run_course_of pr_claimed) \<and> course_ok (run_course_of pr_claimed)
    \<and> progress (run_course_of pr_created) < progress (run_course_of pr_claimed)"
  by (rule planning_operation_refines [OF pr_created_reachable pr_claim_operation])

text \<open>C13: No sequence of operations on a planning run is endless: on the reachable runs the steps of
  all operations together are well founded.\<close>

theorem planning_steps_terminate: "wf {(w, v). planning_reachable H v \<and> planning_step H v w}"
proof (rule wf_subset)
  show "wf (measure (\<lambda>v. 90 - progress (run_course_of v)))" by (rule wf_measure)
  show "{(w, v). planning_reachable H v \<and> planning_step H v w} \<subseteq> measure (\<lambda>v. 90 - progress (run_course_of v))"
  proof clarsimp
    fix v w assume v: "planning_reachable H v" and step: "planning_step H v w"
    note ok = reachable_course_ok [OF v]
    have "course_moves (run_course_of v) (run_course_of w)"
      using step planning_operation_moves [OF _ ok] by (auto elim: planning_stepE)
    from course_progress [OF this ok] progress_limit [OF course_moves_ok [OF this ok]]
    show "90 - progress (run_course_of w) < 90 - progress (run_course_of v)" by linarith
  qed
qed

text \<open>C20: A planning run that is not yet applied or closed has taken at most 71 operations (its revision
  counts them), and at most 72 when it is. The footprint of 37 + 24 + 12 + 4 = 77 operations that
  delivery-planning-run-store.js reserves for the active run is always enough.\<close>

theorem planning_revision_bounded:
  assumes "planning_reachable H v"
  shows "1 \<le> pn_revision v \<and> pn_revision v \<le> (if pn_phase v \<in> {PH_applied, PH_closed} then 72 else 71)"
proof
  obtain now where "valid_planning_run H now v" using planning_reachable_valid [OF assms] by blast
  then show "1 \<le> pn_revision v" by (rule valid_revision)
  show "pn_revision v \<le> (if pn_phase v \<in> {PH_applied, PH_closed} then 72 else 71)"
    using reachable_revision [OF assms] open_revision [OF assms] by simp
qed

theorem planning_revision_bounded_witness:
  "1 \<le> pn_revision pr_claimed \<and> pn_revision pr_claimed \<le> (if pn_phase pr_claimed \<in> {PH_applied, PH_closed} then 72 else 71)"
  by (rule planning_revision_bounded [OF pr_claimed_reachable])

text \<open>A planning run that is applied or closed is final: every operation on it is refused.\<close>

theorem terminal_planning_run_is_final:
  assumes "planning_reachable H v" "pn_phase v \<in> {PH_applied, PH_closed}"
  shows "\<exists>e. apply_planning H now op at v = Inl e"
proof (cases "apply_planning H now op at v")
  case (Inr w)
  note ok = reachable_course_ok [OF assms(1)]
  have "\<not> course_moves (run_course_of v) (run_course_of w)" by (rule terminal_course [OF ok]) (use assms(2) in simp)
  with planning_operation_moves [OF Inr ok] show ?thesis by contradiction
qed blast

theorem terminal_planning_run_is_final_witness:
  "\<exists>e. apply_planning plan_host [] (GoOffCourse ''late'') (plan_time CHR ''3'') pr_canceled = Inl e"
  by (rule terminal_planning_run_is_final [OF pr_canceled_reachable]) (simp add: pr_canceled_def)

section \<open>Roles in order\<close>

text \<open>The roles that a phase waits for, and those that are complete before it.\<close>

fun roles_begun :: "planning_phase \<Rightarrow> role set" where
  "roles_begun PH_po = {R_po}"
| "roles_begun PH_ba = {R_po, R_ba}"
| "roles_begun p = UNIV"

fun roles_before :: "planning_phase \<Rightarrow> role set" where
  "roles_before PH_po = {}"
| "roles_before PH_ba = {R_po}"
| "roles_before PH_challenge = {R_po, R_ba}"
| "roles_before PH_closed = {}"
| "roles_before p = UNIV"

lemma stage_of_Idle: "stage_of rec = Idle \<longleftrightarrow> ro_attempts rec = []"
  by (simp add: stage_of_def latest_attempt_def attempt_stage_def)

text \<open>C9: The roles work in the order PO, BA, then QA with DEV: in a phase only its roles and the earlier
  ones have ever been started, all the earlier ones have completed with a report and a cleaned-up
  worker, and a worker that is not settled belongs to a role of the phase. So a candidate in review
  and an applied one rest on four complete reports, and no worker of theirs is left running.\<close>

theorem planning_roles_in_order:
  assumes "planning_reachable H v"
  shows "{r. ro_attempts (pn_roles v r) \<noteq> []} \<subseteq> roles_begun (pn_phase v)
    \<and> roles_before (pn_phase v) \<subseteq> {r. completedAndCleaned v r}
    \<and> {r. \<not> settled (stage_of (pn_roles v r))} \<subseteq> roles_of_phase (pn_phase v)"
proof (intro conjI subsetI)
  note ok = reachable_course_ok [OF assms]
  obtain now where valid: "valid_planning_run H now v" using planning_reachable_valid [OF assms] by blast
  note clean = completed_stage [OF valid refl]
  fix r
  show "r \<in> roles_begun (pn_phase v)" if "r \<in> {r. ro_attempts (pn_roles v r) \<noteq> []}"
    using that ok stage_of_Idle by (cases "pn_phase v"; cases r) (auto simp: course_ok_def)
  show "r \<in> {r. completedAndCleaned v r}" if "r \<in> roles_before (pn_phase v)"
    using that ok clean by (cases "pn_phase v"; cases r) (auto simp: course_ok_def)
  show "r \<in> roles_of_phase (pn_phase v)" if "r \<in> {r. \<not> settled (stage_of (pn_roles v r))}"
    using busy_phase [OF ok, of r] that by simp
qed

theorem planning_roles_in_order_witness:
  "{r. ro_attempts (pn_roles pr_claimed r) \<noteq> []} \<subseteq> roles_begun (pn_phase pr_claimed)
    \<and> roles_before (pn_phase pr_claimed) \<subseteq> {r. completedAndCleaned pr_claimed r}
    \<and> {r. \<not> settled (stage_of (pn_roles pr_claimed r))} \<subseteq> roles_of_phase (pn_phase pr_claimed)"
  by (rule planning_roles_in_order [OF pr_claimed_reachable])

section \<open>What operations keep\<close>

text \<open>Every operation on a planning run leaves its identity, its plan, its baseline and its input
  digest as they were, raises the revision by one, sets the time of the update, which never goes
  back, and returns a run that the validator accepts.\<close>

theorem planning_operation_frame:
  assumes "apply_planning H now op at v = Inr w"
  shows "same_binding v w \<and> pn_revision w = pn_revision v + 1 \<and> pn_updatedAt w = at
    \<and> date_ms (pn_updatedAt v) \<le> date_ms at \<and> validateDeliveryPlanningRun H now w = Inr w"
  using operation_kept [OF assms] kept_binding [OF operation_kept [OF assms]]
  by (auto simp: kept_def turned_def valid_planning_run_def)

theorem planning_operation_frame_witness:
  "same_binding pr_created pr_claimed \<and> pn_revision pr_claimed = pn_revision pr_created + 1
    \<and> pn_updatedAt pr_claimed = plan_time CHR ''2''
    \<and> date_ms (pn_updatedAt pr_created) \<le> date_ms (plan_time CHR ''2'')
    \<and> validateDeliveryPlanningRun plan_host [] pr_claimed = Inr pr_claimed"
  by (rule planning_operation_frame [OF pr_claim_operation])



text \<open>The input digest that a claimed role is bound to is, at every later time, the digest of the
  role's input as the run has it: the reports of the roles before it have not changed under it.\<close>

theorem role_input_is_current:
  assumes "planning_reachable H v" "ro_attempts (pn_roles v r) \<noteq> []"
  shows "\<exists>now. deliveryPlanningRoleInputDigest H now v r = Inr (ro_inputDigest (pn_roles v r))"
  using reachable_inputs [OF assms(1)] assms(2) planning_reachable_valid [OF assms(1)]
  by (auto simp: inputs_current_def input_digest_Inr)

theorem role_input_is_current_witness:
  "\<exists>now. deliveryPlanningRoleInputDigest plan_host now pr_claimed R_po = Inr (ro_inputDigest (pn_roles pr_claimed R_po))"
  by (rule role_input_is_current [OF pr_claimed_reachable]) (simp add: pr_claimed_def)



section \<open>Workers and leases\<close>





section \<open>Complete reports\<close>

text \<open>A complete report can be recorded only while the run is active or off course, or together with the
  reason why no candidate can be made: recording it empties the blocker of the run and leaves its
  condition, and every other condition requires a blocker. So after QA (or DEV) has returned
  anything but a complete report, the complete report of DEV (or QA) is refused.\<close>

lemma complete_report_needs_active:
  assumes "recordDeliveryPlanningRoleReport H now v r i x d at = Inr w"
    and "report_status_of (pn_roles w r) = Some S_complete"
  shows "pn_condition v \<in> {K_active, K_off_course}
    \<or> r \<in> {R_qa, R_dev} \<and> pn_condition w = K_needs_input \<and> pn_synthesisBlocker w \<noteq> None"
proof -
  from record_report_Inr [OF assms(1)] obtain a report n where w: "turned H now v n at w"
    and n: "n = reported_run v r a report d at \<or> pr_status report = S_complete \<and> r \<in> {R_qa, R_dev}
       \<and> (\<exists>b. n = set_condition ((reported_run v r a report d at)\<lparr>pn_synthesisBlocker := Some
              \<lparr>sb_code = b, sb_reason = synthesisBlockerReason b, sb_recordedAt = at\<rparr>\<rparr>)
              K_needs_input (synthesisBlockerReason b))"
    by blast
  show ?thesis
  proof (cases "n = reported_run v r a report d at")
    case True
    have "report_status_of (pn_roles n r) = Some (pr_status report)"
      unfolding True reported_run_def Let_def by (simp add: report_status_of_def)
    then have "pr_status report = S_complete" using assms(2) turnedD(5) [OF w] by simp
    from reported_condition [OF _ this, of v r a d at] turnedD(2,5) [OF w] True valid_condition [of H now w]
    have "pn_condition v \<in> {K_active, K_off_course}" by (auto simp: assertConditionLifecycle_def Let_def)
    then show ?thesis ..
  next
    case False
    have same: "pn_condition (reported_run v r a report d at) = pn_condition v" if "pr_status report = S_complete"
      using that by (simp add: reported_run_def Let_def)
    from n False same turnedD(5) [OF w] show ?thesis by (auto simp: set_condition_def)
  qed
qed

end
