(* ===== verification/StrictJsonFacts.thy ===== *)
theory StrictJsonFacts
  imports PlanningReport
begin

text \<open>
  The strict parser returns on every text, and reads canonical JSON back: the value that was
  printed, when its members are distinct, its numbers are safe integers and it is nested no
  deeper than the parser goes.
\<close>

section \<open>Termination\<close>

lemma scan_string_shorter: "scan_string b s = Some (v, r) \<Longrightarrow> length r < length s"
proof (induction b s arbitrary: v rule: scan_string.induct)
  case (2 escaped c cs)
  show ?case
  proof (cases "\<not> escaped \<and> c = CHR 0x22")
    case True
    with "2.prems" show ?thesis by simp
  next
    case False
    with "2.prems" obtain w where
        "scan_string (\<not> escaped \<and> c = CHR 0x5C) cs = Some (w, r)" "\<not> (\<not> escaped \<and> code c < 32)"
      by (auto split: if_splits)
    with "2.IH" False show ?thesis by fastforce
  qed
qed simp

lemma strict_string_shorter: "strict_string s = Inr (v, r) \<Longrightarrow> length r < length s"
  by (auto simp: strict_string_def starts_with_iff dest!: scan_string_shorter
      split: if_splits option.splits prod.splits)

lemma minus_part_shorter: "length (snd (minus_part s)) \<le> length s"
  by (auto simp: minus_part_def)

lemma whole_part_shorter: "whole_part s = Some (w, r) \<Longrightarrow> length r < length s"
proof -
  have "length (dropWhile is_digit s) < length s" if "s \<noteq> []" "is_digit (hd s)"
    using that length_dropWhile_le [of is_digit "tl s"] by (cases s) auto
  then show "whole_part s = Some (w, r) \<Longrightarrow> length r < length s"
    by (auto simp: whole_part_def split: if_splits)
qed

lemma dropWhile_tl: "length (dropWhile p (tl s)) \<le> length s"
  using length_dropWhile_le [of p "tl s"] by (simp add: le_trans)

lemma fraction_part_shorter: "length (snd (fraction_part s)) \<le> length s"
  by (simp add: fraction_part_def dropWhile_tl)

lemma exponent_sign_shorter: "length (snd (exponent_sign s)) \<le> length s"
  by (simp add: exponent_sign_def)

lemma exponent_part_shorter: "length (snd (exponent_part s)) \<le> length s"
proof -
  have "length (dropWhile is_digit (snd (exponent_sign (tl s)))) \<le> length s"
    using length_dropWhile_le [of is_digit "snd (exponent_sign (tl s))"] exponent_sign_shorter [of "tl s"]
    by simp
  then show ?thesis by (cases "exponent_sign (tl s)") (simp add: exponent_part_def Let_def)
qed

lemma strict_number_shorter:
  assumes "strict_number s = Inr (v, r)"
  shows "length r < length s"
proof -
  from assms obtain w s2 where w: "whole_part (snd (minus_part s)) = Some (w, s2)"
    and r: "r = snd (exponent_part (snd (fraction_part s2)))"
    unfolding strict_number_def Let_def by (auto split: prod.splits option.splits)
  from whole_part_shorter [OF w] minus_part_shorter [of s] fraction_part_shorter [of s2]
    exponent_part_shorter [of "snd (fraction_part s2)"]
  show ?thesis by (simp add: r)
qed

lemma strict_atom_shorter: "strict_atom s = Inr (v, r) \<Longrightarrow> length r < length s"
  by (auto simp: strict_atom_def starts_with_iff dest: strict_number_shorter split: if_splits)

lemma skip_space_shorter: "length (skip_space s) \<le> length s"
  by (simp add: skip_space_def length_dropWhile_le)

lemma after_start: "starts_with [c] t \<Longrightarrow> length (skip_space (tl t)) < length t"
  using skip_space_shorter [of "tl t"] by (cases t) auto

text \<open>A parse that returns, and that leaves less than it was given.\<close>

definition returns :: "string \<Rightarrow> ('a \<times> string) result option \<Rightarrow> bool" where
  "returns s p \<longleftrightarrow> (case p of None \<Rightarrow> False | Some (Inl e) \<Rightarrow> True | Some (Inr (v, r)) \<Rightarrow> length r < length s)"

lemma returns_simps [simp]:
  "\<not> returns s None" "returns s (Some (Inl e))" "returns s (Some (Inr (v, r))) \<longleftrightarrow> length r < length s"
  by (simp_all add: returns_def)

lemma returns_longer: "returns t p \<Longrightarrow> length t \<le> length s \<Longrightarrow> returns s p"
  by (auto simp: returns_def split: option.splits sum.splits)

lemma returns_then:
  "returns t p \<Longrightarrow> (\<And>v r. p = Some (Inr (v, r)) \<Longrightarrow> length r < length t \<Longrightarrow> returns s (f v r)) \<Longrightarrow>
   returns s (parse_then p f)"
  by (cases "(p, f)" rule: parse_then.cases) auto

lemma strict_value_returns:
  assumes members: "\<And>acc t. length t < length s \<Longrightarrow> returns t (strict_members n (depth + 1) acc t)"
    and items: "\<And>acc t. length t < length s \<Longrightarrow> returns t (strict_items n (depth + 1) acc t)"
  shows "returns s (strict_value (Suc n) depth s)"
proof -
  let ?t = "skip_space s"
  have le: "length ?t \<le> length s" by (rule skip_space_shorter)
  have quoted: "returns s (Some (attempt (strict_string ?t) (\<lambda>(v, r). Inr (P_string v, r))))"
    using le strict_string_shorter [of ?t] by (cases "strict_string ?t") fastforce+
  have atom: "returns s (Some (strict_atom ?t))"
    using le strict_atom_shorter [of ?t] by (cases "strict_atom ?t") fastforce+
  have inner: "length (skip_space (tl ?t)) < length s" if "starts_with [c] ?t" for c
    using after_start [OF that] le by simp
  have closed: "length (tl (skip_space (tl ?t))) < length s" if "starts_with [c] ?t" for c
    using inner [OF that] by simp
  show ?thesis
    using quoted atom inner closed returns_longer [OF members [of "skip_space (tl ?t)" "[]"], of s]
      returns_longer [OF items [of "skip_space (tl ?t)" "[]"], of s]
    by (simp add: Let_def less_imp_le)
qed

lemma strict_members_returns:
  assumes val: "\<And>t. length t < length s \<Longrightarrow> returns t (strict_value n depth t)"
    and members: "\<And>acc t. length t < length s \<Longrightarrow> returns t (strict_members n depth acc t)"
  shows "returns s (strict_members (Suc n) depth acc s)"
proof (cases "strict_string (skip_space s)")
  case (Inl e)
  then show ?thesis by simp
next
  case (Inr kr)
  obtain key r where kr: "kr = (key, r)" by fastforce
  have r: "length r < length s"
    using strict_string_shorter [of "skip_space s" key r] skip_space_shorter [of s] Inr kr by simp
  let ?t = "tl (skip_space r)"
  have t: "length ?t < length s" using skip_space_shorter [of r] r by simp
  have rest: "returns s (let u = skip_space r' in
      if starts_with ''}'' u then Some (Inr (P_object (acc @ [(key, v)]), tl u))
      else if \<not> starts_with '','' u then Some invalid
      else strict_members n depth (acc @ [(key, v)]) (tl u))" if "length r' < length ?t" for v r'
  proof -
    have u: "length (tl (skip_space r')) < length s" using skip_space_shorter [of r'] that t by simp
    from returns_longer [OF members [OF u]] u show ?thesis by (simp add: Let_def)
  qed
  show ?thesis
    unfolding strict_members.simps Inr kr sum.case prod.case
    using returns_then [OF val [OF t] rest] by (simp add: Let_def)
qed

lemma strict_items_returns:
  assumes val: "\<And>t. length t \<le> length s \<Longrightarrow> returns t (strict_value n depth t)"
    and items: "\<And>acc t. length t < length s \<Longrightarrow> returns t (strict_items n depth acc t)"
  shows "returns s (strict_items (Suc n) depth acc s)"
proof -
  have rest: "returns s (let u = skip_space r in
      if starts_with '']'' u then Some (Inr (P_array (acc @ [v]), tl u))
      else if \<not> starts_with '','' u then Some invalid
      else strict_items n depth (acc @ [v]) (tl u))" if "length r < length s" for v r
  proof -
    have u: "length (tl (skip_space r)) < length s" using skip_space_shorter [of r] that by simp
    from returns_longer [OF items [OF u]] u show ?thesis by (simp add: Let_def)
  qed
  show ?thesis
    unfolding strict_items.simps using returns_then [OF val [OF order.refl] rest] by (simp add: Let_def)
qed

text \<open>Fuel for two calls per character is enough.\<close>

lemma enough_fuel:
  "(2 * length s < n \<longrightarrow> returns s (strict_value n depth s))
   \<and> (2 * length s + 1 < n \<longrightarrow> returns s (strict_members n depth acc s))
   \<and> (2 * length s + 1 < n \<longrightarrow> returns s (strict_items n depth items s))"
proof (induction n arbitrary: s depth acc items)
  case (Suc n)
  have val: "2 * length t < n \<Longrightarrow> returns t (strict_value n d t)"
    and members: "2 * length t + 1 < n \<Longrightarrow> returns t (strict_members n d acc t)"
    and items: "2 * length t + 1 < n \<Longrightarrow> returns t (strict_items n d its t)" for t d acc its
    using Suc.IH by blast+
  show ?case
  proof (intro conjI impI)
    assume "2 * length s < Suc n"
    then show "returns s (strict_value (Suc n) depth s)"
      by (intro strict_value_returns members items) auto
  next
    assume "2 * length s + 1 < Suc n"
    then show "returns s (strict_members (Suc n) depth acc s)"
      by (intro strict_members_returns val members) auto
  next
    assume "2 * length s + 1 < Suc n"
    then show "returns s (strict_items (Suc n) depth items s)"
      by (intro strict_items_returns val items) auto
  qed
qed simp

lemma strict_parse_returns: "\<exists>r. strictJsonParse s = Some r"
proof -
  have "2 * length s < parse_fuel s" by (simp add: parse_fuel_def)
  with enough_fuel have "returns s (strict_value (parse_fuel s) 0 s)" by blast
  then show ?thesis
    unfolding strictJsonParse_def by (auto simp: returns_def split: option.splits sum.splits)
qed

section \<open>Reading printed strings back\<close>

lemma scan_escaped:
  "scan_string False t = Some (v, r) \<Longrightarrow> scan_string False (escape_char c @ t) = Some (escape_char c @ v, r)"
proof (cases c)
  case (Char b0 b1 b2 b3 b4 b5 b6 b7)
  assume "scan_string False t = Some (v, r)"
  then show ?thesis
    unfolding Char
    by (cases b0; cases b1; cases b2; cases b3; cases b4; cases b5; cases b6; cases b7;
      simp add: escape_char_bits code_def hex_digit_def char_of_def bit_0)
qed

lemma scan_text: "scan_string False (concat (map escape_char s) @ CHR 0x22 # r) = Some (concat (map escape_char s), r)"
  by (induction s) (simp_all add: scan_escaped)

lemma literal_escaped: "literal_value (escape_char c @ t) = map_option (Cons c) (literal_value t)"
proof (cases c)
  case (Char b0 b1 b2 b3 b4 b5 b6 b7)
  show ?thesis
    unfolding Char
    by (cases b0; cases b1; cases b2; cases b3; cases b4; cases b5; cases b6; cases b7;
      simp add: escape_char_bits code_def hex_digit_def unescaped_def is_hexadecimal_def hexadecimal_value_def
        is_hex_def is_digit_def lower_char_def is_upper_def char_of_def bit_0 flip: numeral_2_eq_2)
qed

lemma literal_text: "literal_value (concat (map escape_char s)) = Some s"
  by (induction s) (simp_all add: literal_escaped)

lemma strict_string_text: "strict_string (string_text s @ r) = Inr (s, r)"
  by (simp add: strict_string_def string_text_def scan_text literal_text)

section \<open>Reading printed numbers back\<close>

lemma bit_length_bounds: "0 < n \<Longrightarrow> 0 < bit_length n \<and> 2 ^ (bit_length n - 1) \<le> n \<and> n < 2 ^ bit_length n"
proof (induction n rule: bit_length.induct)
  case (1 n)
  show ?case
  proof (cases "n div 2 = 0")
    case True
    with "1.prems" have "n = 1" by simp
    moreover have "bit_length 1 = 1" by (subst bit_length.simps) (simp add: bit_length.simps [of 0])
    ultimately show ?thesis by simp
  next
    case False
    let ?b = "bit_length (n div 2)"
    from 1 False have b: "0 < ?b" "2 ^ (?b - 1) \<le> n div 2" "n div 2 < 2 ^ ?b" by simp_all
    obtain k where k: "?b = Suc k" using b(1) by (cases ?b) auto
    from b have "2 * 2 ^ k \<le> n" "n < 2 * 2 ^ Suc k" by (simp_all add: k)
    moreover have "bit_length n = Suc (Suc k)" using "1.prems" k by (simp add: bit_length.simps [of n])
    ultimately show ?thesis by simp
  qed
qed

lemma bit_length_le: "n < 2 ^ k \<Longrightarrow> bit_length n \<le> k"
proof (cases "n = 0")
  case False
  assume "n < 2 ^ k"
  with bit_length_bounds [of n] False have "(2::nat) ^ (bit_length n - 1) < 2 ^ k" by (meson gr_zeroI le_less_trans)
  then have "bit_length n - 1 < k" by simp
  then show ?thesis by simp
qed (simp add: bit_length.simps)

lemma round_exact: "0 < b \<Longrightarrow> round_half_even (q * b) b = q"
  by (simp add: round_half_even_def)

lemma double_exponent_whole:
  assumes "0 < m" "m < 2 ^ 53"
  shows "double_exponent m 1 = int (bit_length m) - 53" "int (bit_length m) \<le> 53"
proof -
  have m: "0 < bit_length m" "2 ^ (bit_length m - 1) \<le> m" using bit_length_bounds [OF assms(1)] by simp_all
  have one: "bit_length 1 = 1" by (subst bit_length.simps) (simp add: bit_length.simps [of 0])
  have d: "int (bit_length m) - int (bit_length 1) = int (bit_length m - 1)" using m(1) one by simp
  have at_least: "1 * 2 ^ nat (int (bit_length m - 1)) \<le> m" using m(2) by simp
  show le: "int (bit_length m) \<le> 53" using bit_length_le [OF assms(2)] by simp
  show "double_exponent m 1 = int (bit_length m) - 53"
    unfolding double_exponent_def d Let_def if_P [OF at_least] if_P [OF of_nat_0_le_iff] if_True
    using m(1) le at_least by simp
qed

lemma double_whole:
  assumes "m < 2 ^ 53"
  shows "double_value negative m 1 = Some (Whole (if negative then - int m else int m))"
proof (cases "m = 0")
  case True
  have "double_exponent 0 1 = - 54"
    by (simp add: double_exponent_def bit_length.simps)
  then show ?thesis
    unfolding True double_value_def Let_def by (simp add: round_half_even_def)
next
  case False
  let ?k = "double_exponent m 1"
  from False have k: "?k = int (bit_length m) - 53" "int (bit_length m) \<le> 53"
    using double_exponent_whole [of m] assms by simp_all
  show ?thesis
  proof (cases "?k = 0")
    case True
    have "(m::nat) < 2 ^ 1024" using assms by (rule less_le_trans) simp
    with True show ?thesis
      unfolding double_value_def Let_def True using round_exact [of 1 m] by (simp add: not_le)
  next
    case False
    with k have neg: "\<not> 0 \<le> ?k" by simp
    let ?j = "nat (- ?k)"
    have q: "round_half_even (m * 2 ^ ?j) 1 = m * 2 ^ ?j" using round_exact [of 1 "m * 2 ^ ?j"] by simp
    show ?thesis
      unfolding double_value_def Let_def if_not_P [OF neg] q by (simp flip: mult_minus_left)
  qed
qed

lemma nat_text_zero: "hd (nat_text n) = CHR ''0'' \<longleftrightarrow> n = 0"
proof (induction n rule: nat_text.induct)
  case (1 n)
  show ?case
  proof (cases "n < 10")
    case True
    have "char_of (48 + n) = CHR ''0'' \<longleftrightarrow> n = 0"
    proof
      assume "char_of (48 + n) = CHR ''0''"
      then have "code (char_of (48 + n)) = code (CHR ''0'')" by simp
      then show "n = 0" using code_digit [OF True] by (simp add: code_def)
    qed (simp add: char_of_def bit_0)
    with True show ?thesis by (simp add: nat_text.simps [of n])
  next
    case False
    have "nat_text (n div 10) \<noteq> []" using nat_text_digits by blast
    with False 1 show ?thesis by (simp add: nat_text.simps [of n] hd_append)
  qed
qed

lemma ends_value_digit: "ends_value r \<Longrightarrow> takeWhile is_digit r = [] \<and> dropWhile is_digit r = r"
  by (cases r) (auto simp: ends_value_def is_digit_def code_def)

lemma whole_part_text:
  assumes "ends_value r"
  shows "whole_part (nat_text n @ r) = Some (nat_text n, r)"
proof -
  have t: "nat_text n \<noteq> []" "list_all is_digit (nat_text n)" using nat_text_digits by blast+
  have head: "is_digit (hd (nat_text n @ r))" by (rule nat_text_hd)
  show ?thesis
  proof (cases "n = 0")
    case True
    have zero: "nat_text 0 = ''0''" by (subst nat_text.simps) (simp add: char_of_def bit_0)
    have "is_digit (CHR ''0'')" by (simp add: is_digit_def code_def)
    then show ?thesis unfolding True zero by (simp add: whole_part_def)
  next
    case False
    with nat_text_zero [of n] t have "hd (nat_text n @ r) \<noteq> CHR ''0''" by (simp add: hd_append)
    moreover have "takeWhile is_digit (nat_text n @ r) = nat_text n"
        "dropWhile is_digit (nat_text n @ r) = r"
      using t ends_value_digit [OF assms] by (simp_all add: list_all_iff takeWhile_append2 dropWhile_append2)
    ultimately show ?thesis using t head by (simp add: whole_part_def)
  qed
qed

lemma ends_value_parts:
  assumes "ends_value r"
  shows "fraction_part r = ([], r)" "exponent_part r = (0, r)"
  using assms by (cases r, auto simp: ends_value_def fraction_part_def exponent_part_def)+

lemma strict_number_text:
  assumes "ends_value r" "safe_integer n"
  shows "strict_number (int_text n @ r) = Inr (P_number (Whole n), r)"
proof -
  have "\<bar>n\<bar> < 2 ^ 53" using assms(2) by (auto simp: safe_integer_def MAX_SAFE_INTEGER_def)
  then have bound: "nat \<bar>n\<bar> < 2 ^ 53" by (simp add: nat_less_iff)
  have decimal: "decimal_value (nat_text m) = m" for m using nat_text_digits by blast
  have minus: "minus_part (int_text n @ r) = (n < 0, nat_text (nat \<bar>n\<bar>) @ r)"
  proof (cases "n < 0")
    case False
    have "hd (nat_text (nat n) @ r) \<noteq> CHR ''-''"
      using nat_text_hd [of "nat n" r] by (auto simp: is_digit_def code_def)
    then have "\<not> starts_with ''-'' (nat_text (nat n) @ r)"
      by (cases "nat_text (nat n) @ r") auto
    with False show ?thesis by (simp add: minus_part_def int_text_def)
  qed (simp add: minus_part_def int_text_def)
  show ?thesis
    unfolding strict_number_def minus Let_def
    by (simp add: whole_part_text [OF assms(1)] ends_value_parts [OF assms(1)] decimal
      double_whole [OF bound, unfolded One_nat_def])
qed

section \<open>Reading printed values back\<close>

text \<open>What the parser reads at a depth: nested not too deep, with distinct members and safe numbers.\<close>

primrec readable :: "json \<Rightarrow> nat \<Rightarrow> bool" where
  "readable JNull = (\<lambda>d. d \<le> MAX_JSON_DEPTH)"
| "readable (JBool b) = (\<lambda>d. d \<le> MAX_JSON_DEPTH)"
| "readable (JNum n) = (\<lambda>d. d \<le> MAX_JSON_DEPTH \<and> safe_integer n)"
| "readable (JStr s) = (\<lambda>d. d \<le> MAX_JSON_DEPTH)"
| "readable (JArr xs) = (\<lambda>d. d \<le> MAX_JSON_DEPTH \<and> list_all (\<lambda>f. f (d + 1)) (map readable xs))"
| "readable (JObj kvs) = (\<lambda>d. d \<le> MAX_JSON_DEPTH \<and> distinct (map fst kvs)
     \<and> list_all (\<lambda>kf. snd kf (d + 1)) (map (map_prod (\<lambda>k. k) readable) kvs))"

lemma skip_space_render [simp]: "skip_space (render a @ r) = render a @ r"
proof -
  have "\<not> json_space (hd (render a @ r))"
  proof (cases a)
    case (JNum n)
    have "hd (int_text n @ r) = CHR ''-'' \<or> is_digit (hd (int_text n @ r))"
      using nat_text_hd [of "nat n" r] by (simp add: int_text_def)
    then show ?thesis using JNum by (auto simp: is_digit_def code_def json_space_def)
  qed (simp_all add: json_space_def string_text_def array_text_def object_text_def)
  moreover have "render a \<noteq> []" using render_hd by blast
  ultimately show ?thesis unfolding skip_space_def by (cases "render a @ r") auto
qed

lemma skip_space_end [simp]: "ends_value r \<Longrightarrow> skip_space r = r"
  by (cases r) (auto simp: skip_space_def ends_value_def json_space_def)

lemma skip_space_text [simp]: "skip_space (string_text s @ r) = string_text s @ r"
  using skip_space_render [of "JStr s" r] by simp

lemma starts_with_render:
  "starts_with [CHR 0x22] (render a @ r) \<longleftrightarrow> (\<exists>s. a = JStr s)"
  "starts_with ''{'' (render a @ r) \<longleftrightarrow> (\<exists>kvs. a = JObj kvs)"
  "starts_with ''['' (render a @ r) \<longleftrightarrow> (\<exists>xs. a = JArr xs)"
  "\<not> starts_with '']'' (render a @ r)"
proof -
  obtain c w where cw: "render a @ r = c # w" using render_hd [of a r] by (cases "render a @ r") auto
  have st: "starts_with [x] (render a @ r) \<longleftrightarrow> hd (render a @ r) = x" for x unfolding cw by auto
  show
    "starts_with [CHR 0x22] (render a @ r) \<longleftrightarrow> (\<exists>s. a = JStr s)"
    "starts_with ''{'' (render a @ r) \<longleftrightarrow> (\<exists>kvs. a = JObj kvs)"
    "starts_with ''['' (render a @ r) \<longleftrightarrow> (\<exists>xs. a = JArr xs)"
    "\<not> starts_with '']'' (render a @ r)"
    unfolding st using render_hd [of a r] by blast+
qed

text \<open>Reading one value back, with fuel for the text that is left.\<close>

definition reads_back :: "json \<Rightarrow> nat \<Rightarrow> bool" where
  "reads_back j d \<longleftrightarrow> (\<forall>n r. ends_value r \<longrightarrow> 2 * length (render j @ r) < n \<longrightarrow>
     strict_value n d (render j @ r) = Some (Inr (parsed_of j, r)))"

lemma reads_backD:
  "reads_back j d \<Longrightarrow> ends_value r \<Longrightarrow> 2 * length (render j @ r) < n \<Longrightarrow>
   strict_value n d (render j @ r) = Some (Inr (parsed_of j, r))"
  by (simp add: reads_back_def)

lemma strict_items_render:
  "xs \<noteq> [] \<Longrightarrow> (\<And>x. x \<in> set xs \<Longrightarrow> reads_back x d) \<Longrightarrow>
   2 * length (join_with '','' (map render xs) @ CHR '']'' # r) + 1 < n \<Longrightarrow>
   strict_items n d acc (join_with '','' (map render xs) @ CHR '']'' # r)
     = Some (Inr (P_array (acc @ map parsed_of xs), r))"
proof (induction xs arbitrary: acc n)
  case (Cons x xs)
  let ?rest = "(if xs = [] then [] else '','' @ join_with '','' (map render xs)) @ CHR '']'' # r"
  have eq: "join_with '','' (map render (x # xs)) @ CHR '']'' # r = render x @ ?rest"
    by (simp add: join_with_Cons)
  have rest: "ends_value ?rest" by simp
  from Cons.prems(3) obtain m where n: "n = Suc m" by (cases n) auto
  have fuel: "2 * length (render x @ ?rest) < m" using Cons.prems(3) unfolding eq n by simp
  have step: "strict_value m d (render x @ ?rest) = Some (Inr (parsed_of x, ?rest))"
    using Cons.prems(2) by (intro reads_backD [OF _ rest fuel]) simp
  have nonempty: "render x @ ?rest \<noteq> []" using render_hd by simp
  show ?case
  proof (cases "xs = []")
    case True
    then show ?thesis
      unfolding eq n strict_items.simps if_not_P [OF nonempty] step by (simp add: Let_def)
  next
    case False
    have more: "strict_items m d (acc @ [parsed_of x]) (join_with '','' (map render xs) @ CHR '']'' # r)
        = Some (Inr (P_array ((acc @ [parsed_of x]) @ map parsed_of xs), r))"
      using Cons.prems(2,3) False unfolding n by (intro Cons.IH) (auto simp: join_with_Cons)
    with False show ?thesis
      unfolding eq n strict_items.simps if_not_P [OF nonempty] step by (simp add: Let_def)
  qed
qed simp

abbreviation render_member :: "string \<times> json \<Rightarrow> string" where
  "render_member kv \<equiv> string_text (fst kv) @ '':'' @ render (snd kv)"

abbreviation parsed_member :: "string \<times> json \<Rightarrow> string \<times> parsed" where
  "parsed_member kv \<equiv> (fst kv, parsed_of (snd kv))"

lemma strict_members_render:
  "kvs \<noteq> [] \<Longrightarrow> (\<And>kv. kv \<in> set kvs \<Longrightarrow> reads_back (snd kv) d) \<Longrightarrow>
   distinct (map fst acc @ map fst kvs) \<Longrightarrow>
   2 * length (join_with '','' (map render_member kvs) @ CHR ''}'' # r) + 1 < n \<Longrightarrow>
   strict_members n d acc (join_with '','' (map render_member kvs) @ CHR ''}'' # r)
     = Some (Inr (P_object (acc @ map parsed_member kvs), r))"
proof (induction kvs arbitrary: acc n)
  case (Cons kv kvs)
  let ?rest = "(if kvs = [] then [] else '','' @ join_with '','' (map render_member kvs)) @ CHR ''}'' # r"
  let ?member = "CHR '':'' # render (snd kv) @ ?rest"
  have eq: "join_with '','' (map render_member (kv # kvs)) @ CHR ''}'' # r = string_text (fst kv) @ ?member"
    by (simp add: join_with_Cons)
  have rest: "ends_value ?rest" by simp
  from Cons.prems(4) obtain m where n: "n = Suc m" by (cases n) auto
  have fuel: "2 * length (render (snd kv) @ ?rest) < m" using Cons.prems(4) unfolding eq n by simp
  have step: "strict_value m d (render (snd kv) @ ?rest) = Some (Inr (parsed_of (snd kv), ?rest))"
    using Cons.prems(2) by (intro reads_backD [OF _ rest fuel]) simp
  have colon: "skip_space ?member = ?member" by (simp add: skip_space_def json_space_def)
  have key: "strict_string (skip_space (string_text (fst kv) @ ?member)) = Inr (fst kv, ?member)"
    by (simp add: strict_string_text)
  have new: "fst kv \<notin> set (map fst acc)" using Cons.prems(3) by auto
  have start: "starts_with '':'' ?member" "tl ?member = render (snd kv) @ ?rest" by simp_all
  have head: "strict_members (Suc m) d acc (string_text (fst kv) @ ?member) = (let t = skip_space ?rest in
      if starts_with ''}'' t then Some (Inr (P_object (acc @ [parsed_member kv]), tl t))
      else if \<not> starts_with '','' t then Some invalid
      else strict_members m d (acc @ [parsed_member kv]) (tl t))"
    unfolding strict_members.simps key sum.case prod.case if_not_P [OF new] colon start step
    by (simp del: strict_members.simps)
  show ?case
  proof (cases "kvs = []")
    case True
    then show ?thesis unfolding eq n head by (simp add: Let_def)
  next
    case False
    have more: "strict_members m d (acc @ [parsed_member kv]) (join_with '','' (map render_member kvs) @ CHR ''}'' # r)
        = Some (Inr (P_object ((acc @ [parsed_member kv]) @ map parsed_member kvs), r))"
      using Cons.prems(2,3,4) False unfolding n by (intro Cons.IH) (auto simp: join_with_Cons)
    with False show ?thesis unfolding eq n head by (simp add: Let_def)
  qed
qed simp

lemma readable_depth: "readable j d \<Longrightarrow> \<not> MAX_JSON_DEPTH < d"
  by (cases j) auto

lemma strict_atom_render:
  "strict_atom (render JNull @ r) = Inr (P_null, r)"
  "strict_atom (render (JBool b) @ r) = Inr (P_bool b, r)"
  "ends_value r \<Longrightarrow> safe_integer n \<Longrightarrow> strict_atom (int_text n @ r) = Inr (P_number (Whole n), r)"
proof -
  assume r: "ends_value r" and n: "safe_integer n"
  have "\<not> starts_with (c # w) (int_text n @ r)" if "c \<in> {CHR ''t'', CHR ''f'', CHR ''n''}" for c w
    using render_hd [of "JNum n" r] that by (cases "int_text n @ r") auto
  with strict_number_text [OF r n] show "strict_atom (int_text n @ r) = Inr (P_number (Whole n), r)"
    by (simp add: strict_atom_def)
qed (simp_all add: strict_atom_def)

lemma reads_back_atom:
  assumes depth: "\<not> MAX_JSON_DEPTH < d"
    and atom: "\<And>r. ends_value r \<Longrightarrow> strict_atom (render j @ r) = Inr (parsed_of j, r)"
    and shape: "\<nexists>s. j = JStr s" "\<nexists>xs. j = JArr xs" "\<nexists>kvs. j = JObj kvs"
  shows "reads_back j d"
  unfolding reads_back_def
proof (intro allI impI)
  fix n r assume r: "ends_value r" and "2 * length (render j @ r) < n"
  then obtain m where m: "n = Suc m" by (cases n) auto
  show "strict_value n d (render j @ r) = Some (Inr (parsed_of j, r))"
    unfolding m strict_value.simps Let_def skip_space_render starts_with_render if_not_P [OF depth]
      if_not_P [OF shape(1)] if_not_P [OF shape(2)] if_not_P [OF shape(3)] atom [OF r] ..
qed

lemma readable_reads_back: "readable j d \<Longrightarrow> reads_back j d"
proof (induction j arbitrary: d)
  case (JArr xs)
  show ?case
    unfolding reads_back_def
  proof (intro allI impI)
    fix n r assume n: "2 * length (render (JArr xs) @ r) < n"
    then obtain m where m: "n = Suc m" by (cases n) auto
    let ?in = "join_with '','' (map render xs) @ CHR '']'' # r"
    have printed: "render (JArr xs) @ r = CHR ''['' # ?in" by (simp add: array_text_def)
    have s: "skip_space (CHR ''['' # ?in) = CHR ''['' # ?in"
      by (simp add: skip_space_def json_space_def)
    show "strict_value n d (render (JArr xs) @ r) = Some (Inr (parsed_of (JArr xs), r))"
    proof (cases xs)
      case Nil
      with readable_depth [OF JArr.prems] show ?thesis
        unfolding m printed strict_value.simps s by (simp add: Let_def)
    next
      case (Cons x ys)
      have inner: "?in = render x @ (if ys = [] then [] else '','' @ join_with '','' (map render ys)) @ CHR '']'' # r"
        by (simp add: Cons join_with_Cons)
      have first: "skip_space ?in = ?in" "\<not> starts_with '']'' ?in"
        unfolding inner by (rule skip_space_render starts_with_render)+
      have "strict_items m (d + 1) [] ?in = Some (Inr (P_array ([] @ map parsed_of xs), r))"
        using n JArr Cons unfolding m printed
        by (intro strict_items_render) (auto simp: list_all_iff)
      with first readable_depth [OF JArr.prems] show ?thesis
        unfolding m printed strict_value.simps s by (simp add: Let_def)
    qed
  qed
next
  case (JObj kvs)
  show ?case
    unfolding reads_back_def
  proof (intro allI impI)
    fix n r assume n: "2 * length (render (JObj kvs) @ r) < n"
    then obtain m where m: "n = Suc m" by (cases n) auto
    let ?in = "join_with '','' (map render_member kvs) @ CHR ''}'' # r"
    have members: "map member_text (map (map_prod (\<lambda>k. k) render) kvs) = map render_member kvs"
      by (simp add: member_text_def)
    have printed: "render (JObj kvs) @ r = CHR ''{'' # ?in"
      unfolding render.simps object_text_def members by simp
    have s: "skip_space (CHR ''{'' # ?in) = CHR ''{'' # ?in"
      by (simp add: skip_space_def json_space_def)
    have parsed: "parsed_of (JObj kvs) = P_object (map parsed_member kvs)" by auto
    show "strict_value n d (render (JObj kvs) @ r) = Some (Inr (parsed_of (JObj kvs), r))"
    proof (cases kvs)
      case Nil
      with readable_depth [OF JObj.prems] show ?thesis
        unfolding m printed strict_value.simps s parsed by (simp add: Let_def)
    next
      case (Cons kv ks)
      have first: "skip_space ?in = ?in" "\<not> starts_with ''}'' ?in"
        by (simp_all add: Cons join_with_Cons string_text_def skip_space_def json_space_def)
      have "strict_members m (d + 1) [] ?in = Some (Inr (P_object ([] @ map parsed_member kvs), r))"
      proof (rule strict_members_render)
        fix kv assume "kv \<in> set kvs"
        with JObj.prems have "readable (snd kv) (d + 1)" by (auto simp: list_all_iff)
        with JObj.IH [of kv "snd kv"] \<open>kv \<in> set kvs\<close> show "reads_back (snd kv) (d + 1)"
          by (simp add: snds.simps)
      qed (use n JObj.prems Cons printed m in auto)
      with first readable_depth [OF JObj.prems] show ?thesis
        unfolding m printed strict_value.simps s parsed by (simp add: Let_def)
    qed
  qed
next
  case JNull
  show ?case
    by (rule reads_back_atom)
      (use readable_depth [OF JNull] strict_atom_render(1) in \<open>simp_all del: render.simps\<close>)
next
  case (JBool b)
  show ?case
    by (rule reads_back_atom)
      (use readable_depth [OF JBool] strict_atom_render(2) in \<open>simp_all del: render.simps\<close>)
next
  case (JNum n)
  from JNum have "safe_integer n" by simp
  with readable_depth [OF JNum] show ?case by (intro reads_back_atom) (simp_all add: strict_atom_render)
next
  case (JStr s)
  show ?case
    unfolding reads_back_def
  proof (intro allI impI)
    fix n r assume "2 * length (render (JStr s) @ r) < n"
    then obtain m where m: "n = Suc m" by (cases n) auto
    have "starts_with [CHR 0x22] (string_text s @ r)" by (simp add: string_text_def)
    with readable_depth [OF JStr] show "strict_value n d (render (JStr s) @ r) = Some (Inr (parsed_of (JStr s), r))"
      unfolding m by (simp add: Let_def strict_string_text)
  qed
qed

lemma strict_parse_render:
  assumes "readable j 0"
  shows "strictJsonParse (render j) = Some (Inr (parsed_of j))"
proof -
  have "strict_value (parse_fuel (render j @ [])) 0 (render j @ []) = Some (Inr (parsed_of j, []))"
    by (rule reads_backD [OF readable_reads_back [OF assms]]) (simp_all add: parse_fuel_def)
  then show ?thesis by (simp add: strictJsonParse_def skip_space_def)
qed

lemma set_sort_members: "set (sort_key fst xs) = set xs"
  by simp

lemma readable_norm: "readable (norm_json j) d \<longleftrightarrow> readable j d"
proof (induction j arbitrary: d)
  case (JArr xs)
  then show ?case by (auto simp: list_all_iff)
next
  case (JObj kvs)
  let ?ms = "map (map_prod (\<lambda>k. k) norm_json) kvs"
  have "distinct (map fst (sort_key fst ?ms)) \<longleftrightarrow> distinct (map fst kvs)"
  proof -
    have "map fst (sort_key fst ?ms) = sort (map fst ?ms)" by (rule sort_key_map) simp
    then show ?thesis by (simp add: comp_def)
  qed
  moreover have "readable (norm_json (snd kv)) (d + 1) \<longleftrightarrow> readable (snd kv) (d + 1)" if "kv \<in> set kvs" for kv
    using JObj [of kv "snd kv"] that by (simp add: snds.simps)
  ultimately show ?case by (auto simp: list_all_iff)
qed simp_all

end
