(* ===== verification/PlanningReportFacts.thy ===== *)
theory PlanningReportFacts
  imports StrictJsonFacts
begin

text \<open>
  A report that passes is the value that was parsed: the record's JSON has the value's
  members, in the order of the record, and passes again. So what the checks found of the
  value holds of the record that is stored.
\<close>

section \<open>Values up to the order of members\<close>

primrec norm_parsed :: "parsed \<Rightarrow> parsed" where
  "norm_parsed P_null = P_null"
| "norm_parsed (P_bool b) = P_bool b"
| "norm_parsed (P_number n) = P_number n"
| "norm_parsed (P_string s) = P_string s"
| "norm_parsed (P_array vs) = P_array (map norm_parsed vs)"
| "norm_parsed (P_object kvs) = P_object (sort_key fst (map (map_prod (\<lambda>k. k) norm_parsed) kvs))"

lemma strings_in_norm: "set (strings_in (norm_parsed v)) = set (strings_in v)"
proof (induction v)
  case (P_object kvs)
  have "set (strings_in (norm_parsed (snd kv))) = set (strings_in (snd kv))" if "kv \<in> set kvs" for kv
    using P_object [of kv "snd kv"] that by (simp add: snds.simps)
  then show ?case by auto
qed auto

lemma sort_key_set_eq:
  assumes "set xs = set ys" "distinct (map fst xs)" "distinct (map fst ys)"
  shows "sort_key fst xs = sort_key fst (ys :: ('k::linorder \<times> 'v) list)"
proof (rule map_sorted_distinct_set_unique [of fst])
  show "inj_on fst (set (sort_key fst xs) \<union> set (sort_key fst ys))"
    using assms by (auto simp: distinct_map)
  have "distinct (map fst (sort_key fst zs))" if "distinct (map fst zs)" for zs :: "('k \<times> 'v) list"
  proof -
    have "map fst (sort_key fst zs) = sort (map fst zs)" by (rule sort_key_map) simp
    with that show ?thesis by simp
  qed
  then show "distinct (map fst (sort_key fst xs))" "distinct (map fst (sort_key fst ys))"
    using assms by blast+
qed (use assms in auto)

lemma map_of_own: "distinct (map fst kvs) \<Longrightarrow> (k, v) \<in> set kvs \<longleftrightarrow> k \<in> set (map fst kvs) \<and> own kvs k = v"
proof -
  assume d: "distinct (map fst kvs)"
  have "(k, v) \<in> set kvs \<longleftrightarrow> map_of kvs k = Some v" using d by (rule map_of_eq_Some_iff [symmetric])
  moreover have "k \<in> set (map fst kvs) \<longleftrightarrow> map_of kvs k \<noteq> None" by (simp add: map_of_eq_None_iff)
  ultimately show ?thesis by (auto simp: own_def)
qed

text \<open>An object with exactly the given keys.\<close>

lemma exact_object:
  assumes keys: "sort (map fst kvs) = sort ks" "distinct ks" "map fst lws = ks"
    and members: "\<And>k. k \<in> set ks \<Longrightarrow> norm_parsed (own kvs k) = norm_parsed (own lws k)"
  shows "norm_parsed (P_object kvs) = norm_parsed (P_object lws)"
proof -
  have d: "distinct (map fst kvs)" "distinct (map fst lws)" "set (map fst kvs) = set ks" "set (map fst lws) = set ks"
    using keys by (metis distinct_sort set_sort)+
  have eq: "set (map (map_prod (\<lambda>k. k) norm_parsed) zs) = {(k, norm_parsed (own zs k)) | k. k \<in> set ks}"
    if "distinct (map fst zs)" "set (map fst zs) = set ks" for zs
  proof -
    have "(k, v) \<in> set zs \<longleftrightarrow> k \<in> set ks \<and> own zs k = v" for k v
      using map_of_own [OF that(1)] that(2) by simp
    then show ?thesis by (force simp: image_iff map_prod_def)
  qed
  have "map fst (map (map_prod (\<lambda>k. k) norm_parsed) zs) = map fst zs" for zs by simp
  with d eq [of kvs] eq [of lws] members show ?thesis
    by (simp only: norm_parsed.simps parsed.inject) (intro sort_key_set_eq, auto simp: comp_def)
qed

section \<open>Lists and texts\<close>

lemma exactKeys_Inr: "pr_exactKeys v ks e = Inr m \<longleftrightarrow> v = P_object m \<and> sort (map fst m) = sort ks"
  by (auto simp: pr_exactKeys_def split: parsed.splits)

lemma assertText_D: "pr_assertText e required maximum v = Inr s \<Longrightarrow> v = P_string s"
  by (auto simp: pr_assertText_def split: parsed.splits)

lemma unique_texts_D: "pr_unique_texts e n seen vs = Inr ss \<Longrightarrow> vs = map P_string ss"
proof (induction vs arbitrary: seen ss)
  case (Cons v vs)
  then show ?case by (auto split: if_splits dest: assertText_D)
qed simp

lemma unique_list_D: "pr_assertUniqueTextList e m n v = Inr ss \<Longrightarrow> v = P_array (map P_string ss)"
  by (auto simp: pr_assertUniqueTextList_def split: parsed.splits if_splits dest: unique_texts_D)

lemma list_D: "pr_list e v = Inr ss \<Longrightarrow> v = P_array (map P_string ss)"
  unfolding pr_list_def by (rule unique_list_D)

lemma idList_D: "assertIdList e p v = Inr ss \<Longrightarrow> v = P_array (map P_string ss)"
  unfolding assertIdList_def by (auto split: if_splits dest: unique_list_D)

lemma assertBool_D: "pr_assertBool e v = Inr b \<Longrightarrow> v = P_bool b"
  by (auto simp: pr_assertBool_def split: parsed.splits)

lemma pattern_D: "report_pattern e p v = Inr s \<Longrightarrow> v = P_string s"
  by (auto simp: report_pattern_def split: parsed.splits if_splits)

lemma revision_D: "report_revision v = Inr n \<Longrightarrow> v = P_number (Whole n)"
  by (auto simp: report_revision_def split: parsed.splits number.splits if_splits)

lemma word_D: "report_word e w words v = Inr x \<Longrightarrow> v = P_string (w x)"
  by (auto simp: report_word_def split: option.splits dest: find_SomeD)

lemma object_ids_D: "assertUniqueObjectsById e p n v = Inr vs \<Longrightarrow> v = P_array vs"
  by (auto simp: assertUniqueObjectsById_def split: parsed.splits if_splits)

lemmas value_read = assertText_D list_D unique_list_D idList_D assertBool_D pattern_D revision_D word_D
  object_ids_D

text \<open>The JSON of the record's parts, as the parser gives it.\<close>

lemma parsed_strings [simp]: "parsed_of (json_strings ss) = P_array (map P_string ss)"
  by (simp add: json_strings_def comp_def)

lemma own_Cons [simp]: "own ((k, v) # kvs) l = (if k = l then v else own kvs l)"
  by (simp add: own_def)

section \<open>Artifacts\<close>

text \<open>The value read is the record's, up to the order of members, and reads the same again.\<close>

definition read_as :: "(parsed \<Rightarrow> 'a result) \<Rightarrow> ('a \<Rightarrow> json) \<Rightarrow> parsed \<Rightarrow> 'a \<Rightarrow> bool" where
  "read_as f to_json v x \<longleftrightarrow>
     norm_parsed v = norm_parsed (parsed_of (to_json x)) \<and> f (parsed_of (to_json x)) = Inr x"

definition members :: "json \<Rightarrow> (string \<times> json) list" where
  "members j = (case j of JObj kvs \<Rightarrow> kvs | _ \<Rightarrow> [])"

lemma members_JObj [simp]: "members (JObj kvs) = kvs"
  by (simp add: members_def)

lemma object_norm:
  assumes keys: "sort (map fst m) = sort (map fst (members j))"
    and j: "\<exists>kvs. j = JObj kvs" "distinct (map fst (members j))"
    and m: "list_all (\<lambda>kv. norm_parsed (own m (fst kv)) = norm_parsed (parsed_of (snd kv))) (members j)"
  shows "norm_parsed (P_object m) = norm_parsed (parsed_of j)"
proof -
  from j(1) obtain kvs where kvs: "j = JObj kvs" by blast
  let ?lws = "map (map_prod (\<lambda>k. k) parsed_of) kvs"
  have fst: "map fst ?lws = map fst kvs" by (simp add: comp_def)
  have own: "own ?lws k = parsed_of v" if "(k, v) \<in> set kvs" for k v
  proof -
    have "(k, parsed_of v) \<in> set ?lws" using that by force
    moreover have "distinct (map fst ?lws)" using j(2) fst kvs by (simp add: comp_def)
    ultimately show ?thesis using map_of_own by metis
  qed
  have "norm_parsed (P_object m) = norm_parsed (P_object ?lws)"
  proof (rule exact_object [of m "map fst kvs"])
    fix k assume "k \<in> set (map fst kvs)"
    then obtain v where "(k, v) \<in> set kvs" by auto
    with m own [of k v] show "norm_parsed (own m k) = norm_parsed (own ?lws k)"
      by (fastforce simp: kvs list_all_iff)
  qed (use keys j kvs fst in \<open>auto simp: comp_def\<close>)
  then show ?thesis by (simp add: kvs)
qed

lemma keys_again: "map fst lws = ks \<Longrightarrow> pr_exactKeys (P_object lws) ks e = Inr lws"
  by (simp add: exactKeys_Inr)

lemma po_read:
  assumes "validatePoArtifact v = Inr x"
  shows "read_as validatePoArtifact po_json v x"
proof -
  from assms obtain m where m: "v = P_object m" "sort (map fst m) = sort (role_keys R_po)"
    and f: "pr_assertText ''po_user_invalid'' False 1600 (own m ''user'') = Inr (po_user x)"
      "pr_assertText ''po_problem_invalid'' False 1600 (own m ''problem'') = Inr (po_problem x)"
      "pr_assertText ''po_outcome_invalid'' False 1600 (own m ''outcome'') = Inr (po_outcome x)"
      "pr_assertText ''po_value_invalid'' False 1600 (own m ''value'') = Inr (po_value x)"
      "pr_list ''po_nonGoals_invalid'' (own m ''nonGoals'') = Inr (po_nonGoals x)"
      "pr_list ''po_assumptions_invalid'' (own m ''assumptions'') = Inr (po_assumptions x)"
      "pr_list ''po_openQuestions_invalid'' (own m ''openQuestions'') = Inr (po_openQuestions x)"
    unfolding validatePoArtifact_def by (auto simp: exactKeys_Inr)
  have d: "own m ''user'' = P_string (po_user x)" "own m ''problem'' = P_string (po_problem x)"
      "own m ''outcome'' = P_string (po_outcome x)" "own m ''value'' = P_string (po_value x)"
      "own m ''nonGoals'' = P_array (map P_string (po_nonGoals x))"
      "own m ''assumptions'' = P_array (map P_string (po_assumptions x))"
      "own m ''openQuestions'' = P_array (map P_string (po_openQuestions x))"
    by (rule value_read, fact f)+
  have keys: "sort (map fst m) = sort (map fst (members (po_json x)))" using m(2) by (simp add: role_keys_def po_json_def)
  show ?thesis
    unfolding read_as_def m(1)
  proof (rule conjI, rule object_norm [OF keys])
    show "validatePoArtifact (parsed_of (po_json x)) = Inr x"
      unfolding validatePoArtifact_def using f [unfolded d] by (simp del: attempt_Inr add: po_json_def keys_again role_keys_def)
  qed (simp_all add: po_json_def d)
qed

text \<open>Lists of objects with distinct identifiers.\<close>

definition id_of :: "parsed \<Rightarrow> parsed option" where
  "id_of v = (case v of P_object m \<Rightarrow> Some (own m ''id'') | _ \<Rightarrow> None)"

lemma id_of_object [simp]: "id_of (P_object m) = Some (own m ''id'')"
  by (simp add: id_of_def)

lemma unique_object_ids_id:
  "list_all2 (\<lambda>v w. id_of v = id_of w) vs ws \<Longrightarrow> unique_object_ids e p seen vs = unique_object_ids e p seen ws"
proof (induction vs arbitrary: seen ws)
  case (Cons v vs)
  then obtain w ws' where ws: "ws = w # ws'" "id_of v = id_of w" "list_all2 (\<lambda>v w. id_of v = id_of w) vs ws'"
    by (auto simp: list_all2_Cons1)
  show ?case
  proof (cases v)
    case (P_object m)
    with ws(2) obtain m' where "w = P_object m'" "own m' ''id'' = own m ''id''"
      by (auto simp: id_of_def split: parsed.splits)
    with P_object ws Cons.IH show ?thesis by (auto split: parsed.splits)
  qed (use ws(1,2) in \<open>auto simp: id_of_def split: parsed.splits\<close>)
qed simp

lemma unique_object_ids_text:
  "unique_object_ids e p seen vs = None \<Longrightarrow> v \<in> set vs \<Longrightarrow> \<exists>m i. v = P_object m \<and> own m ''id'' = P_string i"
proof (induction vs arbitrary: seen)
  case (Cons w vs)
  then obtain m i seen' where "w = P_object m" "own m ''id'' = P_string i" "unique_object_ids e p seen' vs = None"
    by (auto split: parsed.splits if_splits)
  with Cons show ?case by auto
qed simp

lemma objects_read:
  assumes v: "assertUniqueObjectsById e p n v = Inr vs" and xs: "map_result f vs = Inr xs"
    and each: "\<And>m i x. f (P_object m) = Inr x \<Longrightarrow> own m ''id'' = P_string i \<Longrightarrow>
      read_as f to_json (P_object m) x \<and> id_of (parsed_of (to_json x)) = Some (P_string i)"
  shows "norm_parsed v = norm_parsed (parsed_of (JArr (map to_json xs)))"
    "assertUniqueObjectsById e p n (parsed_of (JArr (map to_json xs))) = Inr (map (\<lambda>x. parsed_of (to_json x)) xs)"
    "map_result f (map (\<lambda>x. parsed_of (to_json x)) xs) = Inr xs"
proof -
  let ?ws = "map (\<lambda>x. parsed_of (to_json x)) xs"
  from v have vs: "v = P_array vs" by (rule object_ids_D)
  with v have ids: "unique_object_ids e p [] vs = None" "\<not> n < js_length vs"
    by (auto simp: assertUniqueObjectsById_def split: if_splits)
  have pairs: "list_all2 (\<lambda>v x. read_as f to_json v x \<and> id_of v = id_of (parsed_of (to_json x))) vs xs"
    using xs [unfolded map_result_Inr]
  proof (rule list.rel_mono_strong)
    fix v x assume "v \<in> set vs" and f: "f v = Inr x"
    from unique_object_ids_text [OF ids(1) \<open>v \<in> set vs\<close>] obtain m i where "v = P_object m" "own m ''id'' = P_string i" by blast
    with each f show "read_as f to_json v x \<and> id_of v = id_of (parsed_of (to_json x))" by simp
  qed
  then have "map norm_parsed vs = map norm_parsed ?ws"
    by (induction rule: list_all2_induct) (simp_all add: read_as_def)
  then show "norm_parsed v = norm_parsed (parsed_of (JArr (map to_json xs)))" by (simp add: vs comp_def)
  from pairs have "list_all2 (\<lambda>v w. id_of v = id_of w) vs ?ws"
    by (induction rule: list_all2_induct) simp_all
  from unique_object_ids_id [OF this, of e p "[]"] ids list_all2_lengthD [OF pairs]
  show "assertUniqueObjectsById e p n (parsed_of (JArr (map to_json xs))) = Inr ?ws"
    by (simp add: assertUniqueObjectsById_def js_length_def comp_def)
  from pairs show "map_result f ?ws = Inr xs"
    by (induction rule: list_all2_induct) (simp_all add: read_as_def)
qed

lemma requirement_read:
  assumes "report_requirement (P_object m) = Inr x" "own m ''id'' = P_string i"
  shows "read_as report_requirement requirement_json (P_object m) x
    \<and> id_of (parsed_of (requirement_json x)) = Some (P_string i)"
proof -
  from assms have m: "sort (map fst m) = sort [''id'', ''text'']" and i: "rq_id x = i"
    and f: "pr_assertText ''ba_requirement_text_invalid'' True 800 (own m ''text'') = Inr (rq_text x)"
    unfolding report_requirement_def by (auto simp: exactKeys_Inr text_of_def)
  have d: "own m ''id'' = P_string (rq_id x)" "own m ''text'' = P_string (rq_text x)"
    using assms(2) i value_read(1) [OF f] by simp_all
  have keys: "sort (map fst m) = sort (map fst (members (requirement_json x)))"
    using m by (simp add: requirement_json_def)
  have again: "report_requirement (parsed_of (requirement_json x)) = Inr x"
    unfolding report_requirement_def using f [unfolded d]
    by (simp del: attempt_Inr add: requirement_json_def keys_again text_of_def)
  show ?thesis
    unfolding read_as_def
    by (intro conjI object_norm [OF keys] again) (simp_all add: requirement_json_def d i)
qed

lemma ba_read:
  assumes "validateBaArtifact v = Inr x"
  shows "read_as validateBaArtifact ba_json v x"
proof -
  from assms obtain m vs where m: "v = P_object m" "sort (map fst m) = sort (role_keys R_ba)"
    and r: "assertUniqueObjectsById ''ba_requirements_invalid'' requirement_id_pattern 80 (own m ''requirements'') = Inr vs"
      "map_result report_requirement vs = Inr (ba_requirements x)"
    and f: "pr_list ''ba_dependencies_invalid'' (own m ''dependencies'') = Inr (ba_dependencies x)"
      "pr_list ''ba_edgeCases_invalid'' (own m ''edgeCases'') = Inr (ba_edgeCases x)"
      "pr_list ''ba_constraints_invalid'' (own m ''constraints'') = Inr (ba_constraints x)"
      "pr_list ''ba_openQuestions_invalid'' (own m ''openQuestions'') = Inr (ba_openQuestions x)"
    unfolding validateBaArtifact_def by (auto simp: exactKeys_Inr)
  have d: "own m ''dependencies'' = P_array (map P_string (ba_dependencies x))"
      "own m ''edgeCases'' = P_array (map P_string (ba_edgeCases x))"
      "own m ''constraints'' = P_array (map P_string (ba_constraints x))"
      "own m ''openQuestions'' = P_array (map P_string (ba_openQuestions x))"
    by (rule value_read, fact f)+
  note rs = objects_read [OF r requirement_read, unfolded parsed_of.simps map_map comp_def]
  have keys: "sort (map fst m) = sort (map fst (members (ba_json x)))" using m(2) by (simp add: role_keys_def ba_json_def)
  have again: "validateBaArtifact (parsed_of (ba_json x)) = Inr x"
    unfolding validateBaArtifact_def using f [unfolded d] rs(2,3)
    by (simp del: attempt_Inr add: ba_json_def keys_again role_keys_def comp_def)
  show ?thesis
    unfolding read_as_def m(1)
    by (intro conjI object_norm [OF keys] again) (use rs(1) in \<open>simp_all add: ba_json_def d comp_def\<close>)
qed

lemma step_read:
  assumes "report_step (P_object m) = Inr x" "own m ''id'' = P_string i"
  shows "read_as report_step step_json (P_object m) x \<and> id_of (parsed_of (step_json x)) = Some (P_string i)"
proof -
  from assms have m: "sort (map fst m) = sort [''id'', ''title'', ''outcome'', ''requirementIds'', ''scopePaths'', ''checks'']"
    and i: "sp_id x = i" and paths: "throws (map pr_assertScopePath (sp_scopePaths x)) = None"
    and f: "pr_assertText ''dev_step_title_invalid'' True 160 (own m ''title'') = Inr (sp_title x)"
      "pr_assertText ''dev_step_outcome_invalid'' True 800 (own m ''outcome'') = Inr (sp_outcome x)"
      "assertIdList ''dev_requirement_ids_invalid'' requirement_id_pattern (own m ''requirementIds'') = Inr (sp_requirementIds x)"
      "pr_assertUniqueTextList ''dev_scope_paths_invalid'' 100 512 (own m ''scopePaths'') = Inr (sp_scopePaths x)"
      "pr_list ''dev_checks_invalid'' (own m ''checks'') = Inr (sp_checks x)"
    unfolding report_step_def by (auto simp: exactKeys_Inr text_of_def)
  have i': "own m ''id'' = P_string (sp_id x)" using assms(2) i by simp
  have d: "own m ''title'' = P_string (sp_title x)" "own m ''outcome'' = P_string (sp_outcome x)"
      "own m ''requirementIds'' = P_array (map P_string (sp_requirementIds x))"
      "own m ''scopePaths'' = P_array (map P_string (sp_scopePaths x))"
      "own m ''checks'' = P_array (map P_string (sp_checks x))"
    by (rule value_read, fact f)+
  have keys: "sort (map fst m) = sort (map fst (members (step_json x)))" using m by (simp add: step_json_def)
  have again: "report_step (parsed_of (step_json x)) = Inr x"
    unfolding report_step_def using f [unfolded d] paths
    by (simp del: attempt_Inr add: step_json_def keys_again text_of_def)
  show ?thesis
    unfolding read_as_def
    by (intro conjI object_norm [OF keys] again) (simp_all add: step_json_def d i' i)
qed

lemma dev_read:
  assumes "validateDevArtifact v = Inr x"
  shows "read_as validateDevArtifact dev_json v x"
proof -
  from assms obtain m vs where m: "v = P_object m" "sort (map fst m) = sort (role_keys R_dev)"
    and r: "assertUniqueObjectsById ''dev_steps_invalid'' step_id_pattern 80 (own m ''steps'') = Inr vs"
      "map_result report_step vs = Inr (dv_steps x)"
    and f: "pr_assertText ''dev_architecture_invalid'' False 1600 (own m ''architecture'') = Inr (dv_architecture x)"
      "pr_list ''dev_risks_invalid'' (own m ''risks'') = Inr (dv_risks x)"
      "pr_assertText ''dev_rollback_invalid'' False 1600 (own m ''rollback'') = Inr (dv_rollback x)"
      "pr_list ''dev_openQuestions_invalid'' (own m ''openQuestions'') = Inr (dv_openQuestions x)"
    unfolding validateDevArtifact_def by (auto simp: exactKeys_Inr)
  have d: "own m ''architecture'' = P_string (dv_architecture x)"
      "own m ''risks'' = P_array (map P_string (dv_risks x))"
      "own m ''rollback'' = P_string (dv_rollback x)"
      "own m ''openQuestions'' = P_array (map P_string (dv_openQuestions x))"
    by (rule value_read, fact f)+
  note rs = objects_read [OF r step_read, unfolded parsed_of.simps map_map comp_def]
  have keys: "sort (map fst m) = sort (map fst (members (dev_json x)))" using m(2) by (simp add: role_keys_def dev_json_def)
  have again: "validateDevArtifact (parsed_of (dev_json x)) = Inr x"
    unfolding validateDevArtifact_def using f [unfolded d] rs(2,3)
    by (simp del: attempt_Inr add: dev_json_def keys_again role_keys_def comp_def)
  show ?thesis
    unfolding read_as_def m(1)
    by (intro conjI object_norm [OF keys] again) (use rs(1) in \<open>simp_all add: dev_json_def d comp_def\<close>)
qed

lemma criterion_read:
  assumes "report_criterion (P_object m) = Inr x" "own m ''id'' = P_string i"
  shows "read_as report_criterion acceptance_json (P_object m) x
    \<and> id_of (parsed_of (acceptance_json x)) = Some (P_string i)"
proof -
  from assms have m: "sort (map fst m) = sort [''id'', ''text'', ''requirementIds'']" and i: "ac_id x = i"
    and f: "pr_assertText ''qa_acceptance_text_invalid'' True 800 (own m ''text'') = Inr (ac_text x)"
      "assertIdList ''qa_requirement_ids_invalid'' requirement_id_pattern (own m ''requirementIds'') = Inr (ac_requirementIds x)"
    unfolding report_criterion_def by (auto simp: exactKeys_Inr text_of_def)
  have i': "own m ''id'' = P_string (ac_id x)" using assms(2) i by simp
  have d: "own m ''text'' = P_string (ac_text x)"
      "own m ''requirementIds'' = P_array (map P_string (ac_requirementIds x))"
    by (rule value_read, fact f)+
  have keys: "sort (map fst m) = sort (map fst (members (acceptance_json x)))" using m by (simp add: acceptance_json_def)
  have again: "report_criterion (parsed_of (acceptance_json x)) = Inr x"
    unfolding report_criterion_def using f [unfolded d]
    by (simp del: attempt_Inr add: acceptance_json_def keys_again text_of_def)
  show ?thesis
    unfolding read_as_def
    by (intro conjI object_norm [OF keys] again) (simp_all add: acceptance_json_def d i' i)
qed

lemma qa_read:
  assumes "validateQaArtifact v = Inr x"
  shows "read_as validateQaArtifact qa_json v x"
proof -
  from assms obtain m vs where m: "v = P_object m" "sort (map fst m) = sort (role_keys R_qa)"
    and r: "assertUniqueObjectsById ''qa_acceptance_criteria_invalid'' acceptance_id_pattern 120
        (own m ''acceptanceCriteria'') = Inr vs"
      "map_result report_criterion vs = Inr (qa_acceptanceCriteria x)"
    and f: "pr_assertText ''qa_test_strategy_invalid'' False 1600 (own m ''testStrategy'') = Inr (qa_testStrategy x)"
      "pr_list ''qa_regression_checks_invalid'' (own m ''regressionChecks'') = Inr (qa_regressionChecks x)"
      "pr_assertBool ''qa_release_required_invalid'' (own m ''releaseRequired'') = Inr (qa_releaseRequired x)"
      "pr_list ''qa_release_checks_invalid'' (own m ''releaseChecks'') = Inr (qa_releaseChecks x)"
      "pr_list ''qa_openQuestions_invalid'' (own m ''openQuestions'') = Inr (qa_openQuestions x)"
    unfolding validateQaArtifact_def by (auto simp: exactKeys_Inr)
  have d: "own m ''testStrategy'' = P_string (qa_testStrategy x)"
      "own m ''regressionChecks'' = P_array (map P_string (qa_regressionChecks x))"
      "own m ''releaseRequired'' = P_bool (qa_releaseRequired x)"
      "own m ''releaseChecks'' = P_array (map P_string (qa_releaseChecks x))"
      "own m ''openQuestions'' = P_array (map P_string (qa_openQuestions x))"
    by (rule value_read, fact f)+
  note rs = objects_read [OF r criterion_read, unfolded parsed_of.simps map_map comp_def]
  have keys: "sort (map fst m) = sort (map fst (members (qa_json x)))" using m(2) by (simp add: role_keys_def qa_json_def)
  have again: "validateQaArtifact (parsed_of (qa_json x)) = Inr x"
    unfolding validateQaArtifact_def using f [unfolded d] rs(2,3)
    by (simp del: attempt_Inr add: qa_json_def keys_again role_keys_def comp_def)
  show ?thesis
    unfolding read_as_def m(1)
    by (intro conjI object_norm [OF keys] again) (use rs(1) in \<open>simp_all add: qa_json_def d comp_def\<close>)
qed

lemma artifact_read:
  assumes "validateArtifact r v = Inr x"
  shows "read_as (validateArtifact r) artifact_json v x"
proof (cases r)
  case R_po
  with assms obtain y where y: "validatePoArtifact v = Inr y" "x = A_po y" by (auto simp: validateArtifact_def)
  from po_read [OF y(1)] show ?thesis by (simp add: R_po y(2) read_as_def artifact_json_def validateArtifact_def)
next
  case R_ba
  with assms obtain y where y: "validateBaArtifact v = Inr y" "x = A_ba y" by (auto simp: validateArtifact_def)
  from ba_read [OF y(1)] show ?thesis by (simp add: R_ba y(2) read_as_def artifact_json_def validateArtifact_def)
next
  case R_qa
  with assms obtain y where y: "validateQaArtifact v = Inr y" "x = A_qa y" by (auto simp: validateArtifact_def)
  from qa_read [OF y(1)] show ?thesis by (simp add: R_qa y(2) read_as_def artifact_json_def validateArtifact_def)
next
  case R_dev
  with assms obtain y where y: "validateDevArtifact v = Inr y" "x = A_dev y" by (auto simp: validateArtifact_def)
  from dev_read [OF y(1)] show ?thesis by (simp add: R_dev y(2) read_as_def artifact_json_def validateArtifact_def)
qed

section \<open>Evidence\<close>

lemma evidence_items_read:
  "evidence_items seen vs = Inr es \<Longrightarrow>
   map norm_parsed vs = map (\<lambda>e. norm_parsed (parsed_of (report_evidence_json e))) es
   \<and> evidence_items seen (map (\<lambda>e. parsed_of (report_evidence_json e)) es) = Inr es
   \<and> (\<forall>e \<in> set es. \<not> re_trusted e)"
proof (induction vs arbitrary: seen es)
  case (Cons v vs)
  from Cons.prems obtain m s es' where m: "v = P_object m" "sort (map fst m) = sort [''summary'', ''trusted'']"
    and s: "pr_assertText ''evidence_summary_invalid'' True 800 (own m ''summary'') = Inr s"
    and t: "own m ''trusted'' = P_bool False" "s \<notin> set seen"
    and es: "evidence_items (s # seen) vs = Inr es'" "es = \<lparr>re_summary = s, re_trusted = False\<rparr> # es'"
    by (auto simp: exactKeys_Inr)
  let ?e = "\<lparr>re_summary = s, re_trusted = False\<rparr>"
  have d: "own m ''summary'' = P_string s" using s by (rule value_read)
  have keys: "sort (map fst m) = sort (map fst (members (report_evidence_json ?e)))"
    using m(2) by (simp add: report_evidence_json_def)
  have "norm_parsed v = norm_parsed (parsed_of (report_evidence_json ?e))"
    unfolding m(1) by (rule object_norm [OF keys]) (simp_all add: report_evidence_json_def d t)
  moreover have "evidence_items seen (parsed_of (report_evidence_json ?e) # map (\<lambda>e. parsed_of (report_evidence_json e)) es')
      = Inr (?e # es')"
    using s [unfolded d] t Cons.IH [OF es(1)]
    by (simp del: attempt_Inr guard_Inr add: report_evidence_json_def keys_again)
  ultimately show ?case using Cons.IH [OF es(1)] by (simp add: es(2))
qed simp

lemma evidence_read:
  assumes "pr_validateEvidence v = Inr es"
  shows "norm_parsed v = norm_parsed (parsed_of (JArr (map report_evidence_json es)))"
    "pr_validateEvidence (parsed_of (JArr (map report_evidence_json es))) = Inr es"
    "\<forall>e \<in> set es. \<not> re_trusted e"
proof -
  from assms obtain vs where v: "v = P_array vs" "\<not> 40 < js_length vs" "evidence_items [] vs = Inr es"
    by (auto simp: pr_validateEvidence_def split: parsed.splits if_splits)
  note r = evidence_items_read [OF v(3)]
  have "length es = length vs" using r by (metis length_map)
  with r v show "norm_parsed v = norm_parsed (parsed_of (JArr (map report_evidence_json es)))"
    "pr_validateEvidence (parsed_of (JArr (map report_evidence_json es))) = Inr es" "\<forall>e \<in> set es. \<not> re_trusted e"
    by (simp_all add: pr_validateEvidence_def comp_def js_length_def)
qed

section \<open>Reports\<close>

lemma role_text_inj [simp]: "role_text a = role_text b \<longleftrightarrow> a = b"
  by (cases a; cases b) simp_all

lemma status_text_inj [simp]: "status_text a = status_text b \<longleftrightarrow> a = b"
  by (cases a; cases b) simp_all

lemma role_word: "report_word e role_text PLANNING_ROLE_REPORT_ROLES (P_string (role_text r)) = Inr r"
  by (cases r) (simp_all add: report_word_def PLANNING_ROLE_REPORT_ROLES_def)

lemma status_word: "report_word e status_text PLANNING_ROLE_REPORT_STATUSES (P_string (status_text r)) = Inr r"
  by (cases r) (simp_all add: report_word_def PLANNING_ROLE_REPORT_STATUSES_def)

lemma validate_report_Inr:
  assumes "validatePlanningRoleReport v expected = Inr r"
  obtains m where "v = P_object m" "sort (map fst m) = sort REPORT_KEYS"
    "own m ''version'' = P_number (Whole PLANNING_ROLE_REPORT_VERSION)" "pr_version r = PLANNING_ROLE_REPORT_VERSION"
    "report_pattern ''run_id_invalid'' planning_run_id_pattern (own m ''runId'') = Inr (pr_runId r)"
    "report_pattern ''plan_id_invalid'' plan_id_pattern (own m ''planId'') = Inr (pr_planId r)"
    "report_revision (own m ''planRevision'') = Inr (pr_planRevision r)"
    "report_word ''role_invalid'' role_text PLANNING_ROLE_REPORT_ROLES (own m ''role'') = Inr (pr_role r)"
    "report_pattern ''attempt_id_invalid'' planning_attempt_id_pattern (own m ''attemptId'') = Inr (pr_attemptId r)"
    "report_pattern ''input_digest_invalid'' digest_pattern (own m ''inputDigest'') = Inr (pr_inputDigest r)"
    "report_word ''status_invalid'' status_text PLANNING_ROLE_REPORT_STATUSES (own m ''status'') = Inr (pr_status r)"
    "validateArtifact (pr_role r) (own m ''artifact'') = Inr (pr_artifact r)"
    "pr_assertUniqueTextList ''challenges_invalid'' 40 800 (own m ''challenges'') = Inr (pr_challenges r)"
    "pr_validateEvidence (own m ''evidence'') = Inr (pr_evidence r)"
    "assertNoPrivatePlanningText (own m ''artifact'') = None"
    "assertNoPrivatePlanningText (own m ''challenges'') = None"
    "assertNoPrivatePlanningText (own m ''evidence'') = None"
    "validateExpected m expected = None"
    "persistedJsonBytes (report_json r) \<le> PLANNING_ROLE_REPORT_MAX_PERSISTED_BYTES"
  using assms unfolding validatePlanningRoleReport_def Let_def
  by (auto simp: exactKeys_Inr not_less intro!: that)

lemma no_private_norm:
  assumes "norm_parsed v = norm_parsed w"
  shows "assertNoPrivatePlanningText v = assertNoPrivatePlanningText w"
proof -
  have "set (strings_in v) = set (strings_in w)" using assms strings_in_norm by metis
  then show ?thesis by (simp add: assertNoPrivatePlanningText_def list_ex_iff)
qed

lemma expected_bindings:
  assumes "\<And>k. k \<in> set (map fst EXPECTED_ERROR_FIELDS) \<Longrightarrow> own m k = own lws k"
    and "validateExpected m expected = None"
  shows "validateExpected lws expected = None"
proof (cases expected)
  case (Some ws)
  with assms(2) have known: "\<forall>w \<in> set ws. fst w \<in> set (map fst EXPECTED_ERROR_FIELDS)"
    and equal: "\<forall>w \<in> set ws. own m (fst w) = snd w"
    by (auto simp: validateExpected_def list_ex_iff throws_None_iff split: if_splits prod.splits)
  with assms(1) have "\<forall>w \<in> set ws. own lws (fst w) = snd w" by metis
  with known Some show ?thesis
    by (auto simp: validateExpected_def list_ex_iff throws_None_iff split: prod.splits)
qed (simp add: validateExpected_def)

lemma report_read:
  assumes "validatePlanningRoleReport v expected = Inr r"
  shows "norm_parsed v = norm_parsed (parsed_of (report_json r))"
    "validatePlanningRoleReport (parsed_of (report_json r)) expected = Inr r"
proof -
  from assms obtain m where m: "v = P_object m" "sort (map fst m) = sort REPORT_KEYS"
    and version: "own m ''version'' = P_number (Whole PLANNING_ROLE_REPORT_VERSION)"
      "pr_version r = PLANNING_ROLE_REPORT_VERSION"
    and f: "report_pattern ''run_id_invalid'' planning_run_id_pattern (own m ''runId'') = Inr (pr_runId r)"
      "report_pattern ''plan_id_invalid'' plan_id_pattern (own m ''planId'') = Inr (pr_planId r)"
      "report_revision (own m ''planRevision'') = Inr (pr_planRevision r)"
      "report_word ''role_invalid'' role_text PLANNING_ROLE_REPORT_ROLES (own m ''role'') = Inr (pr_role r)"
      "report_pattern ''attempt_id_invalid'' planning_attempt_id_pattern (own m ''attemptId'') = Inr (pr_attemptId r)"
      "report_pattern ''input_digest_invalid'' digest_pattern (own m ''inputDigest'') = Inr (pr_inputDigest r)"
      "report_word ''status_invalid'' status_text PLANNING_ROLE_REPORT_STATUSES (own m ''status'') = Inr (pr_status r)"
      "pr_assertUniqueTextList ''challenges_invalid'' 40 800 (own m ''challenges'') = Inr (pr_challenges r)"
    and a: "validateArtifact (pr_role r) (own m ''artifact'') = Inr (pr_artifact r)"
    and e: "pr_validateEvidence (own m ''evidence'') = Inr (pr_evidence r)"
    and clean: "assertNoPrivatePlanningText (own m ''artifact'') = None"
      "assertNoPrivatePlanningText (own m ''challenges'') = None"
      "assertNoPrivatePlanningText (own m ''evidence'') = None"
    and expected: "validateExpected m expected = None"
    and size: "persistedJsonBytes (report_json r) \<le> PLANNING_ROLE_REPORT_MAX_PERSISTED_BYTES"
    by (rule validate_report_Inr)
  have d: "own m ''runId'' = P_string (pr_runId r)" "own m ''planId'' = P_string (pr_planId r)"
      "own m ''planRevision'' = P_number (Whole (pr_planRevision r))" "own m ''role'' = P_string (role_text (pr_role r))"
      "own m ''attemptId'' = P_string (pr_attemptId r)" "own m ''inputDigest'' = P_string (pr_inputDigest r)"
      "own m ''status'' = P_string (status_text (pr_status r))"
      "own m ''challenges'' = P_array (map P_string (pr_challenges r))"
    by (rule value_read, fact f)+
  note ar = artifact_read [OF a, unfolded read_as_def] and er = evidence_read [OF e]
  let ?lws = "map (map_prod (\<lambda>k. k) parsed_of) (members (report_json r))"
  have object: "parsed_of (report_json r) = P_object ?lws" by (simp add: report_json_def)
  have lws: "own ?lws ''artifact'' = parsed_of (artifact_json (pr_artifact r))"
    "own ?lws ''evidence'' = parsed_of (JArr (map report_evidence_json (pr_evidence r)))"
    "own ?lws ''version'' = P_number (Whole (pr_version r))"
    "own ?lws ''runId'' = own m ''runId''" "own ?lws ''planId'' = own m ''planId''"
    "own ?lws ''planRevision'' = own m ''planRevision''" "own ?lws ''role'' = own m ''role''"
    "own ?lws ''attemptId'' = own m ''attemptId''" "own ?lws ''inputDigest'' = own m ''inputDigest''"
    "own ?lws ''status'' = own m ''status''" "own ?lws ''challenges'' = own m ''challenges''"
    by (simp_all add: report_json_def d del: parsed_of.simps(5))
  have keys: "sort (map fst m) = sort (map fst (members (report_json r)))"
    using m(2) by (simp add: report_json_def REPORT_KEYS_def)
  show "norm_parsed v = norm_parsed (parsed_of (report_json r))"
    unfolding m(1)
    by (rule object_norm [OF keys])
      (use ar er(1) in \<open>simp_all add: report_json_def d version del: parsed_of.simps(5) norm_parsed.simps(5)\<close>)
  have exact: "pr_exactKeys (P_object ?lws) REPORT_KEYS x = Inr ?lws" for x
    by (rule keys_again) (simp add: report_json_def REPORT_KEYS_def)
  have expected': "validateExpected ?lws expected = None"
    by (rule expected_bindings [OF _ expected]) (auto simp: EXPECTED_ERROR_FIELDS_def lws)
  have clean': "assertNoPrivatePlanningText (own ?lws ''artifact'') = None"
      "assertNoPrivatePlanningText (own ?lws ''evidence'') = None"
    using clean(1,3) no_private_norm [OF conjunct1 [OF ar]] no_private_norm [OF er(1)] unfolding lws by simp_all
  have same: "\<lparr>pr_version = PLANNING_ROLE_REPORT_VERSION, pr_runId = pr_runId r, pr_planId = pr_planId r,
      pr_planRevision = pr_planRevision r, pr_role = pr_role r, pr_attemptId = pr_attemptId r,
      pr_inputDigest = pr_inputDigest r, pr_status = pr_status r, pr_artifact = pr_artifact r,
      pr_challenges = pr_challenges r, pr_evidence = pr_evidence r\<rparr> = r"
    using version(2) by (cases r) simp
  have fits: "(PLANNING_ROLE_REPORT_MAX_PERSISTED_BYTES < persistedJsonBytes (report_json r)) = False"
    using size by simp
  show "validatePlanningRoleReport (parsed_of (report_json r)) expected = Inr r"
    unfolding validatePlanningRoleReport_def object
    by (simp only: exact attempt.simps Let_def lws version(2) simp_thms throw_if_simps guard.simps f
        conjunct2 [OF ar] er(2) clean clean' [unfolded lws] expected' throws.simps same fits)
qed

end
