(* ===== verification/PlanningReportProperties.thy ===== *)
theory PlanningReportProperties
  imports PlanningReportFacts
begin

text \<open>
  The properties of role reports (planning-role-report.js): reading a final answer always returns,
  what the strict parser accepts, and what an accepted report says of the text it was read from.
\<close>

section \<open>Strict values\<close>

text \<open>A value without repeated member names and within the depth limit.\<close>

primrec strict_json :: "parsed \<Rightarrow> nat \<Rightarrow> bool" where
  "strict_json P_null = (\<lambda>d. d \<le> MAX_JSON_DEPTH)"
| "strict_json (P_bool b) = (\<lambda>d. d \<le> MAX_JSON_DEPTH)"
| "strict_json (P_number n) = (\<lambda>d. d \<le> MAX_JSON_DEPTH)"
| "strict_json (P_string s) = (\<lambda>d. d \<le> MAX_JSON_DEPTH)"
| "strict_json (P_array vs) = (\<lambda>d. d \<le> MAX_JSON_DEPTH \<and> list_all (\<lambda>f. f (d + 1)) (map strict_json vs))"
| "strict_json (P_object kvs) = (\<lambda>d. d \<le> MAX_JSON_DEPTH \<and> distinct (map fst kvs)
     \<and> list_all (\<lambda>kf. snd kf (d + 1)) (map (map_prod (\<lambda>k. k) strict_json) kvs))"

lemma strict_object: "strict_json (P_object kvs) d \<longleftrightarrow>
    d \<le> MAX_JSON_DEPTH \<and> distinct (map fst kvs) \<and> (\<forall>kv \<in> set kvs. strict_json (snd kv) (d + 1))"
  by (simp add: list_all_iff)

lemma strict_array: "strict_json (P_array vs) d \<longleftrightarrow> d \<le> MAX_JSON_DEPTH \<and> (\<forall>v \<in> set vs. strict_json v (d + 1))"
  by (simp add: list_all_iff)

declare strict_json.simps(5,6) [simp del]

lemma strict_atom_value:
  assumes "strict_atom t = Inr (v, r)" "d \<le> MAX_JSON_DEPTH"
  shows "strict_json v d"
  using assms by (auto simp: strict_atom_def strict_number_def Let_def split: if_splits option.splits prod.splits)

lemma parse_then_Inr:
  "parse_then p f = Some (Inr x) \<longleftrightarrow> (\<exists>v r. p = Some (Inr (v, r)) \<and> f v r = Some (Inr x))"
  by (cases "(p, f)" rule: parse_then.cases) auto

lemma strict_values:
  "(strict_value n d s = Some (Inr (v, r)) \<longrightarrow> strict_json v d)
   \<and> (strict_members n (d + 1) acc s = Some (Inr (v, r)) \<longrightarrow> strict_json (P_object acc) d \<longrightarrow> strict_json v d)
   \<and> (strict_items n (d + 1) items s = Some (Inr (v, r)) \<longrightarrow> strict_json (P_array items) d \<longrightarrow> strict_json v d)"
proof (induction n arbitrary: d s v r acc items)
  case (Suc n)
  note val = Suc.IH [THEN conjunct1, rule_format]
  note members = Suc.IH [THEN conjunct2, THEN conjunct1, rule_format]
  note its = Suc.IH [THEN conjunct2, THEN conjunct2, rule_format]
  show ?case
  proof (intro conjI impI)
    assume p: "strict_value (Suc n) d s = Some (Inr (v, r))"
    then have d: "d \<le> MAX_JSON_DEPTH" by (simp split: if_splits)
    then have none: "strict_json (P_object []) d" "strict_json (P_array []) d" by (simp_all add: strict_object strict_array)
    show "strict_json v d"
      using p d none members [of d "[]"] its [of d "[]"] strict_atom_value
      by (auto simp: Let_def split: if_splits)
  next
    assume p: "strict_members (Suc n) (d + 1) acc s = Some (Inr (v, r))" and acc: "strict_json (P_object acc) d"
    from p obtain key t u r' where key: "key \<notin> set (map fst acc)" and u: "strict_value n (d + 1) t = Some (Inr (u, r'))"
      and rest: "v = P_object (acc @ [(key, u)])
        \<or> (\<exists>t'. strict_members n (d + 1) (acc @ [(key, u)]) t' = Some (Inr (v, r)))"
      by (auto simp: parse_then_Inr Let_def split: sum.splits prod.splits if_splits) blast+
    have "strict_json (P_object (acc @ [(key, u)])) d"
      using acc key val [OF u] by (simp add: strict_object)
    with rest show "strict_json v d" using members by blast
  next
    assume p: "strict_items (Suc n) (d + 1) items s = Some (Inr (v, r))" and acc: "strict_json (P_array items) d"
    from p obtain u t r' where u: "strict_value n (d + 1) t = Some (Inr (u, r'))"
      and rest: "v = P_array (items @ [u]) \<or> (\<exists>t'. strict_items n (d + 1) (items @ [u]) t' = Some (Inr (v, r)))"
      by (auto simp: parse_then_Inr Let_def split: if_splits)
    have "strict_json (P_array (items @ [u])) d" using acc val [OF u] by (simp add: strict_array)
    with rest show "strict_json v d" using its by blast
  qed
qed simp

text \<open>C11: The strict parser accepts only strict values: in what it returns no object has two members of the
  same name, at any depth, and nothing is nested deeper than the limit. So a report cannot show one
  member to the validator and another to a later reader.\<close>

theorem strict_parse_is_strict:
  assumes "strictJsonParse s = Some (Inr v)"
  shows "strict_json v 0"
  using assms strict_values [of "parse_fuel s" 0 s v]
  by (auto simp: strictJsonParse_def parse_then_Inr split: if_splits)

theorem strict_parse_is_strict_witness: "strict_json (P_object [(''a'', P_array [P_bool True, P_null])]) 0"
proof (rule strict_parse_is_strict)
  show "strictJsonParse (''{ '' @ [CHR 0x22, CHR ''a'', CHR 0x22] @ '': [true, null] }'') = Some (Inr (P_object [(''a'', P_array [P_bool True, P_null])]))"
    by code_simp
qed

section \<open>Reading back\<close>

text \<open>Canonical JSON is read back by the strict parser: the text of a value with distinct member names,
  safe integers and a nesting within the limit parses to that value, with its members in order.\<close>

theorem strict_parse_reads_canonical:
  assumes "readable j 0"
  shows "strictJsonParse (canonicalJson j) = Some (Inr (parsed_of (norm_json j)))"
  using strict_parse_render [of "norm_json j"] assms by (simp add: canonicalJson_render readable_norm)

theorem strict_parse_reads_canonical_witness:
  "strictJsonParse (canonicalJson (JObj [(''b'', JNum 7), (''a'', JArr [JStr ''x'', JNull])]))
     = Some (Inr (parsed_of (norm_json (JObj [(''b'', JNum 7), (''a'', JArr [JStr ''x'', JNull])]))))"
  by (rule strict_parse_reads_canonical) code_simp

text \<open>Reading a report always returns: for every final answer the parser gives a report or an error,
  and so does the reader of a worker's final answer. The fuel of the parser is never used up.\<close>

theorem report_reading_returns:
  "(\<exists>x. parsePlanningRoleReport txt expected = Some x)
   \<and> (\<exists>x. readCodexPlanningRoleReport H marker wanted demand final = Some x)"
proof -
  have parse: "\<exists>x. parsePlanningRoleReport t e = Some x" for t e
    using strict_parse_returns by (auto simp: parsePlanningRoleReport_def Let_def)
  have "\<exists>x. readCodexPlanningRoleReport H marker wanted demand final = Some x"
  proof -
    have "\<exists>x. map_option f (parsePlanningRoleReport t e) = Some x" for f :: "_ \<Rightarrow> read_report option result" and t e
      using parse [of t e] by auto
    then show ?thesis
      by (auto simp: readCodexPlanningRoleReport_def Let_def split: option.split sum.split)
  qed
  with parse show ?thesis by blast
qed

section \<open>Accepted reports\<close>

definition sample_report :: planning_report where
  "sample_report = \<lparr>pr_version = 1, pr_runId = ''planning-run-12345678'', pr_planId = ''plan-12345678'',
     pr_planRevision = 1, pr_role = R_po, pr_attemptId = ''planning-attempt-12345678'',
     pr_inputDigest = replicate 63 CHR ''0'' @ ''a'', pr_status = S_complete,
     pr_artifact = A_po \<lparr>po_user = ''u'', po_problem = ''p'', po_outcome = ''o'', po_value = ''w'', po_nonGoals = [''n''],
       po_assumptions = [], po_openQuestions = []\<rparr>,
     pr_challenges = [''c''], pr_evidence = [\<lparr>re_summary = ''e'', re_trusted = False\<rparr>]\<rparr>"

definition sample_expected :: report_expected where
  "sample_expected = [(''runId'', P_string ''planning-run-12345678''), (''role'', P_string ''po'')]"

lemma sample_validates:
  "validatePlanningRoleReport (parsed_of (report_json sample_report)) (Some sample_expected) = Inr sample_report"
  by code_simp



definition report_text :: "planning_report \<Rightarrow> string" where
  "report_text r = OPEN_MARKER @ [CHR 0x0A] @ render (report_json r) @ [CHR 0x0A] @ CLOSE_MARKER"

text \<open>C21: A final answer with the JSON of a valid report between the two markers is read as that report, as
  long as the markers stand nowhere else in it and it fits the limit of a final answer.\<close>

theorem report_text_round_trip:
  assumes "validatePlanningRoleReport (parsed_of (report_json r)) expected = Inr r" "readable (report_json r) 0"
    and "occurrences OPEN_MARKER (report_text r) = 1" "occurrences CLOSE_MARKER (report_text r) = 1"
    and "utf8_length (report_text r) \<le> MAX_FINAL_ANSWER_BYTES"
  shows "parsePlanningRoleReport (report_text r) expected = Some (Inr r)"
proof -
  let ?j = "render (report_json r)" and ?p = "OPEN_MARKER @ [CHR 0x0A]" and ?s = "CHR 0x0A # CLOSE_MARKER"
  have whole: "report_text r = ?p @ ?j @ ?s" by (simp add: report_text_def)
  have parts: "starts_with ?p (report_text r)" "ends_with ?s (report_text r)"
    "take (length (report_text r) - length ?p - length ?s) (drop (length ?p) (report_text r)) = ?j"
    unfolding whole by (simp_all add: starts_with_iff ends_with_def)
  have "hd ?j = CHR ''{''" "?j \<noteq> []" by (simp_all add: report_json_def object_text_def)
  then show ?thesis
    using assms parts strict_parse_render [OF assms(2)]
    unfolding parsePlanningRoleReport_def Let_def by (simp only: if_False simp_thms not_less [symmetric]) simp
qed

theorem report_text_round_trip_witness:
  "parsePlanningRoleReport (report_text sample_report) (Some sample_expected) = Some (Inr sample_report)"
  by (rule report_text_round_trip [OF sample_validates]) code_simp+

end
