(* ===== verification/PlanningRunJson.thy ===== *)
theory PlanningRunJson
  imports PlanningRunData
begin

text \<open>
  The JSON of a planning run determines the run: the store compares runs, and recovers a
  write, by their canonical JSON.
\<close>

section \<open>Words\<close>

lemma role_word_inj [json_inj]: "role_text a = role_text b \<longleftrightarrow> a = b"
  "phase_word f = phase_word g \<longleftrightarrow> f = g" "condition_word k = condition_word l \<longleftrightarrow> k = l"
  subgoal by (cases a; cases b) simp_all
  subgoal by (cases f; cases g) simp_all
  subgoal by (cases k; cases l) simp_all
  done

lemma state_word_inj [json_inj]: "role_state_word q = role_state_word q' \<longleftrightarrow> q = q'"
  "attempt_state_word s = attempt_state_word s' \<longleftrightarrow> s = s'" "outcome_word c = outcome_word c' \<longleftrightarrow> c = c'"
  subgoal by (cases q; cases q') simp_all
  subgoal by (cases s; cases s') simp_all
  subgoal by (cases c; cases c') simp_all
  done

lemma lease_word_inj [json_inj]: "lease_state_word l = lease_state_word l' \<longleftrightarrow> l = l'"
  "lease_status_word s = lease_status_word s' \<longleftrightarrow> s = s'" "lease_cleanup_word c = lease_cleanup_word c' \<longleftrightarrow> c = c'"
  subgoal by (cases l; cases l') simp_all
  subgoal by (cases s; cases s') simp_all
  subgoal by (cases c; cases c') simp_all
  done

lemma cleanup_word_inj [json_inj]: "cleanup_word c = cleanup_word c' \<longleftrightarrow> c = c'"
  "recovery_word r = recovery_word r' \<longleftrightarrow> r = r'" "kind_word k = kind_word k' \<longleftrightarrow> k = k'"
  subgoal by (cases c; cases c') simp_all
  subgoal by (cases r; cases r') simp_all
  subgoal by (cases k; cases k') simp_all
  done

lemma apply_word_inj [json_inj]: "apply_word a = apply_word a' \<longleftrightarrow> a = a'"
  "blocker_word b = blocker_word b' \<longleftrightarrow> b = b'" "status_text s = status_text s' \<longleftrightarrow> s = s'"
  subgoal by (cases a; cases a') simp_all
  subgoal by (cases b; cases b') simp_all
  subgoal by (cases s; cases s') simp_all
  done

section \<open>Parts\<close>

lemma json_option_inj:
  assumes "faithful f" "\<And>x. norm_json (f x) \<noteq> JNull"
  shows "norm_json (json_option f a) = norm_json (json_option f b) \<longleftrightarrow> a = b"
  using assms(2) by (cases a; cases b) (simp_all add: json_option_def faithful_iff [OF assms(1)] eq_commute [of JNull])

lemma objects_inj: "faithful f \<Longrightarrow> norm_json (objects f xs) = norm_json (objects f ys) \<longleftrightarrow> xs = ys"
  by (simp add: objects_def faithful_list)

lemma lease_observed_faithful: "faithful lease_observed_json"
  unfolding lease_observed_json_def by (rule faithful_object) (auto simp: json_inj intro: lease_observed.equality)

lemma lease_cleanup_faithful: "faithful lease_cleanup_json"
  unfolding lease_cleanup_json_def by (rule faithful_object) (auto simp: json_inj intro: lease_cleanup.equality)

lemmas lease_part_inj [json_inj] = faithful_iff [OF lease_observed_faithful]
  json_option_inj [OF lease_cleanup_faithful, unfolded lease_cleanup_json_def, simplified, folded lease_cleanup_json_def]

lemma spawn_lease_faithful: "faithful spawn_lease_json"
  unfolding spawn_lease_json_def by (rule faithful_object) (auto simp: json_inj intro: spawn_lease.equality)

lemma cleanup_recovery_faithful: "faithful cleanup_recovery_json"
  unfolding cleanup_recovery_json_def by (rule faithful_object) (auto simp: json_inj intro: cleanup_recovery.equality)

lemmas cleanup_recovery_inj [json_inj] = objects_inj [OF cleanup_recovery_faithful]

lemma cleanup_faithful: "faithful cleanup_json"
  unfolding cleanup_json_def by (rule faithful_object) (auto simp: json_inj intro: cleanup.equality)

lemma object_json_option:
  assumes "faithful f" "\<And>x. \<exists>kvs. f x = JObj kvs"
  shows "norm_json (json_option f a) = norm_json (json_option f b) \<longleftrightarrow> a = b"
proof (rule json_option_inj [OF assms(1)])
  fix x obtain kvs where "f x = JObj kvs" using assms(2) by blast
  then show "norm_json (f x) \<noteq> JNull" by simp
qed

lemmas attempt_part_inj [json_inj] = faithful_iff [OF spawn_lease_faithful]
  object_json_option [OF cleanup_faithful, unfolded cleanup_json_def, simplified, folded cleanup_json_def]

lemma attempt_faithful: "faithful attempt_json"
  unfolding attempt_json_def by (rule faithful_object) (auto simp: json_inj intro: role_attempt.equality)

text \<open>An artifact's members tell its role.\<close>

primrec member_names :: "json \<Rightarrow> string set" where
  "member_names JNull = {}" | "member_names (JBool b) = {}" | "member_names (JNum n) = {}"
| "member_names (JStr s) = {}" | "member_names (JArr xs) = {}"
| "member_names (JObj kvs) = fst ` set kvs"

lemma member_names_norm [simp]: "member_names (norm_json j) = member_names j"
  by (cases j) (simp_all add: image_image)

fun role_member :: "role \<Rightarrow> string" where
  "role_member R_po = ''user''" | "role_member R_ba = ''requirements''"
| "role_member R_dev = ''architecture''" | "role_member R_qa = ''testStrategy''"

fun artifact_role :: "artifact \<Rightarrow> role" where
  "artifact_role (A_po x) = R_po" | "artifact_role (A_ba x) = R_ba"
| "artifact_role (A_dev x) = R_dev" | "artifact_role (A_qa x) = R_qa"

lemma artifact_names: "role_member r \<in> member_names (artifact_json a) \<longleftrightarrow> r = artifact_role a"
  by (cases a; cases r) (simp_all add: artifact_json_def po_json_def ba_json_def dev_json_def qa_json_def)

lemma artifact_faithful: "faithful artifact_json"
proof (rule faithfulI)
  fix a b assume eq: "norm_json (artifact_json a) = norm_json (artifact_json b)"
  then have "member_names (artifact_json a) = member_names (artifact_json b)" by (metis member_names_norm)
  then have "artifact_role a = artifact_role b" using artifact_names by metis
  with eq show "a = b"
    by (cases a; cases b) (simp_all add: artifact_json_def json_inj del: norm_json.simps)
qed

lemma report_evidence_faithful: "faithful report_evidence_json"
  unfolding report_evidence_json_def by (rule faithful_object) (auto simp: json_inj intro: report_evidence.equality)

lemmas report_part_inj [json_inj] = faithful_iff [OF artifact_faithful] faithful_list [OF report_evidence_faithful]
  objects_inj [OF attempt_faithful]

lemma report_faithful: "faithful report_json"
  unfolding report_json_def by (rule faithful_object) (auto simp: json_inj intro: planning_report.equality)

lemmas report_option_inj [json_inj] =
  object_json_option [OF report_faithful, unfolded report_json_def, simplified, folded report_json_def]

lemma role_record_faithful: "faithful role_record_json"
  unfolding role_record_json_def by (rule faithful_object) (auto simp: json_inj intro: role_record.equality)

lemma by_role_faithful:
  assumes "faithful f"
  shows "faithful (by_role_json f)"
  unfolding by_role_json_def
proof (rule faithful_object)
  fix a b :: "role \<Rightarrow> 'a"
  assume eq: "map (\<lambda>kv. norm_json (snd kv)) (map (\<lambda>r. (role_text r, f (a r))) DELIVERY_PLANNING_RUN_ROLES)
      = map (\<lambda>kv. norm_json (snd kv)) (map (\<lambda>r. (role_text r, f (b r))) DELIVERY_PLANNING_RUN_ROLES)"
  show "a = b"
  proof
    fix r show "a r = b r"
      using eq by (cases r) (simp_all add: DELIVERY_PLANNING_RUN_ROLES_def faithful_iff [OF assms])
  qed
qed (simp_all add: DELIVERY_PLANNING_RUN_ROLES_def)

lemma finding_faithful: "faithful finding_json"
  unfolding finding_json_def by (rule faithful_object) (auto simp: json_inj intro: finding.equality)

lemma trace_row_faithful: "faithful trace_row_json"
  unfolding trace_row_json_def by (rule faithful_object) (auto simp: json_inj intro: trace_row.equality)

lemmas readiness_part_inj [json_inj] = objects_inj [OF finding_faithful] objects_inj [OF trace_row_faithful]

lemma readiness_faithful: "faithful readiness_json"
  unfolding readiness_json_def by (rule faithful_object) (auto simp: json_inj intro: readiness.equality)

lemma definition_patch_faithful: "faithful definition_patch_json"
  unfolding definition_patch_json_def by (rule faithful_object) (auto simp: json_inj intro: definition_patch.equality)

lemmas candidate_part_inj [json_inj] = faithful_iff [OF readiness_faithful] faithful_iff [OF definition_patch_faithful]
  faithful_iff [OF by_role_faithful [OF faithful_JStr]]

lemma candidate_faithful: "faithful candidate_json"
  unfolding candidate_json_def by (rule faithful_object) (auto simp: json_inj intro: candidate.equality)

lemma apply_outbox_faithful: "faithful apply_outbox_json"
  unfolding apply_outbox_json_def by (rule faithful_object) (auto simp: json_inj intro: apply_outbox.equality)

lemma synthesis_blocker_faithful: "faithful synthesis_blocker_json"
  unfolding synthesis_blocker_json_def by (rule faithful_object) (auto simp: json_inj intro: synthesis_blocker.equality)

lemma continue_receipt_faithful: "faithful continue_receipt_json"
  unfolding continue_receipt_json_def by (rule faithful_object) (auto simp: json_inj intro: continue_receipt.equality)

section \<open>Runs\<close>

lemmas planning_run_part_inj [json_inj] = faithful_iff [OF plan_json_faithful]
  faithful_iff [OF by_role_faithful [OF role_record_faithful]] faithful_iff [OF apply_outbox_faithful]
  objects_inj [OF continue_receipt_faithful]
  object_json_option [OF candidate_faithful, unfolded candidate_json_def, simplified, folded candidate_json_def]
  object_json_option [OF synthesis_blocker_faithful, unfolded synthesis_blocker_json_def, simplified,
    folded synthesis_blocker_json_def]

lemma planning_run_faithful: "faithful planning_run_json"
  unfolding planning_run_json_def by (rule faithful_object) (auto simp: json_inj intro: planning_run.equality)

end
