(* ===== verification/DeliveryPlanningRunStore.thy ===== *)
theory DeliveryPlanningRunStore
  imports ReceiptRepository PlanningRunJson PlanningRunFacts
begin

text \<open>
  delivery-planning-run-store.js: the durable store of planning runs, the third instance of
  \<open>ReceiptStore\<close> and \<open>ReceiptRepository\<close>. Beyond what the other stores check, it bounds the
  JSON of each run and of each receipt by a slot, holds at most one run that is not over, and
  reserves the receipts and the bytes that this run may still need. This theory holds these
  checks, the lifecycle of consecutive receipts, the requests with their digests, and the
  operations of the repository.
\<close>

section \<open>Limits\<close>

definition DELIVERY_PLANNING_RUN_STORE_VERSION :: int where "DELIVERY_PLANNING_RUN_STORE_VERSION = 1"
definition PLANNING_MAX_RUNS :: nat where "PLANNING_MAX_RUNS = 64"
definition PLANNING_MAX_OPERATIONS :: nat where "PLANNING_MAX_OPERATIONS = 1024"
definition PLANNING_MAX_STORE_BYTES :: int where "PLANNING_MAX_STORE_BYTES = 32 * 1024 * 1024"
definition PLANNING_MAX_ACTIVE_RUNS :: nat where "PLANNING_MAX_ACTIVE_RUNS = 1"
definition BASE_GRAPH_MAX_OPERATIONS :: int where "BASE_GRAPH_MAX_OPERATIONS = 37"
definition CLEANUP_RECOVERY_EXTRA_MAX_OPERATIONS :: int where "CLEANUP_RECOVERY_EXTRA_MAX_OPERATIONS = 24"
definition CONTINUE_RECEIPT_MAX_OPERATIONS :: int where
  "CONTINUE_RECEIPT_MAX_OPERATIONS = MAX_RESOURCE_CONTINUE_RECEIPTS + MAX_CLEANUP_CONTINUE_RECEIPTS"
definition OPERATION_SAFETY_MARGIN :: int where "OPERATION_SAFETY_MARGIN = 4"
definition MAX_ACTIVE_OPERATION_FOOTPRINT :: int where
  "MAX_ACTIVE_OPERATION_FOOTPRINT = BASE_GRAPH_MAX_OPERATIONS + CLEANUP_RECOVERY_EXTRA_MAX_OPERATIONS
     + CONTINUE_RECEIPT_MAX_OPERATIONS + OPERATION_SAFETY_MARGIN"
definition CURRENT_RUN_SLOT_MAX_BYTES :: int where "CURRENT_RUN_SLOT_MAX_BYTES = 320 * 1024"
definition OPERATION_SLOT_MAX_BYTES :: int where "OPERATION_SLOT_MAX_BYTES = 384 * 1024"
definition PLANNING_MAX_REQUEST_BYTES :: int where "PLANNING_MAX_REQUEST_BYTES = 64 * 1024"
definition PLANNING_MAX_SUMMARY_ITEMS :: int where "PLANNING_MAX_SUMMARY_ITEMS = 128"

definition PLANNING_ACTIONS :: "string list" where
  "PLANNING_ACTIONS = map ((@) ''planning_run.'')
     [''create'', ''role_spawn_claim'', ''role_spawn_lease_bind'', ''role_spawn_lease_reconcile'',
      ''role_spawn_lease_close_absent'', ''role_spawn_lease_cleanup_claim'', ''role_spawn_lease_cleanup_sent'',
      ''role_spawn_lease_cleanup_complete'', ''role_dispatch_claim'', ''role_dispatched'', ''role_report'',
      ''resource_wait'', ''role_needs_input'', ''role_crash'', ''role_reconcile'', ''cleanup_claim'', ''cleanup_sent'',
      ''cleanup_complete'', ''cleanup_required'', ''cleanup_recover'', ''continue_authorize'', ''candidate_compile'',
      ''apply_claim'', ''applied'', ''apply_reconcile'', ''apply_abandon'', ''off_course'', ''cancel'']"

definition dns_error :: "string \<Rightarrow> error" where
  "dns_error suffix = Error (''delivery_planning_run_store_'' @ suffix)"

section \<open>Runs in the store\<close>

text \<open>
  Any error of the run's validator becomes the given one. The validator reads the clock only
  for a source plan without times, which it then refuses: the outcome does not depend on it.
\<close>

definition strictPlanningRun :: "host \<Rightarrow> error \<Rightarrow> planning_run \<Rightarrow> planning_run result" where
  "strictPlanningRun H e v =
     (case validateDeliveryPlanningRun H [] v of
        Inl cause \<Rightarrow> Inl e
      | Inr validated \<Rightarrow> guard (throws
          [throw_if (canonicalJson (planning_run_json validated) \<noteq> canonicalJson (planning_run_json v)) e,
           throw_if (PLANNING_RUN_MAX_BYTES < persistedJsonBytes (planning_run_json validated)) (dns_error ''run_too_large'')])
          (Inr validated))"

definition runIsTerminal :: "planning_run \<Rightarrow> bool" where
  "runIsTerminal run \<longleftrightarrow> pn_condition run = K_canceled \<or> pn_phase run \<in> {PH_applied, PH_closed}"

text \<open>The slots: the bytes of a run alone in a store, and of a receipt alone.\<close>

definition run_slot_bytes :: "json \<Rightarrow> int" where
  "run_slot_bytes j = persistedJsonBytes (JObj [(''runs'', JArr [j])])"

definition operation_slot_bytes :: "json \<Rightarrow> int" where
  "operation_slot_bytes j = persistedJsonBytes (JObj [(''operations'', JArr [j])])"

definition active_binding :: "planning_run \<Rightarrow> string" where
  "active_binding run = pn_planId run @ '':'' @ int_text (pn_planRevision run) @ '':'' @ pn_planDigest run"

definition active_bindings_check :: "planning_run list \<Rightarrow> error option" where
  "active_bindings_check runs =
     throw_if (\<not> distinct (map active_binding (filter (\<lambda>r. \<not> runIsTerminal r) runs)))
       (dns_error ''plan_binding_duplicate'')"

section \<open>The reservation for the active run\<close>

record reservation =
  rs_activeCount :: nat
  rs_operationHeadroom :: int
  rs_persistedByteHeadroom :: int

definition operationsForRun :: "planning_run receipt_store \<Rightarrow> string \<Rightarrow> nat" where
  "operationsForRun s i = length (filter (\<lambda>c. pn_id (rc_item c) = i) (st_operations s))"

definition remaining_operations :: "planning_run receipt_store \<Rightarrow> planning_run \<Rightarrow> int" where
  "remaining_operations s run = MAX_ACTIVE_OPERATION_FOOTPRINT - int (operationsForRun s (pn_id run))"

definition reserved_bytes :: "planning_run receipt_store \<Rightarrow> planning_run \<Rightarrow> int" where
  "reserved_bytes s run = (CURRENT_RUN_SLOT_MAX_BYTES - run_slot_bytes (planning_run_json run))
     + remaining_operations s run * OPERATION_SLOT_MAX_BYTES"

definition activeReservation :: "planning_run receipt_store \<Rightarrow> reservation result" where
  "activeReservation s =
     (let active = filter (\<lambda>r. \<not> runIsTerminal r) (st_items s) in
      guard (throws
        (throw_if (PLANNING_MAX_ACTIVE_RUNS < length active) (dns_error ''active_run_limit_reached'')
         # map (\<lambda>run. throw_if (MAX_ACTIVE_OPERATION_FOOTPRINT < int (operationsForRun s (pn_id run)))
             (dns_error ''active_operation_budget_exceeded'')) active))
      (Inr \<lparr>rs_activeCount = length active,
            rs_operationHeadroom = sum_list (map (remaining_operations s) active),
            rs_persistedByteHeadroom = sum_list (map (reserved_bytes s) active)\<rparr>))"

definition reservation_check :: "json \<Rightarrow> planning_run receipt_store \<Rightarrow> error option" where
  "reservation_check j s =
     (case activeReservation s of
        Inl e \<Rightarrow> Some e
      | Inr r \<Rightarrow> throws
          [throw_if (int PLANNING_MAX_OPERATIONS < int (length (st_operations s)) + rs_operationHeadroom r)
             (dns_error ''operation_reservation_unavailable''),
           throw_if (PLANNING_MAX_STORE_BYTES < persistedJsonBytes j) (dns_error ''too_large''),
           throw_if (PLANNING_MAX_STORE_BYTES < persistedJsonBytes j + rs_persistedByteHeadroom r)
             (dns_error ''byte_reservation_unavailable'')])"

section \<open>The lifecycle of consecutive receipts\<close>

definition immutableLease :: "spawn_lease \<Rightarrow> json" where
  "immutableLease l = JObj
     [(''leaseId'', JStr (lb_leaseId l)), (''session'', JStr (lb_session l)),
      (''contextDigest'', JStr (lb_contextDigest l)), (''scopeUnit'', JStr (lb_scopeUnit l)),
      (''scopeDigest'', JStr (lb_scopeDigest l)), (''launchDigest'', JStr (lb_launchDigest l)),
      (''bindDeadlineAt'', JStr (lb_bindDeadlineAt l)), (''claimedAt'', JStr (sl_claimedAt l))]"

definition bound_observation_json :: "lease_observed \<Rightarrow> json" where
  "bound_observation_json ob = JObj
     [(''sessionCreatedAt'', json_nullable (ob_sessionCreatedAt ob)), (''paneId'', JStr (ob_paneId ob)),
      (''tmuxPaneId'', JStr (ob_tmuxPaneId ob)), (''panePid'', json_option JNum (ob_panePid ob)),
      (''paneTty'', JStr (ob_paneTty ob)), (''boundAt'', json_nullable (ob_boundAt ob))]"

definition lease_cleanup_changed :: "lease_cleanup \<Rightarrow> lease_cleanup option \<Rightarrow> bool" where
  "lease_cleanup_changed p current =
     (case current of
        None \<Rightarrow> True
      | Some c \<Rightarrow> lc_claimId c \<noteq> lc_claimId p \<or> lc_action c \<noteq> lc_action p \<or> lc_claimedAt c \<noteq> lc_claimedAt p)"

definition attempt_binding_check :: "role_attempt \<Rightarrow> role_attempt \<Rightarrow> error option" where
  "attempt_binding_check p c =
     (let l = at_spawnLease p; m = at_spawnLease c in throws
       [throw_if (canonicalJson (immutableLease l) \<noteq> canonicalJson (immutableLease m))
          (dns_error ''spawn_lease_binding_changed''),
        throw_if (given_text (ob_boundAt (sl_observed l))
            \<and> canonicalJson (bound_observation_json (sl_observed l)) \<noteq> canonicalJson (bound_observation_json (sl_observed m)))
          (dns_error ''spawn_lease_observation_changed''),
        throw_if (case sl_cleanup l of None \<Rightarrow> False | Some d \<Rightarrow> lease_cleanup_changed d (sl_cleanup m))
          (dns_error ''spawn_lease_cleanup_changed''),
        throw_if (at_scopeUnit p \<noteq> [] \<and> (at_scopeUnit c \<noteq> at_scopeUnit p \<or> at_scopeDigest c \<noteq> at_scopeDigest p))
          (dns_error ''scope_binding_changed'')])"

definition role_binding_check :: "planning_run \<Rightarrow> planning_run \<Rightarrow> role \<Rightarrow> error option" where
  "role_binding_check previous snapshot r =
     (case latest_attempt (pn_roles previous r) of
        None \<Rightarrow> None
      | Some p \<Rightarrow>
          (case find (\<lambda>a. at_id a = at_id p) (ro_attempts (pn_roles snapshot r)) of
             None \<Rightarrow> Some (dns_error ''spawn_lease_binding_changed'')
           | Some c \<Rightarrow> attempt_binding_check p c))"

definition planning_binding_changed :: "planning_run \<Rightarrow> planning_run \<Rightarrow> bool" where
  "planning_binding_changed s p \<longleftrightarrow>
     pn_revision s \<noteq> pn_revision p + 1 \<or> pn_createdAt s \<noteq> pn_createdAt p \<or> pn_planId s \<noteq> pn_planId p
     \<or> pn_planRevision s \<noteq> pn_planRevision p \<or> pn_planDigest s \<noteq> pn_planDigest p
     \<or> pn_workspace s \<noteq> pn_workspace p \<or> pn_inputDigest s \<noteq> pn_inputDigest p
     \<or> canonicalJson (stored_baseline_json (pn_baseline s)) \<noteq> canonicalJson (stored_baseline_json (pn_baseline p))
     \<or> canonicalJson (plan_json (pn_sourcePlan s)) \<noteq> canonicalJson (plan_json (pn_sourcePlan p))
     \<or> runIsTerminal p"

definition planning_receipt_lifecycle :: "planning_run receipt \<Rightarrow> planning_run option \<Rightarrow> error option" where
  "planning_receipt_lifecycle c previous =
     (let s = rc_item c; invalid = dns_error ''operation_lifecycle_invalid'' in
      if rc_action c = ''planning_run.create''
      then throw_if (previous \<noteq> None \<or> pn_revision s \<noteq> 1) invalid
      else (case previous of
          None \<Rightarrow> Some invalid
        | Some p \<Rightarrow> throws
            (throw_if (planning_binding_changed s p) invalid
             # map (role_binding_check p s) DELIVERY_PLANNING_RUN_ROLES)))"

definition planning_module :: "host \<Rightarrow> planning_run store_module" where
  "planning_module H = \<lparr>md_family = ''planning_run'', md_noun = ''run'',
     md_version = DELIVERY_PLANNING_RUN_STORE_VERSION, md_maxItems = PLANNING_MAX_RUNS,
     md_maxOperations = PLANNING_MAX_OPERATIONS, md_maxBytes = PLANNING_MAX_STORE_BYTES,
     md_maxRequest = PLANNING_MAX_REQUEST_BYTES, md_actions = PLANNING_ACTIONS, md_id = pn_id,
     md_strict = strictPlanningRun H, md_lifecycle = planning_receipt_lifecycle, md_json = planning_run_json,
     md_itemLimit = (\<lambda>j. throw_if (CURRENT_RUN_SLOT_MAX_BYTES < run_slot_bytes j) (dns_error ''current_run_too_large'')),
     md_receiptLimit = (\<lambda>j. throw_if (OPERATION_SLOT_MAX_BYTES < operation_slot_bytes j) (dns_error ''operation_too_large'')),
     md_itemsRule = active_bindings_check, md_storeLimit = reservation_check\<rparr>"

lemma planning_module_simps [simp]:
  "md_family (planning_module H) = ''planning_run''" "md_noun (planning_module H) = ''run''"
  "md_version (planning_module H) = 1" "md_maxItems (planning_module H) = 64"
  "md_maxOperations (planning_module H) = 1024" "md_maxBytes (planning_module H) = PLANNING_MAX_STORE_BYTES"
  "md_maxRequest (planning_module H) = PLANNING_MAX_REQUEST_BYTES" "md_actions (planning_module H) = PLANNING_ACTIONS"
  "md_id (planning_module H) = pn_id" "md_strict (planning_module H) = strictPlanningRun H"
  "md_lifecycle (planning_module H) = planning_receipt_lifecycle" "md_json (planning_module H) = planning_run_json"
  "md_itemLimit (planning_module H) j = throw_if (CURRENT_RUN_SLOT_MAX_BYTES < run_slot_bytes j) (dns_error ''current_run_too_large'')"
  "md_receiptLimit (planning_module H) j = throw_if (OPERATION_SLOT_MAX_BYTES < operation_slot_bytes j) (dns_error ''operation_too_large'')"
  "md_itemsRule (planning_module H) = active_bindings_check" "md_storeLimit (planning_module H) = reservation_check"
  by (simp_all add: planning_module_def DELIVERY_PLANNING_RUN_STORE_VERSION_def PLANNING_MAX_RUNS_def
      PLANNING_MAX_OPERATIONS_def)

section \<open>The functions of the file that all stores share\<close>

abbreviation emptyDeliveryPlanningRunStore where "emptyDeliveryPlanningRunStore H \<equiv> emptyReceiptStore (planning_module H)"
abbreviation validatePlanningOperation where "validatePlanningOperation H \<equiv> validateReceipt (planning_module H)"
abbreviation validateDeliveryPlanningRunStore where
  "validateDeliveryPlanningRunStore H \<equiv> validateReceiptStore (planning_module H)"
abbreviation nextPlanningStore where "nextPlanningStore H \<equiv> nextStore (planning_module H)"
abbreviation planningOperationReplay where "planningOperationReplay H \<equiv> operationReplay (planning_module H)"
abbreviation assertPlanningStoreRevision where "assertPlanningStoreRevision H \<equiv> assertStoreRevision (planning_module H)"
abbreviation assertPlanningChronology where "assertPlanningChronology H \<equiv> assertChronology (planning_module H)"
abbreviation planningOperationId where "planningOperationId H \<equiv> st_operationId (planning_module H)"
abbreviation requestedPlanningRevision where "requestedPlanningRevision H \<equiv> requestedRevision (planning_module H)"
abbreviation planningRequestSnapshot where "planningRequestSnapshot H \<equiv> requestSnapshot (planning_module H)"
abbreviation planningTimestamp where "planningTimestamp H \<equiv> st_timestamp (planning_module H)"
abbreviation readPlanningStoreFile where "readPlanningStoreFile H \<equiv> readStoreFile (planning_module H)"
abbreviation poisonPlanningAfterCommittedWrite where
  "poisonPlanningAfterCommittedWrite H \<equiv> poisonAfterCommittedWrite (planning_module H)"
abbreviation recoverCommittedPlanningWrite where
  "recoverCommittedPlanningWrite H \<equiv> recoverCommittedWrite (planning_module H)"
abbreviation persistPlanningRuns where "persistPlanningRuns H \<equiv> persist (planning_module H)"
abbreviation loadPlanningRuns where "loadPlanningRuns H \<equiv> load (planning_module H)"
abbreviation ensurePlanningInitialized where "ensurePlanningInitialized H \<equiv> ensureInitialized (planning_module H)"
abbreviation afterPlanningMutations where "afterPlanningMutations H \<equiv> afterMutations (planning_module H)"
abbreviation mutatePlanningRuns where "mutatePlanningRuns H \<equiv> mutate (planning_module H)"

section \<open>Capacity\<close>

record store_capacity =
  sc_persistedBytes :: int
  sc_reservedPersistedBytes :: int
  sc_operationCount :: nat
  sc_reservedOperations :: int
  sc_activeRunCount :: nat
  sc_maximumPersistedBytes :: int
  sc_maximumOperations :: nat

definition deliveryPlanningRunStoreCapacity :: "host \<Rightarrow> planning_run receipt_store \<Rightarrow> store_capacity result" where
  "deliveryPlanningRunStoreCapacity H v =
     attempt (validateDeliveryPlanningRunStore H v) (\<lambda>s.
     attempt (activeReservation s) (\<lambda>r. Inr
       \<lparr>sc_persistedBytes = persistedJsonBytes (store_json (planning_module H) s),
        sc_reservedPersistedBytes = rs_persistedByteHeadroom r, sc_operationCount = length (st_operations s),
        sc_reservedOperations = rs_operationHeadroom r, sc_activeRunCount = rs_activeCount r,
        sc_maximumPersistedBytes = PLANNING_MAX_STORE_BYTES, sc_maximumOperations = PLANNING_MAX_OPERATIONS\<rparr>))"

text \<open>The bytes of a new run and of all its receipts.\<close>

definition projected_reservation :: int where
  "projected_reservation = CURRENT_RUN_SLOT_MAX_BYTES + MAX_ACTIVE_OPERATION_FOOTPRINT * OPERATION_SLOT_MAX_BYTES"

definition assertPlanningCapacity :: "host \<Rightarrow> planning_run receipt_store \<Rightarrow> bool \<Rightarrow> error option" where
  "assertPlanningCapacity H s createsRun =
     (case deliveryPlanningRunStoreCapacity H s of
        Inl e \<Rightarrow> Some e
      | Inr c \<Rightarrow> throws
          [throw_if (PLANNING_MAX_OPERATIONS \<le> sc_operationCount c) (dns_error ''operation_limit_reached''),
           throw_if (createsRun \<and> PLANNING_MAX_RUNS \<le> length (st_items s)) (dns_error ''run_limit_reached''),
           throw_if (createsRun \<and> PLANNING_MAX_ACTIVE_RUNS \<le> sc_activeRunCount c) (dns_error ''active_run_limit_reached''),
           throw_if (createsRun \<and> int PLANNING_MAX_OPERATIONS < int (sc_operationCount c) + MAX_ACTIVE_OPERATION_FOOTPRINT)
             (dns_error ''operation_reservation_unavailable''),
           throw_if (createsRun \<and> PLANNING_MAX_STORE_BYTES < sc_persistedBytes c + projected_reservation)
             (dns_error ''byte_reservation_unavailable'')])"

section \<open>Requests\<close>

text \<open>
  One constructor per method of the repository. A report is any JSON value; a number in it is
  an integer, since the only numbers of a report are its version and the revision of its plan.
\<close>

datatype planning_change =
    N_claimRoleSpawn role string lease_binding
  | N_bindRoleSpawnLease role string lease_reference pane_observation
  | N_markRoleSpawnLeaseReconcileRequired role string lease_reference string string
  | N_closeRoleSpawnLeaseAbsent role string lease_reference string string
  | N_claimRoleSpawnLeaseCleanup role string string string string bool
  | N_markRoleSpawnLeaseCleanupSent role string string string
  | N_markRoleSpawnLeaseCleanupComplete role string lease_reference string string string
  | N_claimRoleDispatch role string string dispatch_input
  | N_markRoleDispatched role string
  | N_recordRoleReport role string json string
  | N_markResourceWait role string
  | N_markRoleNeedsInput role string string
  | N_markRoleCrash role string string
  | N_markRoleReconcileRequired role string string
  | N_claimRoleCleanup role string string
  | N_markRoleCleanupSent role string
  | N_markRoleCleanupComplete role string
  | N_markRoleCleanupRequired role string string
  | N_recoverRoleCleanup role string recovery_outcome string
  | N_authorizeContinue continue_kind role string string recovery_outcome
  | N_compileCandidate
  | N_claimApply string string
  | N_markApplied string string int string
  | N_markApplyReconcileRequired string string
  | N_abandonApply string string string string
  | N_markOffCourse string
  | N_cancel bool string

record planning_change_request =
  nq_runId :: string
  nq_operationId :: string
  nq_expectedStoreRevision :: int
  nq_expectedRunRevision :: int
  nq_change :: planning_change

text \<open>The identifier of the new run may be left out or empty.\<close>

record planning_run_input =
  ni_id :: "string option"
  ni_sourcePlan :: delivery_plan

record planning_create_request =
  ncq_operationId :: string
  ncq_expectedStoreRevision :: int
  ncq_run :: planning_run_input

definition planningRunId :: "string \<Rightarrow> string result" where
  "planningRunId value =
     (let r = to_lower (js_trim value) in
      guard (throw_if (\<not> planning_run_id_pattern r) (dns_error ''run_id_invalid'')) (Inr r))"

section \<open>The JSON of requests\<close>

definition role_members :: "role \<Rightarrow> string \<Rightarrow> (string \<times> json) list" where
  "role_members r i = [(''role'', JStr (role_text r)), (''attemptId'', JStr i)]"

definition reference_members :: "lease_reference \<Rightarrow> (string \<times> json) list" where
  "reference_members ref =
     [(''leaseId'', JStr (lr_leaseId ref)), (''scopeUnit'', JStr (lr_scopeUnit ref)), (''scopeDigest'', JStr (lr_scopeDigest ref))]"

definition observation_members :: "string \<Rightarrow> string \<Rightarrow> (string \<times> json) list" where
  "observation_members ob e = [(''observation'', JStr ob), (''reason'', JStr e)]"

definition pane_observation_json :: "pane_observation \<Rightarrow> json" where
  "pane_observation_json p = JObj
     [(''sessionCreatedAt'', JStr (pane_sessionCreatedAt p)), (''paneId'', JStr (pane_paneId p)),
      (''tmuxPaneId'', JStr (pane_tmuxPaneId p)), (''panePid'', JNum (pane_panePid p)),
      (''paneTty'', JStr (pane_paneTty p))]"

definition worker_json :: "worker \<Rightarrow> json" where
  "worker_json w = JObj
     [(''session'', JStr (wk_session w)), (''sessionCreatedAt'', JStr (wk_sessionCreatedAt w)),
      (''paneId'', JStr (wk_paneId w)), (''tmuxPaneId'', JStr (wk_tmuxPaneId w)), (''panePid'', JNum (wk_panePid w)),
      (''paneTty'', JStr (wk_paneTty w)), (''codexPid'', JNum (wk_codexPid w)), (''rolloutId'', JStr (wk_rolloutId w)),
      (''sourceId'', JStr (wk_sourceId w)), (''commandDigest'', JStr (wk_commandDigest w)),
      (''scopeUnit'', JStr (wk_scopeUnit w)), (''scopeDigest'', JStr (wk_scopeDigest w))]"

definition dispatch_members :: "dispatch_input \<Rightarrow> (string \<times> json) list" where
  "dispatch_members d =
     [(''worker'', worker_json (di_worker d)), (''rolloutPath'', JStr (di_rolloutPath d)),
      (''rolloutStartOffset'', JNum (di_rolloutStartOffset d)),
      (''confirmationMarker'', JStr (di_confirmationMarker d)), (''promptDigest'', JStr (di_promptDigest d))]"

fun planning_members :: "planning_change \<Rightarrow> (string \<times> json) list" where
  "planning_members (N_claimRoleSpawn r i b) = role_members r i @ [(''spawnLease'', lease_binding_json b)]"
| "planning_members (N_bindRoleSpawnLease r i ref p) =
     role_members r i @ reference_members ref @ [(''observed'', pane_observation_json p)]"
| "planning_members (N_markRoleSpawnLeaseReconcileRequired r i ref ob e) =
     role_members r i @ reference_members ref @ observation_members ob e"
| "planning_members (N_closeRoleSpawnLeaseAbsent r i ref ob e) =
     role_members r i @ reference_members ref @ observation_members ob e"
| "planning_members (N_claimRoleSpawnLeaseCleanup r i l c act ok) = role_members r i @
     [(''leaseId'', JStr l), (''claimId'', JStr c), (''action'', JStr act), (''operatorConfirmed'', JBool ok)]"
| "planning_members (N_markRoleSpawnLeaseCleanupSent r i l c) =
     role_members r i @ [(''leaseId'', JStr l), (''claimId'', JStr c)]"
| "planning_members (N_markRoleSpawnLeaseCleanupComplete r i ref c ob e) =
     role_members r i @ reference_members ref @ [(''claimId'', JStr c)] @ observation_members ob e"
| "planning_members (N_claimRoleDispatch r i l d) = role_members r i @ [(''leaseId'', JStr l)] @ dispatch_members d"
| "planning_members (N_markRoleDispatched r i) = role_members r i"
| "planning_members (N_recordRoleReport r i x d) = role_members r i @ [(''report'', x), (''outputDigest'', JStr d)]"
| "planning_members (N_markResourceWait r e) = [(''role'', JStr (role_text r)), (''reason'', JStr e)]"
| "planning_members (N_markRoleNeedsInput r i e) = role_members r i @ [(''reason'', JStr e)]"
| "planning_members (N_markRoleCrash r i e) = role_members r i @ [(''reason'', JStr e)]"
| "planning_members (N_markRoleReconcileRequired r i e) = role_members r i @ [(''reason'', JStr e)]"
| "planning_members (N_claimRoleCleanup r i c) = role_members r i @ [(''claimId'', JStr c)]"
| "planning_members (N_markRoleCleanupSent r i) = role_members r i"
| "planning_members (N_markRoleCleanupComplete r i) = role_members r i"
| "planning_members (N_markRoleCleanupRequired r i e) = role_members r i @ [(''error'', JStr e)]"
| "planning_members (N_recoverRoleCleanup r i out c) =
     role_members r i @ [(''outcome'', JStr (recovery_word out)), (''claimId'', JStr c)]"
| "planning_members (N_authorizeContinue k r i c out) = [(''kind'', JStr (kind_word k))] @ role_members r i @
     [(''claimId'', JStr c), (''cleanupRecoveryOutcome'', JStr (recovery_word out))]"
| "planning_members N_compileCandidate = []"
| "planning_members (N_claimApply c d) = [(''claimId'', JStr c), (''candidateDigest'', JStr d)]"
| "planning_members (N_markApplied c d n pd) = [(''claimId'', JStr c), (''candidateDigest'', JStr d),
     (''appliedPlanRevision'', JNum n), (''appliedPlanDigest'', JStr pd)]"
| "planning_members (N_markApplyReconcileRequired c e) = [(''claimId'', JStr c), (''error'', JStr e)]"
| "planning_members (N_abandonApply c d ob e) =
     [(''claimId'', JStr c), (''candidateDigest'', JStr d)] @ observation_members ob e"
| "planning_members (N_markOffCourse e) = [(''reason'', JStr e)]"
| "planning_members (N_cancel ok e) = [(''operatorConfirmed'', JBool ok), (''reason'', JStr e)]"

text \<open>The action of a change, and the operation of delivery-planning-run.js that its mutator calls.\<close>

fun planning_action :: "planning_change \<Rightarrow> string" where
  "planning_action (N_claimRoleSpawn r i b) = ''planning_run.role_spawn_claim''"
| "planning_action (N_bindRoleSpawnLease r i ref p) = ''planning_run.role_spawn_lease_bind''"
| "planning_action (N_markRoleSpawnLeaseReconcileRequired r i ref ob e) = ''planning_run.role_spawn_lease_reconcile''"
| "planning_action (N_closeRoleSpawnLeaseAbsent r i ref ob e) = ''planning_run.role_spawn_lease_close_absent''"
| "planning_action (N_claimRoleSpawnLeaseCleanup r i l c act ok) = ''planning_run.role_spawn_lease_cleanup_claim''"
| "planning_action (N_markRoleSpawnLeaseCleanupSent r i l c) = ''planning_run.role_spawn_lease_cleanup_sent''"
| "planning_action (N_markRoleSpawnLeaseCleanupComplete r i ref c ob e) = ''planning_run.role_spawn_lease_cleanup_complete''"
| "planning_action (N_claimRoleDispatch r i l d) = ''planning_run.role_dispatch_claim''"
| "planning_action (N_markRoleDispatched r i) = ''planning_run.role_dispatched''"
| "planning_action (N_recordRoleReport r i x d) = ''planning_run.role_report''"
| "planning_action (N_markResourceWait r e) = ''planning_run.resource_wait''"
| "planning_action (N_markRoleNeedsInput r i e) = ''planning_run.role_needs_input''"
| "planning_action (N_markRoleCrash r i e) = ''planning_run.role_crash''"
| "planning_action (N_markRoleReconcileRequired r i e) = ''planning_run.role_reconcile''"
| "planning_action (N_claimRoleCleanup r i c) = ''planning_run.cleanup_claim''"
| "planning_action (N_markRoleCleanupSent r i) = ''planning_run.cleanup_sent''"
| "planning_action (N_markRoleCleanupComplete r i) = ''planning_run.cleanup_complete''"
| "planning_action (N_markRoleCleanupRequired r i e) = ''planning_run.cleanup_required''"
| "planning_action (N_recoverRoleCleanup r i out c) = ''planning_run.cleanup_recover''"
| "planning_action (N_authorizeContinue k r i c out) = ''planning_run.continue_authorize''"
| "planning_action N_compileCandidate = ''planning_run.candidate_compile''"
| "planning_action (N_claimApply c d) = ''planning_run.apply_claim''"
| "planning_action (N_markApplied c d n pd) = ''planning_run.applied''"
| "planning_action (N_markApplyReconcileRequired c e) = ''planning_run.apply_reconcile''"
| "planning_action (N_abandonApply c d ob e) = ''planning_run.apply_abandon''"
| "planning_action (N_markOffCourse e) = ''planning_run.off_course''"
| "planning_action (N_cancel ok e) = ''planning_run.cancel''"

text \<open>What the repository adds to a change: its identifier and the revisions it expects.\<close>

record mutation_context =
  mc_operationId :: string
  mc_expectedStoreRevision :: int
  mc_expectedRunRevision :: int

fun planning_operation_of :: "mutation_context \<Rightarrow> planning_change \<Rightarrow> planning_operation" where
  "planning_operation_of m (N_claimRoleSpawn r i b) = ClaimSpawn r i b"
| "planning_operation_of m (N_bindRoleSpawnLease r i ref p) = BindLease r i ref p"
| "planning_operation_of m (N_markRoleSpawnLeaseReconcileRequired r i ref ob e) = LoseLease r i ref ob e"
| "planning_operation_of m (N_closeRoleSpawnLeaseAbsent r i ref ob e) = CloseLease r i ref ob e"
| "planning_operation_of m (N_claimRoleSpawnLeaseCleanup r i l c act ok) = ClaimStop r i l c act ok"
| "planning_operation_of m (N_markRoleSpawnLeaseCleanupSent r i l c) = SendStop r i l c"
| "planning_operation_of m (N_markRoleSpawnLeaseCleanupComplete r i ref c ob e) = CompleteStop r i ref c ob e"
| "planning_operation_of m (N_claimRoleDispatch r i l d) = ClaimDispatch r i l d"
| "planning_operation_of m (N_markRoleDispatched r i) = MarkDispatched r i"
| "planning_operation_of m (N_recordRoleReport r i x d) = RecordReport r i (parsed_of x) d"
| "planning_operation_of m (N_markResourceWait r e) = ResourceWait r e"
| "planning_operation_of m (N_markRoleNeedsInput r i e) = EndUnreported r i e U_needs_input"
| "planning_operation_of m (N_markRoleCrash r i e) = EndUnreported r i e U_crashed"
| "planning_operation_of m (N_markRoleReconcileRequired r i e) = EndUnreported r i e U_reconcile_required"
| "planning_operation_of m (N_claimRoleCleanup r i c) = ClaimCleanup r i c"
| "planning_operation_of m (N_markRoleCleanupSent r i) = SendCleanup r i"
| "planning_operation_of m (N_markRoleCleanupComplete r i) = CompleteCleanup r i"
| "planning_operation_of m (N_markRoleCleanupRequired r i e) = LoseCleanup r i e"
| "planning_operation_of m (N_recoverRoleCleanup r i out c) = RecoverCleanup r i out c"
| "planning_operation_of m (N_authorizeContinue k r i c out) = Continue
     \<lparr>ci_operationId = mc_operationId m, ci_kind = k, ci_role = r, ci_attemptId = i, ci_claimId = c,
      ci_cleanupRecoveryOutcome = out, ci_requestedStoreRevision = mc_expectedStoreRevision m,
      ci_requestedRunRevision = mc_expectedRunRevision m\<rparr>"
| "planning_operation_of m N_compileCandidate = CompileCandidate"
| "planning_operation_of m (N_claimApply c d) = ClaimApply c d"
| "planning_operation_of m (N_markApplied c d n pd) = MarkApplied c d n pd"
| "planning_operation_of m (N_markApplyReconcileRequired c e) = LoseApply c e"
| "planning_operation_of m (N_abandonApply c d ob e) = AbandonApply c d ob e"
| "planning_operation_of m (N_markOffCourse e) = GoOffCourse e"
| "planning_operation_of m (N_cancel ok e) = CancelRun ok e"

section \<open>Prepared mutations\<close>

text \<open>What is known of a mutation before it enters the queue.\<close>

record prepared_planning =
  np_id :: string
  np_digest :: string
  np_storeRevision :: int

record prepared_planning_change = prepared_planning +
  np_runId :: string
  np_runRevision :: int
  np_change :: planning_change

record prepared_planning_create = prepared_planning +
  np_run :: planning_run_input

datatype planning_mutation = NM_create prepared_planning_create | NM_change prepared_planning_change

definition preparePlanningChange :: "host \<Rightarrow> planning_change_request \<Rightarrow> prepared_planning_change result" where
  "preparePlanningChange H q =
     attempt (planningRunId (nq_runId q)) (\<lambda>wanted.
     attempt (planningOperationId H (nq_operationId q)) (\<lambda>i.
     attempt (requestedPlanningRevision H (nq_expectedStoreRevision q) ''expected_store_revision'' 0) (\<lambda>sr.
     attempt (requestedPlanningRevision H (nq_expectedRunRevision q) ''expected_run_revision'' 1) (\<lambda>rr.
     attempt (planningRequestSnapshot H H (JObj
         ([(''runId'', JStr wanted), (''expectedStoreRevision'', JNum sr), (''expectedRunRevision'', JNum rr)]
          @ planning_members (nq_change q)))) (\<lambda>digest.
     Inr \<lparr>np_id = i, np_digest = digest, np_storeRevision = sr, np_runId = wanted,
          np_runRevision = rr, np_change = nq_change q\<rparr>)))))"

definition planning_run_input_json :: "planning_run_input \<Rightarrow> json" where
  "planning_run_input_json v = JObj (given ''id'' JStr (ni_id v) @ [(''sourcePlan'', plan_json (ni_sourcePlan v))])"

definition preparePlanningCreate :: "host \<Rightarrow> planning_create_request \<Rightarrow> prepared_planning_create result" where
  "preparePlanningCreate H q =
     attempt (planningOperationId H (ncq_operationId q)) (\<lambda>i.
     attempt (requestedPlanningRevision H (ncq_expectedStoreRevision q) ''expected_store_revision'' 0) (\<lambda>sr.
     attempt (planningRequestSnapshot H H (JObj
         [(''expectedStoreRevision'', JNum sr), (''run'', planning_run_input_json (ncq_run q))])) (\<lambda>digest.
     Inr \<lparr>np_id = i, np_digest = digest, np_storeRevision = sr, np_run = ncq_run q\<rparr>)))"

section \<open>Decisions\<close>

definition planning_reply :: "planning_run receipt_store \<Rightarrow> planning_run \<Rightarrow> planning_run reply" where
  "planning_reply s run = \<lparr>ry_replayed = False, ry_storeRevision = st_revision s + 1, ry_item = run\<rparr>"

definition change_context :: "prepared_planning_change \<Rightarrow> mutation_context" where
  "change_context p = \<lparr>mc_operationId = np_id p, mc_expectedStoreRevision = np_storeRevision p,
     mc_expectedRunRevision = np_runRevision p\<rparr>"

definition freshPlanningChange ::
  "host \<Rightarrow> prepared_planning_change \<Rightarrow> planning_run environment \<Rightarrow> planning_run receipt_store \<Rightarrow>
   planning_run decision result" where
  "freshPlanningChange H p env s =
     guard (throws
       [assertPlanningStoreRevision H s (np_storeRevision p), assertPlanningCapacity H s False])
     (case find (\<lambda>c. pn_id c = np_runId p) (st_items s) of
        None \<Rightarrow> Inl (dns_error ''run_not_found'')
      | Some run \<Rightarrow>
          guard (throw_if (pn_revision run \<noteq> np_runRevision p) (dns_error ''run_revision_conflict''))
         (attempt (planningTimestamp H (en_now env)) (\<lambda>at.
          guard (assertPlanningChronology H s at)
         (attempt (apply_planning H at (planning_operation_of (change_context p) (np_change p)) at run) (\<lambda>r.
          attempt (nextPlanningStore H s (np_id p) (planning_action (np_change p)) (np_digest p) at r)
            (\<lambda>t. Inr (Commit t (planning_reply s r))))))))"

definition decidePlanningChange ::
  "host \<Rightarrow> prepared_planning_change \<Rightarrow> planning_run environment \<Rightarrow> planning_run receipt_store \<Rightarrow>
   planning_run decision result" where
  "decidePlanningChange H p env s =
     attempt (planningOperationReplay H s (np_id p) (planning_action (np_change p)) (np_digest p))
       (\<lambda>replay. case replay of Some y \<Rightarrow> Inr (Replay y) | None \<Rightarrow> freshPlanningChange H p env s)"

definition same_active_binding :: "planning_run \<Rightarrow> planning_run \<Rightarrow> bool" where
  "same_active_binding run c \<longleftrightarrow> \<not> runIsTerminal c \<and> pn_planId c = pn_planId run
     \<and> pn_planRevision c = pn_planRevision run \<and> pn_planDigest c = pn_planDigest run"

definition freshPlanningCreate ::
  "host \<Rightarrow> prepared_planning_create \<Rightarrow> planning_run environment \<Rightarrow> planning_run receipt_store \<Rightarrow>
   planning_run decision result" where
  "freshPlanningCreate H p env s =
     guard (assertPlanningStoreRevision H s (np_storeRevision p))
    (attempt (planningTimestamp H (en_now env)) (\<lambda>at.
     guard (assertPlanningChronology H s at)
    (attempt (planningRunId (case ni_id (np_run p) of
         Some x \<Rightarrow> if x = [] then en_newId env else x | None \<Rightarrow> en_newId env)) (\<lambda>candidateId.
     guard (throw_if (list_ex (\<lambda>c. pn_id c = candidateId) (st_items s)) (dns_error ''run_duplicate''))
    (attempt (createDeliveryPlanningRun H at candidateId (ni_sourcePlan (np_run p)) at) (\<lambda>run.
     guard (throws
       [throw_if (list_ex (same_active_binding run) (st_items s)) (dns_error ''plan_binding_duplicate''),
        assertPlanningCapacity H s True])
    (attempt (nextPlanningStore H s (np_id p) ''planning_run.create'' (np_digest p) at run)
       (\<lambda>t. Inr (Commit t (planning_reply s run))))))))))"

definition decidePlanningCreate ::
  "host \<Rightarrow> prepared_planning_create \<Rightarrow> planning_run environment \<Rightarrow> planning_run receipt_store \<Rightarrow>
   planning_run decision result" where
  "decidePlanningCreate H p env s =
     attempt (planningOperationReplay H s (np_id p) ''planning_run.create'' (np_digest p))
       (\<lambda>replay. case replay of Some y \<Rightarrow> Inr (Replay y) | None \<Rightarrow> freshPlanningCreate H p env s)"

fun planning_identity :: "planning_mutation \<Rightarrow> string \<times> string \<times> string" where
  "planning_identity (NM_create p) = (np_id p, ''planning_run.create'', np_digest p)"
| "planning_identity (NM_change p) = (np_id p, planning_action (np_change p), np_digest p)"

fun planning_decide ::
  "host \<Rightarrow> planning_mutation \<Rightarrow> planning_run environment \<Rightarrow> planning_run receipt_store \<Rightarrow>
   planning_run decision result" where
  "planning_decide H (NM_create p) env s = decidePlanningCreate H p env s"
| "planning_decide H (NM_change p) env s = decidePlanningChange H p env s"

fun planning_fresh ::
  "host \<Rightarrow> planning_mutation \<Rightarrow> planning_run environment \<Rightarrow> planning_run receipt_store \<Rightarrow>
   planning_run decision result" where
  "planning_fresh H (NM_create p) env s = freshPlanningCreate H p env s"
| "planning_fresh H (NM_change p) env s = freshPlanningChange H p env s"

section \<open>The repository's operations\<close>

type_synonym planning_repository = "planning_run repository"

definition performPlanningMutation ::
  "host \<Rightarrow> planning_run environment \<Rightarrow> planning_change_request \<Rightarrow> planning_repository \<Rightarrow>
   planning_run reply result \<times> planning_repository" where
  "performPlanningMutation H env q repo =
     (case preparePlanningChange H q of
        Inl e \<Rightarrow> (Inl e, repo)
      | Inr p \<Rightarrow> mutatePlanningRuns H env (planning_decide H (NM_change p) env) repo)"

definition create_planning_run ::
  "host \<Rightarrow> planning_run environment \<Rightarrow> planning_create_request \<Rightarrow> planning_repository \<Rightarrow>
   planning_run reply result \<times> planning_repository" where
  "create_planning_run H env q repo =
     (case preparePlanningCreate H q of
        Inl e \<Rightarrow> (Inl e, repo)
      | Inr p \<Rightarrow> mutatePlanningRuns H env (planning_decide H (NM_create p) env) repo)"

text \<open>Any mutating request, and what it becomes before it enters the queue.\<close>

datatype planning_request = NR_create planning_create_request | NR_change planning_change_request

fun handle_planning_request ::
  "host \<Rightarrow> planning_run environment \<Rightarrow> planning_request \<Rightarrow> planning_repository \<Rightarrow>
   planning_run reply result \<times> planning_repository" where
  "handle_planning_request H env (NR_create q) repo = create_planning_run H env q repo"
| "handle_planning_request H env (NR_change q) repo = performPlanningMutation H env q repo"

fun preparePlanningRequest :: "host \<Rightarrow> planning_request \<Rightarrow> planning_mutation result" where
  "preparePlanningRequest H (NR_create q) = attempt (preparePlanningCreate H q) (\<lambda>p. Inr (NM_create p))"
| "preparePlanningRequest H (NR_change q) = attempt (preparePlanningChange H q) (\<lambda>p. Inr (NM_change p))"

definition get_planning_run ::
  "host \<Rightarrow> planning_run environment \<Rightarrow> string \<Rightarrow> planning_repository \<Rightarrow>
   (planning_run \<times> planning_run receipt list) option result \<times> planning_repository" where
  "get_planning_run H env value repo =
     (case planningRunId value of
        Inl e \<Rightarrow> (Inl e, repo)
      | Inr wanted \<Rightarrow> afterPlanningMutations H env (\<lambda>s. Inr
          (case find (\<lambda>c. pn_id c = wanted) (st_items s) of
             None \<Rightarrow> None
           | Some run \<Rightarrow> Some (run, filter (\<lambda>c. pn_id (rc_item c) = wanted) (st_operations s)))) repo)"

section \<open>Summaries\<close>

record planning_run_summary =
  us_id :: string
  us_revision :: int
  us_planId :: string
  us_planRevision :: int
  us_planDigest :: string
  us_phase :: planning_phase
  us_condition :: planning_condition
  us_completedRoleCount :: nat
  us_roleCount :: nat
  us_candidateDigest :: string
  us_applyState :: apply_state
  us_updatedAt :: string

record planning_store_summary =
  uw_version :: int
  uw_revision :: int
  uw_total :: nat
  uw_activeCount :: nat
  uw_applied :: nat
  uw_canceled :: nat
  uw_needsAttention :: nat
  uw_operations :: nat
  uw_active :: "planning_run_summary list"
  uw_recent :: "planning_run_summary list"

definition planningRunSummary :: "planning_run \<Rightarrow> planning_run_summary" where
  "planningRunSummary run =
     (let roles = map (pn_roles run) DELIVERY_PLANNING_RUN_ROLES in
      \<lparr>us_id = pn_id run, us_revision = pn_revision run, us_planId = pn_planId run,
       us_planRevision = pn_planRevision run, us_planDigest = pn_planDigest run, us_phase = pn_phase run,
       us_condition = pn_condition run,
       us_completedRoleCount = length (filter (\<lambda>r. ro_state r = Q_completed) roles),
       us_roleCount = length roles,
       us_candidateDigest = (case pn_candidate run of None \<Rightarrow> [] | Some c \<Rightarrow> cd_digest c),
       us_applyState = ao_state (pn_applyOutbox run), us_updatedAt = pn_updatedAt run\<rparr>)"

definition planningNewestFirst :: "host \<Rightarrow> planning_run \<Rightarrow> planning_run \<Rightarrow> int" where
  "planningNewestFirst H l r =
     (let d = date_ms (pn_updatedAt r) - date_ms (pn_updatedAt l) in
      if d \<noteq> 0 then d else localeCompare H (pn_id l) (pn_id r))"

definition planningNormalizedLimit :: "int option \<Rightarrow> int \<Rightarrow> string \<Rightarrow> nat result" where
  "planningNormalizedLimit value fallback field =
     (let r = (case value of None \<Rightarrow> fallback | Some n \<Rightarrow> n) in
      guard (throw_if (\<not> safe_integer r \<or> r < 0 \<or> PLANNING_MAX_SUMMARY_ITEMS < r) (dns_error (field @ ''_invalid'')))
        (Inr (nat r)))"

definition planning_needs_attention :: "planning_run \<Rightarrow> bool" where
  "planning_needs_attention run \<longleftrightarrow>
     pn_condition run \<in> {K_needs_input, K_reconcile_required, K_off_course, K_failed}"

definition summaryFromPlanningStore ::
  "host \<Rightarrow> int option \<Rightarrow> int option \<Rightarrow> planning_run receipt_store \<Rightarrow> planning_store_summary result" where
  "summaryFromPlanningStore H activeLimit recentLimit s =
     attempt (planningNormalizedLimit activeLimit 40 ''active_limit'') (\<lambda>activeMax.
     attempt (planningNormalizedLimit recentLimit 20 ''recent_limit'') (\<lambda>recentMax.
     (let active = sort_by (planningNewestFirst H) (filter (\<lambda>r. \<not> runIsTerminal r) (st_items s));
          recent = sort_by (planningNewestFirst H) (filter runIsTerminal (st_items s))
      in Inr
        \<lparr>uw_version = st_version s, uw_revision = st_revision s, uw_total = length (st_items s),
         uw_activeCount = length active,
         uw_applied = length (filter (\<lambda>r. pn_phase r = PH_applied) recent),
         uw_canceled = length (filter (\<lambda>r. pn_condition r = K_canceled) recent),
         uw_needsAttention = length (filter planning_needs_attention active),
         uw_operations = length (st_operations s),
         uw_active = map planningRunSummary (take activeMax active),
         uw_recent = map planningRunSummary (take recentMax recent)\<rparr>)))"

definition deliveryPlanningRunStoreSummary ::
  "host \<Rightarrow> planning_run receipt_store \<Rightarrow> int option \<Rightarrow> int option \<Rightarrow> planning_store_summary result" where
  "deliveryPlanningRunStoreSummary H v activeLimit recentLimit =
     attempt (validateDeliveryPlanningRunStore H v) (summaryFromPlanningStore H activeLimit recentLimit)"

definition list_planning_runs ::
  "host \<Rightarrow> planning_run environment \<Rightarrow> int option \<Rightarrow> int option \<Rightarrow> planning_repository \<Rightarrow>
   planning_store_summary result \<times> planning_repository" where
  "list_planning_runs H env activeLimit recentLimit repo =
     afterPlanningMutations H env (summaryFromPlanningStore H activeLimit recentLimit) repo"

text \<open>The first operation of a process: load the store and summarise it.\<close>

definition initialize_planning_runs ::
  "host \<Rightarrow> planning_run environment \<Rightarrow> planning_repository \<Rightarrow> planning_store_summary result \<times> planning_repository" where
  "initialize_planning_runs H env repo =
     (case ensurePlanningInitialized H env repo of
        (Inl e, r) \<Rightarrow> (Inl e, r)
      | (Inr s, r) \<Rightarrow> (deliveryPlanningRunStoreSummary H s None None, r))"

section \<open>The contract of the repository\<close>

lemma planning_json_faithful_store:
  "canonicalJson (store_json (planning_module H) a) = canonicalJson (store_json (planning_module H) b) \<Longrightarrow> a = b"
  by (rule canonicalJson_faithful [OF store_json_faithful]) (simp_all add: planning_run_faithful)

lemma handle_planning_request_mutate:
  "handle_planning_request H env rq repo =
     (case preparePlanningRequest H rq of
        Inl e \<Rightarrow> (Inl e, repo)
      | Inr op \<Rightarrow> mutatePlanningRuns H env (planning_decide H op env) repo)"
  by (cases rq) (auto simp: create_planning_run_def performPlanningMutation_def split: sum.splits)

lemma handle_planning_request_Inr:
  assumes "handle_planning_request H env rq repo = (Inr y, repo')"
  obtains op where "preparePlanningRequest H rq = Inr op"
    "mutatePlanningRuns H env (planning_decide H op env) repo = (Inr y, repo')"
  using assms by (auto simp: handle_planning_request_mutate split: sum.splits)

text \<open>What a change and a creation commit.\<close>

lemma freshPlanningChange_Inr:
  assumes "freshPlanningChange H p env s = Inr z"
  obtains run r t at where
    "find (\<lambda>c. pn_id c = np_runId p) (st_items s) = Some run" "pn_revision run = np_runRevision p"
    "st_revision s = np_storeRevision p" "assertPlanningCapacity H s False = None" "at = en_now env"
    "valid_timestamp at" "assertPlanningChronology H s at = None"
    "apply_planning H at (planning_operation_of (change_context p) (np_change p)) at run = Inr r"
    "nextPlanningStore H s (np_id p) (planning_action (np_change p)) (np_digest p) at r = Inr t"
    "z = Commit t (planning_reply s r)"
  using assms
  by (auto simp: freshPlanningChange_def assertStoreRevision_def st_timestamp_def split: option.splits)

lemma freshPlanningCreate_Inr:
  assumes "freshPlanningCreate H p env s = Inr z"
  obtains run t at i where
    "st_revision s = np_storeRevision p" "assertPlanningCapacity H s True = None" "at = en_now env"
    "valid_timestamp at" "assertPlanningChronology H s at = None"
    "planning_run_id_pattern i" "\<forall>c \<in> set (st_items s). pn_id c \<noteq> i"
    "createDeliveryPlanningRun H at i (ni_sourcePlan (np_run p)) at = Inr run"
    "\<forall>c \<in> set (st_items s). \<not> same_active_binding run c"
    "nextPlanningStore H s (np_id p) ''planning_run.create'' (np_digest p) at run = Inr t"
    "z = Commit t (planning_reply s run)"
  using assms
  by (auto simp: freshPlanningCreate_def assertStoreRevision_def st_timestamp_def list_ex_iff
      planningRunId_def Let_def)

interpretation planning_stores: durable_repository "planning_module H" planning_identity "planning_fresh H" "planning_decide H"
  for H :: host
proof
  let ?M = "planning_module H" and ?e = "emptyReceiptStore (planning_module H)"
  have "reservation_check (store_json ?M ?e) ?e = None"
    by (simp add: reservation_check_def activeReservation_def emptyReceiptStore_def store_json_def) code_simp
  then show "validateReceiptStore ?M ?e = Inr ?e"
    by (simp add: validateReceiptStore_def)
      (simp add: emptyReceiptStore_def each_indexed_def safe_integer_def MAX_SAFE_INTEGER_def active_bindings_check_def)
next
  show "planning_decide H op env s = (case planning_identity op of (i, action, digest) \<Rightarrow>
      attempt (operationReplay (planning_module H) s i action digest) (\<lambda>replay.
        case replay of Some y \<Rightarrow> Inr (Replay y) | None \<Rightarrow> planning_fresh H op env s))" for op env s
    by (cases op) (simp_all add: decidePlanningChange_def decidePlanningCreate_def)
next
  fix op env s z i action digest
  assume "planning_fresh H op env s = Inr z" "planning_identity op = (i, action, digest)"
  then show "\<exists>x at next. nextStore (planning_module H) s i action digest at x = Inr next \<and>
      z = Commit next \<lparr>ry_replayed = False, ry_storeRevision = st_revision s + 1, ry_item = x\<rparr>"
    by (cases op) (auto simp: planning_reply_def elim!: freshPlanningChange_Inr freshPlanningCreate_Inr)
next
  show "canonicalJson (store_json (planning_module H) a) = canonicalJson (store_json (planning_module H) b) \<Longrightarrow> a = b"
    for a b by (rule planning_json_faithful_store)
qed

end
