(* ===== verification/PlanningStoreFacts.thy ===== *)
theory PlanningStoreFacts
  imports DeliveryPlanningRunStore StoreCourse PlanningRunHistory
begin

text \<open>
  The store of planning runs against delivery-planning-run.js: every operation that is accepted
  on a stored run yields a receipt whose lifecycle the store accepts, the receipts of a run are
  its whole history, and what the store reserves for the active run is always enough.
\<close>

section \<open>The validator does not depend on the clock\<close>

lemma strictSourcePlan_Inr:
  assumes "strictSourcePlan H now v = Inr p"
  shows "p = v" "sound_plan H v" "strictSourcePlan H now' v = Inr v"
proof -
  from assms obtain w where w: "validateDeliveryPlan H now v = Inr w" by (auto simp: strictSourcePlan_def split: sum.splits)
  with assms have "p = w" "canonicalJson (plan_json w) = canonicalJson (plan_json v)"
    by (auto simp: strictSourcePlan_def Let_def)
  then show p: "p = v" using canonicalJson_faithful [OF plan_json_faithful] by blast
  with w \<open>p = w\<close> show sound: "sound_plan H v" by (auto simp: validateDeliveryPlan_Inr)
  from assms show "strictSourcePlan H now' v = Inr v"
    by (simp add: strictSourcePlan_def sound_plan_valid [OF sound] p)
qed

lemma preview_plan_Inr:
  assumes "sound_plan H (pn_sourcePlan run)"
  shows "preview_plan H now run d at = Inr q \<Longrightarrow> preview_plan H now' run d at = Inr q"
    and "preview_plan H now run d at = Inr q \<Longrightarrow> sound_plan H q"
  using assms by (auto simp: preview_plan_def update_Inr Let_def normal_planD [OF sound_planD(1) [OF assms]] split: if_splits)

lemma readiness_clock: "sound_plan H p \<Longrightarrow> planningCandidateReadiness H now p = planningCandidateReadiness H now' p"
  by (simp add: planningCandidateReadiness_def lintDeliveryPlanReadiness_def normal_planD [OF sound_planD(1)])

lemma digest_clock: "sound_plan H p \<Longrightarrow> deliveryPlanDigest H now p = Inr (plan_digest H p)"
  by (simp add: plan_digest_Inr sound_plan_def)

lemma candidate_preview_clock:
  assumes "sound_plan H (pn_sourcePlan run)"
  shows "candidate_preview_check H now run c = candidate_preview_check H now' run c"
proof (cases "preview_plan H now run (cd_definitionPatch c) (cd_compiledAt c)")
  case (Inl e)
  then obtain e' where "preview_plan H now' run (cd_definitionPatch c) (cd_compiledAt c) = Inl e'"
    using preview_plan_Inr(1) [OF assms, of now'] by (metis sum.exhaust sum.distinct(1))
  with Inl show ?thesis by (simp add: candidate_preview_check_def)
next
  case (Inr q)
  note sound = preview_plan_Inr(2) [OF assms Inr]
  with Inr preview_plan_Inr(1) [OF assms Inr, of now'] show ?thesis
    by (simp add: candidate_preview_check_def digest_clock Let_def readiness_clock [OF sound, of now now'])
qed

lemma body_checks_clock:
  assumes "sound_plan H (pn_sourcePlan run)"
  shows "run_body_checks H now run (pn_sourcePlan run) = run_body_checks H now' run (pn_sourcePlan run)"
proof -
  have "source_binding_check H now run (pn_sourcePlan run) = source_binding_check H now' run (pn_sourcePlan run)"
    by (simp add: source_binding_check_def digest_clock [OF assms])
  moreover have "validateCandidate H now run c = validateCandidate H now' run c" for c
    unfolding validateCandidate_def by (simp only: candidate_preview_clock [OF assms, of now c now'])
  ultimately show ?thesis by (simp only: run_body_checks_def)
qed

lemma valid_run_clock:
  assumes "valid_planning_run H now v"
  shows "valid_planning_run H now' v"
proof -
  from assms obtain plan where plan: "strictSourcePlan H now (pn_sourcePlan v) = Inr plan"
    and body: "throws (run_body_checks H now v plan) = None" and header: "throws (planning_header_checks v) = None"
    by (auto simp: valid_planning_run_iff)
  note p = strictSourcePlan_Inr [OF plan]
  show ?thesis
    unfolding valid_planning_run_iff
    using header body p(3) [of now'] unfolding p(1) body_checks_clock [OF p(2), of now now'] by blast
qed

lemma strictPlanningRun_Inr: "strictPlanningRun H e v = Inr r \<longleftrightarrow> r = v \<and> valid_planning_run H [] v"
proof (cases "validateDeliveryPlanningRun H [] v")
  case (Inl cause)
  then have "\<not> valid_planning_run H [] v" by (simp add: valid_planning_run_def)
  with Inl show ?thesis by (simp add: strictPlanningRun_def)
next
  case (Inr w)
  then have "w = v" "valid_planning_run H [] v" by (simp_all add: validate_run_Inr)
  with Inr valid_size [of H "[]" v] show ?thesis by (auto simp: strictPlanningRun_def)
qed

interpretation strict_planning_runs: strict_module "planning_module H" for H :: host
  by unfold_locales (auto simp: strictPlanningRun_Inr MAX_SAFE_INTEGER_def planning_run_faithful)

section \<open>The lifecycle of consecutive receipts\<close>

lemma runIsTerminal_iff:
  "course_ok (run_course_of v) \<Longrightarrow> runIsTerminal v \<longleftrightarrow> pn_phase v \<in> {PH_applied, PH_closed}"
  using course_ok_open(1) [of "run_course_of v"] by (auto simp: runIsTerminal_def)

lemma operation_not_terminal:
  assumes "planning_reachable H v" "apply_planning H now op at v = Inr w"
  shows "\<not> runIsTerminal v" "pn_phase v \<notin> {PH_applied, PH_closed}"
proof -
  note ok = reachable_course_ok [OF assms(1)]
  show "pn_phase v \<notin> {PH_applied, PH_closed}"
    using terminal_course [OF ok] planning_operation_moves [OF assms(2) ok] by auto
  with runIsTerminal_iff [OF ok] show "\<not> runIsTerminal v" by simp
qed

lemma operation_binding:
  assumes "apply_planning H now op at v = Inr w"
  shows "same_binding v w" "pn_revision w = pn_revision v + 1" "valid_planning_run H now w"
  using operation_kept [OF assms] by (auto simp: kept_def turned_def same_binding_def)

lemma followed_attempt_binding:
  assumes "attempt_follows a b" "at_session a = [] \<Longrightarrow> at_scopeUnit a = []"
  shows "attempt_binding_check a b = None"
proof -
  have lease: "lease_follows (at_spawnLease a) (at_spawnLease b)" using assms(1) by (simp add: attempt_follows_def)
  have "immutableLease (at_spawnLease b) = immutableLease (at_spawnLease a)"
    using lease by (simp add: lease_follows_def immutableLease_def lease_binding.defs)
  moreover have "given_text (ob_boundAt (sl_observed (at_spawnLease a))) \<Longrightarrow>
      bound_observation_json (sl_observed (at_spawnLease b)) = bound_observation_json (sl_observed (at_spawnLease a))"
    using lease by (simp add: lease_follows_def bound_pane_def bound_observation_json_def)
  moreover have "\<not> (case sl_cleanup (at_spawnLease a) of None \<Rightarrow> False
      | Some d \<Rightarrow> lease_cleanup_changed d (sl_cleanup (at_spawnLease b)))"
    using lease by (auto simp: lease_follows_def lease_cleanup_changed_def split: option.splits)
  moreover have "at_scopeUnit a \<noteq> [] \<Longrightarrow> at_scopeUnit b = at_scopeUnit a \<and> at_scopeDigest b = at_scopeDigest a"
    using assms by (auto simp: attempt_follows_def)
  ultimately show ?thesis by (auto simp: attempt_binding_check_def Let_def)
qed

lemma operation_role_binding:
  assumes "planning_reachable H v" "apply_planning H now op at v = Inr w"
  shows "role_binding_check v w r = None"
proof (cases "latest_attempt (pn_roles v r)")
  case (Some a)
  have "record_follows (pn_roles v r) (pn_roles w r)" using operation_follows [OF assms(2)] by (simp add: follows_def)
  with Some obtain b where b: "latest_attempt (pn_roles w r) = Some b" "attempt_follows a b"
    by (auto simp: record_follows_def)
  from b(1) valid_attempts [OF operation_binding(3) [OF assms(2)], of r] have "ro_attempts (pn_roles w r) = [b]"
    by (auto simp: latest_attempt_def split: if_splits)
  moreover have "at_id b = at_id a" using b(2) by (simp add: attempt_follows_def)
  moreover have "a \<in> set (ro_attempts (pn_roles v r))" using Some by (auto simp: latest_attempt_def split: if_splits)
  then have "at_session a = [] \<Longrightarrow> at_scopeUnit a = []"
    using reachable_scoped [OF assms(1)] by (auto simp: scoped_workers_def)
  ultimately show ?thesis using Some followed_attempt_binding [OF b(2)] by (simp add: role_binding_check_def)
qed (simp add: role_binding_check_def)

lemma planning_action_known:
  "planning_action ch \<in> set PLANNING_ACTIONS" "planning_action ch \<noteq> ''planning_run.create''"
  by (cases ch; simp add: PLANNING_ACTIONS_def)+

lemma planning_change_lifecycle:
  assumes "planning_reachable H v" "apply_planning H now op at v = Inr w"
    "rc_item c = w" "rc_action c \<noteq> ''planning_run.create''"
  shows "planning_receipt_lifecycle c (Some v) = None"
proof -
  have "\<not> planning_binding_changed w v"
    using operation_binding(1,2) [OF assms(2)] operation_not_terminal(1) [OF assms(1,2)]
    by (simp add: planning_binding_changed_def same_binding_def)
  then show ?thesis
    using assms(3,4) operation_role_binding [OF assms(1,2)] by (simp add: planning_receipt_lifecycle_def Let_def throws_map_None)
qed

lemma planning_created:
  assumes "createDeliveryPlanningRun H now i plan at = Inr v"
  shows "planning_start H v" "pn_id v = i" "pn_revision v = 1" "\<not> runIsTerminal v" "valid_planning_run H now v"
  using assms created_run [OF assms]
  by (auto simp: planning_start_def blank_run_def Let_def runIsTerminal_def)

lemma planning_create_lifecycle:
  "pn_revision (rc_item c) = 1 \<Longrightarrow> rc_action c = ''planning_run.create'' \<Longrightarrow> planning_receipt_lifecycle c None = None"
  by (simp add: planning_receipt_lifecycle_def)

section \<open>The history of a planning run\<close>

lemma history_revision:
  "item_history (planning_start H) (planning_step H) xs \<Longrightarrow> pn_revision (last xs) = int (length xs)"
proof (induction xs rule: rev_induct)
  case (snoc x xs)
  show ?case
  proof (cases "xs = []")
    case True
    with snoc.prems planning_created(3) show ?thesis by (auto simp: item_history_def planning_start_def)
  next
    case False
    with snoc.prems have "item_history (planning_start H) (planning_step H) xs" "planning_step H (last xs) x"
      by (auto simp: item_history_def successively_append_iff)
    with snoc.IH show ?thesis by (auto elim!: planning_stepE dest: operation_revision)
  qed
qed (simp add: item_history_def)

lemma planning_create_course:
  assumes "freshPlanningCreate H p env s = Inr (Commit t y)"
  shows "course_commit (planning_module H) (planning_start H) (planning_step H) s t"
  using assms
proof (rule freshPlanningCreate_Inr)
  fix run t' at i
  assume new: "\<forall>c \<in> set (st_items s). pn_id c \<noteq> i"
    and run: "createDeliveryPlanningRun H at i (ni_sourcePlan (np_run p)) at = Inr run"
    and n: "nextPlanningStore H s (np_id p) ''planning_run.create'' (np_digest p) at run = Inr t'"
    and "Commit t y = Commit t' (planning_reply s run)"
  then have t: "t' = t" by simp
  have "pn_id run \<notin> pn_id ` set (st_items s)" using new planning_created(2) [OF run] by auto
  with course_commit_new [OF n [unfolded t]] planning_created(1) [OF run] show ?thesis by simp
qed

lemma planning_change_course:
  assumes "freshPlanningChange H p env s = Inr (Commit t y)"
  shows "course_commit (planning_module H) (planning_start H) (planning_step H) s t"
  using assms
proof (rule freshPlanningChange_Inr)
  fix run r t' at
  assume find: "find (\<lambda>c. pn_id c = np_runId p) (st_items s) = Some run"
    and op: "apply_planning H at (planning_operation_of (change_context p) (np_change p)) at run = Inr r"
    and n: "nextPlanningStore H s (np_id p) (planning_action (np_change p)) (np_digest p) at r = Inr t'"
    and "Commit t y = Commit t' (planning_reply s r)"
  then have t: "t' = t" by simp
  have "run \<in> set (st_items s)" using find_SomeD [OF find] by simp
  moreover have "pn_id r = pn_id run" using operation_binding(1) [OF op] by (simp add: same_binding_def)
  ultimately show ?thesis using course_commit_step [OF n [unfolded t]] planning_operation [OF op] by simp
qed

interpretation planning_courses: item_course "planning_module H" planning_identity "planning_fresh H" "planning_decide H"
  "planning_start H" "planning_step H" "\<lambda>s. True" for H :: host
proof
  fix s op env t y
  assume "planning_fresh H op env s = Inr (Commit t y)"
  then show "True \<and> course_commit (planning_module H) (planning_start H) (planning_step H) s t"
    by (cases op) (auto dest: planning_create_course planning_change_course)
qed simp

abbreviation planning_mutates :: "host \<Rightarrow> planning_repository \<Rightarrow> planning_repository \<Rightarrow> bool" where
  "planning_mutates H \<equiv> mutates (planning_module H) (planning_decide H)"

abbreviation planning_repository_reached :: "host \<Rightarrow> planning_repository \<Rightarrow> bool" where
  "planning_repository_reached H \<equiv> reaches (\<lambda>repo. repo = new_repository F_absent) (planning_mutates H)"

abbreviation planning_repository_open :: "host \<Rightarrow> planning_repository \<Rightarrow> bool" where
  "planning_repository_open H \<equiv> reaches opened (planning_mutates H)"

end
