(* ===== verification/PlanningStoreCapacity.thy ===== *)
theory PlanningStoreCapacity
  imports PlanningStoreFacts
begin

text \<open>
  What the store of planning runs reserves is enough. The size of a store is the sum of the
  sizes of its runs and receipts, so replacing the active run and appending its receipt never
  needs more than the reservation gives back: an accepted operation is never refused for want
  of space, and neither is a creation that passed the check of the capacity.
\<close>

section \<open>Sizes\<close>

lemma nat_text_length: "length (nat_text (Suc n)) \<le> length (nat_text n) + 1"
proof (induction n rule: nat_text.induct)
  case (1 n)
  consider "n < 9" | "n = 9" | "10 \<le> n" by linarith
  then show ?case
  proof cases
    case 3
    have "Suc n div 10 = n div 10 \<or> Suc n div 10 = Suc (n div 10)" by presburger
    with 1 3 show ?thesis by (subst (1 2) nat_text.simps) auto
  qed (simp_all add: nat_text.simps)
qed

lemma nat_text_size: "utf8_length (nat_text n) = int (length (nat_text n))"
proof -
  have "utf8_length s = int (length s)" if "list_all is_digit s" for s
    using that by (induction s) (auto simp: utf8_length_def is_digit_def)
  with nat_text_digits show ?thesis by blast
qed

lemma int_text_grows: "0 \<le> n \<Longrightarrow> utf8_length (int_text (n + 1)) \<le> utf8_length (int_text n) + 1"
  using nat_text_length [of "nat n"] by (simp add: int_text_def nat_text_size nat_add_distrib)

lemma indented_size_snoc: "indented_size 2 (ts @ [t]) \<le> indented_size 2 ts + t + 8"
  by (cases ts) (simp_all add: indented_size_def)

lemma name_sizes:
  "utf8_length (string_text ''runs'') = 6" "utf8_length (string_text ''operations'') = 12"
  "utf8_length (string_text ''version'') = 9" "utf8_length (string_text ''revision'') = 10"
  by code_simp+

lemma run_slot_size: "run_slot_bytes j = 25 + pretty_size j 4"
  by (simp add: run_slot_bytes_def persistedJsonBytes_size indented_size_def name_sizes)

lemma operation_slot_size: "operation_slot_bytes j = 31 + pretty_size j 4"
  by (simp add: operation_slot_bytes_def persistedJsonBytes_size indented_size_def name_sizes)

definition runs_size :: "planning_run list \<Rightarrow> int" where
  "runs_size xs = indented_size 2 (map (\<lambda>r. pretty_size (planning_run_json r) 4) xs)"

definition receipts_size :: "host \<Rightarrow> planning_run receipt list \<Rightarrow> int" where
  "receipts_size H cs = indented_size 2 (map (\<lambda>c. pretty_size (receipt_json (planning_module H) c) 4) cs)"

lemma planning_store_size:
  "persistedJsonBytes (store_json (planning_module H) s) =
     64 + utf8_length (int_text (st_version s)) + utf8_length (int_text (st_revision s))
     + runs_size (st_items s) + receipts_size H (st_operations s)"
  by (simp add: store_json_def persistedJsonBytes_size indented_size_def [of 0] name_sizes
      runs_size_def receipts_size_def comp_def)

lemma receipts_size_snoc:
  "receipts_size H (cs @ [c]) \<le> receipts_size H cs + operation_slot_bytes (receipt_json (planning_module H) c) - 23"
  unfolding receipts_size_def operation_slot_size map_append list.map
  by (rule order_trans [OF indented_size_snoc]) simp

lemma runs_size_snoc: "runs_size (xs @ [r]) \<le> runs_size xs + run_slot_bytes (planning_run_json r) - 17"
  unfolding runs_size_def run_slot_size map_append list.map
  by (rule order_trans [OF indented_size_snoc]) simp

lemma sum_list_replace:
  assumes "distinct (map key xs)" "y \<in> set xs" "key x = key y"
  shows "sum_list (map f (map (\<lambda>c. if key c = key x then x else c) xs)) = sum_list (map f xs) - f y + (f x :: int)"
  using assms
proof (induction xs)
  case (Cons z zs)
  show ?case
  proof (cases "key z = key y")
    case True
    with Cons.prems have "z = y" by (auto simp: image_iff)
    moreover have "map (\<lambda>c. if key c = key x then x else c) zs = zs"
      using Cons.prems True by (intro map_idI) (auto simp: image_iff)
    ultimately show ?thesis using Cons.prems(3) by (simp del: map_map)
  next
    case False
    with Cons show ?thesis by (auto simp del: map_map)
  qed
qed simp

lemma runs_size_put:
  assumes "distinct (map pn_id xs)" "run \<in> set xs" "pn_id r = pn_id run"
  shows "runs_size (put_item pn_id xs r) =
    runs_size xs - run_slot_bytes (planning_run_json run) + run_slot_bytes (planning_run_json r)"
proof -
  let ?f = "\<lambda>r. pretty_size (planning_run_json r) 4"
  have put: "put_item pn_id xs r = map (\<lambda>c. if pn_id c = pn_id r then r else c) xs"
    using assms(2,3) by (auto simp: put_item_def list_ex_iff)
  have sum: "indented_size 2 (map ?f ys) = (if ys = [] then 2 else 6 + sum_list (map ?f ys) + 6 * int (length ys) - 2)" for ys
    by (simp add: indented_size_def comp_def sum_list_addf sum_list_triv algebra_simps)
  show ?thesis
    unfolding runs_size_def sum put using assms(2) sum_list_replace [OF assms, of ?f]
    by (auto simp: run_slot_size simp del: map_map)
qed

section \<open>The active run\<close>

abbreviation active_runs :: "planning_run receipt_store \<Rightarrow> planning_run list" where
  "active_runs s \<equiv> filter (\<lambda>r. \<not> runIsTerminal r) (st_items s)"

lemma sum_reservation:
  "activeReservation s = Inr \<lparr>rs_activeCount = length (active_runs s),
     rs_operationHeadroom = sum_list (map (remaining_operations s) (active_runs s)),
     rs_persistedByteHeadroom = sum_list (map (reserved_bytes s) (active_runs s))\<rparr>
   \<longleftrightarrow> length (active_runs s) \<le> 1
     \<and> (\<forall>r \<in> set (active_runs s). int (operationsForRun s (pn_id r)) \<le> MAX_ACTIVE_OPERATION_FOOTPRINT)"
  by (auto simp: activeReservation_def Let_def PLANNING_MAX_ACTIVE_RUNS_def throws_map_None not_less)

lemma activeReservation_Inr:
  assumes "activeReservation s = Inr r"
  shows "length (active_runs s) \<le> 1" "rs_operationHeadroom r = sum_list (map (remaining_operations s) (active_runs s))"
    "rs_persistedByteHeadroom r = sum_list (map (reserved_bytes s) (active_runs s))"
    "rs_activeCount r = length (active_runs s)"
  using assms by (auto simp: activeReservation_def Let_def PLANNING_MAX_ACTIVE_RUNS_def)

text \<open>A store with at most one active run passes the check when its headroom is free.\<close>

lemma reservation_check_None:
  assumes "length (active_runs s) \<le> 1"
    "\<And>r. r \<in> set (active_runs s) \<Longrightarrow> int (operationsForRun s (pn_id r)) \<le> MAX_ACTIVE_OPERATION_FOOTPRINT
      \<and> run_slot_bytes (planning_run_json r) \<le> CURRENT_RUN_SLOT_MAX_BYTES"
    "int (length (st_operations s)) + sum_list (map (remaining_operations s) (active_runs s)) \<le> int PLANNING_MAX_OPERATIONS"
    "persistedJsonBytes j + sum_list (map (reserved_bytes s) (active_runs s)) \<le> PLANNING_MAX_STORE_BYTES"
  shows "reservation_check j s = None"
proof -
  have "0 \<le> sum_list (map (reserved_bytes s) (active_runs s))"
    using assms(2) by (intro sum_list_nonneg) (auto simp: reserved_bytes_def remaining_operations_def OPERATION_SLOT_MAX_BYTES_def)
  moreover have "activeReservation s = Inr \<lparr>rs_activeCount = length (active_runs s),
     rs_operationHeadroom = sum_list (map (remaining_operations s) (active_runs s)),
     rs_persistedByteHeadroom = sum_list (map (reserved_bytes s) (active_runs s))\<rparr>"
    using assms(1,2) by (simp add: sum_reservation)
  ultimately show ?thesis using assms(3,4) by (simp add: reservation_check_def not_less)
qed

lemma valid_active:
  assumes "validateReceiptStore (planning_module H) s = Inr s"
  shows "length (active_runs s) \<le> 1"
    "int (length (st_operations s)) + sum_list (map (remaining_operations s) (active_runs s)) \<le> 1024"
    "persistedJsonBytes (store_json (planning_module H) s) + sum_list (map (reserved_bytes s) (active_runs s))
       \<le> PLANNING_MAX_STORE_BYTES"
    "persistedJsonBytes (store_json (planning_module H) s) \<le> PLANNING_MAX_STORE_BYTES"
proof -
  from validateReceiptStore_Inr [OF assms] have "reservation_check (store_json (planning_module H) s) s = None" by simp
  then obtain r where r: "activeReservation s = Inr r" and rest:
    "int (length (st_operations s)) + rs_operationHeadroom r \<le> 1024"
    "persistedJsonBytes (store_json (planning_module H) s) + rs_persistedByteHeadroom r \<le> PLANNING_MAX_STORE_BYTES"
    "persistedJsonBytes (store_json (planning_module H) s) \<le> PLANNING_MAX_STORE_BYTES"
    by (auto simp: reservation_check_def PLANNING_MAX_OPERATIONS_def split: sum.splits)
  with activeReservation_Inr [OF r] show "length (active_runs s) \<le> 1"
    "int (length (st_operations s)) + sum_list (map (remaining_operations s) (active_runs s)) \<le> 1024"
    "persistedJsonBytes (store_json (planning_module H) s) + sum_list (map (reserved_bytes s) (active_runs s))
       \<le> PLANNING_MAX_STORE_BYTES"
    "persistedJsonBytes (store_json (planning_module H) s) \<le> PLANNING_MAX_STORE_BYTES"
    by simp_all
qed

lemma active_single:
  assumes "validateReceiptStore (planning_module H) s = Inr s" "run \<in> set (st_items s)" "\<not> runIsTerminal run"
  shows "active_runs s = [run]"
proof -
  have "run \<in> set (active_runs s)" using assms(2,3) by simp
  with valid_active(1) [OF assms(1)] show ?thesis by (cases "active_runs s") auto
qed

lemma stored_slot:
  assumes "validateReceiptStore (planning_module H) s = Inr s" "run \<in> set (st_items s)"
  shows "run_slot_bytes (planning_run_json run) \<le> CURRENT_RUN_SLOT_MAX_BYTES" "valid_planning_run H [] run"
proof -
  from strict_planning_runs.valid_store_history [OF assms(1)] assms(2) have
    "md_strict (planning_module H) (Error []) run = Inr run" "md_itemLimit (planning_module H) (planning_run_json run) = None"
    by (metis planning_module_simps(12))+
  then show "run_slot_bytes (planning_run_json run) \<le> CURRENT_RUN_SLOT_MAX_BYTES" "valid_planning_run H [] run"
    by (simp_all add: strictPlanningRun_Inr)
qed

lemma few_active_bindings: "length (filter (\<lambda>r. \<not> runIsTerminal r) xs) \<le> 1 \<Longrightarrow> active_bindings_check xs = None"
  by (cases "filter (\<lambda>r. \<not> runIsTerminal r) xs") (auto simp: active_bindings_check_def)

section \<open>An operation of the active run\<close>

lemma active_put:
  assumes "distinct (map pn_id xs)" "filter (\<lambda>r. \<not> runIsTerminal r) xs = [run]" "pn_id r = pn_id run"
  shows "filter (\<lambda>r. \<not> runIsTerminal r) (put_item pn_id xs r) = (if runIsTerminal r then [] else [r])"
proof -
  let ?ys = "filter (\<lambda>r. \<not> runIsTerminal r) (put_item pn_id xs r)"
  have active: "x \<in> set xs \<and> \<not> runIsTerminal x \<longleftrightarrow> x = run" for x
    using arg_cong [OF assms(2), of set] by auto
  then have run: "run \<in> set xs" by blast
  have "x = r" if "x \<in> set ?ys" for x
    using that active [of x] strict_planning_runs.set_put_item [of x H xs r] assms(3) by auto
  moreover have "r \<in> set (put_item pn_id xs r)"
    using run assms(3) by (auto simp: put_item_def list_ex_iff intro!: image_eqI [of _ _ run])
  moreover have "distinct (map pn_id (put_item pn_id xs r))" using assms(1) by (auto simp: put_item_ids)
  then have "distinct ?ys" by (metis distinct_filter distinct_map)
  ultimately have ys: "set ?ys = (if runIsTerminal r then {} else {r})" "distinct ?ys" by auto
  show ?thesis
  proof (cases "runIsTerminal r")
    case False
    with ys distinct_card [OF ys(2)] have "length ?ys = 1" by simp
    then obtain y where "?ys = [y]" by (metis One_nat_def length_0_conv length_Suc_conv)
    with ys(1) False show ?thesis by simp
  qed (use ys(1) in simp)
qed

lemma footprint: "MAX_ACTIVE_OPERATION_FOOTPRINT = 77"
  by (simp add: MAX_ACTIVE_OPERATION_FOOTPRINT_def BASE_GRAPH_MAX_OPERATIONS_def CLEANUP_RECOVERY_EXTRA_MAX_OPERATIONS_def
      CONTINUE_RECEIPT_MAX_OPERATIONS_def OPERATION_SAFETY_MARGIN_def MAX_RESOURCE_CONTINUE_RECEIPTS_def
      MAX_CLEANUP_CONTINUE_RECEIPTS_def)

lemma appended_size:
  assumes "validateReceiptStore (planning_module H) s = Inr s"
  shows "persistedJsonBytes (store_json (planning_module H) (appended (planning_module H) s c))
      \<le> persistedJsonBytes (store_json (planning_module H) s)
        + (runs_size (put_item pn_id (st_items s) (rc_item c)) - runs_size (st_items s))
        + operation_slot_bytes (receipt_json (planning_module H) c) - 22"
  using validateReceiptStore_Inr [OF assms] int_text_grows [of "st_revision s"]
    receipts_size_snoc [of H "st_operations s" c]
  by (simp add: planning_store_size appended_def)

text \<open>
  The reservation of the active run pays for its next receipt: the slot of one receipt is
  given back, and the run stays in the slot of a run.
\<close>

lemma change_reservation:
  assumes valid: "validateReceiptStore (planning_module H) s = Inr s"
    and run: "run \<in> set (st_items s)" "\<not> runIsTerminal run"
    and taken: "int (operationsForRun s (pn_id run)) < MAX_ACTIVE_OPERATION_FOOTPRINT"
    and item: "pn_id (rc_item c) = pn_id run" "run_slot_bytes (planning_run_json (rc_item c)) \<le> CURRENT_RUN_SLOT_MAX_BYTES"
    and slot: "operation_slot_bytes (receipt_json (planning_module H) c) \<le> OPERATION_SLOT_MAX_BYTES"
  shows "reservation_check (store_json (planning_module H) (appended (planning_module H) s c))
      (appended (planning_module H) s c) = None"
    and "active_bindings_check (put_item pn_id (st_items s) (rc_item c)) = None"
    and "length (st_operations s) < 1024"
proof -
  let ?M = "planning_module H" and ?t = "appended (planning_module H) s c" and ?r = "rc_item c"
  note v = valid_active [OF valid] and single = active_single [OF valid run]
  have d: "distinct (map pn_id (st_items s))" using validateReceiptStore_Inr [OF valid] by simp
  have items: "st_items ?t = put_item pn_id (st_items s) ?r" "st_operations ?t = st_operations s @ [c]"
    by (simp_all add: appended_def)
  have active: "active_runs ?t = (if runIsTerminal ?r then [] else [?r])"
    using active_put [OF d single item(1)] by (simp add: items)
  have count: "operationsForRun ?t (pn_id ?r) = Suc (operationsForRun s (pn_id run))"
    by (simp add: operationsForRun_def items item(1))
  have head: "int (length (st_operations s)) + remaining_operations s run \<le> 1024"
    "persistedJsonBytes (store_json ?M s) + reserved_bytes s run \<le> PLANNING_MAX_STORE_BYTES"
    using v(2,3) by (simp_all add: single)
  have left: "1 \<le> remaining_operations s run" using taken by (simp add: remaining_operations_def)
  have size: "persistedJsonBytes (store_json ?M ?t) \<le> persistedJsonBytes (store_json ?M s)
      - run_slot_bytes (planning_run_json run) + run_slot_bytes (planning_run_json ?r)
      + OPERATION_SLOT_MAX_BYTES - 22"
    using appended_size [OF valid, of c] slot runs_size_put [OF d run(1) item(1)] by simp
  show "length (st_operations s) < 1024" using head(1) left by linarith
  show "active_bindings_check (put_item pn_id (st_items s) ?r) = None"
    using active by (intro few_active_bindings) (simp add: items)
  have "0 \<le> (remaining_operations s run - 1) * OPERATION_SLOT_MAX_BYTES"
    using left by (simp add: OPERATION_SLOT_MAX_BYTES_def)
  then have enough: "OPERATION_SLOT_MAX_BYTES \<le> remaining_operations s run * OPERATION_SLOT_MAX_BYTES"
    by (simp add: left_diff_distrib)
  have rest: "remaining_operations ?t ?r = remaining_operations s run - 1"
    by (simp add: remaining_operations_def count)
  show "reservation_check (store_json ?M ?t) ?t = None"
  proof (rule reservation_check_None)
    show "length (active_runs ?t) \<le> 1" by (simp add: active)
    show "int (operationsForRun ?t (pn_id x)) \<le> MAX_ACTIVE_OPERATION_FOOTPRINT
        \<and> run_slot_bytes (planning_run_json x) \<le> CURRENT_RUN_SLOT_MAX_BYTES" if "x \<in> set (active_runs ?t)" for x
      using that taken item(2) by (auto simp: active count split: if_splits)
    show "int (length (st_operations ?t)) + sum_list (map (remaining_operations ?t) (active_runs ?t))
        \<le> int PLANNING_MAX_OPERATIONS"
      unfolding active using head(1) left by (simp add: items(2) rest PLANNING_MAX_OPERATIONS_def)
    show "persistedJsonBytes (store_json ?M ?t) + sum_list (map (reserved_bytes ?t) (active_runs ?t))
        \<le> PLANNING_MAX_STORE_BYTES"
      using size head(2) enough item(2) by (simp add: active reserved_bytes_def rest left_diff_distrib)
  qed
qed

section \<open>A new run\<close>

lemma capacity_None:
  assumes "assertPlanningCapacity H s createsRun = None" "validateReceiptStore (planning_module H) s = Inr s"
  shows "length (st_operations s) < 1024"
    and "createsRun \<Longrightarrow> length (st_items s) < 64 \<and> active_runs s = []
      \<and> int (length (st_operations s)) + MAX_ACTIVE_OPERATION_FOOTPRINT \<le> 1024
      \<and> persistedJsonBytes (store_json (planning_module H) s) + projected_reservation \<le> PLANNING_MAX_STORE_BYTES"
proof -
  from assms obtain c where c: "deliveryPlanningRunStoreCapacity H s = Inr c"
    and rest: "sc_operationCount c < PLANNING_MAX_OPERATIONS"
      "createsRun \<Longrightarrow> length (st_items s) < PLANNING_MAX_RUNS \<and> sc_activeRunCount c < PLANNING_MAX_ACTIVE_RUNS
       \<and> int (sc_operationCount c) + MAX_ACTIVE_OPERATION_FOOTPRINT \<le> int PLANNING_MAX_OPERATIONS
       \<and> sc_persistedBytes c + projected_reservation \<le> PLANNING_MAX_STORE_BYTES"
    by (auto simp: assertPlanningCapacity_def not_le not_less split: sum.splits)
  from c assms(2) have "sc_operationCount c = length (st_operations s)" "sc_activeRunCount c = length (active_runs s)"
    "sc_persistedBytes c = persistedJsonBytes (store_json (planning_module H) s)"
    by (auto simp: deliveryPlanningRunStoreCapacity_def dest: activeReservation_Inr)
  with rest show "length (st_operations s) < 1024" "createsRun \<Longrightarrow> length (st_items s) < 64 \<and> active_runs s = []
      \<and> int (length (st_operations s)) + MAX_ACTIVE_OPERATION_FOOTPRINT \<le> 1024
      \<and> persistedJsonBytes (store_json (planning_module H) s) + projected_reservation \<le> PLANNING_MAX_STORE_BYTES"
    by (simp_all add: PLANNING_MAX_OPERATIONS_def PLANNING_MAX_RUNS_def PLANNING_MAX_ACTIVE_RUNS_def)
qed

text \<open>A change needs no more than a receipt, which the reservation holds.\<close>

lemma change_capacity:
  assumes "validateReceiptStore (planning_module H) s = Inr s" "length (st_operations s) < 1024"
  shows "assertPlanningCapacity H s False = None"
proof -
  from validateReceiptStore_Inr [OF assms(1)] have "reservation_check (store_json (planning_module H) s) s = None" by simp
  then obtain r where "activeReservation s = Inr r" by (auto simp: reservation_check_def split: sum.splits)
  with assms show ?thesis
    by (simp add: assertPlanningCapacity_def deliveryPlanningRunStoreCapacity_def PLANNING_MAX_OPERATIONS_def)
qed

lemma create_reservation:
  assumes valid: "validateReceiptStore (planning_module H) s = Inr s"
    and room: "assertPlanningCapacity H s True = None"
    and new: "pn_id (rc_item c) \<notin> pn_id ` set (st_items s)" "\<not> runIsTerminal (rc_item c)"
    and slots: "run_slot_bytes (planning_run_json (rc_item c)) \<le> CURRENT_RUN_SLOT_MAX_BYTES"
      "operation_slot_bytes (receipt_json (planning_module H) c) \<le> OPERATION_SLOT_MAX_BYTES"
  shows "reservation_check (store_json (planning_module H) (appended (planning_module H) s c))
      (appended (planning_module H) s c) = None"
    and "active_bindings_check (put_item pn_id (st_items s) (rc_item c)) = None"
    and "put_item pn_id (st_items s) (rc_item c) = st_items s @ [rc_item c]"
proof -
  let ?M = "planning_module H" and ?t = "appended (planning_module H) s c" and ?r = "rc_item c"
  have cap: "active_runs s = []" "int (length (st_operations s)) + MAX_ACTIVE_OPERATION_FOOTPRINT \<le> 1024"
    "persistedJsonBytes (store_json (planning_module H) s) + projected_reservation \<le> PLANNING_MAX_STORE_BYTES"
    using capacity_None(2) [OF room valid] by blast+
  show put: "put_item pn_id (st_items s) ?r = st_items s @ [?r]"
    using new(1) unfolding put_item_def list_ex_iff by (metis image_eqI)
  have items: "st_items ?t = st_items s @ [?r]" "st_operations ?t = st_operations s @ [c]"
    by (simp_all add: appended_def put)
  have active: "active_runs ?t = [?r]" using cap(1) new(2) by (simp add: items)
  then show "active_bindings_check (put_item pn_id (st_items s) ?r) = None"
    by (intro few_active_bindings) (simp add: put items)
  from strict_planning_runs.valid_store_history [OF valid]
  have "pn_id ` rc_item ` set (st_operations s) = pn_id ` set (st_items s)"
    unfolding planning_module_simps by (metis image_comp list.set_map)
  with new(1) have "operationsForRun s (pn_id ?r) = 0"
    unfolding operationsForRun_def by (auto simp: filter_empty_conv) (metis image_eqI)
  then have count: "operationsForRun ?t (pn_id ?r) = 1" by (simp add: operationsForRun_def items)
  have size: "persistedJsonBytes (store_json ?M ?t) \<le> persistedJsonBytes (store_json ?M s)
      + run_slot_bytes (planning_run_json ?r) + OPERATION_SLOT_MAX_BYTES - 39"
    using appended_size [OF valid, of c] slots(2) runs_size_snoc [of "st_items s" ?r] by (simp add: put)
  show "reservation_check (store_json ?M ?t) ?t = None"
  proof (rule reservation_check_None)
    show "persistedJsonBytes (store_json ?M ?t) + sum_list (map (reserved_bytes ?t) (active_runs ?t))
        \<le> PLANNING_MAX_STORE_BYTES"
      using size cap(3) by (simp add: active reserved_bytes_def remaining_operations_def count footprint projected_reservation_def)
  qed (use cap slots(1) in \<open>unfold active,
      auto simp: count items(2) remaining_operations_def footprint PLANNING_MAX_OPERATIONS_def\<close>)
qed

section \<open>Accepted requests\<close>

lemma prepared_planning_change:
  assumes "preparePlanningChange H q = Inr p" "\<And>s. digest_pattern (sha256hex H s)"
  shows "operation_id_pattern (np_id p)" "digest_pattern (np_digest p)"
  using assms
  by (auto simp: preparePlanningChange_def st_operationId_def requestSnapshot_def canonicalSha256_def Let_def)

lemma prepared_planning_create:
  assumes "preparePlanningCreate H q = Inr p" "\<And>s. digest_pattern (sha256hex H s)"
  shows "operation_id_pattern (np_id p)" "digest_pattern (np_digest p)"
  using assms
  by (auto simp: preparePlanningCreate_def st_operationId_def requestSnapshot_def canonicalSha256_def Let_def)

definition planning_receipt ::
  "planning_mutation \<Rightarrow> string \<Rightarrow> planning_run receipt_store \<Rightarrow> planning_run \<Rightarrow> planning_run receipt" where
  "planning_receipt m at s r = (case planning_identity m of (i, action, digest) \<Rightarrow>
     \<lparr>rc_id = i, rc_action = action, rc_requestDigest = digest, rc_at = at,
      rc_storeRevision = st_revision s + 1, rc_item = r\<rparr>)"

text \<open>A store whose receipts are the histories of its runs.\<close>

abbreviation planning_histories :: "host \<Rightarrow> planning_run receipt_store \<Rightarrow> bool" where
  "planning_histories H \<equiv> store_history pn_id (planning_start H) (planning_step H)"

lemma stored_run_reachable:
  "planning_histories H s \<Longrightarrow> run \<in> set (st_items s) \<Longrightarrow> planning_reachable H run"
  using item_history_reaches [of "planning_start H" "planning_step H"] by (fastforce simp: store_history_def)

lemma stored_run_operations:
  assumes "planning_histories H s" "run \<in> set (st_items s)"
  shows "int (operationsForRun s (pn_id run)) = pn_revision run"
proof -
  have "operationsForRun s (pn_id run) = length (snapshots pn_id s (pn_id run))"
    by (simp add: operationsForRun_def snapshots_def filter_map comp_def)
  with assms history_revision [of H "snapshots pn_id s (pn_id run)"] show ?thesis by (auto simp: store_history_def)
qed

lemma planning_change_stored:
  assumes hex: "\<And>s. digest_pattern (sha256hex H s)" and rq: "preparePlanningChange H q = Inr p"
    and valid: "validateReceiptStore (planning_module H) s = Inr s" and hist: "planning_histories H s"
    and run: "find (\<lambda>c. pn_id c = np_runId p) (st_items s) = Some run"
    and new: "np_id p \<notin> set (map rc_id (st_operations s))"
    and clock: "valid_timestamp at" "assertPlanningChronology H s at = None"
    and op: "apply_planning H now (planning_operation_of (change_context p) (np_change p)) at run = Inr r"
    and c: "c = planning_receipt (NM_change p) at s r"
    and slots: "run_slot_bytes (planning_run_json r) \<le> CURRENT_RUN_SLOT_MAX_BYTES"
      "operation_slot_bytes (receipt_json (planning_module H) c) \<le> OPERATION_SLOT_MAX_BYTES"
  shows "nextPlanningStore H s (np_id p) (planning_action (np_change p)) (np_digest p) at r =
    Inr (appended (planning_module H) s c)"
    and "length (st_operations s) < 1024"
proof -
  let ?M = "planning_module H"
  note form = prepared_planning_change [OF rq hex] and v = validateReceiptStore_Inr [OF valid]
  have mem: "run \<in> set (st_items s)" using find_SomeD [OF run] by simp
  note reach = stored_run_reachable [OF hist mem]
  note bound = operation_binding [OF op]
  have kept: "pn_id r = pn_id run" using bound(1) by (simp add: same_binding_def)
  have item: "rc_item c = r" "rc_action c = planning_action (np_change p)" by (simp_all add: c planning_receipt_def)
  have "int (operationsForRun s (pn_id run)) < MAX_ACTIVE_OPERATION_FOOTPRINT"
    using open_revision [OF reach operation_not_terminal(2) [OF reach op]] stored_run_operations [OF hist mem]
    by (simp add: footprint)
  note room = change_reservation [OF valid mem operation_not_terminal(1) [OF reach op] this, of c, unfolded item(1), OF kept slots]
  show "length (st_operations s) < 1024" by (rule room(3))
  have latest: "latest_of pn_id (pn_id run) (st_operations s) = Some run"
    using strict_planning_runs.valid_store_history [OF valid] mem unfolding planning_module_simps by metis
  have "length (put_item pn_id (st_items s) r) = length (st_items s)"
    using mem kept by (auto simp: put_item_def list_ex_iff)
  with v have few: "length (put_item pn_id (st_items s) r) \<le> 64" by simp
  have "nextStore ?M s (np_id p) (planning_action (np_change p)) (np_digest p) at r =
      guard (md_storeLimit ?M (store_json ?M (appended ?M s c)) (appended ?M s c)) (Inr (appended ?M s c))"
  proof (rule strict_planning_runs.nextStore_total)
    show "md_strict ?M (Error []) r = Inr r" using valid_run_clock [OF bound(3)] by (simp add: strictPlanningRun_Inr)
    show "md_lifecycle ?M c (latest_of (md_id ?M) (md_id ?M r) (st_operations s)) = None"
      using planning_change_lifecycle [OF reach op item(1)] item(2) by (simp add: kept latest planning_action_known)
  qed (use valid new clock form slots room few in \<open>simp_all add: planning_action_known c planning_receipt_def\<close>)
  with room(1) show "nextPlanningStore H s (np_id p) (planning_action (np_change p)) (np_digest p) at r =
    Inr (appended ?M s c)" by simp
qed

lemma planning_create_stored:
  assumes hex: "\<And>s. digest_pattern (sha256hex H s)" and rq: "preparePlanningCreate H q = Inr p"
    and valid: "validateReceiptStore (planning_module H) s = Inr s"
    and room: "assertPlanningCapacity H s True = None"
    and new: "np_id p \<notin> set (map rc_id (st_operations s))" "i \<notin> pn_id ` set (st_items s)"
    and clock: "valid_timestamp at" "assertPlanningChronology H s at = None"
    and run: "createDeliveryPlanningRun H now i plan at = Inr r"
    and c: "c = planning_receipt (NM_create p) at s r"
    and slots: "run_slot_bytes (planning_run_json r) \<le> CURRENT_RUN_SLOT_MAX_BYTES"
      "operation_slot_bytes (receipt_json (planning_module H) c) \<le> OPERATION_SLOT_MAX_BYTES"
  shows "nextPlanningStore H s (np_id p) ''planning_run.create'' (np_digest p) at r = Inr (appended (planning_module H) s c)"
proof -
  let ?M = "planning_module H"
  note form = prepared_planning_create [OF rq hex] and made = planning_created [OF run]
  have item: "rc_item c = r" "rc_action c = ''planning_run.create''" by (simp_all add: c planning_receipt_def)
  have fresh: "pn_id r \<notin> pn_id ` set (st_items s)" using new(2) made(2) by simp
  note reserved = create_reservation [OF valid room, of c, unfolded item(1), OF fresh made(4) slots]
  have cap: "length (st_operations s) < 1024" "length (st_items s) < 64"
    using capacity_None [OF room valid] by simp_all
  have "set (map (pn_id \<circ> rc_item) (st_operations s)) = pn_id ` set (st_items s)"
    using strict_planning_runs.valid_store_history [OF valid] unfolding planning_module_simps by (metis set_map)
  then have "pn_id (rc_item d) \<noteq> pn_id r" if "d \<in> set (st_operations s)" for d
    using fresh that by (metis comp_apply image_eqI set_map)
  then have none: "latest_of pn_id (pn_id r) (st_operations s) = None"
    by (simp add: latest_of_def Let_def filter_empty_conv)
  have "nextStore ?M s (np_id p) ''planning_run.create'' (np_digest p) at r =
      guard (md_storeLimit ?M (store_json ?M (appended ?M s c)) (appended ?M s c)) (Inr (appended ?M s c))"
  proof (rule strict_planning_runs.nextStore_total)
    show "md_strict ?M (Error []) r = Inr r" using valid_run_clock [OF made(5)] by (simp add: strictPlanningRun_Inr)
    show "md_lifecycle ?M c (latest_of (md_id ?M) (md_id ?M r) (st_operations s)) = None"
      using planning_create_lifecycle [of c] item made(3) by (simp add: none)
  qed (use valid new clock form slots reserved cap in \<open>simp_all add: c planning_receipt_def PLANNING_ACTIONS_def\<close>)
  with reserved(1) show ?thesis by simp
qed

end
