(* ===== verification/PlanningStoreExample.thy ===== *)
theory PlanningStoreExample
  imports PlanningStoreCapacity PlanningRunExample
begin

text \<open>
  A repository of planning runs without a file, the creation of the example run and the claim
  of its first spawn: the concrete stores that the witnesses of the store's properties use.
\<close>

section \<open>The operations at the clock of the store\<close>

lemma input_digest_clock:
  "deliveryPlanningRoleInputDigest H now v r = Inr d \<Longrightarrow> deliveryPlanningRoleInputDigest H now' v r = Inr d"
  by (auto simp: input_digest_Inr intro: valid_run_clock)

lemma envelope_clock: "buildRoleEnvelope H now v r m = Inr e \<Longrightarrow> buildRoleEnvelope H now' v r m = Inr e"
  using input_digest_clock [of H now v r _ now'] by (auto simp: buildRoleEnvelope_def Let_def split: if_splits)

lemma create_clock:
  assumes "createDeliveryPlanningRun H now i plan at = Inr v"
  shows "createDeliveryPlanningRun H now' i plan at = Inr v"
proof -
  from assms obtain p where p: "strictSourcePlan H now plan = Inr p" by (auto simp: createDeliveryPlanningRun_def)
  note source = strictSourcePlan_Inr [OF p]
  from assms show ?thesis
    using source(3) [of now'] valid_run_clock [of H now _ now'] envelope_clock [of H now _ R_po _ _ now']
    by (auto simp: createDeliveryPlanningRun_def p source(1) digest_clock [OF source(2)] validate_run_Inr)
qed

lemma next_clock: "nextRun H now v change at = Inr w \<Longrightarrow> nextRun H now' v change at = Inr w"
  by (auto simp: nextRun_Inr turned_def intro: valid_run_clock)

lemma eligibility_clock: "roleEligibilityUnchecked H now v r = Inr e \<Longrightarrow> roleEligibilityUnchecked H now' v r = Inr e"
  using input_digest_clock [of H now v r _ now'] by (auto simp: roleEligibilityUnchecked_def split: if_splits)

lemma claim_clock:
  "claimDeliveryPlanningRoleSpawn H now v r i b at = Inr w \<Longrightarrow> claimDeliveryPlanningRoleSpawn H now' v r i b at = Inr w"
  using eligibility_clock [of H now v r _ now'] next_clock [of H now v _ at w now']
  by (auto simp: claimDeliveryPlanningRoleSpawn_def validate_run_Inr intro: valid_run_clock)

section \<open>The requests\<close>

abbreviation pns_M :: "planning_run store_module" where
  "pns_M \<equiv> planning_module plan_host"

definition pns_env :: "char \<Rightarrow> planning_run environment" where
  "pns_env c = \<lparr>en_now = plan_time c, en_newId = ''planning-run-87654321'', en_directory = None,
     en_initial = W_done, en_write = W_done\<rparr>"

lemma pns_env_simps [simp]:
  "en_now (pns_env c) = plan_time c" "en_directory (pns_env c) = None"
  "en_initial (pns_env c) = W_done" "en_write (pns_env c) = W_done"
  by (simp_all add: pns_env_def)

definition pns_create :: planning_create_request where
  "pns_create = \<lparr>ncq_operationId = ''create-1'', ncq_expectedStoreRevision = 0,
     ncq_run = \<lparr>ni_id = Some ''planning-run-12345678'', ni_sourcePlan = pr_plan\<rparr>\<rparr>"

definition pns_claim :: planning_change_request where
  "pns_claim = \<lparr>nq_runId = ''planning-run-12345678'', nq_operationId = ''claim-01'', nq_expectedStoreRevision = 1,
     nq_expectedRunRevision = 1, nq_change = N_claimRoleSpawn R_po pr_attempt_id pr_binding\<rparr>"

definition pns_creation :: prepared_planning_create where
  "pns_creation = \<lparr>np_id = ''create-1'', np_digest = pr_digest CHR ''1'', np_storeRevision = 0, np_run = ncq_run pns_create\<rparr>"

definition pns_claiming :: prepared_planning_change where
  "pns_claiming = \<lparr>np_id = ''claim-01'', np_digest = pr_digest CHR ''c'', np_storeRevision = 1,
     np_runId = ''planning-run-12345678'', np_runRevision = 1, np_change = nq_change pns_claim\<rparr>"

lemma pns_prepares: "preparePlanningCreate plan_host pns_create = Inr pns_creation"
  "preparePlanningChange plan_host pns_claim = Inr pns_claiming"
  by code_simp+

lemma pns_sha: "digest_pattern (sha256hex plan_host s)"
proof -
  have "is_hex (hex_digit n)" if "n < 16" for n
    using that by (auto simp: hex_digit_def is_hex_def is_digit_def code_def)
  then show ?thesis
    by (auto simp: plan_host_def toy_digest_text_def digest_pattern_def list_all_iff)
      (simp add: is_hex_def is_digit_def code_def)
qed

lemma pns_claim_operation:
  "apply_planning plan_host now (planning_operation_of (change_context pns_claiming) (np_change pns_claiming))
     (plan_time CHR ''2'') pr_created = Inr pr_claimed"
  using claim_clock [OF pr_claims] by (simp add: pns_claiming_def pns_claim_def)

section \<open>Two mutations\<close>

abbreviation pns_store0 :: "planning_run receipt_store" where
  "pns_store0 \<equiv> emptyReceiptStore pns_M"

definition pns_receipt1 :: "planning_run receipt" where
  "pns_receipt1 = planning_receipt (NM_create pns_creation) (plan_time CHR ''1'') pns_store0 pr_created"

definition pns_store1 :: "planning_run receipt_store" where
  "pns_store1 = appended pns_M pns_store0 pns_receipt1"

definition pns_receipt2 :: "planning_run receipt" where
  "pns_receipt2 = planning_receipt (NM_change pns_claiming) (plan_time CHR ''2'') pns_store1 pr_claimed"

definition pns_store2 :: "planning_run receipt_store" where
  "pns_store2 = appended pns_M pns_store1 pns_receipt2"

lemma pns_slots:
  "run_slot_bytes (planning_run_json pr_created) \<le> CURRENT_RUN_SLOT_MAX_BYTES"
  "run_slot_bytes (planning_run_json pr_claimed) \<le> CURRENT_RUN_SLOT_MAX_BYTES"
  "operation_slot_bytes (receipt_json pns_M pns_receipt1) \<le> OPERATION_SLOT_MAX_BYTES"
  "operation_slot_bytes (receipt_json pns_M pns_receipt2) \<le> OPERATION_SLOT_MAX_BYTES"
  by code_simp+

lemma pns_valid0: "validateReceiptStore pns_M pns_store0 = Inr pns_store0"
  by (rule planning_stores.empty_valid)

lemma pns_capacity0: "assertPlanningCapacity plan_host pns_store0 True = None"
proof -
  have "activeReservation pns_store0 = Inr \<lparr>rs_activeCount = 0, rs_operationHeadroom = 0, rs_persistedByteHeadroom = 0\<rparr>"
    by (simp add: activeReservation_def emptyReceiptStore_def Let_def)
  moreover have "persistedJsonBytes (store_json pns_M pns_store0) + projected_reservation \<le> PLANNING_MAX_STORE_BYTES"
    by code_simp
  ultimately show ?thesis
    by (simp add: assertPlanningCapacity_def deliveryPlanningRunStoreCapacity_def pns_valid0)
      (simp add: emptyReceiptStore_def PLANNING_MAX_OPERATIONS_def PLANNING_MAX_RUNS_def PLANNING_MAX_ACTIVE_RUNS_def footprint)
qed

lemma pns_next1: "nextPlanningStore plan_host pns_store0 (np_id pns_creation) ''planning_run.create'' (np_digest pns_creation)
    (plan_time CHR ''1'') pr_created = Inr pns_store1"
  using planning_create_stored [OF pns_sha pns_prepares(1) pns_valid0 pns_capacity0 _ _ pr_times(1) _
      create_clock [OF pr_creates] pns_receipt1_def pns_slots(1,3)]
  by (simp add: pns_store1_def emptyReceiptStore_def assertChronology_def)

lemmas pns_valid1 = nextStore_Inr(1) [OF pns_next1]

lemma pns_receipts:
  "rc_id pns_receipt1 = ''create-1''" "rc_at pns_receipt1 = plan_time CHR ''1''" "rc_item pns_receipt1 = pr_created"
  "rc_id pns_receipt2 = ''claim-01''" "rc_item pns_receipt2 = pr_claimed"
  by (simp_all add: pns_receipt1_def pns_receipt2_def planning_receipt_def pns_creation_def pns_claiming_def)

lemma pns_runs: "pn_id pr_created = ''planning-run-12345678''" "pn_id pr_claimed = ''planning-run-12345678''"
  "pn_revision pr_created = 1" "\<not> runIsTerminal pr_created" "\<not> runIsTerminal pr_claimed"
  by (simp_all add: pr_created_def pr_claimed_def runIsTerminal_def)

lemma pns_store1_simps:
  "st_items pns_store1 = [pr_created]" "st_operations pns_store1 = [pns_receipt1]" "st_revision pns_store1 = 1"
  by (simp_all add: pns_store1_def appended_def emptyReceiptStore_def put_item_def pns_receipts)

lemma pns_store2_simps:
  "st_items pns_store2 = [pr_claimed]" "st_operations pns_store2 = [pns_receipt1, pns_receipt2]" "st_revision pns_store2 = 2"
  by (simp_all add: pns_store2_def appended_def put_item_def pns_receipts pns_store1_simps pns_runs)

lemma pns_found: "find (\<lambda>c. pn_id c = np_runId pns_claiming) (st_items pns_store1) = Some pr_created"
  by (simp add: pns_store1_simps pns_runs pns_claiming_def)

lemma pns_clock: "assertPlanningChronology plan_host pns_store1 (plan_time CHR ''2'') = None"
  using pr_times by (simp add: assertChronology_def pns_store1_simps pns_receipts)

section \<open>The repository\<close>

abbreviation pns_repo0 :: planning_repository where "pns_repo0 \<equiv> new_repository F_absent"

definition pns_repo1 :: planning_repository where
  "pns_repo1 = \<lparr>rp_store = Some pns_store1, rp_file = F_store pns_store1, rp_poisoned = None\<rparr>"

definition pns_repo2 :: planning_repository where
  "pns_repo2 = \<lparr>rp_store = Some pns_store2, rp_file = F_store pns_store2, rp_poisoned = None\<rparr>"

lemma pns_decides1: "planning_decide plan_host (NM_create pns_creation) (pns_env CHR ''1'') pns_store0 =
    Inr (Commit pns_store1 (planning_reply pns_store0 pr_created))"
proof -
  have "planning_run_id_pattern ''planning-run-12345678''" "to_lower (js_trim ''planning-run-12345678'') = ''planning-run-12345678''"
    by code_simp+
  then have i: "planningRunId ''planning-run-12345678'' = Inr ''planning-run-12345678''" by (simp add: planningRunId_def)
  have p: "ni_id (np_run pns_creation) = Some ''planning-run-12345678''" "ni_sourcePlan (np_run pns_creation) = pr_plan"
    "np_storeRevision pns_creation = 0"
    by (simp_all add: pns_creation_def pns_create_def)
  have e: "st_items pns_store0 = []" "st_operations pns_store0 = []" "st_revision pns_store0 = 0"
    by (simp_all add: emptyReceiptStore_def)
  show ?thesis
    using pns_next1 create_clock [OF pr_creates, of "plan_time CHR ''1''"] pns_capacity0 pr_times(1)
    by (simp add: decidePlanningCreate_def operationReplay_def freshPlanningCreate_def assertStoreRevision_def
        st_timestamp_def assertChronology_def i p e)
qed

lemma pns_creates: "handle_planning_request plan_host (pns_env CHR ''1'') (NR_create pns_create) pns_repo0 =
    (Inr (planning_reply pns_store0 pr_created), pns_repo1)"
  by (simp add: handle_planning_request_mutate pns_prepares mutate_def ensureInitialized_def load_def new_repository_def
      readStoreFile_def persist_def pns_valid0 pns_valid1 pns_decides1 pns_repo1_def
      del: handle_planning_request.simps planning_decide.simps)

lemma pns_mutates1: "planning_mutates plan_host pns_repo0 pns_repo1"
  using pns_creates unfolding handle_planning_request_mutate mutates_def by (auto simp: pns_prepares)

lemma pns_repo0_reached: "planning_repository_reached plan_host pns_repo0"
  by (rule reaches_start) simp

lemmas pns_repo1_reached = reaches_step [OF pns_repo0_reached pns_mutates1]

lemma pns_repo_open: "planning_repository_open plan_host pns_repo0" "planning_repository_open plan_host pns_repo1"
proof -
  show a: "planning_repository_open plan_host pns_repo0" by (rule reaches_start) (auto simp: opened_def)
  from reaches_step [OF a pns_mutates1] show "planning_repository_open plan_host pns_repo1" .
qed

lemma pns_current: "current_store pns_M pns_repo1 = Inr pns_store1"
  by (simp add: current_store_def pns_repo1_def)

end
