(* ===== verification/PlanningStoreProperties.thy ===== *)
theory PlanningStoreProperties
  imports PlanningStoreExample
begin

text \<open>
  The properties of the store of planning runs: what is stored is the history of one planning
  run after another, the reservation for the active run is always enough, so an accepted
  operation is committed, and a store that was written is found again.
\<close>

section \<open>What is stored\<close>

text \<open>C4: In every store that a repository of planning runs reaches from a missing file, the
  receipts of a run are its whole history: the first one is the result of
  createDeliveryPlanningRun, each next one the result of an operation of
  delivery-planning-run.js on the one before, and the last one is the stored run. Their number
  is the revision of the run, and at most one run is not over.\<close>

theorem stored_planning_run_is_history:
  assumes "planning_repository_reached H repo" "rp_poisoned repo = None"
    "current_store (planning_module H) repo = Inr s" "run \<in> set (st_items s)"
  shows "item_history (planning_start H) (planning_step H) (snapshots pn_id s (pn_id run))
    \<and> last (snapshots pn_id s (pn_id run)) = run \<and> planning_reachable H run
    \<and> int (operationsForRun s (pn_id run)) = pn_revision run
    \<and> (\<forall>other \<in> set (st_items s). \<not> runIsTerminal run \<and> \<not> runIsTerminal other \<longrightarrow> other = run)"
proof -
  have valid: "validateReceiptStore (planning_module H) s = Inr s" and hist: "planning_histories H s"
    using planning_courses.reached_store [OF assms(1-3)] by simp_all
  have "other = run" if "other \<in> set (st_items s)" "\<not> runIsTerminal run" "\<not> runIsTerminal other" for other
    using active_single [OF valid assms(4) that(2)] active_single [OF valid that(1,3)] by simp
  with planning_courses.reached_item [OF assms] stored_run_operations [OF hist assms(4)] show ?thesis by auto
qed

theorem stored_planning_run_is_history_witness:
  "int (operationsForRun pns_store1 (pn_id pr_created)) = 1 \<and> planning_reachable plan_host pr_created"
  using stored_planning_run_is_history [OF pns_repo1_reached _ pns_current, of pr_created]
  by (simp add: pns_repo1_def pns_store1_simps pns_runs)

section \<open>The reservation\<close>

text \<open>C5: The budget of the active run is never exceeded: in a reached store a run that is not over
  has taken at most 71 of the 77 operations that are reserved for it, so the store never
  refuses its next receipt for the budget; the receipts still reserved fit the 1024 of the
  store, and the store with everything still reserved fits 32 MiB.\<close>

theorem planning_budget_holds:
  assumes "planning_repository_reached H repo" "rp_poisoned repo = None"
    "current_store (planning_module H) repo = Inr s" "run \<in> set (st_items s)" "\<not> runIsTerminal run"
  shows "int (operationsForRun s (pn_id run)) \<le> 71 \<and> MAX_ACTIVE_OPERATION_FOOTPRINT = 77
    \<and> int (length (st_operations s)) + remaining_operations s run \<le> 1024
    \<and> persistedJsonBytes (store_json (planning_module H) s) + reserved_bytes s run \<le> 32 * 1024 * 1024"
proof -
  have valid: "validateReceiptStore (planning_module H) s = Inr s" and hist: "planning_histories H s"
    using planning_courses.reached_store [OF assms(1-3)] by simp_all
  note reach = stored_run_reachable [OF hist assms(4)]
  have "pn_phase run \<notin> {PH_applied, PH_closed}"
    using assms(5) runIsTerminal_iff [OF reachable_course_ok [OF reach]] by simp
  from open_revision [OF reach this] stored_run_operations [OF hist assms(4)]
  have "int (operationsForRun s (pn_id run)) \<le> 71" by simp
  with valid_active(2,3) [OF valid] show ?thesis
    by (simp add: active_single [OF valid assms(4,5)] footprint PLANNING_MAX_STORE_BYTES_def)
qed

theorem planning_budget_holds_witness:
  "persistedJsonBytes (store_json pns_M pns_store1) + reserved_bytes pns_store1 pr_created \<le> 32 * 1024 * 1024"
  using planning_budget_holds [OF pns_repo1_reached _ pns_current, of pr_created]
  by (simp add: pns_repo1_def pns_store1_simps pns_runs)

text \<open>C3: An operation that delivery-planning-run.js accepts on the stored run is always committed,
  whatever the store holds: with the expected revisions, a fresh operation identifier, a clock
  that does not run backwards, and a run and a receipt within their slots, the receipt is
  appended, the run replaced, and both the file and the memory hold the new store. There is no
  premise on the number of receipts or the size of the store: the reservation made when the run
  was created pays for all its operations.\<close>

theorem accepted_planning_change_commits:
  assumes "\<And>x. digest_pattern (sha256hex H x)" "preparePlanningChange H q = Inr p"
    "planning_repository_reached H repo" "rp_store repo = Some s" "rp_poisoned repo = None"
    "find (\<lambda>c. pn_id c = np_runId p) (st_items s) = Some run"
    "np_storeRevision p = st_revision s" "np_runRevision p = pn_revision run"
    "np_id p \<notin> set (map rc_id (st_operations s))"
    "valid_timestamp (en_now env)" "assertPlanningChronology H s (en_now env) = None"
    "apply_planning H (en_now env) (planning_operation_of (change_context p) (np_change p)) (en_now env) run = Inr r"
    "c = planning_receipt (NM_change p) (en_now env) s r"
    "run_slot_bytes (planning_run_json r) \<le> CURRENT_RUN_SLOT_MAX_BYTES"
    "operation_slot_bytes (receipt_json (planning_module H) c) \<le> OPERATION_SLOT_MAX_BYTES" "en_write env = W_done"
  shows "handle_planning_request H env (NR_change q) repo =
    (Inr (planning_reply s r), repo\<lparr>rp_store := Some (appended (planning_module H) s c),
       rp_file := F_store (appended (planning_module H) s c)\<rparr>)"
proof -
  have "current_store (planning_module H) repo = Inr s" using assms(4) by (simp add: current_store_def)
  from planning_courses.reached_store [OF assms(3,5) this]
  have valid: "validateReceiptStore (planning_module H) s = Inr s" and hist: "planning_histories H s" by simp_all
  note n = planning_change_stored [OF assms(1,2) valid hist assms(6,9-15)]
  have "find (\<lambda>c. rc_id c = np_id p) (st_operations s) = None" unfolding find_key_None using assms(9) .
  then have "planning_decide H (NM_change p) env s = Inr (Commit (appended (planning_module H) s c) (planning_reply s r))"
    using assms(6-8,10-12) n(1) change_capacity [OF valid n(2)]
    by (simp add: decidePlanningChange_def operationReplay_def freshPlanningChange_def assertStoreRevision_def st_timestamp_def)
  with assms(2,4,5,16) nextStore_Inr(1) [OF n(1)] show ?thesis
    by (simp add: handle_planning_request_mutate mutate_def ensureInitialized_def persist_def
        del: handle_planning_request.simps planning_decide.simps)
qed

theorem accepted_planning_change_commits_witness:
  "handle_planning_request plan_host (pns_env CHR ''2'') (NR_change pns_claim) pns_repo1 =
    (Inr (planning_reply pns_store1 pr_claimed), pns_repo2)"
proof -
  have "handle_planning_request plan_host (pns_env CHR ''2'') (NR_change pns_claim) pns_repo1 =
    (Inr (planning_reply pns_store1 pr_claimed), pns_repo1\<lparr>rp_store := Some (appended pns_M pns_store1 pns_receipt2),
       rp_file := F_store (appended pns_M pns_store1 pns_receipt2)\<rparr>)"
    by (rule accepted_planning_change_commits [OF pns_sha pns_prepares(2) pns_repo1_reached _ _ pns_found])
      (use pns_slots pr_times pns_clock pns_claim_operation in
        \<open>simp_all add: pns_repo1_def pns_store1_simps pns_receipts pns_receipt2_def pns_runs, simp_all add: pns_claiming_def\<close>)
  then show ?thesis by (simp add: pns_repo1_def pns_repo2_def pns_store2_def)
qed





text \<open>C36: While a run is active no other run is created: every creation request that is not the
  repetition of an answered one is refused, and the repository keeps its store.\<close>

theorem creation_waits_for_active_run:
  assumes "planning_repository_open H repo" "rp_store repo = Some s" "rp_poisoned repo = None"
    "run \<in> set (st_items s)" "\<not> runIsTerminal run"
    "preparePlanningCreate H q = Inr p" "np_id p \<notin> set (map rc_id (st_operations s))"
  shows "\<exists>e. handle_planning_request H env (NR_create q) repo = (Inl e, repo)"
proof -
  have valid: "validateReceiptStore (planning_module H) s = Inr s"
    using planning_stores.reaches_inv [OF assms(1)] assms(2) by (simp add: consistent_def)
  have full: "assertPlanningCapacity H s True \<noteq> None"
    using capacity_None(2) [of H s True] valid active_single [OF valid assms(4,5)] by auto
  have "find (\<lambda>c. rc_id c = np_id p) (st_operations s) = None" unfolding find_key_None using assms(7) .
  then have "planning_decide H (NM_create p) env s = freshPlanningCreate H p env s"
    by (simp add: decidePlanningCreate_def operationReplay_def)
  moreover have "\<exists>e. freshPlanningCreate H p env s = Inl e"
  proof (cases "freshPlanningCreate H p env s")
    case (Inr z)
    then show ?thesis by (rule freshPlanningCreate_Inr) (use full in simp)
  qed simp
  ultimately show ?thesis
    using assms(2,3,6)
    by (auto simp: handle_planning_request_mutate mutate_def ensureInitialized_def simp del: handle_planning_request.simps planning_decide.simps)
qed

definition pns_second :: planning_create_request where
  "pns_second = pns_create\<lparr>ncq_operationId := ''create-2''\<rparr>"

theorem creation_waits_for_active_run_witness:
  "\<exists>e. handle_planning_request plan_host (pns_env CHR ''2'') (NR_create pns_second) pns_repo1 = (Inl e, pns_repo1)"
proof -
  have "map_sum (\<lambda>e. e) np_id (preparePlanningCreate plan_host pns_second) = Inr ''create-2''" by code_simp
  then obtain p where p: "preparePlanningCreate plan_host pns_second = Inr p" "np_id p = ''create-2''"
    by (cases "preparePlanningCreate plan_host pns_second") auto
  show ?thesis
    by (rule creation_waits_for_active_run [OF pns_repo_open(2) _ _ _ pns_runs(4) p(1), where s = pns_store1])
      (simp_all add: pns_repo1_def pns_store1_simps pns_receipts p(2))
qed

section \<open>Requests\<close>

text \<open>C37: A request of a planning repository takes effect at most once: after it was answered, and
  after any other mutations, it gets the same answer marked as a replay, another request under
  its identifier is refused as a conflict, and neither changes anything.\<close>

theorem planning_request_once:
  assumes "planning_repository_open H repo" "handle_planning_request H env rq repo = (Inr y, repo1)"
    "preparePlanningRequest H rq = Inr m" "preparePlanningRequest H rq' = Inr m'"
    "fst (planning_identity m') = fst (planning_identity m)"
    "(planning_mutates H)\<^sup>*\<^sup>* repo1 repo2" "rp_poisoned repo2 = None"
  shows "handle_planning_request H env' rq' repo2 =
    (if planning_identity m' = planning_identity m then Inr (y\<lparr>ry_replayed := True\<rparr>)
     else Inl (dns_error ''operation_conflict''), repo2)"
proof -
  note c = planning_stores.reaches_inv [OF assms(1)]
  from assms(2,3) have op: "mutate (planning_module H) env (planning_decide H m env) repo = (Inr y, repo1)"
    by (simp add: handle_planning_request_mutate)
  show ?thesis
    using planning_stores.replay_later [OF c op assms(6,7), of m' env']
      planning_stores.conflict_later [OF c op assms(6,7,5), of env'] assms(4)
    by (simp add: handle_planning_request_mutate store_error_def dns_error_def)
qed

theorem planning_request_once_witness:
  "handle_planning_request plan_host (pns_env CHR ''2'') (NR_create pns_create) pns_repo1
     = (Inr ((planning_reply pns_store0 pr_created)\<lparr>ry_replayed := True\<rparr>), pns_repo1)"
proof -
  have "preparePlanningRequest plan_host (NR_create pns_create) = Inr (NM_create pns_creation)"
    by (simp add: pns_prepares)
  from planning_request_once [OF pns_repo_open(1) pns_creates this this refl rtranclp.rtrancl_refl, of "pns_env CHR ''2''"]
  show ?thesis by (simp add: pns_repo1_def)
qed

text \<open>C35: What is answered was done on what was seen: a change that is answered, and is not a
  replay, was applied by delivery-planning-run.js to the stored run at exactly the run revision
  and the store revision that the request names, the answer is what it made of that run, and
  the file holds it.\<close>

theorem planning_change_applies_to_seen_revision:
  assumes "planning_repository_open H repo" "handle_planning_request H env (NR_change q) repo = (Inr y, repo')"
    "\<not> ry_replayed y" "preparePlanningChange H q = Inr p"
  shows "\<exists>s run t. current_store (planning_module H) repo = Inr s \<and> st_revision s = np_storeRevision p
    \<and> find (\<lambda>c. pn_id c = np_runId p) (st_items s) = Some run \<and> pn_revision run = np_runRevision p
    \<and> apply_planning H (en_now env) (planning_operation_of (change_context p) (np_change p)) (en_now env) run = Inr (ry_item y)
    \<and> rp_store repo' = Some t \<and> rp_file repo' = F_store t \<and> st_revision t = np_storeRevision p + 1
    \<and> find (\<lambda>c. pn_id c = np_runId p) (st_items t) = Some (ry_item y)"
proof -
  note c = planning_stores.reaches_inv [OF assms(1)]
  from assms(2,4) have mut: "mutate (planning_module H) env (planning_decide H (NM_change p) env) repo = (Inr y, repo')"
    by (simp add: handle_planning_request_mutate del: handle_planning_request.simps planning_decide.simps)
  from planning_stores.mutate_Inr_loaded [OF c mut] obtain t where t: "rp_store repo' = Some t" "rp_poisoned repo' = None"
    by blast
  from planning_stores.mutate_outcome [OF c mut t(2)] assms(3) t obtain s where
    s: "current_store (planning_module H) repo = Inr s" "planning_decide H (NM_change p) env s = Inr (Commit t y)"
      "rp_file repo' = F_store t" "st_revision t = st_revision s + 1"
    by (auto simp: current_store_def reply_of_def commits_def simp del: planning_decide.simps)
  from planning_courses.decide_commit_fresh [OF s(2)] have "freshPlanningChange H p env s = Inr (Commit t y)" by simp
  then show ?thesis
  proof (rule freshPlanningChange_Inr)
    fix run r t' at
    assume run: "find (\<lambda>c. pn_id c = np_runId p) (st_items s) = Some run"
      and op: "apply_planning H at (planning_operation_of (change_context p) (np_change p)) at run = Inr r"
      and n: "nextPlanningStore H s (np_id p) (planning_action (np_change p)) (np_digest p) at r = Inr t'"
      and rest: "pn_revision run = np_runRevision p" "st_revision s = np_storeRevision p" "at = en_now env"
        "Commit t y = Commit t' (planning_reply s r)"
    have "pn_id r = np_runId p" using operation_binding(1) [OF op] find_SomeD [OF run] by (simp add: same_binding_def)
    then have "find (\<lambda>c. pn_id c = np_runId p) (st_items t) = Some r"
      using nextStore_Inr(3) [OF n] rest(4) by (simp add: put_item_find)
    with s t run op rest show ?thesis by (auto simp: planning_reply_def)
  qed
qed

theorem planning_change_applies_to_seen_revision_witness:
  "apply_planning plan_host (plan_time CHR ''2'') (planning_operation_of (change_context pns_claiming) (np_change pns_claiming))
     (plan_time CHR ''2'') pr_created = Inr pr_claimed"
proof -
  have n: "nextPlanningStore plan_host pns_store1 (np_id pns_claiming) (planning_action (np_change pns_claiming))
      (np_digest pns_claiming) (plan_time CHR ''2'') pr_claimed = Inr pns_store2" and few: "length (st_operations pns_store1) < 1024"
  proof -
    have "planning_histories plan_host pns_store1"
      using planning_courses.reached_store [OF pns_repo1_reached _ pns_current] by (simp add: pns_repo1_def)
    from planning_change_stored [OF pns_sha pns_prepares(2) pns_valid1 this pns_found _ pr_times(2) pns_clock
        pns_claim_operation pns_receipt2_def pns_slots(2,4)]
    show "nextPlanningStore plan_host pns_store1 (np_id pns_claiming) (planning_action (np_change pns_claiming))
      (np_digest pns_claiming) (plan_time CHR ''2'') pr_claimed = Inr pns_store2" "length (st_operations pns_store1) < 1024"
      by (simp_all add: pns_store1_simps pns_receipts pns_store2_def) (simp_all add: pns_claiming_def)
  qed
  have p: "np_storeRevision pns_claiming = 1" "np_runRevision pns_claiming = 1" "''create-1'' \<noteq> np_id pns_claiming"
    by (simp_all add: pns_claiming_def)
  have "planning_decide plan_host (NM_change pns_claiming) (pns_env CHR ''2'') pns_store1 =
      Inr (Commit pns_store2 (planning_reply pns_store1 pr_claimed))"
    using n pns_found pns_clock pr_times(2) pns_claim_operation [of "plan_time CHR ''2''"] change_capacity [OF pns_valid1 few]
    by (simp add: decidePlanningChange_def operationReplay_def freshPlanningChange_def assertStoreRevision_def
        st_timestamp_def p pns_store1_simps pns_receipts pns_runs)
  then have "handle_planning_request plan_host (pns_env CHR ''2'') (NR_change pns_claim) pns_repo1 =
    (Inr (planning_reply pns_store1 pr_claimed), pns_repo2)"
    using nextStore_Inr(1) [OF n]
    by (simp add: handle_planning_request_mutate pns_prepares mutate_def ensureInitialized_def persist_def
        pns_repo1_def pns_repo2_def del: handle_planning_request.simps planning_decide.simps)
  from planning_change_applies_to_seen_revision [OF pns_repo_open(2) this _ pns_prepares(2)] show ?thesis
    by (auto simp: planning_reply_def pns_current pns_found)
qed

section \<open>After a restart\<close>

text \<open>C38: A store of planning runs that was written is always found again: the check before a write
  measures the indented text that is written, so a new process reads the committed store, with
  no condition on its size.\<close>

theorem planning_restart_finds_store:
  assumes "planning_repository_open H repo" "rp_store repo = Some s" "rp_file repo = F_store s" "en_directory env = None"
  shows "ensureInitialized (planning_module H) env (new_repository (rp_file repo)) =
    (Inr s, (new_repository (F_store s))\<lparr>rp_store := Some s\<rparr>)"
proof -
  have valid: "validateReceiptStore (planning_module H) s = Inr s"
    using planning_stores.reaches_inv [OF assms(1)] assms(2) by (simp add: consistent_def)
  have "fileBytes (planning_module H) s \<le> PLANNING_MAX_STORE_BYTES"
    using valid_active(4) [OF valid] by (simp add: fileBytes_def persistedJsonBytes_def)
  with valid assms(3,4) show ?thesis
    by (simp add: ensureInitialized_def load_def new_repository_def readStoreFile_def not_less)
qed

theorem planning_restart_finds_store_witness:
  "fst (ensureInitialized pns_M (pns_env CHR ''2'') (new_repository (rp_file pns_repo1))) = Inr pns_store1"
  using planning_restart_finds_store [OF pns_repo_open(2), of pns_store1 "pns_env CHR ''2''"]
  by (simp add: pns_repo1_def)

section \<open>Summaries\<close>

text \<open>The summary counts every run once: at most one is active, and every other one is applied
  or canceled; the lists are the runs newest first, within their limits.\<close>

theorem planning_summary_partitions:
  assumes "planning_repository_reached H repo" "rp_poisoned repo = None"
    "current_store (planning_module H) repo = Inr s"
    "summaryFromPlanningStore H activeLimit recentLimit s = Inr w"
  shows "uw_total w = uw_activeCount w + uw_applied w + uw_canceled w \<and> uw_activeCount w \<le> 1
    \<and> uw_needsAttention w \<le> uw_activeCount w \<and> length (uw_active w) \<le> 1 \<and> length (uw_recent w) \<le> 128"
proof -
  have valid: "validateReceiptStore (planning_module H) s = Inr s" and hist: "planning_histories H s"
    using planning_courses.reached_store [OF assms(1-3)] by simp_all
  let ?a = "sort_by (planningNewestFirst H) (active_runs s)"
  let ?t = "sort_by (planningNewestFirst H) (filter runIsTerminal (st_items s))"
  from assms(4) obtain m n where limits: "planningNormalizedLimit recentLimit 20 ''recent_limit'' = Inr n"
    and w: "uw_total w = length (st_items s)" "uw_activeCount w = length ?a"
      "uw_applied w = length (filter (\<lambda>r. pn_phase r = PH_applied) ?t)"
      "uw_canceled w = length (filter (\<lambda>r. pn_condition r = K_canceled) ?t)"
      "uw_needsAttention w = length (filter planning_needs_attention ?a)"
      "uw_active w = map planningRunSummary (take m ?a)" "uw_recent w = map planningRunSummary (take n ?t)"
    by (auto simp: summaryFromPlanningStore_def Let_def)
  have n: "n \<le> 128" using limits by (auto simp: planningNormalizedLimit_def Let_def PLANNING_MAX_SUMMARY_ITEMS_def)
  have over: "pn_phase r = PH_applied \<longleftrightarrow> pn_condition r \<noteq> K_canceled" if "r \<in> set (st_items s)" "runIsTerminal r" for r
  proof -
    note ok = reachable_course_ok [OF stored_run_reachable [OF hist that(1)]]
    show ?thesis using that(2) runIsTerminal_iff [OF ok] course_ok_ended(1,3) [OF ok] by auto
  qed
  have "length (filter (\<lambda>r. pn_phase r = PH_applied) rs) + length (filter (\<lambda>r. pn_condition r = K_canceled) rs) = length rs"
    if "\<forall>r \<in> set rs. pn_phase r = PH_applied \<longleftrightarrow> pn_condition r \<noteq> K_canceled" for rs
    using that by (induction rs) auto
  from this [of ?t] have "uw_applied w + uw_canceled w = length ?t" using over unfolding w by simp
  moreover have "length ?a + length ?t = length (st_items s)"
    using sum_length_filter_compl [of runIsTerminal "st_items s"] by simp
  moreover have "length ?a \<le> 1" using valid_active(1) [OF valid] by simp
  moreover have "uw_needsAttention w \<le> length ?a" unfolding w by (rule length_filter_le)
  ultimately show ?thesis using n by (simp add: w min_le_iff_disj)
qed

theorem planning_summary_partitions_witness:
  "\<exists>w. summaryFromPlanningStore plan_host None None pns_store1 = Inr w \<and> uw_total w = 1
    \<and> uw_activeCount w + uw_applied w + uw_canceled w = 1"
proof -
  obtain w where w: "summaryFromPlanningStore plan_host None None pns_store1 = Inr w"
    by (cases "summaryFromPlanningStore plan_host None None pns_store1")
      (auto simp: summaryFromPlanningStore_def planningNormalizedLimit_def safe_integer_def MAX_SAFE_INTEGER_def
        PLANNING_MAX_SUMMARY_ITEMS_def Let_def)
  moreover have "uw_total w = 1" using w by (auto simp: summaryFromPlanningStore_def Let_def pns_store1_simps)
  ultimately show ?thesis
    using planning_summary_partitions [OF pns_repo1_reached _ pns_current w] by (auto simp: pns_repo1_def)
qed

end
