(* ===== verification/JsNumber.thy ===== *)
theory JsNumber
  imports StrictJsonFacts JsDatePrint
begin

text \<open>
  \<open>Number(text)\<close>, as far as the code asks about it: whether the result is an integer, and which
  one. The literal is read by ECMAScript's StringNumericLiteral grammar to an exact fraction,
  which is rounded to a double as in the parser of JSON numbers.
\<close>

definition double_integer :: "nat \<Rightarrow> nat \<Rightarrow> int option" where
  "double_integer a b = (case double_value False a b of Some (Whole n) \<Rightarrow> Some n | _ \<Rightarrow> None)"

text \<open>The digits and the power of ten of an unsigned decimal literal, with nothing after it.\<close>

definition decimal_literal :: "string \<Rightarrow> (nat \<times> int) option" where
  "decimal_literal s =
     (let a = takeWhile is_digit s; r = dropWhile is_digit s; pointed = starts_with ''.'' r;
          f = (if pointed then takeWhile is_digit (drop 1 r) else []);
          (power, u) = exponent_part (if pointed then dropWhile is_digit (drop 1 r) else r)
      in if a @ f = [] \<or> u \<noteq> [] then None
         else Some (decimal_value (a @ f), power - int (length f)))"

definition decimal_integer :: "string \<Rightarrow> int option" where
  "decimal_integer s =
     (case decimal_literal s of
        None \<Rightarrow> None
      | Some (a, x) \<Rightarrow>
          if 0 \<le> x then double_integer (a * 10 ^ nat x) 1 else double_integer a (10 ^ nat (- x)))"

text \<open>The digits after \<open>0x\<close>, \<open>0o\<close> or \<open>0b\<close>.\<close>

definition radix_integer :: "nat \<Rightarrow> string \<Rightarrow> int option" where
  "radix_integer b s =
     (if s = [] \<or> \<not> list_all (\<lambda>c. is_hexadecimal c \<and> hexadecimal_value c < b) s then None
      else double_integer (foldl (\<lambda>v c. b * v + hexadecimal_value c) 0 s) 1)"

definition literal_integer :: "string \<Rightarrow> int option" where
  "literal_integer t =
     (let p = to_lower (take 2 t) in
      if t = [] then Some 0
      else if p = ''0x'' then radix_integer 16 (drop 2 t)
      else if p = ''0o'' then radix_integer 8 (drop 2 t)
      else if p = ''0b'' then radix_integer 2 (drop 2 t)
      else if starts_with ''-'' t then map_option uminus (decimal_integer (drop 1 t))
      else if starts_with ''+'' t then decimal_integer (drop 1 t)
      else decimal_integer t)"

text \<open>\<open>Some n\<close> when \<open>Number.isInteger(Number(s))\<close>, and \<open>n\<close> is the value.\<close>

definition js_integer :: "string \<Rightarrow> int option" where
  "js_integer s = literal_integer (js_trim s)"

text \<open>A text of digits below \<open>2 ^ 53\<close> is the number it shows.\<close>

lemma js_integer_digits:
  assumes "s \<noteq> []" "list_all is_digit s" "decimal_value s < 2 ^ 53"
  shows "js_integer s = Some (int (decimal_value s))"
proof -
  obtain c cs where s: "s = c # cs" and c: "is_digit c" using assms(1,2) by (cases s) auto
  have "list_all (\<lambda>d. \<not> is_space d) s"
    using assms(2) by (auto simp: list_all_iff is_digit_def is_space_def)
  then have trim: "js_trim s = s" by (rule js_trim_id)
  have low: "is_digit d \<Longrightarrow> lower_char d = d" for d
    by (auto simp: lower_char_def is_upper_def is_digit_def Let_def)
  have "list_all is_digit (to_lower (take 2 s))"
    using assms(2) low by (auto simp: to_lower_def list_all_iff dest: in_set_takeD)
  then have "to_lower (take 2 s) \<noteq> ''0x'' \<and> to_lower (take 2 s) \<noteq> ''0o'' \<and> to_lower (take 2 s) \<noteq> ''0b''"
    by (auto simp: is_digit_def code_def)
  moreover have "\<not> starts_with ''-'' s" "\<not> starts_with ''+'' s"
    using c by (auto simp: s is_digit_def code_def)
  moreover have "decimal_integer s = Some (int (decimal_value s))"
  proof -
    have whole: "takeWhile is_digit s = s" "dropWhile is_digit s = []"
      using assms(2) by (simp_all add: list_all_iff takeWhile_eq_all_conv)
    have "decimal_literal s = Some (decimal_value s, 0)"
      unfolding decimal_literal_def whole using assms(1) by (simp add: exponent_part_def)
    then show ?thesis
      using double_whole [OF assms(3), of False] by (simp add: decimal_integer_def double_integer_def)
  qed
  ultimately show ?thesis using assms(1) by (simp add: js_integer_def literal_integer_def Let_def trim)
qed

text \<open>For evaluation: a short text of digits is read without the search for a double.\<close>

lemma digits_value_decimal: "list_all is_digit s \<Longrightarrow> digits_value s = int (decimal_value s)"
proof (induction s rule: rev_induct)
  case (snoc c s)
  then have "48 \<le> code c" by (simp add: is_digit_def)
  with snoc show ?case by (simp add: digits_value_snoc decimal_value_def of_nat_diff)
qed (simp add: digits_value_def decimal_value_def)

lemma js_integer_short [code]:
  "js_integer s =
     (if s \<noteq> [] \<and> list_all is_digit s \<and> length s \<le> 15 then Some (digits_value s)
      else literal_integer (js_trim s))"
proof (cases "s \<noteq> [] \<and> list_all is_digit s \<and> length s \<le> 15")
  case True
  then have "digits_value s < 10 ^ length s" using digits_value_bounds by blast
  also have "(10::int) ^ length s \<le> 10 ^ 15" using True by (intro power_increasing) auto
  finally have "int (decimal_value s) < 10 ^ 15" using True by (simp add: digits_value_decimal)
  then have "decimal_value s < 2 ^ 53" by simp
  with True js_integer_digits [of s] show ?thesis by (simp add: digits_value_decimal)
qed (auto simp: js_integer_def)

lemma js_integer_examples: "js_integer ''15'' = Some 15 \<and> js_integer ''1_0'' = None \<and> js_integer [] = Some 0"
  by code_simp

end
