(* ===== verification/PromptSchedule.thy ===== *)
theory PromptSchedule
  imports JsNumber JsTextFacts Machine
begin

text \<open>
  prompt-schedule.js: the five-field UTC cron expressions of recurring prompts. A field is read
  to the set of its values, an expression to a \<open>prompt_cron\<close>; \<open>cronMatches\<close> asks whether the
  UTC fields of an instant are in those sets, and \<open>nextPromptCronAt\<close> walks minute by minute to
  the first that matches. Instants are integers (milliseconds since 1970), and a \<open>Date\<close> is
  \<open>None\<close> once it leaves the range ECMAScript gives dates. All errors are values.
\<close>

section \<open>The UTC fields of an instant\<close>

definition utc_day_number :: "int \<Rightarrow> int" where
  "utc_day_number t = t div MS_PER_DAY"

definition utc_minutes :: "int \<Rightarrow> int" where
  "utc_minutes t = t mod MS_PER_DAY div 60000 mod 60"

definition utc_hours :: "int \<Rightarrow> int" where
  "utc_hours t = t mod MS_PER_DAY div 3600000"

definition utc_seconds :: "int \<Rightarrow> int" where
  "utc_seconds t = t div 1000 mod 60"

definition utc_milliseconds :: "int \<Rightarrow> int" where
  "utc_milliseconds t = t mod 1000"

definition utc_year :: "int \<Rightarrow> int" where
  "utc_year t = year_from_day (utc_day_number t)"

text \<open>January is 1, as in the ISO form (\<open>getUTCMonth() + 1\<close>).\<close>

definition utc_month :: "int \<Rightarrow> int" where
  "utc_month t = month_from_day (utc_year t) (utc_day_number t - day_from_year (utc_year t))"

definition utc_date :: "int \<Rightarrow> int" where
  "utc_date t = utc_day_number t - day_from_year (utc_year t) - month_start (utc_year t) (utc_month t) + 1"

text \<open>The first of January 1970 was a Thursday.\<close>

definition utc_weekday :: "int \<Rightarrow> int" where
  "utc_weekday t = (utc_day_number t + 4) mod 7"

text \<open>\<open>new Date(t)\<close>: no instant outside the range of dates.\<close>

definition js_date :: "int \<Rightarrow> int option" where
  "js_date t = (if \<bar>t\<bar> \<le> MAX_TIME then Some t else None)"

section \<open>Reading a field\<close>

record prompt_cron =
  pc_cron :: string
  pc_minutes :: "int set"
  pc_hours :: "int set"
  pc_days :: "int set"
  pc_months :: "int set"
  pc_weekdays :: "int set"
  pc_dayWildcard :: bool
  pc_weekdayWildcard :: bool

definition MAX_DAYS_BY_MONTH :: "int list" where
  "MAX_DAYS_BY_MONTH = [0, 31, 29, 31, 30, 31, 30, 31, 31, 30, 31, 30, 31]"

definition MAX_CRON_SEARCH_MINUTES :: nat where
  "MAX_CRON_SEARCH_MINUTES = 8 * 366 * 24 * 60"

definition cron_invalid :: error where
  "cron_invalid = Error ''prompt_schedule_cron_invalid''"

definition cron_no_run :: error where
  "cron_no_run = Error ''prompt_schedule_has_no_run''"

text \<open>The loop \<open>for (value = start; value <= end; value += step)\<close>; Sunday is 0 and 7.\<close>

definition cron_value :: "bool \<Rightarrow> int \<Rightarrow> int" where
  "cron_value sundaySeven v = (if sundaySeven \<and> v = 7 then 0 else v)"

function cron_values :: "bool \<Rightarrow> int \<Rightarrow> int \<Rightarrow> int \<Rightarrow> int set" where
  "cron_values sundaySeven v stop step =
     (if v \<le> stop \<and> 0 < step
      then insert (cron_value sundaySeven v) (cron_values sundaySeven (v + step) stop step)
      else {})"
  by pat_completeness auto
termination
  by (relation "measure (\<lambda>(s, v, l, k). nat (l - v + 1))") auto

declare cron_values.simps [simp del]

definition all_digits :: "string \<Rightarrow> bool" where
  "all_digits s \<longleftrightarrow> s \<noteq> [] \<and> list_all is_digit s"

text \<open>The bounds of a segment, before they are compared with those of the field.\<close>

definition cron_bounds :: "int \<Rightarrow> int \<Rightarrow> string \<Rightarrow> bool \<Rightarrow> (int \<times> int) result" where
  "cron_bounds minimum maximum base stepped =
     (let parts = split_at CHR ''-'' base in
      if base = ''*'' then Inr (minimum, maximum)
      else if length parts = 2 \<and> list_all all_digits parts then
        (case (js_integer (parts ! 0), js_integer (parts ! 1)) of
           (Some a, Some b) \<Rightarrow> Inr (a, b) | _ \<Rightarrow> Inl cron_invalid)
      else if all_digits base then
        (case js_integer base of
           Some a \<Rightarrow> Inr (a, if stepped then maximum else a) | None \<Rightarrow> Inl cron_invalid)
      else Inl cron_invalid)"

definition cron_step :: "int \<Rightarrow> int \<Rightarrow> string option \<Rightarrow> int result" where
  "cron_step minimum maximum stepText =
     (case stepText of
        None \<Rightarrow> Inr 1
      | Some s \<Rightarrow>
          (case js_integer s of
             None \<Rightarrow> Inl cron_invalid
           | Some k \<Rightarrow> if k < 1 \<or> maximum - minimum + 1 < k then Inl cron_invalid else Inr k))"

definition cron_segment :: "int \<Rightarrow> int \<Rightarrow> bool \<Rightarrow> string \<Rightarrow> int set result" where
  "cron_segment minimum maximum sundaySeven segment =
     (if segment = [] then Inl cron_invalid
      else
        let parts = split_at CHR ''/'' segment; base = hd parts;
            stepText = (if length parts = 1 then None else Some (parts ! 1)) in
        if 2 < length parts \<or> base = [] then Inl cron_invalid
        else
          attempt (cron_step minimum maximum stepText) (\<lambda>step.
          attempt (cron_bounds minimum maximum base (stepText \<noteq> None)) (\<lambda>(start, stop).
            if start < minimum \<or> maximum < stop \<or> stop < start then Inl cron_invalid
            else Inr (cron_values sundaySeven start stop step))))"

definition parseCronField :: "int \<Rightarrow> int \<Rightarrow> bool \<Rightarrow> string \<Rightarrow> int set result" where
  "parseCronField minimum maximum sundaySeven source =
     (let s = js_trim source in
      if s = [] then Inl cron_invalid
      else attempt (map_result (cron_segment minimum maximum sundaySeven) (split_at CHR '','' s))
             (\<lambda>vs. Inr (\<Union> (set vs))))"

section \<open>Reading an expression\<close>

definition hasPossibleCalendarMatch :: "prompt_cron \<Rightarrow> bool" where
  "hasPossibleCalendarMatch p \<longleftrightarrow>
     pc_dayWildcard p \<or> \<not> pc_weekdayWildcard p
     \<or> (\<exists>month \<in> pc_months p. \<exists>day \<in> pc_days p. day \<le> MAX_DAYS_BY_MONTH ! nat month)"

definition parsePromptCron :: "string \<Rightarrow> prompt_cron result" where
  "parsePromptCron value =
     (let cron = fold_spaces (js_trim value); parts = split_at CHR '' '' cron in
      if length parts \<noteq> 5 \<or> 80 < length cron then Inl cron_invalid
      else
        attempt (parseCronField 1 31 False (parts ! 2)) (\<lambda>days.
        attempt (parseCronField 0 7 True (parts ! 4)) (\<lambda>weekdays.
        attempt (parseCronField 0 59 False (parts ! 0)) (\<lambda>minutes.
        attempt (parseCronField 0 23 False (parts ! 1)) (\<lambda>hours.
        attempt (parseCronField 1 12 False (parts ! 3)) (\<lambda>months.
          let parsed = \<lparr>pc_cron = cron, pc_minutes = minutes, pc_hours = hours, pc_days = days,
                pc_months = months, pc_weekdays = weekdays,
                pc_dayWildcard = (card days = 31), pc_weekdayWildcard = (card weekdays = 7)\<rparr>
          in if hasPossibleCalendarMatch parsed then Inr parsed else Inl cron_no_run))))))"

section \<open>Matching and searching\<close>

definition cronMatches :: "prompt_cron \<Rightarrow> int \<Rightarrow> bool" where
  "cronMatches p t =
     (if utc_minutes t \<notin> pc_minutes p \<or> utc_hours t \<notin> pc_hours p \<or> utc_month t \<notin> pc_months p
      then False
      else
        let dayMatch = utc_date t \<in> pc_days p; weekdayMatch = utc_weekday t \<in> pc_weekdays p in
        if pc_dayWildcard p \<and> pc_weekdayWildcard p then True
        else if pc_dayWildcard p then weekdayMatch
        else if pc_weekdayWildcard p then dayMatch
        else dayMatch \<or> weekdayMatch)"

definition promptCronMatchesAt :: "string \<Rightarrow> int \<Rightarrow> bool result" where
  "promptCronMatchesAt cron atMs =
     (case js_date atMs of
        None \<Rightarrow> Inl (Error ''atMs must identify a valid date'')
      | Some t \<Rightarrow>
          if utc_seconds t \<noteq> 0 \<or> utc_milliseconds t \<noteq> 0 then Inr False
          else attempt (parsePromptCron cron) (\<lambda>p. Inr (cronMatches p t)))"

text \<open>\<open>setUTCMinutes(getUTCMinutes() + 1)\<close>: the minutes carry, and an invalid date stays so.\<close>

definition next_minute :: "int option \<Rightarrow> int option" where
  "next_minute c = (case c of None \<Rightarrow> None | Some t \<Rightarrow> js_date (t + 60000))"

text \<open>The loop, with the number of minutes that are left to try.\<close>

fun cron_search :: "prompt_cron \<Rightarrow> int option \<Rightarrow> nat \<Rightarrow> string result" where
  "cron_search p c 0 = Inl cron_no_run"
| "cron_search p c (Suc n) =
     (case c of
        None \<Rightarrow> cron_search p (next_minute c) n
      | Some t \<Rightarrow> if cronMatches p t then Inr (iso_text t) else cron_search p (next_minute c) n)"

definition nextPromptCronAt :: "string \<Rightarrow> int \<Rightarrow> string result" where
  "nextPromptCronAt cron afterMs =
     attempt (parsePromptCron cron) (\<lambda>p.
       case js_date (afterMs div 60000 * 60000 + 60000) of
         None \<Rightarrow> Inl (Error ''afterMs must identify a valid date'')
       | Some t \<Rightarrow> cron_search p (Some t) MAX_CRON_SEARCH_MINUTES)"

end
