(* ===== verification/PromptScheduleFacts.thy ===== *)
theory PromptScheduleFacts
  imports PromptSchedule
begin

text \<open>
  What the search of prompt-schedule.js rests on. The values of a parsed field are not empty and
  lie in the field's range; the UTC fields of the minutes of a day are those of its date; every
  parsed expression has a day that matches within 2927 days of any other (the longest gap is
  the one between two leap days around a century); a parsed expression reads back as itself.
\<close>

section \<open>The values of a field\<close>

lemma cron_values_range:
  "0 < step \<Longrightarrow> cron_values sun v stop step =
     cron_value sun ` {w. v \<le> w \<and> w \<le> stop \<and> step dvd w - v}"
proof (induction sun v stop step rule: cron_values.induct)
  case (1 sun v stop step)
  show ?case
  proof (cases "v \<le> stop")
    case True
    have "{w. v \<le> w \<and> w \<le> stop \<and> step dvd w - v} =
      insert v {w. v + step \<le> w \<and> w \<le> stop \<and> step dvd w - (v + step)}"
    proof (rule set_eqI)
      fix w
      have d: "step dvd w - (v + step) \<longleftrightarrow> step dvd w - v"
        using dvd_add_right_iff [of step "- step" "w - v"] by (simp add: algebra_simps)
      have "v < w \<Longrightarrow> step dvd w - v \<Longrightarrow> step \<le> w - v" by (simp add: zdvd_imp_le)
      then show "w \<in> {w. v \<le> w \<and> w \<le> stop \<and> step dvd w - v} \<longleftrightarrow>
          w \<in> insert v {w. v + step \<le> w \<and> w \<le> stop \<and> step dvd w - (v + step)}"
        using True 1(2) d by auto
    qed
    with True 1 show ?thesis by (subst cron_values.simps) simp
  qed (subst cron_values.simps, auto)
qed

definition in_field :: "int \<Rightarrow> int \<Rightarrow> bool \<Rightarrow> int set \<Rightarrow> bool" where
  "in_field mn mx sun V \<longleftrightarrow> V \<noteq> {} \<and> V \<subseteq> cron_value sun ` {mn..mx}"

lemma in_field_Union: "vs \<noteq> [] \<Longrightarrow> list_all (in_field mn mx sun) vs \<Longrightarrow> in_field mn mx sun (\<Union> (set vs))"
  by (cases vs) (auto simp: in_field_def list_all_iff)

lemma cron_step_Inr: "cron_step mn mx st = Inr k \<Longrightarrow> 0 < k"
  by (auto simp: cron_step_def split: option.splits if_splits)

lemma cron_values_in_field:
  "0 < step \<Longrightarrow> \<not> start < mn \<Longrightarrow> \<not> mx < stop \<Longrightarrow> \<not> stop < start \<Longrightarrow>
     in_field mn mx sun (cron_values sun start stop step)"
  by (auto simp: in_field_def cron_values_range intro: exI [of _ start])

lemma cron_segment_in_field: "cron_segment mn mx sun seg = Inr V \<Longrightarrow> in_field mn mx sun V"
  by (auto simp: cron_segment_def Let_def attempt_case dest!: cron_step_Inr intro: cron_values_in_field
      split: if_splits sum.splits prod.splits)

lemma parseCronField_in_field: "parseCronField mn mx sun s = Inr V \<Longrightarrow> in_field mn mx sun V"
proof -
  assume p: "parseCronField mn mx sun s = Inr V"
  then obtain vs where vs: "map_result (cron_segment mn mx sun) (split_at CHR '','' (js_trim s)) = Inr vs"
    and V: "V = \<Union> (set vs)"
    by (auto simp: parseCronField_def Let_def attempt_case split: if_splits sum.splits)
  from vs have l2: "list_all2 (\<lambda>x y. cron_segment mn mx sun x = Inr y) (split_at CHR '','' (js_trim s)) vs"
    by (simp add: map_result_Inr)
  then have "list_all (in_field mn mx sun) vs"
    by (induction rule: list_all2_induct) (simp_all add: cron_segment_in_field)
  moreover have "vs \<noteq> []" using map_result_length [OF vs] by fastforce
  ultimately show ?thesis unfolding V by (rule in_field_Union [rotated])
qed

section \<open>What a parsed expression is\<close>

definition valid_cron :: "prompt_cron \<Rightarrow> bool" where
  "valid_cron p \<longleftrightarrow>
     pc_minutes p \<noteq> {} \<and> pc_minutes p \<subseteq> {0..59} \<and> pc_hours p \<noteq> {} \<and> pc_hours p \<subseteq> {0..23}
     \<and> pc_days p \<noteq> {} \<and> pc_days p \<subseteq> {1..31} \<and> pc_months p \<noteq> {} \<and> pc_months p \<subseteq> {1..12}
     \<and> pc_weekdays p \<noteq> {} \<and> pc_weekdays p \<subseteq> {0..6}
     \<and> (pc_dayWildcard p \<longleftrightarrow> pc_days p = {1..31}) \<and> (pc_weekdayWildcard p \<longleftrightarrow> pc_weekdays p = {0..6})"

lemma card_full: "V \<subseteq> {a..b} \<Longrightarrow> card V = nat (b - a + 1) \<longleftrightarrow> V = {a..b}" for V :: "int set"
  using card_subset_eq [of "{a..b}" V] by auto

lemma in_weekdays: "in_field 0 7 True V \<Longrightarrow> V \<noteq> {} \<and> V \<subseteq> {0..6}"
  by (auto simp: in_field_def cron_value_def)

lemma in_plain_field: "in_field mn mx False V \<Longrightarrow> V \<noteq> {} \<and> V \<subseteq> {mn..mx}"
  by (simp add: in_field_def cron_value_def image_def)

text \<open>The fields of an expression, before the calendar is asked.\<close>

definition cron_fields :: "string \<Rightarrow> prompt_cron \<Rightarrow> bool" where
  "cron_fields cron p \<longleftrightarrow>
     (let parts = split_at CHR '' '' cron in
      length parts = 5 \<and> length cron \<le> 80 \<and> pc_cron p = cron
      \<and> parseCronField 1 31 False (parts ! 2) = Inr (pc_days p)
      \<and> parseCronField 0 7 True (parts ! 4) = Inr (pc_weekdays p)
      \<and> parseCronField 0 59 False (parts ! 0) = Inr (pc_minutes p)
      \<and> parseCronField 0 23 False (parts ! 1) = Inr (pc_hours p)
      \<and> parseCronField 1 12 False (parts ! 3) = Inr (pc_months p)
      \<and> pc_dayWildcard p = (card (pc_days p) = 31) \<and> pc_weekdayWildcard p = (card (pc_weekdays p) = 7))"

lemma parsePromptCron_Inr:
  "parsePromptCron v = Inr p \<longleftrightarrow> cron_fields (fold_spaces (js_trim v)) p \<and> hasPossibleCalendarMatch p"
proof
  assume "cron_fields (fold_spaces (js_trim v)) p \<and> hasPossibleCalendarMatch p"
  then show "parsePromptCron v = Inr p"
    by (cases p) (simp add: parsePromptCron_def cron_fields_def Let_def)
qed (auto simp: parsePromptCron_def cron_fields_def Let_def attempt_case split: if_splits sum.splits)

lemma cron_fields_unique: "cron_fields c p \<Longrightarrow> cron_fields c q \<Longrightarrow> p = q"
  by (cases p; cases q) (simp add: cron_fields_def Let_def)

lemma cron_no_run_not_invalid: "cron_no_run \<noteq> cron_invalid"
  by (simp add: cron_no_run_def cron_invalid_def)

lemma map_result_error: "map_result f xs = Inl e \<Longrightarrow> \<exists>x. f x = Inl e"
  by (induction xs) (auto simp: attempt_case split: sum.splits)

lemma cron_field_error: "parseCronField mn mx sun s = Inl e \<Longrightarrow> e = cron_invalid"
  by (auto simp: parseCronField_def Let_def attempt_case cron_segment_def cron_step_def cron_bounds_def
      dest!: map_result_error split: if_splits sum.splits option.splits prod.splits)

lemma parsePromptCron_no_run:
  assumes "parsePromptCron v = Inl cron_no_run"
  obtains p where "cron_fields (fold_spaces (js_trim v)) p" "\<not> hasPossibleCalendarMatch p"
proof -
  let ?c = "fold_spaces (js_trim v)"
  let ?parts = "split_at CHR '' '' ?c"
  obtain D W M H Mo where f: "length ?parts = 5" "length ?c \<le> 80"
    "parseCronField 1 31 False (?parts ! 2) = Inr D" "parseCronField 0 7 True (?parts ! 4) = Inr W"
    "parseCronField 0 59 False (?parts ! 0) = Inr M" "parseCronField 0 23 False (?parts ! 1) = Inr H"
    "parseCronField 1 12 False (?parts ! 3) = Inr Mo"
    using assms cron_no_run_not_invalid
    by (auto simp: parsePromptCron_def Let_def attempt_case split: if_splits sum.splits dest: cron_field_error)
  let ?p = "\<lparr>pc_cron = ?c, pc_minutes = M, pc_hours = H, pc_days = D, pc_months = Mo, pc_weekdays = W,
    pc_dayWildcard = (card D = 31), pc_weekdayWildcard = (card W = 7)\<rparr>"
  have c: "cron_fields ?c ?p" using f by (simp add: cron_fields_def Let_def)
  moreover have "\<not> hasPossibleCalendarMatch ?p" using assms parsePromptCron_Inr [of v ?p] c by auto
  ultimately show thesis by (rule that)
qed

lemma cron_fields_valid: "cron_fields c p \<Longrightarrow> valid_cron p"
  using card_full [of "pc_days p" 1 31] card_full [of "pc_weekdays p" 0 6]
  by (auto simp: cron_fields_def Let_def valid_cron_def dest!: parseCronField_in_field
      dest: in_weekdays in_plain_field)

text \<open>The stored text of an expression reads back as the same expression.\<close>

lemma cron_text_normal: "fold_spaces (js_trim (fold_spaces (js_trim v))) = fold_spaces (js_trim v)"
proof -
  have "trimmed (fold_spaces (js_trim v))"
    using trimmed_js_trim [of v] hd_fold_spaces [of "js_trim v"] last_fold_spaces [of "js_trim v"]
    by (cases "js_trim v = []") (auto simp: trimmed_def)
  then show ?thesis by (simp add: js_trim_trimmed fold_spaces_single single_spaced_fold)
qed

section \<open>Days\<close>

text \<open>The month and the date of a day, and whether the day is one of the expression's.\<close>

definition day_month :: "int \<Rightarrow> int" where
  "day_month D = (let y = year_from_day D in month_from_day y (D - day_from_year y))"

definition day_date :: "int \<Rightarrow> int" where
  "day_date D = (let y = year_from_day D in D - day_from_year y - month_start y (day_month D) + 1)"

definition cron_day :: "prompt_cron \<Rightarrow> int \<Rightarrow> bool" where
  "cron_day p D \<longleftrightarrow> day_month D \<in> pc_months p \<and>
     (pc_dayWildcard p \<and> pc_weekdayWildcard p
      \<or> pc_dayWildcard p \<and> \<not> pc_weekdayWildcard p \<and> (D + 4) mod 7 \<in> pc_weekdays p
      \<or> \<not> pc_dayWildcard p \<and> pc_weekdayWildcard p \<and> day_date D \<in> pc_days p
      \<or> \<not> pc_dayWildcard p \<and> \<not> pc_weekdayWildcard p
          \<and> (day_date D \<in> pc_days p \<or> (D + 4) mod 7 \<in> pc_weekdays p))"

lemma cronMatches_day:
  "cronMatches p t \<longleftrightarrow>
     utc_minutes t \<in> pc_minutes p \<and> utc_hours t \<in> pc_hours p \<and> cron_day p (utc_day_number t)"
  by (auto simp: cronMatches_def cron_day_def day_month_def day_date_def utc_month_def utc_date_def
      utc_year_def utc_weekday_def Let_def)

lemma day_of_date:
  assumes "1 \<le> m" "m \<le> 12" "1 \<le> d" "d \<le> days_in_month y m"
  shows "day_month (make_day y m d) = m" "day_date (make_day y m d) = d"
    "day_from_year y \<le> make_day y m d" "make_day y m d < day_from_year (y + 1)"
proof -
  note inside = month_start_next [OF assms(1,2), of y]
  show lo: "day_from_year y \<le> make_day y m d" and hi: "make_day y m d < day_from_year (y + 1)"
    using assms inside by (simp_all add: make_day_def day_from_year_step)
  have y: "year_from_day (make_day y m d) = y" by (rule year_from_day_unique [OF lo hi])
  have rest: "make_day y m d - day_from_year y = month_start y m + d - 1" by (simp add: make_day_def)
  have mo: "month_from_day y (month_start y m + d - 1) = m"
    by (rule month_from_day_unique) (use assms in simp_all)
  then show "day_month (make_day y m d) = m" by (simp add: day_month_def y rest)
  then show "day_date (make_day y m d) = d" by (simp add: day_date_def y rest)
qed

lemma day_parts:
  "\<exists>y. 1 \<le> day_month D \<and> day_month D \<le> 12 \<and> 1 \<le> day_date D
     \<and> day_date D \<le> days_in_month y (day_month D)"
proof -
  let ?y = "year_from_day D"
  have "0 \<le> D - day_from_year ?y" "D - day_from_year ?y < (if leap_year ?y then 366 else 365)"
    using year_from_day_correct [of D] day_from_year_step [of ?y] by linarith+
  from month_from_day_correct [OF this] show ?thesis
    by (intro exI [of _ ?y]) (simp add: day_date_def day_month_def Let_def)
qed

lemma month_length_max:
  assumes "1 \<le> m" "m \<le> 12"
  shows "days_in_month y m \<le> MAX_DAYS_BY_MONTH ! nat m"
  using assms by (rule month_cases) (simp_all add: days_in_month_def MAX_DAYS_BY_MONTH_def)

lemma month_length_usual:
  assumes "1 \<le> m" "m \<le> 12" "m \<noteq> 2 \<or> d \<le> 28" "d \<le> MAX_DAYS_BY_MONTH ! nat m"
  shows "d \<le> days_in_month y m"
  using assms(1,2)
  by (rule month_cases; use assms(3,4) in \<open>simp add: days_in_month_def MAX_DAYS_BY_MONTH_def\<close>)

section \<open>The gaps between matching days\<close>

lemma days_in_year: "day_from_year (y + 1) \<le> day_from_year y + 366"
  by (simp add: day_from_year_step)

lemma plain_years: "(\<And>j. 0 \<le> j \<Longrightarrow> j < int n \<Longrightarrow> \<not> leap_year (y + j)) \<Longrightarrow>
    day_from_year (y + int n) = day_from_year y + 365 * int n"
proof (induction n)
  case (Suc n)
  have "day_from_year (y + int n + 1) = day_from_year (y + int n) + 365"
    using Suc.prems [of "int n"] by (simp add: day_from_year_step)
  moreover have "day_from_year (y + int n) = day_from_year y + 365 * int n"
    by (rule Suc.IH) (use Suc.prems in simp)
  moreover have "y + int (Suc n) = y + int n + 1" by simp
  ultimately show ?case by (simp only: of_nat_Suc distrib_left)
qed simp

text \<open>After any year comes a leap year within eight, with no other between.\<close>

lemma next_leap_year:
  "\<exists>n. 1 \<le> n \<and> n \<le> 8 \<and> (leap_year y \<or> n \<le> 7) \<and> leap_year (y + int n)
     \<and> (\<forall>j. 1 \<le> j \<and> j < int n \<longrightarrow> \<not> leap_year (y + j))"
proof -
  let ?P = "\<lambda>n. 1 \<le> n \<and> leap_year (y + int n)"
  define r where "r = y mod 4"
  have r: "0 \<le> r" "r < 4" by (simp_all add: r_def)
  define z where "z = y + (4 - r)"
  have z4: "z mod 4 = 0" 
  proof -
    obtain q where "y = 4 * q + r" unfolding r_def using mult_div_mod_eq [of 4 y] by metis
    then have "z = 4 * (q + 1)" by (simp add: z_def)
    then show ?thesis by simp
  qed
  have "\<exists>n. ?P n \<and> n \<le> 8 \<and> (leap_year y \<or> n \<le> 7)"
  proof (cases "leap_year z")
    case True
    have "y + int (nat (4 - r)) = z" using r by (simp add: z_def)
    with True have "leap_year (y + int (nat (4 - r)))" by simp
    moreover have "1 \<le> nat (4 - r)" "nat (4 - r) \<le> 7" using r by linarith+
    ultimately show ?thesis by (intro exI [of _ "nat (4 - r)"]) simp
  next
    case False
    with z4 have z100: "z mod 100 = 0" by (auto simp: leap_year_def)
    have "(z + 4) mod 4 = 0" using z4 by simp
    moreover have "(z + 4) mod 100 = 4"
    proof -
      obtain k where "z = 100 * k" using z100 by auto
      then have "z + 4 = 100 * k + 4" by simp
      then show ?thesis by (rule int_mod_pos_eq) simp_all
    qed
    ultimately have l: "leap_year (z + 4)" by (simp add: leap_year_def)
    show ?thesis
    proof (cases "r = 0")
      case True
      have "(z - 4) mod 100 = 96"
      proof -
        obtain k where "z = 100 * k" using z100 by auto
        then have "z - 4 = 100 * (k - 1) + 96" by simp
        then show ?thesis by (rule int_mod_pos_eq) simp_all
      qed
      moreover have "y = z - 4" using True z_def by linarith
      ultimately have "y mod 100 = 96" by simp
      moreover have "y mod 4 = 0" using True r_def by simp
      ultimately have "leap_year y" unfolding leap_year_def by simp
      moreover have "leap_year (y + int 8)" using l True by (simp add: z_def add.commute)
      ultimately show ?thesis by (intro exI [of _ 8]) simp
    next
      case False
      have "y + int (nat (8 - r)) = z + 4" using r by (simp add: z_def)
      with l have "leap_year (y + int (nat (8 - r)))" by simp
      moreover have "1 \<le> nat (8 - r)" "nat (8 - r) \<le> 7" using r False by linarith+
      ultimately show ?thesis by (intro exI [of _ "nat (8 - r)"]) simp
    qed
  qed
  then obtain n0 where n0: "?P n0" "n0 \<le> 8" "leap_year y \<or> n0 \<le> 7" by blast
  define n where "n = (LEAST n. ?P n)"
  have "?P n" unfolding n_def using n0(1) by (rule LeastI)
  moreover have "n \<le> n0" unfolding n_def using n0(1) by (rule Least_le)
  moreover have "\<not> leap_year (y + j)" if "1 \<le> j" "j < int n" for j
    using not_less_Least [of "nat j" ?P] that unfolding n_def [symmetric] by auto
  ultimately show ?thesis using n0 by (intro exI [of _ n]) auto
qed

text \<open>A leap day comes within 2921 days.\<close>

lemma next_leap_day: "\<exists>y. leap_year y \<and> D < make_day y 2 29 \<and> make_day y 2 29 \<le> D + 2921"
proof -
  define y where "y = year_from_day D"
  have D: "day_from_year y \<le> D" "D < day_from_year (y + 1)"
    using year_from_day_correct [of D] by (simp_all add: y_def)
  have feb: "make_day z 2 29 = day_from_year z + 59" for z by (simp add: make_day_def month_start_def)
  obtain n where n: "1 \<le> n" "n \<le> 8" "leap_year y \<or> n \<le> 7" "leap_year (y + int n)"
    "\<And>j. 1 \<le> j \<and> j < int n \<Longrightarrow> \<not> leap_year (y + j)" using next_leap_year [of y] by blast
  have "day_from_year (y + 1 + int (n - 1)) = day_from_year (y + 1) + 365 * int (n - 1)"
    by (rule plain_years) (use n(1,5) in \<open>auto simp: add.assoc\<close>)
  then have far: "day_from_year (y + int n) = day_from_year (y + 1) + 365 * (int n - 1)"
    using n(1) by (simp add: of_nat_diff add.assoc)
  show ?thesis
  proof (cases "leap_year y")
    case True
    show ?thesis
    proof (cases "D < day_from_year y + 59")
      case True
      with D \<open>leap_year y\<close> show ?thesis by (intro exI [of _ y]) (simp add: feb)
    next
      case False
      have "day_from_year (y + 1) = day_from_year y + 366" using True by (simp add: day_from_year_step)
      with False D n far show ?thesis by (intro exI [of _ "y + int n"]) (simp add: feb)
    qed
  next
    case False
    then have "day_from_year (y + 1) = day_from_year y + 365" by (simp add: day_from_year_step)
    with False D n far show ?thesis by (intro exI [of _ "y + int n"]) (simp add: feb)
  qed
qed

text \<open>Every date the table of month lengths allows comes within 2927 days.\<close>

lemma next_date:
  assumes "1 \<le> m" "m \<le> 12" "1 \<le> d" "d \<le> MAX_DAYS_BY_MONTH ! nat m"
  shows "\<exists>E. D < E \<and> E \<le> D + 2927 \<and> day_month E = m \<and> day_date E = d"
proof (cases "m \<noteq> 2 \<or> d \<le> 28")
  case True
  define y where "y = year_from_day D + 1"
  have "d \<le> days_in_month y m" using month_length_usual [OF assms(1,2) True assms(4)] .
  note day = day_of_date [OF assms(1-3) this]
  have "D < day_from_year y" "day_from_year (y - 1) \<le> D"
    using year_from_day_correct [of D] by (simp_all add: y_def)
  moreover have "day_from_year (y + 1) \<le> day_from_year (y - 1) + 732"
    using days_in_year [of y] days_in_year [of "y - 1"] by simp
  ultimately show ?thesis using day by (intro exI [of _ "make_day y m d"]) linarith
next
  case False
  with assms(4) have md: "m = 2" "d = 29" by (auto simp: MAX_DAYS_BY_MONTH_def)
  obtain y where y: "leap_year y" "D < make_day y 2 29" "make_day y 2 29 \<le> D + 2921"
    using next_leap_day by blast
  have "29 \<le> days_in_month y 2" using y(1) by (simp add: days_in_month_def)
  from day_of_date(1,2) [OF _ _ _ this] y md show ?thesis
    by (intro exI [of _ "make_day y 2 29"]) auto
qed

text \<open>The first week of a month has every weekday.\<close>

lemma next_weekday:
  assumes "1 \<le> m" "m \<le> 12" "0 \<le> w" "w \<le> 6"
  shows "\<exists>E. D < E \<and> E \<le> D + 2927 \<and> day_month E = m \<and> (E + 4) mod 7 = w"
proof -
  define y where "y = year_from_day D + 1"
  define d where "d = (w - (make_day y m 1 + 4)) mod 7 + 1"
  have d: "1 \<le> d" "d \<le> 7" using pos_mod_bound [of 7 "w - (make_day y m 1 + 4)"] by (simp_all add: d_def)
  have "28 \<le> days_in_month y m" by (simp add: days_in_month_def)
  then have "d \<le> days_in_month y m" using d by linarith
  note day = day_of_date [OF assms(1,2) d(1) this]
  have "make_day y m d + 4 = (make_day y m 1 + 4) + (w - (make_day y m 1 + 4)) mod 7"
    by (simp add: make_day_def d_def)
  then have "(make_day y m d + 4) mod 7 = (make_day y m 1 + 4 + (w - (make_day y m 1 + 4))) mod 7"
    by (simp only: mod_add_right_eq)
  then have "(make_day y m d + 4) mod 7 = w mod 7" by simp
  then have w: "(make_day y m d + 4) mod 7 = w" using assms by simp
  have "D < day_from_year y" "day_from_year (y - 1) \<le> D"
    using year_from_day_correct [of D] by (simp_all add: y_def)
  moreover have "day_from_year (y + 1) \<le> day_from_year (y - 1) + 732"
    using days_in_year [of y] days_in_year [of "y - 1"] by simp
  ultimately show ?thesis using day w by (intro exI [of _ "make_day y m d"]) (intro conjI; linarith)
qed

lemma cron_day_exists:
  assumes v: "valid_cron p" and h: "hasPossibleCalendarMatch p"
  shows "\<exists>E. D < E \<and> E \<le> D + 2927 \<and> cron_day p E"
proof -
  obtain m where m: "m \<in> pc_months p" "1 \<le> m" "m \<le> 12" using v by (fastforce simp: valid_cron_def)
  obtain w where w: "w \<in> pc_weekdays p" "0 \<le> w" "w \<le> 6" using v by (fastforce simp: valid_cron_def)
  show ?thesis
  proof (cases "\<not> pc_dayWildcard p \<and> pc_weekdayWildcard p")
    case True
    then obtain m d where md: "m \<in> pc_months p" "d \<in> pc_days p" "d \<le> MAX_DAYS_BY_MONTH ! nat m"
      using h by (auto simp: hasPossibleCalendarMatch_def)
    moreover have "1 \<le> m" "m \<le> 12" "1 \<le> d" using md v by (fastforce simp: valid_cron_def)+
    ultimately show ?thesis using next_date [of m d D] True by (auto simp: cron_day_def)
  next
    case False
    with next_weekday [OF m(2,3) w(2,3), of D] m w show ?thesis by (auto simp: cron_day_def)
  qed
qed

lemma no_cron_day:
  assumes v: "valid_cron p" and h: "\<not> hasPossibleCalendarMatch p"
  shows "\<not> cron_day p D"
proof
  assume c: "cron_day p D"
  from h have n: "\<not> pc_dayWildcard p" "pc_weekdayWildcard p"
    "\<And>m d. m \<in> pc_months p \<Longrightarrow> d \<in> pc_days p \<Longrightarrow> \<not> d \<le> MAX_DAYS_BY_MONTH ! nat m"
    by (auto simp: hasPossibleCalendarMatch_def)
  with c have "day_month D \<in> pc_months p" "day_date D \<in> pc_days p" by (auto simp: cron_day_def)
  moreover obtain y where "1 \<le> day_month D" "day_month D \<le> 12" "day_date D \<le> days_in_month y (day_month D)"
    using day_parts [of D] by blast
  ultimately show False using n(3) month_length_max [of "day_month D" y] by fastforce
qed

end
