(* ===== verification/PromptScheduleProperties.thy ===== *)
theory PromptScheduleProperties
  imports PromptScheduleFacts
begin

text \<open>
  What recurring prompts rely on: the search for the next run always ends with the first minute
  that matches, an expression is refused for having no run only when no instant matches it, and
  the text a schedule stores reads back as the same expression.
\<close>

section \<open>Minutes\<close>

text \<open>The fields of the minute \<open>mi\<close> of the hour \<open>h\<close> of the day \<open>D\<close>.\<close>

definition minute_of :: "int \<Rightarrow> int \<Rightarrow> int \<Rightarrow> int" where
  "minute_of D h mi = D * MS_PER_DAY + (h * 60 + mi) * 60000"

lemma minute_parts:
  assumes "0 \<le> h" "h \<le> 23" "0 \<le> mi" "mi \<le> 59"
  shows "utc_day_number (minute_of D h mi) = D" "utc_hours (minute_of D h mi) = h"
    "utc_minutes (minute_of D h mi) = mi" "minute_of D h mi mod 60000 = 0"
proof -
  let ?r = "(h * 60 + mi) * 60000"
  have r: "0 \<le> ?r" "?r < MS_PER_DAY" using assms by (simp_all add: MS_PER_DAY_def)
  show "utc_day_number (minute_of D h mi) = D"
    unfolding utc_day_number_def minute_of_def by (rule div_mod_pair(1)) (use r in simp_all)
  have m: "minute_of D h mi mod MS_PER_DAY = ?r"
    unfolding minute_of_def by (rule div_mod_pair(2)) (use r in simp_all)
  have k: "?r div 60000 = h * 60 + mi" by simp
  show "utc_minutes (minute_of D h mi) = mi"
    unfolding utc_minutes_def m k by (rule div_mod_pair(2)) (use assms in simp_all)
  have "?r div 3600000 = ?r div 60000 div 60" by (simp add: zdiv_zmult2_eq [symmetric])
  also have "\<dots> = h" unfolding k by (rule div_mod_pair(1)) (use assms in simp_all)
  finally show "utc_hours (minute_of D h mi) = h" unfolding utc_hours_def m .
  have "minute_of D h mi = 60000 * (1440 * D + (h * 60 + mi))" by (simp add: minute_of_def MS_PER_DAY_def)
  then show "minute_of D h mi mod 60000 = 0" by simp
qed

lemma whole_minute: "utc_seconds t = 0 \<and> utc_milliseconds t = 0 \<longleftrightarrow> t mod 60000 = 0"
proof -
  have "t mod 60000 = 1000 * (t div 1000 mod 60) + t mod 1000"
    using zmod_zmult2_eq [of 60 t 1000] by simp
  moreover have "0 \<le> t div 1000 mod 60" "0 \<le> t mod 1000" by simp_all
  ultimately show ?thesis unfolding utc_seconds_def utc_milliseconds_def by linarith
qed

lemma matches_at:
  assumes "parsePromptCron cron = Inr p" "\<bar>t\<bar> \<le> MAX_TIME"
  shows "promptCronMatchesAt cron t = Inr (t mod 60000 = 0 \<and> cronMatches p t)"
  using assms whole_minute [of t] by (auto simp: promptCronMatchesAt_def js_date_def)

section \<open>The search\<close>

lemma next_run_minute:
  assumes "valid_cron p" "hasPossibleCalendarMatch p"
  shows "\<exists>u. t < u \<and> u < t + 2928 * MS_PER_DAY \<and> u mod 60000 = 0 \<and> cronMatches p u"
proof -
  obtain D where D: "utc_day_number t < D" "D \<le> utc_day_number t + 2927" "cron_day p D"
    using cron_day_exists [OF assms] by blast
  obtain h mi where hm: "h \<in> pc_hours p" "mi \<in> pc_minutes p" "0 \<le> h" "h \<le> 23" "0 \<le> mi" "mi \<le> 59"
    using assms(1) by (fastforce simp: valid_cron_def)
  have t: "utc_day_number t * MS_PER_DAY \<le> t" "t < (utc_day_number t + 1) * MS_PER_DAY"
    using div_bounds [of MS_PER_DAY t] by (simp_all add: utc_day_number_def MS_PER_DAY_def algebra_simps)
  let ?u = "minute_of D h mi"
  have "cronMatches p ?u" using minute_parts [OF hm(3-6)] hm D by (simp add: cronMatches_day)
  moreover have "t < ?u" "?u < t + 2928 * MS_PER_DAY"
    using t D hm(3-6) by (simp_all add: minute_of_def MS_PER_DAY_def)
  ultimately show ?thesis using minute_parts(4) [OF hm(3-6)] by blast
qed

lemma cron_search_first:
  assumes "cronMatches p (t + 60000 * int k)" "k < n" "- MAX_TIME \<le> t" "t + 60000 * int k \<le> MAX_TIME"
  shows "\<exists>j \<le> k. cron_search p (Some t) n = Inr (iso_text (t + 60000 * int j))
    \<and> cronMatches p (t + 60000 * int j) \<and> (\<forall>i < j. \<not> cronMatches p (t + 60000 * int i))"
  using assms
proof (induction n arbitrary: t k)
  case (Suc n)
  show ?case
  proof (cases "cronMatches p t")
    case True
    then show ?thesis by (intro exI [of _ 0]) simp
  next
    case False
    with Suc.prems obtain k' where k: "k = Suc k'" by (cases k) auto
    let ?t = "t + 60000"
    have shift: "?t + 60000 * int i = t + 60000 * int (Suc i)" for i by simp
    have "next_minute (Some t) = Some ?t"
      using Suc.prems(3,4) by (simp add: next_minute_def js_date_def k)
    then have go: "cron_search p (Some t) (Suc n) = cron_search p (Some ?t) n" using False by simp
    obtain j where j: "j \<le> k'" "cron_search p (Some ?t) n = Inr (iso_text (?t + 60000 * int j))"
      "cronMatches p (?t + 60000 * int j)" "\<forall>i < j. \<not> cronMatches p (?t + 60000 * int i)"
      using Suc.IH [of ?t k'] Suc.prems by (auto simp: k add.assoc)
    have "\<not> cronMatches p (t + 60000 * int i)" if "i < Suc j" for i
      using that False j(4) shift by (cases i) auto
    with j go show ?thesis unfolding shift k by (intro exI [of _ "Suc j"]) auto
  qed
qed simp

section \<open>The grammar of a field\<close>

text \<open>
  A reference reading of a field: the items it lists, each with an optional step, their text,
  and the values they stand for. A single number with a step runs to the end of the field.
\<close>

datatype cron_item = Every "int option" | From int "int option" | Between int int "int option"

fun step_text :: "int option \<Rightarrow> string" where
  "step_text None = []"
| "step_text (Some k) = CHR ''/'' # int_text k"

fun item_base :: "cron_item \<Rightarrow> string" where
  "item_base (Every s) = ''*''"
| "item_base (From a s) = int_text a"
| "item_base (Between a b s) = int_text a @ CHR ''-'' # int_text b"

fun item_step :: "cron_item \<Rightarrow> int option" where
  "item_step (Every s) = s"
| "item_step (From a s) = s"
| "item_step (Between a b s) = s"

definition item_text :: "cron_item \<Rightarrow> string" where
  "item_text i = item_base i @ step_text (item_step i)"

text \<open>The first and the last value an item may have.\<close>

fun item_bounds :: "int \<Rightarrow> int \<Rightarrow> cron_item \<Rightarrow> int \<times> int" where
  "item_bounds mn mx (Every s) = (mn, mx)"
| "item_bounds mn mx (From a s) = (a, if s = None then a else mx)"
| "item_bounds mn mx (Between a b s) = (a, b)"

definition item_ok :: "int \<Rightarrow> int \<Rightarrow> cron_item \<Rightarrow> bool" where
  "item_ok mn mx i \<longleftrightarrow>
     (let (a, b) = item_bounds mn mx i in mn \<le> a \<and> a \<le> b \<and> b \<le> mx)
     \<and> (case item_step i of None \<Rightarrow> True | Some k \<Rightarrow> 1 \<le> k \<and> k \<le> mx - mn + 1)"

definition item_values :: "int \<Rightarrow> int \<Rightarrow> cron_item \<Rightarrow> int set" where
  "item_values mn mx i =
     (let (a, b) = item_bounds mn mx i; k = (case item_step i of None \<Rightarrow> 1 | Some k \<Rightarrow> k)
      in {w. a \<le> w \<and> w \<le> b \<and> k dvd w - a})"

lemma int_text_read:
  assumes "0 \<le> n" "n < 100"
  shows "all_digits (int_text n)" "js_integer (int_text n) = Some n"
proof -
  have t: "int_text n = nat_text (nat n)" using assms by (simp add: int_text_def)
  show "all_digits (int_text n)" using nat_text_digits [of "nat n"] by (simp add: all_digits_def t)
  show "js_integer (int_text n) = Some n"
    using js_integer_digits [of "int_text n"] nat_text_digits [of "nat n"] assms by (simp add: t)
qed

lemma split_at_none: "c \<notin> set s \<Longrightarrow> split_at c s = [s]"
  by (induction s) auto

lemma split_at_append: "c \<notin> set s \<Longrightarrow> split_at c (s @ c # u) = s # split_at c u"
  by (induction s) auto

lemma split_at_join:
  "ws \<noteq> [] \<Longrightarrow> list_all (\<lambda>w. c \<notin> set w) ws \<Longrightarrow> split_at c (join_with [c] ws) = ws"
  by (induction "[c]" ws rule: join_with.induct) (simp_all add: split_at_none split_at_append)

lemma no_char_digits: "all_digits s \<Longrightarrow> \<not> is_digit c \<Longrightarrow> c \<notin> set s"
  by (auto simp: all_digits_def list_all_iff)

lemma not_digit: "\<not> is_digit CHR ''/''" "\<not> is_digit CHR ''-''" "\<not> is_digit CHR '',''" "\<not> is_digit CHR ''*''"
  by (simp_all add: is_digit_def code_def)

lemma numbers_read:
  assumes "item_ok mn mx i" "0 \<le> mn" "mx < 99"
  shows "case i of Every s \<Rightarrow> True | From a s \<Rightarrow> 0 \<le> a \<and> a < 100
      | Between a b s \<Rightarrow> 0 \<le> a \<and> a < 100 \<and> 0 \<le> b \<and> b < 100"
    "item_step i = Some k \<Longrightarrow> 0 \<le> k \<and> k < 100"
  using assms by (auto simp: item_ok_def split: cron_item.splits option.splits if_splits)

lemma item_base_chars:
  assumes "item_ok mn mx i" "0 \<le> mn" "mx < 99"
  shows "item_base i \<noteq> [] \<and> (\<forall>c \<in> set (item_base i). is_digit c \<or> c = CHR ''*'' \<or> c = CHR ''-'')"
proof (cases i)
  case (From a s)
  with numbers_read(1) [OF assms] int_text_read(1) [of a] show ?thesis by (auto simp: all_digits_def list_all_iff)
next
  case (Between a b s)
  with numbers_read(1) [OF assms] int_text_read(1) [of a] int_text_read(1) [of b] show ?thesis
    by (auto simp: all_digits_def list_all_iff)
qed simp

lemma step_text_chars:
  assumes "item_ok mn mx i" "0 \<le> mn" "mx < 99"
  shows "\<forall>c \<in> set (step_text (item_step i)). is_digit c \<or> c = CHR ''/''"
  using numbers_read(2) [OF assms] int_text_read(1)
  by (cases "item_step i") (auto simp: all_digits_def list_all_iff)

lemma item_text_chars:
  assumes "item_ok mn mx i" "0 \<le> mn" "mx < 99"
  shows "item_text i \<noteq> [] \<and> CHR '','' \<notin> set (item_text i) \<and> list_all (\<lambda>c. \<not> is_space c) (item_text i)"
proof -
  have "\<forall>c \<in> set (item_text i). is_digit c \<or> c \<in> {CHR ''*'', CHR ''-'', CHR ''/''}"
    using item_base_chars [OF assms] step_text_chars [OF assms] by (auto simp: item_text_def)
  then have "\<forall>c \<in> set (item_text i). c \<noteq> CHR '','' \<and> \<not> is_space c"
    by (fastforce simp: is_digit_def is_space_def code_def)
  then show ?thesis using item_base_chars [OF assms] by (auto simp: list_all_iff item_text_def)
qed

lemma item_split:
  assumes "item_ok mn mx i" "0 \<le> mn" "mx < 99"
  shows "split_at CHR ''/'' (item_text i) =
    (case item_step i of None \<Rightarrow> [item_base i] | Some k \<Rightarrow> [item_base i, int_text k])"
proof -
  have b: "CHR ''/'' \<notin> set (item_base i)"
    using item_base_chars [OF assms] not_digit(1) by (auto dest!: bspec)
  show ?thesis
  proof (cases "item_step i")
    case (Some k)
    have "CHR ''/'' \<notin> set (int_text k)"
      using numbers_read(2) [OF assms Some] int_text_read(1) no_char_digits not_digit(1) by blast
    with b Some show ?thesis by (simp add: item_text_def split_at_append split_at_none)
  qed (use b in \<open>simp add: item_text_def split_at_none\<close>)
qed

lemma item_bounds_read:
  assumes "item_ok mn mx i" "0 \<le> mn" "mx < 99"
  shows "cron_bounds mn mx (item_base i) (item_step i \<noteq> None) = Inr (item_bounds mn mx i)"
proof (cases i)
  case (From a s)
  then have a: "0 \<le> a" "a < 100" using numbers_read(1) [OF assms] by simp_all
  note r = int_text_read [OF a]
  have "int_text a \<noteq> ''*''" using r(1) not_digit(4) by (auto simp: all_digits_def)
  moreover have "split_at CHR ''-'' (int_text a) = [int_text a]"
    by (rule split_at_none) (rule no_char_digits [OF r(1) not_digit(2)])
  ultimately show ?thesis using r From by (simp add: cron_bounds_def)
next
  case (Between a b s)
  then have n: "0 \<le> a" "a < 100" "0 \<le> b" "b < 100" using numbers_read(1) [OF assms] by simp_all
  note r = int_text_read [OF n(1,2)] int_text_read [OF n(3,4)]
  have "split_at CHR ''-'' (int_text a @ CHR ''-'' # int_text b) = [int_text a, int_text b]"
    using no_char_digits [OF r(1) not_digit(2)] no_char_digits [OF r(3) not_digit(2)]
    by (simp add: split_at_append split_at_none)
  moreover have "int_text a @ CHR ''-'' # int_text b \<noteq> ''*''"
    using r(1) by (cases "int_text a") (auto simp: all_digits_def)
  ultimately show ?thesis using r Between by (simp add: cron_bounds_def)
qed (simp add: cron_bounds_def)

lemma cron_segment_item:
  assumes "item_ok mn mx i" "0 \<le> mn" "mx < 99"
  shows "cron_segment mn mx sun (item_text i) = Inr (cron_value sun ` item_values mn mx i)"
proof -
  obtain a b where ab: "item_bounds mn mx i = (a, b)" by force
  then have ok: "mn \<le> a" "a \<le> b" "b \<le> mx" using assms(1) by (auto simp: item_ok_def)
  note bounds = item_bounds_read [OF assms, unfolded ab]
  show ?thesis
  proof (cases "item_step i")
    case None
    with item_split [OF assms] item_text_chars [OF assms] item_base_chars [OF assms] bounds ok
    show ?thesis by (simp add: cron_segment_def cron_step_def item_values_def ab cron_values_range)
  next
    case (Some k)
    have "cron_step mn mx (Some (int_text k)) = Inr k" "0 < k"
      using numbers_read(2) [OF assms Some] int_text_read(2) [of k] assms(1) Some
      by (auto simp: cron_step_def item_ok_def)
    with Some item_split [OF assms] item_text_chars [OF assms] item_base_chars [OF assms] bounds ok
    show ?thesis by (simp add: cron_segment_def item_values_def ab cron_values_range)
  qed
qed

section \<open>Properties\<close>

text \<open>C6: The next run of a recurring prompt always exists and is the first: for every expression the
  parser accepts and every instant that is eight years inside the range of dates, the walk over
  the minutes ends with a whole minute after the instant at which the expression matches, and at
  no instant between does it match. The bound of the loop is enough for every expression, the
  leap day across a century included.\<close>

theorem next_prompt_run_is_first:
  assumes "parsePromptCron cron = Inr p" "- MAX_TIME \<le> after" "after + 8 * 366 * MS_PER_DAY \<le> MAX_TIME"
  shows "\<exists>t. nextPromptCronAt cron after = Inr (iso_text t)
    \<and> after < t \<and> t \<le> after + 8 * 366 * MS_PER_DAY \<and> promptCronMatchesAt cron t = Inr True
    \<and> (\<forall>u. after < u \<and> u < t \<longrightarrow> promptCronMatchesAt cron u = Inr False)"
proof -
  define c where "c = after div 60000 * 60000 + 60000"
  have c: "after < c" "c \<le> after + 60000" "c mod 60000 = 0"
    using div_bounds [of 60000 after] by (simp_all add: c_def)
  have p: "valid_cron p" "hasPossibleCalendarMatch p"
    using assms(1) cron_fields_valid by (auto simp: parsePromptCron_Inr)
  from next_run_minute [OF p, of "c - 60000"] obtain u where u: "c - 60000 < u"
    "u < c - 60000 + 2928 * MS_PER_DAY" "u mod 60000 = 0" "cronMatches p u" by (elim exE conjE)
  have grid: "\<exists>k. v = c + 60000 * int k" if v: "c - 60000 < v" "v mod 60000 = 0" for v
  proof -
    obtain a where a: "v = 60000 * a" using v(2) by auto
    obtain b where b: "c = 60000 * b" using c(3) by auto
    show ?thesis using v(1) by (intro exI [of _ "nat (a - b)"]) (simp add: a b)
  qed
  from grid [OF u(1,3)] obtain k where k: "u = c + 60000 * int k" ..
  have "int k < 8 * 366 * 24 * 60" using u(2) k by (simp add: MS_PER_DAY_def)
  then have kn: "k < MAX_CRON_SEARCH_MINUTES" by (simp add: MAX_CRON_SEARCH_MINUTES_def)
  have le: "u \<le> after + 2928 * MS_PER_DAY" "u \<le> MAX_TIME" using u(2) c assms(3) by simp_all
  obtain j where j: "j \<le> k" "cron_search p (Some c) MAX_CRON_SEARCH_MINUTES = Inr (iso_text (c + 60000 * int j))"
    "cronMatches p (c + 60000 * int j)" "\<And>i. i < j \<Longrightarrow> \<not> cronMatches p (c + 60000 * int i)"
    using cron_search_first [of p c k MAX_CRON_SEARCH_MINUTES] u kn c assms le k by auto
  define t where "t = c + 60000 * int j"
  have t: "after < t" "t \<le> u" "t mod 60000 = 0" using c j(1) k by (simp_all add: t_def mod_add_eq [symmetric])
  have "nextPromptCronAt cron after = Inr (iso_text t)"
    using assms c le k j(2) by (simp add: nextPromptCronAt_def js_date_def c_def [symmetric] t_def)
  moreover have "promptCronMatchesAt cron t = Inr True"
    using matches_at [OF assms(1), of t] t le assms(2) j(3) by (simp add: t_def)
  moreover have "promptCronMatchesAt cron v = Inr False" if v: "after < v" "v < t" for v
  proof -
    have "\<not> (v mod 60000 = 0 \<and> cronMatches p v)"
    proof
      assume m: "v mod 60000 = 0 \<and> cronMatches p v"
      have "c - 60000 \<le> after" using c by simp
      then have "c - 60000 < v" using v(1) by simp
      from grid [OF this conjunct1 [OF m]] obtain i where "v = c + 60000 * int i" ..
      with m j(4) [of i] v(2) show False by (auto simp: t_def)
    qed
    with matches_at [OF assms(1), of v] v t le assms(2) show ?thesis by simp
  qed
  ultimately show ?thesis using t le by auto
qed

text \<open>C25: An expression is refused for having no run exactly when its five fields are well formed and it
  matches at no instant at all.\<close>

theorem refused_cron_never_runs:
  "parsePromptCron v = Inl cron_no_run \<longleftrightarrow>
     (\<exists>p. cron_fields (fold_spaces (js_trim v)) p \<and> \<not> (\<exists>t. cronMatches p t))"
proof -
  have run: "parsePromptCron v = Inr p" "\<exists>t. cronMatches p t"
    if "cron_fields (fold_spaces (js_trim v)) p" "hasPossibleCalendarMatch p" for p
    using that next_run_minute [OF cron_fields_valid that(2), of _ 0] by (auto simp: parsePromptCron_Inr)
  have refuse: "parsePromptCron v = Inl cron_no_run"
    if "cron_fields (fold_spaces (js_trim v)) p" "\<not> hasPossibleCalendarMatch p" for p
    using that by (cases p) (simp add: parsePromptCron_def cron_fields_def Let_def)
  have none: "\<not> (\<exists>t. cronMatches p t)"
    if "cron_fields (fold_spaces (js_trim v)) p" "\<not> hasPossibleCalendarMatch p" for p
    using no_cron_day [OF cron_fields_valid [OF that(1)] that(2)] by (simp add: cronMatches_day)
  show ?thesis using run refuse none parsePromptCron_no_run [of v] by metis
qed

text \<open>C26: The expression a schedule stores is its normal form: at most 80 characters, and reading it
  again gives the same sets, so a schedule means the same after a restart.\<close>

theorem stored_cron_reads_back:
  "parsePromptCron v = Inr p \<Longrightarrow> parsePromptCron (pc_cron p) = Inr p \<and> length (pc_cron p) \<le> 80"
  by (auto simp: parsePromptCron_Inr cron_fields_def Let_def cron_text_normal)


theorem stored_cron_reads_back_witness:
  "parsePromptCron ''0-45/15 8,12 1,15 * 0,7'' = parsePromptCron ''  0-45/15   8,12   1,15   *   0,7  ''"
proof -
  have "parsePromptCron ''  0-45/15   8,12   1,15   *   0,7  '' =
    Inr \<lparr>pc_cron = ''0-45/15 8,12 1,15 * 0,7'', pc_minutes = {0, 15, 30, 45}, pc_hours = {8, 12},
      pc_days = {1, 15}, pc_months = {1, 2, 3, 4, 5, 6, 7, 8, 9, 10, 11, 12}, pc_weekdays = {0},
      pc_dayWildcard = False, pc_weekdayWildcard = False\<rparr>" by code_simp
  from stored_cron_reads_back [OF this] this show ?thesis by simp
qed

text \<open>C24: A field means what the reference grammar says: a list of items (every value, a number, a
  range, each with an optional step) is read as the union of their values, seven being Sunday in
  the field of the weekdays.\<close>

theorem cron_field_means_its_items:
  assumes "items \<noteq> []" "list_all (item_ok mn mx) items" "0 \<le> mn" "mx < 99"
  shows "parseCronField mn mx sun (join_with '','' (map item_text items)) =
    Inr (cron_value sun ` (\<Union>i \<in> set items. item_values mn mx i))"
proof -
  let ?s = "join_with '','' (map item_text items)"
  have chars: "i \<in> set items \<Longrightarrow> item_text i \<noteq> [] \<and> CHR '','' \<notin> set (item_text i)
      \<and> list_all (\<lambda>c. \<not> is_space c) (item_text i)" for i
    using item_text_chars [OF _ assms(3,4)] assms(2) by (auto simp: list_all_iff)
  have split: "split_at CHR '','' ?s = map item_text items"
    by (rule split_at_join) (use assms(1) chars in \<open>auto simp: list_all_iff\<close>)
  have "set (join_with '','' ws) \<subseteq> insert CHR '','' (\<Union> (set ` set ws))" for ws
    by (induction "'',''" ws rule: join_with.induct) auto
  from this [of "map item_text items"] chars have "list_all (\<lambda>c. \<not> is_space c) ?s"
    by (fastforce simp: list_all_iff is_space_def code_def)
  then have trim: "js_trim ?s = ?s" by (rule js_trim_id)
  have "?s \<noteq> []"
  proof
    assume "?s = []"
    then have "map item_text items = [[]]" using split by simp
    with chars show False by (cases items) auto
  qed
  moreover have "map_result (cron_segment mn mx sun) (map item_text items) =
      Inr (map (\<lambda>i. cron_value sun ` item_values mn mx i) items)"
    using assms(2) cron_segment_item [OF _ assms(3,4)]
    by (simp add: map_result_Inr list_all2_conv_all_nth list_all_iff)
  ultimately show ?thesis by (simp add: parseCronField_def trim split image_UN)
qed

theorem cron_field_means_its_items_witness:
  "parseCronField 0 7 True ''1-5/2,6/1'' = Inr {0, 1, 3, 5, 6}"
proof -
  have "cron_value True ` (\<Union>i \<in> set [Between 1 5 (Some 2), From 6 (Some 1)]. item_values 0 7 i) = {0, 1, 3, 5, 6}"
  proof -
    have "item_values 0 7 (Between 1 5 (Some 2)) = {1, 3, 5}" "item_values 0 7 (From 6 (Some 1)) = {6, 7}"
      unfolding item_values_def by (auto; presburger)+
    then show ?thesis by (auto simp: cron_value_def)
  qed
  moreover have "join_with '','' (map item_text [Between 1 5 (Some 2), From 6 (Some 1)]) = ''1-5/2,6/1''" by code_simp
  ultimately show ?thesis
    using cron_field_means_its_items [of "[Between 1 5 (Some 2), From 6 (Some 1)]" 0 7 True]
    by (simp add: item_ok_def)
qed

definition leap_cron :: prompt_cron where
  "leap_cron = \<lparr>pc_cron = ''0 0 29 2 *'', pc_minutes = {0}, pc_hours = {0}, pc_days = {29}, pc_months = {2},
     pc_weekdays = {0, 1, 2, 3, 4, 5, 6}, pc_dayWildcard = False, pc_weekdayWildcard = True\<rparr>"

text \<open>From the day after the leap day of 1896: the next is in 1904.\<close>

theorem next_prompt_run_is_first_witness:
  "\<exists>t. nextPromptCronAt ''0 0 29 2 *'' (- 2330035200000) = Inr (iso_text t)
     \<and> - 2330035200000 < t \<and> promptCronMatchesAt ''0 0 29 2 *'' t = Inr True"
proof -
  have "parsePromptCron ''0 0 29 2 *'' = Inr leap_cron" by code_simp
  from next_prompt_run_is_first [OF this, of "- 2330035200000"] show ?thesis
    by (auto simp: MAX_TIME_def MS_PER_DAY_def)
qed

end
