(* ===== verification/SnapshotEvents.thy ===== *)
theory SnapshotEvents
  imports ReceiptStore CanonicalFacts
begin

text \<open>
  The live snapshot: snapshot-events.js, which numbers the snapshots of the server and encodes
  each as a full text and, when that is shorter, as a patch of the last one; the writer of one
  event stream; \<open>applySnapshotPatch\<close> of public/ui-state.js and the handlers of
  public/app.js that keep the browser's copy. A snapshot is the list of the entries of the
  object, where \<open>None\<close> is a value that \<open>JSON.stringify\<close> leaves out. The text of an entry is
  \<open>render\<close>, which is \<open>JSON.stringify\<close>; what \<open>JSON.parse\<close> reads from a text is the value
  whose text it is.
\<close>

section \<open>The server's updates\<close>

type_synonym snapshot = "(string \<times> json option) list"

record snapshot_state =
  ss_sequence :: int
  ss_fields :: "(string \<times> string) list"

record snapshot_update =
  su_state :: snapshot_state
  su_fullPayload :: string
  su_broadcastEvent :: string
  su_broadcastPayload :: string

definition FORBIDDEN_SNAPSHOT_KEYS :: "string list" where
  "FORBIDDEN_SNAPSHOT_KEYS = [''__proto__'', ''constructor'', ''prototype'']"

definition is_safe_integer :: "int \<Rightarrow> bool" where
  "is_safe_integer n \<longleftrightarrow> \<bar>n\<bar> \<le> MAX_SAFE_INTEGER"

fun snapshotFields :: "snapshot \<Rightarrow> (string \<times> string) list result" where
  "snapshotFields [] = Inr []"
| "snapshotFields ((key, v) # rest) =
     guard (throw_if (key \<in> set FORBIDDEN_SNAPSHOT_KEYS) (Error ''snapshot_event_key_invalid''))
       (attempt (snapshotFields rest) (\<lambda>fs.
         Inr (case v of None \<Rightarrow> fs | Some j \<Rightarrow> (key, render j) # fs)))"

definition nextSequence :: "snapshot_state option \<Rightarrow> int" where
  "nextSequence previous =
     (case previous of
        None \<Rightarrow> 1
      | Some p \<Rightarrow>
          if \<not> is_safe_integer (ss_sequence p) \<or> ss_sequence p < 1 then 1
          else if ss_sequence p = MAX_SAFE_INTEGER then 1 else ss_sequence p + 1)"

definition changed_fields :: "(string \<times> string) list \<Rightarrow> (string \<times> string) list \<Rightarrow> (string \<times> string) list" where
  "changed_fields old new = filter (\<lambda>kv. map_of old (fst kv) \<noteq> Some (snd kv)) new"

definition removed_fields :: "(string \<times> string) list \<Rightarrow> (string \<times> string) list \<Rightarrow> string list" where
  "removed_fields old new = filter (\<lambda>key. key \<notin> set (map fst new)) (map fst old)"

definition patch_text :: "snapshot_state \<Rightarrow> int \<Rightarrow> (string \<times> string) list \<Rightarrow> string" where
  "patch_text p sequence new =
     object_text [(''baseSequence'', int_text (ss_sequence p)), (''sequence'', int_text sequence),
       (''changes'', object_text (changed_fields (ss_fields p) new)),
       (''removed'', array_text (map string_text (removed_fields (ss_fields p) new)))]"

definition buildSnapshotEventUpdate :: "snapshot \<Rightarrow> snapshot_state option \<Rightarrow> snapshot_update result" where
  "buildSnapshotEventUpdate s previous =
     attempt (snapshotFields s) (\<lambda>new.
       let sequence = nextSequence previous; full = object_text new;
           patch = (case previous of
               None \<Rightarrow> None
             | Some p \<Rightarrow>
                 if is_safe_integer (ss_sequence p) \<and> 0 < ss_sequence p
                    \<and> utf8_length (patch_text p sequence new) < utf8_length full
                 then Some (patch_text p sequence new) else None)
       in Inr \<lparr>su_state = \<lparr>ss_sequence = sequence, ss_fields = new\<rparr>, su_fullPayload = full,
                su_broadcastEvent = (if patch = None then ''snapshot'' else ''snapshot-patch''),
                su_broadcastPayload = (case patch of None \<Rightarrow> full | Some t \<Rightarrow> t)\<rparr>)"

text \<open>
  \<open>sharedSnapshotEventUpdate\<close>: one update at a time, each on the state the last one left; one
  that throws leaves the state.
\<close>

fun server_updates :: "snapshot_state option \<Rightarrow> snapshot list \<Rightarrow> snapshot_update list" where
  "server_updates st [] = []"
| "server_updates st (s # rest) =
     (case buildSnapshotEventUpdate s st of
        Inl e \<Rightarrow> server_updates st rest
      | Inr u \<Rightarrow> u # server_updates (Some (su_state u)) rest)"

section \<open>One event stream\<close>

text \<open>\<open>es_sent\<close> is the entry of \<open>sentSnapshotSequences\<close> for the response.\<close>

record event_stream =
  es_destroyed :: bool
  es_ended :: bool
  es_needDrain :: bool
  es_sent :: "int option"
  es_frames :: "string list"

text \<open>What the socket does with a write: throw, or take it and ask for a drain.\<close>

datatype socket_write = Write_throws | Write_taken bool

definition event_frame :: "string \<Rightarrow> string \<Rightarrow> int option \<Rightarrow> string" where
  "event_frame event payload n =
     (case n of None \<Rightarrow> [] | Some i \<Rightarrow> ''id: '' @ int_text i @ [CHR 0x0A])
     @ ''event: '' @ event @ [CHR 0x0A] @ ''data: '' @ payload @ [CHR 0x0A, CHR 0x0A]"

definition writeSnapshotEvent ::
  "socket_write \<Rightarrow> event_stream \<Rightarrow> string \<Rightarrow> string \<Rightarrow> int option \<Rightarrow> bool \<times> event_stream" where
  "writeSnapshotEvent w res event payload sequence =
     (let n = (case sequence of None \<Rightarrow> None | Some i \<Rightarrow> if is_safe_integer i \<and> 0 < i then Some i else None) in
      if es_destroyed res \<or> es_ended res then (False, res)
      else if n \<noteq> None \<and> es_sent res = n then (True, res)
      else if es_needDrain res then (False, res\<lparr>es_destroyed := True\<rparr>)
      else
        (case w of
           Write_throws \<Rightarrow> (False, res\<lparr>es_destroyed := True\<rparr>)
         | Write_taken drain \<Rightarrow>
             (True, res\<lparr>es_needDrain := drain, es_sent := (if n = None then es_sent res else n),
                       es_frames := es_frames res @ [event_frame event payload n]\<rparr>)))"

section \<open>The browser's copy\<close>

definition json_member :: "(string \<times> json) list \<Rightarrow> string \<Rightarrow> json option" where
  "json_member kvs key = map_of kvs key"

definition safe_member :: "(string \<times> json) list \<Rightarrow> string \<Rightarrow> int option" where
  "safe_member kvs key =
     (case json_member kvs key of
        Some (JNum n) \<Rightarrow> if is_safe_integer n \<and> 1 \<le> n then Some n else None | _ \<Rightarrow> None)"

fun put_member :: "string \<Rightarrow> json \<Rightarrow> (string \<times> json) list \<Rightarrow> (string \<times> json) list" where
  "put_member key v [] = [(key, v)]"
| "put_member key v ((k, x) # kvs) = (if k = key then (k, v) # kvs else (k, x) # put_member key v kvs)"

definition delete_member :: "string \<Rightarrow> (string \<times> json) list \<Rightarrow> (string \<times> json) list" where
  "delete_member key kvs = filter (\<lambda>kv. fst kv \<noteq> key) kvs"

text \<open>The keys of \<open>removed\<close>, when all are strings that may be keys of a snapshot.\<close>

definition removed_keys :: "json list \<Rightarrow> string list option" where
  "removed_keys xs =
     (if list_all (\<lambda>x. case x of JStr k \<Rightarrow> k \<notin> set FORBIDDEN_SNAPSHOT_KEYS | _ \<Rightarrow> False) xs
      then Some (map (\<lambda>x. case x of JStr k \<Rightarrow> k | _ \<Rightarrow> []) xs) else None)"

definition expected_sequence :: "int \<Rightarrow> int" where
  "expected_sequence base = (if base = MAX_SAFE_INTEGER then 1 else base + 1)"

definition applySnapshotPatch :: "json \<Rightarrow> int \<Rightarrow> json \<Rightarrow> (json \<times> int) result" where
  "applySnapshotPatch currentSnapshot currentSequence patch =
     (case currentSnapshot of
        JObj current \<Rightarrow>
          (case patch of
             JObj p \<Rightarrow>
               (case (safe_member p ''baseSequence'', safe_member p ''sequence'') of
                  (Some baseSequence, Some sequence) \<Rightarrow>
                    if \<not> is_safe_integer currentSequence \<or> currentSequence < 1
                       \<or> currentSequence \<noteq> baseSequence \<or> sequence \<noteq> expected_sequence baseSequence
                    then Inl (Error ''sequence_mismatch'')
                    else
                      (case (json_member p ''changes'', json_member p ''removed'') of
                         (Some (JObj changes), Some (JArr removed)) \<Rightarrow>
                           if \<exists>key \<in> set (map fst changes). key \<in> set FORBIDDEN_SNAPSHOT_KEYS
                           then Inl (Error ''patch_key_invalid'')
                           else
                             (case removed_keys removed of
                                None \<Rightarrow> Inl (Error ''patch_key_invalid'')
                              | Some keys \<Rightarrow>
                                  Inr (JObj (fold (\<lambda>kv. put_member (fst kv) (snd kv)) changes
                                         (fold delete_member keys current)), sequence))
                       | _ \<Rightarrow> Inl (Error ''patch_shape_invalid''))
                | _ \<Rightarrow> Inl (Error ''sequence_mismatch''))
           | _ \<Rightarrow> Inl (Error ''patch_invalid''))
      | _ \<Rightarrow> Inl (Error ''snapshot_missing''))"

record live_client =
  lc_snapshot :: json
  lc_sequence :: int

definition new_client :: live_client where
  "new_client = \<lparr>lc_snapshot = JNull, lc_sequence = 0\<rparr>"

text \<open>
  What reaches the page: a full snapshot with the number of its frame, a patch (\<open>None\<close> when the
  data is not JSON), the answer to a poll, a new connection.
\<close>

datatype client_event =
    E_snapshot "json option" int
  | E_patch "json option"
  | E_poll json
  | E_connect

fun client_step :: "live_client \<Rightarrow> client_event \<Rightarrow> live_client" where
  "client_step c (E_snapshot None n) = c"
| "client_step c (E_snapshot (Some j) n) =
     c\<lparr>lc_snapshot := j, lc_sequence := (if is_safe_integer n \<and> 0 < n then n else 0)\<rparr>"
| "client_step c (E_patch None) = c\<lparr>lc_sequence := 0\<rparr>"
| "client_step c (E_patch (Some p)) =
     (case applySnapshotPatch (lc_snapshot c) (lc_sequence c) p of
        Inl e \<Rightarrow> c\<lparr>lc_sequence := 0\<rparr>
      | Inr (j, n) \<Rightarrow> c\<lparr>lc_snapshot := j, lc_sequence := n\<rparr>)"
| "client_step c (E_poll j) = c\<lparr>lc_snapshot := j, lc_sequence := 0\<rparr>"
| "client_step c E_connect = c\<lparr>lc_sequence := 0\<rparr>"

end
