(* ===== verification/SnapshotProperties.thy ===== *)
theory SnapshotProperties
  imports SnapshotEvents
begin

text \<open>
  The browser's numbered copy of the snapshot is always one the server had under that number,
  whatever is lost, repeated or reordered on the way; a stream that is not destroyed carries
  every update once and in order; a copy that receives them is brought from each snapshot to
  the next.
\<close>

section \<open>The fields of a snapshot\<close>

text \<open>The members of a snapshot that have a text, and their texts.\<close>

fun shown :: "snapshot \<Rightarrow> (string \<times> json) list" where
  "shown [] = []"
| "shown ((k, None) # s) = shown s"
| "shown ((k, Some j) # s) = (k, j) # shown s"

definition is_object :: "snapshot \<Rightarrow> bool" where
  "is_object s \<longleftrightarrow> distinct (map fst s)"

definition allowed :: "string \<Rightarrow> bool" where
  "allowed key \<longleftrightarrow> key \<notin> set FORBIDDEN_SNAPSHOT_KEYS"

abbreviation rendered :: "(string \<times> json) list \<Rightarrow> (string \<times> string) list" where
  "rendered kvs \<equiv> map (map_prod (\<lambda>k. k) render) kvs"

lemma render_inject: "render a = render b \<longleftrightarrow> a = b"
  using render_prefix [of a "[]" b "[]"] by auto

lemma shown_keys: "set (map fst (shown s)) \<subseteq> set (map fst s)"
  by (induction s rule: shown.induct) auto

lemma shown_distinct: "is_object s \<Longrightarrow> distinct (map fst (shown s))"
  unfolding is_object_def by (induction s rule: shown.induct) (use shown_keys in auto)

lemma snapshotFields_Inr:
  "snapshotFields s = Inr new \<Longrightarrow> new = rendered (shown s) \<and> list_all allowed (map fst (shown s))"
  by (induction s arbitrary: new rule: shown.induct)
    (auto simp: allowed_def guard_Inr attempt_Inr)

lemma map_of_rendered: "map_of (rendered kvs) key = map_option render (map_of kvs key)"
  by (induction kvs) auto

lemma ident_comp [simp]: "(\<lambda>k. k) \<circ> f = f"
  by auto

section \<open>One update\<close>

definition valid_state :: "snapshot_state \<Rightarrow> bool" where
  "valid_state st \<longleftrightarrow> 1 \<le> ss_sequence st \<and> ss_sequence st \<le> MAX_SAFE_INTEGER
     \<and> list_all allowed (map fst (ss_fields st))"

lemma next_safe:
  assumes "\<forall>st. previous = Some st \<longrightarrow> valid_state st"
  shows "1 \<le> nextSequence previous \<and> nextSequence previous \<le> MAX_SAFE_INTEGER"
  using assms by (auto simp: nextSequence_def valid_state_def is_safe_integer_def MAX_SAFE_INTEGER_def
      split: option.splits)

lemma next_expected: "valid_state st \<Longrightarrow> nextSequence (Some st) = expected_sequence (ss_sequence st)"
  by (auto simp: nextSequence_def expected_sequence_def valid_state_def is_safe_integer_def)

lemma update_state:
  assumes "buildSnapshotEventUpdate s previous = Inr u" "\<forall>st. previous = Some st \<longrightarrow> valid_state st"
  shows "ss_sequence (su_state u) = nextSequence previous" "ss_fields (su_state u) = rendered (shown s)"
    "valid_state (su_state u)" "su_fullPayload u = render (JObj (shown s))"
proof -
  obtain new where f: "snapshotFields s = Inr new"
    using assms(1) by (auto simp: buildSnapshotEventUpdate_def attempt_Inr)
  from assms(1) snapshotFields_Inr [OF f] next_safe [OF assms(2)]
  show "ss_sequence (su_state u) = nextSequence previous" "ss_fields (su_state u) = rendered (shown s)"
    "valid_state (su_state u)" "su_fullPayload u = render (JObj (shown s))"
    by (auto simp: buildSnapshotEventUpdate_def f Let_def valid_state_def)
qed

text \<open>The value whose text a patch is.\<close>

definition changes_of :: "snapshot_state \<Rightarrow> (string \<times> json) list \<Rightarrow> (string \<times> json) list" where
  "changes_of st new = filter (\<lambda>kv. map_of (ss_fields st) (fst kv) \<noteq> Some (render (snd kv))) new"

definition patch_value :: "snapshot_state \<Rightarrow> int \<Rightarrow> (string \<times> json) list \<Rightarrow> json" where
  "patch_value st n new =
     JObj [(''baseSequence'', JNum (ss_sequence st)), (''sequence'', JNum n), (''changes'', JObj (changes_of st new)),
       (''removed'', JArr (map JStr (removed_fields (ss_fields st) (rendered new))))]"

lemma patch_text_value: "patch_text st n (rendered new) = render (patch_value st n new)"
proof -
  have "changed_fields (ss_fields st) (rendered new) = rendered (changes_of st new)"
    by (simp add: changed_fields_def changes_of_def filter_map comp_def)
  then show ?thesis by (simp add: patch_text_def patch_value_def comp_def)
qed

lemma update_patch:
  assumes "buildSnapshotEventUpdate s (Some st) = Inr u" "valid_state st"
    "su_broadcastEvent u = ''snapshot-patch''"
  shows "su_broadcastPayload u = render (patch_value st (ss_sequence (su_state u)) (shown s))"
  using assms snapshotFields_Inr
  by (fastforce simp: buildSnapshotEventUpdate_def attempt_Inr Let_def patch_text_value split: if_splits)

lemma update_fields:
  "buildSnapshotEventUpdate s previous = Inr u \<Longrightarrow> snapshotFields s = Inr (ss_fields (su_state u))"
  by (auto simp: buildSnapshotEventUpdate_def attempt_Inr Let_def)

lemma patch_has_base:
  assumes "buildSnapshotEventUpdate s previous = Inr u" "su_broadcastEvent u = ''snapshot-patch''"
  obtains st where "previous = Some st"
  using assms by (cases previous) (auto simp: buildSnapshotEventUpdate_def attempt_Inr Let_def)

lemma update_snapshot:
  assumes "buildSnapshotEventUpdate s previous = Inr u" "su_broadcastEvent u \<noteq> ''snapshot-patch''"
  shows "su_broadcastEvent u = ''snapshot'' \<and> su_broadcastPayload u = su_fullPayload u"
  using assms by (auto simp: buildSnapshotEventUpdate_def attempt_Inr Let_def split: if_splits option.splits)

section \<open>One patch\<close>

lemma map_of_put: "map_of (put_member k v kvs) = (map_of kvs)(k \<mapsto> v)"
  by (induction k v kvs rule: put_member.induct) auto

lemma map_of_delete: "map_of (delete_member k kvs) x = (if x = k then None else map_of kvs x)"
  by (induction kvs) (auto simp: delete_member_def)

lemma map_of_deletes: "map_of (fold delete_member ks kvs) x = (if x \<in> set ks then None else map_of kvs x)"
  by (induction ks arbitrary: kvs) (auto simp: map_of_delete)

lemma map_of_puts:
  "distinct (map fst cs) \<Longrightarrow> map_of (fold (\<lambda>kv. put_member (fst kv) (snd kv)) cs kvs) x =
     (case map_of cs x of None \<Rightarrow> map_of kvs x | Some v \<Rightarrow> Some v)"
  by (induction cs arbitrary: kvs) (auto simp: map_of_put map_of_eq_None_iff [THEN iffD2] split: option.splits)

text \<open>A copy holds a state when it has its number and every member has the text of the field.\<close>

definition holds :: "live_client \<Rightarrow> snapshot_state \<Rightarrow> bool" where
  "holds c st \<longleftrightarrow> lc_sequence c = ss_sequence st
     \<and> (\<exists>kvs. lc_snapshot c = JObj kvs \<and> (\<forall>key. map_option render (map_of kvs key) = map_of (ss_fields st) key))"

lemma removed_keys_strings: "list_all allowed ks \<Longrightarrow> removed_keys (map JStr ks) = Some ks"
  by (auto simp: removed_keys_def allowed_def list_all_iff comp_def)

lemma filtered_map_of: "distinct (map fst kvs) \<Longrightarrow>
    map_of (filter P kvs) x = (case map_of kvs x of None \<Rightarrow> None | Some v \<Rightarrow> if P (x, v) then Some v else None)"
  by (induction kvs) (auto simp: map_of_eq_None_iff image_iff split: option.splits)

lemma patch_applies:
  assumes "buildSnapshotEventUpdate s (Some st) = Inr u" "is_object s" "valid_state st"
    "su_broadcastEvent u = ''snapshot-patch''" "render p = su_broadcastPayload u" "holds c st"
  shows "holds (client_step c (E_patch (Some p))) (su_state u)"
proof -
  let ?new = "shown s"
  let ?n = "ss_sequence (su_state u)"
  note up = update_state [OF assms(1)]
  have n: "?n = expected_sequence (ss_sequence st)" "1 \<le> ?n" "?n \<le> MAX_SAFE_INTEGER"
    using up assms(3) next_expected by (auto simp: valid_state_def)
  have p: "p = patch_value st ?n ?new"
    using update_patch [OF assms(1,3,4)] assms(5) by (simp add: render_inject)
  obtain kvs where kvs: "lc_snapshot c = JObj kvs" "lc_sequence c = ss_sequence st"
    "\<And>key. map_option render (map_of kvs key) = map_of (ss_fields st) key"
    using assms(6) by (auto simp: holds_def)
  let ?ks = "removed_fields (ss_fields st) (rendered ?new)"
  have "list_all allowed ?ks" using assms(3) by (auto simp: removed_fields_def valid_state_def list_all_iff)
  note keys = removed_keys_strings [OF this]
  have "list_all allowed (map fst ?new)"
    using assms(1) snapshotFields_Inr by (auto simp: buildSnapshotEventUpdate_def attempt_Inr)
  then have ok: "\<not> (\<exists>key \<in> set (map fst (changes_of st ?new)). key \<in> set FORBIDDEN_SNAPSHOT_KEYS)"
    by (auto simp: changes_of_def list_all_iff allowed_def)
  let ?out = "fold (\<lambda>kv. put_member (fst kv) (snd kv)) (changes_of st ?new) (fold delete_member ?ks kvs)"
  have go: "applySnapshotPatch (lc_snapshot c) (lc_sequence c) p = Inr (JObj ?out, ?n)"
    using n ok keys kvs(1,2) assms(3)
    by (simp add: applySnapshotPatch_def p patch_value_def safe_member_def json_member_def is_safe_integer_def
        valid_state_def)
  have dist: "distinct (map fst ?new)" using shown_distinct assms(2) .
  then have dc: "distinct (map fst (changes_of st ?new))" by (simp add: changes_of_def distinct_map_filter)
  have changed: "map_of (changes_of st ?new) key = (case map_of ?new key of None \<Rightarrow> None
      | Some v \<Rightarrow> if map_of (ss_fields st) key \<noteq> Some (render v) then Some v else None)" for key
    by (simp add: changes_of_def filtered_map_of [OF dist] split: option.splits)
  have "map_option render (map_of ?out key) = map_option render (map_of ?new key)" for key
  proof (cases "map_of ?new key")
    case None
    then have "key \<in> set ?ks \<or> map_of (ss_fields st) key = None"
      by (auto simp: removed_fields_def map_of_eq_None_iff image_iff)
    then have "key \<in> set ?ks \<or> map_of kvs key = None" using kvs(3) [of key] by auto
    with None show ?thesis
      by (auto simp: map_of_puts [OF dc] map_of_deletes changed)
  next
    case (Some v)
    then have "key \<notin> set ?ks" by (force simp: removed_fields_def dest: map_of_SomeD)
    with Some kvs(3) [of key] show ?thesis
      by (auto simp: map_of_puts [OF dc] map_of_deletes changed)
  qed
  then show ?thesis using go up(2) assms(3) by (auto simp: holds_def map_of_rendered)
qed

lemma full_applies:
  assumes "buildSnapshotEventUpdate s previous = Inr u" "\<forall>st. previous = Some st \<longrightarrow> valid_state st"
    "render j = su_fullPayload u"
  shows "holds (client_step c (E_snapshot (Some j) (ss_sequence (su_state u)))) (su_state u)"
proof -
  note up = update_state [OF assms(1,2)]
  have "j = JObj (shown s)" using up(4) assms(3) by (simp only: render_inject)
  with up(1-3) show ?thesis by (simp add: holds_def map_of_rendered valid_state_def is_safe_integer_def)
qed

section \<open>The server's sequence\<close>

lemma server_updates_nth:
  "i < length (server_updates st ss) \<Longrightarrow>
     \<exists>s \<in> set ss. buildSnapshotEventUpdate s
       (if i = 0 then st else Some (su_state (server_updates st ss ! (i - 1)))) = Inr (server_updates st ss ! i)"
proof (induction st ss arbitrary: i rule: server_updates.induct)
  case (2 st s rest)
  show ?case
  proof (cases "buildSnapshotEventUpdate s st")
    case (Inl e)
    then have skip: "server_updates st (s # rest) = server_updates st rest" by simp
    show ?thesis using 2(1) [OF Inl, of i] 2(3) unfolding skip by auto
  next
    case (Inr u)
    show ?thesis
    proof (cases i)
      case 0
      with Inr show ?thesis by simp
    next
      case (Suc k)
      with 2(2) [OF Inr, of k] 2(3) Inr show ?thesis by (cases k) auto
    qed
  qed
qed simp

lemma server_updates_length: "length (server_updates st ss) \<le> length ss"
  by (induction st ss rule: server_updates.induct) (auto split: sum.splits)

lemma server_update_valid:
  assumes "i < length (server_updates None ss)"
  shows "valid_state (su_state (server_updates None ss ! i))"
  using assms
proof (induction i)
  case 0
  from server_updates_nth [OF 0] update_state(3) show ?case by fastforce
next
  case (Suc i)
  from server_updates_nth [OF Suc.prems] Suc update_state(3) show ?case by fastforce
qed

lemma server_update_of:
  assumes "i < length (server_updates None ss)"
  obtains s previous where "s \<in> set ss"
    "buildSnapshotEventUpdate s previous = Inr (server_updates None ss ! i)"
    "previous = (if i = 0 then None else Some (su_state (server_updates None ss ! (i - 1))))"
    "\<forall>st. previous = Some st \<longrightarrow> valid_state st"
  using server_updates_nth [OF assms] server_update_valid [of "i - 1" ss] assms by fastforce

lemma server_sequence:
  assumes "i < length (server_updates None ss)" "int (length ss) \<le> MAX_SAFE_INTEGER"
  shows "ss_sequence (su_state (server_updates None ss ! i)) = int i + 1"
  using assms(1)
proof (induction i)
  case 0
  then obtain s where "buildSnapshotEventUpdate s None = Inr (server_updates None ss ! 0)"
    using server_updates_nth [OF 0] by auto
  from update_state(1) [OF this] show ?case by (simp add: nextSequence_def)
next
  case (Suc i)
  then obtain s where s: "buildSnapshotEventUpdate s (Some (su_state (server_updates None ss ! i)))
      = Inr (server_updates None ss ! Suc i)"
    using server_updates_nth [OF Suc.prems] by auto
  have v: "valid_state (su_state (server_updates None ss ! i))" using Suc.prems by (intro server_update_valid) simp
  have "int i + 1 < MAX_SAFE_INTEGER" using Suc.prems server_updates_length [of None ss] assms(2) by linarith
  with update_state(1) [OF s] v next_expected [OF v] Suc show ?case by (simp add: expected_sequence_def)
qed

section \<open>The page\<close>

text \<open>An event that carries an update: its full text, or its patch.\<close>

definition carries :: "snapshot_update \<Rightarrow> client_event \<Rightarrow> bool" where
  "carries u e \<longleftrightarrow>
     (\<exists>j. e = E_snapshot (Some j) (ss_sequence (su_state u)) \<and> render j = su_fullPayload u)
     \<or> su_broadcastEvent u = ''snapshot-patch'' \<and> (\<exists>p. e = E_patch (Some p) \<and> render p = su_broadcastPayload u)"

text \<open>The event that the broadcast of an update sends.\<close>

definition broadcasts :: "snapshot_update \<Rightarrow> client_event \<Rightarrow> bool" where
  "broadcasts u e \<longleftrightarrow>
     (\<exists>j. render j = su_broadcastPayload u \<and>
       e = (if su_broadcastEvent u = ''snapshot-patch'' then E_patch (Some j)
            else E_snapshot (Some j) (ss_sequence (su_state u))))"

text \<open>
  The states of a page that is sent events of the updates in any order and number, texts that
  are not JSON, answers of polls and new connections.
\<close>

inductive page_reached :: "snapshot_update list \<Rightarrow> live_client \<Rightarrow> bool" for us where
  page_start: "page_reached us new_client"
| page_update: "page_reached us c \<Longrightarrow> u \<in> set us \<Longrightarrow> carries u e \<Longrightarrow> page_reached us (client_step c e)"
| page_garbled: "page_reached us c \<Longrightarrow> e \<in> {E_patch None, E_snapshot None n} \<Longrightarrow> page_reached us (client_step c e)"
| page_poll: "page_reached us c \<Longrightarrow> page_reached us (client_step c (E_poll j))"
| page_connect: "page_reached us c \<Longrightarrow> page_reached us (client_step c E_connect)"

lemma patch_sequence:
  assumes "applySnapshotPatch cur n (patch_value st m new) = Inr r" "valid_state st"
  shows "n = ss_sequence st"
  using assms
  by (auto simp: applySnapshotPatch_def patch_value_def safe_member_def json_member_def is_safe_integer_def
      valid_state_def split: json.splits if_splits)

lemma page_holds:
  assumes "page_reached (server_updates None ss) c" "list_all is_object ss" "int (length ss) \<le> MAX_SAFE_INTEGER"
  shows "lc_sequence c = 0 \<or> (\<exists>i < length (server_updates None ss). holds c (su_state (server_updates None ss ! i)))"
  using assms(1)
proof (induction rule: page_reached.induct)
  case (page_update c u e)
  let ?us = "server_updates None ss"
  from page_update(2) obtain i where i: "i < length ?us" "u = ?us ! i" by (metis in_set_conv_nth)
  obtain s previous where s: "s \<in> set ss" "buildSnapshotEventUpdate s previous = Inr u"
    "previous = (if i = 0 then None else Some (su_state (?us ! (i - 1))))" "\<forall>st. previous = Some st \<longrightarrow> valid_state st"
    using server_update_of [OF i(1)] i(2) by metis
  from page_update(3) consider
      j where "e = E_snapshot (Some j) (ss_sequence (su_state u))" "render j = su_fullPayload u"
    | p where "e = E_patch (Some p)" "render p = su_broadcastPayload u" "su_broadcastEvent u = ''snapshot-patch''"
    by (auto simp: carries_def)
  then show ?case
  proof cases
    case 1
    with full_applies [OF s(2,4), of j c] i show ?thesis by blast
  next
    case (2 p)
    from patch_has_base [OF s(2) 2(3)] obtain st where st: "previous = Some st" .
    then have v: "valid_state st" and before_i: "0 < i" "st = su_state (?us ! (i - 1))" using s by (auto split: if_splits)
    have p: "p = patch_value st (ss_sequence (su_state u)) (shown s)"
      using update_patch [OF s(2) [unfolded st] v 2(3)] 2(2) by (simp add: render_inject)
    show ?thesis
    proof (cases "applySnapshotPatch (lc_snapshot c) (lc_sequence c) p")
      case (Inl x)
      then show ?thesis by (simp add: 2(1))
    next
      case (Inr r)
      have seq: "lc_sequence c = ss_sequence st" using patch_sequence [OF Inr [unfolded p] v] .
      moreover have "1 \<le> ss_sequence st" using v by (simp add: valid_state_def)
      ultimately obtain k where k: "k < length ?us" "holds c (su_state (?us ! k))"
        using page_update.IH by auto
      then have "int k + 1 = int (i - 1) + 1"
        using seq server_sequence [OF k(1) assms(3)] server_sequence [of "i - 1" ss] i(1) before_i assms(3)
        by (simp add: holds_def)
      then have "k = i - 1" by simp
      with k before_i have "holds c st" by simp
      moreover have "is_object s" using s(1) assms(2) by (simp add: list_all_iff)
      ultimately have "holds (client_step c e) (su_state u)"
        using patch_applies [OF s(2) [unfolded st] _ v 2(3,2)] by (simp add: 2(1))
      with i show ?thesis by blast
    qed
  qed
next
  case (page_garbled c e n)
  then show ?case by (auto simp: holds_def)
qed (simp_all add: new_client_def)

lemma holds_shown:
  assumes "holds c (su_state u)" "buildSnapshotEventUpdate s previous = Inr u" "\<forall>st. previous = Some st \<longrightarrow> valid_state st"
  shows "\<exists>kvs. lc_snapshot c = JObj kvs \<and> map_of kvs = map_of (shown s)"
proof -
  obtain kvs where "lc_snapshot c = JObj kvs"
    and "map_option render (map_of kvs key) = map_option render (map_of (shown s) key)" for key
    using assms(1) update_state(2) [OF assms(2,3)] by (auto simp: holds_def map_of_rendered)
  moreover from this(2) have "map_of kvs = map_of (shown s)"
    by (intro ext) (metis option.inj_map_strong render_inject)
  ultimately show ?thesis by blast
qed

section \<open>Streams\<close>

text \<open>A numbered event, and the stream after a list of them, with what the socket did at each.\<close>

type_synonym numbered_event = "string \<times> string \<times> int"

fun write_events :: "event_stream \<Rightarrow> (socket_write \<times> numbered_event) list \<Rightarrow> event_stream" where
  "write_events res [] = res"
| "write_events res ((w, event, payload, n) # ws) =
     write_events (snd (writeSnapshotEvent w res event payload (Some n))) ws"

text \<open>The frames that the events ask for: an event with the number just sent is a repetition.\<close>

fun due_frames :: "int option \<Rightarrow> numbered_event list \<Rightarrow> string list" where
  "due_frames sent [] = []"
| "due_frames sent ((event, payload, n) # es) =
     (if sent = Some n then due_frames sent es else event_frame event payload (Some n) # due_frames (Some n) es)"

lemma write_destroyed: "es_destroyed res \<Longrightarrow> write_events res ws = res"
  by (induction res ws rule: write_events.induct) (simp_all add: writeSnapshotEvent_def)

section \<open>Properties\<close>

text \<open>C7: A page that shows a numbered snapshot shows the server's snapshot of that number, member for
  member: whatever events of the server's updates reach it, in whatever order and however often,
  with texts that are not JSON, polls and new connections in between, no patch is ever applied to
  anything but the snapshot it was made from. The numbers are those of at most
  \<open>MAX_SAFE_INTEGER\<close> updates, after which they start again.\<close>

theorem page_shows_the_servers_snapshot:
  assumes "page_reached (server_updates None ss) c" "list_all is_object ss" "int (length ss) \<le> MAX_SAFE_INTEGER"
    "lc_sequence c \<noteq> 0"
  shows "\<exists>i < length (server_updates None ss). \<exists>s \<in> set ss. \<exists>kvs.
    lc_sequence c = int i + 1 \<and> snapshotFields s = Inr (ss_fields (su_state (server_updates None ss ! i)))
    \<and> lc_snapshot c = JObj kvs \<and> map_of kvs = map_of (shown s)"
proof -
  obtain i where i: "i < length (server_updates None ss)" "holds c (su_state (server_updates None ss ! i))"
    using page_holds [OF assms(1-3)] assms(4) by blast
  obtain s previous where s: "s \<in> set ss" "buildSnapshotEventUpdate s previous = Inr (server_updates None ss ! i)"
    "\<forall>st. previous = Some st \<longrightarrow> valid_state st" using server_update_of [OF i(1)] by metis
  note update_fields [OF s(2)]
  moreover have "lc_sequence c = int i + 1" using i server_sequence [OF i(1) assms(3)] by (simp add: holds_def)
  ultimately show ?thesis using i(1) s(1) holds_shown [OF i(2) s(2,3)] by blast
qed

text \<open>C27: A page that receives the full snapshot and then every broadcast in order never loses the
  sequence: after the last one it shows the snapshot of that update under its number, also when
  the numbers start again.\<close>

theorem page_follows_the_server:
  assumes "us = server_updates None ss" "list_all is_object ss" "k + length es < length us"
    "render j = su_fullPayload (us ! k)" "\<And>i. i < length es \<Longrightarrow> broadcasts (us ! (k + Suc i)) (es ! i)"
  shows "holds (foldl client_step c (E_snapshot (Some j) (ss_sequence (su_state (us ! k))) # es))
    (su_state (us ! (k + length es)))"
  using assms(3,5)
proof (induction es rule: rev_induct)
  case Nil
  from Nil have "k < length (server_updates None ss)" by (simp add: assms(1))
  then obtain s previous where "buildSnapshotEventUpdate s previous = Inr (us ! k)"
    "\<forall>st. previous = Some st \<longrightarrow> valid_state st" unfolding assms(1) by (rule server_update_of)
  from full_applies [OF this assms(4)] show ?case by simp
next
  case (snoc e es)
  let ?c = "foldl client_step c (E_snapshot (Some j) (ss_sequence (su_state (us ! k))) # es)"
  let ?i = "k + Suc (length es)"
  have inv: "holds ?c (su_state (us ! (k + length es)))"
  proof (rule snoc.IH)
    show "broadcasts (us ! (k + Suc i)) (es ! i)" if "i < length es" for i
      using snoc.prems(2) [of i] that by (simp add: nth_append)
  qed (use snoc.prems(1) in simp)
  have b: "broadcasts (us ! ?i) e" using snoc.prems(2) [of "length es"] by simp
  have "?i < length (server_updates None ss)" using snoc.prems(1) assms(1) by simp
  then obtain s previous where s: "s \<in> set ss" "buildSnapshotEventUpdate s previous = Inr (us ! ?i)"
    "previous = Some (su_state (us ! (k + length es)))" "\<forall>st. previous = Some st \<longrightarrow> valid_state st"
    unfolding assms(1) by (rule server_update_of) simp
  have v: "valid_state (su_state (us ! (k + length es)))" using s by simp
  have o: "is_object s" using s(1) assms(2) by (simp add: list_all_iff)
  have "holds (client_step ?c e) (su_state (us ! ?i))"
  proof (cases "su_broadcastEvent (us ! ?i) = ''snapshot-patch''")
    case True
    then obtain p where "e = E_patch (Some p)" "render p = su_broadcastPayload (us ! ?i)"
      using b by (auto simp: broadcasts_def)
    with patch_applies [OF s(2) [unfolded s(3)] o v True _ inv] show ?thesis by simp
  next
    case False
    then obtain q where "e = E_snapshot (Some q) (ss_sequence (su_state (us ! ?i)))" "render q = su_fullPayload (us ! ?i)"
      using b update_snapshot [OF s(2) False] by (auto simp: broadcasts_def)
    with full_applies [OF s(2,4)] show ?thesis by simp
  qed
  then show ?case by simp
qed

text \<open>C28: A stream has no gaps: whatever the socket does with the writes, what it has taken are the
  frames of the first updates, each once and in order, and a stream that was not destroyed has
  taken them all; so a browser that misses one is reconnected.\<close>

theorem stream_is_gapless:
  assumes "\<not> es_ended res" "list_all (\<lambda>(w, event, payload, n). is_safe_integer n \<and> 0 < n) ws"
  shows "\<exists>k. es_frames (write_events res ws) = es_frames res @ take k (due_frames (es_sent res) (map snd ws))
    \<and> (\<not> es_destroyed (write_events res ws) \<longrightarrow> k = length (due_frames (es_sent res) (map snd ws)))"
  using assms
proof (induction res ws rule: write_events.induct)
  case (2 res w event payload n ws)
  let ?res = "snd (writeSnapshotEvent w res event payload (Some n))"
  have n: "is_safe_integer n" "0 < n" "\<not> es_ended res" using 2(2,3) by auto
  show ?case
  proof (cases "es_destroyed ?res")
    case True
    then have "es_frames ?res = es_frames res" using n
      by (auto simp: writeSnapshotEvent_def Let_def split: if_splits socket_write.splits)
    with True show ?thesis by (intro exI [of _ 0]) (simp add: write_destroyed)
  next
    case False
    then have step: "\<not> es_ended ?res \<and> es_sent ?res = Some n
        \<and> es_frames ?res = es_frames res @ (if es_sent res = Some n then [] else [event_frame event payload (Some n)])"
      using n by (auto simp: writeSnapshotEvent_def Let_def split: if_splits socket_write.splits)
    with 2 obtain k where k: "es_frames (write_events ?res ws) = es_frames ?res @ take k (due_frames (Some n) (map snd ws))"
      "\<not> es_destroyed (write_events ?res ws) \<longrightarrow> k = length (due_frames (Some n) (map snd ws))" by auto
    show ?thesis
    proof (cases "es_sent res = Some n")
      case True
      with k step show ?thesis by (intro exI [of _ k]) simp
    next
      case False
      with k step show ?thesis by (intro exI [of _ "Suc k"]) simp
    qed
  qed
qed simp

theorem stream_is_gapless_witness:
  "es_frames (write_events \<lparr>es_destroyed = False, es_ended = False, es_needDrain = False, es_sent = None, es_frames = []\<rparr>
     [(Write_taken False, ''snapshot'', ''{}'', 1), (Write_taken True, ''snapshot'', ''{}'', 1)]) =
   [event_frame ''snapshot'' ''{}'' (Some 1)]"
  using stream_is_gapless [of "\<lparr>es_destroyed = False, es_ended = False, es_needDrain = False, es_sent = None, es_frames = []\<rparr>"
    "[(Write_taken False, ''snapshot'', ''{}'', 1), (Write_taken True, ''snapshot'', ''{}'', 1)]"]
  by (simp add: is_safe_integer_def MAX_SAFE_INTEGER_def writeSnapshotEvent_def Let_def)

section \<open>A page and its server\<close>

definition live_snapshots :: "snapshot list" where
  "live_snapshots =
     [[(''host'', Some (JNum 1)), (''notes'', Some (JStr (replicate 100 CHR ''x'')))],
      [(''host'', Some (JNum 2)), (''notes'', Some (JStr (replicate 100 CHR ''x''))), (''late'', None)]]"

definition live_full :: json where
  "live_full = JObj (shown (live_snapshots ! 0))"

definition live_patch :: json where
  "live_patch = JObj [(''baseSequence'', JNum 1), (''sequence'', JNum 2),
     (''changes'', JObj [(''host'', JNum 2)]), (''removed'', JArr [])]"

lemma live_updates:
  "map (\<lambda>u. (ss_sequence (su_state u), su_fullPayload u = render live_full, su_broadcastEvent u,
       su_broadcastPayload u = render live_patch)) (server_updates None live_snapshots) =
     [(1, True, ''snapshot'', False), (2, False, ''snapshot-patch'', True)]"
  by code_simp

lemma live_two: "length (server_updates None live_snapshots) = 2"
  using arg_cong [OF live_updates, of length] by simp

lemma live_first:
  "ss_sequence (su_state (server_updates None live_snapshots ! 0)) = 1"
  "su_fullPayload (server_updates None live_snapshots ! 0) = render live_full"
  using arg_cong [OF live_updates, of "\<lambda>l. l ! 0"] live_two by (simp_all add: nth_map)

lemma live_second:
  "su_broadcastEvent (server_updates None live_snapshots ! 1) = ''snapshot-patch''"
  "su_broadcastPayload (server_updates None live_snapshots ! 1) = render live_patch"
  "ss_sequence (su_state (server_updates None live_snapshots ! 1)) = 2"
  using arg_cong [OF live_updates, of "\<lambda>l. l ! 1"] live_two by (simp_all add: nth_map)

definition live_page :: live_client where
  "live_page = foldl client_step new_client [E_snapshot (Some live_full) 1, E_patch (Some live_patch)]"

lemma live_objects: "list_all is_object live_snapshots"
  by (simp add: live_snapshots_def is_object_def)

theorem page_follows_the_server_witness: "holds live_page (su_state (server_updates None live_snapshots ! 1))"
proof -
  have "holds (foldl client_step new_client (E_snapshot (Some live_full)
      (ss_sequence (su_state (server_updates None live_snapshots ! 0))) # [E_patch (Some live_patch)]))
    (su_state (server_updates None live_snapshots ! (0 + length [E_patch (Some live_patch)])))"
  proof (rule page_follows_the_server [OF refl live_objects])
    show "broadcasts (server_updates None live_snapshots ! (0 + Suc i)) ([E_patch (Some live_patch)] ! i)"
      if "i < length [E_patch (Some live_patch)]" for i
      using that live_second by (auto simp: broadcasts_def)
  qed (simp_all add: live_two live_first)
  then show ?thesis by (simp add: live_page_def live_first)
qed

theorem page_shows_the_servers_snapshot_witness:
  "\<exists>s \<in> set live_snapshots. \<exists>kvs. lc_snapshot live_page = JObj kvs \<and> map_of kvs = map_of (shown s)"
proof -
  let ?us = "server_updates None live_snapshots"
  have mem: "?us ! 0 \<in> set ?us" "?us ! 1 \<in> set ?us" by (simp_all add: live_two)
  have "carries (?us ! 0) (E_snapshot (Some live_full) 1)" using live_first by (auto simp: carries_def)
  from page_update [OF page_start mem(1) this]
  have one: "page_reached ?us (client_step new_client (E_snapshot (Some live_full) 1))" .
  have "carries (?us ! 1) (E_patch (Some live_patch))" using live_second by (auto simp: carries_def)
  from page_update [OF one mem(2) this] have reached: "page_reached ?us live_page" by (simp add: live_page_def)
  have "lc_sequence live_page = 2" by code_simp
  then show ?thesis
    using page_shows_the_servers_snapshot [OF reached live_objects]
    by (auto simp: live_snapshots_def MAX_SAFE_INTEGER_def)
qed

end
