(* ===== verification/AgentRecovery.thy ===== *)
theory AgentRecovery
  imports DeliveryPlan JsPath
begin

text \<open>
  agent-recovery.js: the registry of agent sessions that may be resumed after a crash. A store
  has one slot per tmux session; an observation registers a slot, an operator or a failure
  disarms it, attempts and results are counted, and the monitor takes the next candidate.
  The slots are the own members of an object in their order. The resource gate, which compares
  quotients of binary floating point, is not modelled.
\<close>

section \<open>Data\<close>

record recovery_slot =
  rs_session :: string
  rs_workspace :: string
  rs_rolloutId :: string
  rs_model :: string
  rs_reasoning :: string
  rs_rootInteractive :: "bool option"
  rs_turnState :: "string option"
  rs_autoRecover :: bool
  rs_registeredAt :: string
  rs_lastObservedAt :: string
  rs_lastAttemptAt :: "string option"
  rs_lastRecoveredAt :: "string option"
  rs_attemptCount :: int
  rs_lastError :: string

record recovery_store =
  ry_version :: int
  ry_revision :: int
  ry_updatedAt :: string
  ry_slots :: "(string \<times> recovery_slot) list"

record slot_input =
  si_session :: string
  si_workspace :: string
  si_rolloutId :: string
  si_model :: string
  si_reasoning :: string
  si_rootInteractive :: bool
  si_turnState :: "string option"
  si_autoRecover :: "bool option"

definition RECOVERY_STORE_VERSION :: int where
  "RECOVERY_STORE_VERSION = 1"

definition MAX_RECOVERY_SLOTS :: nat where
  "MAX_RECOVERY_SLOTS = 64"

definition word_char :: "char \<Rightarrow> bool" where
  "word_char c \<longleftrightarrow> is_alnum c \<or> c = CHR ''_''"

definition session_pattern :: "string \<Rightarrow> bool" where
  "session_pattern s \<longleftrightarrow> starts_with ''codex'' s \<and> list_all (\<lambda>c. word_char c \<or> c = CHR ''-'') (drop 5 s)"

definition planning_session_pattern :: "string \<Rightarrow> bool" where
  "planning_session_pattern s \<longleftrightarrow> starts_with ''codex-planning-'' s"

definition recovery_rollout_pattern :: "string \<Rightarrow> bool" where
  "recovery_rollout_pattern s \<longleftrightarrow>
     (let parts = split_at CHR ''-'' s in
      map length parts = [8, 4, 4, 4, 12] \<and> list_all (list_all is_hex) parts)"

definition model_char :: "char \<Rightarrow> bool" where
  "model_char c \<longleftrightarrow> is_alnum c \<or> c \<in> set ''._:-''"

definition model_pattern :: "string \<Rightarrow> bool" where
  "model_pattern s \<longleftrightarrow> length s \<le> 128 \<and> list_all model_char s"

definition REASONING_EFFORTS :: "string list" where
  "REASONING_EFFORTS = [[], ''minimal'', ''low'', ''medium'', ''high'', ''xhigh'', ''max'', ''ultra'']"

definition TURN_STATES :: "string list" where
  "TURN_STATES = [''active'', ''idle'', ''unknown'']"

definition RECOVERY_ERRORS :: "string list" where
  "RECOVERY_ERRORS =
     [[], ''agent_recovery_dead_pane'', ''agent_recovery_input_failed'', ''agent_recovery_interrupted_turn'',
      ''agent_recovery_isolation_unavailable'', ''agent_recovery_memory_gate'',
      ''agent_recovery_metrics_unavailable'', ''agent_recovery_pressure_gate'',
      ''agent_recovery_session_conflict'', ''agent_recovery_spawn_failed'', ''agent_recovery_swap_gate'',
      ''agent_recovery_turn_state_unverified'', ''agent_recovery_unsupported_pane'',
      ''agent_recovery_workspace_unavailable'']"

definition recovery_error :: error where
  "recovery_error = Error ''agent_recovery_state_invalid''"

text \<open>The ISO form of an instant, or the empty text.\<close>

definition isoTimestamp :: "host \<Rightarrow> string \<Rightarrow> string" where
  "isoTimestamp H s = (case date_parse H s of Some t \<Rightarrow> iso_text t | None \<Rightarrow> [])"

definition validOptionalTimestamp :: "host \<Rightarrow> string option \<Rightarrow> bool" where
  "validOptionalTimestamp H s = (case s of None \<Rightarrow> True | Some t \<Rightarrow> isoTimestamp H t \<noteq> [])"

section \<open>Validation\<close>

definition validSlot :: "host \<Rightarrow> string \<Rightarrow> recovery_slot \<Rightarrow> bool" where
  "validSlot H session slot \<longleftrightarrow>
     session_pattern session \<and> rs_session slot = session
     \<and> path_is_absolute (rs_workspace slot) \<and> length (rs_workspace slot) \<le> 4096
     \<and> (rs_rolloutId slot = [] \<or> recovery_rollout_pattern (rs_rolloutId slot))
     \<and> model_pattern (rs_model slot) \<and> rs_reasoning slot \<in> set REASONING_EFFORTS
     \<and> (case rs_turnState slot of None \<Rightarrow> True | Some t \<Rightarrow> t \<in> set TURN_STATES)
     \<and> isoTimestamp H (rs_registeredAt slot) \<noteq> [] \<and> isoTimestamp H (rs_lastObservedAt slot) \<noteq> []
     \<and> validOptionalTimestamp H (rs_lastAttemptAt slot) \<and> validOptionalTimestamp H (rs_lastRecoveredAt slot)
     \<and> 0 \<le> rs_attemptCount slot \<and> rs_attemptCount slot \<le> 1000
     \<and> rs_lastError slot \<in> set RECOVERY_ERRORS"

definition validateAgentRecoveryStore :: "host \<Rightarrow> recovery_store \<Rightarrow> recovery_store result" where
  "validateAgentRecoveryStore H store =
     (if ry_version store \<noteq> RECOVERY_STORE_VERSION then Inl recovery_error
      else if ry_revision store < 0 \<or> MAX_SAFE_INTEGER < ry_revision store
           \<or> isoTimestamp H (ry_updatedAt store) = [] \<or> MAX_RECOVERY_SLOTS < length (ry_slots store)
           \<or> \<not> list_all (\<lambda>(session, slot). validSlot H session slot) (ry_slots store)
      then Inl recovery_error
      else Inr store)"

definition agentRecoverySessionEligible :: "string \<Rightarrow> bool" where
  "agentRecoverySessionEligible session \<longleftrightarrow> session_pattern session \<and> \<not> planning_session_pattern session"

definition agentRecoveryTurnStateError :: "recovery_slot \<Rightarrow> string" where
  "agentRecoveryTurnStateError slot =
     (if rs_turnState slot = Some ''idle'' then []
      else if rs_turnState slot = Some ''active'' then ''agent_recovery_interrupted_turn''
      else ''agent_recovery_turn_state_unverified'')"

definition rolloutIdFromPath :: "string \<Rightarrow> string" where
  "rolloutIdFromPath filePath =
     (let parts = filter (\<lambda>w. w \<noteq> []) (split_at CHR ''/'' filePath); name = (if parts = [] then [] else last parts);
          stem = take (length name - 6) name; rollout = drop (length stem - 36) stem;
          front = take (length stem - 36) stem in
      if ends_with ''.jsonl'' name \<and> recovery_rollout_pattern rollout
         \<and> (front = [] \<or> last front = CHR ''-'' \<or> last front = CHR ''_'')
      then rollout else [])"

section \<open>Operations\<close>

fun put_slot :: "string \<Rightarrow> recovery_slot \<Rightarrow> (string \<times> recovery_slot) list \<Rightarrow> (string \<times> recovery_slot) list" where
  "put_slot k v [] = [(k, v)]"
| "put_slot k v ((j, x) # rest) = (if j = k then (j, v) # rest else (j, x) # put_slot k v rest)"

definition updatedStore :: "recovery_store \<Rightarrow> string \<Rightarrow> recovery_store" where
  "updatedStore store at = store\<lparr>ry_revision := ry_revision store + 1, ry_updatedAt := at\<rparr>"

definition createAgentRecoveryStore :: "host \<Rightarrow> string \<Rightarrow> recovery_store result" where
  "createAgentRecoveryStore H at =
     (if isoTimestamp H at = [] then Inl recovery_error
      else Inr \<lparr>ry_version = RECOVERY_STORE_VERSION, ry_revision = 0, ry_updatedAt = isoTimestamp H at, ry_slots = []\<rparr>)"

definition or_text :: "string \<Rightarrow> string \<Rightarrow> string" where
  "or_text a b = (if a = [] then b else a)"

definition registered_slot :: "slot_input \<Rightarrow> recovery_slot option \<Rightarrow> string \<Rightarrow> recovery_slot" where
  "registered_slot i existing at =
     \<lparr>rs_session = si_session i, rs_workspace = si_workspace i,
      rs_rolloutId = or_text (si_rolloutId i) (case existing of None \<Rightarrow> [] | Some x \<Rightarrow> rs_rolloutId x),
      rs_model = or_text (si_model i) (case existing of None \<Rightarrow> [] | Some x \<Rightarrow> rs_model x),
      rs_reasoning = or_text (si_reasoning i) (case existing of None \<Rightarrow> [] | Some x \<Rightarrow> rs_reasoning x),
      rs_rootInteractive = Some (si_rootInteractive i),
      rs_turnState = Some (case si_turnState i of
          Some t \<Rightarrow> t
        | None \<Rightarrow> (case existing of Some x \<Rightarrow> (case rs_turnState x of Some t \<Rightarrow> t | None \<Rightarrow> ''unknown'') | None \<Rightarrow> ''unknown'')),
      rs_autoRecover = (case si_autoRecover i of
          Some b \<Rightarrow> b | None \<Rightarrow> (case existing of Some x \<Rightarrow> rs_autoRecover x | None \<Rightarrow> True)),
      rs_registeredAt = (case existing of Some x \<Rightarrow> rs_registeredAt x | None \<Rightarrow> at),
      rs_lastObservedAt = at,
      rs_lastAttemptAt = (case existing of Some x \<Rightarrow> rs_lastAttemptAt x | None \<Rightarrow> None),
      rs_lastRecoveredAt = (case existing of Some x \<Rightarrow> rs_lastRecoveredAt x | None \<Rightarrow> None),
      rs_attemptCount = 0, rs_lastError = []\<rparr>"

definition input_rejected :: "slot_input \<Rightarrow> bool" where
  "input_rejected i \<longleftrightarrow>
     \<not> agentRecoverySessionEligible (si_session i) \<or> \<not> path_is_absolute (si_workspace i)
     \<or> 4096 < length (si_workspace i) \<or> (si_rolloutId i \<noteq> [] \<and> \<not> recovery_rollout_pattern (si_rolloutId i))
     \<or> \<not> model_pattern (si_model i) \<or> si_reasoning i \<notin> set REASONING_EFFORTS
     \<or> (case si_turnState i of None \<Rightarrow> False | Some t \<Rightarrow> t \<notin> set TURN_STATES)"

definition registerAgentRecoverySlot :: "host \<Rightarrow> recovery_store \<Rightarrow> slot_input \<Rightarrow> string \<Rightarrow> recovery_store result" where
  "registerAgentRecoverySlot H store i at =
     attempt (validateAgentRecoveryStore H store) (\<lambda>store.
       let timestamp = isoTimestamp H at; existing = map_of (ry_slots store) (si_session i) in
       guard (throw_if (timestamp = [] \<or> input_rejected i) recovery_error)
      (guard (throw_if (existing = None \<and> MAX_RECOVERY_SLOTS \<le> length (ry_slots store)) recovery_error)
        (let next = updatedStore store timestamp in
         validateAgentRecoveryStore H
           (next\<lparr>ry_slots := put_slot (si_session i) (registered_slot i existing timestamp) (ry_slots next)\<rparr>))))"

text \<open>
  The shape the other operations share: find the slot, replace it. \<open>slots['__proto__']\<close> is the
  prototype of the object, so that name is always found and never becomes a slot; a member that
  the prototype has under another name is found too, but no such name is a session.
\<close>

definition update_slot ::
  "host \<Rightarrow> recovery_store \<Rightarrow> string \<Rightarrow> bool \<Rightarrow> (string \<Rightarrow> recovery_slot \<Rightarrow> recovery_slot) \<Rightarrow> string \<Rightarrow> recovery_store result" where
  "update_slot H store session bad f at =
     attempt (validateAgentRecoveryStore H store) (\<lambda>store.
       let timestamp = isoTimestamp H at; next = updatedStore store timestamp in
       if timestamp = [] \<or> bad then Inl recovery_error
       else if session = ''__proto__'' then validateAgentRecoveryStore H next
       else (case map_of (ry_slots store) session of
               None \<Rightarrow> Inl recovery_error
             | Some slot \<Rightarrow>
                 validateAgentRecoveryStore H (next\<lparr>ry_slots := put_slot session (f timestamp slot) (ry_slots next)\<rparr>)))"

definition enabled_slot :: "bool \<Rightarrow> string \<Rightarrow> recovery_slot \<Rightarrow> recovery_slot" where
  "enabled_slot enabled at slot = slot\<lparr>rs_autoRecover := enabled,
     rs_lastError := (if enabled then rs_lastError slot else []),
     rs_attemptCount := (if enabled then rs_attemptCount slot else 0)\<rparr>"

definition setAgentRecoveryEnabled :: "host \<Rightarrow> recovery_store \<Rightarrow> string \<Rightarrow> bool \<Rightarrow> string \<Rightarrow> recovery_store result" where
  "setAgentRecoveryEnabled H store session enabled at =
     update_slot H store session False (enabled_slot enabled) at"

definition attempted_slot :: "string \<Rightarrow> string \<Rightarrow> recovery_slot \<Rightarrow> recovery_slot" where
  "attempted_slot e at slot = slot\<lparr>rs_lastAttemptAt := Some at,
     rs_attemptCount := min 1000 (rs_attemptCount slot + 1), rs_lastError := e\<rparr>"

definition markAgentRecoveryAttempt :: "host \<Rightarrow> recovery_store \<Rightarrow> string \<Rightarrow> string \<Rightarrow> string \<Rightarrow> recovery_store result" where
  "markAgentRecoveryAttempt H store session e at =
     update_slot H store session (e \<notin> set RECOVERY_ERRORS) (attempted_slot e) at"

definition result_slot :: "bool \<Rightarrow> string \<Rightarrow> string \<Rightarrow> recovery_slot \<Rightarrow> recovery_slot" where
  "result_slot ok e at slot = slot\<lparr>rs_lastRecoveredAt := (if ok then Some at else rs_lastRecoveredAt slot),
     rs_attemptCount := (if ok then 0 else rs_attemptCount slot), rs_lastError := (if ok then [] else e)\<rparr>"

definition markAgentRecoveryResult ::
  "host \<Rightarrow> recovery_store \<Rightarrow> string \<Rightarrow> bool \<Rightarrow> string \<Rightarrow> string \<Rightarrow> recovery_store result" where
  "markAgentRecoveryResult H store session ok e at =
     update_slot H store session (e \<notin> set RECOVERY_ERRORS \<or> ok \<and> e \<noteq> []) (result_slot ok e) at"

section \<open>Candidates\<close>

definition parsed_time :: "host \<Rightarrow> string \<Rightarrow> int" where
  "parsed_time H s = (case date_parse H s of Some t \<Rightarrow> t | None \<Rightarrow> 0)"

definition recoverable :: "host \<Rightarrow> string list \<Rightarrow> int \<Rightarrow> int \<Rightarrow> recovery_slot \<Rightarrow> bool" where
  "recoverable H live nowMs retryAfterMs slot \<longleftrightarrow>
     (if \<not> agentRecoverySessionEligible (rs_session slot) \<or> \<not> rs_autoRecover slot \<or> rs_rolloutId slot = []
         \<or> rs_rootInteractive slot \<noteq> Some True \<or> rs_session slot \<in> set live
      then False
      else
        let attemptedAt = (case rs_lastAttemptAt slot of None \<Rightarrow> 0 | Some s \<Rightarrow> parsed_time H s)
        in attemptedAt = 0 \<or> retryAfterMs \<le> nowMs - attemptedAt)"

definition slot_order :: "host \<Rightarrow> recovery_slot \<Rightarrow> recovery_slot \<Rightarrow> int" where
  "slot_order H left right =
     (let d = parsed_time H (rs_lastObservedAt right) - parsed_time H (rs_lastObservedAt left)
      in if d \<noteq> 0 then d else localeCompare H (rs_session left) (rs_session right))"

definition agentRecoveryCandidates ::
  "host \<Rightarrow> recovery_store \<Rightarrow> string list \<Rightarrow> string \<Rightarrow> int \<Rightarrow> recovery_slot list result" where
  "agentRecoveryCandidates H store live at retryAfterMs =
     attempt (validateAgentRecoveryStore H store) (\<lambda>store.
       case date_parse H (isoTimestamp H at) of
         None \<Rightarrow> Inl recovery_error
       | Some nowMs \<Rightarrow>
           if retryAfterMs < 0 then Inl recovery_error
           else Inr (sort_by (slot_order H) (filter (recoverable H live nowMs retryAfterMs) (map snd (ry_slots store)))))"

end
