(* ===== verification/AgentRecoveryProperties.thy ===== *)
theory AgentRecoveryProperties
  imports AgentRecovery
begin

text \<open>
  What the recovery of crashed agents rests on: an accepted operation changes one slot and
  never leaves an invalid store, a disarmed session stays out of the candidates until somebody
  arms it, and the candidates are exactly the sessions that may be resumed, newest first.
\<close>

section \<open>Slots and time stamps\<close>

lemma map_of_put_slot: "map_of (put_slot k v slots) = (map_of slots)(k \<mapsto> v)"
  by (induction k v slots rule: put_slot.induct) auto

lemma set_put_slot: "set (put_slot k v slots) \<subseteq> insert (k, v) (set slots)"
  by (induction k v slots rule: put_slot.induct) auto

lemma length_put_slot:
  "length (put_slot k v slots) = (if map_of slots k = None then Suc (length slots) else length slots)"
  by (induction k v slots rule: put_slot.induct) auto

lemma keys_put_slot:
  "map fst (put_slot k v slots) = (if map_of slots k = None then map fst slots @ [k] else map fst slots)"
  by (induction k v slots rule: put_slot.induct) auto

lemma printed_time_nonempty: "iso_text t \<noteq> []"
  by (simp add: iso_text_def iso_fields_def Let_def)

lemma iso_timestamp_again: "isoTimestamp H s \<noteq> [] \<Longrightarrow> isoTimestamp H (isoTimestamp H s) \<noteq> []"
  using printed_time_nonempty
  by (auto simp: isoTimestamp_def date_parse_def parse_iso_iff parse_iso_text split: option.splits if_splits)

section \<open>Stores\<close>

definition valid_recovery :: "host \<Rightarrow> recovery_store \<Rightarrow> bool" where
  "valid_recovery H store \<longleftrightarrow> validateAgentRecoveryStore H store = Inr store"

lemma valid_recovery_iff:
  "valid_recovery H store \<longleftrightarrow>
     ry_version store = 1 \<and> 0 \<le> ry_revision store \<and> ry_revision store \<le> MAX_SAFE_INTEGER
     \<and> isoTimestamp H (ry_updatedAt store) \<noteq> [] \<and> length (ry_slots store) \<le> 64
     \<and> (\<forall>(session, slot) \<in> set (ry_slots store). validSlot H session slot)"
  by (auto simp: valid_recovery_def validateAgentRecoveryStore_def RECOVERY_STORE_VERSION_def
      MAX_RECOVERY_SLOTS_def list_all_iff)

lemma validate_Inr: "validateAgentRecoveryStore H store = Inr t \<longleftrightarrow> valid_recovery H store \<and> t = store"
  by (auto simp: valid_recovery_def validateAgentRecoveryStore_def)

lemma stored_slot_valid:
  assumes "valid_recovery H store" "map_of (ry_slots store) session = Some slot"
  shows "validSlot H session slot" "rs_session slot = session"
  using assms by (auto simp: valid_recovery_iff validSlot_def dest!: map_of_SomeD)

lemma slot_key: "valid_recovery H store \<Longrightarrow> (k, x) \<in> set (ry_slots store) \<Longrightarrow> k = rs_session x"
  by (auto simp: valid_recovery_iff validSlot_def)

lemma proto_no_session: "\<not> session_pattern ''__proto__''"
  by (simp add: session_pattern_def)

lemma replaced_valid:
  assumes "valid_recovery H store" "isoTimestamp H t \<noteq> []" "ry_revision store < MAX_SAFE_INTEGER"
    "validSlot H session slot" "map_of (ry_slots store) session = None \<Longrightarrow> length (ry_slots store) < 64"
  shows "valid_recovery H (updatedStore store t\<lparr>ry_slots := put_slot session slot (ry_slots store)\<rparr>)"
  using assms set_put_slot [of session slot "ry_slots store"]
  by (auto simp: valid_recovery_iff updatedStore_def length_put_slot)

section \<open>One operation\<close>

datatype recovery_op =
    Register slot_input
  | Set_enabled string bool
  | Attempt string string
  | Result string bool string

fun apply_recovery :: "host \<Rightarrow> recovery_store \<Rightarrow> recovery_op \<times> string \<Rightarrow> recovery_store result" where
  "apply_recovery H store (Register i, at) = registerAgentRecoverySlot H store i at"
| "apply_recovery H store (Set_enabled session b, at) = setAgentRecoveryEnabled H store session b at"
| "apply_recovery H store (Attempt session e, at) = markAgentRecoveryAttempt H store session e at"
| "apply_recovery H store (Result session ok e, at) = markAgentRecoveryResult H store session ok e at"

text \<open>The session of an operation, and what it makes of the slot.\<close>

fun op_session :: "recovery_op \<Rightarrow> string" where
  "op_session (Register i) = si_session i"
| "op_session (Set_enabled session b) = session"
| "op_session (Attempt session e) = session"
| "op_session (Result session ok e) = session"

fun op_slot :: "recovery_op \<Rightarrow> string \<Rightarrow> recovery_slot option \<Rightarrow> recovery_slot option" where
  "op_slot (Register i) at x = Some (registered_slot i x at)"
| "op_slot (Set_enabled session b) at x = map_option (enabled_slot b at) x"
| "op_slot (Attempt session e) at x = map_option (attempted_slot e at) x"
| "op_slot (Result session ok e) at x = map_option (result_slot ok e at) x"

fun op_accepted :: "recovery_op \<Rightarrow> bool" where
  "op_accepted (Register i) = (\<not> input_rejected i)"
| "op_accepted (Set_enabled session b) = True"
| "op_accepted (Attempt session e) = (e \<in> set RECOVERY_ERRORS)"
| "op_accepted (Result session ok e) = (e \<in> set RECOVERY_ERRORS \<and> (ok \<longrightarrow> e = []))"

lemma updated_fields [simp]:
  "ry_slots (updatedStore store at) = ry_slots store" "ry_revision (updatedStore store at) = ry_revision store + 1"
  by (simp_all add: updatedStore_def)

lemma update_slot_Inr:
  "update_slot H store session bad f at = Inr t \<Longrightarrow> valid_recovery H t \<and> ry_revision t = ry_revision store + 1
     \<and> (if session = ''__proto__'' then ry_slots t = ry_slots store
        else \<exists>x. map_of (ry_slots store) session = Some x
          \<and> ry_slots t = put_slot session (f (isoTimestamp H at) x) (ry_slots store))"
  by (auto simp: update_slot_def attempt_Inr validate_Inr Let_def split: if_splits option.splits)

lemma apply_recovery_Inr:
  assumes "apply_recovery H store (op, at) = Inr t"
  shows "valid_recovery H t" "ry_revision t = ry_revision store + 1"
    "map_of (ry_slots t) session =
       (if session = op_session op \<and> session \<noteq> ''__proto__''
        then op_slot op (isoTimestamp H at) (map_of (ry_slots store) session) else map_of (ry_slots store) session)"
proof -
  have "valid_recovery H t \<and> ry_revision t = ry_revision store + 1 \<and>
    map_of (ry_slots t) session =
       (if session = op_session op \<and> session \<noteq> ''__proto__''
        then op_slot op (isoTimestamp H at) (map_of (ry_slots store) session) else map_of (ry_slots store) session)"
  proof (cases op)
    case (Register i)
    with assms have "si_session i \<noteq> ''__proto__''" using proto_no_session
      by (auto simp: registerAgentRecoverySlot_def attempt_Inr guard_Inr Let_def input_rejected_def
          agentRecoverySessionEligible_def)
    with assms Register show ?thesis
      by (auto simp: registerAgentRecoverySlot_def attempt_Inr guard_Inr Let_def validate_Inr map_of_put_slot)
  qed (use assms in \<open>auto simp: setAgentRecoveryEnabled_def markAgentRecoveryAttempt_def
        markAgentRecoveryResult_def map_of_put_slot dest!: update_slot_Inr split: if_splits\<close>)
  then show "valid_recovery H t" "ry_revision t = ry_revision store + 1"
    "map_of (ry_slots t) session =
       (if session = op_session op \<and> session \<noteq> ''__proto__''
        then op_slot op (isoTimestamp H at) (map_of (ry_slots store) session) else map_of (ry_slots store) session)"
    by blast+
qed

lemma update_slot_succeeds:
  assumes "valid_recovery H store" "ry_revision store < MAX_SAFE_INTEGER" "isoTimestamp H at \<noteq> []"
    "map_of (ry_slots store) session = Some x" "validSlot H session (f (isoTimestamp H at) x)"
  shows "\<exists>t. update_slot H store session False f at = Inr t \<and> valid_recovery H t \<and> ry_revision t = ry_revision store + 1
    \<and> map_of (ry_slots t) = (map_of (ry_slots store))
        (session := map_option (f (isoTimestamp H at)) (map_of (ry_slots store) session))"
proof -
  let ?t = "isoTimestamp H at"
  have "valid_recovery H (updatedStore store ?t\<lparr>ry_slots := put_slot session (f ?t x) (ry_slots store)\<rparr>)"
    by (rule replaced_valid [OF assms(1) iso_timestamp_again [OF assms(3)] assms(2,5)]) (use assms(4) in simp)
  moreover have "session \<noteq> ''__proto__''"
    using stored_slot_valid(1) [OF assms(1,4)] proto_no_session by (auto simp: validSlot_def)
  ultimately show ?thesis
    using assms(1,3,4) by (simp add: update_slot_def Let_def valid_recovery_def map_of_put_slot)
qed

lemma registered_valid:
  assumes "\<not> input_rejected i" "isoTimestamp H t \<noteq> []" "\<And>x. existing = Some x \<Longrightarrow> validSlot H (si_session i) x"
  shows "validSlot H (si_session i) (registered_slot i existing t)"
proof -
  have base: "[] \<in> set REASONING_EFFORTS" "[] \<in> set RECOVERY_ERRORS" "''unknown'' \<in> set TURN_STATES" "model_pattern []"
    by (simp_all add: REASONING_EFFORTS_def RECOVERY_ERRORS_def TURN_STATES_def model_pattern_def)
  have input: "session_pattern (si_session i)" "path_is_absolute (si_workspace i)" "length (si_workspace i) \<le> 4096"
    "si_rolloutId i = [] \<or> recovery_rollout_pattern (si_rolloutId i)" "model_pattern (si_model i)"
    "si_reasoning i \<in> set REASONING_EFFORTS" "\<And>t. si_turnState i = Some t \<Longrightarrow> t \<in> set TURN_STATES"
    using assms(1) by (auto simp: input_rejected_def agentRecoverySessionEligible_def)
  show ?thesis
  proof (cases existing)
    case None
    with base input assms(2) show ?thesis
      unfolding validSlot_def registered_slot_def by (cases "si_turnState i") (auto simp: or_text_def validOptionalTimestamp_def)
  next
    case (Some x)
    note x = assms(3) [OF Some, unfolded validSlot_def]
    have "rs_turnState (registered_slot i existing t) = Some u \<Longrightarrow> u \<in> set TURN_STATES" for u
      using Some base input(7) x by (auto simp: registered_slot_def split: option.splits)
    then show ?thesis
      using Some base input assms(2) x unfolding validSlot_def
      by (auto simp: registered_slot_def or_text_def validOptionalTimestamp_def)
  qed
qed

lemma changed_valid:
  assumes "validSlot H session x" "isoTimestamp H t \<noteq> []"
  shows "validSlot H session (enabled_slot b t x)"
    "e \<in> set RECOVERY_ERRORS \<Longrightarrow> validSlot H session (attempted_slot e t x)"
    "e \<in> set RECOVERY_ERRORS \<Longrightarrow> validSlot H session (result_slot ok e t x)"
proof -
  have none: "[] \<in> set RECOVERY_ERRORS" by (simp add: RECOVERY_ERRORS_def)
  show "validSlot H session (enabled_slot b t x)"
    using assms none by (auto simp: validSlot_def enabled_slot_def)
  show "e \<in> set RECOVERY_ERRORS \<Longrightarrow> validSlot H session (attempted_slot e t x)"
    using assms by (auto simp: validSlot_def attempted_slot_def validOptionalTimestamp_def)
  show "e \<in> set RECOVERY_ERRORS \<Longrightarrow> validSlot H session (result_slot ok e t x)"
    using assms none by (auto simp: validSlot_def result_slot_def validOptionalTimestamp_def)
qed

section \<open>Sequences of operations\<close>

fun run_recovery :: "host \<Rightarrow> recovery_store \<Rightarrow> (recovery_op \<times> string) list \<Rightarrow> recovery_store result" where
  "run_recovery H store [] = Inr store"
| "run_recovery H store (x # xs) = attempt (apply_recovery H store x) (\<lambda>t. run_recovery H t xs)"

text \<open>The operations that arm a session.\<close>

fun arms :: "string \<Rightarrow> recovery_op \<Rightarrow> bool" where
  "arms s (Register i) = (si_session i = s \<and> si_autoRecover i = Some True)"
| "arms s (Set_enabled session b) = (session = s \<and> b)"
| "arms s (Attempt session e) = False"
| "arms s (Result session ok e) = False"

definition disarmed :: "recovery_store \<Rightarrow> string \<Rightarrow> bool" where
  "disarmed store s \<longleftrightarrow> (\<exists>x. map_of (ry_slots store) s = Some x \<and> \<not> rs_autoRecover x)"

lemma op_slot_disarmed:
  "op_slot op at (Some x) = Some y \<Longrightarrow> \<not> rs_autoRecover x \<Longrightarrow> \<not> arms (op_session op) op \<Longrightarrow> \<not> rs_autoRecover y"
  by (cases op) (auto simp: registered_slot_def enabled_slot_def attempted_slot_def result_slot_def split: option.splits)

lemma op_slot_stays: "\<exists>y. op_slot op at (Some x) = Some y"
  by (cases op) auto

lemma disarmed_step:
  assumes "apply_recovery H store (op, at) = Inr t" "disarmed store s" "\<not> arms s op"
  shows "disarmed t s"
proof -
  obtain x where x: "map_of (ry_slots store) s = Some x" "\<not> rs_autoRecover x" using assms(2) by (auto simp: disarmed_def)
  show ?thesis
  proof (cases "s = op_session op \<and> s \<noteq> ''__proto__''")
    case True
    obtain y where y: "op_slot op (isoTimestamp H at) (Some x) = Some y" using op_slot_stays by blast
    from True assms(3) have "\<not> arms (op_session op) op" by simp
    from op_slot_disarmed [OF y x(2) this] y apply_recovery_Inr(3) [OF assms(1), of s] x(1) True
    show ?thesis unfolding disarmed_def by auto
  next
    case False
    with apply_recovery_Inr(3) [OF assms(1), of s] x show ?thesis by (auto simp: disarmed_def)
  qed
qed

lemma disarmed_run:
  "run_recovery H store ops = Inr t \<Longrightarrow> disarmed store s \<Longrightarrow> list_all (\<lambda>(op, at). \<not> arms s op) ops \<Longrightarrow> disarmed t s"
  by (induction ops arbitrary: store) (auto simp: attempt_Inr dest: disarmed_step)

section \<open>Sorting\<close>

lemma sorted_insert_by:
  assumes "sorted_wrt R xs" "\<And>x y. cmp x y \<le> 0 \<Longrightarrow> R x y" "\<And>x y. \<not> cmp x y \<le> 0 \<Longrightarrow> R y x"
    "\<And>x y z. R x y \<Longrightarrow> R y z \<Longrightarrow> R x z"
  shows "sorted_wrt R (insert_by cmp x xs)"
  using assms(1)
proof (induction xs)
  case (Cons y ys)
  with assms(2-4) show ?case by (cases "cmp x y \<le> 0") (auto, blast)
qed simp

lemma sorted_sort_by:
  assumes "\<And>x y. cmp x y \<le> 0 \<Longrightarrow> R x y" "\<And>x y. \<not> cmp x y \<le> 0 \<Longrightarrow> R y x"
    "\<And>x y z. R x y \<Longrightarrow> R y z \<Longrightarrow> R x z"
  shows "sorted_wrt R (sort_by cmp xs)"
  by (induction xs) (auto simp: sort_by_def intro: sorted_insert_by [of R _ cmp, OF _ assms])

lemma candidates_Inr:
  "agentRecoveryCandidates H store live at r = Inr cs \<Longrightarrow>
     valid_recovery H store \<and> (\<exists>now. date_parse H (isoTimestamp H at) = Some now
       \<and> cs = sort_by (slot_order H) (filter (recoverable H live now r) (map snd (ry_slots store))))"
  by (auto simp: agentRecoveryCandidates_def attempt_Inr validate_Inr split: option.splits if_splits)

text \<open>The slots are the members of an object: no operation makes two of a session.\<close>

lemma distinct_put_slot: "distinct (map fst slots) \<Longrightarrow> distinct (map fst (put_slot k v slots))"
  by (simp only: keys_put_slot) (auto simp: map_of_eq_None_iff)

lemma distinct_step:
  assumes "apply_recovery H store (op, at) = Inr t" "distinct (map fst (ry_slots store))"
  shows "distinct (map fst (ry_slots t))"
proof (cases op)
  case (Register i)
  with assms distinct_put_slot show ?thesis
    by (auto simp: registerAgentRecoverySlot_def attempt_Inr guard_Inr Let_def validate_Inr)
qed (use assms distinct_put_slot in \<open>auto simp: setAgentRecoveryEnabled_def markAgentRecoveryAttempt_def
      markAgentRecoveryResult_def dest!: update_slot_Inr split: if_splits\<close>)

lemma distinct_run:
  "run_recovery H store ops = Inr t \<Longrightarrow> distinct (map fst (ry_slots store)) \<Longrightarrow> distinct (map fst (ry_slots t))"
  by (induction ops arbitrary: store) (auto simp: attempt_Inr dest: distinct_step)

lemma candidate_iff:
  assumes "agentRecoveryCandidates H store live at r = Inr cs" "distinct (map fst (ry_slots store))"
    "date_parse H (isoTimestamp H at) = Some now"
  shows "x \<in> set cs \<longleftrightarrow> map_of (ry_slots store) (rs_session x) = Some x \<and> recoverable H live now r x"
proof -
  have valid: "valid_recovery H store"
    and cs: "cs = sort_by (slot_order H) (filter (recoverable H live now r) (map snd (ry_slots store)))"
    using candidates_Inr [OF assms(1)] assms(3) by auto
  have "x \<in> snd ` set (ry_slots store) \<longleftrightarrow> map_of (ry_slots store) (rs_session x) = Some x"
  proof
    assume "x \<in> snd ` set (ry_slots store)"
    then obtain k where "(k, x) \<in> set (ry_slots store)" by auto
    with slot_key [OF valid this] assms(2) show "map_of (ry_slots store) (rs_session x) = Some x"
      by (simp add: map_of_is_SomeI)
  next
    assume "map_of (ry_slots store) (rs_session x) = Some x"
    from map_of_SomeD [OF this] show "x \<in> snd ` set (ry_slots store)" by (rule image_eqI [rotated]) simp
  qed
  then show ?thesis unfolding cs by auto
qed

lemma recoverable_iff:
  assumes "validSlot H (rs_session x) x"
  shows "recoverable H live now r x \<longleftrightarrow> rs_autoRecover x \<and> recovery_rollout_pattern (rs_rolloutId x)
      \<and> rs_rootInteractive x = Some True \<and> rs_session x \<notin> set live \<and> \<not> starts_with ''codex-planning-'' (rs_session x)
      \<and> (\<forall>a. rs_lastAttemptAt x = Some a \<longrightarrow> parsed_time H a = 0 \<or> parsed_time H a + r \<le> now)"
proof -
  have "\<not> recovery_rollout_pattern []" by (simp add: recovery_rollout_pattern_def)
  then have id: "recovery_rollout_pattern (rs_rolloutId x) \<longleftrightarrow> rs_rolloutId x \<noteq> []" using assms by (auto simp: validSlot_def)
  have "session_pattern (rs_session x)" using assms by (simp add: validSlot_def)
  then show ?thesis
    unfolding id by (cases "rs_lastAttemptAt x")
      (auto simp: recoverable_def agentRecoverySessionEligible_def planning_session_pattern_def)
qed

section \<open>Properties\<close>

text \<open>Two sessions, one of them disarmed.\<close>

definition recovery_host :: host where
  "recovery_host = \<lparr>sha256hex = (\<lambda>s. replicate 64 CHR ''0''),
     localeCompare = (\<lambda>a b. if a = b then 0 else if a < b then -1 else 1), dateParse = (\<lambda>s. None)\<rparr>"

definition first_time :: string where
  "first_time = ''2026-08-14T15:00:00.000Z''"

definition second_time :: string where
  "second_time = ''2026-08-14T15:01:01.000Z''"

definition agent_input :: "string \<Rightarrow> bool option \<Rightarrow> slot_input" where
  "agent_input session auto = \<lparr>si_session = session, si_workspace = ''/srv/app'',
     si_rolloutId = ''019f7b51-990a-7330-a5fc-85d0a2985c20'', si_model = [], si_reasoning = ''high'',
     si_rootInteractive = True, si_turnState = Some ''idle'', si_autoRecover = auto\<rparr>"

definition empty_recovery :: recovery_store where
  "empty_recovery = \<lparr>ry_version = 1, ry_revision = 0, ry_updatedAt = first_time, ry_slots = []\<rparr>"

definition two_agents :: recovery_store where
  "two_agents = \<lparr>ry_version = 1, ry_revision = 2, ry_updatedAt = first_time,
     ry_slots = [(''codex-a'', registered_slot (agent_input ''codex-a'' (Some False)) None first_time),
       (''codex-b'', registered_slot (agent_input ''codex-b'' None) None first_time)]\<rparr>"

lemma two_agents_run:
  "run_recovery recovery_host empty_recovery [(Register (agent_input ''codex-a'' (Some False)), first_time),
     (Register (agent_input ''codex-b'' None), first_time)] = Inr two_agents"
  by code_simp

lemma two_agents_candidates:
  "case run_recovery recovery_host two_agents [(Attempt ''codex-a'' [], first_time)] of Inl e \<Rightarrow> False
   | Inr t \<Rightarrow> (case agentRecoveryCandidates recovery_host t [] second_time 60000 of
         Inl e \<Rightarrow> False | Inr cs \<Rightarrow> map rs_session cs = [''codex-b''])"
  by code_simp

text \<open>C29: A session that was disarmed is never a candidate for recovery again until an operation arms
  it: observations that do not ask for it, attempts and results keep it disarmed.\<close>

theorem disarmed_session_is_no_candidate:
  assumes "distinct (map fst (ry_slots store))" "map_of (ry_slots store) s = Some x" "\<not> rs_autoRecover x"
    "run_recovery H store ops = Inr t" "list_all (\<lambda>(op, at). \<not> arms s op) ops"
    "agentRecoveryCandidates H t live at r = Inr cs"
  shows "s \<notin> rs_session ` set cs"
proof
  assume "s \<in> rs_session ` set cs"
  then obtain y where y: "y \<in> set cs" "rs_session y = s" by blast
  obtain now where now: "date_parse H (isoTimestamp H at) = Some now" using candidates_Inr [OF assms(6)] by blast
  from candidate_iff [OF assms(6) distinct_run [OF assms(4,1)] now, of y] y
  have "map_of (ry_slots t) s = Some y" "rs_autoRecover y" by (auto simp: recoverable_def split: if_splits)
  moreover have "disarmed t s" by (rule disarmed_run [OF assms(4) _ assms(5)]) (use assms(2,3) in \<open>simp add: disarmed_def\<close>)
  ultimately show False by (simp add: disarmed_def)
qed

theorem disarmed_session_is_no_candidate_witness:
  "\<exists>t cs. run_recovery recovery_host two_agents [(Attempt ''codex-a'' [], first_time)] = Inr t
     \<and> agentRecoveryCandidates recovery_host t [] second_time 60000 = Inr cs \<and> ''codex-a'' \<notin> rs_session ` set cs"
proof -
  obtain t cs where t: "run_recovery recovery_host two_agents [(Attempt ''codex-a'' [], first_time)] = Inr t"
    and cs: "agentRecoveryCandidates recovery_host t [] second_time 60000 = Inr cs"
    using two_agents_candidates by (auto split: sum.splits)
  have "map_of (ry_slots two_agents) ''codex-a'' = Some (registered_slot (agent_input ''codex-a'' (Some False)) None first_time)"
    "distinct (map fst (ry_slots two_agents))" by (simp_all add: two_agents_def)
  from disarmed_session_is_no_candidate [OF this(2,1) _ t _ cs] t cs show ?thesis
    by (simp add: registered_slot_def agent_input_def)
qed

text \<open>C30: The candidates are exactly the stored sessions that may be resumed: armed, with an exact
  rollout that was seen to be root-interactive, not live, not a planning worker, and not tried
  within the retry interval; each once, the most recently observed first.\<close>

theorem recovery_candidates_are_exact:
  assumes "distinct (map fst (ry_slots store))" "agentRecoveryCandidates H store live at r = Inr cs"
    "date_parse H (isoTimestamp H at) = Some now"
  shows "(\<forall>x. x \<in> set cs \<longleftrightarrow> map_of (ry_slots store) (rs_session x) = Some x \<and> rs_autoRecover x
      \<and> recovery_rollout_pattern (rs_rolloutId x) \<and> rs_rootInteractive x = Some True
      \<and> rs_session x \<notin> set live \<and> \<not> starts_with ''codex-planning-'' (rs_session x)
      \<and> (\<forall>a. rs_lastAttemptAt x = Some a \<longrightarrow> parsed_time H a = 0 \<or> parsed_time H a + r \<le> now))
    \<and> distinct (map rs_session cs)
    \<and> sorted_wrt (\<lambda>a b. parsed_time H (rs_lastObservedAt b) \<le> parsed_time H (rs_lastObservedAt a)) cs"
proof (intro conjI allI)
  note c = candidates_Inr [OF assms(2)]
  fix x
  have "validSlot H (rs_session x) x" if "map_of (ry_slots store) (rs_session x) = Some x"
    using stored_slot_valid(1) [OF conjunct1 [OF c] that] .
  from recoverable_iff [OF this] show "x \<in> set cs \<longleftrightarrow> map_of (ry_slots store) (rs_session x) = Some x \<and> rs_autoRecover x
      \<and> recovery_rollout_pattern (rs_rolloutId x) \<and> rs_rootInteractive x = Some True
      \<and> rs_session x \<notin> set live \<and> \<not> starts_with ''codex-planning-'' (rs_session x)
      \<and> (\<forall>a. rs_lastAttemptAt x = Some a \<longrightarrow> parsed_time H a = 0 \<or> parsed_time H a + r \<le> now)"
    unfolding candidate_iff [OF assms(2,1,3)] by blast
next
  note c = candidates_Inr [OF assms(2)]
  have inj: "inj_on rs_session (set cs)"
  proof (rule inj_onI)
    show "x = y" if "x \<in> set cs" "y \<in> set cs" "rs_session x = rs_session y" for x y
      using candidate_iff [OF assms(2,1,3), of x] candidate_iff [OF assms(2,1,3), of y] that by simp
  qed
  have "inj_on snd (set (ry_slots store))"
    using slot_key [OF conjunct1 [OF c]] by (intro inj_onI) (metis prod.collapse)
  then have "distinct (map snd (ry_slots store))" using assms(1) by (simp add: distinct_map)
  then have "distinct cs" using c by auto
  with inj show "distinct (map rs_session cs)" by (simp add: distinct_map)
  show "sorted_wrt (\<lambda>a b. parsed_time H (rs_lastObservedAt b) \<le> parsed_time H (rs_lastObservedAt a)) cs"
    using c by (auto intro!: sorted_sort_by simp: slot_order_def Let_def split: if_splits)
qed

theorem recovery_candidates_are_exact_witness:
  "\<exists>cs. agentRecoveryCandidates recovery_host two_agents [] second_time 60000 = Inr cs \<and> distinct (map rs_session cs)"
proof -
  have d: "distinct (map fst (ry_slots two_agents))" by (simp add: two_agents_def)
  have "\<not> (\<exists>e. agentRecoveryCandidates recovery_host two_agents [] second_time 60000 = Inl e)"
  proof -
    have "case agentRecoveryCandidates recovery_host two_agents [] second_time 60000 of Inl e \<Rightarrow> False | Inr cs \<Rightarrow> True"
      by code_simp
    then show ?thesis by (auto split: sum.splits)
  qed
  then obtain cs where cs: "agentRecoveryCandidates recovery_host two_agents [] second_time 60000 = Inr cs"
    by (cases "agentRecoveryCandidates recovery_host two_agents [] second_time 60000") auto
  obtain now where "date_parse recovery_host (isoTimestamp recovery_host second_time) = Some now"
    using candidates_Inr [OF cs] by blast
  from recovery_candidates_are_exact [OF d cs this] cs show ?thesis by blast
qed

text \<open>C31: An accepted operation on a stored session, or the registration of a new one while there is
  room, always succeeds on a valid store with a valid time: the new slot passes the validation,
  no other slot changes, and the revision counts up.\<close>

theorem recovery_operation_succeeds:
  assumes "valid_recovery H store" "ry_revision store < MAX_SAFE_INTEGER" "isoTimestamp H at \<noteq> []" "op_accepted op"
    "map_of (ry_slots store) (op_session op) \<noteq> None \<or> (\<exists>i. op = Register i) \<and> length (ry_slots store) < 64"
  shows "\<exists>t. apply_recovery H store (op, at) = Inr t \<and> valid_recovery H t \<and> ry_revision t = ry_revision store + 1
    \<and> map_of (ry_slots t) = (map_of (ry_slots store))
        (op_session op := op_slot op (isoTimestamp H at) (map_of (ry_slots store) (op_session op)))"
proof -
  let ?t = "isoTimestamp H at" and ?s = "op_session op"
  note again = iso_timestamp_again [OF assms(3)]
  note update = update_slot_succeeds [OF assms(1-3), where session = ?s]
  show ?thesis
  proof (cases op)
    case (Register i)
    let ?x = "registered_slot i (map_of (ry_slots store) (si_session i)) ?t"
    have "validSlot H (si_session i) ?x"
      by (rule registered_valid) (use assms(4) Register again stored_slot_valid(1) [OF assms(1)] in auto)
    then have "valid_recovery H (updatedStore store ?t\<lparr>ry_slots := put_slot (si_session i) ?x (ry_slots store)\<rparr>)"
      by (rule replaced_valid [OF assms(1) again assms(2)]) (use assms(5) Register in auto)
    then show ?thesis
      using assms Register
      by (auto simp: registerAgentRecoverySlot_def valid_recovery_def Let_def map_of_put_slot MAX_RECOVERY_SLOTS_def
          throw_if_def)
  next
    case (Set_enabled session b)
    with assms(5) obtain x where x: "map_of (ry_slots store) ?s = Some x" by auto
    show ?thesis using update [where f = "enabled_slot b", OF x changed_valid(1) [OF stored_slot_valid(1) [OF assms(1) x] again]] Set_enabled
      by (simp add: setAgentRecoveryEnabled_def)
  next
    case (Attempt session e)
    with assms(5) obtain x where x: "map_of (ry_slots store) ?s = Some x" by auto
    have "e \<in> set RECOVERY_ERRORS" using assms(4) Attempt by simp
    then show ?thesis using update [where f = "attempted_slot e", OF x changed_valid(2) [OF stored_slot_valid(1) [OF assms(1) x] again]] Attempt
      by (simp add: markAgentRecoveryAttempt_def)
  next
    case (Result session ok e)
    with assms(5) obtain x where x: "map_of (ry_slots store) ?s = Some x" by auto
    have e: "e \<in> set RECOVERY_ERRORS" "ok \<longrightarrow> e = []" using assms(4) Result by simp_all
    then have bad: "(e \<notin> set RECOVERY_ERRORS \<or> ok \<and> e \<noteq> []) = False" by blast
    show ?thesis using e(1) update [where f = "result_slot ok e", OF x changed_valid(3) [OF stored_slot_valid(1) [OF assms(1) x] again]] 
      unfolding Result apply_recovery.simps markAgentRecoveryResult_def bad op_session.simps op_slot.simps by blast
  qed
qed

theorem recovery_operation_succeeds_witness:
  "\<exists>t. apply_recovery recovery_host empty_recovery (Register (agent_input ''codex-a'' None), second_time) = Inr t
     \<and> ry_revision t = 1"
proof -
  have "validateAgentRecoveryStore recovery_host empty_recovery = Inr empty_recovery" by code_simp
  then have "valid_recovery recovery_host empty_recovery" by (simp add: valid_recovery_def)
  moreover have "isoTimestamp recovery_host second_time \<noteq> []" "op_accepted (Register (agent_input ''codex-a'' None))"
    by code_simp+
  ultimately show ?thesis
    using recovery_operation_succeeds [of recovery_host empty_recovery second_time "Register (agent_input ''codex-a'' None)"]
    by (auto simp: empty_recovery_def MAX_SAFE_INTEGER_def)
qed

end
