(* ===== verification/Spec2Isabelle.thy ===== *)
theory Spec2Isabelle
  imports WorkspaceBaseline RunProperties RunStoreProperties PlanExecution PlanStoreProperties
    PlanningRunProperties PlanningReportProperties PlanningStoreProperties PromptScheduleProperties
    SnapshotProperties AgentRecoveryProperties
begin

text \<open>
  PaneFleet is a dashboard that drives coding agents in terminal panes. Its core logic is the
  delivery pipeline: a plan is written, by hand or by a planning run of four role workers, and
  approved; a run is created from it, each task of the run is sent out as a mission, its
  implementation is captured and verified against the plan; everything is kept in durable
  stores with revisions and operation receipts. The server and the browser client call these
  modules; of them only the live snapshot is modelled.

  \<^bold>\<open>Shared theories.\<close>
  \<^item> \<open>Prelude\<close>: errors as values (\<open>Inl\<close> the code of the thrown error), \<open>guard\<close> and \<open>attempt\<close> for
    throwing checks in sequence, keyed list updates, stable sorting.
  \<^item> \<open>Machine\<close>: the interfaces \<open>machine\<close> (an invariant of a step relation) and
    \<open>refinement\<close> (an abstraction onto another machine).
  \<^item> \<open>JsText\<close>, \<open>JsPath\<close>, \<open>JsDate\<close>, \<open>JsDatePrint\<close>, \<open>JsTextFacts\<close>: what the program uses of
    JavaScript strings, \<open>path.posix\<close> and \<open>Date\<close>; \<open>toISOString\<close> is the inverse of reading a time
    stamp, and the text normalisations are idempotent.
  \<^item> \<open>CanonicalJson\<close>, \<open>CanonicalFacts\<close>: canonical JSON text, digests and printed sizes
    (delivery-plan.js); canonical JSON is unambiguous.

  \<^bold>\<open>Delivery runs\<close> (delivery-run.js, delivery-run-store.js, workspace-baseline.js).
  \<^item> \<open>WorkspaceBaseline\<close>: the parsers, validators and comparisons of workspace-baseline.js.
  \<^item> \<open>DeliveryRun\<close>: every function of delivery-run.js. \<open>RunLifecycle\<close>: the abstract lifecycle, its
    step relation and invariant. \<open>DeliveryRunFacts\<close>: one success lemma per operation.
    \<open>RunRefinement\<close>: a run refines the lifecycle. \<open>RunFrame\<close>: what an operation keeps.
    \<open>RunExample\<close>: a concrete run evaluated in the kernel. \<open>RunProperties\<close>: the properties.
  \<^item> \<open>ReceiptStore\<close>, \<open>ReceiptRepository\<close>, \<open>ReceiptHistory\<close>, \<open>StoreCourse\<close>: what the three durable
    stores share: receipts, revisions, replays, the file and the copy in memory; the receipts of
    an item are its history, for any store whose commits are starts or steps of its items.
  \<^item> \<open>RunJson\<close>, \<open>DeliveryRunStore\<close>: delivery-run-store.js; \<open>RunStoreFacts\<close>, \<open>RunStoreExample\<close>,
    \<open>RunStoreProperties\<close>: its properties.

  \<^bold>\<open>Delivery plans\<close> (delivery-plan.js, delivery-plan-store.js).
  \<^item> \<open>DeliveryPlan\<close>: every function of delivery-plan.js. \<open>DeliveryPlanFacts\<close>: validated plans are
    fixed points of normalisation. \<open>PlanLifecycle\<close>: the abstract course of a plan, and that the
    operations refine it. \<open>PlanProperties\<close>, \<open>PlanExecution\<close>: the properties.
  \<^item> \<open>PlanJson\<close>, \<open>DeliveryPlanStore\<close>, \<open>PlanStoreFacts\<close>, \<open>PlanStoreProperties\<close>:
    delivery-plan-store.js and its properties.

  \<^bold>\<open>Planning runs\<close> (planning-role-report.js, delivery-planning-run.js,
  delivery-planning-run-store.js).
  \<^item> \<open>StrictJson\<close>: \<open>strictJsonParse\<close>, the parser of a worker's final answer. The source's offset is
    the text that is left; \<open>value\<close>, \<open>object\<close> and \<open>array\<close> are three mutually recursive functions
    with fuel. \<open>StrictJsonFacts\<close>: the fuel is enough, and a printed value is read back.
  \<^item> \<open>PlanningReport\<close>: the rest of planning-role-report.js: the validators of a report, the patterns
    of private texts, the boundary markers, the output digest and the reader of a final answer.
    \<open>PlanningReportFacts\<close>: an accepted report is the value it was read from.
    \<open>PlanningReportProperties\<close>: the properties of reports.
  \<^item> \<open>PlanningRunData\<close>, \<open>PlanningRunChecks\<close>, \<open>DeliveryPlanningRun\<close>: the records, the validator and
    the operations of delivery-planning-run.js. A planning run has a phase, a condition, a record
    per role with at most one attempt, the spawn lease, worker and cleanup of the attempt, the
    candidate, the outbox of its application and the receipts of continued work.
  \<^item> \<open>PlanningCourse\<close>: the abstract course: for each role the stage of its worker, and the phase,
    condition, application and number of receipts of the run; its steps, its invariant, and a
    progress that every step raises and that never passes 70 while the run is open.
  \<^item> \<open>PlanningRunFacts\<close>: what the validator guarantees and what an operation returns.
    \<open>PlanningRunRefinement\<close>: each of the operations is one step of the course.
    \<open>PlanningRunHistory\<close>: what operations keep: attempts, reports, input digests, the candidate
    behind an application, the revision.
    \<open>PlanningRunExample\<close>: a planning run, created, with a claimed spawn, and canceled.
    \<open>PlanningRunProperties\<close>: the properties of planning runs.
  \<^item> \<open>PlanningRunJson\<close>: the JSON of a planning run determines the run.
    \<open>DeliveryPlanningRunStore\<close>: delivery-planning-run-store.js: the slots of a run and of a receipt,
    the single active run and what is reserved for it, the lifecycle of consecutive receipts, the
    27 mutations and the creation, capacity and summaries. \<open>PlanningStoreFacts\<close>: the validator of
    a stored run does not depend on the clock, every accepted operation satisfies the lifecycle,
    and the receipts of a run are its history. \<open>PlanningStoreCapacity\<close>: the size of a store is
    the sum of its parts, and the reservation of the active run pays for its next receipt.
    \<open>PlanningStoreExample\<close>, \<open>PlanningStoreProperties\<close>: the properties of the store.

  \<^bold>\<open>Recurring prompts\<close> (prompt-schedule.js).
  \<^item> \<open>JsNumber\<close>: \<open>Number(text)\<close>, when it is an integer. \<open>PromptSchedule\<close>: the five-field UTC cron
    expressions, their fields, the match of an instant and the walk to the next run.
    \<open>PromptScheduleFacts\<close>: the ranges of the fields and the longest gap between matching days.
    \<open>PromptScheduleProperties\<close>: the next run is always found and is the first; a field means what a
    reference grammar says; an expression is refused only when it never runs.

  \<^bold>\<open>The live snapshot\<close> (snapshot-events.js, with the parts of server.js, public/app.js and
  public/ui-state.js on either side of it).
  \<^item> \<open>SnapshotEvents\<close>: the numbered updates of the server, full and as a patch, the writer of one
    event stream, \<open>applySnapshotPatch\<close> and the copy that the page keeps. \<open>SnapshotProperties\<close>: the
    steps of a page that is sent events in any order; a numbered copy is always the server's
    snapshot of that number, and a stream that is not destroyed has no gaps.

  \<^bold>\<open>Recovery of agents\<close> (agent-recovery.js).
  \<^item> \<open>AgentRecovery\<close>: the registry of sessions that may be resumed after a crash, its validation, its
    operations and the choice of candidates. \<open>AgentRecoveryProperties\<close>: an accepted operation changes
    one slot of a valid store, a disarmed session stays out of the candidates, and the candidates
    are exactly the sessions that may be resumed. The resource gate of the file is left out.

  \<^bold>\<open>Representation.\<close> Values that the code takes from outside are typed, so the checks of \<open>typeof\<close>,
  of keys and of array shapes are the types of the model, except in role reports, which are
  validated from parsed JSON values of any shape. A text is a list of code units below 256;
  \<open>\u\<close> escapes above that are outside the model. Numbers are integers, with the safe-integer
  tests written out; in parsed JSON the value of a decimal literal is a whole number, a fraction
  or too large, after rounding to a double. SHA-256, \<open>localeCompare\<close> and \<open>Date.parse\<close> of texts
  outside the ISO form are fields of the parameter \<open>host\<close>. The clock is the argument \<open>at\<close>, and the
  argument \<open>now\<close> where a plan is normalised. A file is the outcome of each atomic write and the
  content that a read finds.

  \<^bold>\<open>Bounds.\<close> The strict parser has fuel for twice the length of the text and one more call: a value
  and a round of a loop each consume at least one character, and at most two calls are made per
  character, so the fuel is never used up. The other loops are structural, or decrease the length
  of the text that is left. The store of planning runs reserves 77 receipts for a run; an open run
  has at most 71, its creation included, and a run that is over at most 72, which the progress of
  the course shows. The search for the next run of a schedule tries as many minutes as the code
  (eight years of 366 days); two matching days are at most 2927 days apart, so the search succeeds.

  \<^bold>\<open>Not modelled.\<close> server.js and public/app.js beyond the live snapshot (the HTTP server and the
  browser client, which read processes, panes and files, and render), the rest of public/ui-state.js and
  public/terminal-presentation.js (presentation), the capture of a workspace baseline (git and the file system),
  codex-telemetry.js (reading of rollout files), and the modules around them for
  agent messages, metrics, network, devices and scripts. \<open>readCodexFinalAnswer\<close> of
  codex-telemetry.js is an argument of the reader of reports.
\<close>

end
